(* ===== verification/Prelude.thy ===== *)
theory Prelude
  imports Main "HOL-Library.AList" "HOL-Library.Multiset" "HOL-Library.List_Lexorder"
    "HOL-Library.Char_ord" "HOL-Library.Product_Lexorder"
begin

text \<open>
  What every component shares: the model of Go's built-in types (instants and durations as
  integers, maps as association lists), the error values of the two error packages of the
  repository, and generic lemmas on maps and sorting. The collection \<open>gomap_simps\<close>
  holds the equations for reading a map after a write.
\<close>

named_theorems gomap_simps
named_theorems err_simps

section \<open>Instants and durations\<close>

text \<open>
  A \<^verbatim>\<open>time.Time\<close> is the number of nanoseconds since Go's zero time (January 1, year 1, UTC), so
  the zero time is 0; a \<^verbatim>\<open>time.Duration\<close> is a number of nanoseconds. All instants are UTC,
  which is what \<^verbatim>\<open>ts.UTC()\<close> gives.
\<close>

type_synonym gotime = int
type_synonym duration = int

abbreviation zeroTime :: gotime where "zeroTime \<equiv> 0"

definition IsZero :: "gotime \<Rightarrow> bool" where
  "IsZero t = (t = zeroTime)"

definition normalizeTime :: "gotime \<Rightarrow> gotime" where
  "normalizeTime ts = (if IsZero ts then zeroTime else ts)"

lemma normalizeTime_id [simp]: "normalizeTime t = t"
  by (simp add: normalizeTime_def IsZero_def)

definition coalesceTime :: "gotime \<Rightarrow> gotime \<Rightarrow> gotime" where
  "coalesceTime ts fallback = (if IsZero ts then fallback else ts)"

text \<open>\<^verbatim>\<open>t.Truncate(d)\<close> for a positive \<open>d\<close>: rounded down to a multiple of \<open>d\<close> since the zero time.\<close>

definition Truncate :: "gotime \<Rightarrow> duration \<Rightarrow> gotime" where
  "Truncate t d = (if d \<le> 0 then t else t - t mod d)"

section \<open>Maps\<close>

text \<open>
  A Go map is an association list with distinct keys. Its order stands for one order in which
  \<^verbatim>\<open>range\<close> may visit the map: Go leaves it open, so what is proved for every list holds
  for every iteration order.
\<close>

type_synonym ('k, 'v) gomap = "('k \<times> 'v) list"

abbreviation mget :: "('k, 'v) gomap \<Rightarrow> 'k \<Rightarrow> 'v option" where
  "mget m k \<equiv> map_of m k"

definition mput :: "'k \<Rightarrow> 'v \<Rightarrow> ('k, 'v) gomap \<Rightarrow> ('k, 'v) gomap" where
  "mput k v m = AList.update k v m"

definition mdel :: "'k \<Rightarrow> ('k, 'v) gomap \<Rightarrow> ('k, 'v) gomap" where
  "mdel k m = AList.delete k m"

definition mwf :: "('k, 'v) gomap \<Rightarrow> bool" where
  "mwf m = distinct (map fst m)"

text \<open>Reading a slice-valued map at a missing key gives the nil slice.\<close>

definition mslice :: "('k, 'v list) gomap \<Rightarrow> 'k \<Rightarrow> 'v list" where
  "mslice m k = (case mget m k of None \<Rightarrow> [] | Some xs \<Rightarrow> xs)"

lemma mget_mput [gomap_simps, simp]: "mget (mput k v m) k' = (if k' = k then Some v else mget m k')"
  by (simp add: mput_def update_conv)

lemma mslice_mput [gomap_simps, simp]: "mslice (mput k v m) k' = (if k' = k then v else mslice m k')"
  by (simp add: mslice_def)

lemma mget_mdel [gomap_simps, simp]: "mget (mdel k m) k' = (if k' = k then None else mget m k')"
  by (simp add: mdel_def delete_conv)

lemma mwf_Nil [simp]: "mwf []"
  by (simp add: mwf_def)

lemma mwf_mput [simp, intro]: "mwf m \<Longrightarrow> mwf (mput k v m)"
  by (simp add: mwf_def mput_def distinct_update)

lemma mwf_mdel [simp, intro]: "mwf m \<Longrightarrow> mwf (mdel k m)"
  by (simp add: mwf_def mdel_def distinct_delete)

lemma mem_mget: "mwf m \<Longrightarrow> (k, v) \<in> set m \<longleftrightarrow> mget m k = Some v"
  by (simp add: mwf_def)

text \<open>Two maps with the same contents are permutations of each other.\<close>

lemma mwf_mset_eq:
  assumes "mwf m" "mwf m'" "mget m = mget m'"
  shows "mset m = mset m'"
proof -
  have "distinct m" "distinct m'"
    using assms by (auto simp: mwf_def distinct_map)
  moreover have "set m = set m'"
    using assms by (auto simp: mem_mget)
  ultimately show ?thesis by (simp add: set_eq_iff_mset_eq_distinct)
qed

section \<open>Indexes\<close>

text \<open>\<^verbatim>\<open>for _, x := range xs { m[x.ID] = x }\<close>.\<close>

definition index_by :: "('a \<Rightarrow> string) \<Rightarrow> 'a list \<Rightarrow> (string, 'a) gomap" where
  "index_by ident xs = fold (\<lambda>x. mput (ident x) x) xs []"

lemma index_by_snoc: "index_by f (xs @ [x]) = mput (f x) x (index_by f xs)"
  by (simp add: index_by_def)

lemma index_by_get: "mget (index_by f xs) k = Some x \<Longrightarrow> x \<in> set xs \<and> f x = k"
  by (induction xs rule: rev_induct) (auto simp: index_by_def split: if_splits)

lemma index_by_has: "mget (index_by f xs) k \<noteq> None \<longleftrightarrow> k \<in> f ` set xs"
  by (induction xs rule: rev_induct) (auto simp: index_by_def)

lemma index_by_mwf: "mwf (index_by f xs)"
  by (induction xs rule: rev_induct) (auto simp: index_by_def)

lemma index_by_keys: "set (map fst (index_by f xs)) = f ` set xs"
  using index_by_has [of f xs] by (auto simp: map_of_eq_None_iff image_iff)

text \<open>Where the keys are distinct, the index of a part of the values is the part of the index.\<close>

lemma index_by_distinct: "distinct (map f xs) \<Longrightarrow> mget (index_by f xs) k = Some x \<longleftrightarrow> x \<in> set xs \<and> f x = k"
proof (induction xs arbitrary: k x rule: rev_induct)
  case (snoc y ys)
  from snoc.prems have "f x \<noteq> f y" if "x \<in> set ys" for x using that by (auto simp: image_iff)
  with snoc show ?case by (auto simp: index_by_snoc)
qed (simp add: index_by_def)

lemma index_by_part:
  "mget (index_by f (filter P (map snd (index_by f xs)))) i = Some x \<longleftrightarrow> mget (index_by f xs) i = Some x \<and> P x"
proof -
  define m where "m = index_by f xs"
  have w: "mwf m" unfolding m_def by (rule index_by_mwf)
  have f: "mget m k = Some y \<Longrightarrow> f y = k" for k y using index_by_get [of f xs] by (auto simp: m_def)
  have k: "f y = k" if "(k, y) \<in> set m" for k y using f that mem_mget [OF w] by blast
  then have "map f (map snd m) = map fst m" by (induction m) auto
  with w have "distinct (map f (map snd m))" by (simp add: mwf_def del: map_map)
  then have d: "distinct (map f (filter P (map snd m)))" by (rule distinct_map_filter)
  have "x \<in> set (map snd m) \<longleftrightarrow> mget m (f x) = Some x" using k mem_mget [OF w] by (force simp: image_iff)
  with f [of i x] show ?thesis unfolding m_def [symmetric] index_by_distinct [OF d] by auto
qed

section \<open>Sorting\<close>

text \<open>
  \<^verbatim>\<open>sort.Slice\<close> and \<^verbatim>\<open>slices.SortFunc\<close> sort by a comparison; where the comparison is a total
  order on the elements the result does not depend on the order the elements came in.
\<close>

lemma sort_key_unique:
  fixes f :: "'a \<Rightarrow> 'b::linorder"
  assumes m: "mset xs = mset ys" and i: "inj_on f (set xs)"
  shows "sort_key f xs = sort_key f ys"
proof -
  have "map f (sort_key f xs) = sort (map f (sort_key f ys))"
    by (rule properties_for_sort [symmetric]) (simp_all add: m)
  also have "\<dots> = map f (sort_key f ys)"
    by (simp add: sorted_sort_id)
  finally have e: "map f (sort_key f xs) = map f (sort_key f ys)" .
  have "set (sort_key f xs) \<union> set (sort_key f ys) = set xs"
    using mset_eq_setD [OF m] by simp
  with i e show ?thesis by (auto intro: map_inj_on)
qed

section \<open>Errors\<close>

text \<open>
  The sentinels of \<^verbatim>\<open>internal/domain/job/errors.go\<close> and
  \<^verbatim>\<open>internal/domain/resource/errors.go\<close>, plus the errors made on the spot. An error value
  wraps one sentinel (\<^verbatim>\<open>%w\<close>) and carries the rest of its message.
\<close>

datatype sentinel =
    ErrInvalidJob | ErrInvalidAttempt | ErrInvalidTransition | ErrJobNotSchedulable
  | ErrLeaseNotHeld | ErrLeaseExpired | ErrLeaseOwnerMismatch | ErrAttemptFinished
  | ErrJobNotRetryable | ErrDuplicateJob | ErrJobNotFound | ErrAttemptNotFound
  | ErrNotFound | ErrConflict | ErrScopeMismatch | ErrValidation | ErrUnavailable
  | ErrRand | ErrPlain

datatype gerror = Err (err_sentinel: sentinel) (err_detail: string)

text \<open>\<^verbatim>\<open>errors.Is(err, target)\<close>, and an error that is exactly a sentinel.\<close>

definition errorsIs :: "gerror \<Rightarrow> sentinel \<Rightarrow> bool" where
  "errorsIs e t = (err_sentinel e = t)"

abbreviation bare :: "sentinel \<Rightarrow> gerror" where
  "bare t \<equiv> Err t []"

lemma errorsIs_Err [simp, err_simps]: "errorsIs (Err t d) t' = (t = t')"
  by (simp add: errorsIs_def)

section \<open>Results\<close>

text \<open>A fallible operation returns \<open>Inl\<close> the error or \<open>Inr\<close> the value.\<close>

definition is_ok :: "'e + 'a \<Rightarrow> bool" where
  "is_ok r = (case r of Inl _ \<Rightarrow> False | Inr _ \<Rightarrow> True)"

lemma is_ok_simps [simp]: "\<not> is_ok (Inl e)" "is_ok (Inr x)"
  by (simp_all add: is_ok_def)

lemma is_ok_iff: "is_ok r \<longleftrightarrow> (\<exists>x. r = Inr x)"
  by (cases r) auto

lemma not_is_ok_iff: "\<not> is_ok r \<longleftrightarrow> (\<exists>e. r = Inl e)"
  by (cases r) auto

text \<open>
  How a chain of guards and calls succeeds: every guard was passed and every call returned a
  value. For operations on a state the state is carried along.
\<close>

named_theorems result_simps

lemma guard_Inr [result_simps]: "(if c then Inl e else x) = Inr y \<longleftrightarrow> \<not> c \<and> x = Inr y"
  and guard_st_Inr [result_simps]: "(if c then (Inl e, st) else z) = (Inr y, st') \<longleftrightarrow> \<not> c \<and> z = (Inr y, st')"
  by auto

lemma call_Inr [result_simps]: "(case s of Inl e \<Rightarrow> Inl (f e) | Inr v \<Rightarrow> g v) = Inr y \<longleftrightarrow> (\<exists>v. s = Inr v \<and> g v = Inr y)"
  and call_st_Inr [result_simps]:
    "(case s of Inl e \<Rightarrow> (Inl (f e), st) | Inr v \<Rightarrow> h v) = (Inr y, st') \<longleftrightarrow> (\<exists>v. s = Inr v \<and> h v = (Inr y, st'))"
  by (auto split: sum.splits)

lemma check_Inr [result_simps]: "(case s of None \<Rightarrow> x | Some e \<Rightarrow> Inl (f e)) = Inr y \<longleftrightarrow> s = None \<and> x = Inr y"
  and check_st_Inr [result_simps]:
    "(case s of None \<Rightarrow> z | Some e \<Rightarrow> (Inl (f e), st)) = (Inr y, st') \<longleftrightarrow> s = None \<and> z = (Inr y, st')"
  by (auto split: option.splits)

lemma split_Inr [result_simps]: "(case p of (a, b) \<Rightarrow> f a b) = y \<longleftrightarrow> (\<exists>a b. p = (a, b) \<and> f a b = y)"
  by (cases p) simp

section \<open>Filters, prefixes and updates of lists\<close>

lemma length_filter_conv_count:
  "length (filter P xs) = 0 \<longleftrightarrow> (\<forall>x \<in> set xs. \<not> P x)"
  by (simp add: filter_empty_conv)

lemma list_update_last:
  assumes "xs \<noteq> []"
  shows "xs[length xs - 1 := y] = butlast xs @ [y]"
  using assms by (metis append_butlast_last_id length_butlast list_update_length)

end
