(* ===== verification/GoStrings.thy ===== *)
theory GoStrings
  imports Prelude
begin

text \<open>
  The string functions of Go's standard library that the program calls. A Go string is a
  sequence of bytes, so it is an Isabelle \<open>string\<close>, whose characters are bytes; string
  comparison is lexicographic on bytes in both. \<open>TrimSpace\<close> is exact on every byte sequence:
  it knows the UTF-8 encodings of all white space of Unicode. \<open>ToLower\<close> is exact on ASCII
  strings and leaves the bytes of other letters as they are, where Go also lowers them.
\<close>

named_theorems str_simps

abbreviation byte_of :: "char \<Rightarrow> nat" where
  "byte_of c \<equiv> of_char c"

section \<open>Trimming white space\<close>

text \<open>\<^verbatim>\<open>unicode.IsSpace\<close> on one byte, and the multi-byte white space in UTF-8.\<close>

definition ascii_space :: "char \<Rightarrow> bool" where
  "ascii_space c = (let n = byte_of c in n = 32 \<or> (9 \<le> n \<and> n \<le> 13))"

definition wide_spaces :: "nat list list" where
  "wide_spaces =
     [[194, 133], [194, 160], [225, 154, 128],
      [226, 128, 128], [226, 128, 129], [226, 128, 130], [226, 128, 131], [226, 128, 132],
      [226, 128, 133], [226, 128, 134], [226, 128, 135], [226, 128, 136], [226, 128, 137],
      [226, 128, 138], [226, 128, 168], [226, 128, 169], [226, 128, 175], [226, 129, 159],
      [227, 128, 128]]"

text \<open>The number of bytes of the white space a string starts with, 0 if it starts with none.\<close>

definition space_len :: "nat list list \<Rightarrow> string \<Rightarrow> nat" where
  "space_len ws s =
     (case s of
        [] \<Rightarrow> 0
      | c # _ \<Rightarrow>
          if ascii_space c then 1
          else if byte_of c < 128 then 0
          else (case find (\<lambda>w. take (length w) (map byte_of s) = w) ws of
                  None \<Rightarrow> 0 | Some w \<Rightarrow> length w))"

lemma space_len_Nil [simp]: "space_len ws [] = 0"
  by (simp add: space_len_def)

function trim_with :: "nat list list \<Rightarrow> string \<Rightarrow> string" where
  "trim_with ws s = (if space_len ws s = 0 then s else trim_with ws (drop (space_len ws s) s))"
  by pat_completeness auto
termination
proof (relation "measure (\<lambda>(ws, s). length s)", goal_cases)
  case (2 ws s)
  then have "s \<noteq> []" by auto
  with 2 show ?case by (cases s) auto
qed simp

declare trim_with.simps [simp del]

definition trimLeft :: "string \<Rightarrow> string" where
  "trimLeft s = trim_with wide_spaces s"

definition trimRight :: "string \<Rightarrow> string" where
  "trimRight s = rev (trim_with (map rev wide_spaces) (rev s))"

definition TrimSpace :: "string \<Rightarrow> string" where
  "TrimSpace s = trimRight (trimLeft s)"

text \<open>What is left by trimming is a suffix that starts with no white space.\<close>

lemma trim_with_fixed: "space_len ws s = 0 \<Longrightarrow> trim_with ws s = s"
  by (simp add: trim_with.simps [of ws s])

lemma space_len_trim_with: "space_len ws (trim_with ws s) = 0"
proof (induction ws s rule: trim_with.induct)
  case (1 ws s)
  then show ?case by (cases "space_len ws s = 0") (auto simp: trim_with.simps [of ws s])
qed

lemma trim_with_suffix: "\<exists>p. s = p @ trim_with ws s"
proof (induction ws s rule: trim_with.induct)
  case (1 ws s)
  show ?case
  proof (cases "space_len ws s = 0")
    case True
    then show ?thesis by (simp add: trim_with_fixed)
  next
    case False
    with 1 obtain p where "drop (space_len ws s) s = p @ trim_with ws (drop (space_len ws s) s)"
      by blast
    then have "s = (take (space_len ws s) s @ p) @ trim_with ws s"
      using False by (metis append.assoc append_take_drop_id trim_with.simps)
    then show ?thesis by blast
  qed
qed

lemma space_len_pos_prefix:
  assumes "space_len ws p > 0" "\<forall>w \<in> set ws. w \<noteq> []"
  shows "space_len ws (p @ q) > 0"
proof (cases p)
  case Nil
  with assms show ?thesis by simp
next
  case (Cons c r)
  show ?thesis
  proof (cases "ascii_space c \<or> byte_of c < 128")
    case True
    with Cons assms show ?thesis by (auto simp: space_len_def split: if_splits)
  next
    case False
    with Cons assms obtain w where w: "find (\<lambda>w. take (length w) (map byte_of p) = w) ws = Some w"
      by (auto simp: space_len_def split: option.splits)
    then have mem: "w \<in> set ws" and tk: "take (length w) (map byte_of p) = w"
      by (auto simp: find_Some_iff)
    have "take (length w) (map byte_of (p @ q)) = w"
      using tk by (metis length_take map_append min.absorb_iff1 nat_le_linear take_all_iff
          take_append append_Nil2 diff_is_0_eq take0 min.cobounded1)
    with mem have "find (\<lambda>w. take (length w) (map byte_of (p @ q)) = w) ws \<noteq> None"
      by (auto simp: find_None_iff)
    then obtain w' where w': "find (\<lambda>w. take (length w) (map byte_of (p @ q)) = w) ws = Some w'"
      by blast
    then have "w' \<noteq> []" using assms(2) by (auto simp: find_Some_iff)
    with w' False Cons show ?thesis by (auto simp: space_len_def)
  qed
qed

lemma wide_spaces_nonempty: "\<forall>w \<in> set wide_spaces. w \<noteq> []" "\<forall>w \<in> set (map rev wide_spaces). w \<noteq> []"
  by (auto simp: wide_spaces_def)

lemma TrimSpace_idem [simp]: "TrimSpace (TrimSpace s) = TrimSpace s"
proof -
  let ?l = "trimLeft s" and ?t = "TrimSpace s"
  obtain p where "rev ?l = p @ trim_with (map rev wide_spaces) (rev ?l)"
    using trim_with_suffix by blast
  then have "?l = ?t @ rev p"
    by (metis TrimSpace_def rev_append rev_rev_ident trimRight_def)
  moreover have "space_len wide_spaces ?l = 0"
    by (simp add: trimLeft_def space_len_trim_with)
  ultimately have "space_len wide_spaces ?t = 0"
    using space_len_pos_prefix [OF _ wide_spaces_nonempty(1)] by (metis gr0I less_irrefl)
  then have l: "trimLeft ?t = ?t" by (simp add: trimLeft_def trim_with_fixed)
  have "space_len (map rev wide_spaces) (rev ?t) = 0"
    by (simp add: TrimSpace_def trimRight_def space_len_trim_with)
  then have "trimRight ?t = ?t" by (simp add: trimRight_def trim_with_fixed)
  with l show ?thesis by (simp add: TrimSpace_def)
qed

lemma TrimSpace_Nil [simp]: "TrimSpace [] = []"
  by (simp add: TrimSpace_def trimLeft_def trimRight_def trim_with_fixed)

text \<open>A string that starts and ends with a visible ASCII character is left alone.\<close>

definition solid :: "char \<Rightarrow> bool" where
  "solid c = (33 \<le> byte_of c \<and> byte_of c < 128)"

lemma space_len_solid: "solid c \<Longrightarrow> space_len ws (c # r) = 0"
  by (auto simp: space_len_def solid_def ascii_space_def Let_def)

lemma TrimSpace_solid:
  assumes "s \<noteq> []" "solid (hd s)" "solid (last s)"
  shows "TrimSpace s = s"
proof -
  have l: "trimLeft s = s"
    using assms by (cases s) (simp_all add: trimLeft_def trim_with_fixed space_len_solid)
  have "rev s = last s # rev (butlast s)"
    using assms(1) by (metis append_butlast_last_id rev_eq_Cons_iff rev_rev_ident)
  then have "space_len (map rev wide_spaces) (rev s) = 0"
    using assms(3) by (metis space_len_solid)
  then have "trimRight s = s" by (simp add: trimRight_def trim_with_fixed)
  with l show ?thesis by (simp add: TrimSpace_def)
qed

section \<open>Case\<close>

definition lower_char :: "char \<Rightarrow> char" where
  "lower_char c = (if 65 \<le> byte_of c \<and> byte_of c \<le> 90 then char_of (byte_of c + 32) else c)"

definition ToLower :: "string \<Rightarrow> string" where
  "ToLower s = map lower_char s"

lemma byte_of_lower_char:
  "byte_of (lower_char c) = (if 65 \<le> byte_of c \<and> byte_of c \<le> 90 then byte_of c + 32 else byte_of c)"
  by (simp add: lower_char_def)

lemma lower_char_idem [simp]: "lower_char (lower_char c) = lower_char c"
  using byte_of_lower_char [of c] by (auto simp: lower_char_def [of "lower_char c"])

lemma ToLower_idem [simp]: "ToLower (ToLower s) = ToLower s"
  by (simp add: ToLower_def)

lemma ToLower_Nil [simp]: "ToLower [] = []" and ToLower_eq_Nil [simp]: "ToLower s = [] \<longleftrightarrow> s = []"
  by (simp_all add: ToLower_def)

text \<open>Lowering moves no byte into or out of white space, so it commutes with trimming.\<close>

lemma space_len_ToLower:
  assumes "\<forall>w \<in> set ws. \<forall>n \<in> set w. 128 \<le> n"
  shows "space_len ws (ToLower s) = space_len ws s"
proof (cases s)
  case (Cons c r)
  have "take (length w) (map byte_of (ToLower s)) = w \<longleftrightarrow> take (length w) (map byte_of s) = w"
    if "w \<in> set ws" for w
  proof -
    have w: "\<forall>n \<in> set w. 128 \<le> n" using assms that by blast
    have "take k (map byte_of (ToLower t)) = v \<longleftrightarrow> take k (map byte_of t) = v"
      if "\<forall>n \<in> set v. 128 \<le> n" for k t v
      using that
    proof (induction t arbitrary: k v)
      case (Cons a t)
      then show ?case
        by (cases k; cases v) (auto simp: ToLower_def byte_of_lower_char)
    qed (simp add: ToLower_def)
    with w show ?thesis by blast
  qed
  then have "find (\<lambda>w. take (length w) (map byte_of (ToLower s)) = w) ws
           = find (\<lambda>w. take (length w) (map byte_of s) = w) ws"
    by (intro find_cong) auto
  moreover have "ascii_space (lower_char c) = ascii_space c" "(byte_of (lower_char c) < 128) = (byte_of c < 128)"
    by (auto simp: ascii_space_def byte_of_lower_char Let_def)
  ultimately show ?thesis using Cons by (simp add: space_len_def ToLower_def)
qed (simp add: ToLower_def)

lemma trim_with_ToLower:
  assumes "\<forall>w \<in> set ws. \<forall>n \<in> set w. 128 \<le> n"
  shows "trim_with ws (ToLower s) = ToLower (trim_with ws s)"
  using assms
proof (induction ws s rule: trim_with.induct)
  case (1 ws s)
  have e: "space_len ws (ToLower s) = space_len ws s" using 1 by (simp add: space_len_ToLower)
  show ?case
  proof (cases "space_len ws s = 0")
    case True
    with e show ?thesis by (simp add: trim_with_fixed)
  next
    case False
    have "trim_with ws (ToLower s) = trim_with ws (ToLower (drop (space_len ws s) s))"
      using False e trim_with.simps [of ws "ToLower s"] by (simp add: ToLower_def drop_map)
    also have "\<dots> = ToLower (trim_with ws (drop (space_len ws s) s))"
      using 1 False by simp
    finally show ?thesis using False by (simp add: trim_with.simps [of ws s])
  qed
qed

lemma TrimSpace_ToLower: "TrimSpace (ToLower s) = ToLower (TrimSpace s)"
proof -
  have w: "\<forall>w \<in> set wide_spaces. \<forall>n \<in> set w. 128 \<le> n"
    "\<forall>w \<in> set (map rev wide_spaces). \<forall>n \<in> set w. 128 \<le> n"
    by (auto simp: wide_spaces_def)
  have "trimLeft (ToLower s) = ToLower (trimLeft s)" for s
    by (simp add: trimLeft_def trim_with_ToLower [OF w(1)])
  moreover have "trimRight (ToLower s) = ToLower (trimRight s)" for s
    using trim_with_ToLower [OF w(2), of "rev s"]
    by (simp add: trimRight_def ToLower_def rev_map)
  ultimately show ?thesis by (simp add: TrimSpace_def)
qed

text \<open>The normal form \<^verbatim>\<open>strings.ToLower(strings.TrimSpace(s))\<close> that the services store.\<close>

definition normToken :: "string \<Rightarrow> string" where
  "normToken s = ToLower (TrimSpace s)"

lemma normToken_idem [simp]: "normToken (normToken s) = normToken s"
  by (simp add: normToken_def TrimSpace_ToLower)

lemma TrimSpace_normToken [simp]: "TrimSpace (normToken s) = normToken s"
  by (simp add: normToken_def TrimSpace_ToLower)

lemma ToLower_normToken [simp]: "ToLower (normToken s) = normToken s"
  by (simp add: normToken_def)

lemma normToken_Nil_iff: "normToken s = [] \<longleftrightarrow> TrimSpace s = []"
  by (simp add: normToken_def)

section \<open>Prefixes and suffixes\<close>

definition HasPrefix :: "string \<Rightarrow> string \<Rightarrow> bool" where
  "HasPrefix s p = (take (length p) s = p)"

definition TrimPrefix :: "string \<Rightarrow> string \<Rightarrow> string" where
  "TrimPrefix s p = (if HasPrefix s p then drop (length p) s else s)"

definition HasSuffix :: "string \<Rightarrow> string \<Rightarrow> bool" where
  "HasSuffix s p = (take (length p) (rev s) = rev p)"

definition TrimSuffix :: "string \<Rightarrow> string \<Rightarrow> string" where
  "TrimSuffix s p = (if HasSuffix s p then take (length s - length p) s else s)"

text \<open>\<^verbatim>\<open>strings.Contains\<close>.\<close>

fun Contains :: "string \<Rightarrow> string \<Rightarrow> bool" where
  "Contains [] p = (p = [])"
| "Contains (c # s) p = (HasPrefix (c # s) p \<or> Contains s p)"

lemma HasPrefix_iff: "HasPrefix s p \<longleftrightarrow> (\<exists>r. s = p @ r)"
  by (auto simp: HasPrefix_def) (metis append_take_drop_id)

text \<open>Joining around a separator that occurs in neither left part determines the parts.\<close>

lemma split_at_sep:
  assumes "a @ c # b = a' @ c # b'" "c \<notin> set a" "c \<notin> set a'"
  shows "a = a' \<and> b = b'"
  using assms
proof (induction a arbitrary: a')
  case Nil
  then show ?case by (cases a') auto
next
  case (Cons x a)
  then show ?case by (cases a') auto
qed

end
