(* ===== verification/Uuid.thy ===== *)
theory Uuid
  imports GoStrings "HOL-Library.Word"
begin

unbundle bit_operations_syntax

text \<open>
  Random identifiers: \<^verbatim>\<open>uuidx.New\<close>, \<^verbatim>\<open>uuidx.IsValid\<close>
  (\<^verbatim>\<open>internal/platform/uuidx/uuid.go\<close>) and \<^verbatim>\<open>generateID\<close>
  (\<^verbatim>\<open>internal/domain/job/job.go\<close>). The 16 bytes that \<^verbatim>\<open>rand.Read\<close> fills are an argument,
  as is its failure.
\<close>

type_synonym rawbytes = "8 word list"

section \<open>Hexadecimal\<close>

definition hex_digit :: "nat \<Rightarrow> char" where
  "hex_digit n = (if n < 10 then char_of (48 + n) else char_of (87 + n))"

definition hex_byte :: "8 word \<Rightarrow> string" where
  "hex_byte w = [hex_digit (unat w div 16), hex_digit (unat w mod 16)]"

definition hex_bytes :: "rawbytes \<Rightarrow> string" where
  "hex_bytes ws = concat (map hex_byte ws)"

definition is_hex :: "char \<Rightarrow> bool" where
  "is_hex c = (let n = byte_of c in (48 \<le> n \<and> n \<le> 57) \<or> (97 \<le> n \<and> n \<le> 102))"

lemma byte_of_hex_digit: "n < 16 \<Longrightarrow> byte_of (hex_digit n) = (if n < 10 then 48 + n else 87 + n)"
  by (simp add: hex_digit_def)

lemma is_hex_digit: "n < 16 \<Longrightarrow> is_hex (hex_digit n)"
  by (auto simp: is_hex_def byte_of_hex_digit Let_def)

lemma hex_digit_inj: "m < 16 \<Longrightarrow> n < 16 \<Longrightarrow> hex_digit m = hex_digit n \<longleftrightarrow> m = n"
  by (auto dest!: arg_cong [where f = byte_of] simp: byte_of_hex_digit split: if_splits)

lemma unat_byte: "unat (w :: 8 word) < 256"
  using unsigned_less [of w] by simp

lemma hex_byte_inj: "hex_byte v = hex_byte w \<longleftrightarrow> v = w"
proof
  assume "hex_byte v = hex_byte w"
  moreover have "unat v div 16 < 16" "unat w div 16 < 16"
    using unat_byte [of v] unat_byte [of w] by auto
  ultimately have "unat v div 16 = unat w div 16" "unat v mod 16 = unat w mod 16"
    by (simp_all add: hex_byte_def hex_digit_inj)
  then have "unat v = unat w" by (metis div_mult_mod_eq)
  then show "v = w" by (rule unsigned_word_eqI)
qed simp

lemma length_hex_bytes [simp]: "length (hex_bytes ws) = 2 * length ws"
  by (induction ws) (simp_all add: hex_bytes_def hex_byte_def)

lemma hex_bytes_Cons: "hex_bytes (w # ws) = hex_byte w @ hex_bytes ws"
  by (simp add: hex_bytes_def)

lemma hex_bytes_inj: "length vs = length ws \<Longrightarrow> hex_bytes vs = hex_bytes ws \<longleftrightarrow> vs = ws"
proof (induction vs ws rule: list_induct2)
  case (Cons v vs w ws)
  have "length (hex_byte v) = length (hex_byte w)" by (simp add: hex_byte_def)
  with Cons show ?case by (simp add: hex_bytes_Cons hex_byte_inj)
qed simp

lemma hex_bytes_is_hex: "c \<in> set (hex_bytes ws) \<Longrightarrow> is_hex c"
proof (induction ws)
  case (Cons w ws)
  have "unat w div 16 < 16" using unat_byte [of w] by auto
  with Cons show ?case by (auto simp: hex_bytes_Cons hex_byte_def is_hex_digit)
qed (simp add: hex_bytes_def)

section \<open>New\<close>

text \<open>Version and variant bits are set in bytes 6 and 8, then five groups are printed in hexadecimal.\<close>

definition stamp :: "rawbytes \<Rightarrow> rawbytes" where
  "stamp raw = raw[6 := (raw ! 6 AND 0x0f) OR 0x40, 8 := (raw ! 8 AND 0x3f) OR 0x80]"

definition uuid_New :: "rawbytes \<Rightarrow> string" where
  "uuid_New raw =
     (let r = stamp raw
      in hex_bytes (take 4 r) @ ''-'' @ hex_bytes (take 2 (drop 4 r)) @ ''-'' @
         hex_bytes (take 2 (drop 6 r)) @ ''-'' @ hex_bytes (take 2 (drop 8 r)) @ ''-'' @
         hex_bytes (take 6 (drop 10 r)))"

text \<open>\<^verbatim>\<open>generateID\<close> of the job package, with the error \<^verbatim>\<open>rand.Read\<close> may return.\<close>

definition generateID :: "rawbytes option \<Rightarrow> gerror + string" where
  "generateID rnd = (case rnd of None \<Rightarrow> Inl (bare ErrRand) | Some raw \<Rightarrow> Inr (uuid_New raw))"

section \<open>IsValid\<close>

text \<open>The anchored regular expression, one character class per position.\<close>

definition uuid_pattern :: "(char \<Rightarrow> bool) list" where
  "uuid_pattern =
     (let h = is_hex; d = (\<lambda>c. c = CHR ''-'')
      in replicate 8 h @ [d] @ replicate 4 h @ [d] @
         ([\<lambda>c. 49 \<le> byte_of c \<and> byte_of c \<le> 53] @ replicate 3 h) @ [d] @
         ([\<lambda>c. c \<in> set ''89ab''] @ replicate 3 h) @ [d] @ replicate 12 h)"

definition IsValid :: "string \<Rightarrow> bool" where
  "IsValid value = (length uuid_pattern = length value \<and> list_all (\<lambda>(p, c). p c) (zip uuid_pattern value))"

section \<open>Facts about identifiers\<close>

lemma or_eq_plus: "a AND b = 0 \<Longrightarrow> a OR b = a + (b :: 8 word)"
  using word_plus_and_or [of a b] by simp

lemma unat_mod_word: "n dvd 256 \<Longrightarrow> n < 256 \<Longrightarrow> unat ((w::8 word) mod of_nat n) = unat w mod n" by (simp add: unat_mod unat_of_nat)
lemma unat_version_byte: "unat ((w AND 0x0f) OR 0x40 :: 8 word) = 64 + unat w mod 16"
proof -
  have m: "w AND 0x0f = take_bit 4 w" by (simp add: take_bit_eq_mask mask_eq_exp_minus_1)
  have u: "unat (take_bit 4 w) = unat w mod 16"
    by (simp add: unsigned_take_bit_eq) (simp add: take_bit_eq_mod)
  have "(w AND 0x0f) AND 0x40 = (0 :: 8 word)"
    by (simp add: and.assoc)
  then have "(w AND 0x0f) OR 0x40 = take_bit 4 w + 64"
    by (simp add: or_eq_plus m)
  then show ?thesis
    using u by (simp add: unat_word_ariths)
qed

lemma unat_variant_byte: "unat ((w AND 0x3f) OR 0x80 :: 8 word) = 128 + unat w mod 64"
proof -
  have m: "w AND 0x3f = take_bit 6 w" by (simp add: take_bit_eq_mask mask_eq_exp_minus_1)
  have u: "unat (take_bit 6 w) = unat w mod 64"
    by (simp add: unsigned_take_bit_eq) (simp add: take_bit_eq_mod)
  have "(w AND 0x3f) AND 0x80 = (0 :: 8 word)"
    by (simp add: and.assoc)
  then have "(w AND 0x3f) OR 0x80 = take_bit 6 w + 128"
    by (simp add: or_eq_plus m)
  then show ?thesis
    using u by (simp add: unat_word_ariths)
qed

lemma div16_less: "unat (w::8 word) div 16 < 16"
  using unat_byte [of w] by auto

lemma hex_byte_is_hex: "is_hex (hex_digit (unat (w :: 8 word) div 16))" "is_hex (hex_digit (unat (w :: 8 word) mod 16))"
  using div16_less[of w] by (simp_all add: is_hex_digit)

lemma char_eq_byte: "c = d \<longleftrightarrow> byte_of c = byte_of d"
  by simp

lemma hex_digit_variant: "hex_digit ((128 + n mod 64) div 16) \<in> set ''89ab''"
proof -
  have "(128 + n mod 64) div 16 \<in> {8, 9, 10, 11}" by auto
  then have "byte_of (hex_digit ((128 + n mod 64) div 16)) \<in> {56, 57, 97, 98}"
    by (auto simp: byte_of_hex_digit)
  then show ?thesis by (auto simp: char_eq_byte simp del: of_char_eq_iff)
qed

lemma hex_digit_version: "hex_digit ((64 + n mod 16) div 16) = CHR ''4''"
proof -
  have "(64 + n mod 16) div 16 = 4" by auto
  then show ?thesis by (simp add: char_eq_byte byte_of_hex_digit del: of_char_eq_iff)
qed

text \<open>A string matches a list of character classes.\<close>

definition matches :: "(char \<Rightarrow> bool) list \<Rightarrow> string \<Rightarrow> bool" where
  "matches ps s = list_all2 (\<lambda>p c. p c) ps s"

lemma matches_append: "matches ps s \<Longrightarrow> matches qs t \<Longrightarrow> matches (ps @ qs) (s @ t)"
  by (simp add: matches_def list_all2_appendI)

lemma matches_hex: "length s = n \<Longrightarrow> \<forall>c \<in> set s. is_hex c \<Longrightarrow> matches (replicate n is_hex) s"
  by (auto simp: matches_def list_all2_conv_all_nth)

lemma matches_hex_bytes: "n = 2 * length ws \<Longrightarrow> matches (replicate n is_hex) (hex_bytes ws)"
  by (rule matches_hex) (auto intro: hex_bytes_is_hex)

lemma IsValid_matches: "IsValid s = matches uuid_pattern s"
  by (simp add: IsValid_def matches_def list_all2_iff list_all_iff)

lemma take2_drop: "Suc n < length xs \<Longrightarrow> take 2 (drop n xs) = [xs ! n, xs ! Suc n]"
  by (rule nth_equalityI) (auto simp: nth_Cons numeral_2_eq_2 less_Suc_eq split: nat.splits)

lemma stamp_nth:
  assumes "length raw = 16"
  shows "take 2 (drop 6 (stamp raw)) = [(raw ! 6 AND 0x0f) OR 0x40, raw ! 7]"
    and "take 2 (drop 8 (stamp raw)) = [(raw ! 8 AND 0x3f) OR 0x80, raw ! 9]"
  using assms by (simp_all add: stamp_def take2_drop)

lemma hex_version_group:
  "matches ((\<lambda>c. 49 \<le> byte_of c \<and> byte_of c \<le> 53) # replicate 3 is_hex)
     (hex_bytes [(v AND 0x0f) OR 0x40, w])"
  by (simp add: matches_def hex_bytes_def hex_byte_def numeral_3_eq_3 hex_byte_is_hex
      unat_version_byte hex_digit_version is_hex_digit)

lemma hex_variant_group:
  "matches ((\<lambda>c. c \<in> set ''89ab'') # replicate 3 is_hex) (hex_bytes [(v AND 0x3f) OR 0x80, w])"
  using hex_digit_variant [of "unat v"]
  by (simp add: matches_def hex_bytes_def hex_byte_def numeral_3_eq_3 hex_byte_is_hex
      unat_variant_byte is_hex_digit)

lemma New_valid_raw:
  assumes "length raw = 16"
  shows "IsValid (uuid_New raw)"
proof -
  have l: "length (stamp raw) = 16" using assms by (simp add: stamp_def)
  have dash: "matches [\<lambda>c. c = CHR ''-''] ''-''" by (simp add: matches_def)
  have v: "matches ([\<lambda>c. 49 \<le> byte_of c \<and> byte_of c \<le> 53] @ replicate 3 is_hex)
      (hex_bytes (take 2 (drop 6 (stamp raw))))"
    "matches ([\<lambda>c. c \<in> set ''89ab''] @ replicate 3 is_hex) (hex_bytes (take 2 (drop 8 (stamp raw))))"
    using hex_version_group hex_variant_group by (simp_all add: stamp_nth [OF assms])
  show ?thesis
    unfolding IsValid_matches uuid_pattern_def uuid_New_def Let_def
    by (intro matches_append dash v matches_hex_bytes) (simp_all add: l)
qed
text \<open>The identifier determines the random bytes up to the six stamped bits.\<close>

lemma New_inj:
  assumes "length raw = 16" "length raw' = 16"
  shows "uuid_New raw = uuid_New raw' \<longleftrightarrow> stamp raw = stamp raw'"
proof
  let ?r = "stamp raw" and ?s = "stamp raw'"
  have l: "length ?r = 16" "length ?s = 16" using assms by (simp_all add: stamp_def)
  assume "uuid_New raw = uuid_New raw'"
  then have "take 4 ?r = take 4 ?s" "take 2 (drop 4 ?r) = take 2 (drop 4 ?s)"
    "take 2 (drop 6 ?r) = take 2 (drop 6 ?s)" "take 2 (drop 8 ?r) = take 2 (drop 8 ?s)"
    "take 6 (drop 10 ?r) = take 6 (drop 10 ?s)"
    using l by (simp_all add: uuid_New_def hex_bytes_inj Let_def)
  moreover have "xs = take 4 xs @ take 2 (drop 4 xs) @ take 2 (drop 6 xs) @ take 2 (drop 8 xs) @ take 6 (drop 10 xs)"
    if "length xs = 16" for xs :: rawbytes
    using that append_take_drop_id [of 4 xs] append_take_drop_id [of 2 "drop 4 xs"] append_take_drop_id [of 2 "drop 6 xs"]
      append_take_drop_id [of 2 "drop 8 xs"] by simp
  ultimately show "?r = ?s"
    using assms by (metis length_list_update stamp_def)
qed (simp add: uuid_New_def)

text \<open>An identifier is never blank and has no white space to trim.\<close>

lemma solid_hex: "is_hex c \<Longrightarrow> solid c"
  by (auto simp: is_hex_def solid_def Let_def)

lemma New_trimmed:
  assumes "length raw = 16"
  shows "TrimSpace (uuid_New raw) = uuid_New raw" "uuid_New raw \<noteq> []"
proof -
  let ?r = "stamp raw"
  have l: "length ?r = 16" using assms by (simp add: stamp_def)
  have a: "hex_bytes (take 4 ?r) \<noteq> []" and b: "hex_bytes (take 6 (drop 10 ?r)) \<noteq> []"
    using l by (auto simp flip: length_0_conv)
  then show "uuid_New raw \<noteq> []" by (simp add: uuid_New_def Let_def)
  have "solid (hd (hex_bytes (take 4 ?r)))" "solid (last (hex_bytes (take 6 (drop 10 ?r))))"
    using a b by (auto intro!: solid_hex hex_bytes_is_hex hd_in_set last_in_set)
  then show "TrimSpace (uuid_New raw) = uuid_New raw"
    using a b by (intro TrimSpace_solid) (simp_all add: uuid_New_def Let_def)
qed

lemma generateID_ok: "length raw = 16 \<Longrightarrow> \<exists>id. generateID (Some raw) = Inr id \<and> IsValid id"
  by (simp add: generateID_def New_valid_raw)

end
