(* ===== verification/Lifecycle.thy ===== *)
theory Lifecycle
  imports Main
begin

text \<open>
  A contract shared by the state machines of the program: every step raises a rank. It gives
  that no state comes back, and a bound on the length of every run; the components interpret it
  on their own step relations.
\<close>

fun is_run :: "('x \<Rightarrow> 'x \<Rightarrow> bool) \<Rightarrow> 'x list \<Rightarrow> bool" where
  "is_run st (x # y # zs) = (st x y \<and> is_run st (y # zs))"
| "is_run st xs = True"

lemma is_run_reach: "is_run stp (x # xs) \<Longrightarrow> u \<in> set xs \<Longrightarrow> stp\<^sup>+\<^sup>+ x u"
proof (induction xs arbitrary: x)
  case (Cons y ys)
  then have s: "stp x y" "is_run stp (y # ys)" by simp_all
  show ?case
  proof (cases "u = y")
    case True
    with s show ?thesis by blast
  next
    case False
    with Cons.IH [OF s(2)] Cons.prems(2) have "stp\<^sup>+\<^sup>+ y u" by simp
    with s(1) show ?thesis by (rule tranclp_into_tranclp2)
  qed
qed simp

lemma run_stutter: "is_run (\<lambda>x y. y = x \<or> stp x y) xs \<Longrightarrow> is_run stp (remdups_adj xs)"
proof (induction xs rule: remdups_adj.induct)
  case (3 x y xs)
  show ?case
  proof (cases "x = y")
    case True
    with 3 show ?thesis by (cases xs) auto
  next
    case False
    obtain zs where z: "remdups_adj (y # xs) = y # zs" by (cases "remdups_adj (y # xs)") (auto dest: remdups_adj_Nil_iff [THEN iffD1] simp: remdups_adj_Cons split: list.splits if_splits)
    from False 3 have "stp x y" "is_run stp (remdups_adj (y # xs))" by auto
    with False show ?thesis by (simp add: z)
  qed
qed simp_all

locale ranked_machine =
  fixes stp :: "'x \<Rightarrow> 'x \<Rightarrow> bool"
    and rank :: "'x \<Rightarrow> nat"
  assumes step_rank: "stp x y \<Longrightarrow> rank x < rank y"
begin

lemma run_rank: "is_run stp (x # xs) \<Longrightarrow> rank x + length xs \<le> rank (last (x # xs))"
proof (induction xs arbitrary: x)
  case Nil
  then show ?case by simp
next
  case (Cons y ys)
  then have "rank x < rank y" "rank y + length ys \<le> rank (last (y # ys))"
    using step_rank by auto
  then show ?case by simp
qed

lemma reach_rank: "stp\<^sup>*\<^sup>* x y \<Longrightarrow> x = y \<or> rank x < rank y"
  by (induction rule: rtranclp_induct) (auto dest: step_rank)

lemma no_return: "stp x y \<Longrightarrow> \<not> stp\<^sup>*\<^sup>* y x"
  using reach_rank [of y x] step_rank [of x y] by auto

lemma trancl_rank: "stp\<^sup>+\<^sup>+ x y \<Longrightarrow> rank x < rank y"
  by (induction rule: tranclp_induct) (auto dest: step_rank)

lemma run_distinct: "is_run stp xs \<Longrightarrow> distinct xs"
proof (induction xs)
  case (Cons x xs)
  have "is_run stp xs" using Cons.prems by (cases xs) simp_all
  moreover have "x \<notin> set xs" using is_run_reach [OF Cons.prems] trancl_rank by blast
  ultimately show ?case using Cons.IH by simp
qed simp

lemma run_bound: "is_run stp (x # xs) \<Longrightarrow> rank (last (x # xs)) \<le> n \<Longrightarrow> length xs \<le> n"
  using run_rank [of x xs] by simp

text \<open>Histories that note the state again and again, moved or not.\<close>

lemma stutter_life:
  assumes "is_run (\<lambda>x y. y = x \<or> stp x y) xs" "\<And>x. rank x \<le> n"
  shows "length (remdups_adj xs) \<le> Suc n \<and> distinct (remdups_adj xs)"
proof -
  note r = run_stutter [OF assms(1)]
  from run_distinct [OF r] run_bound [of _ _ n] r assms(2) show ?thesis by (cases "remdups_adj xs") auto
qed

lemma stutter_final: "is_run (\<lambda>x y. y = x \<or> stp x y) (x # xs) \<Longrightarrow> \<forall>z. \<not> stp x z \<Longrightarrow> set xs \<subseteq> {x}"
  by (induction xs) auto

lemma stuck: "(\<And>y. rank y \<le> rank x) \<Longrightarrow> \<not> stp x y"
  using step_rank [of x y] by (meson leD)

end

end
