(* ===== verification/Job.thy ===== *)
theory Job
  imports Uuid Lifecycle
begin

text \<open>
  The job domain: \<^verbatim>\<open>internal/domain/job\<close>. A job is the scheduling record that workers claim
  under a lease; an attempt is the record of one execution. Every method takes the instant it
  runs at and returns the next record or an error; records are values, as in the Go code, which
  copies them. Random bytes for new identifiers are an argument.
\<close>

section \<open>Status\<close>

text \<open>
  Go declares string types with named constants. The last constructor is any other string, so
  that the \<^verbatim>\<open>default\<close> branches of the code are branches of the model.
\<close>

datatype status =
    StatusPending | StatusClaimed | StatusRunning | StatusRetry | StatusSucceeded
  | StatusFailed | StatusCancelled | StatusTimedOut | StatusOther string

datatype attempt_status =
    AttemptStatusStarted | AttemptStatusHeartbeating | AttemptStatusSucceeded
  | AttemptStatusFailed | AttemptStatusTimedOut | AttemptStatusAbandoned
  | AttemptStatusOther string

fun status_str :: "status \<Rightarrow> string" where
  "status_str StatusPending = ''pending''"
| "status_str StatusClaimed = ''claimed''"
| "status_str StatusRunning = ''running''"
| "status_str StatusRetry = ''retry''"
| "status_str StatusSucceeded = ''succeeded''"
| "status_str StatusFailed = ''failed''"
| "status_str StatusCancelled = ''cancelled''"
| "status_str StatusTimedOut = ''timed_out''"
| "status_str (StatusOther s) = s"

fun status_IsTerminal :: "status \<Rightarrow> bool" where
  "status_IsTerminal StatusSucceeded = True"
| "status_IsTerminal StatusFailed = True"
| "status_IsTerminal StatusCancelled = True"
| "status_IsTerminal StatusTimedOut = True"
| "status_IsTerminal _ = False"

definition CanClaim :: "status \<Rightarrow> bool" where
  "CanClaim s = (s = StatusPending \<or> s = StatusRetry)"

fun CanCancel :: "status \<Rightarrow> bool" where
  "CanCancel StatusPending = True"
| "CanCancel StatusClaimed = True"
| "CanCancel StatusRunning = True"
| "CanCancel StatusRetry = True"
| "CanCancel _ = False"

definition IsLeased :: "status \<Rightarrow> bool" where
  "IsLeased s = (s = StatusClaimed \<or> s = StatusRunning)"

fun attempt_IsTerminal :: "attempt_status \<Rightarrow> bool" where
  "attempt_IsTerminal AttemptStatusSucceeded = True"
| "attempt_IsTerminal AttemptStatusFailed = True"
| "attempt_IsTerminal AttemptStatusTimedOut = True"
| "attempt_IsTerminal AttemptStatusAbandoned = True"
| "attempt_IsTerminal _ = False"

section \<open>Attempts\<close>

record failure =
  f_Code :: string
  f_Message :: string

record attempt =
  a_ID :: string
  a_JobID :: string
  a_AttemptNo :: int
  a_WorkerID :: string
  a_AgentID :: string
  a_StartedAt :: gotime
  a_LastHeartbeatAt :: gotime
  a_FinishedAt :: gotime
  a_ResultStatus :: attempt_status
  a_ErrorCode :: string
  a_ErrorMessage :: string
  a_EvidenceRef :: string
  a_CreatedAt :: gotime
  a_UpdatedAt :: gotime

definition NewAttempt ::
  "string \<Rightarrow> int \<Rightarrow> string \<Rightarrow> gotime \<Rightarrow> rawbytes option \<Rightarrow> gerror + attempt" where
  "NewAttempt jobID attemptNo workerID now0 rnd =
     (let now = normalizeTime now0 in
      if TrimSpace jobID = [] then Inl (Err ErrInvalidAttempt ''job id required'')
      else if attemptNo \<le> 0 then Inl (Err ErrInvalidAttempt ''attempt number must be positive'')
      else if TrimSpace workerID = [] then Inl (Err ErrInvalidAttempt ''worker id required'')
      else case generateID rnd of
        Inl e \<Rightarrow> Inl e
      | Inr i \<Rightarrow> Inr
         \<lparr>a_ID = i, a_JobID = TrimSpace jobID, a_AttemptNo = attemptNo,
          a_WorkerID = TrimSpace workerID, a_AgentID = [], a_StartedAt = now,
          a_LastHeartbeatAt = zeroTime, a_FinishedAt = zeroTime,
          a_ResultStatus = AttemptStatusStarted, a_ErrorCode = [], a_ErrorMessage = [],
          a_EvidenceRef = [], a_CreatedAt = now, a_UpdatedAt = now\<rparr>)"

definition attempt_Active :: "attempt \<Rightarrow> bool" where
  "attempt_Active a = (\<not> attempt_IsTerminal (a_ResultStatus a))"

definition attempt_Heartbeat :: "attempt \<Rightarrow> gotime \<Rightarrow> gerror + attempt" where
  "attempt_Heartbeat a now0 =
     (let now = normalizeTime now0 in
      if \<not> attempt_Active a then Inl (bare ErrAttemptFinished)
      else Inr (a\<lparr>a_ResultStatus := AttemptStatusHeartbeating, a_LastHeartbeatAt := now,
                  a_UpdatedAt := now\<rparr>))"

definition attempt_MarkSucceeded :: "attempt \<Rightarrow> gotime \<Rightarrow> string \<Rightarrow> gerror + attempt" where
  "attempt_MarkSucceeded a now0 evidenceRef =
     (let now = normalizeTime now0 in
      if \<not> attempt_Active a then Inl (bare ErrAttemptFinished)
      else Inr (a\<lparr>a_ResultStatus := AttemptStatusSucceeded,
                  a_EvidenceRef := TrimSpace evidenceRef,
                  a_FinishedAt := now, a_UpdatedAt := now\<rparr>))"

definition attempt_finish ::
  "attempt \<Rightarrow> attempt_status \<Rightarrow> gotime \<Rightarrow> failure \<Rightarrow> string \<Rightarrow> gerror + attempt" where
  "attempt_finish a st now0 fl evidenceRef =
     (let now = normalizeTime now0 in
      if \<not> attempt_Active a then Inl (bare ErrAttemptFinished)
      else Inr (a\<lparr>a_ResultStatus := st, a_ErrorCode := TrimSpace (f_Code fl),
                  a_ErrorMessage := TrimSpace (f_Message fl),
                  a_EvidenceRef := TrimSpace evidenceRef,
                  a_FinishedAt := now, a_UpdatedAt := now\<rparr>))"

definition attempt_MarkFailed :: "attempt \<Rightarrow> gotime \<Rightarrow> failure \<Rightarrow> gerror + attempt" where
  "attempt_MarkFailed a now fl = attempt_finish a AttemptStatusFailed now fl []"

definition attempt_MarkTimedOut :: "attempt \<Rightarrow> gotime \<Rightarrow> failure \<Rightarrow> gerror + attempt" where
  "attempt_MarkTimedOut a now fl = attempt_finish a AttemptStatusTimedOut now fl []"

definition attempt_MarkAbandoned :: "attempt \<Rightarrow> gotime \<Rightarrow> failure \<Rightarrow> gerror + attempt" where
  "attempt_MarkAbandoned a now fl = attempt_finish a AttemptStatusAbandoned now fl []"

section \<open>Jobs\<close>

record create_params =
  cp_TenantID :: string
  cp_ProjectID :: string
  cp_EnvironmentID :: string
  cp_JobType :: string
  cp_AggregateType :: string
  cp_AggregateID :: string
  cp_Priority :: int
  cp_Payload :: string
  cp_IdempotencyKey :: string
  cp_MaxAttempts :: int
  cp_NextRunAt :: gotime

record job =
  j_ID :: string
  j_TenantID :: string
  j_ProjectID :: string
  j_EnvironmentID :: string
  j_JobType :: string
  j_AggregateType :: string
  j_AggregateID :: string
  j_Status :: status
  j_Priority :: int
  j_Payload :: string
  j_IdempotencyKey :: string
  j_LeaseOwner :: string
  j_LeaseExpireAt :: gotime
  j_AttemptCount :: int
  j_MaxAttempts :: int
  j_NextRunAt :: gotime
  j_LastErrorCode :: string
  j_LastErrorMessage :: string
  j_Version :: int
  j_CreatedAt :: gotime
  j_UpdatedAt :: gotime

definition defaultMaxAttempts :: int where
  "defaultMaxAttempts = 3"

definition clonePayload :: "string \<Rightarrow> string" where
  "clonePayload payload = (if payload = [] then ''{}'' else payload)"

definition job_New :: "create_params \<Rightarrow> gotime \<Rightarrow> rawbytes option \<Rightarrow> gerror + job" where
  "job_New p now0 rnd =
     (let now = normalizeTime now0;
          next0 = normalizeTime (cp_NextRunAt p);
          nextRunAt = (if IsZero next0 then now else next0);
          maxAttempts = (if cp_MaxAttempts p \<le> 0 then defaultMaxAttempts else cp_MaxAttempts p) in
      if TrimSpace (cp_TenantID p) = [] then Inl (Err ErrInvalidJob ''tenant id required'')
      else if TrimSpace (cp_ProjectID p) = [] then Inl (Err ErrInvalidJob ''project id required'')
      else if TrimSpace (cp_EnvironmentID p) = [] then Inl (Err ErrInvalidJob ''environment id required'')
      else if TrimSpace (cp_JobType p) = [] then Inl (Err ErrInvalidJob ''job type required'')
      else if TrimSpace (cp_AggregateType p) = [] then Inl (Err ErrInvalidJob ''aggregate type required'')
      else if TrimSpace (cp_AggregateID p) = [] then Inl (Err ErrInvalidJob ''aggregate id required'')
      else if TrimSpace (cp_IdempotencyKey p) = [] then Inl (Err ErrInvalidJob ''idempotency key required'')
      else case generateID rnd of
        Inl e \<Rightarrow> Inl e
      | Inr i \<Rightarrow> Inr
         \<lparr>j_ID = i, j_TenantID = TrimSpace (cp_TenantID p),
          j_ProjectID = TrimSpace (cp_ProjectID p),
          j_EnvironmentID = TrimSpace (cp_EnvironmentID p),
          j_JobType = TrimSpace (cp_JobType p),
          j_AggregateType = TrimSpace (cp_AggregateType p),
          j_AggregateID = TrimSpace (cp_AggregateID p),
          j_Status = StatusPending, j_Priority = cp_Priority p,
          j_Payload = clonePayload (cp_Payload p),
          j_IdempotencyKey = TrimSpace (cp_IdempotencyKey p),
          j_LeaseOwner = [], j_LeaseExpireAt = zeroTime,
          j_AttemptCount = 0, j_MaxAttempts = maxAttempts, j_NextRunAt = nextRunAt,
          j_LastErrorCode = [], j_LastErrorMessage = [],
          j_Version = 1, j_CreatedAt = now, j_UpdatedAt = now\<rparr>)"

definition Due :: "job \<Rightarrow> gotime \<Rightarrow> bool" where
  "Due j now0 =
     (let now = normalizeTime now0 in if IsZero now then False else \<not> now < j_NextRunAt j)"

definition LeaseActive :: "job \<Rightarrow> gotime \<Rightarrow> bool" where
  "LeaseActive j now0 =
     (let now = normalizeTime now0 in
      j_LeaseOwner j \<noteq> [] \<and> \<not> IsZero (j_LeaseExpireAt j) \<and> j_LeaseExpireAt j > now)"

definition LeaseExpired :: "job \<Rightarrow> gotime \<Rightarrow> bool" where
  "LeaseExpired j now0 =
     (let now = normalizeTime now0 in
      j_LeaseOwner j \<noteq> [] \<and> \<not> IsZero (j_LeaseExpireAt j) \<and> \<not> j_LeaseExpireAt j > now)"

definition CanRetry :: "job \<Rightarrow> bool" where
  "CanRetry j = (j_AttemptCount j < j_MaxAttempts j)"

definition clearLease :: "job \<Rightarrow> job" where
  "clearLease j = j\<lparr>j_LeaseOwner := [], j_LeaseExpireAt := zeroTime\<rparr>"

definition applyFailure :: "job \<Rightarrow> failure \<Rightarrow> job" where
  "applyFailure j fl = j\<lparr>j_LastErrorCode := TrimSpace (f_Code fl),
                         j_LastErrorMessage := TrimSpace (f_Message fl)\<rparr>"

text \<open>Every method ends with the version bump and the update instant.\<close>

definition bumped :: "job \<Rightarrow> gotime \<Rightarrow> job" where
  "bumped j now = j\<lparr>j_Version := j_Version j + 1, j_UpdatedAt := now\<rparr>"

definition requireLeaseOwner :: "job \<Rightarrow> string \<Rightarrow> gotime \<Rightarrow> gerror option" where
  "requireLeaseOwner j owner0 now =
     (let owner = TrimSpace owner0 in
      if owner = [] then Some (Err ErrInvalidJob ''lease owner required'')
      else if j_LeaseOwner j = [] \<or> IsZero (j_LeaseExpireAt j) then Some (bare ErrLeaseNotHeld)
      else if j_LeaseOwner j \<noteq> owner then Some (bare ErrLeaseOwnerMismatch)
      else if \<not> j_LeaseExpireAt j > now then Some (bare ErrLeaseExpired)
      else None)"

definition requireActiveExecution :: "job \<Rightarrow> string \<Rightarrow> gotime \<Rightarrow> gerror option" where
  "requireActiveExecution j owner now =
     (if \<not> IsLeased (j_Status j)
      then Some (Err ErrInvalidTransition (status_str (j_Status j) @ '' is not actively leased''))
      else requireLeaseOwner j owner now)"

definition job_Claim ::
  "job \<Rightarrow> string \<Rightarrow> duration \<Rightarrow> gotime \<Rightarrow> rawbytes option \<Rightarrow> gerror + job \<times> attempt" where
  "job_Claim j owner0 leaseTTL now0 rnd =
     (let now = normalizeTime now0; owner = TrimSpace owner0 in
      if owner = [] then Inl (Err ErrInvalidJob ''lease owner required'')
      else if leaseTTL \<le> 0 then Inl (Err ErrInvalidJob ''lease ttl must be positive'')
      else if \<not> CanClaim (j_Status j) \<or> \<not> Due j now then Inl (bare ErrJobNotSchedulable)
      else if LeaseActive j now then Inl (bare ErrLeaseNotHeld)
      else
        let nxt = bumped (j\<lparr>j_Status := StatusClaimed, j_LeaseOwner := owner,
                            j_LeaseExpireAt := now + leaseTTL,
                            j_AttemptCount := j_AttemptCount j + 1\<rparr>) now
        in case NewAttempt (j_ID nxt) (j_AttemptCount nxt) owner now rnd of
             Inl e \<Rightarrow> Inl e
           | Inr a \<Rightarrow> Inr (nxt, a))"

definition job_MarkRunning :: "job \<Rightarrow> string \<Rightarrow> gotime \<Rightarrow> gerror + job" where
  "job_MarkRunning j owner now =
     (case requireLeaseOwner j owner (normalizeTime now) of
        Some e \<Rightarrow> Inl e
      | None \<Rightarrow>
          if j_Status j \<noteq> StatusClaimed
          then Inl (Err ErrInvalidTransition
                      (status_str (j_Status j) @ '' -> '' @ status_str StatusRunning))
          else Inr (bumped (j\<lparr>j_Status := StatusRunning\<rparr>) (normalizeTime now)))"

definition job_Renew :: "job \<Rightarrow> string \<Rightarrow> duration \<Rightarrow> gotime \<Rightarrow> gerror + job" where
  "job_Renew j owner leaseTTL now0 =
     (let now = normalizeTime now0 in
      if leaseTTL \<le> 0 then Inl (Err ErrInvalidJob ''lease ttl must be positive'')
      else if \<not> IsLeased (j_Status j)
      then Inl (Err ErrInvalidTransition (status_str (j_Status j) @ '' cannot be renewed''))
      else case requireLeaseOwner j owner now of
        Some e \<Rightarrow> Inl e
      | None \<Rightarrow> Inr (bumped (j\<lparr>j_LeaseExpireAt := now + leaseTTL\<rparr>) now))"

definition job_MarkSucceeded :: "job \<Rightarrow> string \<Rightarrow> gotime \<Rightarrow> gerror + job" where
  "job_MarkSucceeded j owner now0 =
     (let now = normalizeTime now0 in
      case requireActiveExecution j owner now of
        Some e \<Rightarrow> Inl e
      | None \<Rightarrow> Inr (bumped (clearLease (j\<lparr>j_Status := StatusSucceeded, j_LastErrorCode := [],
                                           j_LastErrorMessage := []\<rparr>)) now))"

definition job_MarkFailed :: "job \<Rightarrow> string \<Rightarrow> failure \<Rightarrow> gotime \<Rightarrow> gerror + job" where
  "job_MarkFailed j owner fl now0 =
     (let now = normalizeTime now0 in
      case requireActiveExecution j owner now of
        Some e \<Rightarrow> Inl e
      | None \<Rightarrow> Inr (bumped (clearLease (applyFailure (j\<lparr>j_Status := StatusFailed\<rparr>) fl)) now))"

definition job_MarkTimedOut :: "job \<Rightarrow> string \<Rightarrow> failure \<Rightarrow> gotime \<Rightarrow> gerror + job" where
  "job_MarkTimedOut j owner fl now0 =
     (let now = normalizeTime now0 in
      case requireActiveExecution j owner now of
        Some e \<Rightarrow> Inl e
      | None \<Rightarrow> Inr (bumped (clearLease (applyFailure (j\<lparr>j_Status := StatusTimedOut\<rparr>) fl)) now))"

definition job_ExpireLease ::
  "job \<Rightarrow> gotime \<Rightarrow> failure \<Rightarrow> gerror + job \<times> attempt_status" where
  "job_ExpireLease j now0 fl =
     (let now = normalizeTime now0 in
      if \<not> IsLeased (j_Status j)
      then Inl (Err ErrInvalidTransition (status_str (j_Status j) @ '' cannot expire lease''))
      else if \<not> LeaseExpired j now then Inl (bare ErrLeaseExpired)
      else
        let resultStatus = (if j_Status j = StatusClaimed then AttemptStatusAbandoned
                            else AttemptStatusTimedOut)
        in Inr (bumped (clearLease (applyFailure (j\<lparr>j_Status := StatusTimedOut\<rparr>) fl)) now,
                resultStatus))"

definition job_ScheduleRetry :: "job \<Rightarrow> duration \<Rightarrow> gotime \<Rightarrow> gerror + job" where
  "job_ScheduleRetry j delay now0 =
     (let now = normalizeTime now0 in
      if delay < 0 then Inl (Err ErrInvalidJob ''retry delay must not be negative'')
      else if j_Status j \<noteq> StatusFailed \<and> j_Status j \<noteq> StatusTimedOut
      then Inl (Err ErrInvalidTransition (status_str (j_Status j) @ '' cannot enter retry''))
      else if \<not> CanRetry j then Inl (bare ErrJobNotRetryable)
      else Inr (bumped (clearLease (j\<lparr>j_Status := StatusRetry, j_NextRunAt := now + delay\<rparr>)) now))"

definition job_Cancel :: "job \<Rightarrow> gotime \<Rightarrow> gerror + job" where
  "job_Cancel j now0 =
     (let now = normalizeTime now0 in
      if \<not> CanCancel (j_Status j)
      then Inl (Err ErrInvalidTransition (status_str (j_Status j) @ '' cannot be cancelled''))
      else Inr (bumped (clearLease (j\<lparr>j_Status := StatusCancelled\<rparr>)) now))"

section \<open>When an operation succeeds, and what it returns\<close>

named_theorems job_ok

lemmas job_upd_defs = bumped_def clearLease_def applyFailure_def

lemma requireLeaseOwner_None:
  "requireLeaseOwner j w now = None \<longleftrightarrow>
   TrimSpace w \<noteq> [] \<and> j_LeaseOwner j = TrimSpace w \<and> j_LeaseExpireAt j \<noteq> zeroTime \<and>
   now < j_LeaseExpireAt j"
  by (auto simp: requireLeaseOwner_def Let_def IsZero_def)

lemma requireActiveExecution_None:
  "requireActiveExecution j w now = None \<longleftrightarrow>
   IsLeased (j_Status j) \<and> TrimSpace w \<noteq> [] \<and> j_LeaseOwner j = TrimSpace w \<and>
   j_LeaseExpireAt j \<noteq> zeroTime \<and> now < j_LeaseExpireAt j"
  by (auto simp: requireActiveExecution_def requireLeaseOwner_None)

lemmas lease_guard = requireLeaseOwner_None requireActiveExecution_None

lemma NewAttempt_ok [job_ok]:
  "NewAttempt i n w now rnd = Inr a \<longleftrightarrow>
   TrimSpace i \<noteq> [] \<and> 0 < n \<and> TrimSpace w \<noteq> [] \<and>
   (\<exists>x. generateID rnd = Inr x \<and>
     a = \<lparr>a_ID = x, a_JobID = TrimSpace i, a_AttemptNo = n, a_WorkerID = TrimSpace w, a_AgentID = [],
          a_StartedAt = now, a_LastHeartbeatAt = zeroTime, a_FinishedAt = zeroTime,
          a_ResultStatus = AttemptStatusStarted, a_ErrorCode = [], a_ErrorMessage = [],
          a_EvidenceRef = [], a_CreatedAt = now, a_UpdatedAt = now\<rparr>)"
  by (auto simp: NewAttempt_def split: sum.splits)

lemma Claim_ok [job_ok]:
  "job_Claim j w ttl now rnd = Inr (j', a) \<longleftrightarrow>
   TrimSpace w \<noteq> [] \<and> 0 < ttl \<and> CanClaim (j_Status j) \<and> Due j now \<and> \<not> LeaseActive j now \<and>
   NewAttempt (j_ID j) (j_AttemptCount j + 1) (TrimSpace w) now rnd = Inr a \<and>
   j' = bumped (j\<lparr>j_Status := StatusClaimed, j_LeaseOwner := TrimSpace w,
                  j_LeaseExpireAt := now + ttl, j_AttemptCount := j_AttemptCount j + 1\<rparr>) now"
  by (auto simp: job_Claim_def Let_def bumped_def split: sum.splits)

lemma MarkRunning_ok [job_ok]:
  "job_MarkRunning j w now = Inr j' \<longleftrightarrow>
   requireLeaseOwner j w now = None \<and> j_Status j = StatusClaimed \<and>
   j' = bumped (j\<lparr>j_Status := StatusRunning\<rparr>) now"
  by (auto simp: job_MarkRunning_def split: option.splits)

lemma Renew_ok [job_ok]:
  "job_Renew j w ttl now = Inr j' \<longleftrightarrow>
   0 < ttl \<and> IsLeased (j_Status j) \<and> requireLeaseOwner j w now = None \<and>
   j' = bumped (j\<lparr>j_LeaseExpireAt := now + ttl\<rparr>) now"
  by (auto simp: job_Renew_def Let_def split: option.splits)

lemma MarkSucceeded_ok [job_ok]:
  "job_MarkSucceeded j w now = Inr j' \<longleftrightarrow>
   requireActiveExecution j w now = None \<and>
   j' = bumped (clearLease (j\<lparr>j_Status := StatusSucceeded, j_LastErrorCode := [],
                              j_LastErrorMessage := []\<rparr>)) now"
  by (auto simp: job_MarkSucceeded_def split: option.splits)

lemma MarkFailed_ok [job_ok]:
  "job_MarkFailed j w fl now = Inr j' \<longleftrightarrow>
   requireActiveExecution j w now = None \<and>
   j' = bumped (clearLease (applyFailure (j\<lparr>j_Status := StatusFailed\<rparr>) fl)) now"
  by (auto simp: job_MarkFailed_def split: option.splits)

lemma MarkTimedOut_ok [job_ok]:
  "job_MarkTimedOut j w fl now = Inr j' \<longleftrightarrow>
   requireActiveExecution j w now = None \<and>
   j' = bumped (clearLease (applyFailure (j\<lparr>j_Status := StatusTimedOut\<rparr>) fl)) now"
  by (auto simp: job_MarkTimedOut_def split: option.splits)

lemma ExpireLease_ok [job_ok]:
  "job_ExpireLease j now fl = Inr (j', r) \<longleftrightarrow>
   IsLeased (j_Status j) \<and> LeaseExpired j now \<and>
   j' = bumped (clearLease (applyFailure (j\<lparr>j_Status := StatusTimedOut\<rparr>) fl)) now \<and>
   r = (if j_Status j = StatusClaimed then AttemptStatusAbandoned else AttemptStatusTimedOut)"
  by (auto simp: job_ExpireLease_def Let_def)

lemma ScheduleRetry_ok [job_ok]:
  "job_ScheduleRetry j d now = Inr j' \<longleftrightarrow>
   0 \<le> d \<and> (j_Status j = StatusFailed \<or> j_Status j = StatusTimedOut) \<and> CanRetry j \<and>
   j' = bumped (clearLease (j\<lparr>j_Status := StatusRetry, j_NextRunAt := now + d\<rparr>)) now"
  by (auto simp: job_ScheduleRetry_def Let_def)

lemma Cancel_ok [job_ok]:
  "job_Cancel j now = Inr j' \<longleftrightarrow>
   CanCancel (j_Status j) \<and> j' = bumped (clearLease (j\<lparr>j_Status := StatusCancelled\<rparr>)) now"
  by (auto simp: job_Cancel_def Let_def)

section \<open>The well-formed job\<close>

definition job_wf :: "job \<Rightarrow> bool" where
  "job_wf j =
     (j_ID j \<noteq> [] \<and> TrimSpace (j_ID j) = j_ID j \<and>
      0 \<le> j_AttemptCount j \<and> j_AttemptCount j \<le> j_MaxAttempts j \<and> 0 < j_MaxAttempts j \<and>
      (CanClaim (j_Status j) \<longrightarrow> j_AttemptCount j < j_MaxAttempts j) \<and>
      (j_Status j = StatusPending \<longrightarrow> j_AttemptCount j = 0) \<and>
      (if IsLeased (j_Status j)
       then j_LeaseOwner j \<noteq> [] \<and> TrimSpace (j_LeaseOwner j) = j_LeaseOwner j \<and>
            j_LeaseExpireAt j \<noteq> zeroTime \<and> 0 < j_AttemptCount j
       else j_LeaseOwner j = [] \<and> j_LeaseExpireAt j = zeroTime) \<and>
      (\<forall>s. j_Status j \<noteq> StatusOther s))"

lemma status_sets [simp]:
  "CanClaim StatusPending" "CanClaim StatusRetry" "\<not> CanClaim StatusClaimed" "\<not> CanClaim StatusRunning"
  "\<not> CanClaim StatusSucceeded" "\<not> CanClaim StatusFailed" "\<not> CanClaim StatusCancelled"
  "\<not> CanClaim StatusTimedOut" "\<not> CanClaim (StatusOther s)"
  "IsLeased StatusClaimed" "IsLeased StatusRunning" "\<not> IsLeased StatusPending" "\<not> IsLeased StatusRetry"
  "\<not> IsLeased StatusSucceeded" "\<not> IsLeased StatusFailed" "\<not> IsLeased StatusCancelled"
  "\<not> IsLeased StatusTimedOut" "\<not> IsLeased (StatusOther s)"
  by (simp_all add: CanClaim_def IsLeased_def)

lemma CanClaim_not_leased: "CanClaim s \<Longrightarrow> \<not> IsLeased s"
  by (auto simp: CanClaim_def IsLeased_def)

lemma IsLeased_not_claim: "IsLeased s \<Longrightarrow> \<not> CanClaim s"
  by (auto simp: CanClaim_def IsLeased_def)

text \<open>A job is held by no worker unless its status is a leased one.\<close>

lemma wf_LeaseExpired: "LeaseExpired j now \<Longrightarrow> job_wf j \<Longrightarrow> IsLeased (j_Status j)"
  by (auto simp: LeaseExpired_def job_wf_def split: if_splits)

lemma wf_not_LeaseActive: "job_wf j \<Longrightarrow> CanClaim (j_Status j) \<Longrightarrow> \<not> LeaseActive j now"
  by (auto simp: LeaseActive_def job_wf_def dest: CanClaim_not_leased)

lemma job_New_wf_raw:
  assumes "job_New p now (Some raw) = Inr j" "length raw = 16"
  shows "job_wf j \<and> j_Status j = StatusPending"
  using assms New_trimmed [of raw]
  by (auto simp: job_New_def job_wf_def generateID_def defaultMaxAttempts_def Let_def split: if_splits)

lemma wf_Claim:
  "job_Claim j w ttl now rnd = Inr (j', a) \<Longrightarrow> job_wf j \<Longrightarrow> 0 < now \<Longrightarrow> job_wf j'"
  by (auto simp: job_ok job_wf_def bumped_def)

lemma wf_MarkRunning: "job_MarkRunning j w now = Inr j' \<Longrightarrow> job_wf j \<Longrightarrow> job_wf j'"
  by (auto simp: job_ok job_wf_def bumped_def)

lemma wf_Renew: "job_Renew j w ttl now = Inr j' \<Longrightarrow> job_wf j \<Longrightarrow> 0 < now \<Longrightarrow> job_wf j'"
  by (auto simp: job_ok job_wf_def bumped_def dest: IsLeased_not_claim)

lemma wf_MarkSucceeded: "job_MarkSucceeded j w now = Inr j' \<Longrightarrow> job_wf j \<Longrightarrow> job_wf j'"
  and wf_MarkFailed: "job_MarkFailed j w fl now = Inr j' \<Longrightarrow> job_wf j \<Longrightarrow> job_wf j'"
  and wf_MarkTimedOut: "job_MarkTimedOut j w fl now = Inr j' \<Longrightarrow> job_wf j \<Longrightarrow> job_wf j'"
  and wf_ExpireLease: "job_ExpireLease j now fl = Inr (j', r) \<Longrightarrow> job_wf j \<Longrightarrow> job_wf j'"
  and wf_ScheduleRetry: "job_ScheduleRetry j d now = Inr j' \<Longrightarrow> job_wf j \<Longrightarrow> job_wf j'"
  and wf_Cancel: "job_Cancel j now = Inr j' \<Longrightarrow> job_wf j \<Longrightarrow> job_wf j'"
  by (auto simp: job_ok job_wf_def job_upd_defs CanRetry_def)

lemmas job_wf_ops = wf_Claim wf_MarkRunning wf_Renew wf_MarkSucceeded wf_MarkFailed wf_MarkTimedOut
  wf_ExpireLease wf_ScheduleRetry wf_Cancel

end
