(* ===== verification/JobLife.thy ===== *)
theory JobLife
  imports Job
begin

text \<open>
  The methods of a job as one labelled transition system: the invariant and the status table
  hold along every sequence of calls, workers without the live lease change nothing, and every
  life ends after boundedly many steps.
\<close>

section \<open>Jobs as a transition system\<close>

datatype job_op =
    JClaim string duration "rawbytes option"
  | JMarkRunning string
  | JRenew string duration
  | JMarkSucceeded string
  | JMarkFailed string failure
  | JMarkTimedOut string failure
  | JExpireLease failure
  | JScheduleRetry duration
  | JCancel

fun job_apply :: "job \<Rightarrow> gotime \<Rightarrow> job_op \<Rightarrow> gerror + job" where
  "job_apply j now (JClaim w ttl rnd) = map_sum id fst (job_Claim j w ttl now rnd)"
| "job_apply j now (JMarkRunning w) = job_MarkRunning j w now"
| "job_apply j now (JRenew w ttl) = job_Renew j w ttl now"
| "job_apply j now (JMarkSucceeded w) = job_MarkSucceeded j w now"
| "job_apply j now (JMarkFailed w fl) = job_MarkFailed j w fl now"
| "job_apply j now (JMarkTimedOut w fl) = job_MarkTimedOut j w fl now"
| "job_apply j now (JExpireLease fl) = map_sum id fst (job_ExpireLease j now fl)"
| "job_apply j now (JScheduleRetry d) = job_ScheduleRetry j d now"
| "job_apply j now JCancel = job_Cancel j now"

definition is_renew :: "job_op \<Rightarrow> bool" where
  "is_renew opr = (case opr of JRenew _ _ \<Rightarrow> True | _ \<Rightarrow> False)"

text \<open>The life of a job: any method may be called at any instant after the zero time.\<close>

inductive job_step :: "job \<Rightarrow> job \<Rightarrow> bool" where
  "job_step j j'" if "0 < now" "job_apply j now opr = Inr j'"

text \<open>The same without lease renewals, which may repeat for as long as the execution takes.\<close>

inductive job_progress :: "job \<Rightarrow> job \<Rightarrow> bool" where
  "job_progress j j'" if "0 < now" "\<not> is_renew opr" "job_apply j now opr = Inr j'"

inductive_simps job_step_iff: "job_step j j'"
inductive_simps job_progress_iff: "job_progress j j'"

lemma map_sum_fst_Inr: "map_sum id fst r = Inr x \<longleftrightarrow> (\<exists>y. r = Inr (x, y))"
  by (cases r) auto

lemma job_apply_wf:
  assumes "job_apply j now opr = Inr j'" "job_wf j" "0 < now"
  shows "job_wf j'"
  using assms by (cases opr) (auto simp: map_sum_fst_Inr intro: job_wf_ops)

text \<open>The fields that no method writes, and the two that every method or only \<open>Claim\<close> writes.\<close>

lemma job_apply_frame:
  assumes "job_apply j now opr = Inr j'"
  shows "j_ID j' = j_ID j" "j_TenantID j' = j_TenantID j" "j_ProjectID j' = j_ProjectID j"
    "j_EnvironmentID j' = j_EnvironmentID j" "j_JobType j' = j_JobType j"
    "j_AggregateID j' = j_AggregateID j" "j_Payload j' = j_Payload j"
    "j_IdempotencyKey j' = j_IdempotencyKey j" "j_MaxAttempts j' = j_MaxAttempts j"
    "j_Priority j' = j_Priority j" "j_CreatedAt j' = j_CreatedAt j"
    "j_Version j' = j_Version j + 1" "j_UpdatedAt j' = now"
    "j_AttemptCount j' = j_AttemptCount j + (case opr of JClaim _ _ _ \<Rightarrow> 1 | _ \<Rightarrow> 0)"
  using assms by (cases opr; auto simp: map_sum_fst_Inr job_ok job_upd_defs)+

text \<open>The status table the methods implement.\<close>

fun status_next :: "status \<Rightarrow> status \<Rightarrow> bool" where
  "status_next StatusPending t = (t = StatusClaimed \<or> t = StatusCancelled)"
| "status_next StatusRetry t = (t = StatusClaimed \<or> t = StatusCancelled)"
| "status_next StatusClaimed t =
     (t \<in> {StatusClaimed, StatusRunning, StatusSucceeded, StatusFailed, StatusTimedOut, StatusCancelled})"
| "status_next StatusRunning t =
     (t \<in> {StatusRunning, StatusSucceeded, StatusFailed, StatusTimedOut, StatusCancelled})"
| "status_next StatusFailed t = (t = StatusRetry)"
| "status_next StatusTimedOut t = (t = StatusRetry)"
| "status_next _ t = False"

lemma CanClaim_cases: "CanClaim s \<Longrightarrow> s = StatusPending \<or> s = StatusRetry"
  and IsLeased_cases: "IsLeased s \<Longrightarrow> s = StatusClaimed \<or> s = StatusRunning"
  by (simp_all add: CanClaim_def IsLeased_def)

lemma CanCancel_cases:
  "CanCancel s \<Longrightarrow> s = StatusPending \<or> s = StatusClaimed \<or> s = StatusRunning \<or> s = StatusRetry"
  by (cases s) auto

lemma job_apply_status:
  assumes "job_apply j now opr = Inr j'"
  shows "status_next (j_Status j) (j_Status j')"
  using assms
  by (cases opr) (auto simp: map_sum_fst_Inr job_ok lease_guard job_upd_defs
      dest!: CanClaim_cases IsLeased_cases CanCancel_cases)

subsection \<open>Every life ends\<close>

fun status_rank :: "status \<Rightarrow> nat" where
  "status_rank StatusPending = 0"
| "status_rank StatusClaimed = 1"
| "status_rank StatusRunning = 2"
| "status_rank StatusFailed = 3"
| "status_rank StatusTimedOut = 3"
| "status_rank StatusRetry = 4"
| "status_rank StatusSucceeded = 5"
| "status_rank StatusCancelled = 5"
| "status_rank (StatusOther s) = 6"

definition job_rank :: "job \<Rightarrow> nat" where
  "job_rank j = 6 * nat (j_AttemptCount j) + status_rank (j_Status j)"

definition wf_progress :: "job \<Rightarrow> job \<Rightarrow> bool" where
  "wf_progress j j' = (job_wf j \<and> job_progress j j')"

lemma wf_progress_rank: "wf_progress j j' \<Longrightarrow> job_rank j < job_rank j'"
proof -
  assume "wf_progress j j'"
  then obtain now opr where wf: "job_wf j" and a: "\<not> is_renew opr" "job_apply j now opr = Inr j'"
    by (auto simp: wf_progress_def job_progress_iff)
  have n: "0 \<le> j_AttemptCount j" using wf by (simp add: job_wf_def)
  show ?thesis
    using a n by (cases opr) (auto simp: job_rank_def is_renew_def map_sum_fst_Inr job_ok lease_guard
        job_upd_defs nat_add_distrib dest!: CanClaim_cases IsLeased_cases CanCancel_cases)
qed

interpretation job_life: ranked_machine wf_progress job_rank
  by unfold_locales (rule wf_progress_rank)

lemma job_rank_bound: "job_wf j \<Longrightarrow> job_rank j \<le> 6 * nat (j_MaxAttempts j) + 5"
  by (cases "j_Status j") (auto simp: job_rank_def job_wf_def)

lemma job_progress_wf: "wf_progress j j' \<Longrightarrow> job_wf j' \<and> j_MaxAttempts j' = j_MaxAttempts j"
  by (auto simp: wf_progress_def job_progress_iff intro: job_apply_wf dest: job_apply_frame(9))

lemma job_run_wf:
  "is_run wf_progress (j # js) \<Longrightarrow> job_wf j \<Longrightarrow>
   job_wf (last (j # js)) \<and> j_MaxAttempts (last (j # js)) = j_MaxAttempts j"
proof (induction js arbitrary: j)
  case (Cons k ks)
  then show ?case using job_progress_wf [of j k] by simp
qed simp

text \<open>The worker a method is called by, and whether that worker holds the live lease.\<close>

definition op_worker :: "job_op \<Rightarrow> string option" where
  "op_worker opr = (case opr of
      JMarkRunning w \<Rightarrow> Some w | JRenew w _ \<Rightarrow> Some w | JMarkSucceeded w \<Rightarrow> Some w
    | JMarkFailed w _ \<Rightarrow> Some w | JMarkTimedOut w _ \<Rightarrow> Some w | _ \<Rightarrow> None)"

definition live_lease :: "job \<Rightarrow> string \<Rightarrow> gotime \<Rightarrow> bool" where
  "live_lease j w now =
     (IsLeased (j_Status j) \<and> j_LeaseOwner j = TrimSpace w \<and> now < j_LeaseExpireAt j)"

lemma worker_op_live:
  assumes "op_worker opr = Some w" "job_wf j" "job_apply j now opr = Inr j'"
  shows "live_lease j w now"
  using assms
  by (cases opr) (auto simp: op_worker_def live_lease_def job_ok lease_guard)

lemma live_lease_guard:
  "job_wf j \<Longrightarrow> live_lease j w now \<Longrightarrow>
   requireLeaseOwner j w now = None \<and> requireActiveExecution j w now = None"
  by (auto simp: live_lease_def lease_guard job_wf_def)

lemma is_ok_job_ops:
  "is_ok (job_MarkRunning j w now) \<longleftrightarrow> requireLeaseOwner j w now = None \<and> j_Status j = StatusClaimed"
  "is_ok (job_MarkSucceeded j w now) \<longleftrightarrow> requireActiveExecution j w now = None"
  "is_ok (job_ExpireLease j now fl) \<longleftrightarrow> IsLeased (j_Status j) \<and> LeaseExpired j now"
  by (auto simp: is_ok_iff job_ok)

section \<open>Properties\<close>

text \<open>C38: every method of a job that succeeds keeps the job well formed, moves the status along
  the status table, raises the version by one and leaves the identity, the idempotency key and
  the retry budget alone.\<close>

theorem job_methods_keep_invariant:
  assumes "job_wf j" "0 < now" "job_apply j now opr = Inr j'"
  shows "job_wf j' \<and> status_next (j_Status j) (j_Status j') \<and> j_Version j' = j_Version j + 1 \<and>
    j_ID j' = j_ID j \<and> j_IdempotencyKey j' = j_IdempotencyKey j \<and> j_MaxAttempts j' = j_MaxAttempts j"
  using job_apply_wf [OF assms(3,1,2)] job_apply_status [OF assms(3)] job_apply_frame [OF assms(3)]
  by simp

definition demo_params :: create_params where
  "demo_params = \<lparr>cp_TenantID = ''t'', cp_ProjectID = ''p'', cp_EnvironmentID = ''e'',
     cp_JobType = ''renew'', cp_AggregateType = ''asset'', cp_AggregateID = ''a1'', cp_Priority = 10,
     cp_Payload = [], cp_IdempotencyKey = ''k1'', cp_MaxAttempts = 0, cp_NextRunAt = 0\<rparr>"

definition demo_job :: job where
  "demo_job = \<lparr>j_ID = ''j1'', j_TenantID = ''t'', j_ProjectID = ''p'', j_EnvironmentID = ''e'',
     j_JobType = ''renew'', j_AggregateType = ''asset'', j_AggregateID = ''a1'',
     j_Status = StatusPending, j_Priority = 10, j_Payload = ''{}'', j_IdempotencyKey = ''k1'',
     j_LeaseOwner = [], j_LeaseExpireAt = 0, j_AttemptCount = 0, j_MaxAttempts = 3, j_NextRunAt = 5,
     j_LastErrorCode = [], j_LastErrorMessage = [], j_Version = 1, j_CreatedAt = 5, j_UpdatedAt = 5\<rparr>"

definition demo_raw :: "rawbytes option" where
  "demo_raw = Some (replicate 16 0)"

text \<open>The demonstration job after worker \<open>w1\<close> claimed it at instant 10 for 20 nanoseconds.\<close>

definition demo_claimed :: job where
  "demo_claimed = bumped (demo_job\<lparr>j_Status := StatusClaimed, j_LeaseOwner := ''w1'',
     j_LeaseExpireAt := 30, j_AttemptCount := 1\<rparr>) 10"

lemma trim_w1 [simp]: "TrimSpace ''w1'' = ''w1''" and trim_w2 [simp]: "TrimSpace ''w2'' = ''w2''"
  and trim_j1 [simp]: "TrimSpace ''j1'' = ''j1''"
  by (simp_all add: TrimSpace_solid solid_def)

lemma demo_wf: "job_wf demo_job" "job_wf demo_claimed"
  by (simp_all add: job_wf_def demo_job_def demo_claimed_def bumped_def)

lemma demo_claim: "\<exists>a. job_Claim demo_job ''w1'' 20 10 demo_raw = Inr (demo_claimed, a)"
  by (simp add: job_Claim_def demo_job_def demo_claimed_def bumped_def Due_def LeaseActive_def IsZero_def
      NewAttempt_def demo_raw_def generateID_def Let_def)

theorem job_methods_keep_invariant_witness:
  "job_wf demo_claimed \<and> status_next StatusPending (j_Status demo_claimed)"
proof -
  obtain a where "job_Claim demo_job ''w1'' 20 10 demo_raw = Inr (demo_claimed, a)"
    using demo_claim by blast
  then have "job_apply demo_job 10 (JClaim ''w1'' 20 demo_raw) = Inr demo_claimed" by simp
  from job_methods_keep_invariant [OF demo_wf(1) _ this] show ?thesis
    by (simp add: demo_job_def)
qed

text \<open>A worker call (start, renew, succeed, fail, time out) on a well-formed job succeeds only
  while that worker holds the lease and the lease has not expired, so a worker that lost its
  lease to the reaper or to another worker changes nothing.\<close>

theorem worker_calls_are_fenced:
  assumes "job_wf j" "op_worker opr = Some w" "\<not> live_lease j w now"
  shows "\<not> is_ok (job_apply j now opr)"
  using worker_op_live [OF assms(2,1)] assms(3) by (auto simp: is_ok_iff)

theorem worker_calls_are_fenced_witness:
  "\<not> is_ok (job_apply demo_claimed 12 (JMarkSucceeded ''w2'')) \<and>
   \<not> is_ok (job_apply demo_claimed 30 (JMarkSucceeded ''w1''))"
proof -
  have "\<not> live_lease demo_claimed ''w2'' 12" "\<not> live_lease demo_claimed ''w1'' 30"
    by (simp_all add: live_lease_def demo_claimed_def bumped_def)
  with worker_calls_are_fenced [OF demo_wf(2), of "JMarkSucceeded ''w2''" "''w2''" 12]
    worker_calls_are_fenced [OF demo_wf(2), of "JMarkSucceeded ''w1''" "''w1''" 30]
  show ?thesis by (simp add: op_worker_def)
qed

text \<open>A successful claim opens a lease window. Until it closes the claimer can start the job
  and the reaper cannot take it; from then on the claimer can neither start nor finish it and
  the reaper can take it; and nobody can claim it a second time, at any instant.\<close>

theorem claim_opens_lease_window:
  assumes "job_wf j" "0 < now" "job_Claim j w ttl now rnd = Inr (j', a)"
  shows "(t < now + ttl \<longrightarrow> is_ok (job_MarkRunning j' w t) \<and> is_ok (job_MarkSucceeded j' w t) \<and>
            \<not> is_ok (job_ExpireLease j' t fl)) \<and>
         (now + ttl \<le> t \<longrightarrow> \<not> is_ok (job_MarkRunning j' w t) \<and> \<not> is_ok (job_MarkSucceeded j' w t) \<and>
            is_ok (job_ExpireLease j' t fl)) \<and>
         \<not> is_ok (job_Claim j' w' ttl' t rnd')"
proof -
  have "job_wf j'" using wf_Claim [OF assms(3,1,2)] .
  moreover from assms(3) have "j_Status j' = StatusClaimed" "j_LeaseOwner j' = TrimSpace w"
    "j_LeaseExpireAt j' = now + ttl" "TrimSpace w \<noteq> []"
    by (auto simp: job_ok bumped_def)
  ultimately show ?thesis
    by (auto simp: is_ok_job_ops lease_guard LeaseExpired_def IsZero_def job_wf_def is_ok_iff job_ok)
qed

theorem claim_opens_lease_window_witness:
  "is_ok (job_MarkRunning demo_claimed ''w1'' 29) \<and> \<not> is_ok (job_MarkRunning demo_claimed ''w1'' 30) \<and>
   \<not> is_ok (job_Claim demo_claimed ''w2'' 20 40 demo_raw)"
proof -
  obtain a where c: "job_Claim demo_job ''w1'' 20 10 demo_raw = Inr (demo_claimed, a)"
    using demo_claim by blast
  show ?thesis
    using claim_opens_lease_window [OF demo_wf(1) _ c, of 29 undefined "''w2''" 20 demo_raw]
      claim_opens_lease_window [OF demo_wf(1) _ c, of 30 undefined "''w2''" 20 demo_raw]
      claim_opens_lease_window [OF demo_wf(1) _ c, of 40 undefined "''w2''" 20 demo_raw] by simp
qed

text \<open>C39: apart from lease renewals, a well-formed job goes through at most
  \<open>6 * MaxAttempts + 5\<close> changes in its life, whatever is called on it and whenever, and
  never returns to a record it had.\<close>

theorem job_life_is_bounded:
  assumes "job_wf j" "is_run wf_progress (j # js)"
  shows "length js \<le> 6 * nat (j_MaxAttempts j) + 5 \<and> (js \<noteq> [] \<longrightarrow> \<not> wf_progress\<^sup>*\<^sup>* (hd js) j)"
proof
  have "job_wf (last (j # js))" "j_MaxAttempts (last (j # js)) = j_MaxAttempts j"
    using job_run_wf [OF assms(2,1)] by auto
  with job_rank_bound have "job_rank (last (j # js)) \<le> 6 * nat (j_MaxAttempts j) + 5" by metis
  with assms(2) show "length js \<le> 6 * nat (j_MaxAttempts j) + 5" by (rule job_life.run_bound)
  show "js \<noteq> [] \<longrightarrow> \<not> wf_progress\<^sup>*\<^sup>* (hd js) j"
    using assms(2) job_life.no_return by (cases js) auto
qed

theorem job_life_is_bounded_witness:
  "is_run wf_progress [demo_job, demo_claimed] \<and> length [demo_claimed] \<le> 6 * 3 + 5"
proof -
  obtain a where "job_Claim demo_job ''w1'' 20 10 demo_raw = Inr (demo_claimed, a)"
    using demo_claim by blast
  then have "job_apply demo_job 10 (JClaim ''w1'' 20 demo_raw) = Inr demo_claimed" by simp
  then have r: "is_run wf_progress [demo_job, demo_claimed]"
    by (auto simp: wf_progress_def demo_wf job_progress_iff is_renew_def
        intro!: exI [of _ 10] exI [of _ "JClaim ''w1'' 20 demo_raw"])
  from job_life_is_bounded [OF demo_wf(1) r] r show ?thesis by (simp add: demo_job_def)
qed

end
