(* ===== verification/Resource.thy ===== *)
theory Resource
  imports GoStrings
begin

text \<open>
  The access boundary of every stored record: \<^verbatim>\<open>internal/domain/resource/scope.go\<close>, and the
  lookup discipline that the in-memory services of \<^verbatim>\<open>internal/domain\<close> share: a record is
  handed out only under the scope it was stored with. The locale \<open>scoped_store\<close> states that
  discipline once; the services interpret it.
\<close>

section \<open>Scope\<close>

record scope =
  TenantID :: string
  ProjectID :: string
  EnvironmentID :: string

definition scope_Validate :: "scope \<Rightarrow> gerror option" where
  "scope_Validate s =
     (if TenantID s = [] then Some (Err ErrValidation ''tenant_id required'')
      else if ProjectID s = [] then Some (Err ErrValidation ''project_id required'')
      else if EnvironmentID s = [] then Some (Err ErrValidation ''environment_id required'')
      else None)"

definition scope_Equals :: "scope \<Rightarrow> scope \<Rightarrow> bool" where
  "scope_Equals s other =
     (TenantID s = TenantID other \<and> ProjectID s = ProjectID other \<and>
      EnvironmentID s = EnvironmentID other)"

definition EnvironmentKey :: "scope \<Rightarrow> string" where
  "EnvironmentKey s = TenantID s @ ''/'' @ ProjectID s @ ''/'' @ EnvironmentID s"

text \<open>Written as the services call it: the error, or the rest of the operation.\<close>

definition valid_scope :: "scope \<Rightarrow> bool" where
  "valid_scope s = (scope_Validate s = None)"

lemma valid_scope_iff: "valid_scope s \<longleftrightarrow> TenantID s \<noteq> [] \<and> ProjectID s \<noteq> [] \<and> EnvironmentID s \<noteq> []"
  by (simp add: valid_scope_def scope_Validate_def)

lemma scope_Validate_None [simp]: "scope_Validate s = None \<longleftrightarrow> valid_scope s"
  by (simp add: valid_scope_def)

lemma valid_scope_Validate [simp]: "valid_scope s \<Longrightarrow> scope_Validate s = None"
  by simp

lemma invalid_scope_Validate: "\<not> valid_scope s \<Longrightarrow> \<exists>e. scope_Validate s = Some e \<and> errorsIs e ErrValidation"
  by (auto simp: valid_scope_iff scope_Validate_def)

lemma scope_Validate_Some: "scope_Validate s = Some e \<Longrightarrow> errorsIs e ErrValidation \<and> \<not> valid_scope s"
  by (auto simp: valid_scope_def scope_Validate_def split: if_splits)

lemma scope_Equals_iff [simp]: "scope_Equals s t \<longleftrightarrow> s = t"
  by (auto simp: scope_Equals_def)

text \<open>
  Keys made from a scope and a name: \<^verbatim>\<open>scope.EnvironmentKey() + "/" + name\<close>. They tell apart
  the scopes whose identifiers hold no slash, which identifiers of the platform never do.
\<close>

definition slash_free :: "scope \<Rightarrow> bool" where
  "slash_free s = (CHR ''/'' \<notin> set (TenantID s) \<and> CHR ''/'' \<notin> set (ProjectID s) \<and>
                   CHR ''/'' \<notin> set (EnvironmentID s))"

definition envKey :: "scope \<Rightarrow> string \<Rightarrow> string" where
  "envKey s name = EnvironmentKey s @ ''/'' @ name"

lemma envKey_inj_raw:
  assumes "slash_free s" "slash_free t" "envKey s a = envKey t b"
  shows "s = t \<and> a = b"
proof -
  have f: "CHR ''/'' \<notin> set (TenantID s)" "CHR ''/'' \<notin> set (TenantID t)"
    "CHR ''/'' \<notin> set (ProjectID s)" "CHR ''/'' \<notin> set (ProjectID t)"
    "CHR ''/'' \<notin> set (EnvironmentID s)" "CHR ''/'' \<notin> set (EnvironmentID t)"
    using assms(1,2) by (auto simp: slash_free_def)
  have "TenantID s @ CHR ''/'' # (ProjectID s @ CHR ''/'' # (EnvironmentID s @ CHR ''/'' # a))
      = TenantID t @ CHR ''/'' # (ProjectID t @ CHR ''/'' # (EnvironmentID t @ CHR ''/'' # b))"
    using assms(3) by (simp add: envKey_def EnvironmentKey_def)
  from split_at_sep [OF this f(1,2)] have 1: "TenantID s = TenantID t"
    and r: "ProjectID s @ CHR ''/'' # (EnvironmentID s @ CHR ''/'' # a)
      = ProjectID t @ CHR ''/'' # (EnvironmentID t @ CHR ''/'' # b)" by auto
  from split_at_sep [OF r f(3,4)] have 2: "ProjectID s = ProjectID t"
    and r: "EnvironmentID s @ CHR ''/'' # a = EnvironmentID t @ CHR ''/'' # b" by auto
  from split_at_sep [OF r f(5,6)] 1 2 show ?thesis by simp
qed

section \<open>Scoped stores\<close>

text \<open>
  The body every service repeats under its lock: the record under an identifier, if there is one
  and it belongs to the caller's scope. \<open>what\<close> is the word its messages start with.
\<close>

definition scoped_get :: "string \<Rightarrow> ('r \<Rightarrow> scope) \<Rightarrow> (string, 'r) gomap \<Rightarrow> scope \<Rightarrow> string \<Rightarrow> gerror + 'r" where
  "scoped_get what scope_of m sc i =
     (case mget m i of
        None \<Rightarrow> Inl (Err ErrNotFound (what @ '' '' @ i))
      | Some r \<Rightarrow> if \<not> scope_Equals (scope_of r) sc then Inl (Err ErrScopeMismatch (what @ '' '' @ i)) else Inr r)"

lemma scoped_get_Inr [simp]:
  "scoped_get what scope_of m sc i = Inr r \<longleftrightarrow> mget m i = Some r \<and> scope_of r = sc"
  by (auto simp: scoped_get_def split: option.splits)

lemma scoped_get_Inl: "scoped_get what scope_of m sc i = Inl e \<Longrightarrow> mget m i = Some r \<Longrightarrow> scope_of r \<noteq> sc"
  by (auto simp: scoped_get_def)

lemma scoped_get_err:
  "mget m i = None \<Longrightarrow> \<exists>e. scoped_get what scope_of m sc i = Inl e \<and> errorsIs e ErrNotFound"
  "mget m i = Some r \<Longrightarrow> scope_of r \<noteq> sc \<Longrightarrow> \<exists>e. scoped_get what scope_of m sc i = Inl e \<and> errorsIs e ErrScopeMismatch"
  by (simp_all add: scoped_get_def)

lemma scoped_get_self [simp]: "mget m i = Some r \<Longrightarrow> scoped_get what scope_of m (scope_of r) i = Inr r"
  by simp

lemma scoped_get_some: "mget m i = Some r \<Longrightarrow> scope_of r = sc \<Longrightarrow> scoped_get what scope_of m sc i = Inr r"
  by simp

text \<open>
  The interface of a service that stores records by identifier and hands one out under a
  scope. \<open>recs\<close> reads the record map of the service state, \<open>scope_of\<close> the scope
  of a record and \<open>get\<close> is the service's lookup.
\<close>

locale scoped_store =
  fixes recs :: "'st \<Rightarrow> string \<Rightarrow> 'r option"
    and scope_of :: "'r \<Rightarrow> scope"
    and get :: "'st \<Rightarrow> scope \<Rightarrow> string \<Rightarrow> gerror + 'r"
    and blank_checked :: "string \<Rightarrow> bool"
  assumes get_found:
      "valid_scope sc \<Longrightarrow> \<not> blank_checked i \<Longrightarrow> recs st i = Some r \<Longrightarrow> scope_of r = sc \<Longrightarrow>
       get st sc i = Inr r"
    and get_invalid: "\<not> valid_scope sc \<Longrightarrow> \<exists>e. get st sc i = Inl e \<and> errorsIs e ErrValidation"
    and get_blank: "blank_checked i \<Longrightarrow> \<exists>e. get st sc i = Inl e \<and> errorsIs e ErrValidation"
    and get_missing:
      "valid_scope sc \<Longrightarrow> \<not> blank_checked i \<Longrightarrow> recs st i = None \<Longrightarrow>
       \<exists>e. get st sc i = Inl e \<and> errorsIs e ErrNotFound"
    and get_foreign:
      "valid_scope sc \<Longrightarrow> \<not> blank_checked i \<Longrightarrow> recs st i = Some r \<Longrightarrow> scope_of r \<noteq> sc \<Longrightarrow>
       \<exists>e. get st sc i = Inl e \<and> errorsIs e ErrScopeMismatch"
begin

lemma get_ok_iff:
  "get st sc i = Inr r \<longleftrightarrow>
   valid_scope sc \<and> \<not> blank_checked i \<and> recs st i = Some r \<and> scope_of r = sc"
proof (cases "valid_scope sc \<and> \<not> blank_checked i")
  case True
  show ?thesis
  proof (cases "recs st i")
    case None
    with True show ?thesis using get_missing [of sc i st] by auto
  next
    case (Some a)
    then show ?thesis
      using True get_found [of sc i st a] get_foreign [of sc i st a] by (cases "scope_of a = sc") auto
  qed
next
  case False
  then show ?thesis using get_invalid [of sc st i] get_blank [of i st sc] by auto
qed

text \<open>No record crosses the boundary: what a caller sees was stored under its own scope.\<close>

lemma isolation: "get st sc i = Inr r \<Longrightarrow> scope_of r = sc"
  by (simp add: get_ok_iff)

lemma two_scopes: "get st sc i = Inr r \<Longrightarrow> get st sc' i = Inr r' \<Longrightarrow> sc' = sc \<and> r' = r"
  by (auto simp: get_ok_iff)

lemma frame: "recs st' i = recs st i \<Longrightarrow> get st' sc i = Inr r \<longleftrightarrow> get st sc i = Inr r"
  by (simp add: get_ok_iff)

end

section \<open>Values the witnesses use\<close>

definition demo_scope :: scope where
  "demo_scope = \<lparr>TenantID = ''t'', ProjectID = ''p'', EnvironmentID = ''e''\<rparr>"

lemma demo_valid_scope [simp]: "valid_scope demo_scope" "slash_free demo_scope"
  by (simp_all add: valid_scope_iff slash_free_def demo_scope_def)

lemma demo_words [simp]:
  "normToken ''single'' = ''single''" "normToken ''dns-01'' = ''dns-01''" "normToken ''x.y'' = ''x.y''" "normToken [] = []"
  "normToken ''issue'' = ''issue''" "TrimSpace ''ca'' = ''ca''" "TrimSpace ''k'' = ''k''" "TrimSpace ''d1'' = ''d1''"
  "TrimSpace ''me'' = ''me''" "TrimSpace ''r1'' = ''r1''" "TrimSpace ''w1'' = ''w1''" "TrimSpace ''a1'' = ''a1''"
  "TrimSpace ''x.y'' = ''x.y''" "TrimSpace ''cert'' = ''cert''"
  by code_simp+

end
