(* ===== verification/Backoff.thy ===== *)
theory Backoff
  imports Complex_Main Prelude "HOL-Library.Log_Nat"
begin

text \<open>
  \<^verbatim>\<open>BackoffPolicy\<close> of \<^verbatim>\<open>internal/application/command/jobs/service.go\<close>: how long a retry
  waits. The code multiplies float64 values; they are fractions here, rounded after every
  operation to a 53-bit significand as IEEE 754 does (the values stay far from underflow). Go
  leaves the conversion of a float64 that does not fit a duration to the platform: it is the
  parameter \<open>oor\<close>, a function of the value.
\<close>

section \<open>Float64\<close>

definition pow2 :: "int \<Rightarrow> rat" where
  "pow2 k = (if 0 \<le> k then 2 ^ nat k else 1 / 2 ^ nat (- k))"

text \<open>The exponent \<open>e\<close> with \<open>2 ^ e \<le> x < 2 ^ (e + 1)\<close>, for a positive fraction.\<close>

definition ilog2 :: "rat \<Rightarrow> int" where
  "ilog2 x = (let (a, b) = quotient_of x;
                  e = int (floorlog 2 (nat a)) - int (floorlog 2 (nat b))
              in if pow2 e \<le> x then e else e - 1)"

text \<open>The nearest integer, ties to even.\<close>

definition round_even :: "rat \<Rightarrow> int" where
  "round_even x = (let f = \<lfloor>x\<rfloor>; r = x - of_int f
     in if r < 1 / 2 \<or> (r = 1 / 2 \<and> even f) then f else f + 1)"

text \<open>The nearest value with a 53-bit significand.\<close>

definition r64 :: "rat \<Rightarrow> rat" where
  "r64 x = (if x \<le> 0 then x else
     (let s = pow2 (ilog2 x - 52) in of_int (round_even (x / s)) * s))"


lemma pow2_pos: "0 < pow2 k"
  by (simp add: pow2_def)

lemma pow2_Suc: "pow2 (k + 1) = 2 * pow2 k"
proof (cases "0 \<le> k")
  case True
  then show ?thesis by (simp add: pow2_def nat_add_distrib)
next
  case False
  then have "nat (- k) = Suc (nat (- (k + 1)))" by linarith
  with False show ?thesis by (auto simp: pow2_def)
qed

lemma pow2_add_nat: "pow2 (k + int n) = 2 ^ n * pow2 k"
proof (induction n)
  case (Suc n)
  have "pow2 (k + int (Suc n)) = pow2 ((k + int n) + 1)" by (simp add: algebra_simps)
  with Suc show ?case by (simp only: pow2_Suc) simp
qed simp

lemma pow2_mono: "k \<le> l \<Longrightarrow> pow2 k \<le> pow2 l"
  using pow2_add_nat [of k "nat (l - k)"] pow2_pos [of k] by simp

lemma pow2_nat [simp]: "pow2 (int n) = 2 ^ n"
  by (simp add: pow2_def)

lemma pow2_diff: "pow2 (int m - int n) = 2 ^ m / 2 ^ n"
proof -
  have "2 ^ n * pow2 (int m - int n) = 2 ^ m"
    using pow2_add_nat [of "int m - int n" n] by simp
  then show ?thesis by (simp add: field_simps)
qed

lemma floorlog_pow:
  assumes "0 < n"
  shows "(2::rat) ^ (floorlog 2 n - 1) \<le> of_nat n" "of_nat n < (2::rat) ^ floorlog 2 n" "0 < floorlog 2 n"
proof -
  have "2 ^ (floorlog 2 n - 1) \<le> n \<and> n < 2 ^ floorlog 2 n"
    using floorlog_bounds [of n 2] assms by simp
  then show "(2::rat) ^ (floorlog 2 n - 1) \<le> of_nat n" "of_nat n < (2::rat) ^ floorlog 2 n"
    by (metis of_nat_le_iff of_nat_numeral of_nat_power, metis of_nat_less_iff of_nat_numeral of_nat_power)
  show "0 < floorlog 2 n" using assms by (simp add: floorlog_def)
qed

lemma ilog2_bounds:
  assumes "0 < x"
  shows "pow2 (ilog2 x) \<le> x" "x < pow2 (ilog2 x + 1)"
proof -
  obtain a b where q: "quotient_of x = (a, b)" by fastforce
  have b: "0 < b" using q by (rule quotient_of_denom_pos)
  have x: "x = of_int a / of_int b" using q by (rule quotient_of_div)
  with assms b have a: "0 < a" by (simp add: zero_less_divide_iff)
  define m n where "m = floorlog 2 (nat a)" and "n = floorlog 2 (nat b)"
  have ra: "(of_nat (nat a) :: rat) = of_int a" "(of_nat (nat b) :: rat) = of_int b" using a b by simp_all
  note fa = floorlog_pow [of "nat a", folded m_def, unfolded ra] and fb = floorlog_pow [of "nat b", folded n_def, unfolded ra]
  have a0: "0 < nat a" "0 < nat b" using a b by simp_all
  have up: "x < 2 ^ m / 2 ^ (n - 1)"
  proof -
    have "x < 2 ^ m / of_int b" using fa(2) [OF a0(1)] b by (simp add: x divide_strict_right_mono)
    also have "\<dots> \<le> 2 ^ m / 2 ^ (n - 1)" using fb(1) [OF a0(2)] b by (simp add: divide_left_mono)
    finally show ?thesis .
  qed
  have lo: "2 ^ (m - 1) / 2 ^ n \<le> x"
  proof -
    have "2 ^ (m - 1) / 2 ^ n \<le> (2 ^ (m - 1)) / (of_int b :: rat)"
      using fb(2) [OF a0(2)] b by (intro divide_left_mono) (auto intro: less_imp_le)
    also have "\<dots> \<le> x" using fa(1) [OF a0(1)] b by (simp add: x divide_right_mono)
    finally show ?thesis .
  qed
  define e where "e = int m - int n"
  have e: "ilog2 x = (if pow2 e \<le> x then e else e - 1)"
    using q by (simp add: ilog2_def m_def n_def e_def)
  have "pow2 (e + 1) = 2 ^ m / 2 ^ (n - 1)"
    using fb(3) [OF a0(2)] pow2_diff [of m "n - 1"] by (simp add: e_def of_nat_diff algebra_simps)
  moreover have "pow2 (e - 1) = 2 ^ (m - 1) / 2 ^ n"
    using fa(3) [OF a0(1)] pow2_diff [of "m - 1" n] by (simp add: e_def of_nat_diff algebra_simps)
  ultimately show "pow2 (ilog2 x) \<le> x" "x < pow2 (ilog2 x + 1)"
    using up lo e by auto
qed

lemma round_even_int [simp]: "round_even (of_int k) = k"
  by (simp add: round_even_def)

lemma round_even_ge: "of_int k \<le> x \<Longrightarrow> k \<le> round_even x"
  unfolding round_even_def Let_def by (auto simp: le_floor_iff) linarith+

lemma round_even_le: "of_int (round_even x) \<le> x + 1"
proof -
  have "of_int \<lfloor>x\<rfloor> \<le> x" by simp
  then show ?thesis unfolding round_even_def Let_def by (auto split: if_splits) linarith+
qed

lemma r64_int_exact:
  assumes "0 < k" "k < 2 ^ 53"
  shows "r64 (of_int k) = of_int k"
proof -
  let ?x = "of_int k :: rat" and ?e = "ilog2 (of_int k)"
  have "?x < pow2 (int 53)" using assms by (simp only: pow2_nat) (metis of_int_less_iff of_int_numeral of_int_power)
  with ilog2_bounds(1) [of ?x] assms(1) have "pow2 ?e < pow2 (int 53)" by simp
  moreover have "53 \<le> ?e \<Longrightarrow> pow2 (int 53) \<le> pow2 ?e" using pow2_mono [of 53 ?e] by simp
  ultimately have e: "?e \<le> 52" by linarith
  then obtain n where n: "52 - ?e = int n" using zero_le_imp_eq_int [of "52 - ?e"] by auto
  have "2 ^ n * pow2 (?e - 52) = 1"
    using pow2_add_nat [of "?e - 52" n] n by (simp add: pow2_def)
  then have s: "pow2 (?e - 52) = 1 / 2 ^ n" by (simp add: field_simps)
  have "round_even (?x / pow2 (?e - 52)) = k * 2 ^ n"
    using round_even_int [of "k * 2 ^ n"] by (simp add: s)
  then show ?thesis using assms(1) by (simp add: r64_def s)
qed

lemma r64_ge_1:
  assumes "1 \<le> x"
  shows "1 \<le> r64 x"
proof -
  let ?e = "ilog2 x"
  have b: "pow2 ?e \<le> x" "x < pow2 (?e + 1)" using ilog2_bounds [of x] assms by auto
  have e: "0 \<le> ?e"
  proof (rule ccontr)
    assume "\<not> 0 \<le> ?e"
    then have "pow2 (?e + 1) \<le> pow2 0" by (intro pow2_mono) simp
    with b assms show False by (simp add: pow2_def)
  qed
  have p: "pow2 ?e = 2 ^ 52 * pow2 (?e - 52)" using pow2_add_nat [of "?e - 52" 52] by simp
  have "of_int (2 ^ 52) \<le> x / pow2 (?e - 52)"
    using b(1) pow2_pos [of "?e - 52"] by (simp add: p field_simps)
  then have "2 ^ 52 \<le> round_even (x / pow2 (?e - 52))" by (rule round_even_ge)
  then have "(2 ^ 52 :: rat) \<le> of_int (round_even (x / pow2 (?e - 52)))"
    by (metis of_int_le_iff of_int_numeral of_int_power)
  then have "pow2 ?e \<le> of_int (round_even (x / pow2 (?e - 52))) * pow2 (?e - 52)"
    using pow2_pos [of "?e - 52"] p by (simp add: mult_right_mono)
  moreover have "1 \<le> pow2 ?e" using pow2_mono [OF e] by (simp add: pow2_def)
  ultimately show ?thesis using assms by (simp add: r64_def Let_def)
qed

lemma r64_le_double:
  assumes "1 \<le> x"
  shows "r64 x \<le> 2 * x"
proof -
  let ?s = "pow2 (ilog2 x - 52)"
  have s: "0 < ?s" by (rule pow2_pos)
  have "pow2 (ilog2 x) \<le> x" using ilog2_bounds [of x] assms by auto
  moreover have "pow2 (ilog2 x) = 2 ^ 52 * ?s" using pow2_add_nat [of "ilog2 x - 52" 52] by simp
  ultimately have one: "1 \<le> x / ?s" using s by (simp add: field_simps)
  have "of_int (round_even (x / ?s)) \<le> x / ?s + 1" by (rule round_even_le)
  with one have "of_int (round_even (x / ?s)) \<le> 2 * (x / ?s)" by linarith
  then have "of_int (round_even (x / ?s)) * ?s \<le> 2 * x" using s by (simp add: field_simps)
  then show ?thesis using assms by (simp add: r64_def Let_def)
qed

section \<open>BackoffPolicy\<close>

record backoff =
  bp_Initial :: duration
  bp_Max :: duration
  bp_Multiplier :: rat

abbreviation second :: duration where "second \<equiv> 1000000000"
abbreviation minute :: duration where "minute \<equiv> 60 * second"

text \<open>\<^verbatim>\<open>time.Duration(x)\<close> of a float64: truncated towards zero where the result fits.\<close>

definition to_duration :: "(rat \<Rightarrow> int) \<Rightarrow> rat \<Rightarrow> duration" where
  "to_duration oor x =
     (if - (2 ^ 63) - 1 < x \<and> x < 2 ^ 63 then (if 0 \<le> x then \<lfloor>x\<rfloor> else \<lceil>x\<rceil>) else oor x)"

fun delay_loop :: "(rat \<Rightarrow> int) \<Rightarrow> rat \<Rightarrow> duration \<Rightarrow> nat \<Rightarrow> rat \<Rightarrow> duration + rat" where
  "delay_loop oor multiplier maxDelay 0 delay = Inr delay"
| "delay_loop oor multiplier maxDelay (Suc n) delay =
     (let delay' = r64 (delay * multiplier) in
      if maxDelay \<le> to_duration oor delay' then Inl maxDelay
      else delay_loop oor multiplier maxDelay n delay')"

definition bp_initial :: "backoff \<Rightarrow> duration" where
  "bp_initial p = (if bp_Initial p \<le> 0 then 5 * second else bp_Initial p)"

definition bp_max :: "backoff \<Rightarrow> duration" where
  "bp_max p = (if bp_Max p \<le> 0 then 5 * minute else bp_Max p)"

definition bp_multiplier :: "backoff \<Rightarrow> rat" where
  "bp_multiplier p = (if bp_Multiplier p < 1 then 2 else bp_Multiplier p)"

definition Delay :: "(rat \<Rightarrow> int) \<Rightarrow> backoff \<Rightarrow> int \<Rightarrow> duration" where
  "Delay oor p attemptCount =
     (case delay_loop oor (bp_multiplier p) (bp_max p) (nat (attemptCount - 1)) (r64 (of_int (bp_initial p))) of
        Inl d \<Rightarrow> d
      | Inr d \<Rightarrow> let computed = to_duration oor d
                in if computed > bp_max p then bp_max p else computed)"

definition DefaultBackoffPolicy :: backoff where
  "DefaultBackoffPolicy = \<lparr>bp_Initial = 5 * second, bp_Max = 5 * minute, bp_Multiplier = 2\<rparr>"

definition emptyBackoff :: backoff where
  "emptyBackoff = \<lparr>bp_Initial = 0, bp_Max = 0, bp_Multiplier = 0\<rparr>"

lemma delay_loop_Inl: "delay_loop oor m x n d = Inl y \<Longrightarrow> y = x"
  by (induction n arbitrary: d) (auto simp: Let_def split: if_splits)

lemma Delay_le_max_raw: "Delay oor p n \<le> bp_max p"
  by (auto simp: Delay_def Let_def dest!: delay_loop_Inl split: sum.splits)

lemma bp_norm: "0 < bp_initial p" "0 < bp_max p" "1 \<le> bp_multiplier p"
  by (simp_all add: bp_initial_def bp_max_def bp_multiplier_def)

text \<open>No value leaves the range of a duration when the cap and the multiplier are moderate.\<close>

definition moderate :: "backoff \<Rightarrow> bool" where
  "moderate p = (bp_initial p \<le> bp_max p \<and> 8 * ((of_int (bp_max p) + 1) * bp_multiplier p) \<le> 2 ^ 63)"

lemma to_duration_floor: "1 \<le> x \<Longrightarrow> x < 2 ^ 63 \<Longrightarrow> to_duration oor x = \<lfloor>x\<rfloor>"
  by (simp add: to_duration_def)

lemma to_duration_int:
  assumes "0 \<le> k" "k < 2 ^ 63"
  shows "to_duration oor (of_int k) = k"
proof -
  have "(of_int k :: rat) < of_int (2 ^ 63)" using assms(2) by (simp only: of_int_less_iff)
  then show ?thesis using assms(1) by (simp add: to_duration_def)
qed

lemma delay_step_range:
  assumes "1 \<le> d" "d \<le> 2 * (of_int x + 1)" "1 \<le> m" "8 * ((of_int x + 1) * m) \<le> (2 ^ 63 :: rat)"
  shows "1 \<le> r64 (d * m)" "r64 (d * m) < 2 ^ 63"
proof -
  have dm: "1 \<le> d * m" using mult_mono [of 1 d 1 m] assms by simp
  then show "1 \<le> r64 (d * m)" by (rule r64_ge_1)
  have "r64 (d * m) \<le> 2 * (d * m)" using dm by (rule r64_le_double)
  also have "d * m \<le> 2 * (of_int x + 1) * m" using assms by (simp add: mult_right_mono)
  finally have "r64 (d * m) \<le> 4 * ((of_int x + 1) * m)" by (simp add: algebra_simps)
  moreover define q where "q = (of_int x + 1) * m"
  ultimately have "r64 (d * m) \<le> 4 * q" by simp
  moreover have "8 * q \<le> 2 ^ 63" using assms(4) by (simp only: q_def)
  ultimately show "r64 (d * m) < 2 ^ 63" by simp
qed

lemma delay_loop_range:
  assumes "1 \<le> m" "8 * ((of_int x + 1) * m) \<le> (2 ^ 63 :: rat)"
  shows "1 \<le> d \<Longrightarrow> d \<le> 2 * (of_int x + 1) \<Longrightarrow> delay_loop oor m x n d = Inr d' \<Longrightarrow>
    1 \<le> d' \<and> d' \<le> 2 * (of_int x + 1)"
proof (induction n arbitrary: d)
  case (Suc n)
  let ?e = "r64 (d * m)"
  have e: "1 \<le> ?e" "?e < 2 ^ 63" using delay_step_range [OF Suc.prems(1,2) assms] by auto
  then have f: "to_duration oor ?e = \<lfloor>?e\<rfloor>" by (rule to_duration_floor)
  with Suc.prems(3) have n: "\<lfloor>?e\<rfloor> < x" and l: "delay_loop oor m x n ?e = Inr d'"
    by (auto simp: Let_def split: if_splits)
  have "?e < of_int x" using n by (simp add: floor_less_iff)
  then have "?e \<le> 2 * (of_int x + 1)" using e(1) by simp
  with e(1) l Suc.IH show ?case by blast
qed simp

lemma Delay_pos_raw:
  assumes "moderate p"
  shows "1 \<le> Delay oor p n"
proof -
  let ?x = "bp_max p" and ?m = "bp_multiplier p" and ?d = "r64 (of_int (bp_initial p))"
  have i: "1 \<le> (of_int (bp_initial p) :: rat)" using bp_norm(1) [of p] by simp
  have m: "1 \<le> ?m" "8 * ((of_int ?x + 1) * ?m) \<le> 2 ^ 63" "bp_initial p \<le> ?x"
    using assms bp_norm(3) [of p] by (auto simp: moderate_def)
  have d: "1 \<le> ?d" "?d \<le> 2 * (of_int ?x + 1)"
    using r64_ge_1 [OF i] r64_le_double [OF i] m(3) by (auto intro: order_trans)
  have b: "2 * (of_int ?x + 1) < (2 ^ 63 :: rat)"
  proof -
    have "0 < (of_int ?x + 1 :: rat)" using bp_norm(2) [of p] by simp
    then have "(of_int ?x + 1) \<le> (of_int ?x + 1) * ?m" using m(1) by simp
    then have "8 * (of_int ?x + 1) \<le> 8 * ((of_int ?x + 1) * ?m)" by simp
    also note m(2)
    finally have "8 * (of_int ?x + 1) \<le> (2 ^ 63 :: rat)" .
    moreover have "0 < (of_int ?x :: rat)" using bp_norm(2) [of p] by simp
    ultimately show ?thesis by simp
  qed
  show ?thesis
  proof (cases "delay_loop oor ?m ?x (nat (n - 1)) ?d")
    case (Inl y)
    then show ?thesis using delay_loop_Inl [OF Inl] bp_norm(2) [of p] by (simp add: Delay_def)
  next
    case (Inr y)
    with delay_loop_range [OF m(1,2) d] have y: "1 \<le> y" "y \<le> 2 * (of_int ?x + 1)" by auto
    with b have "to_duration oor y = \<lfloor>y\<rfloor>" by (intro to_duration_floor) auto
    moreover have "1 \<le> \<lfloor>y\<rfloor>" using y(1) by simp
    ultimately show ?thesis using Inr bp_norm(2) [of p] by (simp add: Delay_def Let_def)
  qed
qed

text \<open>The default policy is exact: five seconds, doubled per attempt, capped at five minutes.\<close>

lemma delay_loop_default:
  "0 < k \<Longrightarrow> k < 5 * minute \<Longrightarrow>
   delay_loop oor 2 (5 * minute) n (of_int k) =
     (if 5 * minute \<le> k * 2 ^ n then Inl (5 * minute) else Inr (of_int (k * 2 ^ n)))"
proof (induction n arbitrary: k)
  case (Suc n)
  have r: "r64 (of_int k * 2) = of_int (k * 2)" using r64_int_exact [of "k * 2"] Suc.prems by simp
  have t: "to_duration oor (of_int (k * 2)) = k * 2"
    using Suc.prems by (intro to_duration_int) auto
  show ?case
  proof (cases "5 * minute \<le> k * 2")
    case True
    have "k * 2 ^ Suc n = 2 * (k * 2 ^ n)" "k \<le> k * 2 ^ n" using Suc.prems(1) by simp_all
    then have "5 * minute \<le> k * 2 ^ Suc n" using True by linarith
    then show ?thesis using True by (simp add: r t del: of_int_mult)
  next
    case False
    then show ?thesis using Suc.IH [of "k * 2"] Suc.prems
      by (simp add: r t Let_def algebra_simps del: of_int_mult)
  qed
qed simp

lemma Delay_default_raw:
  "Delay oor DefaultBackoffPolicy n = min (5 * minute) (5 * second * 2 ^ nat (n - 1))"
proof -
  have b: "bp_initial DefaultBackoffPolicy = 5 * second" "bp_max DefaultBackoffPolicy = 5 * minute"
    "bp_multiplier DefaultBackoffPolicy = 2"
    by (simp_all add: bp_initial_def bp_max_def bp_multiplier_def DefaultBackoffPolicy_def)
  have r: "r64 (of_int (5 * second)) = of_int (5 * second)" by (rule r64_int_exact) auto
  let ?k = "5 * second * 2 ^ nat (n - 1)"
  show ?thesis
  proof (cases "5 * minute \<le> ?k")
    case True
    then show ?thesis
      unfolding Delay_def b r using delay_loop_default [of "5 * second" oor "nat (n - 1)"] by simp
  next
    case False
    have "to_duration oor (of_int ?k) = ?k" using False by (intro to_duration_int) auto
    then show ?thesis
      unfolding Delay_def b r using False delay_loop_default [of "5 * second" oor "nat (n - 1)"]
      by (simp add: Let_def)
  qed
qed

section \<open>Properties\<close>

text \<open>C40: the retry delay never exceeds the cap of the policy, which is its maximum, or five minutes when it names none, whatever the
  policy and the attempt count are; and under a moderate policy (the first delay within the cap, cap and multiplier small
  enough for a duration) it is at least one nanosecond, so a retry is never refused for a negative delay.\<close>

theorem backoff_within_bounds:
  "Delay oor p n \<le> bp_max p \<and> (moderate p \<longrightarrow> 1 \<le> Delay oor p n)"
  using Delay_pos_raw Delay_le_max_raw by blast

theorem backoff_within_bounds_witness:
  "moderate emptyBackoff \<and> 1 \<le> Delay (\<lambda>_. - (2 ^ 63)) emptyBackoff 50 \<and>
   Delay (\<lambda>_. - (2 ^ 63)) emptyBackoff 50 \<le> 5 * minute"
proof -
  have m: "moderate emptyBackoff"
    by (simp add: moderate_def bp_initial_def bp_max_def bp_multiplier_def emptyBackoff_def)
  have "bp_max emptyBackoff = 5 * minute" by (simp add: bp_max_def emptyBackoff_def)
  with m backoff_within_bounds [of "\<lambda>_. - (2 ^ 63)" emptyBackoff 50] show ?thesis by simp
qed

text \<open>The default policy waits exactly five seconds after the first attempt, doubles the wait
  with every further attempt and stops growing at five minutes; no rounding of the float64
  arithmetic shows.\<close>

theorem default_backoff_exact:
  "Delay oor DefaultBackoffPolicy n = min (5 * minute) (5 * second * 2 ^ nat (n - 1))"
  by (rule Delay_default_raw)

end
