(* ===== verification/JobStore.thy ===== *)
theory JobStore
  imports JobLife Resource Backoff
begin

text \<open>
  The in-memory job repository
  (\<^verbatim>\<open>internal/application/command/jobs/memory_repository.go\<close>), the reference implementation
  of the repository contract: jobs by identifier, the attempts of every job, and the index of
  idempotency keys. Every operation runs under one lock, so it is one step: it takes the store and
  returns its result and the next store, also when it fails half way. Records are values, so the
  defensive copies of the code are the identity.
\<close>

section \<open>State and parameters\<close>

record repo =
  r_jobs :: "(string, job) gomap"
  r_attempts :: "(string, attempt list) gomap"
  r_idempotency :: "(string, string) gomap"

definition NewMemoryRepository :: repo where
  "NewMemoryRepository = \<lparr>r_jobs = [], r_attempts = [], r_idempotency = []\<rparr>"

record claim_params =
  cl_WorkerID :: string
  cl_MaxJobs :: int
  cl_LeaseTTL :: duration
  cl_Now :: gotime

record complete_params =
  co_JobID :: string
  co_WorkerID :: string
  co_ResultStatus :: attempt_status
  co_Retryable :: bool
  co_RetryDelay :: duration
  co_ErrorCode :: string
  co_ErrorMessage :: string
  co_EvidenceRef :: string
  co_Now :: gotime

type_synonym claimed_job = "job \<times> attempt"
type_synonym completion_result = "job \<times> attempt \<times> bool"

section \<open>Lookups\<close>

definition requireJob :: "repo \<Rightarrow> string \<Rightarrow> gerror + job" where
  "requireJob r jobID =
     (case mget (r_jobs r) (TrimSpace jobID) of None \<Rightarrow> Inl (bare ErrJobNotFound) | Some j \<Rightarrow> Inr j)"

text \<open>The scan for the active attempt goes from the last index down.\<close>

fun scan_active :: "attempt list \<Rightarrow> string \<Rightarrow> nat \<Rightarrow> gerror + attempt \<times> nat" where
  "scan_active attempts workerID 0 = Inl (bare ErrAttemptNotFound)"
| "scan_active attempts workerID (Suc idx) =
     (let candidate = attempts ! idx in
      if \<not> attempt_Active candidate then scan_active attempts workerID idx
      else if TrimSpace workerID \<noteq> [] \<and> a_WorkerID candidate \<noteq> TrimSpace workerID
      then Inl (bare ErrLeaseOwnerMismatch)
      else Inr (candidate, idx))"

definition activeAttempt :: "repo \<Rightarrow> string \<Rightarrow> string \<Rightarrow> gerror + attempt \<times> nat" where
  "activeAttempt r jobID workerID =
     (let attempts = mslice (r_attempts r) jobID in scan_active attempts workerID (length attempts))"

text \<open>Claim order: priority, then due instant, then age, then identifier.\<close>

definition claim_key :: "job \<Rightarrow> int \<times> gotime \<times> gotime \<times> string" where
  "claim_key j = (j_Priority j, j_NextRunAt j, j_CreatedAt j, j_ID j)"

definition claimableIDs :: "repo \<Rightarrow> gotime \<Rightarrow> string list" where
  "claimableIDs r now =
     map fst (sort_key (\<lambda>(i, j). claim_key j)
       (filter (\<lambda>(i, j). \<not> (\<not> CanClaim (j_Status j) \<or> \<not> Due j now)) (r_jobs r)))"

definition expiry_key :: "job \<Rightarrow> gotime \<times> string" where
  "expiry_key j = (j_LeaseExpireAt j, j_ID j)"

definition expiredLeaseIDs :: "repo \<Rightarrow> gotime \<Rightarrow> string list" where
  "expiredLeaseIDs r now =
     map fst (sort_key (\<lambda>(i, j). expiry_key j)
       (filter (\<lambda>(i, j). \<not> (\<not> IsLeased (j_Status j) \<or> \<not> LeaseExpired j now)) (r_jobs r)))"

section \<open>Commands\<close>

definition repo_insert :: "repo \<Rightarrow> job \<Rightarrow> repo" where
  "repo_insert r rec =
     r\<lparr>r_jobs := mput (j_ID rec) rec (r_jobs r),
       r_idempotency := mput (j_IdempotencyKey rec) (j_ID rec) (r_idempotency r)\<rparr>"

definition repo_Create :: "repo \<Rightarrow> job \<Rightarrow> (gerror + unit) \<times> repo" where
  "repo_Create r rec =
     (case mget (r_idempotency r) (j_IdempotencyKey rec) of
        Some existingID \<Rightarrow>
          if existingID \<noteq> [] then (Inl (bare ErrDuplicateJob), r) else (Inr (), repo_insert r rec)
      | None \<Rightarrow> (Inr (), repo_insert r rec))"

text \<open>
  \<^verbatim>\<open>EnsurePlanned\<close> reads \<^verbatim>\<open>r.jobs[existingID]\<close> without a check; \<open>zeroJob\<close> is the zero
  value it would return for a dangling index entry.
\<close>

definition zeroJob :: job where
  "zeroJob = \<lparr>j_ID = [], j_TenantID = [], j_ProjectID = [], j_EnvironmentID = [], j_JobType = [],
     j_AggregateType = [], j_AggregateID = [], j_Status = StatusOther [], j_Priority = 0,
     j_Payload = [], j_IdempotencyKey = [], j_LeaseOwner = [], j_LeaseExpireAt = zeroTime,
     j_AttemptCount = 0, j_MaxAttempts = 0, j_NextRunAt = zeroTime, j_LastErrorCode = [],
     j_LastErrorMessage = [], j_Version = 0, j_CreatedAt = zeroTime, j_UpdatedAt = zeroTime\<rparr>"

definition jobAt :: "repo \<Rightarrow> string \<Rightarrow> job" where
  "jobAt r i = (case mget (r_jobs r) i of None \<Rightarrow> zeroJob | Some j \<Rightarrow> j)"

definition repo_EnsurePlanned :: "repo \<Rightarrow> job \<Rightarrow> (gerror + job \<times> bool) \<times> repo" where
  "repo_EnsurePlanned r rec =
     (case mget (r_idempotency r) (j_IdempotencyKey rec) of
        Some existingID \<Rightarrow> (Inr (jobAt r existingID, False), r)
      | None \<Rightarrow> (Inr (rec, True), repo_insert r rec))"

text \<open>
  The claim loop. \<open>rnd i\<close> is what \<^verbatim>\<open>rand.Read\<close> yields for the attempt of job \<open>i\<close>;
  a job is visited at most once per call.
\<close>

fun claim_loop ::
  "claim_params \<Rightarrow> (string \<Rightarrow> rawbytes option) \<Rightarrow> string list \<Rightarrow> claimed_job list \<Rightarrow> repo
   \<Rightarrow> claimed_job list \<times> repo" where
  "claim_loop p rnd [] results r = (results, r)"
| "claim_loop p rnd (i # ids) results r =
     (if cl_MaxJobs p \<le> int (length results) then (results, r)
      else case job_Claim (jobAt r i) (cl_WorkerID p) (cl_LeaseTTL p) (cl_Now p) (rnd i) of
        Inl e \<Rightarrow> claim_loop p rnd ids results r
      | Inr (nxt, a) \<Rightarrow>
          claim_loop p rnd ids (results @ [(nxt, a)])
            (r\<lparr>r_jobs := mput i nxt (r_jobs r),
               r_attempts := mput i (mslice (r_attempts r) i @ [a]) (r_attempts r)\<rparr>))"

definition repo_Claim ::
  "repo \<Rightarrow> claim_params \<Rightarrow> (string \<Rightarrow> rawbytes option) \<Rightarrow> (gerror + claimed_job list) \<times> repo" where
  "repo_Claim r p rnd =
     (if TrimSpace (cl_WorkerID p) = [] then (Inl (Err ErrInvalidJob ''worker id required''), r)
      else
        let p' = (if cl_MaxJobs p \<le> 0 then p\<lparr>cl_MaxJobs := 1\<rparr> else p);
            (results, r') = claim_loop p' rnd (claimableIDs r (cl_Now p')) [] r
        in (Inr results, r'))"

definition repo_MarkRunning ::
  "repo \<Rightarrow> string \<Rightarrow> string \<Rightarrow> gotime \<Rightarrow> (gerror + job) \<times> repo" where
  "repo_MarkRunning r jobID workerID now =
     (case requireJob r jobID of
        Inl e \<Rightarrow> (Inl e, r)
      | Inr rec \<Rightarrow>
          (case activeAttempt r (j_ID rec) workerID of
             Inl e \<Rightarrow> (Inl e, r)
           | Inr _ \<Rightarrow>
               (case job_MarkRunning rec workerID now of
                  Inl e \<Rightarrow> (Inl e, r)
                | Inr nxt \<Rightarrow> (Inr nxt, r\<lparr>r_jobs := mput (j_ID rec) nxt (r_jobs r)\<rparr>))))"

text \<open>Storing the next job together with the next state of one of its attempts.\<close>

definition put_both :: "repo \<Rightarrow> string \<Rightarrow> job \<Rightarrow> nat \<Rightarrow> attempt \<Rightarrow> repo" where
  "put_both r i nextJob idx nextAttempt =
     r\<lparr>r_jobs := mput i nextJob (r_jobs r),
       r_attempts := mput i ((mslice (r_attempts r) i)[idx := nextAttempt]) (r_attempts r)\<rparr>"

definition repo_Heartbeat ::
  "repo \<Rightarrow> string \<Rightarrow> string \<Rightarrow> duration \<Rightarrow> gotime \<Rightarrow> (gerror + job \<times> attempt) \<times> repo" where
  "repo_Heartbeat r jobID workerID leaseTTL now =
     (case requireJob r jobID of
        Inl e \<Rightarrow> (Inl e, r)
      | Inr rec \<Rightarrow>
          (case job_Renew rec workerID leaseTTL now of
             Inl e \<Rightarrow> (Inl e, r)
           | Inr nextJob \<Rightarrow>
               (case activeAttempt r (j_ID rec) workerID of
                  Inl e \<Rightarrow> (Inl e, r)
                | Inr (active, idx) \<Rightarrow>
                    (case attempt_Heartbeat active now of
                       Inl e \<Rightarrow> (Inl e, r)
                     | Inr nextAttempt \<Rightarrow>
                         (Inr (nextJob, nextAttempt), put_both r (j_ID rec) nextJob idx nextAttempt)))))"

definition completeLocked ::
  "job \<Rightarrow> attempt \<Rightarrow> complete_params \<Rightarrow> failure \<Rightarrow> gerror + job \<times> attempt" where
  "completeLocked rec active p fl =
     (let w = co_WorkerID p; now = co_Now p;
          both = (\<lambda>rj ra. case rj of Inl e \<Rightarrow> Inl e
                   | Inr nextJob \<Rightarrow> (case ra of Inl e \<Rightarrow> Inl e | Inr nextAttempt \<Rightarrow> Inr (nextJob, nextAttempt)))
      in case co_ResultStatus p of
           AttemptStatusSucceeded \<Rightarrow>
             both (job_MarkSucceeded rec w now) (attempt_MarkSucceeded active now (co_EvidenceRef p))
         | AttemptStatusTimedOut \<Rightarrow>
             both (job_MarkTimedOut rec w fl now) (attempt_MarkTimedOut active now fl)
         | AttemptStatusAbandoned \<Rightarrow>
             both (job_MarkTimedOut rec w fl now) (attempt_MarkAbandoned active now fl)
         | _ \<Rightarrow>
             both (job_MarkFailed rec w fl now) (attempt_MarkFailed active now fl))"

text \<open>The retry decision after a completion: executor intent and retry budget.\<close>

definition retry_completed :: "job \<Rightarrow> complete_params \<Rightarrow> job \<times> bool" where
  "retry_completed nextJob p =
     (if co_Retryable p \<and> CanRetry nextJob \<and> j_Status nextJob \<noteq> StatusSucceeded
      then (case job_ScheduleRetry nextJob (co_RetryDelay p) (co_Now p) of
              Inl _ \<Rightarrow> (nextJob, False) | Inr retried \<Rightarrow> (retried, True))
      else (nextJob, False))"

definition repo_Complete ::
  "repo \<Rightarrow> complete_params \<Rightarrow> (gerror + completion_result) \<times> repo" where
  "repo_Complete r p =
     (case requireJob r (co_JobID p) of
        Inl e \<Rightarrow> (Inl e, r)
      | Inr rec \<Rightarrow>
          (case activeAttempt r (j_ID rec) (co_WorkerID p) of
             Inl e \<Rightarrow> (Inl e, r)
           | Inr (active, idx) \<Rightarrow>
               (case completeLocked rec active p
                       \<lparr>f_Code = co_ErrorCode p, f_Message = co_ErrorMessage p\<rparr> of
                  Inl e \<Rightarrow> (Inl e, r)
                | Inr (done, nextAttempt) \<Rightarrow>
                    let (nextJob, retryScheduled) = retry_completed done p
                    in (Inr (nextJob, nextAttempt, retryScheduled),
                        put_both r (j_ID rec) nextJob idx nextAttempt))))"

text \<open>\<^verbatim>\<open>Cancel\<close> closes the active attempt before it knows whether the job can be cancelled.\<close>

definition cancel_attempt :: "repo \<Rightarrow> job \<Rightarrow> gotime \<Rightarrow> repo" where
  "cancel_attempt r rec now =
     (case activeAttempt r (j_ID rec) (j_LeaseOwner rec) of
        Inl _ \<Rightarrow> r
      | Inr (active, idx) \<Rightarrow>
          (case attempt_MarkAbandoned active now \<lparr>f_Code = ''cancelled'', f_Message = ''job cancelled''\<rparr> of
             Inl _ \<Rightarrow> r
           | Inr a \<Rightarrow> r\<lparr>r_attempts :=
               mput (j_ID rec) ((mslice (r_attempts r) (j_ID rec))[idx := a]) (r_attempts r)\<rparr>))"

definition repo_Cancel :: "repo \<Rightarrow> string \<Rightarrow> gotime \<Rightarrow> (gerror + job) \<times> repo" where
  "repo_Cancel r jobID now =
     (case requireJob r jobID of
        Inl e \<Rightarrow> (Inl e, r)
      | Inr rec \<Rightarrow>
          let r' = cancel_attempt r rec now in
          (case job_Cancel rec now of
             Inl e \<Rightarrow> (Inl e, r')
           | Inr nxt \<Rightarrow> (Inr nxt, r'\<lparr>r_jobs := mput (j_ID rec) nxt (r_jobs r')\<rparr>)))"

text \<open>
  One turn of the reaper's loop, with the delay of the retry policy as a function of the attempt
  count.
\<close>

definition retry_reaped :: "job \<Rightarrow> (int \<Rightarrow> duration) \<Rightarrow> gotime \<Rightarrow> job \<times> bool" where
  "retry_reaped expiredJob delay now =
     (if CanRetry expiredJob
      then (case job_ScheduleRetry expiredJob (delay (j_AttemptCount expiredJob)) now of
              Inl _ \<Rightarrow> (expiredJob, False) | Inr retried \<Rightarrow> (retried, True))
      else (expiredJob, False))"

definition reap_one ::
  "repo \<Rightarrow> (int \<Rightarrow> duration) \<Rightarrow> gotime \<Rightarrow> string \<Rightarrow> gerror + completion_result \<times> repo" where
  "reap_one r delay now i =
     (let rec = jobAt r i in
      case activeAttempt r (j_ID rec) (j_LeaseOwner rec) of
        Inl e \<Rightarrow> Inl e
      | Inr (active, idx) \<Rightarrow>
          (case job_ExpireLease rec now
                  \<lparr>f_Code = ''lease_expired'', f_Message = ''worker lease expired before completion''\<rparr> of
             Inl e \<Rightarrow> Inl e
           | Inr (expiredJob, attemptStatus) \<Rightarrow>
               (case (if attemptStatus = AttemptStatusAbandoned
                      then attempt_MarkAbandoned active now
                        \<lparr>f_Code = ''lease_expired'', f_Message = ''worker lost before execution started''\<rparr>
                      else attempt_MarkTimedOut active now
                        \<lparr>f_Code = ''lease_expired'', f_Message = ''worker lost during execution''\<rparr>) of
                  Inl e \<Rightarrow> Inl e
                | Inr nextAttempt \<Rightarrow>
                    let (nextJob, retryScheduled) = retry_reaped expiredJob delay now
                    in Inr ((nextJob, nextAttempt, retryScheduled), put_both r i nextJob idx nextAttempt))))"

fun reap_loop ::
  "(int \<Rightarrow> duration) \<Rightarrow> gotime \<Rightarrow> string list \<Rightarrow> completion_result list \<Rightarrow> repo
   \<Rightarrow> (gerror + completion_result list) \<times> repo" where
  "reap_loop delay now [] results r = (Inr results, r)"
| "reap_loop delay now (i # ids) results r =
     (case reap_one r delay now i of
        Inl e \<Rightarrow> (Inl e, r)
      | Inr (res, r') \<Rightarrow> reap_loop delay now ids (results @ [res]) r')"

definition reap_ids :: "repo \<Rightarrow> gotime \<Rightarrow> int \<Rightarrow> string list" where
  "reap_ids r now limit =
     (let ids = expiredLeaseIDs r now
      in if 0 < limit \<and> limit < int (length ids) then take (nat limit) ids else ids)"

definition repo_ReapExpired ::
  "repo \<Rightarrow> gotime \<Rightarrow> int \<Rightarrow> (int \<Rightarrow> duration) \<Rightarrow> (gerror + completion_result list) \<times> repo" where
  "repo_ReapExpired r now limit delay = reap_loop delay now (reap_ids r now limit) [] r"

section \<open>Queries\<close>

definition repo_Get :: "repo \<Rightarrow> string \<Rightarrow> gerror + job" where
  "repo_Get r jobID = requireJob r jobID"

definition repo_GetByIdempotency :: "repo \<Rightarrow> string \<Rightarrow> gerror + job" where
  "repo_GetByIdempotency r key =
     (case mget (r_idempotency r) (TrimSpace key) of
        None \<Rightarrow> Inl (bare ErrJobNotFound)
      | Some i \<Rightarrow> (case mget (r_jobs r) i of None \<Rightarrow> Inl (bare ErrJobNotFound) | Some j \<Rightarrow> Inr j))"

definition repo_Attempts :: "repo \<Rightarrow> string \<Rightarrow> gerror + attempt list" where
  "repo_Attempts r jobID =
     (case requireJob r jobID of Inl e \<Rightarrow> Inl e | Inr _ \<Rightarrow> Inr (mslice (r_attempts r) jobID))"

definition repo_List :: "repo \<Rightarrow> scope \<Rightarrow> gerror + job list" where
  "repo_List r sc =
     (case scope_Validate sc of
        Some e \<Rightarrow> Inl e
      | None \<Rightarrow> Inr (sort_key (\<lambda>j. (j_CreatedAt j, j_ID j))
          (filter (\<lambda>j. \<not> (j_TenantID j \<noteq> TenantID sc \<or> j_ProjectID j \<noteq> ProjectID sc \<or>
                         j_EnvironmentID j \<noteq> EnvironmentID sc)) (map snd (r_jobs r)))))"

definition repo_Jobs :: "repo \<Rightarrow> job list" where
  "repo_Jobs r = sort_key j_CreatedAt (map snd (r_jobs r))"

end
