(* ===== verification/JobStoreInv.thy ===== *)
theory JobStoreInv
  imports JobStore
begin

text \<open>
  The invariant of the job repository and its abstract view, the ledger. Every command of the
  repository keeps the invariant, moves the ledger along its steps and lets every stored job only
  evolve (\<open>good_step\<close>).
\<close>

section \<open>The invariant\<close>

text \<open>
  The history of a job: the attempts are numbered from one, belong to the job, and only the last
  one may be active, which it is exactly while the job is leased, and then it runs under the
  lease owner.
\<close>

definition attempts_ok :: "job \<Rightarrow> attempt list \<Rightarrow> bool" where
  "attempts_ok j as =
     (map a_AttemptNo as = [1..j_AttemptCount j] \<and> (\<forall>a \<in> set as. a_JobID a = j_ID j) \<and>
      (if IsLeased (j_Status j)
       then as \<noteq> [] \<and> attempt_Active (last as) \<and> a_WorkerID (last as) = j_LeaseOwner j \<and>
            (\<forall>a \<in> set (butlast as). \<not> attempt_Active a)
       else \<forall>a \<in> set as. \<not> attempt_Active a))"

definition repo_wf :: "repo \<Rightarrow> bool" where
  "repo_wf r =
     (mwf (r_jobs r) \<and> mwf (r_attempts r) \<and> mwf (r_idempotency r) \<and>
      (\<forall>i j. mget (r_jobs r) i = Some j \<longrightarrow>
         j_ID j = i \<and> job_wf j \<and> attempts_ok j (mslice (r_attempts r) i) \<and>
         mget (r_idempotency r) (j_IdempotencyKey j) = Some i) \<and>
      (\<forall>k i. mget (r_idempotency r) k = Some i \<longrightarrow>
         (\<exists>j. mget (r_jobs r) i = Some j \<and> j_IdempotencyKey j = k)) \<and>
      (\<forall>i. mget (r_jobs r) i = None \<longrightarrow> mslice (r_attempts r) i = []))"

lemma repo_wfD:
  assumes "repo_wf r" "mget (r_jobs r) i = Some j"
  shows "j_ID j = i" "job_wf j" "attempts_ok j (mslice (r_attempts r) i)"
    "mget (r_idempotency r) (j_IdempotencyKey j) = Some i" "TrimSpace i = i" "i \<noteq> []"
  using assms by (auto simp: repo_wf_def job_wf_def)

lemma repo_wf_New [simp]: "repo_wf NewMemoryRepository"
  by (simp add: repo_wf_def NewMemoryRepository_def mslice_def)

section \<open>The active attempt\<close>

lemma scan_inactive:
  "\<forall>a \<in> set as. \<not> attempt_Active a \<Longrightarrow> n \<le> length as \<Longrightarrow> scan_active as w n = Inl (bare ErrAttemptNotFound)"
  by (induction n) (auto simp: Let_def)

lemma scan_last:
  "attempt_Active a \<Longrightarrow> scan_active (bs @ [a]) w (length (bs @ [a])) =
     (if TrimSpace w \<noteq> [] \<and> a_WorkerID a \<noteq> TrimSpace w then Inl (bare ErrLeaseOwnerMismatch)
      else Inr (a, length bs))"
  by (simp add: Let_def nth_append)

lemma attempts_ok_leased:
  "attempts_ok j as \<Longrightarrow> IsLeased (j_Status j) \<Longrightarrow>
   \<exists>bs a. as = bs @ [a] \<and> attempt_Active a \<and> a_WorkerID a = j_LeaseOwner j \<and> (\<forall>b \<in> set bs. \<not> attempt_Active b)"
  by (auto simp: attempts_ok_def intro!: exI [of _ "butlast as"] exI [of _ "last as"])

lemma attempts_ok_idle:
  "attempts_ok j as \<Longrightarrow> \<not> IsLeased (j_Status j) \<Longrightarrow> \<forall>a \<in> set as. \<not> attempt_Active a"
  by (simp add: attempts_ok_def)

lemma activeAttempt_wf:
  assumes "repo_wf r" "mget (r_jobs r) i = Some j"
  shows "activeAttempt r i w =
    (if \<not> IsLeased (j_Status j) then Inl (bare ErrAttemptNotFound)
     else if TrimSpace w \<noteq> [] \<and> j_LeaseOwner j \<noteq> TrimSpace w then Inl (bare ErrLeaseOwnerMismatch)
     else Inr (last (mslice (r_attempts r) i), length (mslice (r_attempts r) i) - 1))"
proof (cases "IsLeased (j_Status j)")
  case True
  with repo_wfD(3) [OF assms] obtain bs a where "mslice (r_attempts r) i = bs @ [a]" "attempt_Active a"
    "a_WorkerID a = j_LeaseOwner j"
    using attempts_ok_leased by blast
  with True show ?thesis by (simp add: activeAttempt_def Let_def nth_append)
next
  case False
  with repo_wfD(3) [OF assms] show ?thesis
    by (simp add: activeAttempt_def scan_inactive attempts_ok_idle)
qed

text \<open>What an operation on one job does to its attempts.\<close>

lemma attempts_ok_cong:
  assumes "attempts_ok j as" "j_ID j' = j_ID j" "j_AttemptCount j' = j_AttemptCount j"
    "IsLeased (j_Status j')" "IsLeased (j_Status j)" "j_LeaseOwner j' = j_LeaseOwner j"
  shows "attempts_ok j' as"
  using assms by (simp add: attempts_ok_def)

lemma upto_snoc: "0 \<le> n \<Longrightarrow> [1..n + 1] = [1..n] @ [n + 1 :: int]"
  using upto_rec2 [of 1 "n + 1"] by simp

lemma attempts_ok_claim:
  assumes "attempts_ok j as" "\<not> IsLeased (j_Status j)" "IsLeased (j_Status j')" "j_ID j' = j_ID j"
    "0 \<le> j_AttemptCount j" "j_AttemptCount j' = j_AttemptCount j + 1"
    "a_JobID a = j_ID j" "a_AttemptNo a = j_AttemptCount j + 1" "attempt_Active a"
    "a_WorkerID a = j_LeaseOwner j'"
  shows "attempts_ok j' (as @ [a])"
  using assms by (simp add: attempts_ok_def upto_snoc)

lemma attempts_ok_close:
  assumes "attempts_ok j as" "IsLeased (j_Status j)" "\<not> IsLeased (j_Status j')" "j_ID j' = j_ID j"
    "j_AttemptCount j' = j_AttemptCount j"
    "a_JobID a = a_JobID (last as)" "a_AttemptNo a = a_AttemptNo (last as)" "\<not> attempt_Active a"
  shows "attempts_ok j' (as[length as - 1 := a])"
proof -
  obtain bs b where as: "as = bs @ [b]" "\<forall>c \<in> set bs. \<not> attempt_Active c"
    using attempts_ok_leased [OF assms(1,2)] by blast
  with assms show ?thesis by (auto simp: attempts_ok_def)
qed

lemma attempts_ok_touch:
  assumes "attempts_ok j as" "IsLeased (j_Status j)" "IsLeased (j_Status j')" "j_ID j' = j_ID j"
    "j_AttemptCount j' = j_AttemptCount j" "j_LeaseOwner j' = j_LeaseOwner j"
    "a_JobID a = a_JobID (last as)" "a_AttemptNo a = a_AttemptNo (last as)" "attempt_Active a"
    "a_WorkerID a = a_WorkerID (last as)"
  shows "attempts_ok j' (as[length as - 1 := a])"
proof -
  obtain bs b where as: "as = bs @ [b]" "\<forall>c \<in> set bs. \<not> attempt_Active c"
    using attempts_ok_leased [OF assms(1,2)] by blast
  with assms show ?thesis by (auto simp: attempts_ok_def)
qed

lemma NewAttempt_fields:
  "NewAttempt i n w now rnd = Inr a \<Longrightarrow>
   a_JobID a = TrimSpace i \<and> a_AttemptNo a = n \<and> a_WorkerID a = TrimSpace w \<and> attempt_Active a"
  by (auto simp: job_ok attempt_Active_def)

lemma attempt_close_fields:
  "attempt_MarkSucceeded a now ev = Inr b \<Longrightarrow> a_JobID b = a_JobID a \<and> a_AttemptNo b = a_AttemptNo a \<and> \<not> attempt_Active b"
  "attempt_MarkFailed a now fl = Inr b \<Longrightarrow> a_JobID b = a_JobID a \<and> a_AttemptNo b = a_AttemptNo a \<and> \<not> attempt_Active b"
  "attempt_MarkTimedOut a now fl = Inr b \<Longrightarrow> a_JobID b = a_JobID a \<and> a_AttemptNo b = a_AttemptNo a \<and> \<not> attempt_Active b"
  "attempt_MarkAbandoned a now fl = Inr b \<Longrightarrow> a_JobID b = a_JobID a \<and> a_AttemptNo b = a_AttemptNo a \<and> \<not> attempt_Active b"
  by (auto simp: attempt_MarkSucceeded_def attempt_MarkFailed_def attempt_MarkTimedOut_def
      attempt_MarkAbandoned_def attempt_finish_def attempt_Active_def split: if_splits)

lemma attempt_close_total:
  assumes "attempt_Active a"
  shows "\<exists>b. attempt_MarkSucceeded a now ev = Inr b" "\<exists>b. attempt_MarkFailed a now fl = Inr b"
    "\<exists>b. attempt_MarkTimedOut a now fl = Inr b" "\<exists>b. attempt_MarkAbandoned a now fl = Inr b"
    "\<exists>b. attempt_Heartbeat a now = Inr b"
  using assms by (auto simp: attempt_MarkSucceeded_def attempt_MarkFailed_def attempt_MarkTimedOut_def
      attempt_MarkAbandoned_def attempt_finish_def attempt_Heartbeat_def)

lemma attempt_Heartbeat_fields:
  "attempt_Heartbeat a now = Inr b \<Longrightarrow>
   a_JobID b = a_JobID a \<and> a_AttemptNo b = a_AttemptNo a \<and> a_WorkerID b = a_WorkerID a \<and> attempt_Active b"
  by (auto simp: attempt_Heartbeat_def attempt_Active_def split: if_splits)

section \<open>The ledger: what the store promises\<close>

text \<open>
  The abstract view of the store: every job is queued, held by one worker, or done, and carries
  the number of executions it has had. The ledger admits a job once, grants it to one worker at
  a time while its budget lasts, and takes it back.
\<close>

datatype phase = Queued int | Held string int | Done

definition abs_job :: "job \<Rightarrow> phase" where
  "abs_job j =
     (if IsLeased (j_Status j) then Held (j_LeaseOwner j) (j_AttemptCount j)
      else if CanClaim (j_Status j) then Queued (j_AttemptCount j) else Done)"

definition abs_repo :: "repo \<Rightarrow> string \<Rightarrow> phase option" where
  "abs_repo r i = map_option abs_job (mget (r_jobs r) i)"

fun phase_next :: "phase \<Rightarrow> phase \<Rightarrow> bool" where
  "phase_next (Queued n) (Held w m) = (m = n + 1)"
| "phase_next (Queued n) Done = True"
| "phase_next (Queued n) (Queued m) = (m = n)"
| "phase_next (Held w n) (Queued m) = (m = n)"
| "phase_next (Held w n) Done = True"
| "phase_next (Held w n) (Held v m) = (v = w \<and> m = n)"
| "phase_next Done Done = True"
| "phase_next _ _ = False"

inductive ledger_step :: "(string \<Rightarrow> phase option) \<Rightarrow> (string \<Rightarrow> phase option) \<Rightarrow> bool" where
  admit: "l i = None \<Longrightarrow> ledger_step l (l(i := Some (Queued 0)))"
| advance: "l i = Some p \<Longrightarrow> phase_next p q \<Longrightarrow> ledger_step l (l(i := Some q))"

section \<open>Steps that keep the store good\<close>

definition same_ident :: "job \<Rightarrow> job \<Rightarrow> bool" where
  "same_ident j j' =
     (j_ID j' = j_ID j \<and> j_TenantID j' = j_TenantID j \<and> j_ProjectID j' = j_ProjectID j \<and>
      j_EnvironmentID j' = j_EnvironmentID j \<and> j_JobType j' = j_JobType j \<and>
      j_AggregateID j' = j_AggregateID j \<and> j_Payload j' = j_Payload j \<and>
      j_IdempotencyKey j' = j_IdempotencyKey j \<and> j_MaxAttempts j' = j_MaxAttempts j \<and>
      j_Priority j' = j_Priority j \<and> j_CreatedAt j' = j_CreatedAt j)"

lemma same_ident_refl [simp]: "same_ident j j"
  and same_ident_trans: "same_ident j k \<Longrightarrow> same_ident k l \<Longrightarrow> same_ident j l"
  by (auto simp: same_ident_def)

lemma job_apply_same_ident: "job_apply j now opr = Inr j' \<Longrightarrow> same_ident j j'"
  by (simp add: same_ident_def job_apply_frame)

definition evolves :: "job \<Rightarrow> job \<Rightarrow> bool" where
  "evolves j j' =
     (same_ident j j' \<and> j_AttemptCount j \<le> j_AttemptCount j' \<and>
      (status_IsTerminal (j_Status j) \<longrightarrow> j' = j))"

lemma evolves_refl [simp]: "evolves j j"
  by (simp add: evolves_def)

lemma evolves_trans: "evolves j k \<Longrightarrow> evolves k l \<Longrightarrow> evolves j l"
  by (auto simp: evolves_def intro: same_ident_trans)

definition good_step :: "repo \<Rightarrow> repo \<Rightarrow> bool" where
  "good_step r r' =
     (repo_wf r' \<and> ledger_step\<^sup>*\<^sup>* (abs_repo r) (abs_repo r') \<and>
      (\<forall>i j. mget (r_jobs r) i = Some j \<longrightarrow> (\<exists>j'. mget (r_jobs r') i = Some j' \<and> evolves j j')))"

lemma good_refl: "repo_wf r \<Longrightarrow> good_step r r"
  by (simp add: good_step_def)

lemma good_trans: "good_step r r' \<Longrightarrow> good_step r' r'' \<Longrightarrow> good_step r r''"
  unfolding good_step_def by (blast intro: rtranclp_trans evolves_trans)

lemma good_update:
  assumes wf: "repo_wf r" and at: "mget (r_jobs r) i = Some j"
    and new: "job_wf j'" "same_ident j j'" "phase_next (abs_job j) (abs_job j')"
      "j_AttemptCount j \<le> j_AttemptCount j'" "\<not> status_IsTerminal (j_Status j)"
    and att: "mwf as'" "attempts_ok j' (mslice as' i)" "\<And>k. k \<noteq> i \<Longrightarrow> mslice as' k = mslice (r_attempts r) k"
  shows "good_step r (r\<lparr>r_jobs := mput i j' (r_jobs r), r_attempts := as'\<rparr>)" (is "good_step r ?r")
proof -
  have id: "j_ID j' = i" "j_IdempotencyKey j' = j_IdempotencyKey j"
    using new(2) repo_wfD(1) [OF wf at] by (auto simp: same_ident_def)
  have "repo_wf ?r"
    unfolding repo_wf_def
  proof (intro conjI allI impI)
    fix k l assume "mget (r_idempotency ?r) k = Some l"
    then have "mget (r_idempotency r) k = Some l" by simp
    with wf obtain m where "mget (r_jobs r) l = Some m" "j_IdempotencyKey m = k"
      unfolding repo_wf_def by blast
    with at id(2) show "\<exists>j. mget (r_jobs ?r) l = Some j \<and> j_IdempotencyKey j = k" by auto
  next
    fix k assume "mget (r_jobs ?r) k = None"
    then show "mslice (r_attempts ?r) k = []"
      using wf att(3) unfolding repo_wf_def by (auto split: if_splits)
  qed (use wf new(1) att id repo_wfD [OF wf at] repo_wfD [OF wf] in \<open>auto simp: repo_wf_def split: if_splits\<close>)
  moreover have "ledger_step (abs_repo r) (abs_repo ?r)"
  proof -
    have "abs_repo ?r = (abs_repo r)(i := Some (abs_job j'))"
      by (auto simp: abs_repo_def fun_eq_iff)
    moreover have "abs_repo r i = Some (abs_job j)" by (simp add: abs_repo_def at)
    ultimately show ?thesis using new(3) by (auto intro: ledger_step.advance)
  qed
  ultimately show ?thesis using at new by (auto simp: good_step_def evolves_def)
qed

end
