(* ===== verification/JobStoreOps.thy ===== *)
theory JobStoreOps
  imports JobStoreInv
begin

text \<open>
  Every command of the in-memory job repository, analysed on a well-formed store: it keeps the
  invariant, moves the ledger along its steps and lets stored jobs only evolve. The reaper's loop
  is shown never to fail.
\<close>

lemma good_insert:
  assumes wf: "repo_wf r" and new: "job_wf j" "j_Status j = StatusPending"
    "mget (r_jobs r) (j_ID j) = None" "mget (r_idempotency r) (j_IdempotencyKey j) = None"
  shows "good_step r (repo_insert r j)" (is "good_step r ?r")
proof -
  have zero: "j_AttemptCount j = 0" using new(1,2) by (simp add: job_wf_def)
  have "repo_wf ?r"
    unfolding repo_wf_def
  proof (intro conjI allI impI)
    fix k l assume k: "mget (r_idempotency ?r) k = Some l"
    show "\<exists>m. mget (r_jobs ?r) l = Some m \<and> j_IdempotencyKey m = k"
    proof (cases "k = j_IdempotencyKey j")
      case True
      with k show ?thesis by (simp add: repo_insert_def)
    next
      case False
      with k have "mget (r_idempotency r) k = Some l" by (simp add: repo_insert_def)
      with wf obtain m where "mget (r_jobs r) l = Some m" "j_IdempotencyKey m = k"
        unfolding repo_wf_def by blast
      with new(3) show ?thesis by (auto simp: repo_insert_def)
    qed
  next
    fix k m assume m: "mget (r_jobs ?r) k = Some m"
    show "mget (r_idempotency ?r) (j_IdempotencyKey m) = Some k"
    proof (cases "k = j_ID j")
      case True
      with m show ?thesis by (simp add: repo_insert_def)
    next
      case False
      with m have "mget (r_jobs r) k = Some m" by (simp add: repo_insert_def)
      from repo_wfD(4) [OF wf this] new(4) show ?thesis by (auto simp: repo_insert_def)
    qed
    show "attempts_ok m (mslice (r_attempts ?r) k)"
      using m wf new zero by (auto simp: repo_insert_def repo_wf_def attempts_ok_def split: if_splits)
    show "job_wf m" "j_ID m = k"
      using m wf new by (auto simp: repo_insert_def repo_wf_def split: if_splits)
  next
    fix k assume "mget (r_jobs ?r) k = None"
    then show "mslice (r_attempts ?r) k = []"
      using wf by (auto simp: repo_insert_def repo_wf_def split: if_splits)
  qed (use wf in \<open>auto simp: repo_wf_def repo_insert_def\<close>)
  moreover have "ledger_step (abs_repo r) (abs_repo ?r)"
  proof -
    have "abs_repo ?r = (abs_repo r)(j_ID j := Some (Queued 0))"
      using zero new(2) by (auto simp: abs_repo_def abs_job_def repo_insert_def fun_eq_iff)
    moreover have "abs_repo r (j_ID j) = None" by (simp add: abs_repo_def new(3))
    ultimately show ?thesis by (auto intro: ledger_step.admit)
  qed
  ultimately show ?thesis using new(3) by (auto simp: good_step_def repo_insert_def)
qed

definition fresh_job :: "repo \<Rightarrow> job \<Rightarrow> bool" where
  "fresh_job r j = (job_wf j \<and> j_Status j = StatusPending \<and> mget (r_jobs r) (j_ID j) = None)"

lemma repo_wf_index_nonempty: "repo_wf r \<Longrightarrow> mget (r_idempotency r) k = Some i \<Longrightarrow> i \<noteq> []"
  by (metis repo_wfD(6) repo_wf_def)

lemma good_Create: "repo_wf r \<Longrightarrow> fresh_job r j \<Longrightarrow> good_step r (snd (repo_Create r j))"
  using repo_wf_index_nonempty [of r "j_IdempotencyKey j"]
  by (auto simp: repo_Create_def fresh_job_def good_refl intro: good_insert split: option.splits)

lemma good_EnsurePlanned: "repo_wf r \<Longrightarrow> fresh_job r j \<Longrightarrow> good_step r (snd (repo_EnsurePlanned r j))"
  by (auto simp: repo_EnsurePlanned_def fresh_job_def good_refl intro: good_insert split: option.splits)

text \<open>Claim.\<close>

definition put_claim :: "repo \<Rightarrow> string \<Rightarrow> job \<Rightarrow> attempt \<Rightarrow> repo" where
  "put_claim r i nxt a =
     r\<lparr>r_jobs := mput i nxt (r_jobs r),
       r_attempts := mput i (mslice (r_attempts r) i @ [a]) (r_attempts r)\<rparr>"

lemma not_terminal [simp]: "CanClaim s \<Longrightarrow> \<not> status_IsTerminal s" "IsLeased s \<Longrightarrow> \<not> status_IsTerminal s"
  "CanCancel s \<Longrightarrow> \<not> status_IsTerminal s"
  by (auto dest!: CanClaim_cases IsLeased_cases CanCancel_cases)

lemma good_claim_one:
  assumes wf: "repo_wf r" and at: "mget (r_jobs r) i = Some j"
    and c: "job_Claim j w ttl now rnd = Inr (nxt, a)" and t: "0 < now"
  shows "good_step r (put_claim r i nxt a)"
proof -
  have ap: "job_apply j now (JClaim w ttl rnd) = Inr nxt" using c by simp
  note fr = job_apply_frame [OF ap]
  from c have st: "CanClaim (j_Status j)" "j_Status nxt = StatusClaimed" "j_LeaseOwner nxt = TrimSpace w"
    and na: "NewAttempt (j_ID j) (j_AttemptCount j + 1) (TrimSpace w) now rnd = Inr a"
    by (auto simp: Claim_ok bumped_def)
  have cnt: "0 \<le> j_AttemptCount j" using repo_wfD(2) [OF wf at] by (simp add: job_wf_def)
  have i: "TrimSpace (j_ID j) = j_ID j" using repo_wfD [OF wf at] by simp
  have "attempts_ok nxt (mslice (r_attempts r) i @ [a])"
    using st cnt fr i NewAttempt_fields [OF na]
    by (intro attempts_ok_claim [OF repo_wfD(3) [OF wf at]]) (auto dest: CanClaim_not_leased)
  moreover have "phase_next (abs_job j) (abs_job nxt)"
    using st fr by (auto simp: abs_job_def dest: CanClaim_not_leased)
  moreover have "mwf (r_attempts r)" using wf by (simp add: repo_wf_def)
  ultimately show ?thesis
    unfolding put_claim_def using st fr wf_Claim [OF c repo_wfD(2) [OF wf at] t] job_apply_same_ident [OF ap]
    by (intro good_update [OF wf at]) auto
qed

lemma zeroJob_unclaimable: "job_Claim zeroJob w ttl now rnd \<noteq> Inr x"
  by (cases x) (simp add: Claim_ok zeroJob_def)

lemma claim_loop_put:
  "claim_loop p rnd (i # ids) results r =
     (if cl_MaxJobs p \<le> int (length results) then (results, r)
      else case job_Claim (jobAt r i) (cl_WorkerID p) (cl_LeaseTTL p) (cl_Now p) (rnd i) of
        Inl e \<Rightarrow> claim_loop p rnd ids results r
      | Inr (nxt, a) \<Rightarrow> claim_loop p rnd ids (results @ [(nxt, a)]) (put_claim r i nxt a))"
  by (simp only: claim_loop.simps put_claim_def)

lemma jobAt_claim: "job_Claim (jobAt r i) w ttl now rnd = Inr x \<Longrightarrow> mget (r_jobs r) i = Some (jobAt r i)"
  by (auto simp: jobAt_def zeroJob_unclaimable split: option.splits)

lemma good_claim_loop:
  "repo_wf r \<Longrightarrow> 0 < cl_Now p \<Longrightarrow> good_step r (snd (claim_loop p rnd ids results r))"
proof (induction ids arbitrary: results r)
  case Nil
  then show ?case by (simp add: good_refl)
next
  case (Cons i ids)
  show ?case
  proof (cases "job_Claim (jobAt r i) (cl_WorkerID p) (cl_LeaseTTL p) (cl_Now p) (rnd i)")
    case (Inl e)
    with Cons show ?thesis by (simp add: good_refl)
  next
    case (Inr x)
    obtain nxt a where x: "x = (nxt, a)" by (cases x)
    with Inr have g: "good_step r (put_claim r i nxt a)"
      using good_claim_one [OF Cons.prems(1) jobAt_claim [OF Inr]] Cons.prems(2) by blast
    then have "repo_wf (put_claim r i nxt a)" by (simp add: good_step_def)
    from Cons.IH [OF this Cons.prems(2)] g show ?thesis
      unfolding claim_loop_put using Inr x Cons.prems(1) by (auto intro: good_trans good_refl)
  qed
qed

lemma good_Claim: "repo_wf r \<Longrightarrow> 0 < cl_Now p \<Longrightarrow> good_step r (snd (repo_Claim r p rnd))"
  using good_claim_loop [of r p rnd "claimableIDs r (cl_Now p)" "[]"]
    good_claim_loop [of r "p\<lparr>cl_MaxJobs := 1\<rparr>" rnd "claimableIDs r (cl_Now p)" "[]"]
  by (auto simp: repo_Claim_def Let_def good_refl split: prod.splits)

text \<open>The other commands first look the job up.\<close>

lemma requireJob_wf:
  "repo_wf r \<Longrightarrow> requireJob r jobID = Inr j \<longleftrightarrow> mget (r_jobs r) (TrimSpace jobID) = Some j"
  by (auto simp: requireJob_def split: option.splits)

lemma good_put_jobs:
  assumes "repo_wf r" "mget (r_jobs r) i = Some j" "job_wf j'" "same_ident j j'"
    "phase_next (abs_job j) (abs_job j')" "j_AttemptCount j \<le> j_AttemptCount j'"
    "\<not> status_IsTerminal (j_Status j)" "attempts_ok j' (mslice (r_attempts r) i)"
  shows "good_step r (r\<lparr>r_jobs := mput i j' (r_jobs r)\<rparr>)"
  using good_update [OF assms(1-7), of "r_attempts r"] assms(1,8) by (simp add: repo_wf_def)

lemma good_MarkRunning: "repo_wf r \<Longrightarrow> good_step r (snd (repo_MarkRunning r jobID w now))"
proof -
  assume wf: "repo_wf r"
  show ?thesis
  proof (cases "\<exists>j a nxt. requireJob r jobID = Inr j \<and> activeAttempt r (j_ID j) w = Inr a \<and>
      job_MarkRunning j w now = Inr nxt")
    case False
    then have "snd (repo_MarkRunning r jobID w now) = r"
      by (auto simp: repo_MarkRunning_def split: sum.splits)
    with wf show ?thesis by (simp add: good_refl)
  next
    case True
    then obtain j a nxt where j: "requireJob r jobID = Inr j" "activeAttempt r (j_ID j) w = Inr a"
      and m: "job_MarkRunning j w now = Inr nxt" by blast
    let ?i = "TrimSpace jobID"
    have at: "mget (r_jobs r) ?i = Some j" using j(1) wf by (simp add: requireJob_wf)
    have id: "j_ID j = ?i" using repo_wfD(1) [OF wf at] .
    have ap: "job_apply j now (JMarkRunning w) = Inr nxt" using m by simp
    have f: "j_Status j = StatusClaimed" "j_Status nxt = StatusRunning" "j_LeaseOwner nxt = j_LeaseOwner j"
      "j_AttemptCount nxt = j_AttemptCount j" "j_ID nxt = j_ID j"
      using m by (auto simp: MarkRunning_ok bumped_def)
    have "attempts_ok nxt (mslice (r_attempts r) ?i)"
      using attempts_ok_cong [OF repo_wfD(3) [OF wf at]] f by simp
    then have "good_step r (r\<lparr>r_jobs := mput ?i nxt (r_jobs r)\<rparr>)"
      using f wf_MarkRunning [OF m repo_wfD(2) [OF wf at]] job_apply_same_ident [OF ap]
      by (intro good_put_jobs [OF wf at]) (simp_all add: abs_job_def)
    then show ?thesis using j m id by (simp add: repo_MarkRunning_def)
  qed
qed

lemma good_put_both:
  assumes wf: "repo_wf r" and at: "mget (r_jobs r) i = Some j"
    and new: "job_wf j'" "same_ident j j'" "phase_next (abs_job j) (abs_job j')"
      "j_AttemptCount j \<le> j_AttemptCount j'" "\<not> status_IsTerminal (j_Status j)"
    and att: "attempts_ok j' ((mslice (r_attempts r) i)[idx := a])"
  shows "good_step r (put_both r i j' idx a)"
  unfolding put_both_def using wf att by (intro good_update [OF wf at new]) (auto simp: repo_wf_def)

lemma good_Heartbeat: "repo_wf r \<Longrightarrow> 0 < now \<Longrightarrow> good_step r (snd (repo_Heartbeat r jobID w ttl now))"
proof -
  assume wf: "repo_wf r" and t: "0 < now"
  show ?thesis
  proof (cases "\<exists>j nxt a idx b. requireJob r jobID = Inr j \<and> job_Renew j w ttl now = Inr nxt \<and>
      activeAttempt r (j_ID j) w = Inr (a, idx) \<and> attempt_Heartbeat a now = Inr b")
    case False
    then have "snd (repo_Heartbeat r jobID w ttl now) = r"
      by (auto simp: repo_Heartbeat_def split: sum.splits prod.splits)
    with wf show ?thesis by (simp add: good_refl)
  next
    case True
    then obtain j nxt a idx b where j: "requireJob r jobID = Inr j" and m: "job_Renew j w ttl now = Inr nxt"
      and ac: "activeAttempt r (j_ID j) w = Inr (a, idx)" and hb: "attempt_Heartbeat a now = Inr b" by blast
    let ?i = "TrimSpace jobID"
    have at: "mget (r_jobs r) ?i = Some j" using j(1) wf by (simp add: requireJob_wf)
    have id: "j_ID j = ?i" using repo_wfD(1) [OF wf at] .
    have ap: "job_apply j now (JRenew w ttl) = Inr nxt" using m by simp
    have f: "IsLeased (j_Status j)" "j_Status nxt = j_Status j" "j_LeaseOwner nxt = j_LeaseOwner j"
      "j_AttemptCount nxt = j_AttemptCount j" "j_ID nxt = j_ID j"
      using m by (auto simp: Renew_ok bumped_def)
    have ix: "a = last (mslice (r_attempts r) ?i)" "idx = length (mslice (r_attempts r) ?i) - 1"
      using ac f(1) unfolding id activeAttempt_wf [OF wf at] by (auto split: if_splits)
    have "attempts_ok nxt ((mslice (r_attempts r) ?i)[idx := b])"
      unfolding ix(2) using f attempt_Heartbeat_fields [OF hb] ix(1)
      by (intro attempts_ok_touch [OF repo_wfD(3) [OF wf at]]) auto
    then have "good_step r (put_both r ?i nxt idx b)"
      using f wf_Renew [OF m repo_wfD(2) [OF wf at] t] job_apply_same_ident [OF ap]
      by (intro good_put_both [OF wf at]) (auto simp: abs_job_def)
    then show ?thesis using j m ac hb id by (simp add: repo_Heartbeat_def)
  qed
qed

text \<open>Completion: the job and its attempt are closed together, then a retry may requeue the job.\<close>

lemma completeLocked_ok:
  assumes "completeLocked j a p fl = Inr (d, b)"
  shows "requireActiveExecution j (co_WorkerID p) (co_Now p) = None"
    "\<exists>opr. job_apply j (co_Now p) opr = Inr d \<and> (\<forall>w ttl rnd. opr \<noteq> JClaim w ttl rnd)"
    "\<not> IsLeased (j_Status d) \<and> \<not> CanClaim (j_Status d)"
    "a_JobID b = a_JobID a \<and> a_AttemptNo b = a_AttemptNo a \<and> \<not> attempt_Active b"
proof -
  have both: "(job_MarkSucceeded j (co_WorkerID p) (co_Now p) = Inr d
          \<and> attempt_MarkSucceeded a (co_Now p) (co_EvidenceRef p) = Inr b) \<or>
      (job_MarkTimedOut j (co_WorkerID p) fl (co_Now p) = Inr d \<and>
         (attempt_MarkTimedOut a (co_Now p) fl = Inr b \<or> attempt_MarkAbandoned a (co_Now p) fl = Inr b)) \<or>
      (job_MarkFailed j (co_WorkerID p) fl (co_Now p) = Inr d \<and> attempt_MarkFailed a (co_Now p) fl = Inr b)"
    using assms by (auto simp: completeLocked_def Let_def split: attempt_status.splits sum.splits)
  then show "requireActiveExecution j (co_WorkerID p) (co_Now p) = None"
    "\<not> IsLeased (j_Status d) \<and> \<not> CanClaim (j_Status d)"
    by (auto simp: job_ok job_upd_defs)
  from both show "a_JobID b = a_JobID a \<and> a_AttemptNo b = a_AttemptNo a \<and> \<not> attempt_Active b"
    by (elim disjE conjE) (auto dest: attempt_close_fields)
  from both have "job_MarkSucceeded j (co_WorkerID p) (co_Now p) = Inr d \<or>
      job_MarkTimedOut j (co_WorkerID p) fl (co_Now p) = Inr d \<or>
      job_MarkFailed j (co_WorkerID p) fl (co_Now p) = Inr d" by blast
  then show "\<exists>opr. job_apply j (co_Now p) opr = Inr d \<and> (\<forall>w ttl rnd. opr \<noteq> JClaim w ttl rnd)"
  proof (elim disjE)
    assume "job_MarkSucceeded j (co_WorkerID p) (co_Now p) = Inr d"
    then show ?thesis by (intro exI [of _ "JMarkSucceeded (co_WorkerID p)"]) simp
  next
    assume "job_MarkTimedOut j (co_WorkerID p) fl (co_Now p) = Inr d"
    then show ?thesis by (intro exI [of _ "JMarkTimedOut (co_WorkerID p) fl"]) simp
  next
    assume "job_MarkFailed j (co_WorkerID p) fl (co_Now p) = Inr d"
    then show ?thesis by (intro exI [of _ "JMarkFailed (co_WorkerID p) fl"]) simp
  qed
qed

lemma retry_completed_cases:
  "retry_completed d p = (n, b) \<Longrightarrow>
   (n = d \<and> \<not> b) \<or> (b \<and> job_ScheduleRetry d (co_RetryDelay p) (co_Now p) = Inr n)"
  by (auto simp: retry_completed_def split: if_splits sum.splits)

lemma retry_reaped_cases:
  "retry_reaped d f now = (n, b) \<Longrightarrow>
   (n = d \<and> \<not> b) \<or> (b \<and> job_ScheduleRetry d (f (j_AttemptCount d)) now = Inr n)"
  by (auto simp: retry_reaped_def split: if_splits sum.splits)

text \<open>A leased job closed into an idle one, then possibly retried: one ledger step.\<close>

lemma close_then_retry:
  assumes wf: "job_wf j" and l: "IsLeased (j_Status j)"
    and d: "job_wf d" "same_ident j d" "j_AttemptCount d = j_AttemptCount j"
      "\<not> IsLeased (j_Status d)" "\<not> CanClaim (j_Status d)"
    and n: "n = d \<or> job_ScheduleRetry d delay now = Inr n"
  shows "job_wf n" "same_ident j n" "phase_next (abs_job j) (abs_job n)" "j_AttemptCount n = j_AttemptCount j"
    "\<not> IsLeased (j_Status n)" "j_ID n = j_ID j"
proof -
  from n consider "n = d" | "job_ScheduleRetry d delay now = Inr n" by blast
  then have "job_wf n \<and> same_ident j n \<and> phase_next (abs_job j) (abs_job n) \<and>
      j_AttemptCount n = j_AttemptCount j \<and> \<not> IsLeased (j_Status n) \<and> j_ID n = j_ID j"
  proof cases
    case 1
    with d l show ?thesis by (simp add: abs_job_def same_ident_def)
  next
    case 2
    then have ap: "job_apply d now (JScheduleRetry delay) = Inr n" by simp
    have "j_Status n = StatusRetry" "j_AttemptCount n = j_AttemptCount d"
      using 2 by (auto simp: ScheduleRetry_ok job_upd_defs)
    with d l wf_ScheduleRetry [OF 2 d(1)] same_ident_trans [OF d(2) job_apply_same_ident [OF ap]]
    show ?thesis by (simp add: abs_job_def same_ident_def)
  qed
  then show "job_wf n" "same_ident j n" "phase_next (abs_job j) (abs_job n)" "j_AttemptCount n = j_AttemptCount j"
    "\<not> IsLeased (j_Status n)" "j_ID n = j_ID j" by auto
qed

lemma good_close:
  assumes wf: "repo_wf r" and at: "mget (r_jobs r) i = Some j" and l: "IsLeased (j_Status j)"
    and d: "job_wf d" "same_ident j d" "j_AttemptCount d = j_AttemptCount j"
      "\<not> IsLeased (j_Status d)" "\<not> CanClaim (j_Status d)"
    and n: "n = d \<or> job_ScheduleRetry d delay now = Inr n"
    and ac: "activeAttempt r i w = Inr (a, idx)"
    and b: "a_JobID b = a_JobID a \<and> a_AttemptNo b = a_AttemptNo a \<and> \<not> attempt_Active b"
  shows "good_step r (put_both r i n idx b)"
proof -
  note c = close_then_retry [OF repo_wfD(2) [OF wf at] l d n]
  have ix: "a = last (mslice (r_attempts r) i)" "idx = length (mslice (r_attempts r) i) - 1"
    using ac l unfolding activeAttempt_wf [OF wf at] by (auto split: if_splits)
  have "attempts_ok n ((mslice (r_attempts r) i)[idx := b])"
    unfolding ix(2) using c b ix(1) l by (intro attempts_ok_close [OF repo_wfD(3) [OF wf at]]) auto
  with c l show ?thesis by (intro good_put_both [OF wf at]) auto
qed

lemma good_Complete:
  assumes wf: "repo_wf r" and t: "0 < co_Now p"
  shows "good_step r (snd (repo_Complete r p))"
proof (cases "\<exists>j a idx d b. requireJob r (co_JobID p) = Inr j \<and>
    activeAttempt r (j_ID j) (co_WorkerID p) = Inr (a, idx) \<and>
    completeLocked j a p \<lparr>f_Code = co_ErrorCode p, f_Message = co_ErrorMessage p\<rparr> = Inr (d, b)")
  case False
  then have "snd (repo_Complete r p) = r"
    by (auto simp: repo_Complete_def split: sum.splits prod.splits)
  with wf show ?thesis by (simp add: good_refl)
next
  case True
  then obtain j a idx d b where j: "requireJob r (co_JobID p) = Inr j"
    and ac: "activeAttempt r (j_ID j) (co_WorkerID p) = Inr (a, idx)"
    and cl: "completeLocked j a p \<lparr>f_Code = co_ErrorCode p, f_Message = co_ErrorMessage p\<rparr> = Inr (d, b)"
    by blast
  obtain n rs where n: "retry_completed d p = (n, rs)" by fastforce
  let ?i = "TrimSpace (co_JobID p)"
  have at: "mget (r_jobs r) ?i = Some j" using j wf by (simp add: requireJob_wf)
  have id: "j_ID j = ?i" using repo_wfD(1) [OF wf at] .
  note co = completeLocked_ok [OF cl]
  obtain opr where ap: "job_apply j (co_Now p) opr = Inr d" and ncl: "\<forall>w ttl rnd. opr \<noteq> JClaim w ttl rnd"
    using co(2) by blast
  have "j_AttemptCount d = j_AttemptCount j"
    using job_apply_frame(14) [OF ap] ncl by (cases opr) auto
  moreover have "IsLeased (j_Status j)" using co(1) by (simp add: requireActiveExecution_None)
  ultimately have "good_step r (put_both r ?i n idx b)"
    using retry_completed_cases [OF n] co(3,4) ac id
    by (intro good_close [OF wf at _ job_apply_wf [OF ap repo_wfD(2) [OF wf at] t] job_apply_same_ident [OF ap]]) auto
  then show ?thesis using j ac cl n id by (simp add: repo_Complete_def)
qed

lemma repo_update_swap: "r\<lparr>r_attempts := x, r_jobs := y\<rparr> = r\<lparr>r_jobs := y, r_attempts := x\<rparr>"
  by (cases r) simp

lemma good_Cancel: "repo_wf r \<Longrightarrow> good_step r (snd (repo_Cancel r jobID now))"
proof -
  assume wf: "repo_wf r"
  show ?thesis
  proof (cases "requireJob r jobID")
    case (Inl e)
    with wf show ?thesis by (simp add: repo_Cancel_def good_refl)
  next
    case (Inr j)
    let ?i = "TrimSpace jobID"
    have at: "mget (r_jobs r) ?i = Some j" using Inr wf by (simp add: requireJob_wf)
    have id: "j_ID j = ?i" using repo_wfD(1) [OF wf at] .
    show ?thesis
    proof (cases "IsLeased (j_Status j)")
      case False
      then have r: "cancel_attempt r j now = r"
        using activeAttempt_wf [OF wf at, of "j_LeaseOwner j"] id by (simp add: cancel_attempt_def)
      show ?thesis
      proof (cases "job_Cancel j now")
        case (Inl e)
        with Inr wf r show ?thesis by (simp add: repo_Cancel_def good_refl)
      next
        case c: (Inr nxt)
        have ap: "job_apply j now JCancel = Inr nxt" using c by simp
        have f: "CanCancel (j_Status j)" "j_Status nxt = StatusCancelled" "j_AttemptCount nxt = j_AttemptCount j"
          "j_ID nxt = j_ID j" "CanClaim (j_Status j)"
          using c False by (auto simp: Cancel_ok job_upd_defs dest!: CanCancel_cases)
        have "good_step r (r\<lparr>r_jobs := mput ?i nxt (r_jobs r)\<rparr>)"
          using f False wf_Cancel [OF c repo_wfD(2) [OF wf at]] job_apply_same_ident [OF ap] repo_wfD(3) [OF wf at]
          by (intro good_put_jobs [OF wf at]) (auto simp: abs_job_def attempts_ok_def)
        then show ?thesis using Inr c r id by (simp add: repo_Cancel_def)
      qed
    next
      case True
      then have cc: "CanCancel (j_Status j)" by (auto dest!: IsLeased_cases)
      then obtain nxt where c: "job_Cancel j now = Inr nxt" by (simp add: job_Cancel_def Let_def)
      let ?as = "mslice (r_attempts r) ?i"
      have ac: "activeAttempt r ?i (j_LeaseOwner j) = Inr (last ?as, length ?as - 1)"
        using activeAttempt_wf [OF wf at, of "j_LeaseOwner j"] True repo_wfD(2) [OF wf at]
        by (simp add: job_wf_def)
      have act: "attempt_Active (last ?as)" using repo_wfD(3) [OF wf at] True by (simp add: attempts_ok_def)
      let ?fl = "\<lparr>f_Code = ''cancelled'', f_Message = ''job cancelled''\<rparr>"
      obtain b where b: "attempt_MarkAbandoned (last ?as) now ?fl = Inr b"
        using attempt_close_total(4) [OF act] by blast
      have ap: "job_apply j now JCancel = Inr nxt" using c by simp
      have f: "j_Status nxt = StatusCancelled" "j_AttemptCount nxt = j_AttemptCount j"
        using c by (auto simp: Cancel_ok job_upd_defs)
      have "good_step r (put_both r ?i nxt (length ?as - 1) b)"
        using f wf_Cancel [OF c repo_wfD(2) [OF wf at]] job_apply_same_ident [OF ap] attempt_close_fields(4) [OF b]
        by (intro good_close [where d = nxt, OF wf at True _ _ _ _ _ _ ac]) auto
      moreover have "cancel_attempt r j now = r\<lparr>r_attempts := mput ?i (?as[length ?as - 1 := b]) (r_attempts r)\<rparr>"
        using ac b id by (simp add: cancel_attempt_def)
      ultimately show ?thesis using Inr c id by (simp add: repo_Cancel_def put_both_def repo_update_swap)
    qed
  qed
qed

text \<open>Reaping: no turn of the loop fails on a well-formed store.\<close>

lemma expired_ids:
  "mwf (r_jobs r) \<Longrightarrow> i \<in> set (expiredLeaseIDs r now) \<longleftrightarrow>
   (\<exists>j. mget (r_jobs r) i = Some j \<and> IsLeased (j_Status j) \<and> LeaseExpired j now)"
  by (auto simp: expiredLeaseIDs_def mem_mget image_iff)

lemma expired_ids_distinct: "mwf (r_jobs r) \<Longrightarrow> distinct (expiredLeaseIDs r now)"
  unfolding expiredLeaseIDs_def mwf_def
  by (metis (no_types, lifting) distinct_map distinct_filter distinct_sort inj_on_subset filter_is_subset set_sort)

definition reap_fail :: failure where
  "reap_fail = \<lparr>f_Code = ''lease_expired'', f_Message = ''worker lease expired before completion''\<rparr>"

lemma reap_one_wf:
  assumes wf: "repo_wf r" and at: "mget (r_jobs r) i = Some j" and l: "IsLeased (j_Status j)"
    and x: "LeaseExpired j now" and t: "0 < now"
  shows "\<exists>d n rs b idx rst. job_ExpireLease j now reap_fail = Inr (d, rst) \<and>
    retry_reaped d delay now = (n, rs) \<and>
    reap_one r delay now i = Inr ((n, b, rs), put_both r i n idx b) \<and>
    good_step r (put_both r i n idx b)"
proof -
  let ?as = "mslice (r_attempts r) i"
  have id: "j_ID j = i" "jobAt r i = j" using repo_wfD(1) [OF wf at] at by (auto simp: jobAt_def)
  have ac: "activeAttempt r i (j_LeaseOwner j) = Inr (last ?as, length ?as - 1)"
    using activeAttempt_wf [OF wf at, of "j_LeaseOwner j"] l repo_wfD(2) [OF wf at] by (simp add: job_wf_def)
  have act: "attempt_Active (last ?as)" using repo_wfD(3) [OF wf at] l by (simp add: attempts_ok_def)
  define d where "d = bumped (clearLease (applyFailure (j\<lparr>j_Status := StatusTimedOut\<rparr>) reap_fail)) now"
  define rst where "rst = (if j_Status j = StatusClaimed then AttemptStatusAbandoned else AttemptStatusTimedOut)"
  have ex: "job_ExpireLease j now reap_fail = Inr (d, rst)"
    using l x by (simp add: ExpireLease_ok d_def rst_def)
  obtain n rs where n: "retry_reaped d delay now = (n, rs)" by fastforce
  have "\<exists>b. (if rst = AttemptStatusAbandoned
          then attempt_MarkAbandoned (last ?as) now
            \<lparr>f_Code = ''lease_expired'', f_Message = ''worker lost before execution started''\<rparr>
          else attempt_MarkTimedOut (last ?as) now
            \<lparr>f_Code = ''lease_expired'', f_Message = ''worker lost during execution''\<rparr>) = Inr b"
    using attempt_close_total [OF act] by simp
  then obtain b where b: "(if rst = AttemptStatusAbandoned
          then attempt_MarkAbandoned (last ?as) now
            \<lparr>f_Code = ''lease_expired'', f_Message = ''worker lost before execution started''\<rparr>
          else attempt_MarkTimedOut (last ?as) now
            \<lparr>f_Code = ''lease_expired'', f_Message = ''worker lost during execution''\<rparr>) = Inr b" by blast
  have bf: "a_JobID b = a_JobID (last ?as) \<and> a_AttemptNo b = a_AttemptNo (last ?as) \<and> \<not> attempt_Active b"
    using b by (auto dest: attempt_close_fields split: if_splits)
  have ap: "job_apply j now (JExpireLease reap_fail) = Inr d" using ex by simp
  have df: "\<not> IsLeased (j_Status d) \<and> \<not> CanClaim (j_Status d)" "j_AttemptCount d = j_AttemptCount j"
    by (simp_all add: d_def job_upd_defs)
  have "good_step r (put_both r i n (length ?as - 1) b)"
    using retry_reaped_cases [OF n] df bf ac
    by (intro good_close [where d = d, OF wf at l job_apply_wf [OF ap repo_wfD(2) [OF wf at] t]
          job_apply_same_ident [OF ap]]) auto
  moreover have "reap_one r delay now i = Inr ((n, b, rs), put_both r i n (length ?as - 1) b)"
    using ac ex b n id by (simp add: reap_one_def reap_fail_def Let_def)
  ultimately show ?thesis using ex n by blast
qed

lemma put_both_other: "k \<noteq> i \<Longrightarrow> mget (r_jobs (put_both r i n idx b)) k = mget (r_jobs r) k"
  and put_both_same: "mget (r_jobs (put_both r i n idx b)) i = Some n"
  by (simp_all add: put_both_def)

text \<open>The whole loop: every listed job is taken from its holder, every other job is untouched.\<close>

definition reaped :: "(int \<Rightarrow> duration) \<Rightarrow> gotime \<Rightarrow> job \<Rightarrow> job option" where
  "reaped delay now j =
     (case job_ExpireLease j now reap_fail of
        Inl _ \<Rightarrow> None | Inr (d, _) \<Rightarrow> Some (fst (retry_reaped d delay now)))"

definition reap_post :: "(int \<Rightarrow> duration) \<Rightarrow> gotime \<Rightarrow> string list \<Rightarrow> repo \<Rightarrow> repo \<Rightarrow> bool" where
  "reap_post delay now ids r r' =
     (\<forall>k. mget (r_jobs r') k =
        (if k \<in> set ids then Option.bind (mget (r_jobs r) k) (reaped delay now) else mget (r_jobs r) k))"

definition takeable :: "repo \<Rightarrow> gotime \<Rightarrow> string \<Rightarrow> bool" where
  "takeable r now i = (\<exists>j. mget (r_jobs r) i = Some j \<and> IsLeased (j_Status j) \<and> LeaseExpired j now)"

lemma reap_loop_wf:
  assumes "repo_wf r" "0 < now" "distinct ids" "\<forall>i \<in> set ids. takeable r now i"
  shows "\<exists>res r'. reap_loop delay now ids acc r = (Inr (acc @ res), r') \<and> good_step r r' \<and>
    length res = length ids \<and> reap_post delay now ids r r'"
  using assms
proof (induction ids arbitrary: r acc)
  case Nil
  then show ?case by (auto simp: reap_post_def intro: good_refl)
next
  case (Cons i ids)
  from Cons.prems(4) obtain j where at: "mget (r_jobs r) i = Some j" and l: "IsLeased (j_Status j)"
    "LeaseExpired j now" by (auto simp: takeable_def)
  from reap_one_wf [OF Cons.prems(1) at l Cons.prems(2), of delay] obtain d n rs b idx rst
    where o: "job_ExpireLease j now reap_fail = Inr (d, rst)" "retry_reaped d delay now = (n, rs)"
      "reap_one r delay now i = Inr ((n, b, rs), put_both r i n idx b)"
      and g: "good_step r (put_both r i n idx b)" by blast
  let ?r = "put_both r i n idx b"
  have i: "i \<notin> set ids" using Cons.prems(3) by simp
  have "repo_wf ?r" using g by (simp add: good_step_def)
  moreover have "\<forall>k \<in> set ids. takeable ?r now k"
  proof
    fix k assume k: "k \<in> set ids"
    with i have "k \<noteq> i" by blast
    with k Cons.prems(4) show "takeable ?r now k" by (simp add: takeable_def put_both_other)
  qed
  ultimately obtain res r' where h: "reap_loop delay now ids (acc @ [(n, b, rs)]) ?r = (Inr ((acc @ [(n, b, rs)]) @ res), r')"
    "good_step ?r r'" "length res = length ids" "reap_post delay now ids ?r r'"
    using Cons.IH [of ?r "acc @ [(n, b, rs)]"] Cons.prems(2,3) by auto
  have "reaped delay now j = Some n" using o by (simp add: reaped_def)
  then have "reap_post delay now (i # ids) r r'"
    using h(4) i at by (auto simp: reap_post_def put_both_def)
  moreover have "reap_loop delay now (i # ids) acc r = (Inr (acc @ ((n, b, rs) # res)), r')"
    using o(3) h(1) by simp
  ultimately show ?case using h(3) good_trans [OF g h(2)]
    by (intro exI [of _ "(n, b, rs) # res"] exI [of _ r']) simp
qed

lemma reap_ids_sub: "set (reap_ids r now limit) \<subseteq> set (expiredLeaseIDs r now)"
  by (auto simp: reap_ids_def Let_def dest: in_set_takeD)

lemma ReapExpired_wf:
  assumes wf: "repo_wf r" and t: "0 < now"
  shows "\<exists>res r'. repo_ReapExpired r now limit delay = (Inr res, r') \<and> good_step r r' \<and>
    length res = length (reap_ids r now limit) \<and> reap_post delay now (reap_ids r now limit) r r'"
proof -
  have m: "mwf (r_jobs r)" using wf by (simp add: repo_wf_def)
  have "distinct (reap_ids r now limit)"
    using expired_ids_distinct [OF m] by (simp add: reap_ids_def Let_def distinct_take)
  moreover have "\<forall>i \<in> set (reap_ids r now limit). takeable r now i"
    using reap_ids_sub expired_ids [OF m] by (fastforce simp: takeable_def)
  ultimately show ?thesis
    using reap_loop_wf [OF wf t, of "reap_ids r now limit" delay "[]"] by (simp add: repo_ReapExpired_def)
qed

lemma good_ReapExpired: "repo_wf r \<Longrightarrow> 0 < now \<Longrightarrow> good_step r (snd (repo_ReapExpired r now limit delay))"
  using ReapExpired_wf [of r now limit delay] by auto

end
