(* ===== verification/JobMachine.thy ===== *)
theory JobMachine
  imports JobStoreOps
begin

text \<open>
  The in-memory job repository as a state machine: its commands as a datatype, one step per
  command under the lock, the stores reachable from the empty one, and what holds of all of them.
\<close>

section \<open>Commands, steps and reachable stores\<close>

datatype repo_op =
    RCreate job
  | REnsurePlanned job
  | RClaim claim_params "string \<Rightarrow> rawbytes option"
  | RMarkRunning string string gotime
  | RHeartbeat string string duration gotime
  | RComplete complete_params
  | RCancel string gotime
  | RReapExpired gotime int "int \<Rightarrow> duration"

fun repo_exec :: "repo \<Rightarrow> repo_op \<Rightarrow> repo" where
  "repo_exec r (RCreate j) = snd (repo_Create r j)"
| "repo_exec r (REnsurePlanned j) = snd (repo_EnsurePlanned r j)"
| "repo_exec r (RClaim p rnd) = snd (repo_Claim r p rnd)"
| "repo_exec r (RMarkRunning i w now) = snd (repo_MarkRunning r i w now)"
| "repo_exec r (RHeartbeat i w ttl now) = snd (repo_Heartbeat r i w ttl now)"
| "repo_exec r (RComplete p) = snd (repo_Complete r p)"
| "repo_exec r (RCancel i now) = snd (repo_Cancel r i now)"
| "repo_exec r (RReapExpired now limit delay) = snd (repo_ReapExpired r now limit delay)"

text \<open>
  What the callers grant: instants after the zero time (the service reads its clock for a zero
  one), and new records straight from \<open>job_New\<close> under an identifier not in use.
\<close>

fun op_ok :: "repo \<Rightarrow> repo_op \<Rightarrow> bool" where
  "op_ok r (RCreate j) = fresh_job r j"
| "op_ok r (REnsurePlanned j) = fresh_job r j"
| "op_ok r (RClaim p rnd) = (0 < cl_Now p)"
| "op_ok r (RMarkRunning i w now) = (0 < now)"
| "op_ok r (RHeartbeat i w ttl now) = (0 < now)"
| "op_ok r (RComplete p) = (0 < co_Now p)"
| "op_ok r (RCancel i now) = (0 < now)"
| "op_ok r (RReapExpired now limit delay) = (0 < now)"

inductive store_step :: "repo \<Rightarrow> repo \<Rightarrow> bool" where
  store_step: "op_ok r c \<Longrightarrow> store_step r (repo_exec r c)"

inductive_cases store_stepE: "store_step r r'"

definition reachable :: "repo \<Rightarrow> bool" where
  "reachable r = store_step\<^sup>*\<^sup>* NewMemoryRepository r"

lemma exec_good: "repo_wf r \<Longrightarrow> op_ok r c \<Longrightarrow> good_step r (repo_exec r c)"
  by (cases c) (simp_all add: good_Create good_EnsurePlanned good_Claim good_MarkRunning good_Heartbeat
      good_Complete good_Cancel good_ReapExpired)

lemma steps_good: "store_step\<^sup>*\<^sup>* r r' \<Longrightarrow> repo_wf r \<Longrightarrow> good_step r r'"
proof (induction rule: rtranclp_induct)
  case base
  then show ?case by (rule good_refl)
next
  case (step r1 r2)
  then have g: "good_step r r1" by blast
  then have "repo_wf r1" by (simp add: good_step_def)
  with step.hyps(2) have "good_step r1 r2" by (auto elim!: store_stepE intro: exec_good)
  with g show ?case by (rule good_trans)
qed

lemma reachable_wf: "reachable r \<Longrightarrow> repo_wf r"
  using steps_good [of NewMemoryRepository r] by (simp add: reachable_def good_step_def)

lemma reachable_step: "reachable r \<Longrightarrow> op_ok r c \<Longrightarrow> reachable (repo_exec r c)"
  unfolding reachable_def by (rule rtranclp.rtrancl_into_rtrancl) (auto intro: store_step)

lemma later_job:
  assumes "reachable r" "store_step\<^sup>*\<^sup>* r r'" "mget (r_jobs r) i = Some j"
  shows "\<exists>j'. mget (r_jobs r') i = Some j' \<and> evolves j j'"
  using steps_good [OF assms(2) reachable_wf [OF assms(1)]] assms(3) by (auto simp: good_step_def)

text \<open>The demonstration store: one job, then claimed by \<open>w1\<close>.\<close>

definition demo_store :: repo where
  "demo_store = repo_exec NewMemoryRepository (RCreate demo_job)"

definition demo_claim_params :: claim_params where
  "demo_claim_params = \<lparr>cl_WorkerID = ''w1'', cl_MaxJobs = 5, cl_LeaseTTL = 20, cl_Now = 10\<rparr>"

definition demo_leased :: repo where
  "demo_leased = repo_exec demo_store (RClaim demo_claim_params (\<lambda>_. demo_raw))"

lemma demo_fresh: "fresh_job NewMemoryRepository demo_job"
  by (simp add: fresh_job_def demo_wf NewMemoryRepository_def) (simp add: demo_job_def)

lemma demo_store_reachable: "reachable demo_store"
  unfolding demo_store_def by (rule reachable_step) (simp_all add: demo_fresh reachable_def)

lemma demo_leased_reachable: "reachable demo_leased"
  unfolding demo_leased_def
  by (rule reachable_step [OF demo_store_reachable]) (simp add: demo_claim_params_def)

lemma demo_store_eq:
  "demo_store = \<lparr>r_jobs = [(''j1'', demo_job)], r_attempts = [], r_idempotency = [(''k1'', ''j1'')]\<rparr>"
  by (simp add: demo_store_def repo_Create_def NewMemoryRepository_def repo_insert_def mput_def)
    (simp add: demo_job_def)

lemma demo_leased_eq:
  "\<exists>a. NewAttempt ''j1'' 1 ''w1'' 10 demo_raw = Inr a \<and>
     repo_Claim demo_store demo_claim_params (\<lambda>_. demo_raw) = (Inr [(demo_claimed, a)], demo_leased) \<and>
     demo_leased = \<lparr>r_jobs = [(''j1'', demo_claimed)], r_attempts = [(''j1'', [a])],
                    r_idempotency = [(''k1'', ''j1'')]\<rparr>"
proof -
  obtain a where c: "job_Claim demo_job ''w1'' 20 10 demo_raw = Inr (demo_claimed, a)"
    using demo_claim by blast
  then have "NewAttempt ''j1'' 1 ''w1'' 10 demo_raw = Inr a"
    by (simp add: Claim_ok) (simp add: demo_job_def)
  moreover have ids: "claimableIDs demo_store 10 = [''j1'']"
    by (simp add: claimableIDs_def demo_store_eq demo_job_def Due_def IsZero_def)
  moreover have r: "repo_Claim demo_store demo_claim_params (\<lambda>_. demo_raw) =
      (Inr [(demo_claimed, a)], \<lparr>r_jobs = [(''j1'', demo_claimed)], r_attempts = [(''j1'', [a])],
                    r_idempotency = [(''k1'', ''j1'')]\<rparr>)"
    using ids c by (simp add: repo_Claim_def demo_claim_params_def jobAt_def demo_store_eq mput_def mslice_def)
  ultimately show ?thesis
    by (auto simp: demo_leased_def)
qed

lemma demo_leased_sel: "r_jobs demo_leased = [(''j1'', demo_claimed)]"
  "r_idempotency demo_leased = [(''k1'', ''j1'')]"
proof -
  obtain a where "demo_leased = \<lparr>r_jobs = [(''j1'', demo_claimed)], r_attempts = [(''j1'', [a])],
                    r_idempotency = [(''k1'', ''j1'')]\<rparr>"
    using demo_leased_eq by blast
  then show "r_jobs demo_leased = [(''j1'', demo_claimed)]" "r_idempotency demo_leased = [(''k1'', ''j1'')]"
    by (metis repo.select_convs(1), metis repo.select_convs(3))
qed

end
