(* ===== verification/JobStoreClaim.thy ===== *)
theory JobStoreClaim
  imports JobMachine
begin

text \<open>
  What one call of \<^verbatim>\<open>Claim\<close> hands out, as a function of the contents of the store: the loop
  takes the most urgent claimable jobs in order, and the order in which Go visits its maps does not
  matter.
\<close>

section \<open>What a claim hands out\<close>

definition claim_grants ::
  "claim_params \<Rightarrow> (string \<Rightarrow> rawbytes option) \<Rightarrow> (string \<Rightarrow> job) \<Rightarrow> string list \<Rightarrow> (string \<times> claimed_job) list" where
  "claim_grants p rnd look ids =
     List.map_filter (\<lambda>i. case job_Claim (look i) (cl_WorkerID p) (cl_LeaseTTL p) (cl_Now p) (rnd i) of
        Inl _ \<Rightarrow> None | Inr x \<Rightarrow> Some (i, x)) ids"

fun put_claims :: "(string \<times> claimed_job) list \<Rightarrow> repo \<Rightarrow> repo" where
  "put_claims [] r = r"
| "put_claims ((i, nxt, a) # gs) r = put_claims gs (put_claim r i nxt a)"

lemma claim_grants_Cons:
  "claim_grants p rnd look (i # ids) =
     (case job_Claim (look i) (cl_WorkerID p) (cl_LeaseTTL p) (cl_Now p) (rnd i) of
        Inl _ \<Rightarrow> claim_grants p rnd look ids | Inr x \<Rightarrow> (i, x) # claim_grants p rnd look ids)"
  by (simp add: claim_grants_def map_filter_simps split: sum.splits)

lemma claim_grants_Nil [simp]: "claim_grants p rnd look [] = []"
  by (simp add: claim_grants_def map_filter_simps)

lemma claim_grants_cong:
  "(\<And>i. i \<in> set ids \<Longrightarrow> f i = g i) \<Longrightarrow> claim_grants p rnd f ids = claim_grants p rnd g ids"
  by (induction ids) (auto simp: claim_grants_Cons split: sum.splits)

lemma jobAt_put_claim: "jobAt (put_claim r i nxt a) k = (if k = i then nxt else jobAt r k)"
  by (simp add: jobAt_def put_claim_def)

lemma claim_loop_grants:
  "distinct ids \<Longrightarrow>
   claim_loop p rnd ids results r =
     (let gs = take (nat (cl_MaxJobs p - int (length results))) (claim_grants p rnd (jobAt r) ids)
      in (results @ map snd gs, put_claims gs r))"
proof (induction ids arbitrary: results r)
  case Nil
  then show ?case by simp
next
  case (Cons i ids)
  show ?case
  proof (cases "cl_MaxJobs p \<le> int (length results)")
    case True
    then show ?thesis by simp
  next
    case False
    show ?thesis
    proof (cases "job_Claim (jobAt r i) (cl_WorkerID p) (cl_LeaseTTL p) (cl_Now p) (rnd i)")
      case (Inl e)
      with False Cons show ?thesis by (simp add: claim_grants_Cons)
    next
      case (Inr x)
      obtain nxt a where x: "x = (nxt, a)" by (cases x)
      have g: "claim_grants p rnd (jobAt (put_claim r i nxt a)) ids = claim_grants p rnd (jobAt r) ids"
        using Cons.prems by (intro claim_grants_cong) (auto simp: jobAt_put_claim)
      have n: "nat (cl_MaxJobs p - int (length results)) =
          Suc (nat (cl_MaxJobs p - int (length (results @ [(nxt, a)]))))" using False by simp
      show ?thesis
        unfolding claim_loop_put n using False Inr x Cons.IH [of "results @ [(nxt, a)]" "put_claim r i nxt a"] Cons.prems
        by (simp add: g claim_grants_Cons Let_def)
    qed
  qed
qed

lemma claimable_ids:
  "mwf (r_jobs r) \<Longrightarrow> i \<in> set (claimableIDs r now) \<longleftrightarrow>
   (\<exists>j. mget (r_jobs r) i = Some j \<and> CanClaim (j_Status j) \<and> Due j now)"
  by (auto simp: claimableIDs_def mem_mget image_iff)

lemma claimable_distinct: "mwf (r_jobs r) \<Longrightarrow> distinct (claimableIDs r now)"
  unfolding claimableIDs_def mwf_def
  by (metis (no_types, lifting) distinct_map distinct_filter distinct_sort inj_on_subset filter_is_subset set_sort)

text \<open>The parameters as the loop sees them: a limit below one means one.\<close>

definition claim_limit :: "claim_params \<Rightarrow> nat" where
  "claim_limit p = nat (max 1 (cl_MaxJobs p))"

lemma Claim_grants:
  assumes "repo_wf r" "TrimSpace (cl_WorkerID p) \<noteq> []"
  shows "repo_Claim r p rnd =
    (let gs = take (claim_limit p) (claim_grants p rnd (jobAt r) (claimableIDs r (cl_Now p)))
     in (Inr (map snd gs), put_claims gs r))"
proof -
  have d: "distinct (claimableIDs r (cl_Now p))" using assms(1) by (simp add: repo_wf_def claimable_distinct)
  have g: "claim_grants (p\<lparr>cl_MaxJobs := 1\<rparr>) rnd f ids = claim_grants p rnd f ids" for f ids
    by (simp add: claim_grants_def)
  show ?thesis
    using assms(2) claim_loop_grants [OF d, of p rnd "[]" r] claim_loop_grants [OF d, of "p\<lparr>cl_MaxJobs := 1\<rparr>" rnd "[]" r]
    by (simp add: repo_Claim_def claim_limit_def g Let_def max_def)
qed

lemma put_claims_other: "k \<notin> fst ` set gs \<Longrightarrow> mget (r_jobs (put_claims gs r)) k = mget (r_jobs r) k"
  by (induction gs r rule: put_claims.induct) (auto simp: put_claim_def)

lemma put_claims_in:
  "distinct (map fst gs) \<Longrightarrow> (i, nxt, a) \<in> set gs \<Longrightarrow> mget (r_jobs (put_claims gs r)) i = Some nxt"
  by (induction gs r rule: put_claims.induct) (auto simp: put_claims_other put_claim_def)

lemma claim_grants_ids:
  assumes "\<And>i. i \<in> set ids \<Longrightarrow> is_ok (job_Claim (look i) (cl_WorkerID p) (cl_LeaseTTL p) (cl_Now p) (rnd i))"
  shows "map fst (claim_grants p rnd look ids) = ids"
  using assms
proof (induction ids)
  case (Cons i ids)
  then obtain x where "job_Claim (look i) (cl_WorkerID p) (cl_LeaseTTL p) (cl_Now p) (rnd i) = Inr x"
    using is_ok_iff [of "job_Claim (look i) (cl_WorkerID p) (cl_LeaseTTL p) (cl_Now p) (rnd i)"] by auto
  with Cons show ?case by (simp add: claim_grants_Cons)
qed simp

lemma claim_grants_mem:
  "(i, x) \<in> set (claim_grants p rnd look ids) \<Longrightarrow>
   i \<in> set ids \<and> job_Claim (look i) (cl_WorkerID p) (cl_LeaseTTL p) (cl_Now p) (rnd i) = Inr x"
  by (induction ids) (auto simp: claim_grants_Cons split: sum.splits)

lemma claim_grants_sub: "set (map fst (claim_grants p rnd look ids)) \<subseteq> set ids"
  by (auto dest: claim_grants_mem)

lemma claim_grants_distinct: "distinct ids \<Longrightarrow> distinct (map fst (claim_grants p rnd look ids))"
proof (induction ids)
  case Nil
  then show ?case by simp
next
  case (Cons i ids)
  then show ?case using claim_grants_sub [of p rnd look ids]
    by (auto simp: claim_grants_Cons split: sum.splits)
qed

text \<open>With random bytes at hand, a claim of a due job fails for its own parameters only.\<close>

lemma claim_due_ok:
  assumes "repo_wf r" "mget (r_jobs r) i = Some j" "CanClaim (j_Status j)" "Due j now"
    "TrimSpace w \<noteq> []" "0 < ttl"
  shows "is_ok (job_Claim j w ttl now (Some raw))"
proof -
  have "job_wf j" "TrimSpace (j_ID j) \<noteq> []" using repo_wfD [OF assms(1,2)] by auto
  moreover from this have "\<exists>a. NewAttempt (j_ID j) (j_AttemptCount j + 1) (TrimSpace w) now (Some raw) = Inr a"
    using assms(5) TrimSpace_idem by (auto simp: NewAttempt_def generateID_def job_wf_def)
  ultimately show ?thesis using assms wf_not_LeaseActive by (auto simp: is_ok_iff job_ok)
qed

end
