(* ===== verification/JobStoreProps.thy ===== *)
theory JobStoreProps
  imports JobStoreClaim
begin

text \<open>
  The properties of the job repository that its clients rely on, each over all stores that any
  sequence of commands can reach.
\<close>

section \<open>The invariant read off\<close>

lemma attempts_ok_active:
  assumes "attempts_ok j as"
  shows "filter attempt_Active as = (if IsLeased (j_Status j) then [last as] else []) \<and>
    map a_AttemptNo as = [1..j_AttemptCount j] \<and> (IsLeased (j_Status j) \<longrightarrow> as \<noteq> [] \<and> a_WorkerID (last as) = j_LeaseOwner j)"
proof (cases "IsLeased (j_Status j)")
  case True
  with assms obtain bs a where "as = bs @ [a]" "attempt_Active a" "a_WorkerID a = j_LeaseOwner j"
    "\<forall>b \<in> set bs. \<not> attempt_Active b"
    using attempts_ok_leased by blast
  with assms True show ?thesis by (auto simp: attempts_ok_def filter_empty_conv)
next
  case False
  with assms show ?thesis by (auto simp: attempts_ok_def filter_empty_conv)
qed

text \<open>C2: in every reachable store a leased job has exactly one active attempt, its newest, which runs
  under the lease owner; any other job has none; the attempts of a job are numbered one, two, three
  and so on without gaps, and there are never more of them than the retry budget allows.\<close>

theorem one_active_attempt:
  assumes "reachable r" "mget (r_jobs r) i = Some j"
  shows "filter attempt_Active (mslice (r_attempts r) i) =
      (if IsLeased (j_Status j) then [last (mslice (r_attempts r) i)] else []) \<and>
    (IsLeased (j_Status j) \<longrightarrow> mslice (r_attempts r) i \<noteq> [] \<and>
       a_WorkerID (last (mslice (r_attempts r) i)) = j_LeaseOwner j \<and> j_LeaseOwner j \<noteq> []) \<and>
    map a_AttemptNo (mslice (r_attempts r) i) = [1..j_AttemptCount j] \<and>
    int (length (mslice (r_attempts r) i)) \<le> j_MaxAttempts j"
proof -
  note wf = repo_wfD [OF reachable_wf [OF assms(1)] assms(2)]
  from attempts_ok_active [OF wf(3)] have m: "map a_AttemptNo (mslice (r_attempts r) i) = [1..j_AttemptCount j]"
    by blast
  then have "length (mslice (r_attempts r) i) = length [1..j_AttemptCount j]" by (metis length_map)
  with attempts_ok_active [OF wf(3)] wf(2) show ?thesis by (simp add: job_wf_def)
qed

theorem one_active_attempt_witness:
  "map a_AttemptNo (mslice (r_attempts demo_leased) ''j1'') = [1] \<and>
   a_WorkerID (last (mslice (r_attempts demo_leased) ''j1'')) = ''w1''"
proof -
  have "mget (r_jobs demo_leased) ''j1'' = Some demo_claimed" by (simp add: demo_leased_sel)
  from one_active_attempt [OF demo_leased_reachable this] show ?thesis
    by (simp add: demo_claimed_def demo_job_def bumped_def)
qed

section \<open>What one command does to each job\<close>

text \<open>
  Seen abstractly, a command moves every job by one relation on phases at most, and admits new jobs only as queued. A claim
  only grants, the reaper only takes back, and the other commands touch one job.
\<close>

definition phases_by :: "(phase \<Rightarrow> phase \<Rightarrow> bool) \<Rightarrow> repo \<Rightarrow> repo \<Rightarrow> bool" where
  "phases_by R r r' = (\<forall>i. case abs_repo r i of
     None \<Rightarrow> abs_repo r' i = None \<or> abs_repo r' i = Some (Queued 0)
   | Some p \<Rightarrow> (\<exists>q. abs_repo r' i = Some q \<and> (q = p \<or> R p q)))"

definition granted :: "phase \<Rightarrow> phase \<Rightarrow> bool" where
  "granted p q = (\<exists>n w. p = Queued n \<and> q = Held w (n + 1))"

definition taken_back :: "phase \<Rightarrow> phase \<Rightarrow> bool" where
  "taken_back p q = (\<exists>w n. p = Held w n \<and> (q = Queued n \<or> q = Done))"

lemma phases_refl [simp]: "phases_by R r r"
  by (simp add: phases_by_def split: option.splits)

lemma phases_cong: "abs_repo r1 = abs_repo r2 \<Longrightarrow> phases_by R r r1 = phases_by R r r2"
  by (simp only: phases_by_def)

lemma phases_mono: "phases_by R r r' \<Longrightarrow> (\<And>p q. R p q \<Longrightarrow> S p q) \<Longrightarrow> phases_by S r r'"
  unfolding phases_by_def by (fastforce split: option.splits)

lemma phases_put:
  assumes "mget (r_jobs r) i = Some j" "R (abs_job j) (abs_job n)"
  shows "phases_by R r (r\<lparr>r_jobs := mput i n (r_jobs r)\<rparr>)" "phases_by R r (put_both r i n idx a)"
    "phases_by R r (put_claim r i n b)"
  using assms by (auto simp: phases_by_def abs_repo_def put_both_def put_claim_def split: option.splits)

lemma grants_trans: "phases_by granted r r1 \<Longrightarrow> phases_by granted r1 r2 \<Longrightarrow> (\<And>i. abs_repo r i = None \<Longrightarrow> abs_repo r1 i = None) \<Longrightarrow>
    phases_by granted r r2"
  unfolding phases_by_def granted_def by (fastforce split: option.splits)

lemma claim_phases: "phases_by granted r (snd (claim_loop p rnd ids results r))"
proof (induction ids arbitrary: results r)
  case (Cons i ids)
  show ?case
  proof (cases "job_Claim (jobAt r i) (cl_WorkerID p) (cl_LeaseTTL p) (cl_Now p) (rnd i)")
    case (Inl e)
    with Cons show ?thesis by simp
  next
    case (Inr x)
    obtain nxt a where x: "x = (nxt, a)" by (cases x)
    from Inr x have "granted (abs_job (jobAt r i)) (abs_job nxt)"
      by (auto simp: Claim_ok bumped_def granted_def abs_job_def dest: CanClaim_not_leased)
    then have g: "phases_by granted r (put_claim r i nxt a)" by (rule phases_put(3) [where i = i, OF jobAt_claim [OF Inr]])
    moreover have "abs_repo r k = None \<Longrightarrow> abs_repo (put_claim r i nxt a) k = None" for k
      using jobAt_claim [OF Inr] by (auto simp: abs_repo_def put_claim_def)
    ultimately have "phases_by granted r (snd (claim_loop p rnd ids (results @ [(nxt, a)]) (put_claim r i nxt a)))"
      using Cons.IH grants_trans by blast
    then show ?thesis unfolding claim_loop_put using Inr x by simp
  qed
qed simp

lemma back_cases:
  assumes "IsLeased (j_Status j)" "\<not> IsLeased (j_Status d)" "\<not> CanClaim (j_Status d)" "j_AttemptCount d = j_AttemptCount j"
    and "n = d \<or> job_ScheduleRetry d delay now = Inr n"
  shows "taken_back (abs_job j) (abs_job n)"
  using assms by (auto simp: taken_back_def abs_job_def ScheduleRetry_ok job_upd_defs)

lemma reap_phases:
  assumes "reap_post delay now ids r r'" "\<forall>i \<in> set ids. takeable r now i"
  shows "phases_by taken_back r r'"
  unfolding phases_by_def
proof
  fix i
  show "case abs_repo r i of None \<Rightarrow> abs_repo r' i = None \<or> abs_repo r' i = Some (Queued 0)
    | Some p \<Rightarrow> \<exists>q. abs_repo r' i = Some q \<and> (q = p \<or> taken_back p q)"
  proof (cases "i \<in> set ids")
    case False
    with assms(1) show ?thesis by (simp add: reap_post_def abs_repo_def split: option.splits)
  next
    case True
    with assms(2) obtain j where j: "mget (r_jobs r) i = Some j" "IsLeased (j_Status j)" "LeaseExpired j now" by (auto simp: takeable_def)
    define d where "d = bumped (clearLease (applyFailure (j\<lparr>j_Status := StatusTimedOut\<rparr>) reap_fail)) now"
    obtain rst where "job_ExpireLease j now reap_fail = Inr (d, rst)" using j by (simp add: ExpireLease_ok d_def)
    moreover obtain n rs where n: "retry_reaped d delay now = (n, rs)" by fastforce
    ultimately have "mget (r_jobs r') i = Some n" using assms(1) True j(1) by (simp add: reap_post_def reaped_def)
    moreover have "taken_back (abs_job j) (abs_job n)"
    proof (rule back_cases [OF j(2), where d = d])
      show "n = d \<or> job_ScheduleRetry d (delay (j_AttemptCount d)) now = Inr n" using retry_reaped_cases [OF n] by auto
    qed (simp_all add: d_def job_upd_defs)
    ultimately show ?thesis using j(1) by (simp add: abs_repo_def)
  qed
qed

lemma complete_phases:
  assumes wf: "repo_wf r"
  shows "phases_by taken_back r (snd (repo_Complete r p))"
proof (cases "\<exists>j a idx d b. requireJob r (co_JobID p) = Inr j \<and>
    activeAttempt r (j_ID j) (co_WorkerID p) = Inr (a, idx) \<and>
    completeLocked j a p \<lparr>f_Code = co_ErrorCode p, f_Message = co_ErrorMessage p\<rparr> = Inr (d, b)")
  case False
  then have "snd (repo_Complete r p) = r" by (auto simp: repo_Complete_def split: sum.splits prod.splits)
  then show ?thesis by simp
next
  case True
  then obtain j a idx d b where j: "requireJob r (co_JobID p) = Inr j"
    and ac: "activeAttempt r (j_ID j) (co_WorkerID p) = Inr (a, idx)"
    and cl: "completeLocked j a p \<lparr>f_Code = co_ErrorCode p, f_Message = co_ErrorMessage p\<rparr> = Inr (d, b)" by blast
  obtain n rs where n: "retry_completed d p = (n, rs)" by fastforce
  have at: "mget (r_jobs r) (j_ID j) = Some j" using j wf repo_wfD(1) [OF wf] by (auto simp: requireJob_wf)
  note co = completeLocked_ok [OF cl]
  obtain opr where ap: "job_apply j (co_Now p) opr = Inr d" and ncl: "\<forall>w ttl rnd. opr \<noteq> JClaim w ttl rnd" using co(2) by blast
  have "j_AttemptCount d = j_AttemptCount j" using job_apply_frame(14) [OF ap] ncl by (cases opr) auto
  moreover have "IsLeased (j_Status j)" using co(1) by (simp add: requireActiveExecution_None)
  ultimately have "taken_back (abs_job j) (abs_job n)" using retry_completed_cases [OF n] co(3) by (intro back_cases [where d = d]) auto
  from phases_put(2) [where R = taken_back, OF at this] show ?thesis using j ac cl n by (simp add: repo_Complete_def)
qed

lemma command_phases:
  assumes wf: "repo_wf r" and ok: "op_ok r c"
  shows "phases_by phase_next r (repo_exec r c)"
proof (cases c)
  case (RCreate j)
  with ok show ?thesis
    by (auto simp: repo_Create_def repo_insert_def fresh_job_def phases_by_def abs_repo_def abs_job_def job_wf_def split: option.splits)
next
  case (REnsurePlanned j)
  with ok show ?thesis
    by (auto simp: repo_EnsurePlanned_def repo_insert_def fresh_job_def phases_by_def abs_repo_def abs_job_def job_wf_def split: option.splits)
next
  case (RClaim p rnd)
  have "phases_by granted r (repo_exec r c)" using claim_phases by (simp add: RClaim repo_Claim_def Let_def split: prod.split) (metis snd_conv claim_phases)
  then show ?thesis by (rule phases_mono) (auto simp: granted_def)
next
  case (RMarkRunning i w now)
  show ?thesis
  proof (cases "repo_exec r c = r")
    case False
    then obtain j nxt where j: "requireJob r i = Inr j" "job_MarkRunning j w now = Inr nxt"
        and e: "repo_exec r c = r\<lparr>r_jobs := mput (j_ID j) nxt (r_jobs r)\<rparr>"
      by (auto simp: RMarkRunning repo_MarkRunning_def split: sum.splits)
    have "mget (r_jobs r) (j_ID j) = Some j" using j(1) wf repo_wfD(1) [OF wf] by (auto simp: requireJob_wf)
    moreover have "phase_next (abs_job j) (abs_job nxt)" using j(2) by (auto simp: MarkRunning_ok bumped_def abs_job_def)
    ultimately show ?thesis unfolding e by (rule phases_put(1))
  qed simp
next
  case (RHeartbeat i w ttl now)
  show ?thesis
  proof (cases "repo_exec r c = r")
    case False
    then obtain j nxt idx a where j: "requireJob r i = Inr j" "job_Renew j w ttl now = Inr nxt"
        and e: "repo_exec r c = put_both r (j_ID j) nxt idx a"
      by (auto simp: RHeartbeat repo_Heartbeat_def split: sum.splits prod.splits)
    have "mget (r_jobs r) (j_ID j) = Some j" using j(1) wf repo_wfD(1) [OF wf] by (auto simp: requireJob_wf)
    moreover have "phase_next (abs_job j) (abs_job nxt)" using j(2) by (auto simp: Renew_ok bumped_def abs_job_def)
    ultimately show ?thesis unfolding e by (rule phases_put(2))
  qed simp
next
  case (RComplete p)
  have "phases_by taken_back r (repo_exec r c)" using complete_phases [OF wf] by (simp add: RComplete)
  then show ?thesis by (rule phases_mono) (auto simp: taken_back_def)
next
  case (RCancel i now)
  have same: "abs_repo (cancel_attempt r j now) = abs_repo r" "r_jobs (cancel_attempt r j now) = r_jobs r" for j
    by (auto simp: cancel_attempt_def abs_repo_def fun_eq_iff split: sum.splits prod.splits)
  show ?thesis
  proof (cases "\<exists>j nxt. requireJob r i = Inr j \<and> job_Cancel j now = Inr nxt")
    case False
    then have "abs_repo (repo_exec r c) = abs_repo r" by (auto simp: RCancel repo_Cancel_def Let_def same split: sum.splits)
    then show ?thesis by (simp add: phases_by_def split: option.splits)
  next
    case True
    then obtain j nxt where j: "requireJob r i = Inr j" "job_Cancel j now = Inr nxt" by blast
    have at: "mget (r_jobs r) (j_ID j) = Some j" using j(1) wf repo_wfD(1) [OF wf] by (auto simp: requireJob_wf)
    have p: "phase_next (abs_job j) (abs_job nxt)" using j(2)
      by (auto simp: Cancel_ok job_upd_defs abs_job_def dest!: CanCancel_cases)
    have "abs_repo (repo_exec r c) = abs_repo (r\<lparr>r_jobs := mput (j_ID j) nxt (r_jobs r)\<rparr>)"
      using j by (auto simp: RCancel repo_Cancel_def Let_def same abs_repo_def fun_eq_iff)
    from phases_put(1) [where R = phase_next, OF at p] show ?thesis unfolding phases_cong [OF \<open>abs_repo (repo_exec r c) = _\<close>] .
  qed
next
  case (RReapExpired now limit delay)
  with ok have t: "0 < now" by simp
  obtain res r' where r': "repo_ReapExpired r now limit delay = (Inr res, r')" "reap_post delay now (reap_ids r now limit) r r'"
    using ReapExpired_wf [OF wf t] by blast
  have "\<forall>i \<in> set (reap_ids r now limit). takeable r now i"
    using reap_ids_sub expired_ids [of r] wf by (fastforce simp: takeable_def repo_wf_def)
  from reap_phases [OF r'(2) this] have "phases_by taken_back r (repo_exec r c)" using r'(1) by (simp add: RReapExpired)
  then show ?thesis by (rule phases_mono) (auto simp: taken_back_def)
qed

text \<open>C27: the store implements the ledger: whatever one command does, seen abstractly it is a sequence of ledger steps, and each
  job makes one move at most: a new job enters queued; a queued job stays, is granted to one worker, which counts the
  execution, or is done; a held job stays with its holder under the same count, is queued again, or is done; a finished job
  stays. So no command moves a job from one holder to another or grants a finished job again.\<close>

theorem store_refines_ledger:
  assumes "reachable r" "op_ok r c"
  shows "ledger_step\<^sup>*\<^sup>* (abs_repo r) (abs_repo (repo_exec r c)) \<and>
    (\<forall>i. case abs_repo r i of
       None \<Rightarrow> abs_repo (repo_exec r c) i \<in> {None, Some (Queued 0)}
     | Some (Queued n) \<Rightarrow> abs_repo (repo_exec r c) i \<in> {Some (Queued n), Some Done} \<union> {Some (Held w (n + 1)) | w. True}
     | Some (Held w n) \<Rightarrow> abs_repo (repo_exec r c) i \<in> {Some (Held w n), Some (Queued n), Some Done}
     | Some Done \<Rightarrow> abs_repo (repo_exec r c) i = Some Done)"
proof
  note wf = reachable_wf [OF assms(1)]
  show "ledger_step\<^sup>*\<^sup>* (abs_repo r) (abs_repo (repo_exec r c))" using exec_good [OF wf assms(2)] by (simp add: good_step_def)
  show "\<forall>i. case abs_repo r i of
       None \<Rightarrow> abs_repo (repo_exec r c) i \<in> {None, Some (Queued 0)}
     | Some (Queued n) \<Rightarrow> abs_repo (repo_exec r c) i \<in> {Some (Queued n), Some Done} \<union> {Some (Held w (n + 1)) | w. True}
     | Some (Held w n) \<Rightarrow> abs_repo (repo_exec r c) i \<in> {Some (Held w n), Some (Queued n), Some Done}
     | Some Done \<Rightarrow> abs_repo (repo_exec r c) i = Some Done" (is "\<forall>i. ?P i")
  proof
    fix i
    from command_phases [OF wf assms(2), unfolded phases_by_def, rule_format, of i]
    show "?P i" by (auto split: option.splits phase.splits elim: phase_next.elims)
  qed
qed

theorem store_refines_ledger_witness:
  "ledger_step\<^sup>*\<^sup>* [''j1'' \<mapsto> Queued 0] [''j1'' \<mapsto> Held ''w1'' 1]"
proof -
  have "op_ok demo_store (RClaim demo_claim_params (\<lambda>_. demo_raw))" by (simp add: demo_claim_params_def)
  from store_refines_ledger [OF demo_store_reachable this, THEN conjunct1]
  have "ledger_step\<^sup>*\<^sup>* (abs_repo demo_store) (abs_repo demo_leased)" by (simp add: demo_leased_def)
  moreover have "abs_repo demo_store = [''j1'' \<mapsto> Queued 0]"
    by (auto simp: abs_repo_def fun_eq_iff demo_store_eq abs_job_def demo_job_def)
  moreover have "abs_repo demo_leased = [''j1'' \<mapsto> Held ''w1'' 1]"
    by (auto simp: demo_leased_sel abs_repo_def fun_eq_iff abs_job_def demo_job_def demo_claimed_def bumped_def)
  ultimately show ?thesis by simp
qed

text \<open>A stored job is never lost: whatever commands follow, it is still there under its
  identifier with the same owner scope, type, payload, key and budget, its count of executions never
  falls, and once it is succeeded, failed, timed out or cancelled the record never changes again.\<close>

theorem stored_jobs_evolve:
  assumes "reachable r" "store_step\<^sup>*\<^sup>* r r'" "mget (r_jobs r) i = Some j"
  shows "\<exists>j'. mget (r_jobs r') i = Some j' \<and> same_ident j j' \<and> j_AttemptCount j \<le> j_AttemptCount j' \<and>
    (status_IsTerminal (j_Status j) \<longrightarrow> j' = j)"
  using later_job [OF assms] by (auto simp: evolves_def)

theorem stored_jobs_evolve_witness:
  "\<exists>j'. mget (r_jobs demo_leased) ''j1'' = Some j' \<and> same_ident demo_job j'"
proof -
  have "store_step demo_store demo_leased"
    unfolding demo_leased_def by (rule store_step) (simp add: demo_claim_params_def)
  then have "store_step\<^sup>*\<^sup>* demo_store demo_leased" by (rule r_into_rtranclp)
  from stored_jobs_evolve [OF demo_store_reachable this, of "''j1''" demo_job] show ?thesis
    by (auto simp: demo_store_eq)
qed

lemma index_stays:
  assumes "reachable r" "store_step\<^sup>*\<^sup>* r r'" "mget (r_idempotency r) k = Some i"
  shows "\<exists>j. mget (r_idempotency r') k = Some i \<and> mget (r_jobs r') i = Some j \<and> i \<noteq> []"
proof -
  from reachable_wf [OF assms(1)] assms(3) obtain j where j: "mget (r_jobs r) i = Some j" "j_IdempotencyKey j = k"
    unfolding repo_wf_def by blast
  from later_job [OF assms(1,2) j(1)] obtain j' where j': "mget (r_jobs r') i = Some j'" "j_IdempotencyKey j' = k"
    using j(2) by (auto simp: evolves_def same_ident_def)
  have "repo_wf r'" using steps_good [OF assms(2) reachable_wf [OF assms(1)]] by (simp add: good_step_def)
  from repo_wfD(4,6) [OF this j'(1)] j' show ?thesis by auto
qed

lemma index_after:
  assumes "reachable r" "op_ok r (REnsurePlanned j)" "c = RCreate j \<or> c = REnsurePlanned j"
  shows "\<exists>i. mget (r_idempotency (repo_exec r c)) (j_IdempotencyKey j) = Some i"
  using assms(3) by (auto simp: repo_Create_def repo_EnsurePlanned_def repo_insert_def split: option.splits)

text \<open>An idempotency key admits one job for ever: after a job entered the store by \<^verbatim>\<open>Create\<close> or
  \<^verbatim>\<open>EnsurePlanned\<close>, at every later moment \<^verbatim>\<open>Create\<close> with its key fails with the duplicate error,
  \<^verbatim>\<open>EnsurePlanned\<close> returns a stored job with that key and says that it created nothing, both leave
  the store alone, and no two stored jobs share a key.\<close>

theorem one_job_per_key:
  assumes "reachable r" "fresh_job r j" "c = RCreate j \<or> c = REnsurePlanned j"
    "store_step\<^sup>*\<^sup>* (repo_exec r c) r'" "j_IdempotencyKey j2 = j_IdempotencyKey j"
  shows "repo_Create r' j2 = (Inl (bare ErrDuplicateJob), r') \<and>
    (\<exists>k. repo_EnsurePlanned r' j2 = (Inr (k, False), r') \<and> j_IdempotencyKey k = j_IdempotencyKey j) \<and>
    (\<forall>i1 i2 k1 k2. mget (r_jobs r') i1 = Some k1 \<longrightarrow> mget (r_jobs r') i2 = Some k2 \<longrightarrow>
       j_IdempotencyKey k1 = j_IdempotencyKey k2 \<longrightarrow> i1 = i2)"
proof -
  have ok: "op_ok r c" using assms(2,3) by auto
  note rc = reachable_step [OF assms(1) ok]
  obtain i where "mget (r_idempotency (repo_exec r c)) (j_IdempotencyKey j) = Some i"
    using index_after [OF assms(1) _ assms(3)] assms(2) by auto
  from index_stays [OF rc assms(4) this] obtain k where
    k: "mget (r_idempotency r') (j_IdempotencyKey j) = Some i" "mget (r_jobs r') i = Some k" "i \<noteq> []" by blast
  have wf: "repo_wf r'" using steps_good [OF assms(4) reachable_wf [OF rc]] by (simp add: good_step_def)
  from wf k have "j_IdempotencyKey k = j_IdempotencyKey j" unfolding repo_wf_def by (metis option.inject)
  with k assms(5) have "repo_Create r' j2 = (Inl (bare ErrDuplicateJob), r')"
    "repo_EnsurePlanned r' j2 = (Inr (k, False), r') \<and> j_IdempotencyKey k = j_IdempotencyKey j"
    by (simp_all add: repo_Create_def repo_EnsurePlanned_def jobAt_def)
  moreover have "\<forall>i1 i2 k1 k2. mget (r_jobs r') i1 = Some k1 \<longrightarrow> mget (r_jobs r') i2 = Some k2 \<longrightarrow>
       j_IdempotencyKey k1 = j_IdempotencyKey k2 \<longrightarrow> i1 = i2"
    using repo_wfD(4) [OF wf] by (metis option.inject)
  ultimately show ?thesis by auto
qed

theorem one_job_per_key_witness:
  "repo_Create demo_leased (demo_job\<lparr>j_ID := ''j9''\<rparr>) = (Inl (bare ErrDuplicateJob), demo_leased)"
proof -
  have "store_step\<^sup>*\<^sup>* (repo_exec NewMemoryRepository (RCreate demo_job)) demo_leased"
    unfolding demo_store_def [symmetric] demo_leased_def
    by (intro r_into_rtranclp store_step) (simp add: demo_claim_params_def)
  from one_job_per_key [OF _ demo_fresh disjI1 [OF refl] this, of "demo_job\<lparr>j_ID := ''j9''\<rparr>"]
  show ?thesis by (simp add: reachable_def)
qed

definition same_contents :: "repo \<Rightarrow> repo \<Rightarrow> bool" where
  "same_contents r r2 =
     (mget (r_jobs r) = mget (r_jobs r2) \<and> mslice (r_attempts r) = mslice (r_attempts r2) \<and>
      mget (r_idempotency r) = mget (r_idempotency r2))"

lemma claim_key_inj: "repo_wf r \<Longrightarrow> inj_on (\<lambda>(i, j). claim_key j) (set (r_jobs r))"
proof (rule inj_onI, clarify)
  fix i j k l
  assume wf: "repo_wf r" and m: "(i, j) \<in> set (r_jobs r)" "(k, l) \<in> set (r_jobs r)"
    and e: "claim_key j = claim_key l"
  have mw: "mwf (r_jobs r)" using wf by (simp add: repo_wf_def)
  from m have g: "mget (r_jobs r) i = Some j" "mget (r_jobs r) k = Some l" by (simp_all add: mem_mget [OF mw])
  with e have "i = k" using repo_wfD(1) [OF wf] by (auto simp: claim_key_def)
  with g show "i = k \<and> j = l" by simp
qed

lemma claimable_same:
  assumes "repo_wf r" "repo_wf r2" "same_contents r r2"
  shows "claimableIDs r now = claimableIDs r2 now"
proof -
  let ?P = "\<lambda>(i, j). \<not> (\<not> CanClaim (j_Status j) \<or> \<not> Due j now)"
  have "mset (r_jobs r) = mset (r_jobs r2)"
    using assms by (intro mwf_mset_eq) (auto simp: repo_wf_def same_contents_def)
  then have "mset (filter ?P (r_jobs r)) = mset (filter ?P (r_jobs r2))" by simp
  moreover have "inj_on (\<lambda>(i, j). claim_key j) (set (filter ?P (r_jobs r)))"
    using claim_key_inj [OF assms(1)] by (rule inj_on_subset) auto
  ultimately have "sort_key (\<lambda>(i, j). claim_key j) (filter ?P (r_jobs r)) =
      sort_key (\<lambda>(i, j). claim_key j) (filter ?P (r_jobs r2))"
    by (rule sort_key_unique)
  then show ?thesis by (simp add: claimableIDs_def)
qed

lemma jobAt_same: "same_contents r r2 \<Longrightarrow> jobAt r = jobAt r2"
  by (simp add: same_contents_def jobAt_def fun_eq_iff)

lemma put_claims_same: "same_contents r r2 \<Longrightarrow> same_contents (put_claims gs r) (put_claims gs r2)"
  by (induction gs r arbitrary: r2 rule: put_claims.induct)
    (auto simp: same_contents_def put_claim_def fun_eq_iff)

lemma claimable_sorted:
  assumes "repo_wf r"
  shows "sorted (map (claim_key \<circ> jobAt r) (claimableIDs r now))"
proof -
  let ?L = "sort_key (\<lambda>(i, j). claim_key j)
       (filter (\<lambda>(i, j). \<not> (\<not> CanClaim (j_Status j) \<or> \<not> Due j now)) (r_jobs r))"
  have mw: "mwf (r_jobs r)" using assms by (simp add: repo_wf_def)
  have "map (claim_key \<circ> jobAt r) (claimableIDs r now) = map (\<lambda>(i, j). claim_key j) ?L"
    by (auto simp: claimableIDs_def jobAt_def mem_mget [OF mw])
  also have "sorted \<dots>" by (rule sorted_sort_key)
  finally show ?thesis .
qed

lemma reachable_New: "reachable NewMemoryRepository"
  by (simp add: reachable_def)

text \<open>A claim does not depend on the order in which Go visits its maps: two stores with the same
  contents give the same grants and stores with the same contents again, because the claimable jobs,
  which are exactly the pending and retry jobs that are due, are taken in the total order of
  priority, due instant, age and identifier.\<close>

theorem claim_order_is_total:
  assumes "reachable r" "reachable r2" "same_contents r r2"
  shows "fst (repo_Claim r p rnd) = fst (repo_Claim r2 p rnd) \<and>
    same_contents (snd (repo_Claim r p rnd)) (snd (repo_Claim r2 p rnd)) \<and>
    claimableIDs r now = claimableIDs r2 now \<and>
    sorted (map (claim_key \<circ> jobAt r) (claimableIDs r now)) \<and>
    set (claimableIDs r now) = {i. \<exists>j. mget (r_jobs r) i = Some j \<and> CanClaim (j_Status j) \<and> Due j now}"
proof -
  note wf = reachable_wf [OF assms(1)] reachable_wf [OF assms(2)]
  have mw: "mwf (r_jobs r)" using wf by (simp add: repo_wf_def)
  note c = claimable_same [OF wf assms(3)]
  have "fst (repo_Claim r p rnd) = fst (repo_Claim r2 p rnd) \<and>
    same_contents (snd (repo_Claim r p rnd)) (snd (repo_Claim r2 p rnd))"
  proof (cases "TrimSpace (cl_WorkerID p) = []")
    case True
    with assms(3) show ?thesis by (simp add: repo_Claim_def)
  next
    case False
    then show ?thesis
      using Claim_grants [OF wf(1) False, of rnd] Claim_grants [OF wf(2) False, of rnd] assms(3)
      by (simp add: Let_def c jobAt_same put_claims_same)
  qed
  moreover have "set (claimableIDs r now) = {i. \<exists>j. mget (r_jobs r) i = Some j \<and> CanClaim (j_Status j) \<and> Due j now}"
    using claimable_ids [OF mw] by blast
  ultimately show ?thesis using c [of now] claimable_sorted [OF wf(1), of now] by blast
qed

definition demo_job2 :: job where
  "demo_job2 = demo_job\<lparr>j_ID := ''j2'', j_IdempotencyKey := ''k2'', j_Priority := 3\<rparr>"

definition demo_two :: "job \<Rightarrow> job \<Rightarrow> repo" where
  "demo_two a b = repo_exec (repo_exec NewMemoryRepository (RCreate a)) (RCreate b)"

lemma demo_two_eq:
  "demo_two demo_job demo_job2 = \<lparr>r_jobs = [(''j1'', demo_job), (''j2'', demo_job2)], r_attempts = [],
     r_idempotency = [(''k1'', ''j1''), (''k2'', ''j2'')]\<rparr>"
  "demo_two demo_job2 demo_job = \<lparr>r_jobs = [(''j2'', demo_job2), (''j1'', demo_job)], r_attempts = [],
     r_idempotency = [(''k2'', ''j2''), (''k1'', ''j1'')]\<rparr>"
  by (simp_all add: demo_two_def repo_Create_def NewMemoryRepository_def repo_insert_def mput_def)
    (simp_all add: demo_job2_def demo_job_def)

lemma demo_wf2: "job_wf demo_job2"
  by (simp add: demo_job2_def demo_job_def job_wf_def TrimSpace_solid solid_def)

lemma demo_two_reachable: "reachable (demo_two demo_job demo_job2)" "reachable (demo_two demo_job2 demo_job)"
proof -
  have f: "fresh_job NewMemoryRepository demo_job" "fresh_job NewMemoryRepository demo_job2"
    by (simp_all add: fresh_job_def demo_wf demo_wf2 NewMemoryRepository_def) (simp_all add: demo_job_def demo_job2_def)
  then have r: "reachable (repo_exec NewMemoryRepository (RCreate demo_job))"
    "reachable (repo_exec NewMemoryRepository (RCreate demo_job2))"
    by (auto intro!: reachable_step [where r = NewMemoryRepository] simp del: repo_exec.simps simp: reachable_New)
  moreover have "fresh_job (repo_exec NewMemoryRepository (RCreate demo_job)) demo_job2"
    "fresh_job (repo_exec NewMemoryRepository (RCreate demo_job2)) demo_job"
    by (simp_all add: fresh_job_def demo_wf demo_wf2 repo_Create_def NewMemoryRepository_def repo_insert_def)
      (simp_all add: demo_job_def demo_job2_def)
  ultimately show "reachable (demo_two demo_job demo_job2)" "reachable (demo_two demo_job2 demo_job)"
    unfolding demo_two_def by (auto intro!: reachable_step simp del: repo_exec.simps)
qed

theorem claim_order_is_total_witness:
  "claimableIDs (demo_two demo_job demo_job2) 10 = claimableIDs (demo_two demo_job2 demo_job) 10"
proof -
  have "same_contents (demo_two demo_job demo_job2) (demo_two demo_job2 demo_job)"
    by (auto simp: same_contents_def demo_two_eq fun_eq_iff mslice_def)
  from claim_order_is_total [OF demo_two_reachable this] show ?thesis by blast
qed

text \<open>C31: a claim by a named worker with a positive lease takes the first jobs of the claim order, as
  many as asked for (at least one) or as there are, each with a fresh lease for that worker and a new
  attempt that carries the job's attempt number, stores them as returned, and leaves every other job
  alone.\<close>

theorem claim_takes_most_urgent:
  assumes "reachable r" "TrimSpace (cl_WorkerID p) \<noteq> []" "0 < cl_LeaseTTL p"
    "repo_Claim r p (\<lambda>i. Some (raw i)) = (res, r')"
  shows "\<exists>grants. res = Inr grants \<and>
    map (j_ID \<circ> fst) grants = take (nat (max 1 (cl_MaxJobs p))) (claimableIDs r (cl_Now p)) \<and>
    (\<forall>(j, a) \<in> set grants. mget (r_jobs r') (j_ID j) = Some j \<and> j_Status j = StatusClaimed \<and>
       j_LeaseOwner j = TrimSpace (cl_WorkerID p) \<and> j_LeaseExpireAt j = cl_Now p + cl_LeaseTTL p \<and>
       a_JobID a = j_ID j \<and> a_WorkerID a = j_LeaseOwner j \<and> a_AttemptNo a = j_AttemptCount j) \<and>
    (\<forall>i. i \<notin> set (map (j_ID \<circ> fst) grants) \<longrightarrow> mget (r_jobs r') i = mget (r_jobs r) i)"
proof -
  let ?rnd = "\<lambda>i. Some (raw i)" and ?ids = "claimableIDs r (cl_Now p)"
  note wf = reachable_wf [OF assms(1)]
  then have mw: "mwf (r_jobs r)" by (simp add: repo_wf_def)
  define all where "all = claim_grants p ?rnd (jobAt r) ?ids"
  define gs where "gs = take (claim_limit p) all"
  have res: "res = Inr (map snd gs)" "r' = put_claims gs r"
    using Claim_grants [OF wf assms(2), of ?rnd] assms(4) by (auto simp: gs_def all_def Let_def)
  have "is_ok (job_Claim (jobAt r i) (cl_WorkerID p) (cl_LeaseTTL p) (cl_Now p) (?rnd i))" if "i \<in> set ?ids" for i
    using that claim_due_ok [OF wf _ _ _ assms(2,3)] by (auto simp: claimable_ids [OF mw] jobAt_def)
  then have ids: "map fst all = ?ids" unfolding all_def by (rule claim_grants_ids)
  have d: "distinct (map fst gs)" using claimable_distinct [OF mw] ids unfolding gs_def
    by (metis distinct_take take_map)
  have g: "fst g = j_ID (fst (snd g)) \<and>
      (case snd g of (j, a) \<Rightarrow> j_Status j = StatusClaimed \<and>
       j_LeaseOwner j = TrimSpace (cl_WorkerID p) \<and> j_LeaseExpireAt j = cl_Now p + cl_LeaseTTL p \<and>
       a_JobID a = j_ID j \<and> a_WorkerID a = j_LeaseOwner j \<and> a_AttemptNo a = j_AttemptCount j)" if "g \<in> set gs" for g
  proof -
    obtain i nxt a where gx: "g = (i, nxt, a)" by (cases g)
    have "i \<in> set ?ids" and c: "job_Claim (jobAt r i) (cl_WorkerID p) (cl_LeaseTTL p) (cl_Now p) (?rnd i) = Inr (nxt, a)"
      using that gx claim_grants_mem [of i "(nxt, a)" p ?rnd "jobAt r" ?ids]
      unfolding gs_def all_def by (auto dest!: in_set_takeD)
    moreover from this have "j_ID (jobAt r i) = i" "TrimSpace i = i"
      using repo_wfD [OF wf] by (auto simp: claimable_ids [OF mw] jobAt_def)
    ultimately show ?thesis
      using gx by (auto simp: Claim_ok bumped_def TrimSpace_idem dest!: NewAttempt_fields)
  qed
  then have mg: "map (j_ID \<circ> fst) (map snd gs) = map fst gs" by (auto simp: comp_def)
  also have "\<dots> = take (claim_limit p) ?ids" unfolding gs_def by (simp add: take_map [symmetric] ids)
  finally have m: "map (j_ID \<circ> fst) (map snd gs) = take (claim_limit p) ?ids" .
  have "\<forall>(j, a) \<in> set (map snd gs). mget (r_jobs r') (j_ID j) = Some j"
    using put_claims_in [OF d] g unfolding res by fastforce
  moreover have "mget (r_jobs r') i = mget (r_jobs r) i" if "i \<notin> set (map (j_ID \<circ> fst) (map snd gs))" for i
  proof -
    have "set (map fst gs) = set (map (j_ID \<circ> fst) (map snd gs))" using mg by simp
    with that have "i \<notin> fst ` set gs" by auto
    then show ?thesis unfolding res by (rule put_claims_other)
  qed
  ultimately show ?thesis
    using res m g by (intro exI [of _ "map snd gs"]) (fastforce simp: claim_limit_def)
qed

theorem claim_takes_most_urgent_witness:
  "\<exists>j a. fst (repo_Claim (demo_two demo_job demo_job2) (demo_claim_params\<lparr>cl_MaxJobs := 1\<rparr>)
      (\<lambda>i. Some (replicate 16 0))) = Inr [(j, a)] \<and> j_ID j = ''j2''"
proof -
  let ?p = "demo_claim_params\<lparr>cl_MaxJobs := 1\<rparr>" and ?r = "demo_two demo_job demo_job2"
  obtain res r' where c: "repo_Claim ?r ?p (\<lambda>i. Some (replicate 16 0)) = (res, r')" by fastforce
  have ids: "claimableIDs ?r 10 = [''j2'', ''j1'']"
    unfolding claimableIDs_def demo_two_eq
    by (simp add: demo_job2_def demo_job_def Due_def IsZero_def claim_key_def)
  have "TrimSpace (cl_WorkerID ?p) \<noteq> []" "0 < cl_LeaseTTL ?p" by (simp_all add: demo_claim_params_def)
  from claim_takes_most_urgent [OF demo_two_reachable(1) this c] obtain grants where
    "res = Inr grants" "map (j_ID \<circ> fst) grants = take 1 (claimableIDs ?r 10)"
    by (auto simp: demo_claim_params_def)
  with c ids show ?thesis by (cases grants) (auto simp: demo_claim_params_def)
qed

section \<open>The reaper\<close>

lemma reaped_value:
  assumes "IsLeased (j_Status j)" "LeaseExpired j now" "0 \<le> delay (j_AttemptCount j)"
  shows "\<exists>j'. reaped delay now j = Some j' \<and> j_LeaseOwner j' = [] \<and>
    (if j_AttemptCount j < j_MaxAttempts j
     then j_Status j' = StatusRetry \<and> j_NextRunAt j' = now + delay (j_AttemptCount j)
     else j_Status j' = StatusTimedOut)"
proof -
  obtain d rst where ex: "job_ExpireLease j now reap_fail = Inr (d, rst)"
    and d: "j_Status d = StatusTimedOut" "j_AttemptCount d = j_AttemptCount j" "j_MaxAttempts d = j_MaxAttempts j"
      "j_LeaseOwner d = []"
    using assms by (auto simp: ExpireLease_ok job_upd_defs)
  show ?thesis
  proof (cases "CanRetry d")
    case True
    then obtain n where n: "job_ScheduleRetry d (delay (j_AttemptCount d)) now = Inr n"
      using assms(3) d by (simp add: ScheduleRetry_ok)
    then have "reaped delay now j = Some n" using True ex by (simp add: reaped_def retry_reaped_def)
    with n True d show ?thesis by (auto simp: ScheduleRetry_ok CanRetry_def job_upd_defs)
  next
    case False
    with ex d show ?thesis by (simp add: reaped_def retry_reaped_def CanRetry_def)
  qed
qed

text \<open>The reaper never fails on a reachable store: it takes back as many expired leases as its
  limit allows, leaves every job alone whose lease is not expired, and without a limit every job with
  an expired lease ends with no holder, either waiting for a retry after the delay of the policy while
  its budget lasts or timed out for good.\<close>

theorem reaper_recovers_expired_leases:
  assumes "reachable r" "0 < now" "\<And>n. 0 \<le> delay n"
  shows "\<exists>res r'. repo_ReapExpired r now limit delay = (Inr res, r') \<and>
    length res = (if 0 < limit then min (nat limit) (length (expiredLeaseIDs r now))
                  else length (expiredLeaseIDs r now)) \<and>
    (\<forall>i j. mget (r_jobs r) i = Some j \<longrightarrow> \<not> (IsLeased (j_Status j) \<and> LeaseExpired j now) \<longrightarrow>
       mget (r_jobs r') i = Some j) \<and>
    (limit \<le> 0 \<longrightarrow> (\<forall>i j. mget (r_jobs r) i = Some j \<longrightarrow> IsLeased (j_Status j) \<longrightarrow> LeaseExpired j now \<longrightarrow>
       (\<exists>j'. mget (r_jobs r') i = Some j' \<and> j_LeaseOwner j' = [] \<and>
         (if j_AttemptCount j < j_MaxAttempts j
          then j_Status j' = StatusRetry \<and> j_NextRunAt j' = now + delay (j_AttemptCount j)
          else j_Status j' = StatusTimedOut))))"
proof -
  note wf = reachable_wf [OF assms(1)]
  then have mw: "mwf (r_jobs r)" by (simp add: repo_wf_def)
  let ?ids = "reap_ids r now limit"
  obtain res r' where c: "repo_ReapExpired r now limit delay = (Inr res, r')" "length res = length ?ids"
    "reap_post delay now ?ids r r'"
    using ReapExpired_wf [OF wf assms(2)] by blast
  have "length ?ids = (if 0 < limit then min (nat limit) (length (expiredLeaseIDs r now))
                  else length (expiredLeaseIDs r now))"
    by (auto simp: reap_ids_def Let_def)
  moreover have "mget (r_jobs r') i = Some j"
    if "mget (r_jobs r) i = Some j" "\<not> (IsLeased (j_Status j) \<and> LeaseExpired j now)" for i j
  proof -
    have "i \<notin> set ?ids" using that reap_ids_sub expired_ids [OF mw] by fastforce
    with that c(3) show ?thesis by (simp add: reap_post_def)
  qed
  moreover have "\<exists>j'. mget (r_jobs r') i = Some j' \<and> j_LeaseOwner j' = [] \<and>
         (if j_AttemptCount j < j_MaxAttempts j
          then j_Status j' = StatusRetry \<and> j_NextRunAt j' = now + delay (j_AttemptCount j)
          else j_Status j' = StatusTimedOut)"
    if "limit \<le> 0" "mget (r_jobs r) i = Some j" "IsLeased (j_Status j)" "LeaseExpired j now" for i j
  proof -
    have "?ids = expiredLeaseIDs r now" using that(1) by (simp add: reap_ids_def Let_def)
    then have "i \<in> set ?ids" using that expired_ids [OF mw] by auto
    with c(3) that(2) have "mget (r_jobs r') i = reaped delay now j" by (simp add: reap_post_def)
    with reaped_value [OF that(3,4), of delay] assms(3) show ?thesis by simp
  qed
  ultimately show ?thesis using c(1,2) by (intro exI [of _ res] exI [of _ r']) simp
qed

theorem reaper_recovers_expired_leases_witness:
  "\<exists>res r' j'. repo_ReapExpired demo_leased 40 0 (\<lambda>_. 7) = (Inr res, r') \<and>
     mget (r_jobs r') ''j1'' = Some j' \<and> j_Status j' = StatusRetry \<and> j_NextRunAt j' = 47"
proof -
  have "mget (r_jobs demo_leased) ''j1'' = Some demo_claimed" "IsLeased (j_Status demo_claimed)"
    "LeaseExpired demo_claimed 40" "j_AttemptCount demo_claimed < j_MaxAttempts demo_claimed"
    by (simp_all add: demo_leased_sel demo_claimed_def bumped_def LeaseExpired_def IsZero_def)
      (simp add: demo_job_def)
  then show ?thesis
    using reaper_recovers_expired_leases [OF demo_leased_reachable, of 40 "\<lambda>_. 7" 0] by fastforce
qed

lemma activeAttempt_ok_iff:
  assumes "repo_wf r" "mget (r_jobs r) i = Some j"
  shows "is_ok (activeAttempt r i w) \<longleftrightarrow>
    IsLeased (j_Status j) \<and> (TrimSpace w = [] \<or> j_LeaseOwner j = TrimSpace w)"
  by (auto simp: activeAttempt_wf [OF assms] is_ok_def)

definition completed_status :: "attempt_status \<Rightarrow> status" where
  "completed_status s = (case s of AttemptStatusSucceeded \<Rightarrow> StatusSucceeded
     | AttemptStatusTimedOut \<Rightarrow> StatusTimedOut | AttemptStatusAbandoned \<Rightarrow> StatusTimedOut
     | _ \<Rightarrow> StatusFailed)"

text \<open>The status an attempt ends in: an unknown or an unfinished result counts as a failure.\<close>

definition closed_status :: "attempt_status \<Rightarrow> attempt_status" where
  "closed_status s = (if attempt_IsTerminal s then s else AttemptStatusFailed)"

lemma completeLocked_total:
  assumes "requireActiveExecution j (co_WorkerID p) (co_Now p) = None" "attempt_Active a"
  shows "\<exists>d b. completeLocked j a p fl = Inr (d, b) \<and> j_Status d = completed_status (co_ResultStatus p) \<and>
    a_ResultStatus b = closed_status (co_ResultStatus p) \<and> j_LeaseOwner d = [] \<and>
    j_AttemptCount d = j_AttemptCount j \<and> j_MaxAttempts d = j_MaxAttempts j"
  using assms
  by (cases "co_ResultStatus p")
    (simp_all add: completeLocked_def Let_def completed_status_def closed_status_def
      job_MarkSucceeded_def job_MarkFailed_def job_MarkTimedOut_def attempt_MarkSucceeded_def
      attempt_MarkFailed_def attempt_MarkTimedOut_def attempt_MarkAbandoned_def attempt_finish_def job_upd_defs)

lemma completeLocked_none:
  "requireActiveExecution j (co_WorkerID p) (co_Now p) = Some e \<Longrightarrow> completeLocked j a p fl = Inl e"
  by (cases "co_ResultStatus p")
    (simp_all add: completeLocked_def Let_def job_MarkSucceeded_def job_MarkFailed_def job_MarkTimedOut_def)

definition wants_retry :: "complete_params \<Rightarrow> job \<Rightarrow> bool" where
  "wants_retry p j = (co_Retryable p \<and> completed_status (co_ResultStatus p) \<noteq> StatusSucceeded \<and>
     j_AttemptCount j < j_MaxAttempts j \<and> 0 \<le> co_RetryDelay p)"

lemma completed_status_cases:
  "completed_status s = StatusSucceeded \<or> completed_status s = StatusTimedOut \<or> completed_status s = StatusFailed"
  by (cases s) (simp_all add: completed_status_def)

lemma retry_completed_value:
  assumes "j_Status d = completed_status (co_ResultStatus p)" "j_AttemptCount d = j_AttemptCount j"
    "j_MaxAttempts d = j_MaxAttempts j" "j_LeaseOwner d = []"
  shows "\<exists>n. retry_completed d p = (n, wants_retry p j) \<and> j_LeaseOwner n = [] \<and>
    (if wants_retry p j then j_Status n = StatusRetry \<and> j_NextRunAt n = co_Now p + co_RetryDelay p else n = d)"
proof (cases "wants_retry p j")
  case True
  then have "\<exists>n. job_ScheduleRetry d (co_RetryDelay p) (co_Now p) = Inr n \<and> j_LeaseOwner n = [] \<and>
      j_Status n = StatusRetry \<and> j_NextRunAt n = co_Now p + co_RetryDelay p"
    using assms completed_status_cases [of "co_ResultStatus p"]
    by (auto simp: ScheduleRetry_ok wants_retry_def CanRetry_def job_upd_defs)
  with True assms show ?thesis by (auto simp: retry_completed_def wants_retry_def CanRetry_def)
next
  case False
  have "retry_completed d p = (d, False)"
    using False assms by (auto simp: retry_completed_def wants_retry_def CanRetry_def job_ScheduleRetry_def
        split: sum.splits)
  with False assms show ?thesis by simp
qed

lemma Complete_result:
  assumes "repo_wf r"
  shows "if \<exists>j. mget (r_jobs r) (TrimSpace (co_JobID p)) = Some j \<and> live_lease j (co_WorkerID p) (co_Now p)
    then \<exists>j n b r'. mget (r_jobs r) (TrimSpace (co_JobID p)) = Some j \<and>
      repo_Complete r p = (Inr (n, b, wants_retry p j), r') \<and>
      mget (r_jobs r') (j_ID j) = Some n \<and> mslice (r_attempts r') (j_ID j) = butlast (mslice (r_attempts r) (j_ID j)) @ [b] \<and>
      a_ResultStatus b = closed_status (co_ResultStatus p) \<and> j_LeaseOwner n = [] \<and>
      (if wants_retry p j then j_Status n = StatusRetry \<and> j_NextRunAt n = co_Now p + co_RetryDelay p
       else j_Status n = completed_status (co_ResultStatus p))
    else \<exists>e. repo_Complete r p = (Inl e, r)"
proof (cases "mget (r_jobs r) (TrimSpace (co_JobID p))")
  case None
  then show ?thesis by (simp add: repo_Complete_def requireJob_def)
next
  case (Some j)
  note wf = assms
  note jw = repo_wfD [OF wf Some]
  have rq: "requireJob r (co_JobID p) = Inr j" using Some by (simp add: requireJob_def)
  let ?as = "mslice (r_attempts r) (j_ID j)"
  have at: "mget (r_jobs r) (j_ID j) = Some j" using Some jw(1) by simp
  show ?thesis
  proof (cases "live_lease j (co_WorkerID p) (co_Now p)")
    case True
    then have l: "IsLeased (j_Status j)" "j_LeaseOwner j = TrimSpace (co_WorkerID p)" by (simp_all add: live_lease_def)
    have ra: "requireActiveExecution j (co_WorkerID p) (co_Now p) = None"
      using live_lease_guard [OF jw(2) True] by simp
    have ac: "activeAttempt r (j_ID j) (co_WorkerID p) = Inr (last ?as, length ?as - 1)"
      using activeAttempt_wf [OF wf at] l by simp
    have ao: "attempts_ok j ?as" using repo_wfD(3) [OF wf at] .
    then have act: "attempt_Active (last ?as)" "?as \<noteq> []" using l by (simp_all add: attempts_ok_def)
    from completeLocked_total [OF ra act(1), of "\<lparr>f_Code = co_ErrorCode p, f_Message = co_ErrorMessage p\<rparr>"]
    obtain d b where cl: "completeLocked j (last ?as) p \<lparr>f_Code = co_ErrorCode p, f_Message = co_ErrorMessage p\<rparr> = Inr (d, b)"
      and d: "j_Status d = completed_status (co_ResultStatus p)" "a_ResultStatus b = closed_status (co_ResultStatus p)"
        "j_LeaseOwner d = []" "j_AttemptCount d = j_AttemptCount j" "j_MaxAttempts d = j_MaxAttempts j" by blast
    obtain n where n: "retry_completed d p = (n, wants_retry p j)" "j_LeaseOwner n = []"
      "if wants_retry p j then j_Status n = StatusRetry \<and> j_NextRunAt n = co_Now p + co_RetryDelay p else n = d"
      using retry_completed_value [OF d(1,4,5,3)] by blast
    have "repo_Complete r p = (Inr (n, b, wants_retry p j), put_both r (j_ID j) n (length ?as - 1) b)"
      using rq ac cl n(1) by (simp add: repo_Complete_def)
    moreover have "mslice (r_attempts (put_both r (j_ID j) n (length ?as - 1) b)) (j_ID j) = butlast ?as @ [b]"
      "mget (r_jobs (put_both r (j_ID j) n (length ?as - 1) b)) (j_ID j) = Some n"
      using act(2) list_update_last [of ?as b] by (simp_all add: put_both_def)
    ultimately show ?thesis using True Some d n by (auto split: if_splits)
  next
    case False
    have "\<exists>e. repo_Complete r p = (Inl e, r)"
    proof (cases "activeAttempt r (j_ID j) (co_WorkerID p)")
      case (Inl e)
      with rq show ?thesis by (simp add: repo_Complete_def)
    next
      case (Inr x)
      have "requireActiveExecution j (co_WorkerID p) (co_Now p) \<noteq> None"
        using False jw(2) by (auto simp: live_lease_def lease_guard)
      then obtain e where "requireActiveExecution j (co_WorkerID p) (co_Now p) = Some e" by blast
      with rq Inr show ?thesis by (cases x) (simp add: repo_Complete_def completeLocked_none)
    qed
    with False Some show ?thesis by simp
  qed
qed

text \<open>C1: completing succeeds exactly for the worker that holds the live lease of the job; anyone else
  gets an error and the store is unchanged. On success the newest attempt is closed with the reported
  result, the lease is released, and the job goes to its final status, or back to waiting with the
  requested delay when the worker asked for a retry of a run that did not succeed and the budget
  allows one.\<close>

theorem complete_iff_lease_holder:
  assumes "reachable r"
  shows "if \<exists>j. mget (r_jobs r) (TrimSpace (co_JobID p)) = Some j \<and> live_lease j (co_WorkerID p) (co_Now p)
    then \<exists>j n b r'. mget (r_jobs r) (TrimSpace (co_JobID p)) = Some j \<and>
      repo_Complete r p = (Inr (n, b, wants_retry p j), r') \<and>
      mget (r_jobs r') (j_ID j) = Some n \<and> mslice (r_attempts r') (j_ID j) = butlast (mslice (r_attempts r) (j_ID j)) @ [b] \<and>
      a_ResultStatus b = closed_status (co_ResultStatus p) \<and> j_LeaseOwner n = [] \<and>
      (if wants_retry p j then j_Status n = StatusRetry \<and> j_NextRunAt n = co_Now p + co_RetryDelay p
       else j_Status n = completed_status (co_ResultStatus p))
    else \<exists>e. repo_Complete r p = (Inl e, r)"
  by (rule Complete_result [OF reachable_wf [OF assms]])

definition demo_complete :: "string \<Rightarrow> complete_params" where
  "demo_complete w = \<lparr>co_JobID = ''j1'', co_WorkerID = w, co_ResultStatus = AttemptStatusFailed,
     co_Retryable = True, co_RetryDelay = 5, co_ErrorCode = ''boom'', co_ErrorMessage = [],
     co_EvidenceRef = [], co_Now = 12\<rparr>"

theorem complete_iff_lease_holder_witness:
  "(\<exists>n b r'. repo_Complete demo_leased (demo_complete ''w1'') = (Inr (n, b, True), r') \<and> j_Status n = StatusRetry) \<and>
   (\<exists>e. repo_Complete demo_leased (demo_complete ''w2'') = (Inl e, demo_leased))"
proof -
  have j: "mget (r_jobs demo_leased) (TrimSpace ''j1'') = Some demo_claimed" by (simp add: demo_leased_sel)
  have l: "live_lease demo_claimed ''w1'' 12" "\<not> live_lease demo_claimed ''w2'' 12"
    by (simp_all add: live_lease_def demo_claimed_def bumped_def)
  have w: "wants_retry (demo_complete ''w1'') demo_claimed"
    by (simp add: wants_retry_def demo_complete_def completed_status_def demo_claimed_def demo_job_def bumped_def)
  show ?thesis
    using complete_iff_lease_holder [OF demo_leased_reachable, of "demo_complete ''w1''"]
      complete_iff_lease_holder [OF demo_leased_reachable, of "demo_complete ''w2''"] j l w
    by (auto simp: demo_complete_def)
qed

section \<open>Cancelling\<close>

lemma not_leased_calls_fail:
  assumes "repo_wf r" "mget (r_jobs r) (TrimSpace i) = Some j" "\<not> IsLeased (j_Status j)"
  shows "\<exists>e. repo_MarkRunning r i w now = (Inl e, r)" "\<exists>e. repo_Heartbeat r i w ttl now = (Inl e, r)"
    "co_JobID p = i \<Longrightarrow> \<exists>e. repo_Complete r p = (Inl e, r)"
proof -
  have rq: "requireJob r i = Inr j" using assms(2) by (simp add: requireJob_def)
  have ac: "\<exists>e. activeAttempt r (j_ID j) v = Inl e" for v
    using activeAttempt_wf [OF assms(1,2), of v] assms(3) repo_wfD(1) [OF assms(1,2)] by simp
  show "\<exists>e. repo_MarkRunning r i w now = (Inl e, r)" using rq ac [of w] by (auto simp: repo_MarkRunning_def)
  show "\<exists>e. repo_Heartbeat r i w ttl now = (Inl e, r)"
    using rq assms(3) by (auto simp: repo_Heartbeat_def job_Renew_def Let_def)
  assume "co_JobID p = i"
  with rq ac [of "co_WorkerID p"] show "\<exists>e. repo_Complete r p = (Inl e, r)" by (auto simp: repo_Complete_def)
qed

lemma Cancel_terminal:
  assumes "repo_wf r" "repo_Cancel r i now = (Inr j, r1)"
  shows "mget (r_jobs r1) (TrimSpace i) = Some j \<and> j_Status j = StatusCancelled"
proof -
  obtain k where k: "requireJob r i = Inr k" "job_Cancel k now = Inr j"
    using assms(2) by (auto simp: repo_Cancel_def Let_def split: sum.splits)
  then have at: "mget (r_jobs r) (TrimSpace i) = Some k" using assms(1) by (simp add: requireJob_wf)
  from k assms(2) have "r1 = (cancel_attempt r k now)\<lparr>r_jobs := mput (j_ID k) j (r_jobs (cancel_attempt r k now))\<rparr>"
    by (simp add: repo_Cancel_def Let_def)
  moreover have "j_Status j = StatusCancelled" using k(2) by (auto simp: Cancel_ok job_upd_defs)
  ultimately show ?thesis using repo_wfD(1) [OF assms(1) at] by simp
qed

text \<open>A cancelled job stays cancelled whatever happens next: it is never claimed or reaped again,
  and the worker that was running it can neither start, renew nor complete it.\<close>

theorem cancelled_job_is_final:
  assumes "reachable r" "0 < now" "repo_Cancel r i now = (Inr j, r1)" "store_step\<^sup>*\<^sup>* r1 r'"
  shows "mget (r_jobs r') (TrimSpace i) = Some j \<and> j_Status j = StatusCancelled \<and>
    TrimSpace i \<notin> set (claimableIDs r' t) \<and> TrimSpace i \<notin> set (expiredLeaseIDs r' t) \<and>
    (\<exists>e. repo_MarkRunning r' i w t = (Inl e, r')) \<and> (\<exists>e. repo_Heartbeat r' i w ttl t = (Inl e, r')) \<and>
    (\<exists>e. repo_Complete r' (p\<lparr>co_JobID := i\<rparr>) = (Inl e, r'))"
proof -
  note c = Cancel_terminal [OF reachable_wf [OF assms(1)] assms(3)]
  have "op_ok r (RCancel i now)" using assms(2) by simp
  from reachable_step [OF assms(1) this] have r1: "reachable r1" using assms(3) by simp
  from c later_job [OF r1 assms(4)] have at: "mget (r_jobs r') (TrimSpace i) = Some j"
    by (fastforce simp: evolves_def)
  have wf: "repo_wf r'" using steps_good [OF assms(4) reachable_wf [OF r1]] by (simp add: good_step_def)
  then have mw: "mwf (r_jobs r')" by (simp add: repo_wf_def)
  have "TrimSpace i \<notin> set (claimableIDs r' t)" "TrimSpace i \<notin> set (expiredLeaseIDs r' t)"
    using at c by (auto simp: expired_ids [OF mw] claimableIDs_def mem_mget [OF mw])
  with at c not_leased_calls_fail [OF wf at] show ?thesis by simp
qed

theorem cancelled_job_is_final_witness:
  "\<exists>j r1. repo_Cancel demo_leased ''j1'' 12 = (Inr j, r1) \<and> j_Status j = StatusCancelled \<and>
     (\<exists>e. repo_Complete r1 (demo_complete ''w1'') = (Inl e, r1))"
proof -
  have rq: "requireJob demo_leased ''j1'' = Inr demo_claimed" by (simp add: requireJob_def demo_leased_sel)
  have "CanCancel (j_Status demo_claimed)" by (simp add: demo_claimed_def bumped_def)
  then obtain j where "job_Cancel demo_claimed 12 = Inr j" by (simp add: job_Cancel_def Let_def)
  with rq obtain r1 where c: "repo_Cancel demo_leased ''j1'' 12 = (Inr j, r1)"
    by (simp add: repo_Cancel_def Let_def)
  have e: "demo_complete ''w1''\<lparr>co_JobID := ''j1''\<rparr> = demo_complete ''w1''" by (simp add: demo_complete_def)
  from cancelled_job_is_final [OF demo_leased_reachable _ c rtranclp.rtrancl_refl, where p = "demo_complete ''w1''"]
  show ?thesis using c e by auto
qed

end
