(* ===== verification/Rfc3339.thy ===== *)
theory Rfc3339
  imports GoStrings
begin

text \<open>
  The timestamp text of a plan key: \<^verbatim>\<open>t.Format(time.RFC3339)\<close> of an instant in UTC, from the
  Gregorian calendar down, and the fact that two instants have the same text exactly when they lie
  in the same second.
\<close>

section \<open>Decimal numbers\<close>

fun digits :: "nat \<Rightarrow> string" where
  "digits n = (if n < 10 then [char_of (48 + n)] else digits (n div 10) @ [char_of (48 + n mod 10)])"

declare digits.simps [simp del]

text \<open>An integer the way \<^verbatim>\<open>strconv.Itoa\<close> and \<^verbatim>\<open>%d\<close> write it.\<close>

definition decimal :: "int \<Rightarrow> string" where
  "decimal n = (if n < 0 then CHR ''-'' # digits (nat (- n)) else digits (nat n))"

definition pad :: "nat \<Rightarrow> int \<Rightarrow> string" where
  "pad w n = (let s = digits (nat n) in replicate (w - length s) (CHR ''0'') @ s)"

fun undigits :: "string \<Rightarrow> nat \<Rightarrow> nat" where
  "undigits [] acc = acc"
| "undigits (c # s) acc = undigits s (10 * acc + (of_char c - 48))"

lemma undigits_append: "undigits (s @ t) acc = undigits t (undigits s acc)"
  by (induction s arbitrary: acc) auto

lemma of_char_digit: "n < 10 \<Longrightarrow> of_char (char_of (48 + n :: nat) :: char) = 48 + n"
  by (simp add: of_char_of)

lemma undigits_digits: "undigits (digits n) 0 = n"
proof (induction n rule: digits.induct)
  case (1 n)
  show ?case
  proof (cases "n < 10")
    case True
    then show ?thesis by (simp add: digits.simps [of n] of_char_digit)
  next
    case False
    then have "undigits (digits n) 0 = 10 * (n div 10) + n mod 10"
      using 1 by (simp add: digits.simps [of n] undigits_append of_char_digit)
    then show ?thesis by simp
  qed
qed

lemma undigits_zeros: "undigits (replicate k (CHR ''0'') @ s) 0 = undigits s 0"
  by (induction k) simp_all

lemma undigits_pad: "0 \<le> n \<Longrightarrow> undigits (pad w n) 0 = nat n"
  by (simp add: pad_def Let_def undigits_zeros undigits_digits)

lemma pad_inj: "0 \<le> m \<Longrightarrow> 0 \<le> n \<Longrightarrow> pad w m = pad w n \<Longrightarrow> m = n"
  by (metis undigits_pad eq_nat_nat_iff)

text \<open>Digits are none of the separators.\<close>

definition is_digit :: "char \<Rightarrow> bool" where
  "is_digit c = (of_char c \<in> {48..57 :: nat})"

lemma digits_digit: "c \<in> set (digits n) \<Longrightarrow> is_digit c"
proof (induction n rule: digits.induct)
  case (1 n)
  then show ?case
    by (cases "n < 10") (auto simp: digits.simps [of n] is_digit_def of_char_digit)
qed

lemma pad_digit: "c \<in> set (pad w n) \<Longrightarrow> is_digit c"
  by (auto simp: pad_def Let_def dest: digits_digit) (simp add: is_digit_def)

lemma not_digit [simp]: "\<not> is_digit CHR ''-''" "\<not> is_digit CHR '':''"
  by (simp_all add: is_digit_def)

lemma pad_no_sep: "CHR ''-'' \<notin> set (pad w n)" "CHR '':'' \<notin> set (pad w n)"
  using pad_digit not_digit by blast+

lemma digits_2: "n < 100 \<Longrightarrow> length (digits n) \<le> 2"
proof -
  assume "n < 100"
  then have "n div 10 < 10" by simp
  then show ?thesis by (simp add: digits.simps [of n] digits.simps [of "n div 10"])
qed

lemma length_pad_2: "0 \<le> n \<Longrightarrow> n < 100 \<Longrightarrow> length (pad 2 n) = 2"
  using digits_2 [of "nat n"] by (simp add: pad_def Let_def)

section \<open>The calendar\<close>

text \<open>Days since January 1 of year 1, in cycles of 400, 100, 4 and 1 years.\<close>

definition year_day :: "int \<Rightarrow> int \<times> int" where
  "year_day d =
     (let a = d div 146097; r = d mod 146097;
          b = min 3 (r div 36524); r2 = r - 36524 * b;
          c = r2 div 1461; r3 = r2 mod 1461;
          e = min 3 (r3 div 365)
      in (400 * a + 100 * b + 4 * c + e + 1, r3 - 365 * e))"

definition leap :: "int \<Rightarrow> bool" where
  "leap y = (y mod 4 = 0 \<and> (y mod 100 \<noteq> 0 \<or> y mod 400 = 0))"

definition month_lengths :: "int \<Rightarrow> int list" where
  "month_lengths y = [31, if leap y then 29 else 28, 31, 30, 31, 30, 31, 31, 30, 31, 30, 31]"

fun month_day :: "int list \<Rightarrow> int \<Rightarrow> int \<Rightarrow> int \<times> int" where
  "month_day [] m d = (m, d + 1)"
| "month_day (l # ls) m d = (if d < l then (m, d + 1) else month_day ls (m + 1) (d - l))"

definition civil :: "int \<Rightarrow> int \<times> int \<times> int" where
  "civil d = (let (y, yd) = year_day d; (m, dd) = month_day (month_lengths y) 1 yd in (y, m, dd))"

definition days_before_year :: "int \<Rightarrow> int" where
  "days_before_year y = 365 * (y - 1) + (y - 1) div 4 - (y - 1) div 100 + (y - 1) div 400"

lemma year_day_parts:
  assumes "0 \<le> d"
  obtains a b c e yd where "d = 146097 * a + 36524 * b + 1461 * c + 365 * e + yd"
    "year_day d = (400 * a + 100 * b + 4 * c + e + 1, yd)" "0 \<le> a" "0 \<le> b" "b \<le> 3" "0 \<le> c" "c \<le> 24"
    "0 \<le> e" "e \<le> 3" "0 \<le> yd" "yd \<le> 365" "yd = 365 \<longrightarrow> e = 3 \<and> (c = 24 \<longrightarrow> b = 3)"
proof -
  define a r where "a = d div 146097" and "r = d mod 146097"
  define b where "b = min 3 (r div 36524)"
  define r2 where "r2 = r - 36524 * b"
  define c r3 where "c = r2 div 1461" and "r3 = r2 mod 1461"
  define e where "e = min 3 (r3 div 365)"
  have r: "0 \<le> r" "r < 146097" by (simp_all add: r_def)
  have "0 \<le> r div 36524" using r by (simp add: pos_imp_zdiv_nonneg_iff)
  moreover have "r = 36524 * (r div 36524) + r mod 36524" "0 \<le> r mod 36524" "r mod 36524 < 36524"
    by simp_all
  ultimately have b: "0 \<le> b" "b \<le> 3" "0 \<le> r2" "r2 \<le> 36524" "r2 = 36524 \<longrightarrow> b = 3"
    using r unfolding b_def r2_def min_def by (auto split: if_splits)
  have r2: "r2 = 1461 * c + r3" "0 \<le> r3" "r3 < 1461" by (simp_all add: c_def r3_def)
  have c0: "0 \<le> c" using b by (simp add: c_def pos_imp_zdiv_nonneg_iff)
  from r2 b have c: "c \<le> 24" by linarith
  have "0 \<le> r3 div 365" using r2 by (simp add: pos_imp_zdiv_nonneg_iff)
  moreover have "r3 = 365 * (r3 div 365) + r3 mod 365" "0 \<le> r3 mod 365" "r3 mod 365 < 365" by simp_all
  ultimately have e: "0 \<le> e" "e \<le> 3" "0 \<le> r3 - 365 * e" "r3 - 365 * e \<le> 365"
    "r3 - 365 * e = 365 \<longrightarrow> e = 3 \<and> r3 = 1460"
    using r2 unfolding e_def min_def by (auto split: if_splits)
  have "d = 146097 * a + r" by (simp add: a_def r_def)
  then have "d = 146097 * a + 36524 * b + 1461 * c + 365 * e + (r3 - 365 * e)"
    using r2(1) by (simp add: r2_def)
  moreover have "year_day d = (400 * a + 100 * b + 4 * c + e + 1, r3 - 365 * e)"
    by (simp only: year_day_def Let_def a_def r_def b_def r2_def c_def r3_def e_def)
  moreover have "0 \<le> a" using assms by (simp add: a_def pos_imp_zdiv_nonneg_iff)
  moreover have "r3 - 365 * e = 365 \<longrightarrow> e = 3 \<and> (c = 24 \<longrightarrow> b = 3)" using e(5) r2(1) b(5) by auto
  ultimately show ?thesis using that [of a b c e "r3 - 365 * e"] b(1,2) c0 c e(1-4) by blast
qed

lemma year_div:
  assumes "0 \<le> b" "b \<le> 3" "0 \<le> c" "c \<le> 24" "0 \<le> e" "e \<le> (3::int)"
  shows "(400 * a + 100 * b + 4 * c + e) div 4 = 100 * a + 25 * b + c"
    "(400 * a + 100 * b + 4 * c + e) div 100 = 4 * a + b" "(400 * a + 100 * b + 4 * c + e) div 400 = a"
    "(400 * a + 100 * b + 4 * c + e) mod 100 = 4 * c + e" "(400 * a + 100 * b + 4 * c + e) mod 400 = 100 * b + 4 * c + e"
proof -
  show "(400 * a + 100 * b + 4 * c + e) div 4 = 100 * a + 25 * b + c"
    by (rule int_div_pos_eq [where r = e]) (use assms in simp_all)
  show "(400 * a + 100 * b + 4 * c + e) div 100 = 4 * a + b"
    by (rule int_div_pos_eq [where r = "4 * c + e"]) (use assms in simp_all)
  show "(400 * a + 100 * b + 4 * c + e) div 400 = a"
    by (rule int_div_pos_eq [where r = "100 * b + 4 * c + e"]) (use assms in simp_all)
  show "(400 * a + 100 * b + 4 * c + e) mod 100 = 4 * c + e"
    by (rule int_mod_pos_eq [where q = "4 * a + b"]) (use assms in simp_all)
  show "(400 * a + 100 * b + 4 * c + e) mod 400 = 100 * b + 4 * c + e"
    by (rule int_mod_pos_eq [where q = a]) (use assms in simp_all)
qed

lemma year_day_inverse:
  assumes "0 \<le> d" "year_day d = (y, yd)"
  shows "d = days_before_year y + yd \<and> 1 \<le> y \<and> 0 \<le> yd \<and> yd < sum_list (month_lengths y)"
proof -
  obtain a b c e yd' where p: "d = 146097 * a + 36524 * b + 1461 * c + 365 * e + yd'"
    "year_day d = (400 * a + 100 * b + 4 * c + e + 1, yd')" "0 \<le> a" "0 \<le> b" "b \<le> 3" "0 \<le> c" "c \<le> 24"
    "0 \<le> e" "e \<le> 3" "0 \<le> yd'" "yd' \<le> 365" "yd' = 365 \<longrightarrow> e = 3 \<and> (c = 24 \<longrightarrow> b = 3)"
    by (rule year_day_parts [OF assms(1)])
  with assms(2) have y: "y - 1 = 400 * a + 100 * b + 4 * c + e" "yd' = yd" by simp_all
  have l: "leap y" if "e = 3" "c = 24 \<longrightarrow> b = 3"
  proof (cases "c = 24")
    case True
    with that y(1) have "y = 400 * (a + 1)" by simp
    then show ?thesis by (simp add: leap_def)
  next
    case False
    with p(6,7) have c: "0 \<le> c + 1" "c + 1 \<le> 24" by simp_all
    have y': "y = 400 * a + 100 * b + 4 * (c + 1) + 0" using y(1) that by simp
    have "y = 4 * (100 * a + 25 * b + (c + 1))" using y' by simp
    then have "y mod 4 = 0" by simp
    moreover have "y mod 100 = 4 * (c + 1)"
      using year_div(4) [OF p(4,5) c, of 0 a] y' by simp
    ultimately show ?thesis using p(6) by (simp add: leap_def)
  qed
  have "yd < sum_list (month_lengths y)"
  proof (cases "yd = 365")
    case True
    with l p(12) y(2) show ?thesis by (simp add: month_lengths_def)
  next
    case False
    with p(11) y(2) show ?thesis by (simp add: month_lengths_def)
  qed
  moreover have "d = days_before_year y + yd"
    using p(1) year_div(1-3) [OF p(4-9), of a] y unfolding days_before_year_def by simp
  ultimately show ?thesis using p y by simp
qed

lemma month_day_ge: "fst (month_day ls m d) \<ge> m"
  by (induction ls m d rule: month_day.induct) auto

lemma month_day_inj:
  "month_day ls m d = month_day ls m d' \<Longrightarrow> d = d'"
proof (induction ls arbitrary: m d d')
  case (Cons l ls)
  show ?case
  proof (cases "d < l"; cases "d' < l")
    assume "d < l" "\<not> d' < l"
    with Cons.prems month_day_ge [of "m + 1" ls "d' - l"] show ?thesis by (auto simp: prod_eq_iff)
  next
    assume "\<not> d < l" "d' < l"
    with Cons.prems month_day_ge [of "m + 1" ls "d - l"] show ?thesis by (auto simp: prod_eq_iff)
  next
    assume "\<not> d < l" "\<not> d' < l"
    with Cons.prems Cons.IH [of "m + 1" "d - l" "d' - l"] show ?thesis by simp
  qed (use Cons.prems in simp)
qed simp

lemma civil_inj:
  assumes "0 \<le> d" "0 \<le> d'" "civil d = civil d'"
  shows "d = d'"
proof -
  obtain y yd where y: "year_day d = (y, yd)" by fastforce
  obtain y' yd' where y': "year_day d' = (y', yd')" by fastforce
  from assms(3) y y' have "y = y'" "month_day (month_lengths y) 1 yd = month_day (month_lengths y') 1 yd'"
    by (auto simp: civil_def split: prod.splits)
  with month_day_inj have "yd = yd'" by metis
  with \<open>y = y'\<close> year_day_inverse [OF assms(1) y] year_day_inverse [OF assms(2) y'] show ?thesis by simp
qed

lemma month_day_bounds:
  assumes "0 \<le> d" "d < sum_list ls" "\<forall>l \<in> set ls. l \<le> 31"
  shows "m \<le> fst (month_day ls m d) \<and> fst (month_day ls m d) < m + int (length ls) \<and>
    1 \<le> snd (month_day ls m d) \<and> snd (month_day ls m d) \<le> 31"
  using assms
proof (induction ls arbitrary: m d)
  case (Cons l ls)
  show ?case
  proof (cases "d < l")
    case False
    with Cons.prems have "0 \<le> d - l" "d - l < sum_list ls" "\<forall>l \<in> set ls. l \<le> 31" by auto
    from Cons.IH [OF this, of "m + 1"] False show ?thesis by auto
  qed (use Cons.prems in auto)
qed simp

lemma civil_bounds:
  assumes "0 \<le> d" "civil d = (y, m, dd)"
  shows "1 \<le> y \<and> 1 \<le> m \<and> m \<le> 12 \<and> 1 \<le> dd \<and> dd \<le> 31"
proof -
  obtain y' yd where yd: "year_day d = (y', yd)" by fastforce
  with assms(2) have y: "year_day d = (y, yd)" "month_day (month_lengths y) 1 yd = (m, dd)"
    by (auto simp: civil_def split: prod.splits)
  have "\<forall>l \<in> set (month_lengths y). l \<le> 31" "int (length (month_lengths y)) = 12"
    by (auto simp: month_lengths_def)
  with month_day_bounds [of yd "month_lengths y" 1] year_day_inverse [OF assms(1) y(1)] y(2) show ?thesis by auto
qed

section \<open>The text\<close>

abbreviation second_ns :: int where "second_ns \<equiv> 1000000000"

definition FormatRFC3339 :: "gotime \<Rightarrow> string" where
  "FormatRFC3339 t =
     (let s = t div second_ns; (y, m, d) = civil (s div 86400); r = s mod 86400
      in pad 4 y @ ''-'' @ pad 2 m @ ''-'' @ pad 2 d @ ''T'' @
         pad 2 (r div 3600) @ '':'' @ pad 2 (r mod 3600 div 60) @ '':'' @ pad 2 (r mod 60) @ ''Z'')"

text \<open>\<^verbatim>\<open>time.RFC3339Nano\<close>: the fraction without its trailing zeros, none at all when it is zero.\<close>

definition FormatRFC3339Nano :: "gotime \<Rightarrow> string" where
  "FormatRFC3339Nano t =
     (let f = rev (dropWhile (\<lambda>c. c = CHR ''0'') (rev (pad 9 (t mod second_ns))))
      in butlast (FormatRFC3339 t) @ (if f = [] then [] else CHR ''.'' # f) @ ''Z'')"

lemma pad2_split:
  assumes "pad 2 m @ xs = pad 2 n @ ys" "0 \<le> m" "m < 100" "0 \<le> n" "n < 100"
  shows "m = n \<and> xs = ys"
  using assms length_pad_2 [of m] length_pad_2 [of n] pad_inj [of m n 2] by auto

lemma time_parts:
  assumes "0 \<le> r" "r < (86400::int)"
  shows "0 \<le> r div 3600" "r div 3600 < 100" "0 \<le> r mod 3600 div 60" "r mod 3600 div 60 < 100"
    "0 \<le> r mod 60" "r mod 60 < 100"
proof -
  show "0 \<le> r div 3600" "0 \<le> r mod 3600 div 60" "0 \<le> r mod 60"
    using assms by (simp_all add: pos_imp_zdiv_nonneg_iff)
  show "r div 3600 < 100" using assms by (simp add: div_less_iff_less_mult)
  have "r mod 3600 < 3600" by simp
  then show "r mod 3600 div 60 < 100" by (simp add: div_less_iff_less_mult)
  have "r mod 60 < 60" by simp
  then show "r mod 60 < 100" by linarith
qed

lemma time_sum: "(r::int) = 3600 * (r div 3600) + (60 * (r mod 3600 div 60) + r mod 60)"
proof -
  have "r mod 3600 mod 60 = r mod 60" by (rule mod_mod_cancel) simp
  then have "r mod 3600 = 60 * (r mod 3600 div 60) + r mod 60"
    using mult_div_mod_eq [of 60 "r mod 3600"] by simp
  then show ?thesis using mult_div_mod_eq [of 3600 r] by simp
qed

lemma FormatRFC3339_inj:
  assumes "0 \<le> t" "0 \<le> u" "FormatRFC3339 t = FormatRFC3339 u"
  shows "t div second_ns = u div second_ns"
proof -
  define s v where "s = t div second_ns" and "v = u div second_ns"
  have sv: "0 \<le> s" "0 \<le> v" using assms by (simp_all add: s_def v_def pos_imp_zdiv_nonneg_iff)
  then have dn: "0 \<le> s div 86400" "0 \<le> v div 86400" by (simp_all add: pos_imp_zdiv_nonneg_iff)
  obtain y m d where c: "civil (s div 86400) = (y, m, d)" by (metis prod_cases3)
  obtain y' m' d' where c': "civil (v div 86400) = (y', m', d')" by (metis prod_cases3)
  note b = civil_bounds [OF dn(1) c] civil_bounds [OF dn(2) c']
  define r w where "r = s mod 86400" and "w = v mod 86400"
  have rw: "0 \<le> r" "r < 86400" "0 \<le> w" "w < 86400" by (simp_all add: r_def w_def)
  note rb = time_parts [OF rw(1,2)] time_parts [OF rw(3,4)]
  have "pad 4 y @ CHR ''-'' # (pad 2 m @ CHR ''-'' # (pad 2 d @ CHR ''T'' # (pad 2 (r div 3600) @ CHR '':'' #
        (pad 2 (r mod 3600 div 60) @ CHR '':'' # (pad 2 (r mod 60) @ [CHR ''Z''])))))
      = pad 4 y' @ CHR ''-'' # (pad 2 m' @ CHR ''-'' # (pad 2 d' @ CHR ''T'' # (pad 2 (w div 3600) @ CHR '':'' #
        (pad 2 (w mod 3600 div 60) @ CHR '':'' # (pad 2 (w mod 60) @ [CHR ''Z''])))))"
    using assms(3) c c' by (simp add: FormatRFC3339_def Let_def s_def v_def r_def w_def)
  from split_at_sep [OF this] pad_no_sep have "pad 4 y = pad 4 y'"
    and r1: "pad 2 m @ CHR ''-'' # (pad 2 d @ CHR ''T'' # (pad 2 (r div 3600) @ CHR '':'' #
        (pad 2 (r mod 3600 div 60) @ CHR '':'' # (pad 2 (r mod 60) @ [CHR ''Z'']))))
      = pad 2 m' @ CHR ''-'' # (pad 2 d' @ CHR ''T'' # (pad 2 (w div 3600) @ CHR '':'' #
        (pad 2 (w mod 3600 div 60) @ CHR '':'' # (pad 2 (w mod 60) @ [CHR ''Z'']))))"
    by auto
  then have y: "y = y'" using b by (intro pad_inj [of y y' 4]) auto
  from pad2_split [OF r1] b have m: "m = m'"
    and r2: "pad 2 d @ CHR ''T'' # (pad 2 (r div 3600) @ CHR '':'' #
        (pad 2 (r mod 3600 div 60) @ CHR '':'' # (pad 2 (r mod 60) @ [CHR ''Z''])))
      = pad 2 d' @ CHR ''T'' # (pad 2 (w div 3600) @ CHR '':'' #
        (pad 2 (w mod 3600 div 60) @ CHR '':'' # (pad 2 (w mod 60) @ [CHR ''Z''])))" by auto
  from pad2_split [OF r2] b have d: "d = d'"
    and r3: "pad 2 (r div 3600) @ CHR '':'' # (pad 2 (r mod 3600 div 60) @ CHR '':'' # (pad 2 (r mod 60) @ [CHR ''Z'']))
      = pad 2 (w div 3600) @ CHR '':'' # (pad 2 (w mod 3600 div 60) @ CHR '':'' # (pad 2 (w mod 60) @ [CHR ''Z'']))" by auto
  from pad2_split [OF r3 rb(1,2,7,8)] have h: "r div 3600 = w div 3600"
    and r4: "pad 2 (r mod 3600 div 60) @ CHR '':'' # (pad 2 (r mod 60) @ [CHR ''Z''])
      = pad 2 (w mod 3600 div 60) @ CHR '':'' # (pad 2 (w mod 60) @ [CHR ''Z''])" by auto
  from pad2_split [OF r4 rb(3,4,9,10)] have mi: "r mod 3600 div 60 = w mod 3600 div 60"
    and r5: "pad 2 (r mod 60) @ [CHR ''Z''] = pad 2 (w mod 60) @ [CHR ''Z'']" by auto
  from pad2_split [OF r5 rb(5,6,11,12)] have se: "r mod 60 = w mod 60" by simp
  have "civil (s div 86400) = civil (v div 86400)" using c c' y m d by simp
  with civil_inj [OF dn] have "s div 86400 = v div 86400" by blast
  moreover have "r = w"
  proof -
    have "3600 * (r div 3600) + (60 * (r mod 3600 div 60) + r mod 60) =
        3600 * (w div 3600) + (60 * (w mod 3600 div 60) + w mod 60)" by (simp only: h mi se)
    then show ?thesis by (rule trans [OF time_sum trans [OF _ time_sum [symmetric]]])
  qed
  ultimately have "s = v" unfolding r_def w_def by (metis div_mult_mod_eq)
  then show ?thesis by (simp add: s_def v_def)
qed

end
