(* ===== verification/JobService.thy ===== *)
theory JobService
  imports JobStoreProps Rfc3339
begin

text \<open>
  The job command service (\<^verbatim>\<open>internal/application/command/jobs/service.go\<close>) over the repository
  interface it is built on. The interface is a record of operations on an abstract store; the
  in-memory repository is one instance. \<open>clock\<close> gives the readings of \<^verbatim>\<open>s.clock()\<close> in the
  order one operation takes them, \<open>rnd\<close> the random bytes of the identifiers it makes.
\<close>

section \<open>The repository interface\<close>

record 'st repository =
  rp_Create :: "'st \<Rightarrow> job \<Rightarrow> (gerror + unit) \<times> 'st"
  rp_EnsurePlanned :: "'st \<Rightarrow> job \<Rightarrow> (gerror + job \<times> bool) \<times> 'st"
  rp_Claim :: "'st \<Rightarrow> claim_params \<Rightarrow> (string \<Rightarrow> rawbytes option) \<Rightarrow> (gerror + claimed_job list) \<times> 'st"
  rp_MarkRunning :: "'st \<Rightarrow> string \<Rightarrow> string \<Rightarrow> gotime \<Rightarrow> (gerror + job) \<times> 'st"
  rp_Heartbeat :: "'st \<Rightarrow> string \<Rightarrow> string \<Rightarrow> duration \<Rightarrow> gotime \<Rightarrow> (gerror + job \<times> attempt) \<times> 'st"
  rp_Complete :: "'st \<Rightarrow> complete_params \<Rightarrow> (gerror + completion_result) \<times> 'st"
  rp_Cancel :: "'st \<Rightarrow> string \<Rightarrow> gotime \<Rightarrow> (gerror + job) \<times> 'st"
  rp_ReapExpired :: "'st \<Rightarrow> gotime \<Rightarrow> int \<Rightarrow> (int \<Rightarrow> duration) \<Rightarrow> (gerror + completion_result list) \<times> 'st"
  rp_Get :: "'st \<Rightarrow> string \<Rightarrow> gerror + job"
  rp_GetByIdempotency :: "'st \<Rightarrow> string \<Rightarrow> gerror + job"
  rp_Attempts :: "'st \<Rightarrow> string \<Rightarrow> gerror + attempt list"

definition memory_repository :: "repo repository" where
  "memory_repository = \<lparr>rp_Create = repo_Create, rp_EnsurePlanned = repo_EnsurePlanned,
     rp_Claim = repo_Claim, rp_MarkRunning = repo_MarkRunning, rp_Heartbeat = repo_Heartbeat,
     rp_Complete = repo_Complete, rp_Cancel = repo_Cancel, rp_ReapExpired = repo_ReapExpired,
     rp_Get = repo_Get, rp_GetByIdempotency = repo_GetByIdempotency, rp_Attempts = repo_Attempts\<rparr>"

record 'st service =
  sv_repo :: "'st repository"
  sv_retryPolicy :: backoff

definition NewService :: "'st repository option \<Rightarrow> backoff \<Rightarrow> gerror + 'st service" where
  "NewService rp policy =
     (case rp of
        None \<Rightarrow> Inl (Err ErrPlain ''jobs repository required'')
      | Some rep \<Rightarrow> Inr \<lparr>sv_repo = rep,
          sv_retryPolicy = (if policy = emptyBackoff then DefaultBackoffPolicy else policy)\<rparr>)"

section \<open>Scheduling\<close>

text \<open>\<^verbatim>\<open>ScheduleInput\<close> is \<open>create_params\<close> with the instant of the call.\<close>

definition Schedule ::
  "'st service \<Rightarrow> (nat \<Rightarrow> gotime) \<Rightarrow> create_params \<Rightarrow> gotime \<Rightarrow> rawbytes option \<Rightarrow> 'st \<Rightarrow> (gerror + job) \<times> 'st" where
  "Schedule s clock input now rnd st =
     (case job_New (input\<lparr>cp_NextRunAt := coalesceTime (cp_NextRunAt input) (clock 0)\<rparr>)
             (coalesceTime now (clock 1)) rnd of
        Inl e \<Rightarrow> (Inl e, st)
      | Inr rec \<Rightarrow>
          (case rp_Create (sv_repo s) st rec of
             (Inl e, st') \<Rightarrow> (Inl e, st')
           | (Inr _, st') \<Rightarrow> (Inr rec, st')))"

record plan_definition =
  pd_Name :: string
  pd_TenantID :: string
  pd_ProjectID :: string
  pd_EnvironmentID :: string
  pd_JobType :: string
  pd_AggregateType :: string
  pd_AggregateID :: string
  pd_Priority :: int
  pd_Payload :: string
  pd_MaxAttempts :: int
  pd_Interval :: duration

text \<open>\<open>wall\<close> is the reading of \<^verbatim>\<open>time.Now()\<close> that a zero \<open>now\<close> would fall back to.\<close>

definition plan_slot :: "plan_definition \<Rightarrow> gotime \<Rightarrow> gotime \<Rightarrow> gerror + gotime \<times> string" where
  "plan_slot p now0 wall =
     (if TrimSpace (pd_Name p) = [] then Inl (Err ErrInvalidJob ''plan name required'')
      else if pd_Interval p \<le> 0 then Inl (Err ErrInvalidJob ''plan interval must be positive'')
      else
        let now = coalesceTime now0 wall;
            slot = Truncate now (pd_Interval p);
            key = ''plan:'' @ TrimSpace (pd_Name p) @ '':'' @ FormatRFC3339 slot
        in Inr (slot, key))"

definition plan_params :: "plan_definition \<Rightarrow> gotime \<Rightarrow> string \<Rightarrow> create_params" where
  "plan_params plan slot key =
     \<lparr>cp_TenantID = pd_TenantID plan, cp_ProjectID = pd_ProjectID plan,
      cp_EnvironmentID = pd_EnvironmentID plan, cp_JobType = pd_JobType plan,
      cp_AggregateType = pd_AggregateType plan, cp_AggregateID = pd_AggregateID plan,
      cp_Priority = pd_Priority plan, cp_Payload = pd_Payload plan, cp_IdempotencyKey = key,
      cp_MaxAttempts = pd_MaxAttempts plan, cp_NextRunAt = slot\<rparr>"

definition EnsurePlanned ::
  "'st service \<Rightarrow> (nat \<Rightarrow> gotime) \<Rightarrow> gotime \<Rightarrow> plan_definition \<Rightarrow> gotime \<Rightarrow> rawbytes option \<Rightarrow> 'st
   \<Rightarrow> (gerror + job \<times> bool) \<times> 'st" where
  "EnsurePlanned s clock wall plan now rnd st =
     (case plan_slot plan (coalesceTime now (clock 0)) wall of
        Inl e \<Rightarrow> (Inl e, st)
      | Inr (slot, key) \<Rightarrow>
          (case job_New (plan_params plan slot key) (coalesceTime now (clock 1)) rnd of
             Inl e \<Rightarrow> (Inl e, st)
           | Inr rec \<Rightarrow> rp_EnsurePlanned (sv_repo s) st rec))"

text \<open>
  The planner pass. The first error ends it; what was planned before stays in the store. Every
  plan takes two readings of the clock and one identifier.
\<close>

fun ensure_plans_loop ::
  "'st service \<Rightarrow> (nat \<Rightarrow> gotime) \<Rightarrow> gotime \<Rightarrow> plan_definition list \<Rightarrow> gotime \<Rightarrow> (nat \<Rightarrow> rawbytes option)
   \<Rightarrow> (job \<times> bool) list \<Rightarrow> 'st \<Rightarrow> (gerror + (job \<times> bool) list) \<times> 'st" where
  "ensure_plans_loop s clock wall [] tickAt rnd results st = (Inr results, st)"
| "ensure_plans_loop s clock wall (plan # plans) tickAt rnd results st =
     (case EnsurePlanned s clock wall plan tickAt (rnd 0) st of
        (Inl e, st') \<Rightarrow> (Inl e, st')
      | (Inr result, st') \<Rightarrow>
          ensure_plans_loop s (\<lambda>k. clock (k + 2)) wall plans tickAt (\<lambda>k. rnd (k + 1)) (results @ [result]) st')"

definition EnsurePlans ::
  "'st service \<Rightarrow> (nat \<Rightarrow> gotime) \<Rightarrow> gotime \<Rightarrow> plan_definition list \<Rightarrow> gotime \<Rightarrow> (nat \<Rightarrow> rawbytes option)
   \<Rightarrow> 'st \<Rightarrow> (gerror + (job \<times> bool) list) \<times> 'st" where
  "EnsurePlans s clock wall plans now rnd st =
     ensure_plans_loop s (\<lambda>k. clock (k + 1)) wall plans (coalesceTime now (clock 0)) rnd [] st"

section \<open>Execution\<close>

definition sv_Claim ::
  "'st service \<Rightarrow> (nat \<Rightarrow> gotime) \<Rightarrow> claim_params \<Rightarrow> (string \<Rightarrow> rawbytes option) \<Rightarrow> 'st
   \<Rightarrow> (gerror + claimed_job list) \<times> 'st" where
  "sv_Claim s clock p rnd st =
     rp_Claim (sv_repo s) st (p\<lparr>cl_Now := coalesceTime (cl_Now p) (clock 0)\<rparr>) rnd"

definition sv_MarkRunning ::
  "'st service \<Rightarrow> (nat \<Rightarrow> gotime) \<Rightarrow> string \<Rightarrow> string \<Rightarrow> gotime \<Rightarrow> 'st \<Rightarrow> (gerror + job) \<times> 'st" where
  "sv_MarkRunning s clock jobID w now st =
     rp_MarkRunning (sv_repo s) st jobID w (coalesceTime now (clock 0))"

definition sv_Heartbeat ::
  "'st service \<Rightarrow> (nat \<Rightarrow> gotime) \<Rightarrow> string \<Rightarrow> string \<Rightarrow> duration \<Rightarrow> gotime \<Rightarrow> 'st
   \<Rightarrow> (gerror + job \<times> attempt) \<times> 'st" where
  "sv_Heartbeat s clock jobID w ttl now st =
     rp_Heartbeat (sv_repo s) st jobID w ttl (coalesceTime now (clock 0))"

text \<open>\<open>oor\<close> is the float64 conversion out of range, see \<open>Delay\<close>.\<close>

definition sv_Complete ::
  "(rat \<Rightarrow> int) \<Rightarrow> 'st service \<Rightarrow> (nat \<Rightarrow> gotime) \<Rightarrow> complete_params \<Rightarrow> 'st
   \<Rightarrow> (gerror + completion_result) \<times> 'st" where
  "sv_Complete oor s clock params st =
     (let p = params\<lparr>co_Now := coalesceTime (co_Now params) (clock 0)\<rparr> in
      if co_Retryable p \<and> co_RetryDelay p = 0
      then (case rp_Get (sv_repo s) st (co_JobID p) of
              Inl e \<Rightarrow> (Inl e, st)
            | Inr rec \<Rightarrow>
                rp_Complete (sv_repo s) st
                  (p\<lparr>co_RetryDelay := Delay oor (sv_retryPolicy s) (j_AttemptCount rec)\<rparr>))
      else rp_Complete (sv_repo s) st p)"

definition sv_Cancel :: "'st service \<Rightarrow> (nat \<Rightarrow> gotime) \<Rightarrow> string \<Rightarrow> 'st \<Rightarrow> (gerror + job) \<times> 'st" where
  "sv_Cancel s clock jobID st = rp_Cancel (sv_repo s) st jobID (clock 0)"

definition sv_ReapExpired ::
  "(rat \<Rightarrow> int) \<Rightarrow> 'st service \<Rightarrow> (nat \<Rightarrow> gotime) \<Rightarrow> int \<Rightarrow> gotime \<Rightarrow> 'st
   \<Rightarrow> (gerror + completion_result list) \<times> 'st" where
  "sv_ReapExpired oor s clock limit now st =
     rp_ReapExpired (sv_repo s) st (coalesceTime now (clock 0)) limit (Delay oor (sv_retryPolicy s))"

definition sv_Get :: "'st service \<Rightarrow> string \<Rightarrow> 'st \<Rightarrow> gerror + job" where
  "sv_Get s jobID st = rp_Get (sv_repo s) st jobID"

definition sv_GetByIdempotency :: "'st service \<Rightarrow> string \<Rightarrow> 'st \<Rightarrow> gerror + job" where
  "sv_GetByIdempotency s key st = rp_GetByIdempotency (sv_repo s) st key"

definition sv_Attempts :: "'st service \<Rightarrow> string \<Rightarrow> 'st \<Rightarrow> gerror + attempt list" where
  "sv_Attempts s jobID st = rp_Attempts (sv_repo s) st jobID"

end
