(* ===== verification/Scheduler.thy ===== *)
theory Scheduler
  imports JobService
begin

text \<open>
  The scheduler loops (\<^verbatim>\<open>internal/scheduler\<close>): the planner that enters recurring jobs, the reaper
  that recovers expired leases, and the worker that claims, executes, renews and completes. Clock
  readings are arguments, taken in the order the code takes them.
\<close>

section \<open>Planner and reaper\<close>

definition Planner_RunOnce ::
  "'st service \<Rightarrow> (nat \<Rightarrow> gotime) \<Rightarrow> gotime \<Rightarrow> plan_definition list \<Rightarrow> gotime \<Rightarrow> (nat \<Rightarrow> rawbytes option)
   \<Rightarrow> 'st \<Rightarrow> (gerror + int) \<times> 'st" where
  "Planner_RunOnce s clock wall plans now rnd st =
     (case EnsurePlans s clock wall plans now rnd st of
        (Inl e, st') \<Rightarrow> (Inl e, st')
      | (Inr results, st') \<Rightarrow> (Inr (int (length (filter snd results))), st'))"

definition Reaper_RunOnce ::
  "(rat \<Rightarrow> int) \<Rightarrow> 'st service \<Rightarrow> (nat \<Rightarrow> gotime) \<Rightarrow> int \<Rightarrow> gotime \<Rightarrow> 'st \<Rightarrow> (gerror + int) \<times> 'st" where
  "Reaper_RunOnce oor s clock limit now st =
     (case sv_ReapExpired oor s clock limit now st of
        (Inl e, st') \<Rightarrow> (Inl e, st')
      | (Inr leases, st') \<Rightarrow> (Inr (int (length leases)), st'))"

section \<open>Worker\<close>

record execution_result =
  er_ResultStatus :: attempt_status
  er_Retryable :: bool
  er_RetryDelay :: duration
  er_ErrorCode :: string
  er_ErrorMessage :: string
  er_EvidenceRef :: string

text \<open>
  One run of \<^verbatim>\<open>Executor.Execute\<close> as the worker sees it: its result, the instants of the renewal
  ticks that fired while it ran, and the readings of the worker's clock at its start and its end.
  \<open>ex_env k\<close> is what everybody else does to the store right before the \<open>k\<close>th call
  the worker makes for this job, which is where the calls of other workers, planners, reapers and
  users come between.
\<close>

record 'st execution =
  ex_result :: execution_result
  ex_start :: gotime
  ex_ticks :: "gotime list"
  ex_end :: gotime
  ex_env :: "nat \<Rightarrow> 'st \<Rightarrow> 'st"

record 'st worker =
  wk_Service :: "'st service option"
  wk_Executor :: "(claimed_job \<Rightarrow> 'st execution) option"
  wk_WorkerID :: string
  wk_MaxJobs :: int
  wk_LeaseTTL :: duration
  wk_RenewInterval :: duration

definition normalizeResultStatus :: "attempt_status \<Rightarrow> attempt_status" where
  "normalizeResultStatus s = (if s = AttemptStatusOther [] then AttemptStatusSucceeded else s)"

text \<open>\<^verbatim>\<open>renewLoop\<close>: the first failing heartbeat ends it. \<open>env k\<close> comes before the heartbeat of tick \<open>k\<close>.\<close>

fun renewLoop ::
  "'st service \<Rightarrow> (nat \<Rightarrow> gotime) \<Rightarrow> 'st worker \<Rightarrow> string \<Rightarrow> (nat \<Rightarrow> 'st \<Rightarrow> 'st) \<Rightarrow> gotime list \<Rightarrow> 'st
   \<Rightarrow> gerror option \<times> 'st" where
  "renewLoop s clock w jobID env [] st = (None, st)"
| "renewLoop s clock w jobID env (now # ticks) st =
     (case sv_Heartbeat s clock jobID (wk_WorkerID w) (wk_LeaseTTL w) now (env 0 st) of
        (Inl e, st') \<Rightarrow> (Some e, st')
      | (Inr _, st') \<Rightarrow> renewLoop s clock w jobID (\<lambda>k. env (Suc k)) ticks st')"

definition completion_of :: "'st worker \<Rightarrow> string \<Rightarrow> execution_result \<Rightarrow> gotime \<Rightarrow> complete_params" where
  "completion_of w jobID result now =
     \<lparr>co_JobID = jobID, co_WorkerID = wk_WorkerID w,
      co_ResultStatus = normalizeResultStatus (er_ResultStatus result),
      co_Retryable = er_Retryable result, co_RetryDelay = er_RetryDelay result,
      co_ErrorCode = er_ErrorCode result, co_ErrorMessage = er_ErrorMessage result,
      co_EvidenceRef = er_EvidenceRef result, co_Now = now\<rparr>"

definition executeClaim ::
  "(rat \<Rightarrow> int) \<Rightarrow> 'st service \<Rightarrow> (nat \<Rightarrow> gotime) \<Rightarrow> 'st worker \<Rightarrow> 'st execution \<Rightarrow> claimed_job \<Rightarrow> 'st
   \<Rightarrow> gerror option \<times> 'st" where
  "executeClaim oor s clock w ex claim st =
     (let jobID = j_ID (fst claim) in
      case sv_MarkRunning s clock jobID (wk_WorkerID w) (ex_start ex) (ex_env ex 0 st) of
        (Inl e, st1) \<Rightarrow> (Some e, st1)
      | (Inr _, st1) \<Rightarrow>
          let ticks = (if 0 < wk_RenewInterval w then ex_ticks ex else []) in
          (case renewLoop s clock w jobID (\<lambda>k. ex_env ex (k + 2)) ticks st1 of
             (Some e, st2) \<Rightarrow> (Some e, st2)
           | (None, st2) \<Rightarrow>
               (case sv_Complete oor s clock (completion_of w jobID (ex_result ex) (ex_end ex)) (ex_env ex 1 st2) of
                  (Inl e, st3) \<Rightarrow> (Some e, st3)
                | (Inr _, st3) \<Rightarrow> (None, st3))))"

text \<open>The jobs of one poll, one after the other; a failure is collected and the loop goes on.\<close>

fun claims_loop ::
  "(rat \<Rightarrow> int) \<Rightarrow> 'st service \<Rightarrow> (nat \<Rightarrow> gotime) \<Rightarrow> 'st worker \<Rightarrow> (claimed_job \<Rightarrow> 'st execution)
   \<Rightarrow> claimed_job list \<Rightarrow> int \<Rightarrow> gerror list \<Rightarrow> 'st \<Rightarrow> (int \<times> gerror list) \<times> 'st" where
  "claims_loop oor s clock w exec [] processed errs st = ((processed, errs), st)"
| "claims_loop oor s clock w exec (claim # claims) processed errs st =
     (case executeClaim oor s clock w (exec claim) claim st of
        (Some e, st') \<Rightarrow>
          claims_loop oor s clock w exec claims processed
            (errs @ [Err (err_sentinel e) (''job '' @ j_ID (fst claim) @ '': '' @ err_detail e)]) st'
      | (None, st') \<Rightarrow> claims_loop oor s clock w exec claims (processed + 1) errs st')"

definition Worker_RunOnce ::
  "(rat \<Rightarrow> int) \<Rightarrow> (nat \<Rightarrow> gotime) \<Rightarrow> 'st worker \<Rightarrow> gotime \<Rightarrow> (string \<Rightarrow> rawbytes option) \<Rightarrow> 'st
   \<Rightarrow> (int \<times> gerror list) \<times> 'st" where
  "Worker_RunOnce oor clock w now rnd st =
     (case (wk_Service w, wk_Executor w) of
        (None, _) \<Rightarrow> ((0, [Err ErrPlain ''scheduler worker service required'']), st)
      | (Some s, None) \<Rightarrow> ((0, [Err ErrPlain ''scheduler worker executor required'']), st)
      | (Some s, Some exec) \<Rightarrow>
          if wk_WorkerID w = [] then ((0, [Err ErrPlain ''scheduler worker id required'']), st)
          else if wk_LeaseTTL w \<le> 0 then ((0, [Err ErrPlain ''scheduler worker lease ttl required'']), st)
          else
            let maxJobs = (if wk_MaxJobs w \<le> 0 then 1 else wk_MaxJobs w) in
            (case sv_Claim s clock \<lparr>cl_WorkerID = wk_WorkerID w, cl_MaxJobs = maxJobs,
                    cl_LeaseTTL = wk_LeaseTTL w, cl_Now = now\<rparr> rnd st of
               (Inl e, st') \<Rightarrow> ((0, [e]), st')
             | (Inr claims, st') \<Rightarrow> claims_loop oor s clock w exec claims 0 [] st'))"

end
