(* ===== verification/PlannerProps.thy ===== *)
theory PlannerProps
  imports Scheduler
begin

text \<open>
  The planner: the contract it needs of its store as a locale, interpreted on the in-memory
  repository, and what it gives. Plan slots are the multiples of the interval, their keys name the
  plan and the second the slot starts in, and a slot is filled once.
\<close>

section \<open>The contract of the planner's store\<close>

definition params_ok :: "create_params \<Rightarrow> bool" where
  "params_ok p = (\<forall>s \<in> {cp_TenantID p, cp_ProjectID p, cp_EnvironmentID p, cp_JobType p, cp_AggregateType p,
     cp_AggregateID p, cp_IdempotencyKey p}. TrimSpace s \<noteq> [])"

lemma job_New_ok:
  "job_New p now rnd = Inr j \<Longrightarrow> params_ok p \<and> j_IdempotencyKey j = TrimSpace (cp_IdempotencyKey p)"
  by (auto simp: job_New_def params_ok_def Let_def split: if_splits sum.splits)

lemma job_New_total: "params_ok p \<Longrightarrow> \<exists>j. job_New p now (Some raw) = Inr j"
  by (auto simp: job_New_def params_ok_def generateID_def Let_def)

definition plan_key :: "plan_definition \<Rightarrow> gotime \<Rightarrow> string" where
  "plan_key p t = ''plan:'' @ TrimSpace (pd_Name p) @ '':'' @ FormatRFC3339 (Truncate t (pd_Interval p))"

definition plan_ready :: "plan_definition \<Rightarrow> gotime \<Rightarrow> bool" where
  "plan_ready p t = (TrimSpace (pd_Name p) \<noteq> [] \<and> 0 < pd_Interval p \<and>
     params_ok (plan_params p (Truncate t (pd_Interval p)) (plan_key p t)))"

text \<open>The key under which the planned job is stored.\<close>

abbreviation stored_key :: "plan_definition \<Rightarrow> gotime \<Rightarrow> string" where
  "stored_key p t \<equiv> TrimSpace (plan_key p t)"

lemma EnsurePlanned_cases:
  assumes "now \<noteq> 0"
  shows "EnsurePlanned s clock wall plan now rnd st =
    (if TrimSpace (pd_Name plan) = [] then (Inl (Err ErrInvalidJob ''plan name required''), st)
     else if pd_Interval plan \<le> 0 then (Inl (Err ErrInvalidJob ''plan interval must be positive''), st)
     else case job_New (plan_params plan (Truncate now (pd_Interval plan)) (plan_key plan now)) now rnd of
             Inl e \<Rightarrow> (Inl e, st) | Inr rec \<Rightarrow> rp_EnsurePlanned (sv_repo s) st rec)"
  using assms by (simp add: EnsurePlanned_def plan_slot_def coalesceTime_def IsZero_def plan_key_def Let_def)

locale planned_store =
  fixes rp :: "'st repository"
    and has_key :: "'st \<Rightarrow> string \<Rightarrow> bool"
  assumes planned_key: "rp_EnsurePlanned rp st j = (Inr x, st') \<Longrightarrow> has_key st' (j_IdempotencyKey j)"
    and planned_keeps: "has_key st k \<Longrightarrow> has_key (snd (rp_EnsurePlanned rp st j)) k"
    and planned_again: "has_key st (j_IdempotencyKey j) \<Longrightarrow> \<exists>k. rp_EnsurePlanned rp st j = (Inr (k, False), st)"
begin

lemma ensure_key:
  assumes "sv_repo s = rp" "now \<noteq> 0" "EnsurePlanned s clock wall plan now rnd st = (Inr x, st')"
  shows "has_key st' (stored_key plan now) \<and> plan_ready plan now"
proof -
  obtain rec where "job_New (plan_params plan (Truncate now (pd_Interval plan)) (plan_key plan now)) now rnd = Inr rec"
    "rp_EnsurePlanned rp st rec = (Inr x, st')" "TrimSpace (pd_Name plan) \<noteq> []" "0 < pd_Interval plan"
    using assms(1,3) unfolding EnsurePlanned_cases [OF assms(2)] by (auto split: if_splits sum.splits)
  with job_New_ok planned_key show ?thesis by (fastforce simp: plan_ready_def plan_params_def)
qed

lemma ensure_keeps:
  assumes "sv_repo s = rp" "now \<noteq> 0" "has_key st k"
  shows "has_key (snd (EnsurePlanned s clock wall plan now rnd st)) k"
  using assms(1,3) planned_keeps unfolding EnsurePlanned_cases [OF assms(2)] by (auto split: sum.splits)

lemma loop_keeps:
  assumes "sv_repo s = rp" "now \<noteq> 0"
  shows "has_key st k \<Longrightarrow> has_key (snd (ensure_plans_loop s clock wall plans now rnd results st)) k"
proof (induction plans arbitrary: st clock rnd results)
  case (Cons p plans)
  obtain x st' where e: "EnsurePlanned s clock wall p now (rnd 0) st = (x, st')" by fastforce
  with ensure_keeps [OF assms Cons.prems, of clock wall p "rnd 0"] have "has_key st' k" by simp
  with e Cons.IH show ?case by (cases x) simp_all
qed simp

lemma loop_keys:
  assumes "sv_repo s = rp" "now \<noteq> 0"
  shows "ensure_plans_loop s clock wall plans now rnd results st = (Inr res, st') \<Longrightarrow>
    length res = length results + length plans \<and>
    (\<forall>p \<in> set plans. has_key st' (stored_key p now) \<and> plan_ready p now)"
proof (induction plans arbitrary: st clock rnd results)
  case (Cons p plans)
  from Cons.prems obtain x st1 where e: "EnsurePlanned s clock wall p now (rnd 0) st = (Inr x, st1)"
    and l: "ensure_plans_loop s (\<lambda>k. clock (k + 2)) wall plans now (\<lambda>k. rnd (k + 1)) (results @ [x]) st1 = (Inr res, st')"
    by (auto split: prod.splits sum.splits)
  from loop_keeps [OF assms] l have "has_key st1 k \<Longrightarrow> has_key st' k" for k by (metis snd_conv)
  with ensure_key [OF assms e] Cons.IH [OF l] show ?case by simp
qed simp

lemma loop_again:
  assumes "sv_repo s = rp" "now \<noteq> 0" "now' \<noteq> 0" "\<forall>k. rnd k \<noteq> None"
  shows "\<forall>p \<in> set plans. has_key st (stored_key p now) \<and> plan_ready p now \<and>
      Truncate now' (pd_Interval p) = Truncate now (pd_Interval p) \<Longrightarrow>
    \<exists>res. ensure_plans_loop s clock wall plans now' rnd results st = (Inr (results @ res), st) \<and>
      length res = length plans \<and> (\<forall>x \<in> set res. \<not> snd x)"
  using assms(4)
proof (induction plans arbitrary: clock rnd results)
  case (Cons p plans)
  from Cons.prems have h: "has_key st (stored_key p now)" and pr: "plan_ready p now"
    and t: "Truncate now' (pd_Interval p) = Truncate now (pd_Interval p)" by auto
  from Cons.prems obtain raw where raw: "rnd 0 = Some raw" by blast
  have k: "plan_key p now' = plan_key p now" by (simp add: plan_key_def t)
  obtain rec where n: "job_New (plan_params p (Truncate now (pd_Interval p)) (plan_key p now)) now' (rnd 0) = Inr rec"
    using job_New_total pr raw unfolding plan_ready_def by fastforce
  from job_New_ok [OF n] h have "has_key st (j_IdempotencyKey rec)" by (simp add: plan_params_def)
  with planned_again obtain j where "rp_EnsurePlanned rp st rec = (Inr (j, False), st)" by blast
  with n pr have e: "EnsurePlanned s clock wall p now' (rnd 0) st = (Inr (j, False), st)"
    unfolding EnsurePlanned_cases [OF assms(3)] t k using assms(1) by (simp add: plan_ready_def)
  have "\<exists>res. ensure_plans_loop s (\<lambda>k. clock (k + 2)) wall plans now' (\<lambda>k. rnd (k + 1)) (results @ [(j, False)]) st
      = (Inr ((results @ [(j, False)]) @ res), st) \<and> length res = length plans \<and> (\<forall>x \<in> set res. \<not> snd x)"
    by (rule Cons.IH) (use Cons.prems in auto)
  then obtain res where "ensure_plans_loop s (\<lambda>k. clock (k + 2)) wall plans now' (\<lambda>k. rnd (k + 1)) (results @ [(j, False)]) st
      = (Inr (results @ (j, False) # res), st)" "length res = length plans" "\<forall>x \<in> set res. \<not> snd x" by auto
  with e show ?case by (intro exI [of _ "(j, False) # res"]) simp
qed simp

text \<open>Planning again within the same windows creates nothing, provided the keys are still there.\<close>

lemma plan_twice:
  assumes "sv_repo s = rp" "now \<noteq> 0" "now' \<noteq> 0" "\<forall>k. rnd' k \<noteq> None"
    "Planner_RunOnce s clock wall plans now rnd st = (Inr n, st1)"
    "\<And>k. has_key st1 k \<Longrightarrow> has_key st2 k"
    "\<forall>p \<in> set plans. 0 < pd_Interval p \<longrightarrow> Truncate now' (pd_Interval p) = Truncate now (pd_Interval p)"
  shows "Planner_RunOnce s clock' wall' plans now' rnd' st2 = (Inr 0, st2)"
proof -
  obtain res where l: "ensure_plans_loop s (\<lambda>k. clock (k + 1)) wall plans now rnd [] st = (Inr res, st1)"
    using assms(2,5) by (auto simp: Planner_RunOnce_def EnsurePlans_def coalesceTime_def IsZero_def
        split: prod.splits sum.splits)
  from loop_keys [OF assms(1,2) l] assms(6,7)
  have "\<forall>p \<in> set plans. has_key st2 (stored_key p now) \<and> plan_ready p now \<and>
      Truncate now' (pd_Interval p) = Truncate now (pd_Interval p)" unfolding plan_ready_def by blast
  from loop_again [OF assms(1-4) this, of "\<lambda>k. clock' (k + 1)" wall' "[]"] show ?thesis
    using assms(3) by (auto simp: Planner_RunOnce_def EnsurePlans_def coalesceTime_def IsZero_def
        filter_empty_conv)
qed

end

definition memory_key :: "repo \<Rightarrow> string \<Rightarrow> bool" where
  "memory_key r k = (mget (r_idempotency r) k \<noteq> None)"

interpretation memory_planned: planned_store memory_repository memory_key
  by unfold_locales
    (auto simp: memory_repository_def memory_key_def repo_EnsurePlanned_def repo_insert_def split: option.splits)

text \<open>The planner fills every slot once: after a pass of the planner, whatever the store goes
  through next, another pass that falls into the same slot of every plan succeeds, reports that
  it created no job and leaves the store as it is, with any clock and any new identifiers.\<close>

theorem planner_fills_each_slot_once:
  assumes "sv_repo s = memory_repository" "now \<noteq> 0" "now' \<noteq> 0" "\<forall>k. rnd' k \<noteq> None"
    "Planner_RunOnce s clock wall plans now rnd r = (Inr n, r1)" "reachable r1" "store_step\<^sup>*\<^sup>* r1 r2"
    "\<forall>p \<in> set plans. now' div pd_Interval p = now div pd_Interval p"
  shows "Planner_RunOnce s clock' wall' plans now' rnd' r2 = (Inr 0, r2)"
proof (rule memory_planned.plan_twice [OF assms(1-5)])
  show "memory_key r2 k" if "memory_key r1 k" for k
    using that index_stays [OF assms(6,7), of k] by (auto simp: memory_key_def)
  show "\<forall>p \<in> set plans. 0 < pd_Interval p \<longrightarrow> Truncate now' (pd_Interval p) = Truncate now (pd_Interval p)"
    using assms(8) by (simp add: Truncate_def minus_mod_eq_mult_div)
qed

definition demo_service :: "repo service" where
  "demo_service = \<lparr>sv_repo = memory_repository, sv_retryPolicy = DefaultBackoffPolicy\<rparr>"

definition demo_plan :: plan_definition where
  "demo_plan = \<lparr>pd_Name = ''n'', pd_TenantID = ''t'', pd_ProjectID = ''p'', pd_EnvironmentID = ''e'',
     pd_JobType = ''scan'', pd_AggregateType = ''env'', pd_AggregateID = ''e'', pd_Priority = 1,
     pd_Payload = [], pd_MaxAttempts = 0, pd_Interval = 100\<rparr>"


section \<open>Plan keys\<close>

lemma suffix_key_split:
  assumes "xs @ CHR '':'' # u @ t = ys @ CHR '':'' # v @ w" "length t = length w"
    "CHR '':'' \<notin> set u" "CHR '':'' \<notin> set v"
  shows "xs = ys \<and> u @ t = v @ w"
proof -
  have "(xs @ CHR '':'' # u) @ t = (ys @ CHR '':'' # v) @ w" using assms(1) by simp
  then have "xs @ CHR '':'' # u = ys @ CHR '':'' # v" and t: "t = w"
    unfolding append_eq_append_conv [OF disjI2 [OF assms(2)]] by auto
  then have "rev u @ CHR '':'' # rev xs = rev v @ CHR '':'' # rev ys"
    by (metis append.assoc append_Cons append_Nil rev_append rev.simps(2) append.right_neutral)
  from split_at_sep [OF this] assms(3,4) have "rev u = rev v" "rev xs = rev ys" by auto
  with t show ?thesis by simp
qed

lemma FormatRFC3339_shape:
  assumes "0 \<le> t"
  shows "\<exists>u v. FormatRFC3339 t = u @ v \<and> length v = 16 \<and> CHR '':'' \<notin> set u"
proof -
  define s where "s = t div second_ns"
  have s: "0 \<le> s div 86400" using assms by (simp add: s_def pos_imp_zdiv_nonneg_iff)
  obtain y m d where c: "civil (s div 86400) = (y, m, d)" by (metis prod_cases3)
  define r where "r = s mod 86400"
  have r: "0 \<le> r" "r < 86400" by (simp_all add: r_def)
  note b = civil_bounds [OF s c]
  let ?v = "''-'' @ pad 2 m @ ''-'' @ pad 2 d @ ''T'' @ pad 2 (r div 3600) @ '':'' @
    pad 2 (r mod 3600 div 60) @ '':'' @ pad 2 (r mod 60) @ ''Z''"
  have "FormatRFC3339 t = pad 4 y @ ?v" by (simp add: FormatRFC3339_def Let_def c s_def [symmetric] r_def)
  moreover have "length ?v = 16" using b time_parts [OF r] by (simp add: length_pad_2)
  ultimately show ?thesis using pad_no_sep(2) by blast
qed

lemma plan_key_inj:
  assumes "0 \<le> t" "0 \<le> u" "0 < pd_Interval p" "0 < pd_Interval q" "plan_key p t = plan_key q u"
  shows "TrimSpace (pd_Name p) = TrimSpace (pd_Name q) \<and>
    Truncate t (pd_Interval p) div second_ns = Truncate u (pd_Interval q) div second_ns"
proof -
  have nn: "0 \<le> Truncate t (pd_Interval p)" "0 \<le> Truncate u (pd_Interval q)"
    using assms(1-4) by (simp_all add: Truncate_def minus_mod_eq_mult_div pos_imp_zdiv_nonneg_iff)
  from FormatRFC3339_shape [OF nn(1)] FormatRFC3339_shape [OF nn(2)] obtain a b c d where
    f: "FormatRFC3339 (Truncate t (pd_Interval p)) = a @ b" "length b = 16" "CHR '':'' \<notin> set a"
    "FormatRFC3339 (Truncate u (pd_Interval q)) = c @ d" "length d = 16" "CHR '':'' \<notin> set c" by blast
  have "TrimSpace (pd_Name p) @ CHR '':'' # a @ b = TrimSpace (pd_Name q) @ CHR '':'' # c @ d"
    using assms(5) f by (simp add: plan_key_def)
  from suffix_key_split [OF this] f have "TrimSpace (pd_Name p) = TrimSpace (pd_Name q)" "a @ b = c @ d" by auto
  with f FormatRFC3339_inj [OF nn] show ?thesis by simp
qed


text \<open>The slot of a plan is the multiple of its interval that the instant falls into, and two
  plans share a key exactly when they have the same name and their slots start in the same second:
  names with colons or digits never run into the timestamp, and slots less than a second apart
  are one.\<close>

theorem plan_keys_tell_slots_apart:
  assumes "plan_slot p t wall = Inr (s1, k1)" "plan_slot q u wall' = Inr (s2, k2)" "0 < t" "0 < u"
  shows "s1 \<le> t \<and> t < s1 + pd_Interval p \<and> s1 mod pd_Interval p = 0 \<and>
    (k1 = k2 \<longleftrightarrow> TrimSpace (pd_Name p) = TrimSpace (pd_Name q) \<and> s1 div second_ns = s2 div second_ns)"
proof -
  from assms have e: "s1 = Truncate t (pd_Interval p)" "k1 = plan_key p t" "0 < pd_Interval p"
    "s2 = Truncate u (pd_Interval q)" "k2 = plan_key q u" "0 < pd_Interval q"
    by (auto simp: plan_slot_def plan_key_def coalesceTime_def IsZero_def Let_def split: if_splits)
  have "s1 = pd_Interval p * (t div pd_Interval p)" using e by (simp add: Truncate_def minus_mod_eq_mult_div)
  then have "s1 mod pd_Interval p = 0" by simp
  moreover have "s1 \<le> t" "t < s1 + pd_Interval p" using e pos_mod_bound [of "pd_Interval p" t]
    by (simp_all add: Truncate_def)
  moreover have "k1 = k2" if "TrimSpace (pd_Name p) = TrimSpace (pd_Name q)" "s1 div second_ns = s2 div second_ns"
    using that e by (simp add: plan_key_def FormatRFC3339_def)
  ultimately show ?thesis using plan_key_inj [of t u p q] assms(3,4) e by auto
qed

lemma demo_plan_time: "FormatRFC3339 1000 = ''0001-01-01T00:00:00Z''"
  by code_simp

theorem plan_keys_tell_slots_apart_witness:
  "\<exists>s1 k1 s2 k2. plan_slot demo_plan 1050 0 = Inr (s1, k1) \<and>
     plan_slot (demo_plan\<lparr>pd_Name := ''m''\<rparr>) 1050 0 = Inr (s2, k2) \<and> s1 = 1000 \<and> k1 \<noteq> k2"
proof -
  have tn: "TrimSpace ''n'' = ''n''" "TrimSpace ''m'' = ''m''" by (simp_all add: TrimSpace_solid solid_def)
  then obtain s1 k1 s2 k2 where p: "plan_slot demo_plan 1050 0 = Inr (s1, k1)"
    "plan_slot (demo_plan\<lparr>pd_Name := ''m''\<rparr>) 1050 0 = Inr (s2, k2)" "s1 = 1000"
    by (simp add: plan_slot_def demo_plan_def Let_def coalesceTime_def IsZero_def Truncate_def)
  from plan_keys_tell_slots_apart [OF p(1,2)] have "k1 \<noteq> k2" using tn by (simp add: demo_plan_def)
  with p show ?thesis by blast
qed

lemma demo_plan_first:
  "\<exists>rec r1. job_New (plan_params demo_plan 1000 (plan_key demo_plan 1000)) 1000 demo_raw = Inr rec \<and>
     r1 = repo_exec NewMemoryRepository (REnsurePlanned rec) \<and> reachable r1 \<and>
     Planner_RunOnce demo_service (\<lambda>_. 0) 0 [demo_plan] 1000 (\<lambda>_. demo_raw) NewMemoryRepository = (Inr 1, r1)"
proof -
  have tr: "Truncate 1000 (pd_Interval demo_plan) = 1000" by (simp add: Truncate_def demo_plan_def)
  have key: "plan_key demo_plan 1000 = ''plan:n:0001-01-01T00:00:00Z''"
    using tr by (simp add: plan_key_def demo_plan_time) (simp add: demo_plan_def TrimSpace_solid solid_def)
  have "params_ok (plan_params demo_plan 1000 (plan_key demo_plan 1000))"
    unfolding key by (simp add: params_ok_def plan_params_def demo_plan_def TrimSpace_solid solid_def)
  then obtain rec where rec: "job_New (plan_params demo_plan 1000 (plan_key demo_plan 1000)) 1000 demo_raw = Inr rec"
    using job_New_total unfolding demo_raw_def by blast
  then have "job_wf rec \<and> j_Status rec = StatusPending" by (simp add: demo_raw_def job_New_wf_raw)
  then have f: "op_ok NewMemoryRepository (REnsurePlanned rec)" by (simp add: fresh_job_def NewMemoryRepository_def)
  have "EnsurePlanned demo_service (\<lambda>_. 0) 0 demo_plan 1000 demo_raw NewMemoryRepository =
      (Inr (rec, True), repo_exec NewMemoryRepository (REnsurePlanned rec))"
    using rec tr unfolding EnsurePlanned_cases [of 1000, simplified]
    by (simp add: demo_plan_def [THEN arg_cong [where f = pd_Name]] demo_plan_def [THEN arg_cong [where f = pd_Interval]]
        TrimSpace_solid solid_def demo_service_def memory_repository_def repo_EnsurePlanned_def NewMemoryRepository_def)
  then have "Planner_RunOnce demo_service (\<lambda>_. 0) 0 [demo_plan] 1000 (\<lambda>_. demo_raw) NewMemoryRepository =
      (Inr 1, repo_exec NewMemoryRepository (REnsurePlanned rec))"
    by (simp add: Planner_RunOnce_def EnsurePlans_def coalesceTime_def IsZero_def)
  with rec reachable_step [OF reachable_New f] show ?thesis by blast
qed

theorem planner_fills_each_slot_once_witness:
  "\<exists>r1. Planner_RunOnce demo_service (\<lambda>_. 0) 0 [demo_plan] 1000 (\<lambda>_. demo_raw) NewMemoryRepository = (Inr 1, r1) \<and>
     Planner_RunOnce demo_service (\<lambda>_. 0) 0 [demo_plan] 1099 (\<lambda>_. demo_raw) r1 = (Inr 0, r1)"
proof -
  obtain r1 where "reachable r1"
    "Planner_RunOnce demo_service (\<lambda>_. 0) 0 [demo_plan] 1000 (\<lambda>_. demo_raw) NewMemoryRepository = (Inr 1, r1)"
    using demo_plan_first by blast
  with planner_fills_each_slot_once [of demo_service 1000 1099 "\<lambda>_. demo_raw" "\<lambda>_. 0" 0 "[demo_plan]"
      "\<lambda>_. demo_raw" NewMemoryRepository 1 r1 r1 "\<lambda>_. 0" 0]
  show ?thesis by (simp add: demo_service_def demo_raw_def demo_plan_def)
qed

end
