(* ===== verification/WorkerProps.thy ===== *)
theory WorkerProps
  imports PlannerProps
begin

text \<open>
  The worker against the store and against everybody else: calls of the lease holder succeed, a
  failed run waits for the backoff of the service, an undisturbed worker that renews in time always
  completes, and a worker never acknowledges a job whose lease it lost, whatever other processes do
  between its calls.
\<close>

section \<open>Calls of the lease holder\<close>

lemma live_lease_nonblank: "job_wf j \<Longrightarrow> live_lease j w now \<Longrightarrow> TrimSpace w \<noteq> []"
  by (auto simp: live_lease_def job_wf_def)

lemma activeAttempt_live:
  assumes "repo_wf r" "mget (r_jobs r) i = Some j" "live_lease j w now"
  shows "activeAttempt r i w = Inr (last (mslice (r_attempts r) i), length (mslice (r_attempts r) i) - 1)"
  using activeAttempt_wf [OF assms(1,2), of w] assms(3) by (simp add: live_lease_def)

lemma MarkRunning_live:
  assumes "repo_wf r" "mget (r_jobs r) (TrimSpace i) = Some j" "live_lease j w now" "j_Status j = StatusClaimed"
  shows "\<exists>r'. repo_MarkRunning r i w now = (Inr (bumped (j\<lparr>j_Status := StatusRunning\<rparr>) now), r') \<and>
    repo_wf r' \<and> mget (r_jobs r') (TrimSpace i) = Some (bumped (j\<lparr>j_Status := StatusRunning\<rparr>) now)"
proof -
  have id: "j_ID j = TrimSpace i" using repo_wfD(1) [OF assms(1,2)] .
  have "job_MarkRunning j w now = Inr (bumped (j\<lparr>j_Status := StatusRunning\<rparr>) now)"
    using live_lease_guard [OF repo_wfD(2) [OF assms(1,2)] assms(3)] assms(4) by (simp add: MarkRunning_ok)
  then have "repo_MarkRunning r i w now = (Inr (bumped (j\<lparr>j_Status := StatusRunning\<rparr>) now),
      r\<lparr>r_jobs := mput (TrimSpace i) (bumped (j\<lparr>j_Status := StatusRunning\<rparr>) now) (r_jobs r)\<rparr>)" (is "_ = (_, ?r)")
    using assms(2) activeAttempt_live [OF assms(1-3)] id by (simp add: repo_MarkRunning_def requireJob_def)
  moreover from this have "repo_wf ?r" using good_MarkRunning [OF assms(1), of i w now] by (simp add: good_step_def)
  ultimately show ?thesis by simp
qed

lemma Heartbeat_live:
  assumes "repo_wf r" "mget (r_jobs r) (TrimSpace i) = Some j" "live_lease j w now" "0 < ttl" "0 < now"
  shows "\<exists>a r'. repo_Heartbeat r i w ttl now = (Inr (bumped (j\<lparr>j_LeaseExpireAt := now + ttl\<rparr>) now, a), r') \<and>
    repo_wf r' \<and> mget (r_jobs r') (TrimSpace i) = Some (bumped (j\<lparr>j_LeaseExpireAt := now + ttl\<rparr>) now)"
proof -
  have id: "j_ID j = TrimSpace i" using repo_wfD(1) [OF assms(1,2)] .
  have l: "IsLeased (j_Status j)" using assms(3) by (simp add: live_lease_def)
  have m: "job_Renew j w ttl now = Inr (bumped (j\<lparr>j_LeaseExpireAt := now + ttl\<rparr>) now)"
    using live_lease_guard [OF repo_wfD(2) [OF assms(1,2)] assms(3)] l assms(4) by (simp add: Renew_ok)
  have "attempt_Active (last (mslice (r_attempts r) (TrimSpace i)))"
    using repo_wfD(3) [OF assms(1,2)] l by (simp add: attempts_ok_def)
  from attempt_close_total(5) [OF this] obtain b where b: "attempt_Heartbeat (last (mslice (r_attempts r) (TrimSpace i))) now = Inr b"
    by blast
  then have h: "repo_Heartbeat r i w ttl now = (Inr (bumped (j\<lparr>j_LeaseExpireAt := now + ttl\<rparr>) now, b),
      put_both r (TrimSpace i) (bumped (j\<lparr>j_LeaseExpireAt := now + ttl\<rparr>) now)
        (length (mslice (r_attempts r) (TrimSpace i)) - 1) b)" (is "_ = (_, ?r)")
    using assms(2) m activeAttempt_live [OF assms(1-3)] id by (simp add: repo_Heartbeat_def requireJob_def)
  then have "repo_wf ?r" using good_Heartbeat [OF assms(1,5), of i w ttl] by (simp add: good_step_def)
  with h show ?thesis by (simp add: put_both_same)
qed

section \<open>Retries through the service\<close>

text \<open>When a worker reports a retryable failure without naming a delay, and the budget allows
  another run, the service under the default policy puts the job back to waiting for exactly five
  seconds doubled once per earlier execution, capped at five minutes.\<close>

theorem failed_job_waits_for_backoff:
  assumes "reachable r" "sv_repo s = memory_repository" "sv_retryPolicy s = DefaultBackoffPolicy"
    "mget (r_jobs r) (TrimSpace (co_JobID p)) = Some j" "co_Now p \<noteq> 0" "live_lease j (co_WorkerID p) (co_Now p)"
    "co_Retryable p" "co_RetryDelay p = 0" "completed_status (co_ResultStatus p) \<noteq> StatusSucceeded"
    "j_AttemptCount j < j_MaxAttempts j"
  shows "\<exists>n b r'. sv_Complete oor s clock p r = (Inr (n, b, True), r') \<and> mget (r_jobs r') (j_ID j) = Some n \<and>
    j_Status n = StatusRetry \<and>
    j_NextRunAt n = co_Now p + min (5 * minute) (5 * second * 2 ^ nat (j_AttemptCount j - 1))"
proof -
  define p' where "p' = p\<lparr>co_RetryDelay := Delay oor DefaultBackoffPolicy (j_AttemptCount j)\<rparr>"
  have now: "p\<lparr>co_Now := coalesceTime (co_Now p) (clock 0)\<rparr> = p"
    using assms(5) by (simp add: coalesceTime_def IsZero_def)
  have sv: "sv_Complete oor s clock p r = repo_Complete r p'"
    using assms(2-4,7,8) unfolding sv_Complete_def now
    by (simp add: memory_repository_def repo_Get_def requireJob_def p'_def)
  have d: "Delay oor DefaultBackoffPolicy (j_AttemptCount j) =
      min (5 * minute) (5 * second * 2 ^ nat (j_AttemptCount j - 1))" by (rule Delay_default_raw)
  have f: "co_JobID p' = co_JobID p" "co_WorkerID p' = co_WorkerID p" "co_Now p' = co_Now p"
    "co_ResultStatus p' = co_ResultStatus p" "co_Retryable p'" "co_RetryDelay p' = min (5 * minute) (5 * second * 2 ^ nat (j_AttemptCount j - 1))"
    using assms(7) by (simp_all add: p'_def d)
  have wr: "wants_retry p' j" using assms(9,10) by (simp add: wants_retry_def f)
  have "\<exists>j. mget (r_jobs r) (TrimSpace (co_JobID p')) = Some j \<and> live_lease j (co_WorkerID p') (co_Now p')"
    using assms(4,6) f by simp
  then obtain n b r' where "repo_Complete r p' = (Inr (n, b, wants_retry p' j), r')" "mget (r_jobs r') (j_ID j) = Some n"
    "if wants_retry p' j then j_Status n = StatusRetry \<and> j_NextRunAt n = co_Now p' + co_RetryDelay p'
       else j_Status n = completed_status (co_ResultStatus p')"
    using Complete_result [OF reachable_wf [OF assms(1)], of p'] assms(4) f by auto
  with wr sv f show ?thesis by simp
qed

theorem failed_job_waits_for_backoff_witness:
  "\<exists>n b r'. sv_Complete (\<lambda>_. 0) demo_service (\<lambda>_. 0) ((demo_complete ''w1'')\<lparr>co_RetryDelay := 0\<rparr>) demo_leased =
     (Inr (n, b, True), r') \<and> j_NextRunAt n = 12 + 5 * second"
proof -
  have j: "mget (r_jobs demo_leased) (TrimSpace ''j1'') = Some demo_claimed" by (simp add: demo_leased_sel)
  have l: "live_lease demo_claimed ''w1'' 12" "j_AttemptCount demo_claimed = 1" "j_MaxAttempts demo_claimed = 3"
    by (simp_all add: live_lease_def demo_claimed_def bumped_def) (simp add: demo_job_def)
  have s: "sv_repo demo_service = memory_repository" "sv_retryPolicy demo_service = DefaultBackoffPolicy"
    by (simp_all add: demo_service_def)
  from failed_job_waits_for_backoff [OF demo_leased_reachable s, of "(demo_complete ''w1'')\<lparr>co_RetryDelay := 0\<rparr>" demo_claimed
      "\<lambda>_. 0" "\<lambda>_. 0"] j l
  show ?thesis by (auto simp: demo_complete_def completed_status_def)
qed

section \<open>The worker\<close>

text \<open>Instants at which a lease of length \<open>ttl\<close> is renewed in time, up to the end.\<close>

fun renewed_until :: "gotime \<Rightarrow> duration \<Rightarrow> gotime list \<Rightarrow> gotime \<Rightarrow> bool" where
  "renewed_until expiry ttl [] fin = (0 < fin \<and> fin < expiry)"
| "renewed_until expiry ttl (t # ts) fin = (0 < t \<and> t < expiry \<and> renewed_until (t + ttl) ttl ts fin)"

lemma renewLoop_kept:
  assumes "sv_repo s = memory_repository" "0 < wk_LeaseTTL w"
  shows "repo_wf r \<Longrightarrow> mget (r_jobs r) (TrimSpace i) = Some j \<Longrightarrow> IsLeased (j_Status j) \<Longrightarrow>
    j_LeaseOwner j = TrimSpace (wk_WorkerID w) \<Longrightarrow> renewed_until (j_LeaseExpireAt j) (wk_LeaseTTL w) ticks fin \<Longrightarrow>
    \<exists>r' j'. renewLoop s clock w i (\<lambda>_ st. st) ticks r = (None, r') \<and> repo_wf r' \<and>
      mget (r_jobs r') (TrimSpace i) = Some j' \<and> live_lease j' (wk_WorkerID w) fin \<and>
      j_AttemptCount j' = j_AttemptCount j \<and> j_MaxAttempts j' = j_MaxAttempts j"
proof (induction ticks arbitrary: r j)
  case Nil
  then show ?case by (auto simp: live_lease_def)
next
  case (Cons t ts)
  have t: "0 < t" "live_lease j (wk_WorkerID w) t" using Cons.prems by (simp_all add: live_lease_def)
  obtain a r1 where h: "repo_Heartbeat r i (wk_WorkerID w) (wk_LeaseTTL w) t =
      (Inr (bumped (j\<lparr>j_LeaseExpireAt := t + wk_LeaseTTL w\<rparr>) t, a), r1)" "repo_wf r1"
    "mget (r_jobs r1) (TrimSpace i) = Some (bumped (j\<lparr>j_LeaseExpireAt := t + wk_LeaseTTL w\<rparr>) t)"
    using Heartbeat_live [OF Cons.prems(1,2) t(2) assms(2) t(1)] by blast
  have hb: "sv_Heartbeat s clock i (wk_WorkerID w) (wk_LeaseTTL w) t r =
      (Inr (bumped (j\<lparr>j_LeaseExpireAt := t + wk_LeaseTTL w\<rparr>) t, a), r1)"
    using h(1) t(1) assms(1) by (simp add: sv_Heartbeat_def memory_repository_def coalesceTime_def IsZero_def)
  from Cons.IH [OF h(2,3)] Cons.prems hb show ?case by (simp add: bumped_def)
qed

lemma renewed_fin: "renewed_until e ttl ts fin \<Longrightarrow> 0 < fin"
  by (induction ts arbitrary: e) auto

text \<open>The delay a retry waits: the one the executor named, or that of the policy.\<close>

definition retry_delay :: "(rat \<Rightarrow> int) \<Rightarrow> 'st service \<Rightarrow> execution_result \<Rightarrow> int \<Rightarrow> duration" where
  "retry_delay oor s result n = (if er_RetryDelay result = 0 then Delay oor (sv_retryPolicy s) n else er_RetryDelay result)"

definition retries :: "(rat \<Rightarrow> int) \<Rightarrow> 'st service \<Rightarrow> execution_result \<Rightarrow> job \<Rightarrow> bool" where
  "retries oor s result j =
     (er_Retryable result \<and> completed_status (normalizeResultStatus (er_ResultStatus result)) \<noteq> StatusSucceeded \<and>
      j_AttemptCount j < j_MaxAttempts j \<and> 0 \<le> retry_delay oor s result (j_AttemptCount j))"

lemma Complete_live:
  assumes "repo_wf r" "sv_repo s = memory_repository" "mget (r_jobs r) (TrimSpace i) = Some j" "live_lease j (wk_WorkerID w) now" "0 < now"
  shows "\<exists>x n r'. sv_Complete oor s clock (completion_of w i result now) r = (Inr x, r') \<and> mget (r_jobs r') (TrimSpace i) = Some n \<and>
    j_LeaseOwner n = [] \<and>
    (if retries oor s result j then j_Status n = StatusRetry \<and> j_NextRunAt n = now + retry_delay oor s result (j_AttemptCount j)
     else j_Status n = completed_status (normalizeResultStatus (er_ResultStatus result)))"
proof -
  define p where "p = completion_of w i result now"
  define q where "q = (if co_Retryable p \<and> co_RetryDelay p = 0 then p\<lparr>co_RetryDelay := Delay oor (sv_retryPolicy s) (j_AttemptCount j)\<rparr> else p)"
  have now: "p\<lparr>co_Now := coalesceTime (co_Now p) (clock 0)\<rparr> = p"
    using assms(5) by (simp add: p_def completion_of_def coalesceTime_def IsZero_def)
  have "co_JobID p = i" by (simp add: p_def completion_of_def)
  then have sv: "sv_Complete oor s clock p r = repo_Complete r q"
    using assms(2,3) unfolding sv_Complete_def now q_def by (simp add: Let_def memory_repository_def repo_Get_def requireJob_def)
  have f: "co_JobID q = i" "co_WorkerID q = wk_WorkerID w" "co_Now q = now" "co_Retryable q = er_Retryable result"
    "co_ResultStatus q = normalizeResultStatus (er_ResultStatus result)"
    "er_Retryable result \<Longrightarrow> co_RetryDelay q = retry_delay oor s result (j_AttemptCount j)"
    by (simp_all add: q_def p_def completion_of_def retry_delay_def)
  have w: "wants_retry q j = retries oor s result j" using f by (auto simp: wants_retry_def retries_def)
  have id: "j_ID j = TrimSpace i" by (rule repo_wfD(1) [OF assms(1,3)])
  have "\<exists>j. mget (r_jobs r) (TrimSpace (co_JobID q)) = Some j \<and> live_lease j (co_WorkerID q) (co_Now q)" using assms(3,4) by (simp add: f)
  with Complete_result [OF assms(1), of q] assms(3) obtain n b r' where c: "repo_Complete r q = (Inr (n, b, wants_retry q j), r')"
    "mget (r_jobs r') (j_ID j) = Some n" "j_LeaseOwner n = []"
    "if wants_retry q j then j_Status n = StatusRetry \<and> j_NextRunAt n = co_Now q + co_RetryDelay q
       else j_Status n = completed_status (co_ResultStatus q)" by (auto simp: f)
  have "if retries oor s result j then j_Status n = StatusRetry \<and> j_NextRunAt n = now + retry_delay oor s result (j_AttemptCount j)
     else j_Status n = completed_status (normalizeResultStatus (er_ResultStatus result))"
    using c(4) f unfolding w by (auto simp: retries_def)
  with c sv id show ?thesis unfolding p_def [symmetric] by auto
qed

lemma worker_completes:
  assumes "reachable r" "sv_repo s = memory_repository" "mget (r_jobs r) (TrimSpace (j_ID (fst claim))) = Some j"
    "j_Status j = StatusClaimed" "live_lease j (wk_WorkerID w) (ex_start ex)" "0 < ex_start ex"
    "0 < wk_LeaseTTL w" "ex_env ex = (\<lambda>_ st. st)"
    "renewed_until (j_LeaseExpireAt j) (wk_LeaseTTL w) (if 0 < wk_RenewInterval w then ex_ticks ex else []) (ex_end ex)"
  shows "\<exists>r' n. executeClaim oor s clock w ex claim r = (None, r') \<and>
    mget (r_jobs r') (TrimSpace (j_ID (fst claim))) = Some n \<and> j_LeaseOwner n = [] \<and>
    (if retries oor s (ex_result ex) j
     then j_Status n = StatusRetry \<and> j_NextRunAt n = ex_end ex + retry_delay oor s (ex_result ex) (j_AttemptCount j)
     else j_Status n = completed_status (normalizeResultStatus (er_ResultStatus (ex_result ex))))"
proof -
  let ?i = "j_ID (fst claim)" and ?k = "TrimSpace (j_ID (fst claim))"
  note wf = reachable_wf [OF assms(1)]
  obtain r1 where m: "repo_MarkRunning r ?i (wk_WorkerID w) (ex_start ex) =
      (Inr (bumped (j\<lparr>j_Status := StatusRunning\<rparr>) (ex_start ex)), r1)" "repo_wf r1"
    "mget (r_jobs r1) ?k = Some (bumped (j\<lparr>j_Status := StatusRunning\<rparr>) (ex_start ex))"
    using MarkRunning_live [OF wf assms(3,5,4)] by blast
  obtain r2 j2 where l: "renewLoop s clock w ?i (\<lambda>_ st. st) (if 0 < wk_RenewInterval w then ex_ticks ex else []) r1 = (None, r2)" "repo_wf r2"
    "mget (r_jobs r2) ?k = Some j2" "live_lease j2 (wk_WorkerID w) (ex_end ex)"
    "j_AttemptCount j2 = j_AttemptCount j" "j_MaxAttempts j2 = j_MaxAttempts j"
    using renewLoop_kept [OF assms(2,7) m(2,3), of "if 0 < wk_RenewInterval w then ex_ticks ex else []" "ex_end ex" clock] assms(5,9)
    by (auto simp: bumped_def live_lease_def)
  have "retries oor s (ex_result ex) j2 = retries oor s (ex_result ex) j" using l(5,6) by (simp add: retries_def)
  with Complete_live [OF l(2) assms(2) l(3,4) renewed_fin [OF assms(9)], of oor clock "ex_result ex"] l(5)
  obtain x n r3 where c: "sv_Complete oor s clock (completion_of w ?i (ex_result ex) (ex_end ex)) r2 = (Inr x, r3)"
    "mget (r_jobs r3) ?k = Some n" "j_LeaseOwner n = []"
    "if retries oor s (ex_result ex) j then j_Status n = StatusRetry \<and> j_NextRunAt n = ex_end ex + retry_delay oor s (ex_result ex) (j_AttemptCount j)
     else j_Status n = completed_status (normalizeResultStatus (er_ResultStatus (ex_result ex)))" by auto
  have "executeClaim oor s clock w ex claim r = (None, r3)"
    using m(1) l(1) c(1) assms(2,6,8) by (simp add: executeClaim_def Let_def sv_MarkRunning_def memory_repository_def coalesceTime_def IsZero_def)
  with c(2-4) show ?thesis by blast
qed

text \<open>C29: a worker that nobody disturbs finishes its job, whatever the result of the run: if it starts the job it claimed while
  the lease runs, renews before every expiry, or has renewal switched off and needs none, and ends before the last expiry,
  then its run is acknowledged without an error, however long it takes, and the job is stored free: waiting for a retry after
  the delay the executor named, or else that of the policy, when the executor asks for one, the result is not a success, the budget allows it
  and the delay is not negative, and otherwise succeeded, timed out or failed as the result says.\<close>

theorem undisturbed_worker_completes:
  assumes "reachable r" "sv_repo s = memory_repository" "mget (r_jobs r) (TrimSpace (j_ID (fst claim))) = Some j"
    "j_Status j = StatusClaimed" "live_lease j (wk_WorkerID w) (ex_start ex)" "0 < ex_start ex"
    "0 < wk_LeaseTTL w" "ex_env ex = (\<lambda>_ st. st)"
    "renewed_until (j_LeaseExpireAt j) (wk_LeaseTTL w) (if 0 < wk_RenewInterval w then ex_ticks ex else []) (ex_end ex)"
  shows "\<exists>r' n. executeClaim oor s clock w ex claim r = (None, r') \<and>
    mget (r_jobs r') (TrimSpace (j_ID (fst claim))) = Some n \<and> j_LeaseOwner n = [] \<and>
    (if retries oor s (ex_result ex) j
     then j_Status n = StatusRetry \<and> j_NextRunAt n = ex_end ex + retry_delay oor s (ex_result ex) (j_AttemptCount j)
     else j_Status n = completed_status (normalizeResultStatus (er_ResultStatus (ex_result ex))))"
  by (rule worker_completes [OF assms])

definition demo_worker :: "repo worker" where
  "demo_worker = \<lparr>wk_Service = Some demo_service, wk_Executor = None, wk_WorkerID = ''w1'', wk_MaxJobs = 1,
     wk_LeaseTTL = 20, wk_RenewInterval = 5\<rparr>"

definition demo_execution :: "repo execution" where
  "demo_execution = \<lparr>ex_result = \<lparr>er_ResultStatus = AttemptStatusOther [], er_Retryable = False, er_RetryDelay = 0,
       er_ErrorCode = [], er_ErrorMessage = [], er_EvidenceRef = []\<rparr>,
     ex_start = 11, ex_ticks = [16, 35, 50], ex_end = 60, ex_env = (\<lambda>_ st. st)\<rparr>"

theorem undisturbed_worker_completes_witness:
  "\<exists>r' n. executeClaim (\<lambda>_. 0) demo_service (\<lambda>_. 0) demo_worker demo_execution (demo_claimed, undefined) demo_leased = (None, r') \<and>
     mget (r_jobs r') ''j1'' = Some n \<and> j_Status n = StatusSucceeded"
proof -
  have id: "j_ID demo_claimed = ''j1''" by (simp add: demo_claimed_def demo_job_def bumped_def)
  have j: "mget (r_jobs demo_leased) (TrimSpace (j_ID (fst (demo_claimed, undefined)))) = Some demo_claimed"
    by (simp add: demo_leased_sel id)
  have l: "j_Status demo_claimed = StatusClaimed" "live_lease demo_claimed ''w1'' 11" "j_LeaseExpireAt demo_claimed = 30"
    by (simp_all add: live_lease_def demo_claimed_def bumped_def)
  have s: "sv_repo demo_service = memory_repository" by (simp add: demo_service_def)
  from undisturbed_worker_completes [OF demo_leased_reachable s j l(1), of demo_worker demo_execution "\<lambda>_. 0" "\<lambda>_. 0"] l id
  show ?thesis by (auto simp: demo_worker_def demo_execution_def normalizeResultStatus_def retries_def completed_status_def)
qed

lemma demo_execution_ok:
  "\<exists>r' n. executeClaim (\<lambda>_. 0) demo_service (\<lambda>_. 0) demo_worker demo_execution (demo_claimed, undefined) demo_leased = (None, r') \<and>
     mget (r_jobs r') ''j1'' = Some n \<and> j_Status n = StatusSucceeded"
proof -
  have id: "j_ID demo_claimed = ''j1''" by (simp add: demo_claimed_def demo_job_def bumped_def)
  have j: "mget (r_jobs demo_leased) (TrimSpace (j_ID (fst (demo_claimed, undefined)))) = Some demo_claimed"
    by (simp add: demo_leased_sel id)
  have l: "j_Status demo_claimed = StatusClaimed" "live_lease demo_claimed ''w1'' 11" "j_LeaseExpireAt demo_claimed = 30"
    by (simp_all add: live_lease_def demo_claimed_def bumped_def)
  have s: "sv_repo demo_service = memory_repository" by (simp add: demo_service_def)
  from worker_completes [OF demo_leased_reachable s j l(1), of demo_worker demo_execution "\<lambda>_. 0" "\<lambda>_. 0"] l id
  show ?thesis by (auto simp: demo_worker_def demo_execution_def normalizeResultStatus_def retries_def completed_status_def)
qed

text \<open>Interference: whatever the others do to the store in between, it stays reachable.\<close>

definition fair_env :: "repo execution \<Rightarrow> bool" where
  "fair_env ex = (\<forall>k r. reachable r \<longrightarrow> reachable (ex_env ex k r))"

lemma sv_calls_reachable:
  assumes "sv_repo s = memory_repository" "reachable r" "0 < now"
  shows "reachable (snd (sv_MarkRunning s clock i w now r))" "reachable (snd (sv_Heartbeat s clock i w ttl now r))"
  using assms reachable_step [OF assms(2), of "RMarkRunning i w now"] reachable_step [OF assms(2), of "RHeartbeat i w ttl now"]
  by (simp_all add: sv_MarkRunning_def sv_Heartbeat_def memory_repository_def coalesceTime_def IsZero_def)

lemma renewLoop_reachable:
  assumes "sv_repo s = memory_repository"
  shows "reachable r \<Longrightarrow> \<forall>k r. reachable r \<longrightarrow> reachable (env k r) \<Longrightarrow> \<forall>t \<in> set ticks. 0 < t \<Longrightarrow>
    reachable (snd (renewLoop s clock w i env ticks r))"
proof (induction ticks arbitrary: r env)
  case (Cons t ts)
  have "reachable (env 0 r)" "0 < t" using Cons.prems by auto
  from sv_calls_reachable(2) [OF assms this, of clock i "wk_WorkerID w" "wk_LeaseTTL w"]
  obtain x r1 where h: "sv_Heartbeat s clock i (wk_WorkerID w) (wk_LeaseTTL w) t (env 0 r) = (x, r1)" "reachable r1"
    by (metis prod.collapse)
  then show ?case using Cons.IH [of r1 "\<lambda>k. env (Suc k)"] Cons.prems by (cases x) simp_all
qed simp

lemma sv_Complete_ok:
  assumes "sv_repo s = memory_repository" "co_Now p \<noteq> 0" "sv_Complete oor s clock p r = (Inr x, r')"
  shows "\<exists>d. repo_Complete r (p\<lparr>co_RetryDelay := d\<rparr>) = (Inr x, r')"
proof -
  have now: "p\<lparr>co_Now := coalesceTime (co_Now p) (clock 0)\<rparr> = p"
    using assms(2) by (simp add: coalesceTime_def IsZero_def)
  have same: "p\<lparr>co_RetryDelay := co_RetryDelay p\<rparr> = p" by simp
  from assms(3) show ?thesis unfolding sv_Complete_def now using assms(1)
    by (auto simp: memory_repository_def Let_def split: if_splits sum.splits intro: exI [of _ "co_RetryDelay p"])
qed

text \<open>What an acknowledged run saw: the stores right before its calls are those the other actors left.\<close>

lemma executeClaim_calls:
  assumes "executeClaim oor s clock w ex claim r = (None, r')"
  shows "\<exists>y st1 st2 x. sv_MarkRunning s clock (j_ID (fst claim)) (wk_WorkerID w) (ex_start ex) (ex_env ex 0 r) = (Inr y, st1) \<and>
    renewLoop s clock w (j_ID (fst claim)) (\<lambda>k. ex_env ex (k + 2)) (if 0 < wk_RenewInterval w then ex_ticks ex else []) st1 = (None, st2) \<and>
    sv_Complete oor s clock (completion_of w (j_ID (fst claim)) (ex_result ex) (ex_end ex)) (ex_env ex 1 st2) = (Inr x, r')"
  using assms by (auto simp: executeClaim_def Let_def split: prod.splits sum.splits option.splits)

lemma MarkRunning_held:
  assumes "repo_wf r" "repo_MarkRunning r i w now = (Inr n, r')"
  shows "\<exists>j. mget (r_jobs r) (TrimSpace i) = Some j \<and> j_Status j = StatusClaimed \<and> live_lease j w now"
proof -
  from assms(2) obtain j where j: "requireJob r i = Inr j" "job_MarkRunning j w now = Inr n"
    by (auto simp: repo_MarkRunning_def split: sum.splits)
  have at: "mget (r_jobs r) (TrimSpace i) = Some j" using j(1) assms(1) by (simp add: requireJob_wf)
  have "j_Status j = StatusClaimed" "requireLeaseOwner j w now = None" using j(2) by (auto simp: MarkRunning_ok)
  with at repo_wfD(2) [OF assms(1) at] show ?thesis by (auto simp: live_lease_def lease_guard)
qed

text \<open>C28: a worker acknowledges a run only under its own lease: whatever other workers, reapers and users do to the store between its
  calls, if the run of a job ends without an error, then the store as they left it right before its first call had the job
  claimed for this worker with the lease running, the store as they left it right before its completion still had the job
  leased to this worker with the lease running, and afterwards the job is held by nobody.\<close>

theorem acknowledged_under_live_lease:
  assumes "sv_repo s = memory_repository" "reachable r" "fair_env ex" "0 < ex_start ex" "\<forall>t \<in> set (ex_ticks ex). 0 < t"
    "0 < ex_end ex" "executeClaim oor s clock w ex claim r = (None, r')"
  defines "i \<equiv> j_ID (fst claim)"
  defines "st0 \<equiv> ex_env ex 0 r"
  defines "st1 \<equiv> snd (sv_MarkRunning s clock i (wk_WorkerID w) (ex_start ex) st0)"
  defines "st2 \<equiv> snd (renewLoop s clock w i (\<lambda>k. ex_env ex (k + 2)) (if 0 < wk_RenewInterval w then ex_ticks ex else []) st1)"
  shows "(\<exists>j. mget (r_jobs st0) (TrimSpace i) = Some j \<and> j_Status j = StatusClaimed \<and> live_lease j (wk_WorkerID w) (ex_start ex)) \<and>
    (\<exists>j. mget (r_jobs (ex_env ex 1 st2)) (TrimSpace i) = Some j \<and> live_lease j (wk_WorkerID w) (ex_end ex)) \<and>
    (\<exists>n. mget (r_jobs r') (TrimSpace i) = Some n \<and> j_LeaseOwner n = [] \<and> \<not> IsLeased (j_Status n))"
proof -
  from executeClaim_calls [OF assms(7)] obtain y x where m: "sv_MarkRunning s clock i (wk_WorkerID w) (ex_start ex) st0 = (Inr y, st1)"
    and c: "sv_Complete oor s clock (completion_of w i (ex_result ex) (ex_end ex)) (ex_env ex 1 st2) = (Inr x, r')"
    by (auto simp: i_def st0_def st1_def st2_def)
  have r0: "reachable st0" using assms(2,3) by (simp add: fair_env_def st0_def)
  have "reachable st1" unfolding st1_def using sv_calls_reachable(1) [OF assms(1) r0 assms(4)] .
  then have "reachable st2" unfolding st2_def
    using assms(3,5) by (intro renewLoop_reachable [OF assms(1)]) (auto simp: fair_env_def)
  then have st: "reachable (ex_env ex 1 st2)" using assms(3) by (simp add: fair_env_def)
  have "repo_MarkRunning st0 i (wk_WorkerID w) (ex_start ex) = (Inr y, st1)"
    using m assms(1,4) by (simp add: sv_MarkRunning_def memory_repository_def coalesceTime_def IsZero_def)
  note held = MarkRunning_held [OF reachable_wf [OF r0] this]
  let ?p = "completion_of w i (ex_result ex) (ex_end ex)"
  have "co_Now ?p \<noteq> 0" using assms(6) by (simp add: completion_of_def)
  from sv_Complete_ok [OF assms(1) this c] obtain d where d: "repo_Complete (ex_env ex 1 st2) (?p\<lparr>co_RetryDelay := d\<rparr>) = (Inr x, r')" by blast
  have p: "co_JobID (?p\<lparr>co_RetryDelay := d\<rparr>) = i" "co_WorkerID (?p\<lparr>co_RetryDelay := d\<rparr>) = wk_WorkerID w"
    "co_Now (?p\<lparr>co_RetryDelay := d\<rparr>) = ex_end ex" by (simp_all add: completion_of_def)
  note wf = reachable_wf [OF st]
  from Complete_result [OF wf, of "?p\<lparr>co_RetryDelay := d\<rparr>"] d p obtain j n where
    j: "mget (r_jobs (ex_env ex 1 st2)) (TrimSpace i) = Some j" "live_lease j (wk_WorkerID w) (ex_end ex)"
    and n: "mget (r_jobs r') (j_ID j) = Some n" "j_LeaseOwner n = []"
    by (auto split: if_splits)
  have "repo_wf r'" using good_Complete [OF wf, of "?p\<lparr>co_RetryDelay := d\<rparr>"] p assms(6) d by (simp add: good_step_def)
  from repo_wfD(2) [OF this n(1)] n(2) have "\<not> IsLeased (j_Status n)" by (auto simp: job_wf_def)
  with held j n repo_wfD(1) [OF wf j(1)] show ?thesis by auto
qed

theorem acknowledged_under_live_lease_witness:
  "live_lease demo_claimed ''w1'' 11 \<and> (\<exists>r' n. executeClaim (\<lambda>_. 0) demo_service (\<lambda>_. 0) demo_worker demo_execution (demo_claimed, undefined) demo_leased = (None, r') \<and>
     mget (r_jobs r') ''j1'' = Some n \<and> j_LeaseOwner n = [])"
proof -
  obtain r' where x: "executeClaim (\<lambda>_. 0) demo_service (\<lambda>_. 0) demo_worker demo_execution (demo_claimed, undefined) demo_leased = (None, r')"
    using demo_execution_ok by blast
  have "sv_repo demo_service = memory_repository" "fair_env demo_execution" "0 < ex_start demo_execution"
    "\<forall>t \<in> set (ex_ticks demo_execution). 0 < t" "0 < ex_end demo_execution"
    by (simp_all add: demo_service_def fair_env_def demo_execution_def)
  from acknowledged_under_live_lease [OF this(1) demo_leased_reachable this(2-5) x] x show ?thesis
    by (auto simp: demo_worker_def demo_execution_def demo_claimed_def demo_job_def bumped_def demo_leased_sel)
qed

end
