(* ===== verification/CertRequest.thy ===== *)
theory CertRequest
  imports Resource Lifecycle
begin

text \<open>
  Certificate requests (\<^verbatim>\<open>internal/domain/certificaterequest/service.go\<close>): the user-facing fact
  that a certificate was asked for. The service keeps the requests by identifier, an index by
  scoped idempotency key, and the domains of every request. Instants and new identifiers, which the
  service reads from \<^verbatim>\<open>s.now\<close> and \<^verbatim>\<open>s.newID\<close>, are arguments. Error values keep their sentinel and
  the fixed words of their message.
\<close>

section \<open>Data\<close>

text \<open>The constants of the code; the last constructor is any other string, as in the zero request.\<close>

datatype request_status = RqSubmitted | RqAccepted | RqRunning | RqCompleted | RqFailed | RqCancelled | RqOther string

record domain_ref =
  dr_DomainID :: string
  dr_RelationType :: string
  dr_SortOrder :: int
  dr_DomainName :: string
  dr_AllowWildcard :: bool

record request =
  rq_ID :: string
  rq_Scope :: scope
  rq_RequestType :: string
  rq_RequestSource :: string
  rq_AssetID :: string
  rq_CAAccountID :: string
  rq_Algorithm :: string
  rq_CertificateType :: string
  rq_ChallengeType :: string
  rq_CommonName :: string
  rq_Status :: request_status
  rq_RequestedBy :: string
  rq_IdempotencyKey :: string
  rq_Reason :: string
  rq_SubmittedAt :: "gotime option"
  rq_CreatedAt :: gotime
  rq_UpdatedAt :: gotime

record request_input =
  ri_RequestType :: string
  ri_RequestSource :: string
  ri_AssetID :: string
  ri_CAAccountID :: string
  ri_CertificateType :: string
  ri_ChallengeType :: string
  ri_CommonName :: string
  ri_RequestedBy :: string
  ri_IdempotencyKey :: string
  ri_Reason :: string
  ri_Domains :: "domain_ref list"

record request_store =
  rs_byID :: "(string, request) gomap"
  rs_byIdempotency :: "(string, string) gomap"
  rs_domainsByReqID :: "(string, domain_ref list) gomap"

definition NewRequestService :: request_store where
  "NewRequestService = \<lparr>rs_byID = [], rs_byIdempotency = [], rs_domainsByReqID = []\<rparr>"

section \<open>Validation\<close>

abbreviation invalid :: "string \<Rightarrow> gerror" where
  "invalid msg \<equiv> Err ErrValidation msg"

text \<open>The loop over the domains; \<open>seen\<close> is the set of identifiers so far, as a list.\<close>

fun normalize_refs ::
  "domain_ref list \<Rightarrow> int \<Rightarrow> string list \<Rightarrow> bool \<Rightarrow> domain_ref list \<Rightarrow> gerror + domain_ref list \<times> bool" where
  "normalize_refs [] idx seen hasWildcard refs = Inr (refs, hasWildcard)"
| "normalize_refs (ref # rest) idx seen hasWildcard refs =
     (let domainID = TrimSpace (dr_DomainID ref) in
      if domainID = [] then Inl (invalid ''domain_id required'')
      else if domainID \<in> set seen then Inl (Err ErrConflict ''duplicate domain_id'')
      else
        let relation0 = normToken (dr_RelationType ref);
            relationType = (if relation0 = [] then (if idx = 0 then ''primary'' else ''san'') else relation0) in
        if \<not> (relationType = ''primary'' \<or> relationType = ''san'' \<or> relationType = ''wildcard'')
        then Inl (invalid ''unsupported relation_type'')
        else
          let wild = (if relationType = ''wildcard'' then True else hasWildcard);
              sortOrder = (if dr_SortOrder ref \<le> 0 then idx + 1 else dr_SortOrder ref)
          in normalize_refs rest (idx + 1) (domainID # seen) wild
               (refs @ [\<lparr>dr_DomainID = domainID, dr_RelationType = relationType, dr_SortOrder = sortOrder,
                         dr_DomainName = normToken (dr_DomainName ref),
                         dr_AllowWildcard = dr_AllowWildcard ref\<rparr>]))"

text \<open>\<^verbatim>\<open>if s == "" { s = d }\<close>.\<close>

definition orDefault :: "string \<Rightarrow> string \<Rightarrow> string" where
  "orDefault d s = (if s = [] then d else s)"

definition normalizeCreateInput :: "request_input \<Rightarrow> gerror + request_input \<times> domain_ref list \<times> string" where
  "normalizeCreateInput inp =
     (let requestType = orDefault ''issue'' (normToken (ri_RequestType inp));
          requestSource = orDefault ''manual'' (normToken (ri_RequestSource inp));
          certificateType = normToken (ri_CertificateType inp);
          challengeType = normToken (ri_ChallengeType inp);
          commonName = normToken (ri_CommonName inp);
          caAccountID = TrimSpace (ri_CAAccountID inp);
          idempotencyKey = TrimSpace (ri_IdempotencyKey inp) in
      if requestType \<noteq> ''issue'' \<and> requestType \<noteq> ''renew'' then Inl (invalid ''unsupported request_type'')
      else if requestSource \<noteq> ''manual'' \<and> requestSource \<noteq> ''scheduled'' then Inl (invalid ''unsupported request_source'')
      else if \<not> (certificateType = ''single'' \<or> certificateType = ''san'' \<or> certificateType = ''wildcard'')
      then Inl (invalid ''unsupported certificate_type'')
      else if \<not> (challengeType = ''http-01'' \<or> challengeType = ''dns-01'') then Inl (invalid ''unsupported challenge_type'')
      else if commonName = [] then Inl (invalid ''common_name required'')
      else if caAccountID = [] then Inl (invalid ''ca_account_id required'')
      else if idempotencyKey = [] then Inl (invalid ''idempotency_key required'')
      else if requestType = ''renew'' \<and> TrimSpace (ri_AssetID inp) = [] then Inl (invalid ''asset_id required for renew request'')
      else case normalize_refs (ri_Domains inp) 0 [] False [] of
        Inl e \<Rightarrow> Inl e
      | Inr (refs, hasWildcard) \<Rightarrow>
          if length refs = 0 then Inl (invalid ''at least one domain required'')
          else if certificateType = ''single'' \<and> length refs \<noteq> 1
          then Inl (invalid ''single certificate requires exactly one domain'')
          else if certificateType = ''wildcard'' \<and> \<not> hasWildcard
          then Inl (invalid ''wildcard certificate requires wildcard domain'')
          else if hasWildcard \<and> challengeType \<noteq> ''dns-01''
          then Inl (invalid ''wildcard request requires dns-01 challenge'')
          else Inr (\<lparr>ri_RequestType = requestType, ri_RequestSource = requestSource,
                     ri_AssetID = TrimSpace (ri_AssetID inp), ri_CAAccountID = caAccountID,
                     ri_CertificateType = certificateType, ri_ChallengeType = challengeType,
                     ri_CommonName = commonName, ri_RequestedBy = TrimSpace (ri_RequestedBy inp),
                     ri_IdempotencyKey = idempotencyKey, ri_Reason = TrimSpace (ri_Reason inp),
                     ri_Domains = []\<rparr>, refs, idempotencyKey))"

section \<open>Operations\<close>

definition request_Create ::
  "request_store \<Rightarrow> scope \<Rightarrow> request_input \<Rightarrow> gotime \<Rightarrow> string \<Rightarrow> (gerror + request) \<times> request_store" where
  "request_Create st sc inp now newID =
     (case scope_Validate sc of
        Some e \<Rightarrow> (Inl e, st)
      | None \<Rightarrow>
          (case normalizeCreateInput inp of
             Inl e \<Rightarrow> (Inl e, st)
           | Inr (n, refs, idemKey) \<Rightarrow>
               let rec = \<lparr>rq_ID = newID, rq_Scope = sc, rq_RequestType = ri_RequestType n,
                     rq_RequestSource = ri_RequestSource n, rq_AssetID = ri_AssetID n,
                     rq_CAAccountID = ri_CAAccountID n, rq_Algorithm = ''rsa'',
                     rq_CertificateType = ri_CertificateType n, rq_ChallengeType = ri_ChallengeType n,
                     rq_CommonName = ri_CommonName n, rq_Status = RqSubmitted,
                     rq_RequestedBy = ri_RequestedBy n, rq_IdempotencyKey = idemKey,
                     rq_Reason = ri_Reason n, rq_SubmittedAt = Some now, rq_CreatedAt = now,
                     rq_UpdatedAt = now\<rparr>;
                   key = EnvironmentKey sc @ ''/'' @ idemKey in
               if mget (rs_byIdempotency st) key \<noteq> None
               then (Inl (Err ErrConflict ''certificate request already exists''), st)
               else (Inr rec,
                     st\<lparr>rs_byID := mput newID rec (rs_byID st),
                        rs_byIdempotency := mput key newID (rs_byIdempotency st),
                        rs_domainsByReqID := mput newID refs (rs_domainsByReqID st)\<rparr>)))"

definition request_Get :: "request_store \<Rightarrow> scope \<Rightarrow> string \<Rightarrow> gerror + request" where
  "request_Get st sc i =
     (case scope_Validate sc of
        Some e \<Rightarrow> Inl e
      | None \<Rightarrow>
          if TrimSpace i = [] then Inl (invalid ''certificate request id required'')
          else scoped_get ''certificate request'' rq_Scope (rs_byID st) sc i)"

text \<open>\<^verbatim>\<open>s.byID[id]\<close> is read without a check: for a dangling index entry it is the zero request.\<close>

definition zeroRequest :: request where
  "zeroRequest = \<lparr>rq_ID = [], rq_Scope = \<lparr>TenantID = [], ProjectID = [], EnvironmentID = []\<rparr>,
     rq_RequestType = [], rq_RequestSource = [], rq_AssetID = [], rq_CAAccountID = [], rq_Algorithm = [],
     rq_CertificateType = [], rq_ChallengeType = [], rq_CommonName = [], rq_Status = RqOther [],
     rq_RequestedBy = [], rq_IdempotencyKey = [], rq_Reason = [], rq_SubmittedAt = None,
     rq_CreatedAt = zeroTime, rq_UpdatedAt = zeroTime\<rparr>"

definition requestAt :: "request_store \<Rightarrow> string \<Rightarrow> request" where
  "requestAt st i = (case mget (rs_byID st) i of None \<Rightarrow> zeroRequest | Some r \<Rightarrow> r)"

definition request_GetByIdempotency :: "request_store \<Rightarrow> scope \<Rightarrow> string \<Rightarrow> gerror + request" where
  "request_GetByIdempotency st sc idempotencyKey =
     (case scope_Validate sc of
        Some e \<Rightarrow> Inl e
      | None \<Rightarrow>
          if TrimSpace idempotencyKey = [] then Inl (invalid ''idempotency_key required'')
          else
            let key = EnvironmentKey sc @ ''/'' @ TrimSpace idempotencyKey in
            (case mget (rs_byIdempotency st) key of
               None \<Rightarrow> Inl (Err ErrNotFound ''certificate request by idempotency key'')
             | Some i \<Rightarrow> Inr (requestAt st i)))"

definition request_ListDomains :: "request_store \<Rightarrow> scope \<Rightarrow> string \<Rightarrow> gerror + domain_ref list" where
  "request_ListDomains st sc requestID =
     (case request_Get st sc requestID of
        Inl e \<Rightarrow> Inl e
      | Inr _ \<Rightarrow> Inr (sort_key (\<lambda>d. (dr_SortOrder d, dr_DomainID d)) (mslice (rs_domainsByReqID st) requestID)))"

fun request_canTransition :: "request_status \<Rightarrow> request_status \<Rightarrow> bool" where
  "request_canTransition RqSubmitted n = (n = RqAccepted \<or> n = RqCancelled \<or> n = RqFailed)"
| "request_canTransition RqAccepted n = (n = RqRunning \<or> n = RqCancelled \<or> n = RqFailed)"
| "request_canTransition RqRunning n = (n = RqCompleted \<or> n = RqFailed)"
| "request_canTransition _ n = False"

definition request_transition ::
  "request_store \<Rightarrow> scope \<Rightarrow> string \<Rightarrow> request_status \<Rightarrow> gotime \<Rightarrow> (gerror + request) \<times> request_store" where
  "request_transition st sc i nextStatus now =
     (case scope_Validate sc of
        Some e \<Rightarrow> (Inl e, st)
      | None \<Rightarrow>
          (case scoped_get ''certificate request'' rq_Scope (rs_byID st) sc i of
             Inl e \<Rightarrow> (Inl e, st)
           | Inr rec \<Rightarrow>
               if \<not> request_canTransition (rq_Status rec) nextStatus
               then (Inl (invalid ''request status''), st)
               else
                 let rec' = rec\<lparr>rq_Status := nextStatus, rq_UpdatedAt := now\<rparr>
                 in (Inr rec', st\<lparr>rs_byID := mput i rec' (rs_byID st)\<rparr>)))"

definition request_MarkAccepted where "request_MarkAccepted st sc i now = request_transition st sc i RqAccepted now"
definition request_MarkRunning where "request_MarkRunning st sc i now = request_transition st sc i RqRunning now"
definition request_MarkCompleted where "request_MarkCompleted st sc i now = request_transition st sc i RqCompleted now"
definition request_MarkFailed where "request_MarkFailed st sc i now = request_transition st sc i RqFailed now"
definition request_Cancel where "request_Cancel st sc i now = request_transition st sc i RqCancelled now"

section \<open>The contracts of the store\<close>

text \<open>Lookup under scope.\<close>

interpretation request_scoped: scoped_store "\<lambda>st i. mget (rs_byID st) i" rq_Scope request_Get "\<lambda>i. TrimSpace i = []"
proof (unfold_locales, goal_cases)
  case (2 sc st i)
  then show ?case using invalid_scope_Validate by (fastforce simp: request_Get_def)
next
  case (3 i st sc)
  then show ?case using invalid_scope_Validate [of sc] by (cases "valid_scope sc") (auto simp: request_Get_def)
qed (simp_all add: request_Get_def scoped_get_def)

text \<open>Status changes only move forward.\<close>

fun request_rank :: "request_status \<Rightarrow> nat" where
  "request_rank RqSubmitted = 0"
| "request_rank RqAccepted = 1"
| "request_rank RqRunning = 2"
| "request_rank _ = 3"

interpretation request_life: ranked_machine request_canTransition request_rank
proof (unfold_locales)
  fix x y assume "request_canTransition x y"
  then show "request_rank x < request_rank y" by (cases x) auto
qed

lemma request_transition_ok:
  "request_transition st sc i nxt now = (Inr r, st') \<longleftrightarrow>
   (\<exists>q. valid_scope sc \<and> mget (rs_byID st) i = Some q \<and> rq_Scope q = sc \<and> request_canTransition (rq_Status q) nxt \<and>
     r = q\<lparr>rq_Status := nxt, rq_UpdatedAt := now\<rparr> \<and> st' = st\<lparr>rs_byID := mput i r (rs_byID st)\<rparr>)"
proof (cases "valid_scope sc")
  case True
  then show ?thesis
  proof (cases "scoped_get ''certificate request'' rq_Scope (rs_byID st) sc i")
    case (Inl e)
    with True scoped_get_Inl [OF Inl] show ?thesis by (auto simp: request_transition_def)
  next
    case (Inr q)
    with True show ?thesis by (auto simp: request_transition_def Let_def split: if_splits)
  qed
next
  case False
  with invalid_scope_Validate show ?thesis by (fastforce simp: request_transition_def)
qed

lemma request_transition_err: "request_transition st sc i nxt now = (Inl e, st') \<Longrightarrow> st' = st"
  by (simp add: request_transition_def Let_def split: option.splits sum.splits if_splits)

end
