(* ===== verification/CertRequestProps.thy ===== *)
theory CertRequestProps
  imports CertRequest
begin

text \<open>
  What the certificate request service guarantees: the policy every stored request obeys, one request
  per scoped key, isolation between scopes, and statuses that only move forward.
\<close>

section \<open>What validation lets through\<close>

lemma normalize_refs_ok:
  "normalize_refs ds idx seen hw refs = Inr (out, w) \<Longrightarrow> 0 \<le> idx \<Longrightarrow>
   \<exists>new. out = refs @ new \<and> length new = length ds \<and> distinct (map dr_DomainID new) \<and>
     set (map dr_DomainID new) \<inter> set seen = {} \<and>
     (\<forall>d \<in> set new. dr_DomainID d \<noteq> [] \<and> TrimSpace (dr_DomainID d) = dr_DomainID d \<and> 0 < dr_SortOrder d \<and>
        dr_RelationType d \<in> {''primary'', ''san'', ''wildcard''}) \<and>
     (w \<longleftrightarrow> hw \<or> (\<exists>d \<in> set new. dr_RelationType d = ''wildcard''))"
proof (induction ds arbitrary: idx seen hw refs)
  case Nil
  then show ?case by simp
next
  case (Cons ref rest)
  define i where "i = TrimSpace (dr_DomainID ref)"
  define rel where "rel = (let r0 = normToken (dr_RelationType ref) in if r0 = [] then (if idx = 0 then ''primary'' else ''san'') else r0)"
  define d where "d = \<lparr>dr_DomainID = i, dr_RelationType = rel,
    dr_SortOrder = (if dr_SortOrder ref \<le> 0 then idx + 1 else dr_SortOrder ref),
    dr_DomainName = normToken (dr_DomainName ref), dr_AllowWildcard = dr_AllowWildcard ref\<rparr>"
  from Cons.prems(1) have c: "i \<noteq> []" "i \<notin> set seen" "rel \<in> {''primary'', ''san'', ''wildcard''}"
    and r: "normalize_refs rest (idx + 1) (i # seen) (if rel = ''wildcard'' then True else hw) (refs @ [d]) = Inr (out, w)"
    by (auto simp: i_def rel_def d_def Let_def split: if_splits)
  from Cons.IH [OF r] Cons.prems(2) obtain new where n: "out = (refs @ [d]) @ new" "length new = length rest"
    "distinct (map dr_DomainID new)" "set (map dr_DomainID new) \<inter> set (i # seen) = {}"
    "\<forall>d \<in> set new. dr_DomainID d \<noteq> [] \<and> TrimSpace (dr_DomainID d) = dr_DomainID d \<and> 0 < dr_SortOrder d \<and>
        dr_RelationType d \<in> {''primary'', ''san'', ''wildcard''}"
    "w \<longleftrightarrow> (if rel = ''wildcard'' then True else hw) \<or> (\<exists>d \<in> set new. dr_RelationType d = ''wildcard'')" by auto
  have dp: "dr_DomainID d = i" "dr_RelationType d = rel" "0 < dr_SortOrder d" "TrimSpace i = i"
    using Cons.prems(2) by (auto simp: d_def i_def TrimSpace_idem)
  show ?case
  proof (intro exI [of _ "d # new"] conjI)
    show "out = refs @ d # new" using n(1) by simp
    show "distinct (map dr_DomainID (d # new))" using n(3,4) dp(1) by auto
    show "set (map dr_DomainID (d # new)) \<inter> set seen = {}" using n(4) c(2) dp(1) by auto
    show "\<forall>d \<in> set (d # new). dr_DomainID d \<noteq> [] \<and> TrimSpace (dr_DomainID d) = dr_DomainID d \<and> 0 < dr_SortOrder d \<and>
        dr_RelationType d \<in> {''primary'', ''san'', ''wildcard''}" using n(5) c dp by simp
    show "w = (hw \<or> (\<exists>d \<in> set (d # new). dr_RelationType d = ''wildcard''))" using n(6) dp(2) by auto
  qed (use n(2) in simp)
qed

definition request_policy :: "request \<Rightarrow> domain_ref list \<Rightarrow> bool" where
  "request_policy r refs =
     (rq_RequestType r \<in> {''issue'', ''renew''} \<and> rq_ChallengeType r \<in> {''http-01'', ''dns-01''} \<and>
      rq_CommonName r \<noteq> [] \<and> rq_CAAccountID r \<noteq> [] \<and> rq_IdempotencyKey r \<noteq> [] \<and>
      (rq_RequestType r = ''renew'' \<longrightarrow> rq_AssetID r \<noteq> []) \<and>
      refs \<noteq> [] \<and> distinct (map dr_DomainID refs) \<and> (\<forall>d \<in> set refs. dr_DomainID d \<noteq> [] \<and> 0 < dr_SortOrder d) \<and>
      (rq_CertificateType r = ''single'' \<longrightarrow> length refs = 1) \<and>
      (rq_CertificateType r = ''wildcard'' \<longrightarrow> (\<exists>d \<in> set refs. dr_RelationType d = ''wildcard'')) \<and>
      ((\<exists>d \<in> set refs. dr_RelationType d = ''wildcard'') \<longrightarrow> rq_ChallengeType r = ''dns-01''))"

lemma normalizeCreateInput_ok:
  assumes "normalizeCreateInput inp = Inr (n, refs, k)"
  shows "ri_RequestType n \<in> {''issue'', ''renew''}" "ri_ChallengeType n \<in> {''http-01'', ''dns-01''}"
    "ri_CommonName n \<noteq> []" "ri_CAAccountID n \<noteq> []" "k = TrimSpace (ri_IdempotencyKey inp)" "k \<noteq> []"
    "ri_RequestType n = ''renew'' \<longrightarrow> ri_AssetID n \<noteq> []"
    "refs \<noteq> []" "distinct (map dr_DomainID refs)" "\<forall>d \<in> set refs. dr_DomainID d \<noteq> [] \<and> 0 < dr_SortOrder d"
    "ri_CertificateType n = ''single'' \<longrightarrow> length refs = 1"
    "ri_CertificateType n = ''wildcard'' \<longrightarrow> (\<exists>d \<in> set refs. dr_RelationType d = ''wildcard'')"
    "(\<exists>d \<in> set refs. dr_RelationType d = ''wildcard'') \<longrightarrow> ri_ChallengeType n = ''dns-01''"
proof -
  define ty where "ty = orDefault ''issue'' (normToken (ri_RequestType inp))"
  define ct where "ct = normToken (ri_CertificateType inp)"
  define ch where "ch = normToken (ri_ChallengeType inp)"
  note ok = assms [unfolded normalizeCreateInput_def Let_def, folded ty_def ct_def ch_def, simplified result_simps]
  note tail = ok [THEN conjunct2, THEN conjunct2, THEN conjunct2, THEN conjunct2, THEN conjunct2, THEN conjunct2,
    THEN conjunct2, THEN conjunct2]
  from tail obtain w where w: "normalize_refs (ri_Domains inp) 0 [] False [] = Inr (refs, w)"
    "length refs \<noteq> 0" "\<not> (ct = ''single'' \<and> length refs \<noteq> 1)" "\<not> (ct = ''wildcard'' \<and> \<not> w)"
    "\<not> (w \<and> ch \<noteq> ''dns-01'')"
    and n: "n = \<lparr>ri_RequestType = ty, ri_RequestSource = orDefault ''manual'' (normToken (ri_RequestSource inp)),
                 ri_AssetID = TrimSpace (ri_AssetID inp), ri_CAAccountID = TrimSpace (ri_CAAccountID inp),
                 ri_CertificateType = ct, ri_ChallengeType = ch, ri_CommonName = normToken (ri_CommonName inp),
                 ri_RequestedBy = TrimSpace (ri_RequestedBy inp), ri_IdempotencyKey = TrimSpace (ri_IdempotencyKey inp),
                 ri_Reason = TrimSpace (ri_Reason inp), ri_Domains = []\<rparr>" "k = TrimSpace (ri_IdempotencyKey inp)"
    by blast
  from normalize_refs_ok [OF w(1)] have r: "distinct (map dr_DomainID refs)"
    "\<forall>d \<in> set refs. dr_DomainID d \<noteq> [] \<and> 0 < dr_SortOrder d"
    "w \<longleftrightarrow> (\<exists>d \<in> set refs. dr_RelationType d = ''wildcard'')" by auto
  then show "distinct (map dr_DomainID refs)" "\<forall>d \<in> set refs. dr_DomainID d \<noteq> [] \<and> 0 < dr_SortOrder d" by auto
  show "ri_RequestType n \<in> {''issue'', ''renew''}" "ri_ChallengeType n \<in> {''http-01'', ''dns-01''}"
    "ri_CommonName n \<noteq> []" "ri_CAAccountID n \<noteq> []" "k \<noteq> []" "ri_RequestType n = ''renew'' \<longrightarrow> ri_AssetID n \<noteq> []"
    using ok n by simp_all
  show "refs \<noteq> []" "ri_CertificateType n = ''single'' \<longrightarrow> length refs = 1"
    "ri_CertificateType n = ''wildcard'' \<longrightarrow> (\<exists>d \<in> set refs. dr_RelationType d = ''wildcard'')"
    "(\<exists>d \<in> set refs. dr_RelationType d = ''wildcard'') \<longrightarrow> ri_ChallengeType n = ''dns-01''"
    using w(2-5) n(1) r(3) by auto
  show "k = TrimSpace (ri_IdempotencyKey inp)" by (rule n(2))
qed

section \<open>The store as a state machine\<close>

datatype request_op =
    RqCreate scope request_input gotime string
  | RqMove scope string request_status gotime

fun request_exec :: "request_store \<Rightarrow> request_op \<Rightarrow> (gerror + request) \<times> request_store" where
  "request_exec st (RqCreate sc inp now i) = request_Create st sc inp now i"
| "request_exec st (RqMove sc i nxt now) = request_transition st sc i nxt now"

text \<open>New identifiers are not in use.\<close>

fun request_op_ok :: "request_store \<Rightarrow> request_op \<Rightarrow> bool" where
  "request_op_ok st (RqCreate sc inp now i) = (mget (rs_byID st) i = None \<and> TrimSpace i \<noteq> [])"
| "request_op_ok st (RqMove sc i nxt now) = True"

inductive request_step :: "request_store \<Rightarrow> request_store \<Rightarrow> bool" where
  "request_op_ok st c \<Longrightarrow> request_step st (snd (request_exec st c))"

inductive_cases request_stepE: "request_step st st'"

definition request_reachable :: "request_store \<Rightarrow> bool" where
  "request_reachable st = request_step\<^sup>*\<^sup>* NewRequestService st"

definition requests_wf :: "request_store \<Rightarrow> bool" where
  "requests_wf st =
     ((\<forall>i r. mget (rs_byID st) i = Some r \<longrightarrow>
         rq_ID r = i \<and> TrimSpace i \<noteq> [] \<and> valid_scope (rq_Scope r) \<and> request_policy r (mslice (rs_domainsByReqID st) i) \<and>
         mget (rs_byIdempotency st) (envKey (rq_Scope r) (rq_IdempotencyKey r)) = Some i) \<and>
      (\<forall>k i. mget (rs_byIdempotency st) k = Some i \<longrightarrow>
         (\<exists>r. mget (rs_byID st) i = Some r \<and> k = envKey (rq_Scope r) (rq_IdempotencyKey r))))"

lemma envKey_eq: "EnvironmentKey sc @ CHR ''/'' # k = envKey sc k"
  by (simp add: envKey_def)

lemma request_Create_ok:
  assumes "request_Create st sc inp now i = (Inr r, st')"
  shows "\<exists>refs. valid_scope sc \<and> request_policy r refs \<and> rq_ID r = i \<and> rq_Scope r = sc \<and> rq_Status r = RqSubmitted \<and>
    rq_IdempotencyKey r = TrimSpace (ri_IdempotencyKey inp) \<and>
    mget (rs_byIdempotency st) (envKey sc (rq_IdempotencyKey r)) = None \<and>
    st' = st\<lparr>rs_byID := mput i r (rs_byID st),
             rs_byIdempotency := mput (envKey sc (rq_IdempotencyKey r)) i (rs_byIdempotency st),
             rs_domainsByReqID := mput i refs (rs_domainsByReqID st)\<rparr>"
proof -
  note ok = assms [unfolded request_Create_def Let_def append_Cons append_Nil, simplified result_simps scope_Validate_None]
  from ok obtain n refs k where v: "valid_scope sc" and n: "normalizeCreateInput inp = Inr (n, refs, k)"
    and e: "mget (rs_byIdempotency st) (envKey sc k) = None"
    and r: "r = \<lparr>rq_ID = i, rq_Scope = sc, rq_RequestType = ri_RequestType n,
                     rq_RequestSource = ri_RequestSource n, rq_AssetID = ri_AssetID n,
                     rq_CAAccountID = ri_CAAccountID n, rq_Algorithm = ''rsa'',
                     rq_CertificateType = ri_CertificateType n, rq_ChallengeType = ri_ChallengeType n,
                     rq_CommonName = ri_CommonName n, rq_Status = RqSubmitted,
                     rq_RequestedBy = ri_RequestedBy n, rq_IdempotencyKey = k,
                     rq_Reason = ri_Reason n, rq_SubmittedAt = Some now, rq_CreatedAt = now,
                     rq_UpdatedAt = now\<rparr>"
    and st: "st' = st\<lparr>rs_byID := mput i r (rs_byID st),
             rs_byIdempotency := mput (envKey sc k) i (rs_byIdempotency st),
             rs_domainsByReqID := mput i refs (rs_domainsByReqID st)\<rparr>"
    unfolding envKey_eq by blast
  note no = normalizeCreateInput_ok [OF n]
  have "request_policy r refs" unfolding request_policy_def using no r by simp
  with r st v e no(5) show ?thesis by (intro exI [of _ refs]) simp
qed

lemma request_Create_stored:
  assumes "request_Create st sc inp now i = (Inr r, st')"
  shows "mget (rs_byID st') k = (if k = i then Some r else mget (rs_byID st) k) \<and> rq_Scope r = sc \<and>
    rq_IdempotencyKey r = TrimSpace (ri_IdempotencyKey inp) \<and> rq_Status r = RqSubmitted"
  using request_Create_ok [OF assms] by auto

lemma request_Create_err: "request_Create st sc inp now i = (Inl e, st') \<Longrightarrow> st' = st"
  by (auto simp: request_Create_def Let_def split: option.splits sum.splits if_splits)

lemma request_policy_cong:
  "request_policy (r\<lparr>rq_Status := s, rq_UpdatedAt := t\<rparr>) refs = request_policy r refs"
  by (simp add: request_policy_def)

lemma request_step_wf:
  assumes "requests_wf st" "request_op_ok st c"
  shows "requests_wf (snd (request_exec st c))"
proof (cases c)
  case (RqCreate sc inp now i)
  obtain x st' where e: "request_Create st sc inp now i = (x, st')" by fastforce
  show ?thesis
  proof (cases x)
    case (Inl e')
    with e assms RqCreate show ?thesis by (auto dest: request_Create_err)
  next
    case (Inr r)
    with e obtain refs where r: "valid_scope sc" "request_policy r refs" "rq_ID r = i" "rq_Scope r = sc"
      "mget (rs_byIdempotency st) (envKey sc (rq_IdempotencyKey r)) = None"
      "st' = st\<lparr>rs_byID := mput i r (rs_byID st),
             rs_byIdempotency := mput (envKey sc (rq_IdempotencyKey r)) i (rs_byIdempotency st),
             rs_domainsByReqID := mput i refs (rs_domainsByReqID st)\<rparr>"
      using request_Create_ok by blast
    have f: "mget (rs_byID st) i = None" "TrimSpace i \<noteq> []" using assms(2) RqCreate by simp_all
    have "requests_wf st'"
      unfolding requests_wf_def
    proof (intro conjI allI impI)
      fix k l assume k: "mget (rs_byIdempotency st') k = Some l"
      show "\<exists>q. mget (rs_byID st') l = Some q \<and> k = envKey (rq_Scope q) (rq_IdempotencyKey q)"
      proof (cases "k = envKey sc (rq_IdempotencyKey r)")
        case True
        with k r show ?thesis by auto
      next
        case False
        with k r have "mget (rs_byIdempotency st) k = Some l" by simp
        with assms(1) obtain q where "mget (rs_byID st) l = Some q" "k = envKey (rq_Scope q) (rq_IdempotencyKey q)"
          unfolding requests_wf_def by blast
        with f r(6) show ?thesis by auto
      qed
    next
      fix k q assume k: "mget (rs_byID st') k = Some q"
      show "mget (rs_byIdempotency st') (envKey (rq_Scope q) (rq_IdempotencyKey q)) = Some k"
      proof (cases "k = i")
        case True
        with k r show ?thesis by auto
      next
        case False
        with k r(6) have "mget (rs_byID st) k = Some q" by simp
        with assms(1) have "mget (rs_byIdempotency st) (envKey (rq_Scope q) (rq_IdempotencyKey q)) = Some k"
          unfolding requests_wf_def by blast
        with r(5,6) show ?thesis by auto
      qed
    qed (use assms(1) f r in \<open>auto simp: requests_wf_def split: if_splits\<close>)
    with e RqCreate show ?thesis by simp
  qed
next
  case (RqMove sc i nxt now)
  obtain x st' where e: "request_transition st sc i nxt now = (x, st')" by fastforce
  show ?thesis
  proof (cases x)
    case (Inl e')
    with e assms RqMove show ?thesis by (auto dest: request_transition_err)
  next
    case (Inr r)
    with e obtain q where q: "mget (rs_byID st) i = Some q" "r = q\<lparr>rq_Status := nxt, rq_UpdatedAt := now\<rparr>"
      "st' = st\<lparr>rs_byID := mput i r (rs_byID st)\<rparr>" by (auto simp: request_transition_ok)
    have "requests_wf st'"
      unfolding requests_wf_def
    proof (intro conjI allI impI)
      fix k l assume "mget (rs_byIdempotency st') k = Some l"
      with q(3) have "mget (rs_byIdempotency st) k = Some l" by simp
      with assms(1) obtain p where "mget (rs_byID st) l = Some p" "k = envKey (rq_Scope p) (rq_IdempotencyKey p)"
        unfolding requests_wf_def by blast
      with q show "\<exists>q. mget (rs_byID st') l = Some q \<and> k = envKey (rq_Scope q) (rq_IdempotencyKey q)" by auto
    qed (use assms(1) q in \<open>auto simp: requests_wf_def request_policy_cong split: if_splits\<close>)
    with e RqMove show ?thesis by simp
  qed
qed

lemma request_reachable_wf: "request_reachable st \<Longrightarrow> requests_wf st"
  unfolding request_reachable_def
proof (induction rule: rtranclp_induct)
  case base
  show ?case by (simp add: requests_wf_def NewRequestService_def)
next
  case (step st st')
  then show ?case by (auto elim!: request_stepE intro: request_step_wf)
qed

section \<open>Properties\<close>

text \<open>A certificate request is visible exactly under the scope it was made in: looking one up
  returns a record if and only if the scope is complete, the identifier is not blank and a request is
  stored under it with that very scope; nothing leaks into another tenant, project or environment.\<close>

theorem request_visible_only_in_scope:
  "request_Get st sc i = Inr r \<longleftrightarrow>
   valid_scope sc \<and> TrimSpace i \<noteq> [] \<and> mget (rs_byID st) i = Some r \<and> rq_Scope r = sc"
  by (rule request_scoped.get_ok_iff)

definition demo_domain :: "string \<Rightarrow> string \<Rightarrow> domain_ref" where
  "demo_domain i rel = \<lparr>dr_DomainID = i, dr_RelationType = rel, dr_SortOrder = 0, dr_DomainName = ''x.y'', dr_AllowWildcard = False\<rparr>"

definition demo_request_input :: request_input where
  "demo_request_input = \<lparr>ri_RequestType = [], ri_RequestSource = [], ri_AssetID = [], ri_CAAccountID = ''ca'',
     ri_CertificateType = ''single'', ri_ChallengeType = ''dns-01'', ri_CommonName = ''x.y'', ri_RequestedBy = ''me'',
     ri_IdempotencyKey = ''k'', ri_Reason = [], ri_Domains = [demo_domain ''d1'' []]\<rparr>"

text \<open>C37: every request in the store obeys the issuance policy, and its domains with it: it issues or
  renews, a renewal names its asset, there is at least one domain and none twice, every domain has a
  positive position, a single certificate has exactly one, a wildcard certificate has a wildcard
  domain, and a wildcard domain is only ever validated by DNS.\<close>

theorem stored_requests_obey_policy:
  assumes "request_reachable st" "mget (rs_byID st) i = Some r"
  shows "request_policy r (mslice (rs_domainsByReqID st) i) \<and> rq_ID r = i \<and> valid_scope (rq_Scope r)"
  using request_reachable_wf [OF assms(1)] assms(2) by (simp add: requests_wf_def)

definition demo_requests :: request_store where
  "demo_requests = snd (request_exec NewRequestService (RqCreate demo_scope demo_request_input 7 ''r1''))"

lemma demo_requests_reachable: "request_reachable demo_requests"
  unfolding request_reachable_def demo_requests_def
  by (rule r_into_rtranclp, rule request_step.intros) (simp add: NewRequestService_def TrimSpace_solid solid_def)

lemma demo_request_made:
  "\<exists>r. request_Create NewRequestService demo_scope demo_request_input 7 ''r1'' = (Inr r, demo_requests) \<and>
     mget (rs_byID demo_requests) ''r1'' = Some r \<and> rq_Scope r = demo_scope \<and> rq_IdempotencyKey r = ''k'' \<and> rq_Status r = RqSubmitted"
proof -
  have "\<exists>r. request_Create NewRequestService demo_scope demo_request_input 7 ''r1'' = (Inr r, snd (request_Create NewRequestService demo_scope demo_request_input 7 ''r1''))"
    by (simp add: request_Create_def demo_valid_scope normalizeCreateInput_def demo_request_input_def demo_domain_def
        orDefault_def Let_def NewRequestService_def)
  then obtain r where r: "request_Create NewRequestService demo_scope demo_request_input 7 ''r1'' = (Inr r, demo_requests)"
    by (auto simp: demo_requests_def)
  from request_Create_stored [OF r, of "''r1''"] have "mget (rs_byID demo_requests) ''r1'' = Some r" "rq_Scope r = demo_scope"
    "rq_IdempotencyKey r = ''k''" "rq_Status r = RqSubmitted"
    by (auto simp: demo_request_input_def)
  with r show ?thesis by blast
qed

theorem stored_requests_obey_policy_witness:
  "\<exists>r. mget (rs_byID demo_requests) ''r1'' = Some r \<and> request_policy r (mslice (rs_domainsByReqID demo_requests) ''r1'')"
proof -
  obtain r where r: "mget (rs_byID demo_requests) ''r1'' = Some r" using demo_request_made by blast
  from stored_requests_obey_policy [OF demo_requests_reachable r] r show ?thesis by blast
qed

text \<open>Within one scope an idempotency key names one request for ever: the lookup by key returns
  exactly the stored request of that scope with that key, and asking again with the same key is
  refused as a conflict and changes nothing. Scopes are told apart as long as their identifiers hold
  no slash.\<close>

theorem request_key_names_one_request:
  assumes "request_reachable st" "\<And>i r. mget (rs_byID st) i = Some r \<Longrightarrow> slash_free (rq_Scope r)" "slash_free sc"
  shows "(request_GetByIdempotency st sc k = Inr r \<longleftrightarrow>
      valid_scope sc \<and> TrimSpace k \<noteq> [] \<and> mget (rs_byID st) (rq_ID r) = Some r \<and> rq_Scope r = sc \<and>
      rq_IdempotencyKey r = TrimSpace k) \<and>
    (request_GetByIdempotency st sc (ri_IdempotencyKey inp) = Inr r \<longrightarrow>
      (\<exists>e. request_Create st sc inp now i = (Inl e, st)))"
proof -
  note wf = request_reachable_wf [OF assms(1)]
  have get: "request_GetByIdempotency st sc k = Inr r \<longleftrightarrow>
      valid_scope sc \<and> TrimSpace k \<noteq> [] \<and> mget (rs_byID st) (rq_ID r) = Some r \<and> rq_Scope r = sc \<and>
      rq_IdempotencyKey r = TrimSpace k" for k r
  proof
    assume "request_GetByIdempotency st sc k = Inr r"
    then obtain l where v: "valid_scope sc" "TrimSpace k \<noteq> []" and l: "mget (rs_byIdempotency st) (envKey sc (TrimSpace k)) = Some l"
      and r: "r = requestAt st l"
      using invalid_scope_Validate [of sc]
      by (cases "valid_scope sc") (auto simp: request_GetByIdempotency_def envKey_eq split: if_splits option.splits)
    from wf l obtain q where q: "mget (rs_byID st) l = Some q" "envKey sc (TrimSpace k) = envKey (rq_Scope q) (rq_IdempotencyKey q)"
      unfolding requests_wf_def by blast
    from envKey_inj_raw [OF assms(3) assms(2) [OF q(1)] q(2)] have "rq_Scope q = sc" "rq_IdempotencyKey q = TrimSpace k" by simp_all
    moreover have "rq_ID q = l" using wf q(1) unfolding requests_wf_def by blast
    ultimately show "valid_scope sc \<and> TrimSpace k \<noteq> [] \<and> mget (rs_byID st) (rq_ID r) = Some r \<and> rq_Scope r = sc \<and>
      rq_IdempotencyKey r = TrimSpace k" using v q(1) r by (simp add: requestAt_def)
  next
    assume a: "valid_scope sc \<and> TrimSpace k \<noteq> [] \<and> mget (rs_byID st) (rq_ID r) = Some r \<and> rq_Scope r = sc \<and>
      rq_IdempotencyKey r = TrimSpace k"
    then have "mget (rs_byIdempotency st) (envKey sc (TrimSpace k)) = Some (rq_ID r)"
      using wf unfolding requests_wf_def by metis
    with a show "request_GetByIdempotency st sc k = Inr r"
      by (simp add: request_GetByIdempotency_def envKey_eq requestAt_def)
  qed
  moreover have "\<exists>e. request_Create st sc inp now i = (Inl e, st)" if g: "request_GetByIdempotency st sc (ri_IdempotencyKey inp) = Inr r"
  proof (cases "request_Create st sc inp now i")
    case (Pair x st')
    show ?thesis
    proof (cases x)
      case (Inl e)
      with Pair request_Create_err show ?thesis by auto
    next
      case (Inr q)
      with Pair request_Create_ok [of st sc inp now i q st'] have
        "mget (rs_byIdempotency st) (envKey sc (TrimSpace (ri_IdempotencyKey inp))) = None" by auto
      moreover from g [unfolded get] have
        "mget (rs_byIdempotency st) (envKey sc (TrimSpace (ri_IdempotencyKey inp))) = Some (rq_ID r)"
        using wf unfolding requests_wf_def by metis
      ultimately show ?thesis by simp
    qed
  qed
  ultimately show ?thesis by blast
qed

lemma demo_requests_only: "mget (rs_byID demo_requests) i = Some r \<Longrightarrow> rq_Scope r = demo_scope"
proof -
  obtain q where q: "request_Create NewRequestService demo_scope demo_request_input 7 ''r1'' = (Inr q, demo_requests)"
    "rq_Scope q = demo_scope" using demo_request_made by blast
  assume "mget (rs_byID demo_requests) i = Some r"
  with request_Create_stored [OF q(1), of i] q(2) show ?thesis by (auto simp: NewRequestService_def split: if_splits)
qed

theorem request_key_names_one_request_witness:
  "\<exists>r e. request_GetByIdempotency demo_requests demo_scope ''k'' = Inr r \<and>
     request_Create demo_requests demo_scope demo_request_input 9 ''r2'' = (Inl e, demo_requests)"
proof -
  obtain r where r: "mget (rs_byID demo_requests) ''r1'' = Some r" "rq_Scope r = demo_scope" "rq_IdempotencyKey r = ''k''"
    using demo_request_made by blast
  have id: "rq_ID r = ''r1''" using request_reachable_wf [OF demo_requests_reachable] r(1) unfolding requests_wf_def by blast
  have k: "ri_IdempotencyKey demo_request_input = ''k''" by (simp add: demo_request_input_def)
  from request_key_names_one_request [OF demo_requests_reachable _ demo_valid_scope(2), of "''k''" r demo_request_input 9 "''r2''"]
    demo_requests_only demo_valid_scope r id k show ?thesis by auto
qed

text \<open>The status of a request only moves forward: whatever sequence of status changes a request
  goes through, each allowed by the transition table, it has at most three of them, never returns to
  a status it left, and once completed, failed or cancelled it takes no further change.\<close>

theorem request_status_moves_forward:
  assumes "is_run request_canTransition (s # ss)"
  shows "length ss \<le> 3 \<and> distinct (s # ss) \<and>
    (last (s # ss) \<in> {RqCompleted, RqFailed, RqCancelled} \<longrightarrow>
       (\<forall>st sc i now. \<exists>e. (\<exists>r. mget (rs_byID st) i = Some r \<and> rq_Status r = last (s # ss)) \<longrightarrow>
          request_transition st sc i n now = (Inl e, st)))"
proof (intro conjI impI allI)
  show "length ss \<le> 3"
    using assms by (rule request_life.run_bound) (cases "last (s # ss)", simp_all)
  show "distinct (s # ss)"
    using assms by (rule request_life.run_distinct)
  fix st sc i now
  assume f: "last (s # ss) \<in> {RqCompleted, RqFailed, RqCancelled}"
  show "\<exists>e. (\<exists>r. mget (rs_byID st) i = Some r \<and> rq_Status r = last (s # ss)) \<longrightarrow>
          request_transition st sc i n now = (Inl e, st)"
  proof (cases "request_transition st sc i n now")
    case (Pair x st')
    show ?thesis
    proof (cases x)
      case (Inl e)
      with Pair request_transition_err show ?thesis by auto
    next
      case (Inr r)
      with Pair obtain q where "mget (rs_byID st) i = Some q" "request_canTransition (rq_Status q) n"
        by (auto simp: request_transition_ok)
      with f show ?thesis by auto
    qed
  qed
qed

theorem request_status_moves_forward_witness:
  "length [RqAccepted, RqRunning, RqCompleted] \<le> 3 \<and> distinct [RqSubmitted, RqAccepted, RqRunning, RqCompleted]"
  using request_status_moves_forward [of RqSubmitted "[RqAccepted, RqRunning, RqCompleted]" RqFailed] by simp

end
