(* ===== verification/IssueWorkflow.thy ===== *)
theory IssueWorkflow
  imports Resource Lifecycle
begin

text \<open>
  Issue workflows and their challenges (\<^verbatim>\<open>internal/domain/issueworkflow/service.go\<close>): the durable
  execution state of an issuance. The service keeps the workflows by identifier, an index by
  scoped request, and the challenges of every workflow. Instants and new identifiers are arguments.
\<close>

section \<open>Data\<close>

text \<open>The constants of the code; the last constructor is any other string a caller may pass.\<close>

datatype workflow_status =
    WfCreated | WfOrderPending | WfChallengePending | WfChallengeProcessing | WfChallengeValid
  | WfFinalizing | WfIssued | WfDeployPending | WfDeploying | WfDeployed | WfPartiallyFailed
  | WfFailed | WfCancelled | WfOther string

fun workflow_status_str :: "workflow_status \<Rightarrow> string" where
  "workflow_status_str WfCreated = ''created''"
| "workflow_status_str WfOrderPending = ''order_pending''"
| "workflow_status_str WfChallengePending = ''challenge_pending''"
| "workflow_status_str WfChallengeProcessing = ''challenge_processing''"
| "workflow_status_str WfChallengeValid = ''challenge_valid''"
| "workflow_status_str WfFinalizing = ''finalizing''"
| "workflow_status_str WfIssued = ''issued''"
| "workflow_status_str WfDeployPending = ''deploy_pending''"
| "workflow_status_str WfDeploying = ''deploying''"
| "workflow_status_str WfDeployed = ''deployed''"
| "workflow_status_str WfPartiallyFailed = ''partially_failed''"
| "workflow_status_str WfFailed = ''failed''"
| "workflow_status_str WfCancelled = ''cancelled''"
| "workflow_status_str (WfOther s) = s"

datatype challenge_status =
    ChPending | ChPresenting | ChPresented | ChPropagating | ChReady | ChVerifying | ChValid
  | ChInvalid | ChCleanupPending | ChCleaned | ChCleanupFailed | ChOther string

record workflow =
  wf_ID :: string
  wf_Scope :: scope
  wf_CertificateRequestID :: string
  wf_CAAccountID :: string
  wf_WorkflowType :: string
  wf_Status :: workflow_status
  wf_OrderURL :: string
  wf_FinalizeURL :: string
  wf_CSRRef :: string
  wf_CertificateRef :: string
  wf_LastErrorCode :: string
  wf_LastErrorMessage :: string
  wf_StartedAt :: "gotime option"
  wf_FinishedAt :: "gotime option"
  wf_CreatedAt :: gotime
  wf_UpdatedAt :: gotime

record challenge =
  ch_ID :: string
  ch_Scope :: scope
  ch_IssueWorkflowID :: string
  ch_DomainAssetID :: string
  ch_ChallengeType :: string
  ch_Identifier :: string
  ch_Token :: string
  ch_KeyAuthorization :: string
  ch_HTTPPath :: string
  ch_DNSRecordName :: string
  ch_DNSRecordValue :: string
  ch_Status :: challenge_status
  ch_PresentedAt :: "gotime option"
  ch_ValidatedAt :: "gotime option"
  ch_CleanedAt :: "gotime option"
  ch_CreatedAt :: gotime
  ch_UpdatedAt :: gotime

record workflow_input =
  wi_CertificateRequestID :: string
  wi_CAAccountID :: string
  wi_WorkflowType :: string

record challenge_input =
  ci_DomainAssetID :: string
  ci_ChallengeType :: string
  ci_Identifier :: string
  ci_Token :: string
  ci_KeyAuthorization :: string
  ci_HTTPPath :: string
  ci_DNSRecordName :: string
  ci_DNSRecordValue :: string

record workflow_store =
  ws_byID :: "(string, workflow) gomap"
  ws_byRequest :: "(string, string) gomap"
  ws_challenges :: "(string, challenge list) gomap"

definition NewWorkflowService :: workflow_store where
  "NewWorkflowService = \<lparr>ws_byID = [], ws_byRequest = [], ws_challenges = []\<rparr>"

section \<open>The transition tables\<close>

fun canWorkflowTransition :: "workflow_status \<Rightarrow> workflow_status \<Rightarrow> bool" where
  "canWorkflowTransition WfCreated n = (n = WfOrderPending \<or> n = WfCancelled \<or> n = WfFailed)"
| "canWorkflowTransition WfOrderPending n = (n = WfChallengePending \<or> n = WfFailed)"
| "canWorkflowTransition WfChallengePending n = (n = WfChallengeProcessing \<or> n = WfCancelled \<or> n = WfFailed)"
| "canWorkflowTransition WfChallengeProcessing n = (n = WfChallengeValid \<or> n = WfFailed)"
| "canWorkflowTransition WfChallengeValid n = (n = WfFinalizing)"
| "canWorkflowTransition WfFinalizing n = (n = WfIssued \<or> n = WfFailed)"
| "canWorkflowTransition _ n = False"

fun canChallengeTransition :: "challenge_status \<Rightarrow> challenge_status \<Rightarrow> bool" where
  "canChallengeTransition ChPending n = (n = ChPresenting)"
| "canChallengeTransition ChPresenting n = (n = ChPresented)"
| "canChallengeTransition ChPresented n = (n = ChPropagating \<or> n = ChReady)"
| "canChallengeTransition ChPropagating n = (n = ChReady)"
| "canChallengeTransition ChReady n = (n = ChVerifying)"
| "canChallengeTransition ChVerifying n = (n = ChValid \<or> n = ChInvalid)"
| "canChallengeTransition ChInvalid n = (n = ChCleanupPending)"
| "canChallengeTransition ChCleanupPending n = (n = ChCleaned \<or> n = ChCleanupFailed)"
| "canChallengeTransition _ n = False"

section \<open>Workflows\<close>

definition workflow_Create ::
  "workflow_store \<Rightarrow> scope \<Rightarrow> workflow_input \<Rightarrow> gotime \<Rightarrow> string \<Rightarrow> (gerror + workflow) \<times> workflow_store" where
  "workflow_Create st sc inp now newID =
     (case scope_Validate sc of
        Some e \<Rightarrow> (Inl e, st)
      | None \<Rightarrow>
          let requestID = TrimSpace (wi_CertificateRequestID inp);
              caAccountID = TrimSpace (wi_CAAccountID inp);
              workflowType = normToken (wi_WorkflowType inp) in
          if requestID = [] then (Inl (Err ErrValidation ''certificate_request_id required''), st)
          else if caAccountID = [] then (Inl (Err ErrValidation ''ca_account_id required''), st)
          else if workflowType \<noteq> ''issue'' \<and> workflowType \<noteq> ''renew''
          then (Inl (Err ErrValidation ''unsupported workflow_type''), st)
          else
            let rec = \<lparr>wf_ID = newID, wf_Scope = sc, wf_CertificateRequestID = requestID,
                  wf_CAAccountID = caAccountID, wf_WorkflowType = workflowType, wf_Status = WfCreated,
                  wf_OrderURL = [], wf_FinalizeURL = [], wf_CSRRef = [], wf_CertificateRef = [],
                  wf_LastErrorCode = [], wf_LastErrorMessage = [], wf_StartedAt = None, wf_FinishedAt = None,
                  wf_CreatedAt = now, wf_UpdatedAt = now\<rparr>;
                key = EnvironmentKey sc @ ''/'' @ requestID in
            if mget (ws_byRequest st) key \<noteq> None
            then (Inl (Err ErrConflict ''workflow for request already exists''), st)
            else (Inr rec, st\<lparr>ws_byID := mput newID rec (ws_byID st),
                               ws_byRequest := mput key newID (ws_byRequest st)\<rparr>))"

definition workflow_Get :: "workflow_store \<Rightarrow> scope \<Rightarrow> string \<Rightarrow> gerror + workflow" where
  "workflow_Get st sc i =
     (case scope_Validate sc of
        Some e \<Rightarrow> Inl e
      | None \<Rightarrow>
          if TrimSpace i = [] then Inl (Err ErrValidation ''workflow id required'')
          else scoped_get ''workflow'' wf_Scope (ws_byID st) sc i)"

definition zeroWorkflow :: workflow where
  "zeroWorkflow = \<lparr>wf_ID = [], wf_Scope = \<lparr>TenantID = [], ProjectID = [], EnvironmentID = []\<rparr>,
     wf_CertificateRequestID = [], wf_CAAccountID = [], wf_WorkflowType = [], wf_Status = WfOther [],
     wf_OrderURL = [], wf_FinalizeURL = [], wf_CSRRef = [], wf_CertificateRef = [], wf_LastErrorCode = [],
     wf_LastErrorMessage = [], wf_StartedAt = None, wf_FinishedAt = None, wf_CreatedAt = zeroTime,
     wf_UpdatedAt = zeroTime\<rparr>"

definition workflowAt :: "workflow_store \<Rightarrow> string \<Rightarrow> workflow" where
  "workflowAt st i = (case mget (ws_byID st) i of None \<Rightarrow> zeroWorkflow | Some w \<Rightarrow> w)"

definition workflow_GetByRequest :: "workflow_store \<Rightarrow> scope \<Rightarrow> string \<Rightarrow> gerror + workflow" where
  "workflow_GetByRequest st sc requestID =
     (case scope_Validate sc of
        Some e \<Rightarrow> Inl e
      | None \<Rightarrow>
          (case mget (ws_byRequest st) (EnvironmentKey sc @ ''/'' @ TrimSpace requestID) of
             None \<Rightarrow> Inl (Err ErrNotFound ''workflow for request'')
           | Some i \<Rightarrow> Inr (workflowAt st i)))"

definition workflow_ListChallenges :: "workflow_store \<Rightarrow> scope \<Rightarrow> string \<Rightarrow> gerror + challenge list" where
  "workflow_ListChallenges st sc workflowID =
     (case workflow_Get st sc workflowID of
        Inl e \<Rightarrow> Inl e
      | Inr _ \<Rightarrow> Inr (sort_key (\<lambda>c. (ch_CreatedAt c, ch_ID c)) (mslice (ws_challenges st) workflowID)))"

definition updateWorkflow ::
  "workflow_store \<Rightarrow> scope \<Rightarrow> string \<Rightarrow> gotime \<Rightarrow> (workflow \<Rightarrow> gerror + workflow)
   \<Rightarrow> (gerror + workflow) \<times> workflow_store" where
  "updateWorkflow st sc workflowID now upd =
     (case scope_Validate sc of
        Some e \<Rightarrow> (Inl e, st)
      | None \<Rightarrow>
          (case scoped_get ''workflow'' wf_Scope (ws_byID st) sc workflowID of
             Inl e \<Rightarrow> (Inl e, st)
           | Inr rec \<Rightarrow>
               (case upd rec of
                  Inl e \<Rightarrow> (Inl e, st)
                | Inr rec' \<Rightarrow>
                    let rec'' = rec'\<lparr>wf_UpdatedAt := now\<rparr>
                    in (Inr rec'', st\<lparr>ws_byID := mput workflowID rec'' (ws_byID st)\<rparr>))))"

definition guarded :: "workflow \<Rightarrow> workflow_status \<Rightarrow> (workflow \<Rightarrow> workflow) \<Rightarrow> gerror + workflow" where
  "guarded rec nxt f =
     (if \<not> canWorkflowTransition (wf_Status rec) nxt
      then Inl (Err ErrValidation (''workflow status '' @ workflow_status_str (wf_Status rec) @ '' -> '' @
                                   workflow_status_str nxt))
      else Inr (f (rec\<lparr>wf_Status := nxt\<rparr>)))"

definition workflow_RecordOrder where
  "workflow_RecordOrder st sc workflowID orderURL finalizeURL now =
     updateWorkflow st sc workflowID now (\<lambda>rec. guarded rec WfOrderPending
       (\<lambda>r. r\<lparr>wf_OrderURL := TrimSpace orderURL, wf_FinalizeURL := TrimSpace finalizeURL,
              wf_StartedAt := Some now, wf_LastErrorCode := [], wf_LastErrorMessage := []\<rparr>))"

definition workflow_Transition where
  "workflow_Transition st sc workflowID nextStatus now =
     updateWorkflow st sc workflowID now (\<lambda>rec. guarded rec nextStatus
       (\<lambda>r. r\<lparr>wf_UpdatedAt := now, wf_LastErrorCode := [], wf_LastErrorMessage := []\<rparr>))"

definition workflow_RecordError where
  "workflow_RecordError st sc workflowID code message now =
     updateWorkflow st sc workflowID now (\<lambda>rec. Inr (rec\<lparr>wf_LastErrorCode := TrimSpace code,
       wf_LastErrorMessage := TrimSpace message, wf_UpdatedAt := now\<rparr>))"

definition workflow_MarkFailed where
  "workflow_MarkFailed st sc workflowID code message now =
     updateWorkflow st sc workflowID now (\<lambda>rec. guarded rec WfFailed
       (\<lambda>r. r\<lparr>wf_LastErrorCode := TrimSpace code, wf_LastErrorMessage := TrimSpace message,
              wf_FinishedAt := Some now\<rparr>))"

definition workflow_MarkIssued where
  "workflow_MarkIssued st sc workflowID certificateRef now =
     updateWorkflow st sc workflowID now (\<lambda>rec. guarded rec WfIssued
       (\<lambda>r. r\<lparr>wf_CertificateRef := TrimSpace certificateRef, wf_FinishedAt := Some now,
              wf_LastErrorCode := [], wf_LastErrorMessage := []\<rparr>))"

section \<open>Challenges\<close>

text \<open>The loop that makes the challenges; \<open>ids k\<close> is the \<open>k\<close>th new identifier.\<close>

fun make_challenges ::
  "scope \<Rightarrow> string \<Rightarrow> gotime \<Rightarrow> (nat \<Rightarrow> string) \<Rightarrow> challenge_input list \<Rightarrow> nat \<Rightarrow> challenge list \<Rightarrow> gerror + challenge list" where
  "make_challenges sc workflowID now ids [] k items = Inr items"
| "make_challenges sc workflowID now ids (inp # inputs) k items =
     (let challengeType = normToken (ci_ChallengeType inp);
          identifier = normToken (ci_Identifier inp) in
      if \<not> (challengeType = ''http-01'' \<or> challengeType = ''dns-01'')
      then Inl (Err ErrValidation ''unsupported challenge_type'')
      else if identifier = [] then Inl (Err ErrValidation ''identifier required'')
      else make_challenges sc workflowID now ids inputs (Suc k)
        (items @ [\<lparr>ch_ID = ids k, ch_Scope = sc, ch_IssueWorkflowID = workflowID,
           ch_DomainAssetID = TrimSpace (ci_DomainAssetID inp), ch_ChallengeType = challengeType,
           ch_Identifier = identifier, ch_Token = TrimSpace (ci_Token inp),
           ch_KeyAuthorization = TrimSpace (ci_KeyAuthorization inp), ch_HTTPPath = TrimSpace (ci_HTTPPath inp),
           ch_DNSRecordName = TrimSpace (ci_DNSRecordName inp), ch_DNSRecordValue = TrimSpace (ci_DNSRecordValue inp),
           ch_Status = ChPending, ch_PresentedAt = None, ch_ValidatedAt = None, ch_CleanedAt = None,
           ch_CreatedAt = now, ch_UpdatedAt = now\<rparr>]))"

definition workflow_EnsureChallenges ::
  "workflow_store \<Rightarrow> scope \<Rightarrow> string \<Rightarrow> challenge_input list \<Rightarrow> gotime \<Rightarrow> (nat \<Rightarrow> string)
   \<Rightarrow> (gerror + challenge list \<times> workflow) \<times> workflow_store" where
  "workflow_EnsureChallenges st sc workflowID inputs now ids =
     (if length inputs = 0 then (Inl (Err ErrValidation ''at least one challenge required''), st)
      else case scoped_get ''workflow'' wf_Scope (ws_byID st) sc workflowID of
        Inl e \<Rightarrow> (Inl e, st)
      | Inr rec \<Rightarrow>
          let existing = mslice (ws_challenges st) workflowID in
          if length existing > 0 then (Inr (existing, rec), st)
          else if \<not> canWorkflowTransition (wf_Status rec) WfChallengePending
          then (Inl (Err ErrValidation (''workflow status '' @ workflow_status_str (wf_Status rec) @ '' -> challenge_pending'')), st)
          else
            (case make_challenges sc workflowID now ids inputs 0 [] of
               Inl e \<Rightarrow> (Inl e, st)
             | Inr items \<Rightarrow>
                 let rec' = rec\<lparr>wf_Status := WfChallengePending, wf_UpdatedAt := now, wf_LastErrorCode := [],
                                wf_LastErrorMessage := []\<rparr>
                 in (Inr (items, rec'),
                     st\<lparr>ws_byID := mput workflowID rec' (ws_byID st),
                        ws_challenges := mput workflowID items (ws_challenges st)\<rparr>)))"

definition stamp_challenge :: "challenge \<Rightarrow> challenge_status \<Rightarrow> gotime \<Rightarrow> challenge" where
  "stamp_challenge c nextStatus now =
     (let c' = c\<lparr>ch_Status := nextStatus, ch_UpdatedAt := now\<rparr> in
      case nextStatus of
        ChPresented \<Rightarrow> c'\<lparr>ch_PresentedAt := Some now\<rparr>
      | ChValid \<Rightarrow> c'\<lparr>ch_ValidatedAt := Some now\<rparr>
      | ChCleaned \<Rightarrow> c'\<lparr>ch_CleanedAt := Some now\<rparr>
      | ChCleanupFailed \<Rightarrow> c'\<lparr>ch_CleanedAt := Some now\<rparr>
      | _ \<Rightarrow> c')"

text \<open>The search for the challenge and its update in place.\<close>

fun update_challenge ::
  "challenge list \<Rightarrow> string \<Rightarrow> challenge_status \<Rightarrow> gotime \<Rightarrow> gerror + challenge \<times> challenge list" where
  "update_challenge [] challengeID nextStatus now = Inl (Err ErrNotFound (''challenge '' @ challengeID))"
| "update_challenge (c # cs) challengeID nextStatus now =
     (if ch_ID c \<noteq> challengeID
      then (case update_challenge cs challengeID nextStatus now of
              Inl e \<Rightarrow> Inl e | Inr (d, ds) \<Rightarrow> Inr (d, c # ds))
      else if \<not> canChallengeTransition (ch_Status c) nextStatus then Inl (Err ErrValidation ''challenge status'')
      else Inr (stamp_challenge c nextStatus now, stamp_challenge c nextStatus now # cs))"

definition workflow_UpdateChallengeStatus ::
  "workflow_store \<Rightarrow> scope \<Rightarrow> string \<Rightarrow> string \<Rightarrow> challenge_status \<Rightarrow> gotime
   \<Rightarrow> (gerror + challenge) \<times> workflow_store" where
  "workflow_UpdateChallengeStatus st sc workflowID challengeID nextStatus now =
     (case scoped_get ''workflow'' wf_Scope (ws_byID st) sc workflowID of
        Inl e \<Rightarrow> (Inl e, st)
      | Inr _ \<Rightarrow>
          (case update_challenge (mslice (ws_challenges st) workflowID) challengeID nextStatus now of
             Inl e \<Rightarrow> (Inl e, st)
           | Inr (c, items) \<Rightarrow> (Inr c, st\<lparr>ws_challenges := mput workflowID items (ws_challenges st)\<rparr>)))"

section \<open>The contracts of the store\<close>

interpretation workflow_scoped: scoped_store "\<lambda>st i. mget (ws_byID st) i" wf_Scope workflow_Get "\<lambda>i. TrimSpace i = []"
proof (unfold_locales, goal_cases)
  case (2 sc st i)
  then show ?case using invalid_scope_Validate by (fastforce simp: workflow_Get_def)
next
  case (3 i st sc)
  then show ?case using invalid_scope_Validate [of sc] by (cases "valid_scope sc") (auto simp: workflow_Get_def)
qed (simp_all add: workflow_Get_def scoped_get_def)

fun workflow_rank :: "workflow_status \<Rightarrow> nat" where
  "workflow_rank WfCreated = 0"
| "workflow_rank WfOrderPending = 1"
| "workflow_rank WfChallengePending = 2"
| "workflow_rank WfChallengeProcessing = 3"
| "workflow_rank WfChallengeValid = 4"
| "workflow_rank WfFinalizing = 5"
| "workflow_rank _ = 6"

interpretation workflow_life: ranked_machine canWorkflowTransition workflow_rank
proof (unfold_locales)
  fix x y assume "canWorkflowTransition x y"
  then show "workflow_rank x < workflow_rank y" by (cases x) auto
qed

fun challenge_rank :: "challenge_status \<Rightarrow> nat" where
  "challenge_rank ChPending = 0"
| "challenge_rank ChPresenting = 1"
| "challenge_rank ChPresented = 2"
| "challenge_rank ChPropagating = 3"
| "challenge_rank ChReady = 4"
| "challenge_rank ChVerifying = 5"
| "challenge_rank ChInvalid = 6"
| "challenge_rank ChCleanupPending = 7"
| "challenge_rank _ = 8"

interpretation challenge_life: ranked_machine canChallengeTransition challenge_rank
proof (unfold_locales)
  fix x y assume "canChallengeTransition x y"
  then show "challenge_rank x < challenge_rank y" by (cases x) auto
qed

end
