(* ===== verification/IssueWorkflowInv.thy ===== *)
theory IssueWorkflowInv
  imports IssueWorkflow
begin

text \<open>
  The workflow store as a state machine: every operation is one of a few changes, an invariant ties
  the status of a workflow to its challenges, and the properties of workflows and challenges follow
  from both.
\<close>

section \<open>The operations that succeed\<close>

lemma updateWorkflow_cases:
  "(\<exists>e. updateWorkflow st sc i now upd = (Inl e, st)) \<or>
   (\<exists>w w'. valid_scope sc \<and> mget (ws_byID st) i = Some w \<and> wf_Scope w = sc \<and> upd w = Inr w' \<and>
      updateWorkflow st sc i now upd =
        (Inr (w'\<lparr>wf_UpdatedAt := now\<rparr>), st\<lparr>ws_byID := mput i (w'\<lparr>wf_UpdatedAt := now\<rparr>) (ws_byID st)\<rparr>))"
proof (cases "valid_scope sc")
  case True
  show ?thesis
  proof (cases "scoped_get ''workflow'' wf_Scope (ws_byID st) sc i")
    case (Inl e)
    with True show ?thesis by (simp add: updateWorkflow_def)
  next
    case (Inr w)
    then have m: "mget (ws_byID st) i = Some w" and sc: "sc = wf_Scope w" by auto
    show ?thesis unfolding sc using m True [unfolded sc] by (cases "upd w") (simp_all add: updateWorkflow_def Let_def)
  qed
next
  case False
  with invalid_scope_Validate show ?thesis by (fastforce simp: updateWorkflow_def)
qed

lemma guarded_Inr [simp]:
  "guarded w nxt f = Inr w' \<longleftrightarrow> canWorkflowTransition (wf_Status w) nxt \<and> w' = f (w\<lparr>wf_Status := nxt\<rparr>)"
  by (auto simp: guarded_def)

datatype workflow_op =
    WoCreate scope workflow_input gotime string
  | WoRecordOrder scope string string string gotime
  | WoEnsureChallenges scope string "challenge_input list" gotime "nat \<Rightarrow> string"
  | WoTransition scope string workflow_status gotime
  | WoRecordError scope string string string gotime
  | WoMarkFailed scope string string string gotime
  | WoMarkIssued scope string string gotime
  | WoUpdateChallenge scope string string challenge_status gotime

fun workflow_exec :: "workflow_store \<Rightarrow> workflow_op \<Rightarrow> workflow_store" where
  "workflow_exec st (WoCreate sc inp now i) = snd (workflow_Create st sc inp now i)"
| "workflow_exec st (WoRecordOrder sc i order_url finalize now) = snd (workflow_RecordOrder st sc i order_url finalize now)"
| "workflow_exec st (WoEnsureChallenges sc i inputs now ids) = snd (workflow_EnsureChallenges st sc i inputs now ids)"
| "workflow_exec st (WoTransition sc i nxt now) = snd (workflow_Transition st sc i nxt now)"
| "workflow_exec st (WoRecordError sc i code msg now) = snd (workflow_RecordError st sc i code msg now)"
| "workflow_exec st (WoMarkFailed sc i code msg now) = snd (workflow_MarkFailed st sc i code msg now)"
| "workflow_exec st (WoMarkIssued sc i ref now) = snd (workflow_MarkIssued st sc i ref now)"
| "workflow_exec st (WoUpdateChallenge sc i c nxt now) = snd (workflow_UpdateChallengeStatus st sc i c nxt now)"

text \<open>
  What the callers grant: identifiers that are not in use, and generic transitions only to the
  statuses that have no operation of their own.
\<close>

fun workflow_op_ok :: "workflow_store \<Rightarrow> workflow_op \<Rightarrow> bool" where
  "workflow_op_ok st (WoCreate sc inp now i) = (mget (ws_byID st) i = None \<and> TrimSpace i \<noteq> [])"
| "workflow_op_ok st (WoTransition sc i nxt now) =
     (nxt \<in> {WfChallengeProcessing, WfChallengeValid, WfFinalizing, WfCancelled})"
| "workflow_op_ok st _ = True"

text \<open>Everything an operation can do to the store is one of four changes.\<close>

definition same_flow :: "workflow \<Rightarrow> workflow \<Rightarrow> bool" where
  "same_flow w w' = (wf_ID w' = wf_ID w \<and> wf_Scope w' = wf_Scope w \<and> wf_CreatedAt w' = wf_CreatedAt w \<and>
     wf_CertificateRequestID w' = wf_CertificateRequestID w \<and> wf_CAAccountID w' = wf_CAAccountID w \<and>
     wf_WorkflowType w' = wf_WorkflowType w)"

definition flow_moves :: "workflow \<Rightarrow> workflow \<Rightarrow> bool" where
  "flow_moves w w' = (same_flow w w' \<and>
     (wf_Status w' = wf_Status w \<or> canWorkflowTransition (wf_Status w) (wf_Status w')))"

definition new_flow :: "workflow \<Rightarrow> scope \<Rightarrow> string \<Rightarrow> bool" where
  "new_flow w sc i = (wf_ID w = i \<and> wf_Scope w = sc \<and> wf_Status w = WfCreated \<and> valid_scope sc)"

datatype workflow_change = NoChange | Added string workflow | Moved string workflow workflow
  | Challenged string workflow workflow "challenge list" | Touched string workflow "challenge list"

fun change_ok :: "workflow_store \<Rightarrow> workflow_change \<Rightarrow> workflow_store \<Rightarrow> bool" where
  "change_ok st NoChange st' = (st' = st)"
| "change_ok st (Added i w) st' =
     (new_flow w (wf_Scope w) i \<and> mget (ws_byID st) i = None \<and> TrimSpace i \<noteq> [] \<and>
      mget (ws_byRequest st) (envKey (wf_Scope w) (wf_CertificateRequestID w)) = None \<and>
      st' = st\<lparr>ws_byID := mput i w (ws_byID st),
               ws_byRequest := mput (envKey (wf_Scope w) (wf_CertificateRequestID w)) i (ws_byRequest st)\<rparr>)"
| "change_ok st (Moved i w w') st' =
     (mget (ws_byID st) i = Some w \<and> flow_moves w w' \<and>
      (wf_Status w' \<noteq> wf_Status w \<longrightarrow> wf_Status w' \<noteq> WfChallengePending) \<and>
      st' = st\<lparr>ws_byID := mput i w' (ws_byID st)\<rparr>)"
| "change_ok st (Challenged i w w' cs) st' =
     (mget (ws_byID st) i = Some w \<and> flow_moves w w' \<and> wf_Status w' = WfChallengePending \<and>
      mslice (ws_challenges st) i = [] \<and> cs \<noteq> [] \<and>
      (\<forall>c \<in> set cs. ch_IssueWorkflowID c = i \<and> ch_Scope c = wf_Scope w \<and> ch_Status c = ChPending \<and>
         ch_ChallengeType c \<in> {''http-01'', ''dns-01''} \<and> ch_Identifier c \<noteq> []) \<and>
      st' = st\<lparr>ws_byID := mput i w' (ws_byID st), ws_challenges := mput i cs (ws_challenges st)\<rparr>)"
| "change_ok st (Touched i w cs) st' =
     (mget (ws_byID st) i = Some w \<and>
      (\<exists>c k. c < length (mslice (ws_challenges st) i) \<and>
         canChallengeTransition (ch_Status (mslice (ws_challenges st) i ! c)) (fst k) \<and>
         cs = (mslice (ws_challenges st) i)[c := stamp_challenge (mslice (ws_challenges st) i ! c) (fst k) (snd k)]) \<and>
      st' = st\<lparr>ws_challenges := mput i cs (ws_challenges st)\<rparr>)"

lemma update_change:
  assumes "\<And>w w'. upd w = Inr w' \<Longrightarrow> flow_moves w (w'\<lparr>wf_UpdatedAt := now\<rparr>) \<and>
      (wf_Status w' \<noteq> wf_Status w \<longrightarrow> wf_Status w' \<noteq> WfChallengePending)"
  shows "\<exists>ch. change_ok st ch (snd (updateWorkflow st sc i now upd))"
  using updateWorkflow_cases [of st sc i now upd]
proof
  assume "\<exists>e. updateWorkflow st sc i now upd = (Inl e, st)"
  then show ?thesis by (intro exI [of _ NoChange]) auto
next
  assume "\<exists>w w'. valid_scope sc \<and> mget (ws_byID st) i = Some w \<and> wf_Scope w = sc \<and> upd w = Inr w' \<and>
      updateWorkflow st sc i now upd =
        (Inr (w'\<lparr>wf_UpdatedAt := now\<rparr>), st\<lparr>ws_byID := mput i (w'\<lparr>wf_UpdatedAt := now\<rparr>) (ws_byID st)\<rparr>)"
  then obtain w w' where "mget (ws_byID st) i = Some w" "upd w = Inr w'" "snd (updateWorkflow st sc i now upd) =
        st\<lparr>ws_byID := mput i (w'\<lparr>wf_UpdatedAt := now\<rparr>) (ws_byID st)\<rparr>" by auto
  with assms [of w w'] show ?thesis by (intro exI [of _ "Moved i w (w'\<lparr>wf_UpdatedAt := now\<rparr>)"]) simp
qed

lemma make_challenges_ok:
  "make_challenges sc i now ids inputs k items = Inr cs \<Longrightarrow>
   \<exists>new. cs = items @ new \<and> length new = length inputs \<and>
     (\<forall>c \<in> set new. ch_IssueWorkflowID c = i \<and> ch_Scope c = sc \<and> ch_Status c = ChPending \<and>
        ch_ChallengeType c \<in> {''http-01'', ''dns-01''} \<and> ch_Identifier c \<noteq> [])"
proof (induction inputs arbitrary: k items)
  case (Cons inp inputs)
  from Cons.prems [simplified make_challenges.simps Let_def, simplified result_simps]
  obtain c where c: "ch_IssueWorkflowID c = i" "ch_Scope c = sc" "ch_Status c = ChPending"
      "ch_ChallengeType c \<in> {''http-01'', ''dns-01''}" "ch_Identifier c \<noteq> []"
    and r: "make_challenges sc i now ids inputs (Suc k) (items @ [c]) = Inr cs"
    by (elim conjE) (rule that, auto)
  from Cons.IH [OF r] obtain new where "cs = (items @ [c]) @ new" "length new = length inputs"
     "\<forall>c \<in> set new. ch_IssueWorkflowID c = i \<and> ch_Scope c = sc \<and> ch_Status c = ChPending \<and>
        ch_ChallengeType c \<in> {''http-01'', ''dns-01''} \<and> ch_Identifier c \<noteq> []" by blast
  with c show ?case by (intro exI [of _ "c # new"]) simp
qed simp

lemma update_challenge_ok:
  "update_challenge cs x nxt now = Inr (d, ds) \<Longrightarrow>
   \<exists>n < length cs. ch_ID (cs ! n) = x \<and> canChallengeTransition (ch_Status (cs ! n)) nxt \<and>
     d = stamp_challenge (cs ! n) nxt now \<and> ds = cs[n := d]"
proof (induction cs arbitrary: ds)
  case (Cons c cs)
  show ?case
  proof (cases "ch_ID c = x")
    case True
    with Cons.prems show ?thesis by (intro exI [of _ 0]) (auto split: if_splits)
  next
    case False
    with Cons.prems obtain es where "update_challenge cs x nxt now = Inr (d, es)" "ds = c # es"
      by (auto split: sum.splits)
    with Cons.IH [of es] obtain n where "n < length cs" "ch_ID (cs ! n) = x"
      "canChallengeTransition (ch_Status (cs ! n)) nxt" "d = stamp_challenge (cs ! n) nxt now" "ds = c # cs[n := d]" by auto
    then show ?thesis by (intro exI [of _ "Suc n"]) simp
  qed
qed simp

lemma envKey_cons: "EnvironmentKey sc @ CHR ''/'' # k = envKey sc k"
  by (simp add: envKey_def)

lemma Create_change:
  assumes "mget (ws_byID st) i = None" "TrimSpace i \<noteq> []"
  shows "\<exists>ch. change_ok st ch (snd (workflow_Create st sc inp now i))"
proof (cases "workflow_Create st sc inp now i")
  case (Pair x st')
  show ?thesis
  proof (cases x)
    case (Inl e)
    with Pair have "st' = st"
      by (auto simp: workflow_Create_def Let_def split: option.splits if_splits)
    with Pair show ?thesis by (intro exI [of _ NoChange]) simp
  next
    case (Inr w)
    note ok = Pair [unfolded Inr workflow_Create_def Let_def append_Cons append_Nil envKey_cons, simplified result_simps scope_Validate_None]
    then have "valid_scope sc" "mget (ws_byRequest st) (envKey sc (wf_CertificateRequestID w)) = None"
      "wf_ID w = i" "wf_Scope w = sc" "wf_Status w = WfCreated"
      "st' = st\<lparr>ws_byID := mput i w (ws_byID st), ws_byRequest := mput (envKey sc (wf_CertificateRequestID w)) i (ws_byRequest st)\<rparr>"
      by auto
    with assms Pair show ?thesis by (intro exI [of _ "Added i w"]) (simp add: new_flow_def)
  qed
qed

lemma Ensure_cases:
  "(\<exists>e. workflow_EnsureChallenges st sc i inputs now ids = (Inl e, st)) \<or>
   (\<exists>w. mget (ws_byID st) i = Some w \<and> wf_Scope w = sc \<and> mslice (ws_challenges st) i \<noteq> [] \<and>
      workflow_EnsureChallenges st sc i inputs now ids = (Inr (mslice (ws_challenges st) i, w), st)) \<or>
   (\<exists>w cs. mget (ws_byID st) i = Some w \<and> wf_Scope w = sc \<and> mslice (ws_challenges st) i = [] \<and>
      canWorkflowTransition (wf_Status w) WfChallengePending \<and> inputs \<noteq> [] \<and>
      make_challenges sc i now ids inputs 0 [] = Inr cs \<and>
      workflow_EnsureChallenges st sc i inputs now ids =
       (let w' = w\<lparr>wf_Status := WfChallengePending, wf_UpdatedAt := now, wf_LastErrorCode := [], wf_LastErrorMessage := []\<rparr>
        in (Inr (cs, w'), st\<lparr>ws_byID := mput i w' (ws_byID st), ws_challenges := mput i cs (ws_challenges st)\<rparr>)))"
proof (cases "inputs = []")
  case True
  then show ?thesis by (simp add: workflow_EnsureChallenges_def)
next
  case False
  show ?thesis
  proof (cases "scoped_get ''workflow'' wf_Scope (ws_byID st) sc i")
    case (Inl e)
    with False show ?thesis by (simp add: workflow_EnsureChallenges_def)
  next
    case (Inr w)
    then have m: "mget (ws_byID st) i = Some w" and sc: "sc = wf_Scope w" by auto
    show ?thesis unfolding sc using m False
      by (cases "make_challenges (wf_Scope w) i now ids inputs 0 []")
        (auto simp: workflow_EnsureChallenges_def Let_def split: if_split_asm)
  qed
qed

lemma Ensure_change: "\<exists>ch. change_ok st ch (snd (workflow_EnsureChallenges st sc i inputs now ids))"
  using Ensure_cases [of st sc i inputs now ids]
proof (elim disjE exE conjE)
  fix w cs
  assume w: "mget (ws_byID st) i = Some w" "wf_Scope w = sc" "mslice (ws_challenges st) i = []"
    "canWorkflowTransition (wf_Status w) WfChallengePending" "inputs \<noteq> []"
    and m: "make_challenges sc i now ids inputs 0 [] = Inr cs"
    and e: "workflow_EnsureChallenges st sc i inputs now ids =
       (let w' = w\<lparr>wf_Status := WfChallengePending, wf_UpdatedAt := now, wf_LastErrorCode := [], wf_LastErrorMessage := []\<rparr>
        in (Inr (cs, w'), st\<lparr>ws_byID := mput i w' (ws_byID st), ws_challenges := mput i cs (ws_challenges st)\<rparr>))"
  from make_challenges_ok [OF m] w(5) have "cs \<noteq> [] \<and> (\<forall>c \<in> set cs. ch_IssueWorkflowID c = i \<and> ch_Scope c = sc \<and>
      ch_Status c = ChPending \<and> ch_ChallengeType c \<in> {''http-01'', ''dns-01''} \<and> ch_Identifier c \<noteq> [])" by auto
  with w e show ?thesis
    by (intro exI [of _ "Challenged i w (w\<lparr>wf_Status := WfChallengePending, wf_UpdatedAt := now, wf_LastErrorCode := [], wf_LastErrorMessage := []\<rparr>) cs"])
      (auto simp: flow_moves_def same_flow_def Let_def)
qed (auto intro: exI [of _ NoChange])

lemma Touch_change: "\<exists>ch. change_ok st ch (snd (workflow_UpdateChallengeStatus st sc i x nxt now))"
proof (cases "scoped_get ''workflow'' wf_Scope (ws_byID st) sc i")
  case (Inl e)
  then show ?thesis by (intro exI [of _ NoChange]) (simp add: workflow_UpdateChallengeStatus_def)
next
  case (Inr w)
  then have m: "mget (ws_byID st) i = Some w" and sc: "sc = wf_Scope w" by auto
  show ?thesis
  proof (cases "update_challenge (mslice (ws_challenges st) i) x nxt now")
    case (Inl e)
    then show ?thesis unfolding sc using m by (intro exI [of _ NoChange]) (simp add: workflow_UpdateChallengeStatus_def)
  next
    case u: (Inr p)
    obtain d ds where p: "p = (d, ds)" by (cases p)
    from update_challenge_ok u p obtain n where n: "n < length (mslice (ws_challenges st) i)"
      "canChallengeTransition (ch_Status (mslice (ws_challenges st) i ! n)) nxt"
      "ds = (mslice (ws_challenges st) i)[n := stamp_challenge (mslice (ws_challenges st) i ! n) nxt now]" by blast
    with u p show ?thesis unfolding sc using m
      by (intro exI [of _ "Touched i w ds"]) (auto simp: workflow_UpdateChallengeStatus_def)
  qed
qed

lemma exec_change: "workflow_op_ok st c \<Longrightarrow> \<exists>ch. change_ok st ch (workflow_exec st c)"
  by (cases c) (auto simp: workflow_RecordOrder_def workflow_Transition_def workflow_RecordError_def workflow_MarkFailed_def
      workflow_MarkIssued_def flow_moves_def same_flow_def intro!: Create_change Ensure_change Touch_change update_change)

section \<open>The invariant\<close>

definition flow_ok :: "workflow \<Rightarrow> challenge list \<Rightarrow> bool" where
  "flow_ok w cs =
     ((\<forall>c \<in> set cs. ch_IssueWorkflowID c = wf_ID w \<and> ch_Scope c = wf_Scope w \<and>
         ch_ChallengeType c \<in> {''http-01'', ''dns-01''} \<and> ch_Identifier c \<noteq> []) \<and>
      (wf_Status w = WfCreated \<or> wf_Status w = WfOrderPending \<longrightarrow> cs = []) \<and>
      (wf_Status w \<in> {WfChallengePending, WfChallengeProcessing, WfChallengeValid, WfFinalizing, WfIssued} \<longrightarrow> cs \<noteq> []))"

definition flows_wf :: "workflow_store \<Rightarrow> bool" where
  "flows_wf st =
     ((\<forall>i w. mget (ws_byID st) i = Some w \<longrightarrow>
         wf_ID w = i \<and> TrimSpace i \<noteq> [] \<and> valid_scope (wf_Scope w) \<and> flow_ok w (mslice (ws_challenges st) i) \<and>
         mget (ws_byRequest st) (envKey (wf_Scope w) (wf_CertificateRequestID w)) = Some i) \<and>
      (\<forall>k i. mget (ws_byRequest st) k = Some i \<longrightarrow>
         (\<exists>w. mget (ws_byID st) i = Some w \<and> k = envKey (wf_Scope w) (wf_CertificateRequestID w))) \<and>
      (\<forall>i. mget (ws_byID st) i = None \<longrightarrow> mslice (ws_challenges st) i = []))"

lemma flows_wfD:
  assumes "flows_wf st" "mget (ws_byID st) i = Some w"
  shows "wf_ID w = i" "TrimSpace i \<noteq> []" "valid_scope (wf_Scope w)" "flow_ok w (mslice (ws_challenges st) i)"
    "mget (ws_byRequest st) (envKey (wf_Scope w) (wf_CertificateRequestID w)) = Some i"
  using assms by (auto simp: flows_wf_def)

lemma flows_wf_index:
  assumes "flows_wf st" "mget (ws_byRequest st) k = Some i"
  obtains w where "mget (ws_byID st) i = Some w" "k = envKey (wf_Scope w) (wf_CertificateRequestID w)"
  using assms unfolding flows_wf_def by blast

text \<open>Replacing one workflow by another of the same identity.\<close>

lemma flows_wf_replace:
  assumes "flows_wf st" "mget (ws_byID st) i = Some w" "same_flow w w'" "flow_ok w' (mslice chs i)"
    "\<And>k. k \<noteq> i \<Longrightarrow> mslice chs k = mslice (ws_challenges st) k"
  shows "flows_wf (st\<lparr>ws_byID := mput i w' (ws_byID st), ws_challenges := chs\<rparr>)"
  unfolding flows_wf_def
proof (intro conjI allI impI)
  fix k l assume "mget (ws_byRequest (st\<lparr>ws_byID := mput i w' (ws_byID st), ws_challenges := chs\<rparr>)) k = Some l"
  then have "mget (ws_byRequest st) k = Some l" by simp
  from flows_wf_index [OF assms(1) this] obtain v where "mget (ws_byID st) l = Some v" "k = envKey (wf_Scope v) (wf_CertificateRequestID v)" .
  with assms(2,3) show "\<exists>w. mget (ws_byID (st\<lparr>ws_byID := mput i w' (ws_byID st), ws_challenges := chs\<rparr>)) l = Some w \<and>
      k = envKey (wf_Scope w) (wf_CertificateRequestID w)" by (auto simp: same_flow_def)
qed (use assms flows_wfD [OF assms(1)] in \<open>auto simp: same_flow_def flows_wf_def split: if_splits\<close>)

lemma flows_wf_touch:
  assumes "flows_wf st" "mget (ws_byID st) i = Some w" "flow_ok w cs"
  shows "flows_wf (st\<lparr>ws_challenges := mput i cs (ws_challenges st)\<rparr>)"
  unfolding flows_wf_def
proof (intro conjI allI impI)
  fix k l assume "mget (ws_byRequest (st\<lparr>ws_challenges := mput i cs (ws_challenges st)\<rparr>)) k = Some l"
  then have "mget (ws_byRequest st) k = Some l" by simp
  from flows_wf_index [OF assms(1) this] obtain v where "mget (ws_byID st) l = Some v" "k = envKey (wf_Scope v) (wf_CertificateRequestID v)" .
  then show "\<exists>w. mget (ws_byID (st\<lparr>ws_challenges := mput i cs (ws_challenges st)\<rparr>)) l = Some w \<and>
      k = envKey (wf_Scope w) (wf_CertificateRequestID w)" by simp
next
  fix k v assume "mget (ws_byID (st\<lparr>ws_challenges := mput i cs (ws_challenges st)\<rparr>)) k = Some v"
  then have v: "mget (ws_byID st) k = Some v" by simp
  show "flow_ok v (mslice (ws_challenges (st\<lparr>ws_challenges := mput i cs (ws_challenges st)\<rparr>)) k)"
    using v assms(2,3) flows_wfD(4) [OF assms(1) v] by auto
qed (use assms(1,2) flows_wfD [OF assms(1)] in \<open>auto simp: flows_wf_def\<close>)

lemma flow_ok_move:
  assumes "flow_ok w cs" "flow_moves w w'" "wf_Status w' \<noteq> wf_Status w \<longrightarrow> wf_Status w' \<noteq> WfChallengePending"
  shows "flow_ok w' cs"
proof (cases "wf_Status w' = wf_Status w")
  case True
  with assms show ?thesis by (simp add: flow_ok_def flow_moves_def same_flow_def)
next
  case False
  with assms(2) have "canWorkflowTransition (wf_Status w) (wf_Status w')" by (simp add: flow_moves_def)
  with assms False show ?thesis
    by (cases "wf_Status w") (auto simp: flow_ok_def flow_moves_def same_flow_def)
qed

lemma change_wf:
  assumes wf: "flows_wf st" and ch: "change_ok st c st'"
  shows "flows_wf st'"
proof (cases c)
  case NoChange
  with assms show ?thesis by simp
next
  case (Added i w)
  with ch have new: "wf_ID w = i" "wf_Status w = WfCreated" "valid_scope (wf_Scope w)" "mget (ws_byID st) i = None" "TrimSpace i \<noteq> []"
    "mget (ws_byRequest st) (envKey (wf_Scope w) (wf_CertificateRequestID w)) = None"
    and st': "st' = st\<lparr>ws_byID := mput i w (ws_byID st),
               ws_byRequest := mput (envKey (wf_Scope w) (wf_CertificateRequestID w)) i (ws_byRequest st)\<rparr>"
    by (auto simp: new_flow_def)
  have none: "mslice (ws_challenges st) i = []" using wf new(4) by (simp add: flows_wf_def)
  show ?thesis
    unfolding flows_wf_def
  proof (intro conjI allI impI)
    fix k l assume k: "mget (ws_byRequest st') k = Some l"
    show "\<exists>w. mget (ws_byID st') l = Some w \<and> k = envKey (wf_Scope w) (wf_CertificateRequestID w)"
    proof (cases "k = envKey (wf_Scope w) (wf_CertificateRequestID w)")
      case True
      with k st' show ?thesis by auto
    next
      case False
      with k st' have "mget (ws_byRequest st) k = Some l" by simp
      from flows_wf_index [OF wf this] obtain v where "mget (ws_byID st) l = Some v" "k = envKey (wf_Scope v) (wf_CertificateRequestID v)" .
      with new(4) st' show ?thesis by auto
    qed
  next
    fix k v assume k: "mget (ws_byID st') k = Some v"
    show "mget (ws_byRequest st') (envKey (wf_Scope v) (wf_CertificateRequestID v)) = Some k"
    proof (cases "k = i")
      case True
      with k st' show ?thesis by auto
    next
      case False
      with k st' have "mget (ws_byID st) k = Some v" by simp
      from flows_wfD(5) [OF wf this] new(6) st' show ?thesis by auto
    qed
  qed (use wf new st' none flows_wfD [OF wf] in \<open>auto simp: flow_ok_def flows_wf_def split: if_splits\<close>)
next
  case (Moved i w w')
  with ch have c: "mget (ws_byID st) i = Some w" "flow_moves w w'"
      "wf_Status w' \<noteq> wf_Status w \<longrightarrow> wf_Status w' \<noteq> WfChallengePending"
      "st' = st\<lparr>ws_byID := mput i w' (ws_byID st), ws_challenges := ws_challenges st\<rparr>" by auto
  show ?thesis unfolding c(4)
    using c flow_ok_move [OF flows_wfD(4) [OF wf c(1)] c(2,3)]
    by (intro flows_wf_replace [OF wf c(1)]) (auto simp: flow_moves_def)
next
  case (Challenged i w w' cs)
  with ch have c: "mget (ws_byID st) i = Some w" "flow_moves w w'" "wf_Status w' = WfChallengePending" "cs \<noteq> []"
      "\<forall>c \<in> set cs. ch_IssueWorkflowID c = i \<and> ch_Scope c = wf_Scope w \<and> ch_Status c = ChPending \<and>
         ch_ChallengeType c \<in> {''http-01'', ''dns-01''} \<and> ch_Identifier c \<noteq> []"
      "st' = st\<lparr>ws_byID := mput i w' (ws_byID st), ws_challenges := mput i cs (ws_challenges st)\<rparr>" by auto
  have "flow_ok w' cs" using c flows_wfD(1) [OF wf c(1)] by (simp add: flow_ok_def flow_moves_def same_flow_def)
  then show ?thesis unfolding c(6) using c(2)
    by (intro flows_wf_replace [OF wf c(1)]) (auto simp: flow_moves_def)
next
  case (Touched i w cs)
  with ch obtain n nxt t where c: "mget (ws_byID st) i = Some w" "n < length (mslice (ws_challenges st) i)"
     "cs = (mslice (ws_challenges st) i)[n := stamp_challenge (mslice (ws_challenges st) i ! n) nxt t]"
     "st' = st\<lparr>ws_challenges := mput i cs (ws_challenges st)\<rparr>" by auto
  have old: "flow_ok w (mslice (ws_challenges st) i)" using flows_wfD(4) [OF wf c(1)] .
  have st: "ch_IssueWorkflowID (stamp_challenge x nxt t) = ch_IssueWorkflowID x" "ch_Scope (stamp_challenge x nxt t) = ch_Scope x"
    "ch_ChallengeType (stamp_challenge x nxt t) = ch_ChallengeType x" "ch_Identifier (stamp_challenge x nxt t) = ch_Identifier x" for x
    by (simp_all add: stamp_challenge_def Let_def split: challenge_status.splits)
  have "mslice (ws_challenges st) i ! n \<in> set (mslice (ws_challenges st) i)" using c(2) by simp
  with old have "flow_ok w cs" unfolding c(3)
    by (auto simp: flow_ok_def st dest!: set_update_subset_insert [THEN subsetD])
  then show ?thesis unfolding c(4) by (rule flows_wf_touch [OF wf c(1)])
qed

inductive flow_step :: "workflow_store \<Rightarrow> workflow_store \<Rightarrow> bool" where
  "workflow_op_ok st c \<Longrightarrow> flow_step st (workflow_exec st c)"

inductive_cases flow_stepE: "flow_step st st'"

definition flows_reachable :: "workflow_store \<Rightarrow> bool" where
  "flows_reachable st = flow_step\<^sup>*\<^sup>* NewWorkflowService st"

lemma flow_step_change: "flow_step st st' \<Longrightarrow> \<exists>ch. change_ok st ch st'"
  by (auto elim!: flow_stepE intro: exec_change)

lemma flow_steps_wf: "flow_step\<^sup>*\<^sup>* st st' \<Longrightarrow> flows_wf st \<Longrightarrow> flows_wf st'"
  by (induction rule: rtranclp_induct) (auto dest: flow_step_change intro: change_wf)

lemma flows_reachable_wf: "flows_reachable st \<Longrightarrow> flows_wf st"
  using flow_steps_wf [of NewWorkflowService st]
  by (auto simp: flows_reachable_def flows_wf_def NewWorkflowService_def mslice_def)

end
