(* ===== verification/IssueWorkflowProps.thy ===== *)
theory IssueWorkflowProps
  imports IssueWorkflowInv
begin

text \<open>
  What the workflow service guarantees to the orchestrator and to users: isolation between scopes,
  the two transition tables, challenges that are made once, and lives that end.
\<close>

section \<open>Challenges over time\<close>

text \<open>What identifies a challenge: everything but its progress.\<close>

definition ch_key :: "challenge \<Rightarrow> string \<times> string \<times> string \<times> string \<times> string \<times> string \<times> string \<times> string" where
  "ch_key c = (ch_ID c, ch_ChallengeType c, ch_Identifier c, ch_Token c, ch_KeyAuthorization c, ch_HTTPPath c,
     ch_DNSRecordName c, ch_DNSRecordValue c)"

lemma ch_key_stamp [simp]: "ch_key (stamp_challenge c nxt t) = ch_key c"
  and ch_Status_stamp [simp]: "ch_Status (stamp_challenge c nxt t) = nxt"
  by (simp_all add: stamp_challenge_def ch_key_def Let_def split: challenge_status.splits)

definition challenges_move :: "challenge list \<Rightarrow> challenge list \<Rightarrow> bool" where
  "challenges_move cs cs' =
     (map ch_key cs' = map ch_key cs \<and>
      (\<forall>n < length cs. ch_Status (cs' ! n) = ch_Status (cs ! n) \<or>
         canChallengeTransition (ch_Status (cs ! n)) (ch_Status (cs' ! n))))"

lemma challenges_move_update:
  assumes "canChallengeTransition (ch_Status (cs ! n)) nxt" "n < length cs"
  shows "challenges_move cs (cs[n := stamp_challenge (cs ! n) nxt t])"
  using assms by (auto simp: challenges_move_def nth_list_update map_update intro!: list_update_same_conv [THEN iffD2])

lemma change_moves:
  assumes ch: "change_ok st c st'" and w: "mget (ws_byID st) i = Some w"
  shows "\<exists>w'. mget (ws_byID st') i = Some w' \<and> flow_moves w w' \<and>
    (mslice (ws_challenges st) i \<noteq> [] \<longrightarrow> challenges_move (mslice (ws_challenges st) i) (mslice (ws_challenges st') i))"
proof -
  have refl: "flow_moves w w" "challenges_move cs cs" for cs
    by (simp_all add: flow_moves_def same_flow_def challenges_move_def)
  show ?thesis
  proof (cases c)
    case (Touched k v cs)
    with ch obtain n nxt t where "n < length (mslice (ws_challenges st) k)"
      "canChallengeTransition (ch_Status (mslice (ws_challenges st) k ! n)) nxt"
      "cs = (mslice (ws_challenges st) k)[n := stamp_challenge (mslice (ws_challenges st) k ! n) nxt t]"
      "st' = st\<lparr>ws_challenges := mput k cs (ws_challenges st)\<rparr>" by auto
    with challenges_move_update w refl show ?thesis by auto
  qed (use ch w refl in auto)
qed

lemma challenges_move_nonempty: "challenges_move cs cs' \<Longrightarrow> cs \<noteq> [] \<Longrightarrow> cs' \<noteq> []"
  by (auto simp: challenges_move_def)

lemma flow_steps_keep:
  assumes "flow_step\<^sup>*\<^sup>* st st'" "flows_wf st" "mget (ws_byID st) i = Some w" "mslice (ws_challenges st) i \<noteq> []"
  shows "\<exists>w'. mget (ws_byID st') i = Some w' \<and> same_flow w w' \<and>
    map ch_key (mslice (ws_challenges st') i) = map ch_key (mslice (ws_challenges st) i)"
  using assms(1)
proof (induction rule: rtranclp_induct)
  case base
  with assms(3) show ?case by (auto simp: same_flow_def)
next
  case (step st1 st2)
  then obtain w1 where w1: "mget (ws_byID st1) i = Some w1" "same_flow w w1"
    "map ch_key (mslice (ws_challenges st1) i) = map ch_key (mslice (ws_challenges st) i)" by blast
  from flow_step_change [OF step.hyps(2)] obtain c where c: "change_ok st1 c st2" by blast
  have "mslice (ws_challenges st1) i \<noteq> []" using w1(3) assms(4) by (metis map_is_Nil_conv)
  with change_moves [OF c w1(1)] w1 show ?case
    by (auto simp: challenges_move_def flow_moves_def same_flow_def)
qed

section \<open>Any calls in any order\<close>

text \<open>Any call at all of the service, of which only the identifier drawn for a new workflow is known not to be in use.\<close>

fun fresh_id :: "workflow_store \<Rightarrow> workflow_op \<Rightarrow> bool" where
  "fresh_id st (WoCreate sc inp now i) = (mget (ws_byID st) i = None)"
| "fresh_id st _ = True"

inductive any_call :: "workflow_store \<Rightarrow> workflow_store \<Rightarrow> bool" where
  "fresh_id st c \<Longrightarrow> any_call st (workflow_exec st c)"

lemma exec_moves:
  assumes "fresh_id st c" "mget (ws_byID st) i = Some w"
  shows "\<exists>w'. mget (ws_byID (workflow_exec st c)) i = Some w' \<and> flow_moves w w' \<and>
    (mslice (ws_challenges st) i \<noteq> [] \<longrightarrow>
      challenges_move (mslice (ws_challenges st) i) (mslice (ws_challenges (workflow_exec st c)) i))"
proof -
  have refl: "flow_moves w w" "challenges_move cs cs" for cs
    by (simp_all add: flow_moves_def same_flow_def challenges_move_def)
  show ?thesis
  proof (cases c)
    case (WoCreate sc inp now k)
    have "snd (workflow_Create st sc inp now k) = st \<or> (\<exists>v names. snd (workflow_Create st sc inp now k) =
        st\<lparr>ws_byID := mput k v (ws_byID st), ws_byRequest := names\<rparr>)"
      by (auto simp: workflow_Create_def Let_def split: option.splits)
    with WoCreate assms refl show ?thesis by auto
  next
    case (WoTransition sc k nxt now)
    have "snd (workflow_Transition st sc k nxt now) = st \<or> (\<exists>v v'. mget (ws_byID st) k = Some v \<and> flow_moves v v' \<and>
        snd (workflow_Transition st sc k nxt now) = st\<lparr>ws_byID := mput k v' (ws_byID st)\<rparr>)"
      unfolding workflow_Transition_def
      using updateWorkflow_cases [of st sc k now "\<lambda>rec. guarded rec nxt (\<lambda>r. r\<lparr>wf_UpdatedAt := now, wf_LastErrorCode := [], wf_LastErrorMessage := []\<rparr>)"]
    proof (elim disjE exE conjE)
      fix v v'
      let ?upd = "\<lambda>rec. guarded rec nxt (\<lambda>r. r\<lparr>wf_UpdatedAt := now, wf_LastErrorCode := [], wf_LastErrorMessage := []\<rparr>)"
      assume v: "mget (ws_byID st) k = Some v" "?upd v = Inr v'"
        and e: "updateWorkflow st sc k now ?upd = (Inr (v'\<lparr>wf_UpdatedAt := now\<rparr>), st\<lparr>ws_byID := mput k (v'\<lparr>wf_UpdatedAt := now\<rparr>) (ws_byID st)\<rparr>)"
      from v(2) have "flow_moves v (v'\<lparr>wf_UpdatedAt := now\<rparr>)" by (auto simp: flow_moves_def same_flow_def)
      with v(1) e show "snd (updateWorkflow st sc k now ?upd) = st \<or> (\<exists>v v'. mget (ws_byID st) k = Some v \<and> flow_moves v v' \<and>
        snd (updateWorkflow st sc k now ?upd) = st\<lparr>ws_byID := mput k v' (ws_byID st)\<rparr>)" by auto
    qed simp
    with WoTransition assms refl show ?thesis by (cases "k = i") auto
  qed (use assms refl exec_change [of st c] change_moves in fastforce)+
qed

lemma any_call_moves:
  assumes "any_call st st'" "mget (ws_byID st) i = Some w"
  shows "\<exists>w'. mget (ws_byID st') i = Some w' \<and> flow_moves w w' \<and>
    (mslice (ws_challenges st) i \<noteq> [] \<longrightarrow> challenges_move (mslice (ws_challenges st) i) (mslice (ws_challenges st') i))"
  using assms exec_moves by (auto elim!: any_call.cases)

lemma histories:
  assumes "is_run any_call (st # sts)" "mget (ws_byID st) i = Some w" "cs = mslice (ws_challenges st) i"
  shows "is_run (\<lambda>x y. y = x \<or> canWorkflowTransition x y) (map (\<lambda>st. wf_Status (workflowAt st i)) (st # sts)) \<and>
    (\<forall>n < length cs. is_run (\<lambda>x y. y = x \<or> canChallengeTransition x y) (map (\<lambda>st. ch_Status (mslice (ws_challenges st) i ! n)) (st # sts))) \<and>
    (\<forall>t \<in> set sts. \<exists>v. mget (ws_byID t) i = Some v \<and> same_flow w v \<and> (cs \<noteq> [] \<longrightarrow> map ch_key (mslice (ws_challenges t) i) = map ch_key cs))"
  using assms
proof (induction sts arbitrary: st w cs)
  case (Cons u sts)
  then have u: "any_call st u" "is_run any_call (u # sts)" by simp_all
  from any_call_moves [OF u(1) Cons.prems(2)] obtain v where v: "mget (ws_byID u) i = Some v" "flow_moves w v"
    "cs \<noteq> [] \<longrightarrow> challenges_move cs (mslice (ws_challenges u) i)" unfolding Cons.prems(3) by blast
  note IH = Cons.IH [OF u(2) v(1) refl]
  have w: "wf_Status (workflowAt st i) = wf_Status w" "wf_Status (workflowAt u i) = wf_Status v"
    using Cons.prems(2) v(1) by (simp_all add: workflowAt_def)
  have len: "cs \<noteq> [] \<longrightarrow> length (mslice (ws_challenges u) i) = length cs \<and> mslice (ws_challenges u) i \<noteq> [] \<and>
      map ch_key (mslice (ws_challenges u) i) = map ch_key cs"
    using v(3) challenges_move_nonempty by (auto simp: challenges_move_def dest: map_eq_imp_length_eq)
  have "is_run (\<lambda>x y. y = x \<or> canWorkflowTransition x y) (map (\<lambda>st. wf_Status (workflowAt st i)) (st # u # sts))"
    using IH v(2) w by (simp add: flow_moves_def)
  moreover have "is_run (\<lambda>x y. y = x \<or> canChallengeTransition x y) (map (\<lambda>st. ch_Status (mslice (ws_challenges st) i ! n)) (st # u # sts))"
    if n: "n < length cs" for n
  proof -
    from n len have "n < length (mslice (ws_challenges u) i)" by auto
    with IH have "is_run (\<lambda>x y. y = x \<or> canChallengeTransition x y) (map (\<lambda>st. ch_Status (mslice (ws_challenges st) i ! n)) (u # sts))" by blast
    moreover have "challenges_move cs (mslice (ws_challenges u) i)" using n v(3) by auto
    ultimately show ?thesis using n Cons.prems(3) by (auto simp: challenges_move_def)
  qed
  moreover have "\<exists>x. mget (ws_byID t) i = Some x \<and> same_flow w x \<and> (cs \<noteq> [] \<longrightarrow> map ch_key (mslice (ws_challenges t) i) = map ch_key cs)"
    if t: "t \<in> set (u # sts)" for t
  proof (cases "t = u")
    case True
    with v len show ?thesis by (auto simp: flow_moves_def)
  next
    case False
    with t have "t \<in> set sts" by simp
    with IH obtain x where x: "mget (ws_byID t) i = Some x" "same_flow v x"
      "mslice (ws_challenges u) i \<noteq> [] \<longrightarrow> map ch_key (mslice (ws_challenges t) i) = map ch_key (mslice (ws_challenges u) i)" by blast
    have "same_flow w x" using x(2) v(2) by (auto simp: flow_moves_def same_flow_def)
    with x len show ?thesis by auto
  qed
  ultimately show ?case by blast
qed simp

section \<open>Properties\<close>

text \<open>An issue workflow is visible exactly under the scope of the request it serves: looking one
  up returns a record if and only if the scope is complete, the identifier is not blank and a workflow
  is stored under it with that very scope.\<close>

theorem workflow_visible_only_in_scope:
  "workflow_Get st sc i = Inr w \<longleftrightarrow>
   valid_scope sc \<and> TrimSpace i \<noteq> [] \<and> mget (ws_byID st) i = Some w \<and> wf_Scope w = sc"
  by (rule workflow_scoped.get_ok_iff)

text \<open>C34: every call of the service, with any arguments and on any store, moves a stored workflow along the transition table or
  leaves its status alone, keeps its identity, request and scope, and moves every challenge along the challenge table
  without changing what it proves; only the identifier drawn for a new workflow is taken to be fresh. The tie
  between the two, no challenges before the order is placed, challenges of that workflow and scope from then on until the
  certificate is issued, is kept from the empty store on as long as new identifiers are not blank and Transition is asked
  only for statuses that have no call of their own (challenge_processing, challenge_valid, finalizing, cancelled); the
  orchestrator asks it for the first three.\<close>

theorem workflow_steps_follow_tables:
  assumes "fresh_id st c" "mget (ws_byID st) i = Some w"
  shows "\<exists>w'. mget (ws_byID (workflow_exec st c)) i = Some w' \<and> same_flow w w' \<and>
    (wf_Status w' = wf_Status w \<or> canWorkflowTransition (wf_Status w) (wf_Status w')) \<and>
    (mslice (ws_challenges st) i \<noteq> [] \<longrightarrow>
       challenges_move (mslice (ws_challenges st) i) (mslice (ws_challenges (workflow_exec st c)) i)) \<and>
    (flows_reachable st \<and> workflow_op_ok st c \<longrightarrow> flow_ok w' (mslice (ws_challenges (workflow_exec st c)) i))"
proof -
  from exec_moves [OF assms] obtain w' where w': "mget (ws_byID (workflow_exec st c)) i = Some w'" "flow_moves w w'"
    "mslice (ws_challenges st) i \<noteq> [] \<longrightarrow>
       challenges_move (mslice (ws_challenges st) i) (mslice (ws_challenges (workflow_exec st c)) i)" by blast
  have "flow_ok w' (mslice (ws_challenges (workflow_exec st c)) i)" if r: "flows_reachable st" "workflow_op_ok st c"
  proof -
    from exec_change [OF r(2)] obtain ch where ch: "change_ok st ch (workflow_exec st c)" by blast
    from flows_wfD(4) [OF change_wf [OF flows_reachable_wf [OF r(1)] ch] w'(1)] show ?thesis .
  qed
  with w' show ?thesis by (auto simp: flow_moves_def)
qed

definition flow_input :: workflow_input where
  "flow_input = \<lparr>wi_CertificateRequestID = ''r1'', wi_CAAccountID = ''ca'', wi_WorkflowType = ''issue''\<rparr>"

definition flow_challenge :: challenge_input where
  "flow_challenge = \<lparr>ci_DomainAssetID = ''d1'', ci_ChallengeType = ''dns-01'', ci_Identifier = ''x.y'', ci_Token = [],
     ci_KeyAuthorization = [], ci_HTTPPath = [], ci_DNSRecordName = ''n'', ci_DNSRecordValue = ''v''\<rparr>"

text \<open>A workflow that placed its order, then got its challenge.\<close>

definition flow_ordered :: workflow_store where
  "flow_ordered = workflow_exec (workflow_exec NewWorkflowService (WoCreate demo_scope flow_input 5 ''w1''))
     (WoRecordOrder demo_scope ''w1'' ''o'' ''f'' 6)"

definition flow_challenged :: workflow_store where
  "flow_challenged = workflow_exec flow_ordered (WoEnsureChallenges demo_scope ''w1'' [flow_challenge] 7 (\<lambda>_. ''c1''))"

lemma flow_step_reachable: "flows_reachable st \<Longrightarrow> workflow_op_ok st c \<Longrightarrow> flows_reachable (workflow_exec st c)"
  unfolding flows_reachable_def by (rule rtranclp.rtrancl_into_rtrancl) (auto intro: flow_step.intros)

lemma flow_ordered_reachable: "flows_reachable flow_ordered"
proof -
  have "flows_reachable NewWorkflowService" by (simp add: flows_reachable_def)
  moreover have "workflow_op_ok NewWorkflowService (WoCreate demo_scope flow_input 5 ''w1'')" by (simp add: NewWorkflowService_def)
  ultimately have "flows_reachable (workflow_exec NewWorkflowService (WoCreate demo_scope flow_input 5 ''w1''))"
    by (rule flow_step_reachable)
  then show ?thesis unfolding flow_ordered_def by (rule flow_step_reachable) simp
qed

lemma flow_challenged_reachable: "flows_reachable flow_challenged"
  unfolding flow_challenged_def by (rule flow_step_reachable [OF flow_ordered_reachable]) simp

lemma flow_ordered_at: "\<exists>w. mget (ws_byID flow_ordered) ''w1'' = Some w \<and> wf_Status w = WfOrderPending \<and> wf_Scope w = demo_scope"
  "mslice (ws_challenges flow_ordered) ''w1'' = []"
  by (simp_all add: flow_ordered_def workflow_Create_def NewWorkflowService_def flow_input_def workflow_RecordOrder_def
      updateWorkflow_def guarded_def Let_def scoped_get_def mslice_def)

lemma flow_challenged_made: "\<exists>items w. workflow_EnsureChallenges flow_ordered demo_scope ''w1'' [flow_challenge] 7 (\<lambda>_. ''c1'') =
    (Inr (items, w), flow_challenged)"
proof -
  obtain w where w: "mget (ws_byID flow_ordered) ''w1'' = Some w" "wf_Status w = WfOrderPending" "wf_Scope w = demo_scope"
    using flow_ordered_at(1) by blast
  have "\<exists>items w. fst (workflow_EnsureChallenges flow_ordered demo_scope ''w1'' [flow_challenge] 7 (\<lambda>_. ''c1'')) = Inr (items, w)"
    by (simp add: workflow_EnsureChallenges_def scoped_get_def w flow_ordered_at(2) flow_challenge_def Let_def)
  then show ?thesis unfolding flow_challenged_def workflow_exec.simps by (metis prod.collapse)
qed

theorem workflow_steps_follow_tables_witness:
  "\<exists>w'. mget (ws_byID flow_challenged) ''w1'' = Some w' \<and> flow_ok w' (mslice (ws_challenges flow_challenged) ''w1'') \<and>
    (wf_Status w' = WfOrderPending \<or> canWorkflowTransition WfOrderPending (wf_Status w'))"
proof -
  obtain w where w: "mget (ws_byID flow_ordered) ''w1'' = Some w" "wf_Status w = WfOrderPending" using flow_ordered_at(1) by blast
  have "fresh_id flow_ordered (WoEnsureChallenges demo_scope ''w1'' [flow_challenge] 7 (\<lambda>_. ''c1''))"
    "workflow_op_ok flow_ordered (WoEnsureChallenges demo_scope ''w1'' [flow_challenge] 7 (\<lambda>_. ''c1''))" by simp_all
  from workflow_steps_follow_tables [OF this(1) w(1)] this(2) w(2) flow_ordered_reachable show ?thesis by (auto simp: flow_challenged_def)
qed

text \<open>The challenges of a workflow are made once: after they were made, whatever happens to the
  store next, asking for challenges again, with any other input and new identifiers, returns the
  same challenges with the same tokens and records and leaves the store alone.\<close>

theorem challenges_are_made_once:
  assumes "flows_reachable st" "workflow_EnsureChallenges st sc i inputs now ids = (Inr (items, w), st1)"
    "flow_step\<^sup>*\<^sup>* st1 st2" "inputs2 \<noteq> []"
  shows "\<exists>items2 w2. workflow_EnsureChallenges st2 sc i inputs2 now2 ids2 = (Inr (items2, w2), st2) \<and>
    map ch_key items2 = map ch_key items \<and> same_flow w w2"
proof -
  note wf = flows_reachable_wf [OF assms(1)]
  have s: "flow_step st st1"
    using flow_step.intros [of st "WoEnsureChallenges sc i inputs now ids"] assms(2) by simp
  then have wf1: "flows_wf st1" using flow_step_change change_wf [OF wf] by blast
  have at: "mget (ws_byID st1) i = Some w" "wf_Scope w = sc" "mslice (ws_challenges st1) i = items" "items \<noteq> []"
    using Ensure_cases [of st sc i inputs now ids] assms(2)
    by (auto simp: Let_def dest: make_challenges_ok)
  have "mslice (ws_challenges st1) i \<noteq> []" using at(3,4) by simp
  from flow_steps_keep [OF assms(3) wf1 at(1) this] obtain w2 where
    w2: "mget (ws_byID st2) i = Some w2" "same_flow w w2" "map ch_key (mslice (ws_challenges st2) i) = map ch_key items"
    using at(3) by auto
  have "mslice (ws_challenges st2) i \<noteq> []" using w2(3) at(4) by (metis map_is_Nil_conv)
  moreover have "scoped_get ''workflow'' wf_Scope (ws_byID st2) sc i = Inr w2"
    using w2(1,2) at(2) by (simp add: same_flow_def)
  ultimately have "workflow_EnsureChallenges st2 sc i inputs2 now2 ids2 = (Inr (mslice (ws_challenges st2) i, w2), st2)"
    using assms(4) w2(1,2) at(2) by (simp add: workflow_EnsureChallenges_def scoped_get_def same_flow_def)
  with w2 show ?thesis by blast
qed

theorem challenges_are_made_once_witness:
  "\<exists>items w items2 w2. workflow_EnsureChallenges flow_ordered demo_scope ''w1'' [flow_challenge] 7 (\<lambda>_. ''c1'') = (Inr (items, w), flow_challenged) \<and>
     workflow_EnsureChallenges flow_challenged demo_scope ''w1'' [flow_challenge\<lparr>ci_Token := ''z''\<rparr>] 9 (\<lambda>_. ''c2'') =
       (Inr (items2, w2), flow_challenged) \<and> map ch_key items2 = map ch_key items"
proof -
  obtain items w where m: "workflow_EnsureChallenges flow_ordered demo_scope ''w1'' [flow_challenge] 7 (\<lambda>_. ''c1'') = (Inr (items, w), flow_challenged)"
    using flow_challenged_made by blast
  from challenges_are_made_once [OF flow_ordered_reachable m rtranclp.rtrancl_refl, of "[flow_challenge\<lparr>ci_Token := ''z''\<rparr>]" 9 "\<lambda>_. ''c2''"] m
  show ?thesis by blast
qed

text \<open>C35: workflows and challenges end: whatever calls of the service are made, with any arguments and from any store on, a
  workflow that is stored stays stored, goes through at most seven statuses and never returns to one it left; each of its
  challenges stays in its place with what it proves, goes through at most nine statuses and never returns to one it left;
  and a validated challenge stays validated, so it is never cleaned up. The identifier drawn for a new workflow is fresh.\<close>

theorem workflow_and_challenge_lives_end:
  assumes "is_run any_call (st # sts)" "mget (ws_byID st) i = Some w"
  shows "(\<forall>t \<in> set sts. \<exists>v. mget (ws_byID t) i = Some v \<and> same_flow w v) \<and>
    (let lives = remdups_adj (map (\<lambda>t. wf_Status (workflowAt t i)) (st # sts)) in length lives \<le> 7 \<and> distinct lives) \<and>
    (\<forall>n < length (mslice (ws_challenges st) i).
      (let lives = remdups_adj (map (\<lambda>t. ch_Status (mslice (ws_challenges t) i ! n)) (st # sts)) in length lives \<le> 9 \<and> distinct lives) \<and>
      (\<forall>t \<in> set sts. n < length (mslice (ws_challenges t) i) \<and>
        ch_key (mslice (ws_challenges t) i ! n) = ch_key (mslice (ws_challenges st) i ! n) \<and>
        (ch_Status (mslice (ws_challenges st) i ! n) = ChValid \<longrightarrow> ch_Status (mslice (ws_challenges t) i ! n) = ChValid)))"
proof -
  note h = histories [OF assms refl]
  have wl: "workflow_rank x \<le> 6" and cl: "challenge_rank y \<le> 8" for x y by (cases x, simp_all) (cases y, simp_all)
  note flow = workflow_life.stutter_life [OF conjunct1 [OF h] wl]
  have ch: "length (remdups_adj (map (\<lambda>t. ch_Status (mslice (ws_challenges t) i ! n)) (st # sts))) \<le> 9 \<and>
      distinct (remdups_adj (map (\<lambda>t. ch_Status (mslice (ws_challenges t) i ! n)) (st # sts)))"
    and valid: "\<And>t. t \<in> set sts \<Longrightarrow> ch_Status (mslice (ws_challenges st) i ! n) = ChValid \<Longrightarrow> ch_Status (mslice (ws_challenges t) i ! n) = ChValid"
    if n: "n < length (mslice (ws_challenges st) i)" for n
  proof -
    from h n have r: "is_run (\<lambda>x y. y = x \<or> canChallengeTransition x y) (map (\<lambda>t. ch_Status (mslice (ws_challenges t) i ! n)) (st # sts))" by blast
    from challenge_life.stutter_life [OF r cl] show "length (remdups_adj (map (\<lambda>t. ch_Status (mslice (ws_challenges t) i ! n)) (st # sts))) \<le> 9 \<and>
      distinct (remdups_adj (map (\<lambda>t. ch_Status (mslice (ws_challenges t) i ! n)) (st # sts)))" by simp
    fix t assume t: "t \<in> set sts" and v: "ch_Status (mslice (ws_challenges st) i ! n) = ChValid"
    from challenge_life.stutter_final [OF r [unfolded list.map v]] t show "ch_Status (mslice (ws_challenges t) i ! n) = ChValid" by auto
  qed
  have keys: "n < length (mslice (ws_challenges t) i) \<and> ch_key (mslice (ws_challenges t) i ! n) = ch_key (mslice (ws_challenges st) i ! n)"
    if n: "n < length (mslice (ws_challenges st) i)" and t: "t \<in> set sts" for n t
  proof -
    from n have "mslice (ws_challenges st) i \<noteq> []" by auto
    with h t have m: "map ch_key (mslice (ws_challenges t) i) = map ch_key (mslice (ws_challenges st) i)" by blast
    then have "length (mslice (ws_challenges t) i) = length (mslice (ws_challenges st) i)" by (rule map_eq_imp_length_eq)
    with m n show ?thesis by (metis nth_map)
  qed
  have same: "\<exists>v. mget (ws_byID t) i = Some v \<and> same_flow w v" if "t \<in> set sts" for t using h that by blast
  show ?thesis unfolding Let_def
    using same flow ch valid keys by (intro conjI allI impI ballI) (simp_all del: list.map)
qed

theorem workflow_and_challenge_lives_end_witness:
  "\<exists>w. mget (ws_byID flow_challenged) ''w1'' = Some w \<and> wf_Status w = WfChallengePending \<and>
     (let lives = remdups_adj (map (\<lambda>t. wf_Status (workflowAt t ''w1''))
        [flow_challenged, workflow_exec flow_challenged (WoMarkFailed demo_scope ''w1'' ''e'' ''m'' 8)])
      in lives = [WfChallengePending, WfFailed] \<and> length lives \<le> 7)"
proof -
  have s: "case mget (ws_byID flow_challenged) ''w1'' of Some w \<Rightarrow> wf_Status w = WfChallengePending | None \<Rightarrow> False" by code_simp
  then obtain w where w: "mget (ws_byID flow_challenged) ''w1'' = Some w" "wf_Status w = WfChallengePending" by (auto split: option.splits)
  have "any_call flow_challenged (workflow_exec flow_challenged (WoMarkFailed demo_scope ''w1'' ''e'' ''m'' 8))" by (rule any_call.intros) simp
  then have r: "is_run any_call [flow_challenged, workflow_exec flow_challenged (WoMarkFailed demo_scope ''w1'' ''e'' ''m'' 8)]" by simp
  have l: "remdups_adj (map (\<lambda>t. wf_Status (workflowAt t ''w1''))
        [flow_challenged, workflow_exec flow_challenged (WoMarkFailed demo_scope ''w1'' ''e'' ''m'' 8)]) = [WfChallengePending, WfFailed]" by code_simp
  from workflow_and_challenge_lives_end [OF r w(1), THEN conjunct2, THEN conjunct1] l w show ?thesis by (metis (no_types, lifting))
qed

text \<open>A request has at most one workflow in its scope: the lookup by request finds exactly the
  stored workflow of that request and scope, and creating a second one is refused and changes nothing.
  Scopes are told apart as long as their identifiers hold no slash.\<close>

theorem one_workflow_per_request:
  assumes "flows_reachable st" "\<And>i w. mget (ws_byID st) i = Some w \<Longrightarrow> slash_free (wf_Scope w)" "slash_free sc"
  shows "(workflow_GetByRequest st sc k = Inr w \<longleftrightarrow>
      valid_scope sc \<and> mget (ws_byID st) (wf_ID w) = Some w \<and> wf_Scope w = sc \<and> wf_CertificateRequestID w = TrimSpace k) \<and>
    (workflow_GetByRequest st sc (wi_CertificateRequestID inp) = Inr w \<longrightarrow>
      (\<exists>e. workflow_Create st sc inp now i = (Inl e, st)))"
proof -
  note wf = flows_reachable_wf [OF assms(1)]
  have get: "workflow_GetByRequest st sc k = Inr w \<longleftrightarrow>
      valid_scope sc \<and> mget (ws_byID st) (wf_ID w) = Some w \<and> wf_Scope w = sc \<and> wf_CertificateRequestID w = TrimSpace k" for k w
  proof
    assume "workflow_GetByRequest st sc k = Inr w"
    then obtain l where v: "valid_scope sc" and l: "mget (ws_byRequest st) (envKey sc (TrimSpace k)) = Some l"
      and w: "w = workflowAt st l"
      using invalid_scope_Validate [of sc]
      by (cases "valid_scope sc") (auto simp: workflow_GetByRequest_def envKey_cons split: option.splits)
    from flows_wf_index [OF wf l] obtain q where q: "mget (ws_byID st) l = Some q"
      "envKey sc (TrimSpace k) = envKey (wf_Scope q) (wf_CertificateRequestID q)" .
    from envKey_inj_raw [OF assms(3) assms(2) [OF q(1)] q(2)] flows_wfD(1) [OF wf q(1)] q(1) v w
    show "valid_scope sc \<and> mget (ws_byID st) (wf_ID w) = Some w \<and> wf_Scope w = sc \<and> wf_CertificateRequestID w = TrimSpace k"
      by (simp add: workflowAt_def)
  next
    assume a: "valid_scope sc \<and> mget (ws_byID st) (wf_ID w) = Some w \<and> wf_Scope w = sc \<and> wf_CertificateRequestID w = TrimSpace k"
    then have "mget (ws_byRequest st) (envKey sc (TrimSpace k)) = Some (wf_ID w)"
      using flows_wfD(5) [OF wf, of "wf_ID w" w] by metis
    with a show "workflow_GetByRequest st sc k = Inr w"
      by (simp add: workflow_GetByRequest_def envKey_cons workflowAt_def)
  qed
  have "\<exists>e. workflow_Create st sc inp now i = (Inl e, st)" if g: "workflow_GetByRequest st sc (wi_CertificateRequestID inp) = Inr w"
  proof -
    from g have "mget (ws_byRequest st) (envKey sc (TrimSpace (wi_CertificateRequestID inp))) \<noteq> None"
      using invalid_scope_Validate [of sc]
      by (cases "valid_scope sc") (auto simp: workflow_GetByRequest_def envKey_cons split: option.splits)
    then show ?thesis
      by (cases "scope_Validate sc") (simp_all add: workflow_Create_def Let_def envKey_cons)
  qed
  with get show ?thesis by blast
qed

theorem one_workflow_per_request_witness:
  "\<exists>w e. workflow_GetByRequest flow_ordered demo_scope ''r1'' = Inr w \<and>
     workflow_Create flow_ordered demo_scope flow_input 9 ''w2'' = (Inl e, flow_ordered)"
proof -
  have b: "mget (ws_byRequest flow_ordered) (envKey demo_scope ''r1'') = Some ''w1''"
    "mget (ws_byID flow_ordered) k = Some v \<Longrightarrow> wf_Scope v = demo_scope" for k v
    by (auto simp: flow_ordered_def workflow_Create_def NewWorkflowService_def flow_input_def workflow_RecordOrder_def
      updateWorkflow_def guarded_def Let_def scoped_get_def envKey_cons split: if_splits)
  then have g: "workflow_GetByRequest flow_ordered demo_scope ''r1'' = Inr (workflowAt flow_ordered ''w1'')"
    by (simp add: workflow_GetByRequest_def envKey_cons)
  have i: "wi_CertificateRequestID flow_input = ''r1''" by (simp add: flow_input_def)
  from one_workflow_per_request [OF flow_ordered_reachable _ demo_valid_scope(2), of "''r1''" "workflowAt flow_ordered ''w1''" flow_input 9 "''w2''"] b(2) g i
  show ?thesis by auto
qed

end
