(* ===== verification/CertAsset.thy ===== *)
theory CertAsset
  imports Resource
begin

text \<open>
  Certificate assets and their versions (\<^verbatim>\<open>internal/domain/certificateasset/service.go\<close>): the
  long-lived anchor of a certificate and the immutable material of every issuance. The service keeps
  the assets by identifier, an index by scoped name, and the versions of every asset. Instants and
  new identifiers are arguments.
\<close>

section \<open>Data\<close>

datatype asset_status =
    AsActive | AsExpiring | AsRenewing | AsDeployFail | AsExpired | AsRevoked | AsOrphaned | AsOther string

record asset =
  as_ID :: string
  as_Scope :: scope
  as_Name :: string
  as_Status :: asset_status
  as_CAAccountID :: string
  as_CertificateType :: string
  as_ChallengeType :: string
  as_CommonName :: string
  as_DomainIDs :: "string list"
  as_CurrentVersionID :: string
  as_CreatedAt :: gotime
  as_UpdatedAt :: gotime

record version =
  vs_ID :: string
  vs_AssetID :: string
  vs_VersionNo :: int
  vs_Status :: string
  vs_CertificateRequestID :: string
  vs_IssueWorkflowID :: string
  vs_CertificateRef :: string
  vs_CreatedAt :: gotime
  vs_UpdatedAt :: gotime

record issue_input =
  ii_AssetID :: string
  ii_Name :: string
  ii_CAAccountID :: string
  ii_CertificateType :: string
  ii_ChallengeType :: string
  ii_CommonName :: string
  ii_DomainIDs :: "string list"
  ii_CertificateRequestID :: string
  ii_IssueWorkflowID :: string
  ii_CertificateRef :: string

record asset_store =
  at_byID :: "(string, asset) gomap"
  at_byEnvName :: "(string, string) gomap"
  at_versions :: "(string, version list) gomap"

definition NewAssetService :: asset_store where
  "NewAssetService = \<lparr>at_byID = [], at_byEnvName = [], at_versions = []\<rparr>"

section \<open>Queries and status\<close>

definition asset_List :: "asset_store \<Rightarrow> scope \<Rightarrow> gerror + asset list" where
  "asset_List st sc =
     (case scope_Validate sc of
        Some e \<Rightarrow> Inl e
      | None \<Rightarrow> Inr (sort_key as_Name (filter (\<lambda>a. scope_Equals (as_Scope a) sc) (map snd (at_byID st)))))"

definition asset_Get :: "asset_store \<Rightarrow> scope \<Rightarrow> string \<Rightarrow> gerror + asset" where
  "asset_Get st sc i =
     (case scope_Validate sc of
        Some e \<Rightarrow> Inl e
      | None \<Rightarrow>
          if TrimSpace i = [] then Inl (Err ErrValidation ''asset id required'')
          else scoped_get ''certificate asset'' as_Scope (at_byID st) sc i)"

definition asset_ListVersions :: "asset_store \<Rightarrow> scope \<Rightarrow> string \<Rightarrow> gerror + version list" where
  "asset_ListVersions st sc assetID =
     (case asset_Get st sc assetID of Inl e \<Rightarrow> Inl e | Inr _ \<Rightarrow> Inr (mslice (at_versions st) assetID))"

definition asset_updateStatus ::
  "asset_store \<Rightarrow> scope \<Rightarrow> string \<Rightarrow> asset_status \<Rightarrow> gotime \<Rightarrow> (gerror + asset) \<times> asset_store" where
  "asset_updateStatus st sc assetID status now =
     (case scope_Validate sc of
        Some e \<Rightarrow> (Inl e, st)
      | None \<Rightarrow>
          if TrimSpace assetID = [] then (Inl (Err ErrValidation ''asset id required''), st)
          else (case scoped_get ''certificate asset'' as_Scope (at_byID st) sc assetID of
             Inl e \<Rightarrow> (Inl e, st)
           | Inr a \<Rightarrow>
               let a' = a\<lparr>as_Status := status, as_UpdatedAt := now\<rparr>
               in (Inr a', st\<lparr>at_byID := mput (as_ID a) a' (at_byID st)\<rparr>)))"

definition asset_MarkActive where
  "asset_MarkActive st sc assetID now = asset_updateStatus st sc assetID AsActive now"

definition asset_MarkDeployFailed where
  "asset_MarkDeployFailed st sc assetID now = asset_updateStatus st sc assetID AsDeployFail now"

section \<open>Issuing\<close>

text \<open>The loop over the domain identifiers: trimmed, blank ones refused, duplicates dropped.\<close>

fun normalize_ids :: "string list \<Rightarrow> string list \<Rightarrow> gerror + string list" where
  "normalize_ids [] acc = Inr acc"
| "normalize_ids (d # ds) acc =
     (let domainID = TrimSpace d in
      if domainID = [] then Inl (Err ErrValidation ''domain_id required'')
      else if domainID \<in> set acc then normalize_ids ds acc
      else normalize_ids ds (acc @ [domainID]))"

definition normalizeIssueInput :: "issue_input \<Rightarrow> gerror + issue_input" where
  "normalizeIssueInput inp =
     (let name = normToken (ii_Name inp) in
      if name = [] then Inl (Err ErrValidation ''name required'')
      else if TrimSpace (ii_CAAccountID inp) = [] then Inl (Err ErrValidation ''ca_account_id required'')
      else if TrimSpace (ii_CommonName inp) = [] then Inl (Err ErrValidation ''common_name required'')
      else if TrimSpace (ii_CertificateRef inp) = [] then Inl (Err ErrValidation ''certificate_ref required'')
      else if TrimSpace (ii_CertificateRequestID inp) = [] then Inl (Err ErrValidation ''certificate_request_id required'')
      else if TrimSpace (ii_IssueWorkflowID inp) = [] then Inl (Err ErrValidation ''issue_workflow_id required'')
      else case normalize_ids (ii_DomainIDs inp) [] of
        Inl e \<Rightarrow> Inl e
      | Inr domainIDs \<Rightarrow>
          if length domainIDs = 0 then Inl (Err ErrValidation ''at least one domain required'')
          else Inr \<lparr>ii_AssetID = TrimSpace (ii_AssetID inp), ii_Name = name,
                 ii_CAAccountID = TrimSpace (ii_CAAccountID inp),
                 ii_CertificateType = normToken (ii_CertificateType inp),
                 ii_ChallengeType = normToken (ii_ChallengeType inp),
                 ii_CommonName = normToken (ii_CommonName inp), ii_DomainIDs = domainIDs,
                 ii_CertificateRequestID = TrimSpace (ii_CertificateRequestID inp),
                 ii_IssueWorkflowID = TrimSpace (ii_IssueWorkflowID inp),
                 ii_CertificateRef = TrimSpace (ii_CertificateRef inp)\<rparr>)"

definition zeroAsset :: asset where
  "zeroAsset = \<lparr>as_ID = [], as_Scope = \<lparr>TenantID = [], ProjectID = [], EnvironmentID = []\<rparr>, as_Name = [],
     as_Status = AsOther [], as_CAAccountID = [], as_CertificateType = [], as_ChallengeType = [],
     as_CommonName = [], as_DomainIDs = [], as_CurrentVersionID = [], as_CreatedAt = zeroTime,
     as_UpdatedAt = zeroTime\<rparr>"

definition assetAt :: "asset_store \<Rightarrow> string \<Rightarrow> asset" where
  "assetAt st i = (case mget (at_byID st) i of None \<Rightarrow> zeroAsset | Some a \<Rightarrow> a)"

text \<open>Which asset an issuance belongs to: the named one, the one of that name, or a new one.\<close>

definition choose_asset ::
  "asset_store \<Rightarrow> scope \<Rightarrow> issue_input \<Rightarrow> gotime \<Rightarrow> string \<Rightarrow> gerror + asset \<times> bool \<times> asset_store" where
  "choose_asset st sc n now newAssetID =
     (if ii_AssetID n \<noteq> []
      then (case scoped_get ''certificate asset'' as_Scope (at_byID st) sc (ii_AssetID n) of
              Inl e \<Rightarrow> Inl e | Inr existing \<Rightarrow> Inr (existing, False, st))
      else
        let key = EnvironmentKey sc @ ''/'' @ ii_Name n in
        (case mget (at_byEnvName st) key of
           Some existingID \<Rightarrow> Inr (assetAt st existingID, False, st)
         | None \<Rightarrow>
             Inr (\<lparr>as_ID = newAssetID, as_Scope = sc, as_Name = ii_Name n, as_Status = AsActive,
                   as_CAAccountID = ii_CAAccountID n, as_CertificateType = ii_CertificateType n,
                   as_ChallengeType = ii_ChallengeType n, as_CommonName = ii_CommonName n,
                   as_DomainIDs = ii_DomainIDs n, as_CurrentVersionID = [], as_CreatedAt = now,
                   as_UpdatedAt = now\<rparr>, True, st\<lparr>at_byEnvName := mput key newAssetID (at_byEnvName st)\<rparr>)))"

text \<open>The version of that asset made by the same workflow becomes current again, or a new one is added.\<close>

definition record_version ::
  "asset_store \<Rightarrow> asset \<Rightarrow> issue_input \<Rightarrow> gotime \<Rightarrow> string \<Rightarrow> asset \<times> version \<times> asset_store" where
  "record_version st a n now newVersionID =
     (let versions = mslice (at_versions st) (as_ID a) in
      case find (\<lambda>v. vs_IssueWorkflowID v = ii_IssueWorkflowID n \<and> ii_IssueWorkflowID n \<noteq> []) versions of
        Some v \<Rightarrow>
          let a' = a\<lparr>as_CurrentVersionID := vs_ID v, as_Status := AsActive, as_UpdatedAt := now\<rparr>
          in (a', v, st\<lparr>at_byID := mput (as_ID a) a' (at_byID st)\<rparr>)
      | None \<Rightarrow>
          let v = \<lparr>vs_ID = newVersionID, vs_AssetID = as_ID a,
                vs_VersionNo = int (length versions) + 1, vs_Status = ''issued'',
                vs_CertificateRequestID = ii_CertificateRequestID n,
                vs_IssueWorkflowID = ii_IssueWorkflowID n,
                vs_CertificateRef = ii_CertificateRef n, vs_CreatedAt = now, vs_UpdatedAt = now\<rparr>;
              a' = a\<lparr>as_Status := AsActive, as_CAAccountID := ii_CAAccountID n,
                as_CertificateType := ii_CertificateType n, as_ChallengeType := ii_ChallengeType n,
                as_CommonName := ii_CommonName n, as_DomainIDs := ii_DomainIDs n,
                as_CurrentVersionID := newVersionID,
                as_CreatedAt := (if IsZero (as_CreatedAt a) then now else as_CreatedAt a),
                as_UpdatedAt := now\<rparr>
          in (a', v, st\<lparr>at_byID := mput (as_ID a) a' (at_byID st),
                        at_versions := mput (as_ID a) (versions @ [v]) (at_versions st)\<rparr>))"

definition asset_UpsertIssued ::
  "asset_store \<Rightarrow> scope \<Rightarrow> issue_input \<Rightarrow> gotime \<Rightarrow> string \<Rightarrow> string
   \<Rightarrow> (gerror + asset \<times> version \<times> bool) \<times> asset_store" where
  "asset_UpsertIssued st sc inp now newAssetID newVersionID =
     (case scope_Validate sc of
        Some e \<Rightarrow> (Inl e, st)
      | None \<Rightarrow>
          (case normalizeIssueInput inp of
             Inl e \<Rightarrow> (Inl e, st)
           | Inr n \<Rightarrow>
               (case choose_asset st sc n now newAssetID of
                  Inl e \<Rightarrow> (Inl e, st)
                | Inr (a, created, st1) \<Rightarrow>
                    let (a', v, st2) = record_version st1 a n now newVersionID in (Inr (a', v, created), st2))))"

interpretation asset_scoped: scoped_store "\<lambda>st i. mget (at_byID st) i" as_Scope asset_Get "\<lambda>i. TrimSpace i = []"
proof (unfold_locales, goal_cases)
  case (2 sc st i)
  then show ?case using invalid_scope_Validate by (fastforce simp: asset_Get_def)
next
  case (3 i st sc)
  then show ?case using invalid_scope_Validate [of sc] by (cases "valid_scope sc") (auto simp: asset_Get_def)
qed (simp_all add: asset_Get_def scoped_get_def)

section \<open>The invariant\<close>

definition versions_ok :: "string \<Rightarrow> version list \<Rightarrow> bool" where
  "versions_ok i vs = (map vs_VersionNo vs = [1..int (length vs)] \<and> (\<forall>v \<in> set vs. vs_AssetID v = i) \<and>
     distinct (map vs_IssueWorkflowID vs) \<and> (\<forall>v \<in> set vs. vs_IssueWorkflowID v \<noteq> []))"

definition assets_wf :: "asset_store \<Rightarrow> bool" where
  "assets_wf st =
     ((\<forall>i a. mget (at_byID st) i = Some a \<longrightarrow>
         as_ID a = i \<and> valid_scope (as_Scope a) \<and> as_DomainIDs a \<noteq> [] \<and> distinct (as_DomainIDs a) \<and>
         mget (at_byEnvName st) (envKey (as_Scope a) (as_Name a)) = Some i \<and>
         as_CurrentVersionID a \<in> vs_ID ` set (mslice (at_versions st) i)) \<and>
      (\<forall>k i. mget (at_byEnvName st) k = Some i \<longrightarrow>
         (\<exists>a. mget (at_byID st) i = Some a \<and> k = envKey (as_Scope a) (as_Name a))) \<and>
      (\<forall>i. versions_ok i (mslice (at_versions st) i)) \<and>
      (\<forall>i. mget (at_byID st) i = None \<longrightarrow> mslice (at_versions st) i = []))"

lemma assets_wfD:
  assumes "assets_wf st" "mget (at_byID st) i = Some a"
  shows "as_ID a = i" "valid_scope (as_Scope a)" "as_DomainIDs a \<noteq> []" "distinct (as_DomainIDs a)"
    "mget (at_byEnvName st) (envKey (as_Scope a) (as_Name a)) = Some i"
    "as_CurrentVersionID a \<in> vs_ID ` set (mslice (at_versions st) i)"
  using assms by (auto simp: assets_wf_def)

lemma assets_wf_name:
  assumes "assets_wf st" "mget (at_byEnvName st) k = Some i"
  obtains a where "mget (at_byID st) i = Some a" "k = envKey (as_Scope a) (as_Name a)"
  using assms unfolding assets_wf_def by blast

lemma normalize_ids_ok:
  "normalize_ids ds acc = Inr out \<Longrightarrow> distinct acc \<Longrightarrow>
   distinct out \<and> set out = set acc \<union> TrimSpace ` set ds \<and> (\<forall>d \<in> set out - set acc. d \<noteq> [])"
proof (induction ds arbitrary: acc)
  case (Cons d ds)
  show ?case
  proof (cases "TrimSpace d \<in> set acc")
    case True
    with Cons.prems Cons.IH [of acc] show ?thesis by (auto simp: Let_def split: if_splits)
  next
    case False
    with Cons.prems have r: "normalize_ids ds (acc @ [TrimSpace d]) = Inr out" "TrimSpace d \<noteq> []"
      by (auto simp: Let_def split: if_splits)
    from Cons.IH [OF r(1)] False Cons.prems(2) r(2) show ?thesis by auto
  qed
qed simp

lemma normalizeIssueInput_ok:
  assumes "normalizeIssueInput inp = Inr n"
  shows "ii_Name n \<noteq> []" "ii_DomainIDs n \<noteq> []" "distinct (ii_DomainIDs n)" "ii_IssueWorkflowID n \<noteq> []"
    "ii_IssueWorkflowID n = TrimSpace (ii_IssueWorkflowID inp)" "ii_CertificateRef n \<noteq> []"
    "ii_AssetID n = TrimSpace (ii_AssetID inp)" "ii_Name n = normToken (ii_Name inp)"
    "ii_CertificateRef n = TrimSpace (ii_CertificateRef inp)"
proof -
  note ok = assms [unfolded normalizeIssueInput_def Let_def, simplified result_simps]
  then obtain ids where ids: "normalize_ids (ii_DomainIDs inp) [] = Inr ids" "ids \<noteq> []" "ii_DomainIDs n = ids" by auto
  from normalize_ids_ok [OF ids(1)] ids show "ii_DomainIDs n \<noteq> []" "distinct (ii_DomainIDs n)" by auto
  show "ii_Name n \<noteq> []" "ii_IssueWorkflowID n \<noteq> []" "ii_IssueWorkflowID n = TrimSpace (ii_IssueWorkflowID inp)"
    "ii_CertificateRef n \<noteq> []" "ii_AssetID n = TrimSpace (ii_AssetID inp)" "ii_Name n = normToken (ii_Name inp)"
    "ii_CertificateRef n = TrimSpace (ii_CertificateRef inp)"
    using ok by auto
qed

end
