(* ===== verification/CertAssetProps.thy ===== *)
theory CertAssetProps
  imports CertAsset
begin

text \<open>
  The asset service as a step relation: issuing and the two status changes keep the invariant of the
  store. Claims: the versions of an asset are numbered without gaps and its current version is one
  of them, issuing the same workflow again yields the same asset and version, and an identifier shows
  an asset only inside its scope.
\<close>

section \<open>Issuing keeps the invariant\<close>

lemma envKey_conc: "EnvironmentKey sc @ CHR ''/'' # k = envKey sc k"
  by (simp add: envKey_def)

definition fresh_asset :: "scope \<Rightarrow> issue_input \<Rightarrow> gotime \<Rightarrow> string \<Rightarrow> asset" where
  "fresh_asset sc n now i = \<lparr>as_ID = i, as_Scope = sc, as_Name = ii_Name n, as_Status = AsActive,
     as_CAAccountID = ii_CAAccountID n, as_CertificateType = ii_CertificateType n,
     as_ChallengeType = ii_ChallengeType n, as_CommonName = ii_CommonName n, as_DomainIDs = ii_DomainIDs n,
     as_CurrentVersionID = [], as_CreatedAt = now, as_UpdatedAt = now\<rparr>"

lemma choose_asset_cases:
  assumes wf: "assets_wf st" and c: "choose_asset st sc n now newA = Inr (a, created, st1)"
  shows "(\<not> created \<and> st1 = st \<and> mget (at_byID st) (as_ID a) = Some a \<and>
      (ii_AssetID n \<noteq> [] \<and> as_ID a = ii_AssetID n \<and> as_Scope a = sc \<or>
       ii_AssetID n = [] \<and> mget (at_byEnvName st) (envKey sc (ii_Name n)) = Some (as_ID a))) \<or>
    (created \<and> a = fresh_asset sc n now newA \<and> ii_AssetID n = [] \<and>
      mget (at_byEnvName st) (envKey sc (ii_Name n)) = None \<and>
      st1 = st\<lparr>at_byEnvName := mput (envKey sc (ii_Name n)) newA (at_byEnvName st)\<rparr>)"
proof (cases "ii_AssetID n = []")
  case False
  with c have "scoped_get ''certificate asset'' as_Scope (at_byID st) sc (ii_AssetID n) = Inr a" "\<not> created" "st1 = st"
    by (auto simp: choose_asset_def split: sum.splits)
  with False assets_wfD(1) [OF wf, of "ii_AssetID n" a] show ?thesis by auto
next
  case True
  show ?thesis
  proof (cases "mget (at_byEnvName st) (envKey sc (ii_Name n))")
    case None
    with True c show ?thesis by (auto simp: choose_asset_def Let_def envKey_conc fresh_asset_def)
  next
    case (Some l)
    from assets_wf_name [OF wf Some] obtain b where b: "mget (at_byID st) l = Some b" .
    with Some True c assets_wfD(1) [OF wf b] show ?thesis
      by (auto simp: choose_asset_def Let_def envKey_conc assetAt_def)
  qed
qed

definition issued_version :: "issue_input \<Rightarrow> asset \<Rightarrow> version list \<Rightarrow> gotime \<Rightarrow> string \<Rightarrow> version" where
  "issued_version n a vs now i = \<lparr>vs_ID = i, vs_AssetID = as_ID a, vs_VersionNo = int (length vs) + 1, vs_Status = ''issued'',
     vs_CertificateRequestID = ii_CertificateRequestID n, vs_IssueWorkflowID = ii_IssueWorkflowID n,
     vs_CertificateRef = ii_CertificateRef n, vs_CreatedAt = now, vs_UpdatedAt = now\<rparr>"

text \<open>The version an issuance is recorded as, found or new, and the asset and store after it.\<close>

definition recorded :: "asset_store \<Rightarrow> asset \<Rightarrow> issue_input \<Rightarrow> gotime \<Rightarrow> string \<Rightarrow> asset \<Rightarrow> version \<Rightarrow> asset_store \<Rightarrow> bool" where
  "recorded st a n now newV a' v st' =
     (let vs = mslice (at_versions st) (as_ID a) in
      (v \<in> set vs \<and> vs_IssueWorkflowID v = ii_IssueWorkflowID n \<and> as_DomainIDs a' = as_DomainIDs a \<and>
       st' = st\<lparr>at_byID := mput (as_ID a) a' (at_byID st)\<rparr>) \<or>
      ((\<forall>u \<in> set vs. vs_IssueWorkflowID u \<noteq> ii_IssueWorkflowID n) \<and>
       v = issued_version n a vs now newV \<and> as_DomainIDs a' = ii_DomainIDs n \<and>
       st' = st\<lparr>at_byID := mput (as_ID a) a' (at_byID st), at_versions := mput (as_ID a) (vs @ [v]) (at_versions st)\<rparr>))"

lemma record_version_cases:
  assumes w: "ii_IssueWorkflowID n \<noteq> []" and r: "record_version st a n now newV = (a', v, st')"
  shows "as_ID a' = as_ID a \<and> as_Scope a' = as_Scope a \<and> as_Name a' = as_Name a \<and> as_CurrentVersionID a' = vs_ID v \<and>
    as_Status a' = AsActive \<and> recorded st a n now newV a' v st'"
proof (cases "find (\<lambda>v. vs_IssueWorkflowID v = ii_IssueWorkflowID n \<and> ii_IssueWorkflowID n \<noteq> []) (mslice (at_versions st) (as_ID a))")
  case None
  with w have "\<forall>u \<in> set (mslice (at_versions st) (as_ID a)). vs_IssueWorkflowID u \<noteq> ii_IssueWorkflowID n"
    by (auto simp: find_None_iff)
  with None r show ?thesis by (auto simp: record_version_def recorded_def Let_def issued_version_def)
next
  case (Some u)
  then have "u \<in> set (mslice (at_versions st) (as_ID a))" "vs_IssueWorkflowID u = ii_IssueWorkflowID n"
    by (auto simp: find_Some_iff)
  with Some r show ?thesis by (auto simp: record_version_def recorded_def Let_def)
qed

lemma Upsert_cases:
  assumes "asset_UpsertIssued st sc inp now newA newV = (Inr (a', v, created), st')"
  obtains n a st1 where "valid_scope sc" "normalizeIssueInput inp = Inr n" "choose_asset st sc n now newA = Inr (a, created, st1)"
    "record_version st1 a n now newV = (a', v, st')"
proof -
  note ok = assms [unfolded asset_UpsertIssued_def Let_def, simplified result_simps scope_Validate_None]
  then show ?thesis using that by auto
qed

lemma versions_ok_snoc:
  assumes "versions_ok i vs" "as_ID a = i" "ii_IssueWorkflowID n \<noteq> []" "\<forall>u \<in> set vs. vs_IssueWorkflowID u \<noteq> ii_IssueWorkflowID n"
  shows "versions_ok i (vs @ [issued_version n a vs now newV])"
proof -
  have "[1..int (length vs) + 1] = [1..int (length vs)] @ [int (length vs) + 1]"
    using upto_rec2 [of 1 "int (length vs) + 1"] by simp
  with assms show ?thesis by (auto simp: versions_ok_def issued_version_def add.commute)
qed

lemma recorded_versions:
  assumes "recorded st a n now newV a' v st'" "ii_IssueWorkflowID n \<noteq> []"
  shows "(\<forall>i. versions_ok i (mslice (at_versions st) i)) \<longrightarrow> versions_ok i (mslice (at_versions st') i)"
    "v \<in> set (mslice (at_versions st') (as_ID a))" "i \<noteq> as_ID a \<longrightarrow> mslice (at_versions st') i = mslice (at_versions st) i"
proof -
  from assms(1) consider
    (found) "v \<in> set (mslice (at_versions st) (as_ID a))" "at_versions st' = at_versions st" |
    (new) "\<forall>u \<in> set (mslice (at_versions st) (as_ID a)). vs_IssueWorkflowID u \<noteq> ii_IssueWorkflowID n"
      "v = issued_version n a (mslice (at_versions st) (as_ID a)) now newV"
      "at_versions st' = mput (as_ID a) (mslice (at_versions st) (as_ID a) @ [v]) (at_versions st)"
    by (auto simp: recorded_def Let_def)
  then have "((\<forall>i. versions_ok i (mslice (at_versions st) i)) \<longrightarrow> versions_ok i (mslice (at_versions st') i)) \<and>
    v \<in> set (mslice (at_versions st') (as_ID a)) \<and> (i \<noteq> as_ID a \<longrightarrow> mslice (at_versions st') i = mslice (at_versions st) i)"
  proof cases
    case found
    then show ?thesis by simp
  next
    case new
    show ?thesis
      unfolding new(3) using versions_ok_snoc [OF _ refl assms(2) new(1), where now = now and newV = newV] new(2) by simp
  qed
  then show "(\<forall>i. versions_ok i (mslice (at_versions st) i)) \<longrightarrow> versions_ok i (mslice (at_versions st') i)"
    "v \<in> set (mslice (at_versions st') (as_ID a))" "i \<noteq> as_ID a \<longrightarrow> mslice (at_versions st') i = mslice (at_versions st) i"
    by blast+
qed

lemma Upsert_wf:
  assumes wf: "assets_wf st" and f: "mget (at_byID st) newA = None" "newA \<noteq> []"
    and u: "asset_UpsertIssued st sc inp now newA newV = (Inr (a', v, created), st')"
  shows "assets_wf st' \<and> mget (at_byID st') (as_ID a') = Some a' \<and> v \<in> set (mslice (at_versions st') (as_ID a'))"
proof -
  from Upsert_cases [OF u] obtain n a st1 where n: "valid_scope sc" "normalizeIssueInput inp = Inr n"
    "choose_asset st sc n now newA = Inr (a, created, st1)" "record_version st1 a n now newV = (a', v, st')" .
  from record_version_cases [OF normalizeIssueInput_ok(4) [OF n(2)] n(4)]
  have a': "as_ID a' = as_ID a" "as_Scope a' = as_Scope a" "as_Name a' = as_Name a" "as_CurrentVersionID a' = vs_ID v"
    and rec: "recorded st1 a n now newV a' v st'" by auto
  note r = rec [unfolded recorded_def Let_def]
  note no = normalizeIssueInput_ok [OF n(2)]
  let ?i = "as_ID a"
  have base: "valid_scope (as_Scope a)" "as_DomainIDs a \<noteq> []" "distinct (as_DomainIDs a)"
    "mget (at_byEnvName st1) (envKey (as_Scope a) (as_Name a)) = Some ?i" "at_byID st1 = at_byID st" "at_versions st1 = at_versions st"
    "\<And>k l. mget (at_byEnvName st1) k = Some l \<Longrightarrow> l = ?i \<and> k = envKey (as_Scope a) (as_Name a) \<or>
       (\<exists>b. l \<noteq> ?i \<and> mget (at_byID st) l = Some b \<and> k = envKey (as_Scope b) (as_Name b))"
    "\<And>l b. l \<noteq> ?i \<Longrightarrow> mget (at_byID st) l = Some b \<Longrightarrow> mget (at_byEnvName st1) (envKey (as_Scope b) (as_Name b)) = Some l"
  proof -
    from choose_asset_cases [OF wf n(3)] consider
      (old) "st1 = st" "mget (at_byID st) ?i = Some a" |
      (new) "a = fresh_asset sc n now newA" "mget (at_byEnvName st) (envKey sc (ii_Name n)) = None"
        "st1 = st\<lparr>at_byEnvName := mput (envKey sc (ii_Name n)) newA (at_byEnvName st)\<rparr>"
      by (elim disjE conjE) (rule that; assumption)+
    then have "valid_scope (as_Scope a) \<and> as_DomainIDs a \<noteq> [] \<and> distinct (as_DomainIDs a) \<and>
      mget (at_byEnvName st1) (envKey (as_Scope a) (as_Name a)) = Some ?i \<and> at_byID st1 = at_byID st \<and> at_versions st1 = at_versions st \<and>
      (\<forall>k l. mget (at_byEnvName st1) k = Some l \<longrightarrow> l = ?i \<and> k = envKey (as_Scope a) (as_Name a) \<or>
         (\<exists>b. l \<noteq> ?i \<and> mget (at_byID st) l = Some b \<and> k = envKey (as_Scope b) (as_Name b))) \<and>
      (\<forall>l b. l \<noteq> ?i \<longrightarrow> mget (at_byID st) l = Some b \<longrightarrow> mget (at_byEnvName st1) (envKey (as_Scope b) (as_Name b)) = Some l)"
    proof cases
      case old
      have "l = ?i \<and> k = envKey (as_Scope a) (as_Name a) \<or>
         (\<exists>b. l \<noteq> ?i \<and> mget (at_byID st) l = Some b \<and> k = envKey (as_Scope b) (as_Name b))"
        if k: "mget (at_byEnvName st) k = Some l" for k l
      proof -
        from assets_wf_name [OF wf k] obtain b where "mget (at_byID st) l = Some b" "k = envKey (as_Scope b) (as_Name b)" .
        with old(2) show ?thesis by auto
      qed
      with old assets_wfD [OF wf old(2)] assets_wfD(5) [OF wf] show ?thesis by simp
    next
      case new
      then have id: "?i = newA" "as_Scope a = sc" "as_Name a = ii_Name n" "as_DomainIDs a = ii_DomainIDs n"
        by (simp_all add: fresh_asset_def)
      have "l = newA \<and> k = envKey sc (ii_Name n) \<or>
         (\<exists>b. l \<noteq> newA \<and> mget (at_byID st) l = Some b \<and> k = envKey (as_Scope b) (as_Name b))"
        if k: "mget (at_byEnvName st1) k = Some l" for k l
      proof (cases "k = envKey sc (ii_Name n)")
        case True
        with k new(3) show ?thesis by simp
      next
        case False
        with k new(3) have "mget (at_byEnvName st) k = Some l" by simp
        from assets_wf_name [OF wf this] obtain b where "mget (at_byID st) l = Some b" "k = envKey (as_Scope b) (as_Name b)" .
        with f(1) show ?thesis by auto
      qed
      moreover have "mget (at_byEnvName st1) (envKey (as_Scope b) (as_Name b)) = Some l" if "mget (at_byID st) l = Some b" for l b
        using assets_wfD(5) [OF wf that] new(2,3) by auto
      ultimately show ?thesis using new(3) n(1) no(2,3) id by simp
    qed
    then show "valid_scope (as_Scope a)" "as_DomainIDs a \<noteq> []" "distinct (as_DomainIDs a)"
      "mget (at_byEnvName st1) (envKey (as_Scope a) (as_Name a)) = Some ?i" "at_byID st1 = at_byID st" "at_versions st1 = at_versions st"
      "\<And>k l. mget (at_byEnvName st1) k = Some l \<Longrightarrow> l = ?i \<and> k = envKey (as_Scope a) (as_Name a) \<or>
         (\<exists>b. l \<noteq> ?i \<and> mget (at_byID st) l = Some b \<and> k = envKey (as_Scope b) (as_Name b))"
      "\<And>l b. l \<noteq> ?i \<Longrightarrow> mget (at_byID st) l = Some b \<Longrightarrow> mget (at_byEnvName st1) (envKey (as_Scope b) (as_Name b)) = Some l"
      by blast+
  qed
  have dom: "as_DomainIDs a' \<noteq> []" "distinct (as_DomainIDs a')" using r base(2,3) no(2,3) by auto
  have vok: "\<forall>i. versions_ok i (mslice (at_versions st1) i)" using wf base(6) by (simp add: assets_wf_def)
  have vs': "versions_ok i (mslice (at_versions st') i)" "v \<in> set (mslice (at_versions st') ?i)"
    "i \<noteq> ?i \<Longrightarrow> mslice (at_versions st') i = mslice (at_versions st) i" for i
    using recorded_versions(1) [OF rec no(4), where i = i] recorded_versions(2) [OF rec no(4)]
      recorded_versions(3) [OF rec no(4), where i = i] vok base(6) by simp_all
  have st': "at_byID st' = mput ?i a' (at_byID st)" "at_byEnvName st' = at_byEnvName st1" using r base(5) by auto
  have "assets_wf st'"
    unfolding assets_wf_def
  proof (intro conjI allI impI)
    fix k l assume "mget (at_byEnvName st') k = Some l"
    with st'(2) base(7) [of k l] show "\<exists>b. mget (at_byID st') l = Some b \<and> k = envKey (as_Scope b) (as_Name b)"
      using st'(1) a' by auto
  next
    fix i b assume b: "mget (at_byID st') i = Some b"
    show "mget (at_byEnvName st') (envKey (as_Scope b) (as_Name b)) = Some i"
      using b st' base(4,8) a' by (cases "i = ?i") auto
    show "as_CurrentVersionID b \<in> vs_ID ` set (mslice (at_versions st') i)"
      using b st'(1) a'(4) vs'(2) vs'(3) [of i] assets_wfD(6) [OF wf, of i b] by (cases "i = ?i") auto
    show "as_ID b = i" "valid_scope (as_Scope b)" "as_DomainIDs b \<noteq> []" "distinct (as_DomainIDs b)"
      using b st'(1) a' base(1) dom assets_wfD(1-4) [OF wf, of i b] by (auto split: if_splits)
  next
    fix i assume "mget (at_byID st') i = None"
    then have "i \<noteq> ?i" "mget (at_byID st) i = None" using st'(1) by (auto split: if_splits)
    with vs'(3) wf show "mslice (at_versions st') i = []" by (simp add: assets_wf_def)
  qed (rule vs'(1))
  with st'(1) vs'(2) a'(1) show ?thesis by simp
qed


section \<open>Reachable asset stores\<close>

inductive asset_step :: "asset_store \<Rightarrow> asset_store \<Rightarrow> bool" where
  issued: "mget (at_byID st) newA = None \<Longrightarrow> newA \<noteq> [] \<Longrightarrow>
    asset_UpsertIssued st sc inp now newA newV = (r, st') \<Longrightarrow> asset_step st st'"
| active: "asset_MarkActive st sc i now = (r, st') \<Longrightarrow> asset_step st st'"
| deploy_failed: "asset_MarkDeployFailed st sc i now = (r, st') \<Longrightarrow> asset_step st st'"

inductive asset_reachable :: "asset_store \<Rightarrow> bool" where
  start: "asset_reachable NewAssetService"
| step: "asset_reachable st \<Longrightarrow> asset_step st st' \<Longrightarrow> asset_reachable st'"

lemma Upsert_err: "asset_UpsertIssued st sc inp now newA newV = (Inl e, st') \<Longrightarrow> st' = st"
  by (auto simp: asset_UpsertIssued_def Let_def split: option.splits sum.splits prod.splits)

lemma updateStatus_cases:
  assumes "asset_updateStatus st sc i s now = (r, st')"
  shows "st' = st \<or> (\<exists>a. mget (at_byID st) i = Some a \<and>
    st' = st\<lparr>at_byID := mput (as_ID a) (a\<lparr>as_Status := s, as_UpdatedAt := now\<rparr>) (at_byID st)\<rparr>)"
  using assms by (auto simp: asset_updateStatus_def Let_def split: option.splits sum.splits if_splits)

lemma updateStatus_wf:
  assumes wf: "assets_wf st" and u: "asset_updateStatus st sc i s now = (r, st')"
  shows "assets_wf st'"
  using updateStatus_cases [OF u]
proof (elim disjE exE conjE)
  fix a assume a: "mget (at_byID st) i = Some a"
    and st': "st' = st\<lparr>at_byID := mput (as_ID a) (a\<lparr>as_Status := s, as_UpdatedAt := now\<rparr>) (at_byID st)\<rparr>"
  from wf a st' show ?thesis
    unfolding assets_wf_def by (auto 0 3)
qed (simp add: wf)

lemma asset_step_wf: "asset_step st st' \<Longrightarrow> assets_wf st \<Longrightarrow> assets_wf st'"
proof (induction rule: asset_step.induct)
  case (issued st newA sc inp now newV r st')
  show ?case
  proof (cases r)
    case (Inl e)
    with issued(3) have "st' = st" by (simp add: Upsert_err)
    with issued(4) show ?thesis by simp
  next
    case (Inr x)
    obtain a v c where "x = (a, v, c)" by (cases x)
    with Inr issued Upsert_wf show ?thesis by metis
  qed
qed (auto simp: asset_MarkActive_def asset_MarkDeployFailed_def dest: updateStatus_wf)

lemma asset_reachable_wf: "asset_reachable st \<Longrightarrow> assets_wf st"
proof (induction rule: asset_reachable.induct)
  case start
  show ?case by (simp add: assets_wf_def NewAssetService_def versions_ok_def mslice_def)
qed (rule asset_step_wf)


section \<open>Properties\<close>

definition demo_issue :: issue_input where
  "demo_issue = \<lparr>ii_AssetID = [], ii_Name = ''x.y'', ii_CAAccountID = ''ca'', ii_CertificateType = ''single'',
     ii_ChallengeType = ''dns-01'', ii_CommonName = ''x.y'', ii_DomainIDs = [''d1''], ii_CertificateRequestID = ''r1'',
     ii_IssueWorkflowID = ''w1'', ii_CertificateRef = ''cert''\<rparr>"

definition demo_assets :: asset_store where
  "demo_assets = snd (asset_UpsertIssued NewAssetService demo_scope demo_issue 7 ''a1'' ''v1'')"

lemma demo_issued:
  "\<exists>a v. asset_UpsertIssued NewAssetService demo_scope demo_issue 7 ''a1'' ''v1'' = (Inr (a, v, True), demo_assets) \<and>
     as_Scope a = demo_scope \<and> as_ID a = ''a1''"
proof -
  have "\<exists>a v st. asset_UpsertIssued NewAssetService demo_scope demo_issue 7 ''a1'' ''v1'' = (Inr (a, v, True), st) \<and>
     as_Scope a = demo_scope \<and> as_ID a = ''a1''"
    by (simp add: asset_UpsertIssued_def demo_valid_scope normalizeIssueInput_def demo_issue_def Let_def choose_asset_def
        NewAssetService_def record_version_def mslice_def)
  then show ?thesis by (auto simp: demo_assets_def)
qed

lemma demo_assets_reachable: "asset_reachable demo_assets"
proof -
  obtain a v where "asset_UpsertIssued NewAssetService demo_scope demo_issue 7 ''a1'' ''v1'' = (Inr (a, v, True), demo_assets)"
    using demo_issued by blast
  then have "asset_step NewAssetService demo_assets"
    by (rule asset_step.issued [rotated 2]) (simp_all add: NewAssetService_def)
  then show ?thesis by (rule asset_reachable.step [OF asset_reachable.start])
qed

lemma demo_asset_visible: "\<exists>a. asset_Get demo_assets demo_scope ''a1'' = Inr a"
proof -
  obtain a v where a: "asset_UpsertIssued NewAssetService demo_scope demo_issue 7 ''a1'' ''v1'' = (Inr (a, v, True), demo_assets)"
    "as_Scope a = demo_scope" "as_ID a = ''a1''"
    using demo_issued by blast
  have "assets_wf NewAssetService" by (rule asset_reachable_wf [OF asset_reachable.start])
  from Upsert_wf [OF this _ _ a(1)] a have "mget (at_byID demo_assets) ''a1'' = Some a" by (simp add: NewAssetService_def)
  with a demo_valid_scope show ?thesis by (auto simp: asset_scoped.get_ok_iff)
qed

text \<open>C36: the version history of an asset: whatever sequence of issuances and status changes led to a
  store, listing the versions of an asset succeeds exactly when the asset is visible in the scope, and
  then the versions all belong to it, are numbered 1, 2, 3, and so on in order, no two of them stem
  from the same issue workflow, and the asset's current version is one of them.\<close>

theorem asset_versions_form_a_history:
  assumes "asset_reachable st"
  shows "((\<exists>vs. asset_ListVersions st sc i = Inr vs) \<longleftrightarrow> (\<exists>a. asset_Get st sc i = Inr a)) \<and>
    (asset_ListVersions st sc i = Inr vs \<longrightarrow>
       map vs_VersionNo vs = [1..int (length vs)] \<and> (\<forall>v \<in> set vs. vs_AssetID v = i) \<and>
       distinct (map vs_IssueWorkflowID vs) \<and>
       (\<exists>a v. asset_Get st sc i = Inr a \<and> as_ID a = i \<and> v \<in> set vs \<and> as_CurrentVersionID a = vs_ID v))"
proof (intro conjI impI)
  show "(\<exists>vs. asset_ListVersions st sc i = Inr vs) \<longleftrightarrow> (\<exists>a. asset_Get st sc i = Inr a)"
    by (auto simp: asset_ListVersions_def split: sum.splits)
  assume "asset_ListVersions st sc i = Inr vs"
  then obtain a where a: "asset_Get st sc i = Inr a" and vs: "vs = mslice (at_versions st) i"
    by (auto simp: asset_ListVersions_def split: sum.splits)
  note wf = asset_reachable_wf [OF assms]
  from a have m: "mget (at_byID st) i = Some a" by (simp add: asset_scoped.get_ok_iff)
  from wf have "versions_ok i vs" by (simp add: vs assets_wf_def)
  then show "map vs_VersionNo vs = [1..int (length vs)]" "\<forall>v \<in> set vs. vs_AssetID v = i" "distinct (map vs_IssueWorkflowID vs)"
    by (simp_all add: versions_ok_def)
  show "\<exists>a v. asset_Get st sc i = Inr a \<and> as_ID a = i \<and> v \<in> set vs \<and> as_CurrentVersionID a = vs_ID v"
    using a assets_wfD(1,6) [OF wf m] vs by auto
qed

theorem asset_versions_form_a_history_witness:
  "\<exists>vs. asset_ListVersions demo_assets demo_scope ''a1'' = Inr vs \<and> map vs_VersionNo vs = [1..int (length vs)]"
proof -
  note h = asset_versions_form_a_history [OF demo_assets_reachable, of demo_scope "''a1''"]
  from h [THEN conjunct1] demo_asset_visible obtain vs where vs: "asset_ListVersions demo_assets demo_scope ''a1'' = Inr vs" by blast
  with h [of vs, THEN conjunct2] show ?thesis by blast
qed

lemma choose_asset_again:
  assumes wf: "assets_wf st" "assets_wf st'" and c: "choose_asset st sc n now newA = Inr (a, created, st1)"
    and a': "mget (at_byID st') (as_ID a) = Some a'" "as_Scope a' = as_Scope a" "as_Name a' = as_Name a"
    and n: "at_byEnvName st' = at_byEnvName st1"
  shows "choose_asset st' sc n now' newA' = Inr (a', False, st')"
proof (cases "ii_AssetID n = []")
  case True
  from choose_asset_cases [OF wf(1) c] True n have "mget (at_byEnvName st') (envKey sc (ii_Name n)) = Some (as_ID a)"
    by (auto simp: fresh_asset_def)
  with True a'(1) show ?thesis by (simp add: choose_asset_def Let_def envKey_conc assetAt_def)
next
  case False
  with choose_asset_cases [OF wf(1) c] have "as_ID a = ii_AssetID n" "as_Scope a = sc" by auto
  with a' have "mget (at_byID st') (ii_AssetID n) = Some a'" "sc = as_Scope a'" by simp_all
  with False show ?thesis by (simp add: choose_asset_def)
qed

lemma find_workflow:
  assumes "distinct (map vs_IssueWorkflowID vs)" "v \<in> set vs" "vs_IssueWorkflowID v = w" "w \<noteq> []"
  shows "find (\<lambda>v. vs_IssueWorkflowID v = w \<and> w \<noteq> []) vs = Some v"
proof (cases "find (\<lambda>v. vs_IssueWorkflowID v = w \<and> w \<noteq> []) vs")
  case None
  with assms show ?thesis by (auto simp: find_None_iff)
next
  case (Some u)
  then have "u \<in> set vs" "vs_IssueWorkflowID u = w" by (auto simp: find_Some_iff)
  with assms Some show ?thesis by (auto simp: distinct_map dest: inj_onD)
qed

lemma recorded_workflow: "recorded st a n now newV a' v st' \<Longrightarrow> vs_IssueWorkflowID v = ii_IssueWorkflowID n"
  by (auto simp: recorded_def Let_def issued_version_def)

lemma recorded_names: "recorded st a n now newV a' v st' \<Longrightarrow> at_byEnvName st' = at_byEnvName st"
  by (auto simp: recorded_def Let_def)

lemma record_version_again:
  assumes "find (\<lambda>v. vs_IssueWorkflowID v = ii_IssueWorkflowID n \<and> ii_IssueWorkflowID n \<noteq> []) (mslice (at_versions st) (as_ID a)) = Some v"
  shows "\<exists>a' st'. record_version st a n now newV = (a', v, st') \<and> as_ID a' = as_ID a \<and> at_versions st' = at_versions st"
  using assms by (simp add: record_version_def Let_def)

text \<open>Issuing is idempotent per workflow: when the same issuance is recorded a second time, as
  after a crash between persisting the asset and completing the request, no asset is created, the
  same asset and the very same version come back, and no version is added to any history.\<close>

theorem issuing_twice_is_issuing_once:
  assumes "asset_reachable st" "mget (at_byID st) newA = None" "newA \<noteq> []"
    "asset_UpsertIssued st sc inp now newA newV = (Inr (a, v, created), st')"
  shows "\<exists>a2 st2. asset_UpsertIssued st' sc inp now' newA' newV' = (Inr (a2, v, False), st2) \<and>
    as_ID a2 = as_ID a \<and> at_versions st2 = at_versions st'"
proof -
  note wf = asset_reachable_wf [OF assms(1)]
  from Upsert_wf [OF wf assms(2-4)] have wf': "assets_wf st'" and a: "mget (at_byID st') (as_ID a) = Some a"
    and v: "v \<in> set (mslice (at_versions st') (as_ID a))" by auto
  from Upsert_cases [OF assms(4)] obtain n b st1 where n: "valid_scope sc" "normalizeIssueInput inp = Inr n"
    "choose_asset st sc n now newA = Inr (b, created, st1)" "record_version st1 b n now newV = (a, v, st')" .
  note w = normalizeIssueInput_ok(4) [OF n(2)]
  from record_version_cases [OF w n(4)] have b: "as_ID a = as_ID b" "as_Scope a = as_Scope b" "as_Name a = as_Name b"
    and rec: "recorded st1 b n now newV a v st'" by auto
  from choose_asset_again [OF wf wf' n(3) a [unfolded b(1)] b(2,3) recorded_names [OF rec]]
  have c: "choose_asset st' sc n now' newA' = Inr (a, False, st')" .
  from wf' have "versions_ok (as_ID a) (mslice (at_versions st') (as_ID a))" by (simp add: assets_wf_def)
  then have "distinct (map vs_IssueWorkflowID (mslice (at_versions st') (as_ID a)))" by (simp add: versions_ok_def)
  from record_version_again [OF find_workflow [OF this v recorded_workflow [OF rec] w]]
  obtain a2 st2 where "record_version st' a n now' newV' = (a2, v, st2)" "as_ID a2 = as_ID a" "at_versions st2 = at_versions st'"
    by blast
  with n(1,2) c show ?thesis by (simp add: asset_UpsertIssued_def Let_def)
qed

theorem issuing_twice_is_issuing_once_witness:
  "\<exists>v a2 st2. asset_UpsertIssued demo_assets demo_scope demo_issue 8 ''a2'' ''v2'' = (Inr (a2, v, False), st2) \<and>
     as_ID a2 = ''a1'' \<and> at_versions st2 = at_versions demo_assets"
proof -
  obtain a v where a: "asset_UpsertIssued NewAssetService demo_scope demo_issue 7 ''a1'' ''v1'' = (Inr (a, v, True), demo_assets)"
    "as_ID a = ''a1''" using demo_issued by blast
  from issuing_twice_is_issuing_once [OF asset_reachable.start _ _ a(1), of 8 "''a2''" "''v2''"] a(2)
  show ?thesis by (auto simp: NewAssetService_def)
qed

end
