(* ===== verification/Domains.thy ===== *)
theory Domains
  imports Resource
begin

text \<open>
  Domain governance (\<^verbatim>\<open>internal/domain/domains/service.go\<close>): the long-lived records of the domains an
  environment may ask certificates for, their histories and the certificates they appear in. The
  service keeps the assets by identifier and an index by scoped name. Instants and new identifiers are
  arguments.
\<close>

section \<open>Data\<close>

record domain_asset =
  da_ID :: string
  da_Scope :: scope
  da_DomainName :: string
  da_DomainType :: string
  da_DefaultChallengeType :: string
  da_DefaultDNSProvider :: string
  da_DNSCredentialID :: string
  da_AllowWildcard :: bool
  da_AutoRenew :: bool
  da_Status :: string
  da_LastValidationStatus :: string
  da_LastValidatedAt :: "gotime option"
  da_CreatedAt :: gotime
  da_UpdatedAt :: gotime

record validation_record =
  vr_ID :: string
  vr_Scope :: scope
  vr_DomainAssetID :: string
  vr_ValidationType :: string
  vr_ProviderType :: string
  vr_WorkflowChallengeID :: string
  vr_JobID :: string
  vr_Status :: string
  vr_LatencyMS :: "int option"
  vr_ErrorCode :: string
  vr_ErrorMessage :: string
  vr_ValidatedAt :: "gotime option"
  vr_CreatedAt :: gotime
  vr_UpdatedAt :: gotime

record txt_operation =
  tx_ID :: string
  tx_Scope :: scope
  tx_DomainAssetID :: string
  tx_ValidationRecordID :: string
  tx_ProviderType :: string
  tx_OperationType :: string
  tx_RecordName :: string
  tx_RecordType :: string
  tx_RecordValueDigest :: string
  tx_TTL :: int
  tx_Status :: string
  tx_ErrorCode :: string
  tx_ErrorMessage :: string
  tx_ExecutedAt :: "gotime option"
  tx_CreatedAt :: gotime
  tx_UpdatedAt :: gotime

record cert_ref =
  cr_ID :: string
  cr_Name :: string
  cr_Status :: string
  cr_ExpiresAt :: "gotime option"

record domain_input =
  di_Name :: string
  di_ChallengeType :: string
  di_AutoRenew :: bool
  di_DNSCredentialID :: string
  di_DNSProvider :: string

record domain_store =
  ds_byID :: "(string, domain_asset) gomap"
  ds_byEnvDomain :: "(string, string) gomap"
  ds_validationByDomain :: "(string, validation_record list) gomap"
  ds_txtOpsByDomain :: "(string, txt_operation list) gomap"
  ds_certsByDomain :: "(string, cert_ref list) gomap"

definition NewDomainService :: domain_store where
  "NewDomainService = \<lparr>ds_byID = [], ds_byEnvDomain = [], ds_validationByDomain = [], ds_txtOpsByDomain = [],
     ds_certsByDomain = []\<rparr>"

section \<open>Validation\<close>

definition normalizeDomain :: "string \<Rightarrow> string" where
  "normalizeDomain name = TrimSuffix (normToken name) ''.''"

text \<open>The normalized name, the domain type and whether wildcards are allowed.\<close>

definition domain_validateInput :: "domain_input \<Rightarrow> gerror + string \<times> string \<times> bool" where
  "domain_validateInput inp =
     (let name = normalizeDomain (di_Name inp) in
      if name = [] then Inl (Err ErrValidation ''name required'')
      else
        let challengeType = normToken (di_ChallengeType inp) in
        if challengeType \<noteq> ''http-01'' \<and> challengeType \<noteq> ''dns-01''
        then Inl (Err ErrValidation ''unsupported challenge_type'')
        else if HasPrefix name ''*.''
        then (if challengeType \<noteq> ''dns-01''
              then Inl (Err ErrValidation ''wildcard domain requires dns-01 challenge'')
              else Inr (name, ''wildcard_root'', True))
        else Inr (name, ''single'', False))"

section \<open>Queries\<close>

definition domain_List :: "domain_store \<Rightarrow> scope \<Rightarrow> gerror + domain_asset list" where
  "domain_List st sc =
     (case scope_Validate sc of
        Some e \<Rightarrow> Inl e
      | None \<Rightarrow> Inr (sort_key da_DomainName (filter (\<lambda>a. scope_Equals (da_Scope a) sc) (map snd (ds_byID st)))))"

definition domain_Get :: "domain_store \<Rightarrow> scope \<Rightarrow> string \<Rightarrow> gerror + domain_asset" where
  "domain_Get st sc i =
     (case scope_Validate sc of
        Some e \<Rightarrow> Inl e
      | None \<Rightarrow>
          if TrimSpace i = [] then Inl (Err ErrValidation ''domain id required'')
          else scoped_get ''domain'' da_Scope (ds_byID st) sc i)"

text \<open>Newest first, then by identifier.\<close>

definition domain_ListValidationRecords :: "domain_store \<Rightarrow> scope \<Rightarrow> string \<Rightarrow> gerror + validation_record list" where
  "domain_ListValidationRecords st sc domainID =
     (case domain_Get st sc domainID of
        Inl e \<Rightarrow> Inl e
      | Inr _ \<Rightarrow> Inr (sort_key (\<lambda>r. (- vr_CreatedAt r, vr_ID r)) (mslice (ds_validationByDomain st) domainID)))"

definition domain_ListTXTOperations :: "domain_store \<Rightarrow> scope \<Rightarrow> string \<Rightarrow> gerror + txt_operation list" where
  "domain_ListTXTOperations st sc domainID =
     (case domain_Get st sc domainID of
        Inl e \<Rightarrow> Inl e
      | Inr _ \<Rightarrow> Inr (sort_key (\<lambda>r. (- tx_CreatedAt r, tx_ID r)) (mslice (ds_txtOpsByDomain st) domainID)))"

definition domain_ListCertificateAssets :: "domain_store \<Rightarrow> scope \<Rightarrow> string \<Rightarrow> gerror + cert_ref list" where
  "domain_ListCertificateAssets st sc domainID =
     (case domain_Get st sc domainID of
        Inl e \<Rightarrow> Inl e
      | Inr _ \<Rightarrow> Inr (mslice (ds_certsByDomain st) domainID))"

section \<open>Operations\<close>

definition domain_Create ::
  "domain_store \<Rightarrow> scope \<Rightarrow> domain_input \<Rightarrow> gotime \<Rightarrow> string \<Rightarrow> (gerror + domain_asset) \<times> domain_store" where
  "domain_Create st sc inp now newID =
     (case scope_Validate sc of
        Some e \<Rightarrow> (Inl e, st)
      | None \<Rightarrow>
          (case domain_validateInput inp of
             Inl e \<Rightarrow> (Inl e, st)
           | Inr (name, domainType, allowWildcard) \<Rightarrow>
               let asset = \<lparr>da_ID = newID, da_Scope = sc, da_DomainName = name, da_DomainType = domainType,
                     da_DefaultChallengeType = normToken (di_ChallengeType inp),
                     da_DefaultDNSProvider = normToken (di_DNSProvider inp),
                     da_DNSCredentialID = TrimSpace (di_DNSCredentialID inp),
                     da_AllowWildcard = allowWildcard, da_AutoRenew = di_AutoRenew inp, da_Status = ''active'',
                     da_LastValidationStatus = [], da_LastValidatedAt = None,
                     da_CreatedAt = now, da_UpdatedAt = now\<rparr>;
                   key = EnvironmentKey sc @ ''/'' @ name in
               if mget (ds_byEnvDomain st) key \<noteq> None
               then (Inl (Err ErrConflict ''domain already exists under environment''), st)
               else (Inr asset, st\<lparr>ds_byID := mput newID asset (ds_byID st),
                                   ds_byEnvDomain := mput key newID (ds_byEnvDomain st)\<rparr>)))"

text \<open>
  A rename is checked against the index before the index moves the old name to the new one.
\<close>

definition rename_taken :: "domain_store \<Rightarrow> domain_asset \<Rightarrow> string \<Rightarrow> string \<Rightarrow> bool" where
  "rename_taken st a oldKey newKey =
     (newKey \<noteq> oldKey \<and>
      (case mget (ds_byEnvDomain st) newKey of None \<Rightarrow> False | Some existingID \<Rightarrow> existingID \<noteq> da_ID a))"

definition rename_index :: "(string, string) gomap \<Rightarrow> string \<Rightarrow> string \<Rightarrow> string \<Rightarrow> (string, string) gomap" where
  "rename_index m i oldKey newKey = (if newKey \<noteq> oldKey then mput newKey i (mdel oldKey m) else m)"

definition domain_apply :: "domain_asset \<Rightarrow> string \<Rightarrow> string \<Rightarrow> bool \<Rightarrow> domain_input \<Rightarrow> gotime \<Rightarrow> domain_asset" where
  "domain_apply a name domainType allowWildcard inp now =
     a\<lparr>da_DomainName := name, da_DomainType := domainType,
       da_DefaultChallengeType := normToken (di_ChallengeType inp),
       da_DNSCredentialID := TrimSpace (di_DNSCredentialID inp),
       da_DefaultDNSProvider := normToken (di_DNSProvider inp),
       da_AllowWildcard := allowWildcard, da_AutoRenew := di_AutoRenew inp, da_UpdatedAt := now\<rparr>"

definition domain_Update ::
  "domain_store \<Rightarrow> scope \<Rightarrow> string \<Rightarrow> domain_input \<Rightarrow> gotime \<Rightarrow> (gerror + domain_asset) \<times> domain_store" where
  "domain_Update st sc i inp now =
     (case scope_Validate sc of
        Some e \<Rightarrow> (Inl e, st)
      | None \<Rightarrow>
          (case domain_validateInput inp of
             Inl e \<Rightarrow> (Inl e, st)
           | Inr (name, domainType, allowWildcard) \<Rightarrow>
               (case scoped_get ''domain'' da_Scope (ds_byID st) sc i of
                  Inl e \<Rightarrow> (Inl e, st)
                | Inr a \<Rightarrow>
                    let oldKey = EnvironmentKey (da_Scope a) @ ''/'' @ da_DomainName a;
                        newKey = EnvironmentKey (da_Scope a) @ ''/'' @ name in
                    if rename_taken st a oldKey newKey
                    then (Inl (Err ErrConflict ''domain already exists under environment''), st)
                    else
                      let a' = domain_apply a name domainType allowWildcard inp now
                      in (Inr a', st\<lparr>ds_byID := mput (da_ID a) a' (ds_byID st),
                                     ds_byEnvDomain := rename_index (ds_byEnvDomain st) (da_ID a) oldKey newKey\<rparr>))))"

definition domain_BindDNSCredential ::
  "domain_store \<Rightarrow> scope \<Rightarrow> string \<Rightarrow> string \<Rightarrow> string \<Rightarrow> gotime \<Rightarrow> (gerror + domain_asset) \<times> domain_store" where
  "domain_BindDNSCredential st sc domainID credentialID provider now =
     (case scoped_get ''domain'' da_Scope (ds_byID st) sc domainID of
        Inl e \<Rightarrow> (Inl e, st)
      | Inr asset \<Rightarrow>
          if TrimSpace credentialID = [] then (Inl (Err ErrValidation ''dns_credential_id required''), st)
          else
            let asset' = asset\<lparr>da_DNSCredentialID := TrimSpace credentialID,
                  da_DefaultDNSProvider := normToken provider, da_UpdatedAt := now\<rparr>
            in (Inr asset', st\<lparr>ds_byID := mput (da_ID asset) asset' (ds_byID st)\<rparr>))"

text \<open>The loop over the references: the first one with this identifier is replaced, else one is appended.\<close>

fun upsert_ref :: "string \<Rightarrow> cert_ref \<Rightarrow> cert_ref list \<Rightarrow> cert_ref list" where
  "upsert_ref i new [] = [new]"
| "upsert_ref i new (item # items) = (if cr_ID item \<noteq> i then item # upsert_ref i new items else new # items)"

definition domain_LinkCertificateAsset ::
  "domain_store \<Rightarrow> scope \<Rightarrow> string \<Rightarrow> cert_ref \<Rightarrow> (gerror + unit) \<times> domain_store" where
  "domain_LinkCertificateAsset st sc domainID ref =
     (case domain_Get st sc domainID of
        Inl e \<Rightarrow> (Inl e, st)
      | Inr _ \<Rightarrow>
          if TrimSpace (cr_ID ref) = [] then (Inl (Err ErrValidation ''certificate asset id required''), st)
          else if TrimSpace (cr_Name ref) = [] then (Inl (Err ErrValidation ''certificate asset name required''), st)
          else
            let new = \<lparr>cr_ID = TrimSpace (cr_ID ref), cr_Name = TrimSpace (cr_Name ref),
                       cr_Status = TrimSpace (cr_Status ref), cr_ExpiresAt = cr_ExpiresAt ref\<rparr>
            in (Inr (), st\<lparr>ds_certsByDomain := mput domainID
                  (upsert_ref (cr_ID ref) new (mslice (ds_certsByDomain st) domainID)) (ds_certsByDomain st)\<rparr>))"

interpretation domain_scoped: scoped_store "\<lambda>st i. mget (ds_byID st) i" da_Scope domain_Get "\<lambda>i. TrimSpace i = []"
proof (unfold_locales, goal_cases)
  case (2 sc st i)
  then show ?case using invalid_scope_Validate by (fastforce simp: domain_Get_def)
next
  case (3 i st sc)
  then show ?case using invalid_scope_Validate [of sc] by (cases "valid_scope sc") (auto simp: domain_Get_def)
qed (simp_all add: domain_Get_def scoped_get_def)

section \<open>The invariant\<close>

text \<open>What validation guarantees of a stored domain.\<close>

definition domain_ok :: "domain_asset \<Rightarrow> bool" where
  "domain_ok a =
     (da_DomainName a \<noteq> [] \<and> valid_scope (da_Scope a) \<and> da_DefaultChallengeType a \<in> {''http-01'', ''dns-01''} \<and>
      (da_AllowWildcard a \<longleftrightarrow> HasPrefix (da_DomainName a) ''*.'') \<and>
      (da_AllowWildcard a \<longrightarrow> da_DefaultChallengeType a = ''dns-01'') \<and>
      (da_DomainType a = (if da_AllowWildcard a then ''wildcard_root'' else ''single'')))"

definition domains_wf :: "domain_store \<Rightarrow> bool" where
  "domains_wf st =
     ((\<forall>i a. mget (ds_byID st) i = Some a \<longrightarrow> da_ID a = i \<and> domain_ok a \<and>
         mget (ds_byEnvDomain st) (envKey (da_Scope a) (da_DomainName a)) = Some i) \<and>
      (\<forall>k i. mget (ds_byEnvDomain st) k = Some i \<longrightarrow>
         (\<exists>a. mget (ds_byID st) i = Some a \<and> k = envKey (da_Scope a) (da_DomainName a))))"

lemma domain_validateInput_ok:
  assumes "domain_validateInput inp = Inr (name, ty, wild)"
  shows "name \<noteq> [] \<and> normToken (di_ChallengeType inp) \<in> {''http-01'', ''dns-01''} \<and> (wild \<longleftrightarrow> HasPrefix name ''*.'') \<and>
    (wild \<longrightarrow> normToken (di_ChallengeType inp) = ''dns-01'') \<and> ty = (if wild then ''wildcard_root'' else ''single'')"
  using assms by (auto simp: domain_validateInput_def Let_def split: if_splits)

definition new_domain :: "scope \<Rightarrow> domain_input \<Rightarrow> gotime \<Rightarrow> string \<Rightarrow> string \<Rightarrow> string \<Rightarrow> bool \<Rightarrow> domain_asset" where
  "new_domain sc inp now i name ty wild =
     \<lparr>da_ID = i, da_Scope = sc, da_DomainName = name, da_DomainType = ty,
      da_DefaultChallengeType = normToken (di_ChallengeType inp), da_DefaultDNSProvider = normToken (di_DNSProvider inp),
      da_DNSCredentialID = TrimSpace (di_DNSCredentialID inp), da_AllowWildcard = wild, da_AutoRenew = di_AutoRenew inp,
      da_Status = ''active'', da_LastValidationStatus = [], da_LastValidatedAt = None, da_CreatedAt = now,
      da_UpdatedAt = now\<rparr>"

lemma domain_Create_ok:
  assumes "domain_Create st sc inp now i = (Inr a, st')"
  shows "valid_scope sc" "domain_ok a" "da_Scope a = sc" "da_ID a = i" "da_DomainName a = normalizeDomain (di_Name inp)"
    "mget (ds_byEnvDomain st) (envKey sc (da_DomainName a)) = None"
    "st' = st\<lparr>ds_byID := mput i a (ds_byID st),
              ds_byEnvDomain := mput (envKey sc (da_DomainName a)) i (ds_byEnvDomain st)\<rparr>"
proof -
  note ok = assms [unfolded domain_Create_def Let_def, folded new_domain_def envKey_def,
      simplified result_simps scope_Validate_None]
  then obtain name ty wild where v: "valid_scope sc" "domain_validateInput inp = Inr (name, ty, wild)"
    and r: "mget (ds_byEnvDomain st) (envKey sc name) = None" "a = new_domain sc inp now i name ty wild"
      "st' = st\<lparr>ds_byID := mput i a (ds_byID st), ds_byEnvDomain := mput (envKey sc name) i (ds_byEnvDomain st)\<rparr>"
    by auto
  have a: "da_Scope a = sc" "da_ID a = i" "da_DomainName a = name" using r(2) by (simp_all add: new_domain_def)
  have n: "name = normalizeDomain (di_Name inp)"
    using v(2) by (auto simp: domain_validateInput_def Let_def split: if_splits)
  have "domain_ok a" using domain_validateInput_ok [OF v(2)] r(2) v(1) by (simp add: domain_ok_def new_domain_def)
  with v(1) a n r(1,3) show "valid_scope sc" "domain_ok a" "da_Scope a = sc" "da_ID a = i"
    "da_DomainName a = normalizeDomain (di_Name inp)" "mget (ds_byEnvDomain st) (envKey sc (da_DomainName a)) = None"
    "st' = st\<lparr>ds_byID := mput i a (ds_byID st),
              ds_byEnvDomain := mput (envKey sc (da_DomainName a)) i (ds_byEnvDomain st)\<rparr>"
    by simp_all
qed

lemma domain_Update_ok:
  assumes "domain_Update st sc i inp now = (Inr a', st')"
  shows "\<exists>a. valid_scope sc \<and> mget (ds_byID st) i = Some a \<and> da_Scope a = sc \<and> da_Scope a' = sc \<and> da_ID a' = da_ID a \<and>
    domain_ok a' \<and> da_DomainName a' = normalizeDomain (di_Name inp) \<and>
    \<not> rename_taken st a (envKey sc (da_DomainName a)) (envKey sc (da_DomainName a')) \<and>
    st' = st\<lparr>ds_byID := mput (da_ID a) a' (ds_byID st),
              ds_byEnvDomain := rename_index (ds_byEnvDomain st) (da_ID a) (envKey sc (da_DomainName a))
                (envKey sc (da_DomainName a'))\<rparr>"
proof -
  note ok = assms [unfolded domain_Update_def Let_def, folded envKey_def, simplified result_simps scope_Validate_None]
  then obtain name ty wild a where v: "valid_scope sc" "domain_validateInput inp = Inr (name, ty, wild)"
    and a: "mget (ds_byID st) i = Some a" "da_Scope a = sc"
    and r: "a' = domain_apply a name ty wild inp now" "\<not> rename_taken st a (envKey sc (da_DomainName a)) (envKey sc name)"
      "st' = st\<lparr>ds_byID := mput (da_ID a) a' (ds_byID st),
         ds_byEnvDomain := rename_index (ds_byEnvDomain st) (da_ID a) (envKey sc (da_DomainName a)) (envKey sc name)\<rparr>"
    by auto
  have a': "da_Scope a' = sc" "da_ID a' = da_ID a" "da_DomainName a' = name" using r(1) a(2) by (simp_all add: domain_apply_def)
  have n: "name = normalizeDomain (di_Name inp)"
    using v(2) by (auto simp: domain_validateInput_def Let_def split: if_splits)
  have "domain_ok a'" using domain_validateInput_ok [OF v(2)] r(1) v(1) a(2) by (simp add: domain_ok_def domain_apply_def)
  with v(1) a a' n r(2,3) show ?thesis by (intro exI [of _ a]) simp
qed

end
