(* ===== verification/DomainProps.thy ===== *)
theory DomainProps
  imports Domains
begin

text \<open>
  The domain service as a step relation over its five writing operations, the invariant of its
  store, and the claims: validated and uniquely named domains, and renames that move the name.
\<close>

section \<open>Every operation keeps the invariant\<close>

lemma domains_wfD:
  assumes "domains_wf st" "mget (ds_byID st) i = Some a"
  shows "da_ID a = i" "domain_ok a" "mget (ds_byEnvDomain st) (envKey (da_Scope a) (da_DomainName a)) = Some i"
  using assms unfolding domains_wf_def by blast+

lemma domains_wf_name:
  assumes "domains_wf st" "mget (ds_byEnvDomain st) k = Some i"
  obtains a where "mget (ds_byID st) i = Some a" "k = envKey (da_Scope a) (da_DomainName a)"
  using assms unfolding domains_wf_def by blast

lemma domain_Create_wf:
  assumes wf: "domains_wf st" and f: "mget (ds_byID st) i = None"
    and c: "domain_Create st sc inp now i = (Inr a, st')"
  shows "domains_wf st'"
proof -
  let ?k = "envKey sc (da_DomainName a)"
  note n = domain_Create_ok [OF c]
  have st': "ds_byID st' = mput i a (ds_byID st)" "ds_byEnvDomain st' = mput ?k i (ds_byEnvDomain st)"
    using n(7) by simp_all
  show ?thesis
    unfolding domains_wf_def
  proof (intro conjI allI impI)
    fix l b assume b: "mget (ds_byID st') l = Some b"
    show "da_ID b = l" "domain_ok b" "mget (ds_byEnvDomain st') (envKey (da_Scope b) (da_DomainName b)) = Some l"
      using b n(2-4) st' n(6) domains_wfD [OF wf, of l b] by (auto split: if_splits)
  next
    fix k l assume k: "mget (ds_byEnvDomain st') k = Some l"
    show "\<exists>b. mget (ds_byID st') l = Some b \<and> k = envKey (da_Scope b) (da_DomainName b)"
    proof (cases "k = ?k")
      case True
      with k n(3) st' show ?thesis by simp
    next
      case False
      with k st' have "mget (ds_byEnvDomain st) k = Some l" by simp
      from domains_wf_name [OF wf this] obtain b where "mget (ds_byID st) l = Some b" "k = envKey (da_Scope b) (da_DomainName b)" .
      with f st' show ?thesis by auto
    qed
  qed
qed

lemma domain_Update_wf:
  assumes wf: "domains_wf st" and u: "domain_Update st sc i inp now = (Inr a', st')"
  shows "domains_wf st'"
proof -
  from domain_Update_ok [OF u] obtain a where a: "mget (ds_byID st) i = Some a" "da_Scope a = sc" "da_Scope a' = sc"
    "da_ID a' = da_ID a" "domain_ok a'"
    and free: "\<not> rename_taken st a (envKey sc (da_DomainName a)) (envKey sc (da_DomainName a'))"
    and st': "ds_byID st' = mput (da_ID a) a' (ds_byID st)"
      "ds_byEnvDomain st' = rename_index (ds_byEnvDomain st) (da_ID a) (envKey sc (da_DomainName a)) (envKey sc (da_DomainName a'))"
    by auto
  note old = domains_wfD [OF wf a(1)]
  let ?new = "envKey sc (da_DomainName a')" and ?old = "envKey sc (da_DomainName a)"
  have get: "mget (ds_byEnvDomain st') k = (if k = ?new then Some i else if k = ?old then None else mget (ds_byEnvDomain st) k)" for k
    using st'(2) old a(2) by (auto simp: rename_index_def)
  have other: "envKey (da_Scope b) (da_DomainName b) \<noteq> ?new \<and> envKey (da_Scope b) (da_DomainName b) \<noteq> ?old"
    if b: "mget (ds_byID st) l = Some b" "l \<noteq> i" for l b
    using domains_wfD(3) [OF wf b(1)] b(2) old a(2) free by (auto simp: rename_taken_def split: option.splits)
  show ?thesis
    unfolding domains_wf_def
  proof (intro conjI allI impI)
    fix l b assume b: "mget (ds_byID st') l = Some b"
    show "da_ID b = l" "domain_ok b"
      using b st'(1) a old(1) domains_wfD [OF wf, of l b] by (auto split: if_splits)
    show "mget (ds_byEnvDomain st') (envKey (da_Scope b) (da_DomainName b)) = Some l"
    proof (cases "l = i")
      case True
      with b st'(1) a old(1) show ?thesis by (simp add: get)
    next
      case False
      with b st'(1) old(1) have m: "mget (ds_byID st) l = Some b" by simp
      from other [OF m False] domains_wfD(3) [OF wf m] show ?thesis by (simp add: get)
    qed
  next
    fix k l assume k: "mget (ds_byEnvDomain st') k = Some l"
    show "\<exists>b. mget (ds_byID st') l = Some b \<and> k = envKey (da_Scope b) (da_DomainName b)"
    proof (cases "k = ?new")
      case True
      with k st'(1) a old(1) show ?thesis by (simp add: get)
    next
      case False
      with k have m: "mget (ds_byEnvDomain st) k = Some l" "k \<noteq> ?old" by (auto simp: get split: if_splits)
      from domains_wf_name [OF wf m(1)] obtain b where b: "mget (ds_byID st) l = Some b" "k = envKey (da_Scope b) (da_DomainName b)" .
      with a(1,2) m(2) have "l \<noteq> i" by auto
      with b st'(1) old(1) show ?thesis by simp
    qed
  qed
qed

lemma domains_wf_same_names:
  assumes wf: "domains_wf st" and a: "mget (ds_byID st) i = Some a" "domain_ok a'" "da_ID a' = da_ID a"
    "da_Scope a' = da_Scope a" "da_DomainName a' = da_DomainName a"
    and st': "ds_byID st' = mput (da_ID a) a' (ds_byID st)" "ds_byEnvDomain st' = ds_byEnvDomain st"
  shows "domains_wf st'"
  unfolding domains_wf_def
proof (intro conjI allI impI)
  note old = domains_wfD [OF wf a(1)]
  fix l b assume b: "mget (ds_byID st') l = Some b"
  show "da_ID b = l" "domain_ok b" "mget (ds_byEnvDomain st') (envKey (da_Scope b) (da_DomainName b)) = Some l"
  proof (atomize (full), cases "l = i")
    case True
    with b st'(1) old(1) have "b = a'" by simp
    with True a old st'(2) show "da_ID b = l \<and> domain_ok b \<and>
        mget (ds_byEnvDomain st') (envKey (da_Scope b) (da_DomainName b)) = Some l" by simp
  next
    case False
    with b st'(1) old(1) have "mget (ds_byID st) l = Some b" by simp
    from domains_wfD [OF wf this] st'(2) show "da_ID b = l \<and> domain_ok b \<and>
        mget (ds_byEnvDomain st') (envKey (da_Scope b) (da_DomainName b)) = Some l" by simp
  qed
next
  note old = domains_wfD [OF wf a(1)]
  fix k l assume "mget (ds_byEnvDomain st') k = Some l"
  then have "mget (ds_byEnvDomain st) k = Some l" using st' by simp
  from domains_wf_name [OF wf this] show "\<exists>b. mget (ds_byID st') l = Some b \<and> k = envKey (da_Scope b) (da_DomainName b)"
    using a st' old(1) by (metis mget_mput option.inject)
qed

lemma domain_Bind_wf:
  assumes wf: "domains_wf st" and b: "domain_BindDNSCredential st sc i cred prov now = (Inr a', st')"
  shows "domains_wf st'"
proof -
  note ok = b [unfolded domain_BindDNSCredential_def Let_def, simplified result_simps]
  then obtain a where a: "mget (ds_byID st) i = Some a"
    and a': "a' = a\<lparr>da_DNSCredentialID := TrimSpace cred, da_DefaultDNSProvider := normToken prov, da_UpdatedAt := now\<rparr>"
    and st': "st' = st\<lparr>ds_byID := mput (da_ID a) a' (ds_byID st)\<rparr>" by auto
  have "domain_ok a'" using domains_wfD(2) [OF wf a] a' by (simp add: domain_ok_def)
  from domains_wf_same_names [OF wf a this] a' st' show ?thesis by simp
qed

section \<open>Reachable domain stores\<close>

inductive domain_step :: "domain_store \<Rightarrow> domain_store \<Rightarrow> bool" where
  created: "mget (ds_byID st) i = None \<Longrightarrow> domain_Create st sc inp now i = (r, st') \<Longrightarrow> domain_step st st'"
| updated: "domain_Update st sc i inp now = (r, st') \<Longrightarrow> domain_step st st'"
| bound: "domain_BindDNSCredential st sc i cred prov now = (r, st') \<Longrightarrow> domain_step st st'"
| linked: "domain_LinkCertificateAsset st sc i ref = (r', st') \<Longrightarrow> domain_step st st'"

inductive domain_reachable :: "domain_store \<Rightarrow> bool" where
  start: "domain_reachable NewDomainService"
| step: "domain_reachable st \<Longrightarrow> domain_step st st' \<Longrightarrow> domain_reachable st'"

lemma domain_errs:
  "domain_Create st sc inp now i = (Inl e, st') \<Longrightarrow> st' = st"
  "domain_Update st sc i inp now = (Inl e, st') \<Longrightarrow> st' = st"
  "domain_BindDNSCredential st sc i cred prov now = (Inl e, st') \<Longrightarrow> st' = st"
  by (auto simp: domain_Create_def domain_Update_def domain_BindDNSCredential_def Let_def
      split: option.splits sum.splits if_splits)

lemma domain_step_wf: "domain_step st st' \<Longrightarrow> domains_wf st \<Longrightarrow> domains_wf st'"
proof (induction rule: domain_step.induct)
  case (created st i sc inp now r st')
  then show ?case using domain_errs(1) domain_Create_wf by (cases r) blast+
next
  case (updated st sc i inp now r st')
  then show ?case using domain_errs(2) domain_Update_wf by (cases r) blast+
next
  case (bound st sc i cred prov now r st')
  then show ?case using domain_errs(3) domain_Bind_wf by (cases r) blast+
next
  case (linked st sc i ref r' st')
  then have "ds_byID st' = ds_byID st" "ds_byEnvDomain st' = ds_byEnvDomain st"
    by (auto simp: domain_LinkCertificateAsset_def Let_def split: sum.splits if_splits)
  with linked.prems show ?case by (simp add: domains_wf_def)
qed

lemma domain_reachable_wf: "domain_reachable st \<Longrightarrow> domains_wf st"
proof (induction rule: domain_reachable.induct)
  case start
  show ?case by (simp add: domains_wf_def NewDomainService_def)
qed (rule domain_step_wf)


section \<open>Properties\<close>

lemma domain_Create_gets:
  assumes "domain_Create st sc inp now i = (Inr a, st')"
  shows "mget (ds_byID st') l = (if l = i then Some a else mget (ds_byID st) l)"
    "mget (ds_byEnvDomain st') k = (if k = envKey sc (da_DomainName a) then Some i else mget (ds_byEnvDomain st) k)"
  using domain_Create_ok(7) [OF assms] by simp_all

definition demo_domain_input :: domain_input where
  "demo_domain_input = \<lparr>di_Name = ''x.y'', di_ChallengeType = ''dns-01'', di_AutoRenew = True, di_DNSCredentialID = [], di_DNSProvider = []\<rparr>"

definition demo_domains :: domain_store where
  "demo_domains = snd (domain_Create NewDomainService demo_scope demo_domain_input 3 ''d1'')"

lemma demo_domain_words: "domain_validateInput demo_domain_input = Inr (''x.y'', ''single'', False)"
  "domain_validateInput (demo_domain_input\<lparr>di_Name := ''*.z''\<rparr>) = Inr (''*.z'', ''wildcard_root'', True)"
  by code_simp+

lemma demo_domain_created:
  "\<exists>a. domain_Create NewDomainService demo_scope demo_domain_input 3 ''d1'' = (Inr a, demo_domains) \<and> da_DomainName a = ''x.y''"
proof -
  have "\<exists>a st. domain_Create NewDomainService demo_scope demo_domain_input 3 ''d1'' = (Inr a, st) \<and> da_DomainName a = ''x.y''"
    by (simp add: domain_Create_def demo_domain_words NewDomainService_def Let_def)
  then show ?thesis by (auto simp: demo_domains_def)
qed

lemma demo_domains_reachable: "domain_reachable demo_domains"
proof -
  obtain a where "domain_Create NewDomainService demo_scope demo_domain_input 3 ''d1'' = (Inr a, demo_domains)"
    using demo_domain_created by blast
  then have "domain_step NewDomainService demo_domains"
    by (rule domain_step.created [rotated]) (simp add: NewDomainService_def)
  then show ?thesis by (rule domain_reachable.step [OF domain_reachable.start])
qed

lemma demo_domain_at: "\<exists>a. mget (ds_byID demo_domains) ''d1'' = Some a \<and> da_Scope a = demo_scope \<and> da_DomainName a = ''x.y'' \<and> da_ID a = ''d1''"
proof -
  obtain a where a: "domain_Create NewDomainService demo_scope demo_domain_input 3 ''d1'' = (Inr a, demo_domains)"
    "da_DomainName a = ''x.y''" using demo_domain_created by blast
  from domain_Create_ok(3,4) [OF a(1)] domain_Create_gets(1) [OF a(1), of "''d1''"] a(2) show ?thesis by simp
qed

text \<open>Governance of domains: in every store the service can reach, a domain is stored under its own
  identifier, its name is not blank, it accepts wildcards exactly when its name starts with \<open>*.\<close>, a
  wildcard domain is validated by DNS and by nothing else, and no environment has the same name twice.\<close>

theorem domains_are_governed:
  assumes "domain_reachable st" "mget (ds_byID st) i = Some a"
  shows "da_ID a = i \<and> da_DomainName a \<noteq> [] \<and> (da_AllowWildcard a \<longleftrightarrow> HasPrefix (da_DomainName a) ''*.'') \<and>
    (da_AllowWildcard a \<longrightarrow> da_DefaultChallengeType a = ''dns-01'') \<and>
    (\<forall>j b. mget (ds_byID st) j = Some b \<longrightarrow> da_Scope b = da_Scope a \<longrightarrow> da_DomainName b = da_DomainName a \<longrightarrow> j = i)"
proof -
  note wf = domain_reachable_wf [OF assms(1)]
  from domains_wfD [OF wf assms(2)] have "da_ID a = i" "domain_ok a"
    and i: "mget (ds_byEnvDomain st) (envKey (da_Scope a) (da_DomainName a)) = Some i" .
  moreover have "j = i" if "mget (ds_byID st) j = Some b" "da_Scope b = da_Scope a" "da_DomainName b = da_DomainName a" for j b
    using domains_wfD(3) [OF wf that(1)] that(2,3) i by (metis option.inject)
  moreover from \<open>domain_ok a\<close> have "da_DomainName a \<noteq> []" "da_AllowWildcard a \<longleftrightarrow> HasPrefix (da_DomainName a) ''*.''"
    "da_AllowWildcard a \<longrightarrow> da_DefaultChallengeType a = ''dns-01''" by (simp_all add: domain_ok_def)
  ultimately show ?thesis by blast
qed

theorem domains_are_governed_witness:
  "\<exists>a. mget (ds_byID demo_domains) ''d1'' = Some a \<and> \<not> da_AllowWildcard a"
proof -
  obtain a where a: "mget (ds_byID demo_domains) ''d1'' = Some a" "da_DomainName a = ''x.y''" using demo_domain_at by blast
  from domains_are_governed [OF demo_domains_reachable a(1)] have "da_AllowWildcard a \<longleftrightarrow> HasPrefix (da_DomainName a) ''*.''" by blast
  with a show ?thesis by (simp add: HasPrefix_def)
qed

text \<open>A rename moves the name: after an update of a domain succeeded, the domain is found in its scope
  under its identifier with the normalized new name, a second domain cannot take that name in the
  environment, and the old name, when it differs, is free again: a new domain of that name is
  accepted.\<close>

theorem rename_moves_the_name:
  assumes "domain_reachable st" "domain_Get st sc i = Inr a" "domain_Update st sc i inp now = (Inr a', st')"
  shows "domain_Get st' sc i = Inr a' \<and> da_DomainName a' = normalizeDomain (di_Name inp) \<and>
    (\<forall>inp2 now2 j. normalizeDomain (di_Name inp2) = da_DomainName a' \<longrightarrow>
       (\<exists>e. domain_Create st' sc inp2 now2 j = (Inl e, st'))) \<and>
    (da_DomainName a \<noteq> da_DomainName a' \<longrightarrow>
       (\<forall>inp2 now2 j v. domain_validateInput inp2 = Inr v \<longrightarrow> fst v = da_DomainName a \<longrightarrow>
          (\<exists>b st2. domain_Create st' sc inp2 now2 j = (Inr b, st2))))"
proof -
  note wf = domain_reachable_wf [OF assms(1)]
  from assms(2) have v: "valid_scope sc" "TrimSpace i \<noteq> []" and m: "mget (ds_byID st) i = Some a" "da_Scope a = sc"
    by (simp_all add: domain_scoped.get_ok_iff)
  note id = domains_wfD(1) [OF wf m(1)]
  from domain_Update_ok [OF assms(3)] m(1) have a': "da_Scope a' = sc" "da_DomainName a' = normalizeDomain (di_Name inp)"
    and st': "ds_byID st' = mput (da_ID a) a' (ds_byID st)"
      "ds_byEnvDomain st' = rename_index (ds_byEnvDomain st) (da_ID a) (envKey sc (da_DomainName a)) (envKey sc (da_DomainName a'))"
    by auto
  have g: "domain_Get st' sc i = Inr a'" using v st'(1) id a'(1) by (simp add: domain_scoped.get_ok_iff)
  have taken: "mget (ds_byEnvDomain st') (envKey sc (da_DomainName a')) = Some i"
    using st'(2) id domains_wfD(3) [OF wf m(1)] m(2) by (auto simp: rename_index_def)
  have "\<exists>e. domain_Create st' sc inp2 now2 j = (Inl e, st')" if n: "normalizeDomain (di_Name inp2) = da_DomainName a'" for inp2 now2 j
  proof (cases "domain_Create st' sc inp2 now2 j")
    case (Pair x st2)
    show ?thesis
    proof (cases x)
      case (Inl e)
      with Pair domain_errs(1) show ?thesis by auto
    next
      case (Inr b)
      from domain_Create_ok(5,6) [OF Pair [unfolded Inr]] n taken show ?thesis by simp
    qed
  qed
  moreover have "\<exists>b st2. domain_Create st' sc inp2 now2 j = (Inr b, st2)"
    if d: "da_DomainName a \<noteq> da_DomainName a'" and w: "domain_validateInput inp2 = Inr v" "fst v = da_DomainName a" for inp2 now2 j v
  proof -
    from d have "mget (ds_byEnvDomain st') (envKey sc (da_DomainName a)) = None"
      using st'(2) by (simp add: rename_index_def envKey_def)
    with w v(1) show ?thesis by (cases v) (simp add: domain_Create_def envKey_def Let_def)
  qed
  ultimately show ?thesis using g a'(2) by blast
qed

theorem rename_moves_the_name_witness:
  "\<exists>a' st' b st2. domain_Update demo_domains demo_scope ''d1'' (demo_domain_input\<lparr>di_Name := ''*.z''\<rparr>) 4 = (Inr a', st') \<and>
     domain_Create st' demo_scope demo_domain_input 5 ''d2'' = (Inr b, st2)"
proof -
  obtain a where a: "mget (ds_byID demo_domains) ''d1'' = Some a" "da_Scope a = demo_scope" "da_DomainName a = ''x.y''" "da_ID a = ''d1''"
    using demo_domain_at by blast
  have g: "domain_Get demo_domains demo_scope ''d1'' = Inr a" using a by (simp add: domain_scoped.get_ok_iff)
  have "mget (ds_byEnvDomain demo_domains) (envKey demo_scope ''*.z'') = None"
  proof -
    obtain c where c: "domain_Create NewDomainService demo_scope demo_domain_input 3 ''d1'' = (Inr c, demo_domains)"
      "da_DomainName c = ''x.y''" using demo_domain_created by blast
    from domain_Create_gets(2) [OF c(1), of "envKey demo_scope ''*.z''"] c(2) show ?thesis
      by (simp add: NewDomainService_def envKey_def)
  qed
  with a obtain a' st' where u: "domain_Update demo_domains demo_scope ''d1'' (demo_domain_input\<lparr>di_Name := ''*.z''\<rparr>) 4 = (Inr a', st')"
    by (simp add: domain_Update_def demo_domain_words rename_taken_def envKey_def scoped_get_def Let_def)
  from domain_Update_ok [OF u] have "da_DomainName a' = normalizeDomain ''*.z''" by auto
  also have "normalizeDomain ''*.z'' = ''*.z''" by code_simp
  finally have "da_DomainName a \<noteq> da_DomainName a'" using a(3) by simp
  with rename_moves_the_name [OF demo_domains_reachable g u] demo_domain_words(1) a(3) u show ?thesis
    by (metis fst_conv)
qed

end
