(* ===== verification/Issuer.thy ===== *)
theory Issuer
  imports Resource
begin

text \<open>
  CA accounts (\<^verbatim>\<open>internal/domain/issuer/service.go\<close>): the accounts an environment may issue with. The
  service keeps the accounts by identifier and an index by scoped display name. Instants and new
  identifiers are arguments, and so are the two library parsers the validation asks: \<open>request_uri\<close> is
  \<^verbatim>\<open>url.ParseRequestURI\<close>, the scheme and host of a text it accepts, and \<open>mail_ok\<close> is whether
  \<^verbatim>\<open>mail.ParseAddress\<close> accepts a text.
\<close>

section \<open>Data\<close>

record capability_set =
  cs_ProviderType :: string
  cs_ProviderName :: string
  cs_DirectoryURL :: string
  cs_Environment :: string
  cs_SupportedCertificateTypes :: "string list"
  cs_SupportedChallengeTypes :: "string list"
  cs_WildcardChallengeTypes :: "string list"
  cs_SupportsExternalAccountKey :: bool

record account =
  ac_ID :: string
  ac_Scope :: scope
  ac_ProviderType :: string
  ac_ProviderName :: string
  ac_DisplayName :: string
  ac_DirectoryURL :: string
  ac_Email :: string
  ac_AccountKID :: string
  ac_AccountKeySecretRef :: string
  ac_Status :: string
  ac_Capabilities :: capability_set
  ac_LastCheckedAt :: "gotime option"
  ac_CreatedAt :: gotime
  ac_UpdatedAt :: gotime

record account_input =
  ai_DisplayName :: string
  ai_DirectoryURL :: string
  ai_Email :: string

record account_store =
  is_byID :: "(string, account) gomap"
  is_byEnvName :: "(string, string) gomap"

definition NewIssuerService :: account_store where
  "NewIssuerService = \<lparr>is_byID = [], is_byEnvName = []\<rparr>"

section \<open>Validation and capabilities\<close>

definition account_validateInput ::
  "(string \<Rightarrow> (string \<times> string) option) \<Rightarrow> (string \<Rightarrow> bool) \<Rightarrow> account_input \<Rightarrow> gerror option" where
  "account_validateInput request_uri mail_ok inp =
     (if TrimSpace (ai_DisplayName inp) = [] then Some (Err ErrValidation ''display_name required'')
      else if (case request_uri (TrimSpace (ai_DirectoryURL inp)) of
                 None \<Rightarrow> True | Some (scheme, host) \<Rightarrow> scheme = [] \<or> host = [])
      then Some (Err ErrValidation ''directory_url invalid'')
      else if \<not> mail_ok (TrimSpace (ai_Email inp)) then Some (Err ErrValidation ''email invalid'')
      else None)"

definition buildCapabilities :: "string \<Rightarrow> capability_set" where
  "buildCapabilities directoryURL =
     \<lparr>cs_ProviderType = ''acme'', cs_ProviderName = ''letsencrypt'', cs_DirectoryURL = TrimSpace directoryURL,
      cs_Environment = (if Contains (ToLower directoryURL) ''staging'' then ''staging'' else ''production''),
      cs_SupportedCertificateTypes = [''single'', ''san'', ''wildcard''],
      cs_SupportedChallengeTypes = [''http-01'', ''dns-01''],
      cs_WildcardChallengeTypes = [''dns-01''], cs_SupportsExternalAccountKey = False\<rparr>"

section \<open>Operations\<close>

definition account_List :: "account_store \<Rightarrow> scope \<Rightarrow> gerror + account list" where
  "account_List st sc =
     (case scope_Validate sc of
        Some e \<Rightarrow> Inl e
      | None \<Rightarrow> Inr (sort_key ac_DisplayName (filter (\<lambda>a. scope_Equals (ac_Scope a) sc) (map snd (is_byID st)))))"

definition account_Get :: "account_store \<Rightarrow> scope \<Rightarrow> string \<Rightarrow> gerror + account" where
  "account_Get st sc i =
     (case scope_Validate sc of
        Some e \<Rightarrow> Inl e
      | None \<Rightarrow> scoped_get ''ca account'' ac_Scope (is_byID st) sc i)"

definition account_GetCapabilities :: "account_store \<Rightarrow> scope \<Rightarrow> string \<Rightarrow> gerror + capability_set" where
  "account_GetCapabilities st sc i =
     (case account_Get st sc i of Inl e \<Rightarrow> Inl e | Inr a \<Rightarrow> Inr (ac_Capabilities a))"

text \<open>\<open>keyID\<close> is the second identifier drawn, the one that names the account key.\<close>

definition account_Create ::
  "(string \<Rightarrow> (string \<times> string) option) \<Rightarrow> (string \<Rightarrow> bool) \<Rightarrow> account_store \<Rightarrow> scope \<Rightarrow> account_input \<Rightarrow> gotime
   \<Rightarrow> string \<Rightarrow> string \<Rightarrow> (gerror + account) \<times> account_store" where
  "account_Create request_uri mail_ok st sc inp now newID keyID =
     (case scope_Validate sc of
        Some e \<Rightarrow> (Inl e, st)
      | None \<Rightarrow>
          (case account_validateInput request_uri mail_ok inp of
             Some e \<Rightarrow> (Inl e, st)
           | None \<Rightarrow>
               let a = \<lparr>ac_ID = newID, ac_Scope = sc, ac_ProviderType = ''acme'', ac_ProviderName = ''letsencrypt'',
                     ac_DisplayName = TrimSpace (ai_DisplayName inp), ac_DirectoryURL = TrimSpace (ai_DirectoryURL inp),
                     ac_Email = TrimSpace (ai_Email inp), ac_AccountKID = [],
                     ac_AccountKeySecretRef = ''secret://ca-accounts/'' @ keyID, ac_Status = ''active'',
                     ac_Capabilities = buildCapabilities (ai_DirectoryURL inp), ac_LastCheckedAt = Some now,
                     ac_CreatedAt = now, ac_UpdatedAt = now\<rparr>;
                   key = EnvironmentKey sc @ ''/'' @ ac_DisplayName a in
               if mget (is_byEnvName st) key \<noteq> None
               then (Inl (Err ErrConflict ''ca account display_name already exists under environment''), st)
               else (Inr a, st\<lparr>is_byID := mput newID a (is_byID st), is_byEnvName := mput key newID (is_byEnvName st)\<rparr>)))"

interpretation account_scoped: scoped_store "\<lambda>st i. mget (is_byID st) i" ac_Scope account_Get "\<lambda>i. False"
proof (unfold_locales, goal_cases)
  case (2 sc st i)
  then show ?case using invalid_scope_Validate by (fastforce simp: account_Get_def)
qed (simp_all add: account_Get_def scoped_get_def)

end
