(* ===== verification/Adapters.thy ===== *)
theory Adapters
  imports Rfc3339
begin

text \<open>
  The outside of an issuance: the ACME client, the DNS executor and the HTTP-01 presenter as interfaces
  (\<^verbatim>\<open>internal/driver/acme/fake.go\<close>, \<^verbatim>\<open>internal/driver/dns/fake.go\<close>, \<^verbatim>\<open>internal/workflow/service.go\<close>) and
  the implementations the control plane is wired with. An interface is a record of functions
  over the state of the other side; an error of an adapter keeps its chain of wrapped errors, which
  decides whether it is temporary.
\<close>

section \<open>Errors of adapters\<close>

text \<open>
  A leaf error with its text, an error wrapped by \<^verbatim>\<open>%w\<close> behind a prefix, and the two
  \<^verbatim>\<open>TemporaryError\<close> types, which wrap an error or none.
\<close>

datatype adapter_error =
    Upstream string
  | Wrapping string adapter_error
  | AcmeTemporary "adapter_error option"
  | DnsTemporary "adapter_error option"

fun error_text :: "adapter_error \<Rightarrow> string" where
  "error_text (Upstream s) = s"
| "error_text (Wrapping s e) = s @ '': '' @ error_text e"
| "error_text (AcmeTemporary None) = ''temporary acme failure''"
| "error_text (AcmeTemporary (Some e)) = error_text e"
| "error_text (DnsTemporary None) = ''temporary dns failure''"
| "error_text (DnsTemporary (Some e)) = error_text e"

text \<open>\<^verbatim>\<open>errors.As\<close>, which follows the chain of wrapped errors.\<close>

fun as_acme_temporary :: "adapter_error \<Rightarrow> bool" where
  "as_acme_temporary (Upstream s) = False"
| "as_acme_temporary (Wrapping s e) = as_acme_temporary e"
| "as_acme_temporary (AcmeTemporary e) = True"
| "as_acme_temporary (DnsTemporary None) = False"
| "as_acme_temporary (DnsTemporary (Some e)) = as_acme_temporary e"

fun as_dns_temporary :: "adapter_error \<Rightarrow> bool" where
  "as_dns_temporary (Upstream s) = False"
| "as_dns_temporary (Wrapping s e) = as_dns_temporary e"
| "as_dns_temporary (DnsTemporary e) = True"
| "as_dns_temporary (AcmeTemporary None) = False"
| "as_dns_temporary (AcmeTemporary (Some e)) = as_dns_temporary e"

definition acme_IsTemporary :: "adapter_error \<Rightarrow> bool" where
  "acme_IsTemporary e = (Contains (ToLower (error_text e)) ''temporary'' \<or> as_acme_temporary e)"

definition dns_IsTemporary :: "adapter_error \<Rightarrow> bool" where
  "dns_IsTemporary e = as_dns_temporary e"

definition validation_failed :: "string \<Rightarrow> adapter_error" where
  "validation_failed s = Wrapping s (Upstream ''resource validation failed'')"

section \<open>ACME\<close>

record domain_identifier =
  id_DomainAssetID :: string
  id_Name :: string

record order_request =
  or_RequestID :: string
  or_CommonName :: string
  or_CertificateType :: string
  or_ChallengeType :: string
  or_DomainIdentifiers :: "domain_identifier list"

record order_challenge =
  oc_DomainAssetID :: string
  oc_Identifier :: string
  oc_ChallengeType :: string
  oc_Token :: string
  oc_KeyAuthorization :: string
  oc_HTTPPath :: string
  oc_DNSRecordName :: string
  oc_DNSRecordValue :: string

record acme_order =
  od_OrderURL :: string
  od_FinalizeURL :: string
  od_Challenges :: "order_challenge list"

text \<open>\<^verbatim>\<open>ChallengeReadyInput\<close> and \<^verbatim>\<open>AuthorizationInput\<close> have the same fields.\<close>

record authorization_input =
  au_OrderURL :: string
  au_Identifier :: string
  au_ChallengeType :: string

datatype authorization_status = AuthorizationPending | AuthorizationValid | AuthorizationInvalid | AuthorizationOther string

text \<open>The operations of \<^verbatim>\<open>Client\<close>; the two last ones take an order URL and give a certificate reference.\<close>

record 'a acme_client =
  am_CreateOrder :: "order_request \<Rightarrow> 'a \<Rightarrow> (adapter_error + acme_order) \<times> 'a"
  am_NotifyChallengeReady :: "authorization_input \<Rightarrow> 'a \<Rightarrow> (adapter_error + unit) \<times> 'a"
  am_PollAuthorization :: "authorization_input \<Rightarrow> 'a \<Rightarrow> (adapter_error + authorization_status) \<times> 'a"
  am_FinalizeOrder :: "string \<Rightarrow> 'a \<Rightarrow> (adapter_error + string) \<times> 'a"
  am_DownloadCertificate :: "string \<Rightarrow> 'a \<Rightarrow> (adapter_error + string) \<times> 'a"

record fake_acme =
  fa_nextOrderNo :: int
  fa_PendingPolls :: int
  fa_CreateOrderErr :: "adapter_error option"
  fa_NotifyReadyErr :: "adapter_error option"
  fa_FinalizeOrderErr :: "adapter_error option"
  fa_DownloadErr :: "adapter_error option"
  fa_InvalidIdentifiers :: "(string, bool) gomap"
  fa_pollCounts :: "(string, int) gomap"
  fa_issuedByOrder :: "(string, string) gomap"

definition NewFakeClient :: fake_acme where
  "NewFakeClient = \<lparr>fa_nextOrderNo = 0, fa_PendingPolls = 0, fa_CreateOrderErr = None, fa_NotifyReadyErr = None,
     fa_FinalizeOrderErr = None, fa_DownloadErr = None, fa_InvalidIdentifiers = [], fa_pollCounts = [],
     fa_issuedByOrder = []\<rparr>"

text \<open>The challenges of an order, one for each identifier; \<open>idx\<close> counts from 1.\<close>

fun order_challenges ::
  "int \<Rightarrow> string \<Rightarrow> domain_identifier list \<Rightarrow> int \<Rightarrow> order_challenge list \<Rightarrow> adapter_error + order_challenge list" where
  "order_challenges no challengeType [] idx out = Inr out"
| "order_challenges no challengeType (identifier # rest) idx out =
     (let name = normToken (id_Name identifier) in
      if name = [] then Inl (validation_failed ''identifier required'')
      else
        let token = ''token-'' @ decimal no @ ''-'' @ decimal idx in
        order_challenges no challengeType rest (idx + 1)
          (out @ [\<lparr>oc_DomainAssetID = TrimSpace (id_DomainAssetID identifier), oc_Identifier = name,
             oc_ChallengeType = normToken challengeType, oc_Token = token, oc_KeyAuthorization = token @ ''.keyauth'',
             oc_HTTPPath = ''/.well-known/acme-challenge/'' @ token,
             oc_DNSRecordName = ''_acme-challenge.'' @ TrimPrefix name ''*.'', oc_DNSRecordValue = ''txt-'' @ token\<rparr>]))"

definition fake_CreateOrder :: "order_request \<Rightarrow> fake_acme \<Rightarrow> (adapter_error + acme_order) \<times> fake_acme" where
  "fake_CreateOrder inp c =
     (if or_RequestID inp = [] then (Inl (validation_failed ''request_id required''), c)
      else if length (or_DomainIdentifiers inp) = 0
      then (Inl (validation_failed ''at least one identifier required''), c)
      else (case fa_CreateOrderErr c of
          Some e \<Rightarrow> (Inl e, c)
        | None \<Rightarrow>
            let no = fa_nextOrderNo c + 1;
                c' = c\<lparr>fa_nextOrderNo := no\<rparr>;
                orderURL = ''acme://orders/'' @ decimal no in
            (case order_challenges no (or_ChallengeType inp) (or_DomainIdentifiers inp) 1 [] of
               Inl e \<Rightarrow> (Inl e, c')
             | Inr challenges \<Rightarrow>
                 (Inr \<lparr>od_OrderURL = orderURL, od_FinalizeURL = orderURL @ ''/finalize'', od_Challenges = challenges\<rparr>, c'))))"

definition fake_NotifyChallengeReady :: "authorization_input \<Rightarrow> fake_acme \<Rightarrow> (adapter_error + unit) \<times> fake_acme" where
  "fake_NotifyChallengeReady inp c =
     (case fa_NotifyReadyErr c of Some e \<Rightarrow> (Inl e, c) | None \<Rightarrow> (Inr (), c))"

text \<open>Reading a count or a flag at a missing key gives zero and false.\<close>

definition mcount :: "('k, int) gomap \<Rightarrow> 'k \<Rightarrow> int" where
  "mcount m k = (case mget m k of None \<Rightarrow> 0 | Some n \<Rightarrow> n)"

definition poll_key :: "authorization_input \<Rightarrow> string" where
  "poll_key inp = au_OrderURL inp @ ''|'' @ au_Identifier inp @ ''|'' @ au_ChallengeType inp"

definition fake_PollAuthorization ::
  "authorization_input \<Rightarrow> fake_acme \<Rightarrow> (adapter_error + authorization_status) \<times> fake_acme" where
  "fake_PollAuthorization inp c =
     (let key = poll_key inp;
          n = mcount (fa_pollCounts c) key + 1;
          c' = c\<lparr>fa_pollCounts := mput key n (fa_pollCounts c)\<rparr> in
      if mget (fa_InvalidIdentifiers c) (normToken (au_Identifier inp)) = Some True then (Inr AuthorizationInvalid, c')
      else if n \<le> fa_PendingPolls c then (Inr AuthorizationPending, c')
      else (Inr AuthorizationValid, c'))"

definition fake_FinalizeOrder :: "string \<Rightarrow> fake_acme \<Rightarrow> (adapter_error + string) \<times> fake_acme" where
  "fake_FinalizeOrder orderURL c =
     (case fa_FinalizeOrderErr c of
        Some e \<Rightarrow> (Inl e, c)
      | None \<Rightarrow>
          let ref = orderURL @ ''/certificate''
          in (Inr ref, c\<lparr>fa_issuedByOrder := mput orderURL ref (fa_issuedByOrder c)\<rparr>))"

definition fake_DownloadCertificate :: "string \<Rightarrow> fake_acme \<Rightarrow> (adapter_error + string) \<times> fake_acme" where
  "fake_DownloadCertificate orderURL c =
     (case fa_DownloadErr c of
        Some e \<Rightarrow> (Inl e, c)
      | None \<Rightarrow>
          (case mget (fa_issuedByOrder c) orderURL of
             None \<Rightarrow> (Inl (Wrapping (''order '' @ orderURL @ '' not finalized'') (Upstream ''resource unavailable'')), c)
           | Some ref \<Rightarrow> (Inr ref, c)))"

definition fake_client :: "fake_acme acme_client" where
  "fake_client = \<lparr>am_CreateOrder = fake_CreateOrder, am_NotifyChallengeReady = fake_NotifyChallengeReady,
     am_PollAuthorization = fake_PollAuthorization, am_FinalizeOrder = fake_FinalizeOrder,
     am_DownloadCertificate = fake_DownloadCertificate\<rparr>"

section \<open>DNS\<close>

text \<open>\<^verbatim>\<open>PresentInput\<close>, \<^verbatim>\<open>CleanupInput\<close> and \<^verbatim>\<open>PropagationInput\<close> are a record name and a record value.\<close>

record txt_record =
  tr_RecordName :: string
  tr_RecordValue :: string

record 'd dns_executor =
  dn_PresentTXT :: "txt_record \<Rightarrow> 'd \<Rightarrow> (adapter_error + unit) \<times> 'd"
  dn_CleanupTXT :: "txt_record \<Rightarrow> 'd \<Rightarrow> (adapter_error + unit) \<times> 'd"
  dn_CheckPropagation :: "txt_record \<Rightarrow> 'd \<Rightarrow> (adapter_error + bool) \<times> 'd"

record fake_dns =
  fd_PendingChecks :: int
  fd_PresentErr :: "adapter_error option"
  fd_CleanupErr :: "adapter_error option"
  fd_PropagationErr :: "adapter_error option"
  fd_checkCounts :: "(string, int) gomap"

definition NewFakeExecutor :: fake_dns where
  "NewFakeExecutor = \<lparr>fd_PendingChecks = 0, fd_PresentErr = None, fd_CleanupErr = None, fd_PropagationErr = None,
     fd_checkCounts = []\<rparr>"

definition blank_record :: "txt_record \<Rightarrow> bool" where
  "blank_record r = (TrimSpace (tr_RecordName r) = [] \<or> TrimSpace (tr_RecordValue r) = [])"

definition fake_PresentTXT :: "txt_record \<Rightarrow> fake_dns \<Rightarrow> (adapter_error + unit) \<times> fake_dns" where
  "fake_PresentTXT r e =
     (if blank_record r then (Inl (validation_failed ''dns record material required''), e)
      else case fd_PresentErr e of Some x \<Rightarrow> (Inl x, e) | None \<Rightarrow> (Inr (), e))"

definition fake_CleanupTXT :: "txt_record \<Rightarrow> fake_dns \<Rightarrow> (adapter_error + unit) \<times> fake_dns" where
  "fake_CleanupTXT r e =
     (if blank_record r then (Inl (validation_failed ''dns record material required''), e)
      else case fd_CleanupErr e of Some x \<Rightarrow> (Inl x, e) | None \<Rightarrow> (Inr (), e))"

definition fake_CheckPropagation :: "txt_record \<Rightarrow> fake_dns \<Rightarrow> (adapter_error + bool) \<times> fake_dns" where
  "fake_CheckPropagation r e =
     (if blank_record r then (Inl (validation_failed ''dns record material required''), e)
      else case fd_PropagationErr e of
        Some x \<Rightarrow> (Inl x, e)
      | None \<Rightarrow>
          let key = tr_RecordName r @ ''|'' @ tr_RecordValue r;
              n = mcount (fd_checkCounts e) key + 1
          in (Inr (n > fd_PendingChecks e), e\<lparr>fd_checkCounts := mput key n (fd_checkCounts e)\<rparr>))"

definition fake_executor :: "fake_dns dns_executor" where
  "fake_executor = \<lparr>dn_PresentTXT = fake_PresentTXT, dn_CleanupTXT = fake_CleanupTXT,
     dn_CheckPropagation = fake_CheckPropagation\<rparr>"

section \<open>HTTP-01\<close>

record http_material =
  hm_Identifier :: string
  hm_Token :: string
  hm_KeyAuthorization :: string
  hm_Path :: string

record 'h http_presenter =
  hp_Present :: "http_material \<Rightarrow> 'h \<Rightarrow> (adapter_error + unit) \<times> 'h"
  hp_Cleanup :: "http_material \<Rightarrow> 'h \<Rightarrow> (adapter_error + unit) \<times> 'h"

record fake_http =
  fh_PresentErr :: "adapter_error option"
  fh_CleanupErr :: "adapter_error option"

definition fake_http_Present :: "http_material \<Rightarrow> fake_http \<Rightarrow> (adapter_error + unit) \<times> fake_http" where
  "fake_http_Present m h = (case fh_PresentErr h of Some e \<Rightarrow> (Inl e, h) | None \<Rightarrow> (Inr (), h))"

definition fake_http_Cleanup :: "http_material \<Rightarrow> fake_http \<Rightarrow> (adapter_error + unit) \<times> fake_http" where
  "fake_http_Cleanup m h = (case fh_CleanupErr h of Some e \<Rightarrow> (Inl e, h) | None \<Rightarrow> (Inr (), h))"

definition fake_presenter :: "fake_http http_presenter" where
  "fake_presenter = \<lparr>hp_Present = fake_http_Present, hp_Cleanup = fake_http_Cleanup\<rparr>"

end
