(* ===== verification/Orchestrator.thy ===== *)
theory Orchestrator
  imports Scheduler CertRequest IssueWorkflow CertAsset Domains Issuer Adapters
begin

text \<open>
  The issuance orchestrator (\<^verbatim>\<open>internal/workflow/service.go\<close>, \<^verbatim>\<open>internal/workflow/executor.go\<close>): it turns a
  submitted request into a scheduled job and advances the issue workflow of the request by one stage
  for every job the scheduler hands it. Its world is the stores of the services it calls, the job
  repository and the other sides of the adapters. Every call to a service takes the next reading of
  \<open>os_clock\<close>, \<open>os_ids\<close> and \<open>os_rnd\<close>, counted by \<open>w_tick\<close>. The calls of one job run without another actor
  between them.
\<close>

section \<open>Data\<close>

record ('j, 'a, 'd, 'h) world =
  w_requests :: request_store
  w_workflows :: workflow_store
  w_assets :: asset_store
  w_domains :: domain_store
  w_issuers :: account_store
  w_jobs :: 'j
  w_acme :: 'a
  w_dns :: 'd
  w_http :: 'h
  w_tick :: nat

text \<open>
  \<^verbatim>\<open>encoding/json\<close> on a struct whose fields are all strings: \<open>pc_marshal\<close> writes the fields,
  \<open>pc_unmarshal\<close> reads the named fields of a text, a missing one as empty, or fails.
\<close>

record payload_codec =
  pc_marshal :: "(string \<times> string) list \<Rightarrow> string"
  pc_unmarshal :: "string list \<Rightarrow> string \<Rightarrow> (string \<Rightarrow> string) option"

record ('j, 'a, 'd, 'h) orchestrator =
  os_Jobs :: "'j service"
  os_ACME :: "'a acme_client"
  os_DNS :: "'d dns_executor"
  os_HTTP01 :: "'h http_presenter"
  os_codec :: payload_codec
  os_clock :: "nat \<Rightarrow> nat \<Rightarrow> gotime"
  os_ids :: "nat \<Rightarrow> nat \<Rightarrow> string"
  os_rnd :: "nat \<Rightarrow> rawbytes option"

record submit_input =
  si_RequestType :: string
  si_DomainIDs :: "string list"
  si_CAAccountID :: string
  si_AssetID :: string
  si_CertificateType :: string
  si_ChallengeType :: string
  si_IdempotencyKey :: string
  si_DeploymentTargetIDs :: "string list"

record accepted_result =
  ar_RequestID :: string
  ar_JobID :: string

record process_result =
  pr_Retryable :: bool
  pr_RetryDelay :: duration
  pr_ErrorCode :: string
  pr_ErrorMessage :: string

definition success :: process_result where
  "success = \<lparr>pr_Retryable = False, pr_RetryDelay = 0, pr_ErrorCode = [], pr_ErrorMessage = []\<rparr>"

definition failed :: "string \<Rightarrow> string \<Rightarrow> process_result" where
  "failed code msg = \<lparr>pr_Retryable = False, pr_RetryDelay = 0, pr_ErrorCode = code, pr_ErrorMessage = msg\<rparr>"

definition retried :: "string \<Rightarrow> string \<Rightarrow> process_result" where
  "retried code msg = \<lparr>pr_Retryable = True, pr_RetryDelay = 0, pr_ErrorCode = code, pr_ErrorMessage = msg\<rparr>"

record start_payload =
  sp_RequestID :: string

record continue_payload =
  kp_RequestID :: string
  kp_WorkflowID :: string
  kp_ExpectedStatus :: string
  kp_Trigger :: string

text \<open>The constructor refuses a missing dependency; the stores stand for the services that own them.\<close>

definition NewOrchestrator ::
  "request_store option \<Rightarrow> workflow_store option \<Rightarrow> asset_store option \<Rightarrow> domain_store option \<Rightarrow> account_store option
   \<Rightarrow> 'j service option \<Rightarrow> 'a acme_client option \<Rightarrow> 'd dns_executor option \<Rightarrow> 'h http_presenter option
   \<Rightarrow> payload_codec \<Rightarrow> (nat \<Rightarrow> nat \<Rightarrow> gotime) \<Rightarrow> (nat \<Rightarrow> nat \<Rightarrow> string) \<Rightarrow> (nat \<Rightarrow> rawbytes option)
   \<Rightarrow> gerror + ('j, 'a, 'd, 'h) orchestrator" where
  "NewOrchestrator requests workflows assets domains issuers jobs acme dns http codec clock ids rnd =
     (if requests = None then Inl (Err ErrPlain ''certificate request service required'')
      else if workflows = None then Inl (Err ErrPlain ''issue workflow service required'')
      else if assets = None then Inl (Err ErrPlain ''certificate asset service required'')
      else if domains = None then Inl (Err ErrPlain ''domain service required'')
      else if issuers = None then Inl (Err ErrPlain ''issuer service required'')
      else case jobs of
        None \<Rightarrow> Inl (Err ErrPlain ''jobs service required'')
      | Some j \<Rightarrow> (case acme of
          None \<Rightarrow> Inl (Err ErrPlain ''acme client required'')
        | Some a \<Rightarrow> (case dns of
            None \<Rightarrow> Inl (Err ErrPlain ''dns executor required'')
          | Some d \<Rightarrow> (case http of
              None \<Rightarrow> Inl (Err ErrPlain ''http01 presenter required'')
            | Some h \<Rightarrow> Inr \<lparr>os_Jobs = j, os_ACME = a, os_DNS = d, os_HTTP01 = h, os_codec = codec,
                             os_clock = clock, os_ids = ids, os_rnd = rnd\<rparr>))))"

section \<open>Calling a service\<close>

text \<open>\<^verbatim>\<open>if x, err := f(); err != nil { return h(err) }\<close>, then the rest on \<open>x\<close>.\<close>

definition attempt ::
  "('w \<Rightarrow> ('e + 'x) \<times> 'w) \<Rightarrow> ('e \<Rightarrow> 'w \<Rightarrow> 'r \<times> 'w) \<Rightarrow> ('x \<Rightarrow> 'w \<Rightarrow> 'r \<times> 'w) \<Rightarrow> 'w \<Rightarrow> 'r \<times> 'w" where
  "attempt f h k w = (case f w of (Inl e, w') \<Rightarrow> h e w' | (Inr x, w') \<Rightarrow> k x w')"

text \<open>\<^verbatim>\<open>return ProcessResult{ErrorCode: code, ErrorMessage: err.Error()}\<close>.\<close>

definition fails :: "string \<Rightarrow> gerror \<Rightarrow> 'w \<Rightarrow> process_result \<times> 'w" where
  "fails code e w = (failed code (err_detail e), w)"

definition passes :: "gerror \<Rightarrow> 'w \<Rightarrow> (gerror + 'x) \<times> 'w" where
  "passes e w = (Inl e, w)"

definition ignore :: "('w \<Rightarrow> 'x \<times> 'w) \<Rightarrow> 'w \<Rightarrow> 'w" where
  "ignore f w = snd (f w)"

definition on_requests ::
  "('j, 'a, 'd, 'h) orchestrator \<Rightarrow> (request_store \<Rightarrow> gotime \<Rightarrow> string \<Rightarrow> 'r \<times> request_store)
   \<Rightarrow> ('j, 'a, 'd, 'h) world \<Rightarrow> 'r \<times> ('j, 'a, 'd, 'h) world" where
  "on_requests s f w =
     (let (r, st) = f (w_requests w) (os_clock s (w_tick w) 0) (os_ids s (w_tick w) 0)
      in (r, w\<lparr>w_requests := st, w_tick := Suc (w_tick w)\<rparr>))"

definition on_workflows ::
  "('j, 'a, 'd, 'h) orchestrator \<Rightarrow> (workflow_store \<Rightarrow> gotime \<Rightarrow> (nat \<Rightarrow> string) \<Rightarrow> 'r \<times> workflow_store)
   \<Rightarrow> ('j, 'a, 'd, 'h) world \<Rightarrow> 'r \<times> ('j, 'a, 'd, 'h) world" where
  "on_workflows s f w =
     (let (r, st) = f (w_workflows w) (os_clock s (w_tick w) 0) (os_ids s (w_tick w))
      in (r, w\<lparr>w_workflows := st, w_tick := Suc (w_tick w)\<rparr>))"

definition on_assets ::
  "('j, 'a, 'd, 'h) orchestrator \<Rightarrow> (asset_store \<Rightarrow> gotime \<Rightarrow> (nat \<Rightarrow> string) \<Rightarrow> 'r \<times> asset_store)
   \<Rightarrow> ('j, 'a, 'd, 'h) world \<Rightarrow> 'r \<times> ('j, 'a, 'd, 'h) world" where
  "on_assets s f w =
     (let (r, st) = f (w_assets w) (os_clock s (w_tick w) 0) (os_ids s (w_tick w))
      in (r, w\<lparr>w_assets := st, w_tick := Suc (w_tick w)\<rparr>))"

definition on_domains ::
  "(domain_store \<Rightarrow> 'r \<times> domain_store) \<Rightarrow> ('j, 'a, 'd, 'h) world \<Rightarrow> 'r \<times> ('j, 'a, 'd, 'h) world" where
  "on_domains f w = (let (r, st) = f (w_domains w) in (r, w\<lparr>w_domains := st\<rparr>))"

definition on_acme :: "('a \<Rightarrow> 'r \<times> 'a) \<Rightarrow> ('j, 'a, 'd, 'h) world \<Rightarrow> 'r \<times> ('j, 'a, 'd, 'h) world" where
  "on_acme f w = (let (r, st) = f (w_acme w) in (r, w\<lparr>w_acme := st\<rparr>))"

definition on_dns :: "('d \<Rightarrow> 'r \<times> 'd) \<Rightarrow> ('j, 'a, 'd, 'h) world \<Rightarrow> 'r \<times> ('j, 'a, 'd, 'h) world" where
  "on_dns f w = (let (r, st) = f (w_dns w) in (r, w\<lparr>w_dns := st\<rparr>))"

definition on_http :: "('h \<Rightarrow> 'r \<times> 'h) \<Rightarrow> ('j, 'a, 'd, 'h) world \<Rightarrow> 'r \<times> ('j, 'a, 'd, 'h) world" where
  "on_http f w = (let (r, st) = f (w_http w) in (r, w\<lparr>w_http := st\<rparr>))"

text \<open>The calls on workflows the stages make.\<close>

definition set_challenge where
  "set_challenge s sc flowID challengeID status =
     on_workflows s (\<lambda>st now ids. workflow_UpdateChallengeStatus st sc flowID challengeID status now)"

definition set_workflow where
  "set_workflow s sc flowID status = on_workflows s (\<lambda>st now ids. workflow_Transition st sc flowID status now)"

definition record_error where
  "record_error s sc flowID code msg = on_workflows s (\<lambda>st now ids. workflow_RecordError st sc flowID code msg now)"

definition fail_workflow where
  "fail_workflow s sc flowID code msg = on_workflows s (\<lambda>st now ids. workflow_MarkFailed st sc flowID code msg now)"

section \<open>Payloads and keys\<close>

definition scopeFromJob :: "job \<Rightarrow> scope" where
  "scopeFromJob rec = \<lparr>TenantID = j_TenantID rec, ProjectID = j_ProjectID rec, EnvironmentID = j_EnvironmentID rec\<rparr>"

definition start_fields :: "start_payload \<Rightarrow> (string \<times> string) list" where
  "start_fields p = [(''request_id'', sp_RequestID p)]"

definition continue_fields :: "continue_payload \<Rightarrow> (string \<times> string) list" where
  "continue_fields p = [(''request_id'', kp_RequestID p), (''workflow_id'', kp_WorkflowID p),
     (''expected_status'', kp_ExpectedStatus p), (''trigger'', kp_Trigger p)]"

definition parseStartPayload :: "payload_codec \<Rightarrow> string \<Rightarrow> gerror + start_payload" where
  "parseStartPayload codec raw =
     (case pc_unmarshal codec [''request_id''] raw of
        None \<Rightarrow> Inl (Err ErrPlain ''decode start workflow payload'')
      | Some f \<Rightarrow>
          if TrimSpace (f ''request_id'') = [] then Inl (Err ErrValidation ''request_id required'')
          else Inr \<lparr>sp_RequestID = f ''request_id''\<rparr>)"

definition parseContinuePayload :: "payload_codec \<Rightarrow> string \<Rightarrow> gerror + continue_payload" where
  "parseContinuePayload codec raw =
     (case pc_unmarshal codec [''request_id'', ''workflow_id'', ''expected_status'', ''trigger''] raw of
        None \<Rightarrow> Inl (Err ErrPlain ''decode continue workflow payload'')
      | Some f \<Rightarrow>
          if TrimSpace (f ''request_id'') = [] \<or> TrimSpace (f ''workflow_id'') = []
          then Inl (Err ErrValidation ''request_id and workflow_id required'')
          else Inr \<lparr>kp_RequestID = f ''request_id'', kp_WorkflowID = f ''workflow_id'',
                    kp_ExpectedStatus = f ''expected_status'', kp_Trigger = f ''trigger''\<rparr>)"

definition mapOrderIdentifiers :: "domain_ref list \<Rightarrow> domain_identifier list" where
  "mapOrderIdentifiers refs = map (\<lambda>r. \<lparr>id_DomainAssetID = dr_DomainID r, id_Name = dr_DomainName r\<rparr>) refs"

definition startJobIdempotencyKey :: "string \<Rightarrow> string" where
  "startJobIdempotencyKey requestID = ''issuewf:start:'' @ TrimSpace requestID"

definition continueJobIdempotencyKey :: "string \<Rightarrow> workflow_status \<Rightarrow> string" where
  "continueJobIdempotencyKey workflowID status =
     ''issuewf:continue:'' @ TrimSpace workflowID @ '':'' @ TrimSpace (workflow_status_str status)"

section \<open>Making sure of a record\<close>

definition ensureWorkflow where
  "ensureWorkflow s sc request w =
     (case on_workflows s (\<lambda>st now ids. workflow_Create st sc
              \<lparr>wi_CertificateRequestID = rq_ID request, wi_CAAccountID = rq_CAAccountID request,
               wi_WorkflowType = rq_RequestType request\<rparr> now (ids 0)) w of
        (Inl e, w') \<Rightarrow>
          if errorsIs e ErrConflict
          then (case workflow_GetByRequest (w_workflows w') sc (rq_ID request) of
                  Inl e' \<Rightarrow> (Inl e', w') | Inr existing \<Rightarrow> (Inr (existing, False), w'))
          else (Inl e, w')
      | (Inr rec, w') \<Rightarrow> (Inr (rec, True), w'))"

text \<open>The two kinds of job differ in their parameters; a duplicate key hands back the job that has it.\<close>

definition schedule_or_get where
  "schedule_or_get s key params w =
     (case Schedule (os_Jobs s) (\<lambda>k. os_clock s (w_tick w) (Suc k)) params (os_clock s (w_tick w) 0)
             (os_rnd s (w_tick w)) (w_jobs w) of
        (r, st) \<Rightarrow>
          let w' = w\<lparr>w_jobs := st, w_tick := Suc (w_tick w)\<rparr> in
          (case r of
             Inl e \<Rightarrow> if errorsIs e ErrDuplicateJob then (sv_GetByIdempotency (os_Jobs s) key st, w') else (Inl e, w')
           | Inr rec \<Rightarrow> (Inr rec, w')))"

definition start_params where
  "start_params s request = \<lparr>cp_TenantID = TenantID (rq_Scope request), cp_ProjectID = ProjectID (rq_Scope request),
     cp_EnvironmentID = EnvironmentID (rq_Scope request), cp_JobType = ''start_issue_workflow'',
     cp_AggregateType = ''certificate_request'', cp_AggregateID = rq_ID request, cp_Priority = 100,
     cp_Payload = pc_marshal (os_codec s) (start_fields \<lparr>sp_RequestID = rq_ID request\<rparr>),
     cp_IdempotencyKey = startJobIdempotencyKey (rq_ID request), cp_MaxAttempts = 0, cp_NextRunAt = zeroTime\<rparr>"

definition ensureStartJob where
  "ensureStartJob s request = schedule_or_get s (startJobIdempotencyKey (rq_ID request)) (start_params s request)"

definition continue_params where
  "continue_params s request flow status =
     \<lparr>cp_TenantID = TenantID (rq_Scope request), cp_ProjectID = ProjectID (rq_Scope request),
      cp_EnvironmentID = EnvironmentID (rq_Scope request), cp_JobType = ''continue_issue_workflow'',
      cp_AggregateType = ''issue_workflow'', cp_AggregateID = wf_ID flow, cp_Priority = 90,
      cp_Payload = pc_marshal (os_codec s) (continue_fields
        \<lparr>kp_RequestID = rq_ID request, kp_WorkflowID = wf_ID flow, kp_ExpectedStatus = workflow_status_str status,
         kp_Trigger = rq_RequestSource request\<rparr>),
      cp_IdempotencyKey = continueJobIdempotencyKey (wf_ID flow) status, cp_MaxAttempts = 0, cp_NextRunAt = zeroTime\<rparr>"

definition ensureContinueJob where
  "ensureContinueJob s request flow status =
     schedule_or_get s (continueJobIdempotencyKey (wf_ID flow) status) (continue_params s request flow status)"

definition ensureRequestAccepted where
  "ensureRequestAccepted s sc request w =
     (if rq_Status request \<in> {RqAccepted, RqRunning, RqCompleted} then (Inr request, w)
      else on_requests s (\<lambda>st now i. request_MarkAccepted st sc (rq_ID request) now) w)"

definition ensureRequestRunning where
  "ensureRequestRunning s sc request w =
     (if rq_Status request \<in> {RqRunning, RqCompleted} then (Inr request, w)
      else if rq_Status request = RqSubmitted
      then attempt (on_requests s (\<lambda>st now i. request_MarkAccepted st sc (rq_ID request) now)) passes
             (\<lambda>_. on_requests s (\<lambda>st now i. request_MarkRunning st sc (rq_ID request) now)) w
      else on_requests s (\<lambda>st now i. request_MarkRunning st sc (rq_ID request) now) w)"

definition ensureRequestCompleted where
  "ensureRequestCompleted s sc request w =
     (if rq_Status request = RqCompleted then (Inr request, w)
      else on_requests s (\<lambda>st now i. request_MarkCompleted st sc (rq_ID request) now) w)"

definition ensureRequestFailed where
  "ensureRequestFailed s sc request w =
     (if rq_Status request = RqFailed \<or> rq_Status request = RqCompleted then (Inr request, w)
      else on_requests s (\<lambda>st now i. request_MarkFailed st sc (rq_ID request) now) w)"

end
