(* ===== verification/Stages.thy ===== *)
theory Stages
  imports Orchestrator
begin

text \<open>
  The stages of an issuance (\<^verbatim>\<open>internal/workflow/service.go\<close>): submitting a request, the start job that
  places the order, the continue job that dispatches on the status of the workflow, and the
  executor that reports to the scheduler.
\<close>

section \<open>Failures of adapters\<close>

text \<open>Temporary: the job is retried. Permanent: the workflow and its request fail, the job is done.\<close>

definition classifyAdapterFailure where
  "classifyAdapterFailure s sc request flow code err w =
     (let w1 = ignore (record_error s sc (wf_ID flow) code (error_text err)) w in
      if acme_IsTemporary err \<or> dns_IsTemporary err then (retried code (error_text err), w1)
      else
        let w2 = ignore (fail_workflow s sc (wf_ID flow) code (error_text err)) w1
        in (success, ignore (ensureRequestFailed s sc request) w2))"

definition http_material_of :: "challenge \<Rightarrow> http_material" where
  "http_material_of c = \<lparr>hm_Identifier = ch_Identifier c, hm_Token = ch_Token c,
     hm_KeyAuthorization = ch_KeyAuthorization c, hm_Path = ch_HTTPPath c\<rparr>"

definition txt_record_of :: "challenge \<Rightarrow> txt_record" where
  "txt_record_of c = \<lparr>tr_RecordName = ch_DNSRecordName c, tr_RecordValue = ch_DNSRecordValue c\<rparr>"

definition authorization_of :: "workflow \<Rightarrow> challenge \<Rightarrow> authorization_input" where
  "authorization_of flow c = \<lparr>au_OrderURL = wf_OrderURL flow, au_Identifier = ch_Identifier c,
     au_ChallengeType = ch_ChallengeType c\<rparr>"

definition cleanupChallenge where
  "cleanupChallenge s c w =
     (let mark = (\<lambda>status. ignore (set_challenge s (ch_Scope c) (ch_IssueWorkflowID c) (ch_ID c) status)) in
      if ch_ChallengeType c = ''dns-01''
      then (case on_dns (dn_CleanupTXT (os_DNS s) (txt_record_of c)) w of
              (Inl e, w') \<Rightarrow> mark ChCleanupFailed w'
            | (Inr _, w') \<Rightarrow> mark ChCleaned w')
      else if ch_ChallengeType c = ''http-01''
      then (case on_http (hp_Cleanup (os_HTTP01 s) (http_material_of c)) w of
              (Inl e, w') \<Rightarrow> mark ChCleanupFailed w'
            | (Inr _, w') \<Rightarrow> mark ChCleaned w')
      else mark ChCleaned w)"

section \<open>Loops over challenges\<close>

text \<open>
  One round of a loop over challenges either returns from the stage, a left value, or says whether
  the challenge is done; the loop ends with whether all are.
\<close>

fun all_done :: "('c \<Rightarrow> 'w \<Rightarrow> ('r + bool) \<times> 'w) \<Rightarrow> 'c list \<Rightarrow> bool \<Rightarrow> 'w \<Rightarrow> ('r + bool) \<times> 'w" where
  "all_done f [] done w = (Inr done, w)"
| "all_done f (c # cs) done w =
     (case f c w of (Inl r, w') \<Rightarrow> (Inl r, w') | (Inr d, w') \<Rightarrow> all_done f cs (done \<and> d) w')"

definition leaves :: "string \<Rightarrow> gerror \<Rightarrow> 'w \<Rightarrow> (process_result + 'x) \<times> 'w" where
  "leaves code e w = (Inl (failed code (err_detail e)), w)"

definition adapter_leaves where
  "adapter_leaves s sc request flow code e w =
     (let (r, w') = classifyAdapterFailure s sc request flow code e w in (Inl r, w'))"

definition going :: "bool \<Rightarrow> 'w \<Rightarrow> ('r + bool) \<times> 'w" where
  "going d w = (Inr d, w)"

text \<open>The calls \<^verbatim>\<open>UpdateChallengeStatus\<close> of a stage, which leaves on their failure.\<close>

definition moving where
  "moving s sc flow c status k =
     attempt (set_challenge s sc (wf_ID flow) (ch_ID c) status) (leaves ''WORKFLOW_CHALLENGE_STATE_FAILED'') (\<lambda>_. k)"

definition pending_round where
  "pending_round s sc request flow c =
     (case ch_Status c of
        ChPending \<Rightarrow>
          moving s sc flow c ChPresenting
            (if ch_ChallengeType c = ''http-01''
             then attempt (on_http (hp_Present (os_HTTP01 s) (http_material_of c)))
                    (adapter_leaves s sc request flow ''CHALLENGE_PRESENT_FAILED'')
                    (\<lambda>_. moving s sc flow c ChPresented (moving s sc flow c ChReady (going True)))
             else if ch_ChallengeType c = ''dns-01''
             then attempt (on_dns (dn_PresentTXT (os_DNS s) (txt_record_of c)))
                    (adapter_leaves s sc request flow ''CHALLENGE_PRESENT_FAILED'')
                    (\<lambda>_. moving s sc flow c ChPresented (moving s sc flow c ChPropagating (going False)))
             else going True)
      | ChPresented \<Rightarrow>
          if ch_ChallengeType c = ''dns-01'' then moving s sc flow c ChPropagating (going False) else going True
      | ChPropagating \<Rightarrow>
          attempt (on_dns (dn_CheckPropagation (os_DNS s) (txt_record_of c)))
            (adapter_leaves s sc request flow ''DNS_PROPAGATION_FAILED'')
            (\<lambda>ready. if \<not> ready then going False else moving s sc flow c ChReady (going True))
      | ChReady \<Rightarrow> going True
      | _ \<Rightarrow> (\<lambda>w. (Inl (failed ''WORKFLOW_CHALLENGE_STATE_INVALID'' ''unexpected challenge status''), w)))"

text \<open>The end of a stage: the workflow moves and the continue job of its new status is made sure of.\<close>

definition advance where
  "advance s sc request flow status =
     attempt (set_workflow s sc (wf_ID flow) status) (fails ''WORKFLOW_STATE_FAILED'')
       (\<lambda>flow'. attempt (ensureContinueJob s request flow' (wf_Status flow')) (fails ''WORKFLOW_SCHEDULE_FAILED'')
         (\<lambda>_ w. (success, w)))"

definition continueChallengePending where
  "continueChallengePending s sc request flow challenges w =
     (case all_done (pending_round s sc request flow) challenges True w of
        (Inl r, w') \<Rightarrow> (r, w')
      | (Inr allReady, w') \<Rightarrow>
          if \<not> allReady then (retried ''CHALLENGE_NOT_READY'' ''challenge propagation still pending'', w')
          else advance s sc request flow WfChallengeProcessing w')"

definition invalid_challenge where
  "invalid_challenge s sc request flow c =
     moving s sc flow c ChInvalid
       (moving s sc flow c ChCleanupPending
         (\<lambda>w. attempt (fail_workflow s sc (wf_ID flow) ''CHALLENGE_VERIFY_FAILED'' ''challenge verification failed'')
                (leaves ''WORKFLOW_STATE_FAILED'')
                (\<lambda>_. attempt (ensureRequestFailed s sc request) (leaves ''REQUEST_STATE_INVALID'') (\<lambda>_ w'. (Inl success, w')))
                (cleanupChallenge s c w)))"

definition processing_round where
  "processing_round s sc request flow c =
     (case ch_Status c of
        ChReady \<Rightarrow>
          attempt (on_acme (am_NotifyChallengeReady (os_ACME s) (authorization_of flow c)))
            (adapter_leaves s sc request flow ''CHALLENGE_VERIFY_FAILED'')
            (\<lambda>_. moving s sc flow c ChVerifying (going False))
      | ChVerifying \<Rightarrow>
          attempt (on_acme (am_PollAuthorization (os_ACME s) (authorization_of flow c)))
            (adapter_leaves s sc request flow ''CHALLENGE_VERIFY_FAILED'')
            (\<lambda>status. case status of
               AuthorizationPending \<Rightarrow> going False
             | AuthorizationValid \<Rightarrow> moving s sc flow c ChValid (going True)
             | AuthorizationInvalid \<Rightarrow> invalid_challenge s sc request flow c
             | AuthorizationOther _ \<Rightarrow>
                 (\<lambda>w. (Inl (failed ''CHALLENGE_VERIFY_FAILED'' ''unknown authorization status''), w)))
      | ChValid \<Rightarrow> going True
      | _ \<Rightarrow> (\<lambda>w. (Inl (failed ''WORKFLOW_CHALLENGE_STATE_INVALID'' ''unexpected challenge status''), w)))"

definition continueChallengeProcessing where
  "continueChallengeProcessing s sc request flow challenges w =
     (case all_done (processing_round s sc request flow) challenges True w of
        (Inl r, w') \<Rightarrow> (r, w')
      | (Inr allValid, w') \<Rightarrow>
          if \<not> allValid then (retried ''CHALLENGE_VERIFY_PENDING'' ''challenge verification still pending'', w')
          else advance s sc request flow WfChallengeValid w')"

section \<open>Finalizing and completing\<close>

definition finalize_order where
  "finalize_order s sc request flow =
     attempt (on_acme (am_FinalizeOrder (os_ACME s) (wf_OrderURL flow)))
       (classifyAdapterFailure s sc request flow ''ACME_FINALIZE_FAILED'')
       (\<lambda>_. attempt (on_acme (am_DownloadCertificate (os_ACME s) (wf_OrderURL flow)))
         (classifyAdapterFailure s sc request flow ''ACME_DOWNLOAD_FAILED'')
         (\<lambda>ref. attempt (on_workflows s (\<lambda>st now ids. workflow_MarkIssued st sc (wf_ID flow) ref now))
           (fails ''WORKFLOW_STATE_FAILED'')
           (\<lambda>flow'. attempt (ensureContinueJob s request flow' (wf_Status flow')) (fails ''WORKFLOW_SCHEDULE_FAILED'')
             (\<lambda>_ w. (success, w)))))"

definition continueFinalizing where
  "continueFinalizing s sc request flow =
     (if wf_Status flow = WfChallengeValid
      then attempt (set_workflow s sc (wf_ID flow) WfFinalizing) (fails ''WORKFLOW_STATE_FAILED'')
             (finalize_order s sc request)
      else finalize_order s sc request flow)"

text \<open>The asset is linked to its domains one after the other; the first failure is the result.\<close>

fun link_domains ::
  "scope \<Rightarrow> cert_ref \<Rightarrow> string list \<Rightarrow> ('j, 'a, 'd, 'h) world \<Rightarrow> (gerror + unit) \<times> ('j, 'a, 'd, 'h) world" where
  "link_domains sc ref [] w = (Inr (), w)"
| "link_domains sc ref (i # ids) w =
     (case on_domains (\<lambda>st. domain_LinkCertificateAsset st sc i ref) w of
        (Inl e, w') \<Rightarrow> (Inl e, w') | (Inr _, w') \<Rightarrow> link_domains sc ref ids w')"

fun asset_status_str :: "asset_status \<Rightarrow> string" where
  "asset_status_str AsActive = ''active''"
| "asset_status_str AsExpiring = ''expiring''"
| "asset_status_str AsRenewing = ''renewing''"
| "asset_status_str AsDeployFail = ''deploy_failed''"
| "asset_status_str AsExpired = ''expired''"
| "asset_status_str AsRevoked = ''revoked''"
| "asset_status_str AsOrphaned = ''orphaned''"
| "asset_status_str (AsOther s) = s"

definition issue_of :: "request \<Rightarrow> workflow \<Rightarrow> string list \<Rightarrow> issue_input" where
  "issue_of request flow domainIDs =
     \<lparr>ii_AssetID = rq_AssetID request, ii_Name = rq_CommonName request, ii_CAAccountID = rq_CAAccountID request,
      ii_CertificateType = rq_CertificateType request, ii_ChallengeType = rq_ChallengeType request,
      ii_CommonName = rq_CommonName request, ii_DomainIDs = domainIDs, ii_CertificateRequestID = rq_ID request,
      ii_IssueWorkflowID = wf_ID flow, ii_CertificateRef = wf_CertificateRef flow\<rparr>"

text \<open>A failure to persist is recorded at the workflow and retried.\<close>

definition note_and_retry where
  "note_and_retry s sc flow code e w =
     (retried code (err_detail e), ignore (record_error s sc (wf_ID flow) code (err_detail e)) w)"

definition completeIssued where
  "completeIssued s sc request flow w =
     (case request_ListDomains (w_requests w) sc (rq_ID request) of
        Inl e \<Rightarrow> (retried ''REQUEST_DOMAIN_LOOKUP_FAILED'' (err_detail e), w)
      | Inr refs \<Rightarrow>
          let domainIDs = map dr_DomainID refs in
          attempt (on_assets s (\<lambda>st now ids. asset_UpsertIssued st sc (issue_of request flow domainIDs) now (ids 0) (ids 1)))
            (note_and_retry s sc flow ''ASSET_PERSIST_FAILED'')
            (\<lambda>(a, v, created).
              attempt (link_domains sc \<lparr>cr_ID = as_ID a, cr_Name = as_Name a, cr_Status = asset_status_str (as_Status a),
                                        cr_ExpiresAt = None\<rparr> domainIDs)
                (note_and_retry s sc flow ''ASSET_LINK_FAILED'')
                (\<lambda>_. attempt (ensureRequestCompleted s sc request) (fails ''REQUEST_STATE_INVALID'') (\<lambda>_ w'. (success, w')))) w)"

section \<open>The two kinds of job\<close>

definition processContinueJob where
  "processContinueJob s rec w =
     (let sc = scopeFromJob rec in
      case parseContinuePayload (os_codec s) (j_Payload rec) of
        Inl e \<Rightarrow> fails ''INVALID_JOB_PAYLOAD'' e w
      | Inr payload \<Rightarrow>
      (case request_Get (w_requests w) sc (kp_RequestID payload) of
        Inl e \<Rightarrow> fails ''REQUEST_NOT_FOUND'' e w
      | Inr request \<Rightarrow>
      (case workflow_Get (w_workflows w) sc (kp_WorkflowID payload) of
        Inl e \<Rightarrow> fails ''WORKFLOW_NOT_FOUND'' e w
      | Inr flow \<Rightarrow>
      (case workflow_ListChallenges (w_workflows w) sc (wf_ID flow) of
        Inl e \<Rightarrow> fails ''WORKFLOW_CHALLENGE_LOOKUP_FAILED'' e w
      | Inr challenges \<Rightarrow>
          (case wf_Status flow of
             WfChallengePending \<Rightarrow> continueChallengePending s sc request flow challenges w
           | WfChallengeProcessing \<Rightarrow> continueChallengeProcessing s sc request flow challenges w
           | WfChallengeValid \<Rightarrow> continueFinalizing s sc request flow w
           | WfFinalizing \<Rightarrow> continueFinalizing s sc request flow w
           | WfIssued \<Rightarrow> completeIssued s sc request flow w
           | WfFailed \<Rightarrow> (success, w)
           | WfCancelled \<Rightarrow> (success, w)
           | _ \<Rightarrow> (failed ''WORKFLOW_STATUS_UNSUPPORTED'' ''unsupported workflow status'', w))))))"

definition challenge_input_of :: "order_challenge \<Rightarrow> challenge_input" where
  "challenge_input_of c = \<lparr>ci_DomainAssetID = oc_DomainAssetID c, ci_ChallengeType = oc_ChallengeType c,
     ci_Identifier = oc_Identifier c, ci_Token = oc_Token c, ci_KeyAuthorization = oc_KeyAuthorization c,
     ci_HTTPPath = oc_HTTPPath c, ci_DNSRecordName = oc_DNSRecordName c, ci_DNSRecordValue = oc_DNSRecordValue c\<rparr>"

definition place_order where
  "place_order s sc request flow w =
     (case request_ListDomains (w_requests w) sc (rq_ID request) of
        Inl e \<Rightarrow> fails ''REQUEST_DOMAIN_LOOKUP_FAILED'' e w
      | Inr refs \<Rightarrow>
          attempt (on_acme (am_CreateOrder (os_ACME s)
              \<lparr>or_RequestID = rq_ID request, or_CommonName = rq_CommonName request,
               or_CertificateType = rq_CertificateType request, or_ChallengeType = rq_ChallengeType request,
               or_DomainIdentifiers = mapOrderIdentifiers refs\<rparr>))
            (classifyAdapterFailure s sc request flow ''ACME_ORDER_FAILED'')
            (\<lambda>order. attempt (on_workflows s (\<lambda>st now ids. workflow_RecordOrder st sc (wf_ID flow) (od_OrderURL order) (od_FinalizeURL order) now))
              (fails ''WORKFLOW_ORDER_RECORD_FAILED'')
              (\<lambda>flow1. attempt (on_workflows s (\<lambda>st now ids. workflow_EnsureChallenges st sc (wf_ID flow1)
                                  (map challenge_input_of (od_Challenges order)) now ids))
                (fails ''WORKFLOW_CHALLENGE_CREATE_FAILED'')
                (\<lambda>(_, flow2). attempt (ensureContinueJob s request flow2 WfChallengePending)
                  (fails ''WORKFLOW_SCHEDULE_FAILED'') (\<lambda>_ w'. (success, w'))))) w)"

definition processStartJob where
  "processStartJob s rec w =
     (let sc = scopeFromJob rec in
      case parseStartPayload (os_codec s) (j_Payload rec) of
        Inl e \<Rightarrow> fails ''INVALID_JOB_PAYLOAD'' e w
      | Inr payload \<Rightarrow>
      (case request_Get (w_requests w) sc (sp_RequestID payload) of
        Inl e \<Rightarrow> fails ''REQUEST_NOT_FOUND'' e w
      | Inr request \<Rightarrow>
          attempt (ensureRequestRunning s sc request) (fails ''REQUEST_STATE_INVALID'')
            (\<lambda>_. attempt (ensureWorkflow s sc request) (fails ''WORKFLOW_CREATE_FAILED'')
              (\<lambda>(flow, created).
                if \<not> created \<and> wf_Status flow \<noteq> WfCreated \<and> wf_Status flow \<noteq> WfOrderPending
                then attempt (ensureContinueJob s request flow (wf_Status flow)) (fails ''WORKFLOW_SCHEDULE_FAILED'')
                       (\<lambda>_ w'. (success, w'))
                else place_order s sc request flow)) w))"

definition ProcessJob where
  "ProcessJob s rec w =
     (if j_JobType rec = ''start_issue_workflow'' then processStartJob s rec w
      else if j_JobType rec = ''continue_issue_workflow'' then processContinueJob s rec w
      else (failed ''UNSUPPORTED_JOB_TYPE'' ''unsupported workflow job type'', w))"

section \<open>Submitting and renewing\<close>

definition relation_of :: "int \<Rightarrow> domain_asset \<Rightarrow> string" where
  "relation_of idx a =
     (if da_AllowWildcard a \<or> HasPrefix (da_DomainName a) ''*.'' then ''wildcard''
      else if idx = 0 then ''primary'' else ''san'')"

text \<open>The loop over the domains, with the index of the next one and what it has gathered.\<close>

fun resolve_domains ::
  "domain_store \<Rightarrow> scope \<Rightarrow> string list \<Rightarrow> int \<Rightarrow> domain_asset list \<Rightarrow> domain_ref list \<Rightarrow> bool
   \<Rightarrow> gerror + domain_asset list \<times> domain_ref list \<times> bool" where
  "resolve_domains st sc [] idx resolved refs hasWildcard = Inr (resolved, refs, hasWildcard)"
| "resolve_domains st sc (i # ids) idx resolved refs hasWildcard =
     (case domain_Get st sc i of
        Inl e \<Rightarrow> Inl e
      | Inr a \<Rightarrow>
          resolve_domains st sc ids (idx + 1) (resolved @ [a])
            (refs @ [\<lparr>dr_DomainID = da_ID a, dr_RelationType = relation_of idx a, dr_SortOrder = idx + 1,
                      dr_DomainName = da_DomainName a, dr_AllowWildcard = da_AllowWildcard a\<rparr>])
            (hasWildcard \<or> da_AllowWildcard a \<or> HasPrefix (da_DomainName a) ''*.''))"

definition prepareRequestInput ::
  "account_store \<Rightarrow> domain_store \<Rightarrow> scope \<Rightarrow> string \<Rightarrow> submit_input \<Rightarrow> gerror + request_input \<times> domain_asset list" where
  "prepareRequestInput issuers domains sc actorID inp =
     (if TrimSpace (si_CAAccountID inp) = [] then Inl (Err ErrValidation ''ca_account_id required'')
      else case account_Get issuers sc (si_CAAccountID inp) of
        Inl e \<Rightarrow> Inl e
      | Inr account \<Rightarrow>
          if ac_Status account \<noteq> ''active'' then Inl (Err ErrUnavailable ''ca account unavailable'')
          else if length (si_DomainIDs inp) = 0 then Inl (Err ErrValidation ''domain_ids required'')
          else (case resolve_domains domains sc (si_DomainIDs inp) 0 [] [] False of
             Inl e \<Rightarrow> Inl e
           | Inr (resolved, refs, hasWildcard) \<Rightarrow>
               let certificateType = normToken (si_CertificateType inp);
                   challengeType = normToken (si_ChallengeType inp) in
               Inr (\<lparr>ri_RequestType = orDefault ''issue'' (normToken (si_RequestType inp)), ri_RequestSource = ''manual'',
                     ri_AssetID = TrimSpace (si_AssetID inp), ri_CAAccountID = ac_ID account,
                     ri_CertificateType =
                       (if certificateType = []
                        then (if hasWildcard then ''wildcard'' else if length refs = 1 then ''single'' else ''san'')
                        else certificateType),
                     ri_ChallengeType = orDefault (da_DefaultChallengeType (hd resolved)) challengeType,
                     ri_CommonName = da_DomainName (hd resolved), ri_RequestedBy = TrimSpace actorID,
                     ri_IdempotencyKey = TrimSpace (si_IdempotencyKey inp), ri_Reason = [], ri_Domains = refs\<rparr>, resolved)))"

definition accept where
  "accept request j = \<lparr>ar_RequestID = rq_ID request, ar_JobID = j_ID j\<rparr>"

definition SubmitRequest where
  "SubmitRequest s sc actorID inp w =
     (case scope_Validate sc of
        Some e \<Rightarrow> (Inl e, w)
      | None \<Rightarrow>
          (case prepareRequestInput (w_issuers w) (w_domains w) sc actorID inp of
             Inl e \<Rightarrow> (Inl e, w)
           | Inr (requestInput, _) \<Rightarrow>
               attempt (on_requests s (\<lambda>st now i. request_Create st sc requestInput now i))
                 (\<lambda>e w'. if errorsIs e ErrConflict
                    then (case request_GetByIdempotency (w_requests w') sc (si_IdempotencyKey inp) of
                            Inl e' \<Rightarrow> (Inl e', w')
                          | Inr existing \<Rightarrow>
                              attempt (ensureStartJob s existing) passes (\<lambda>j w2. (Inr (accept existing j), w2)) w')
                    else (Inl e, w'))
                 (\<lambda>request. attempt (ensureStartJob s request) passes
                   (\<lambda>j. attempt (ensureRequestAccepted s sc request) passes (\<lambda>_ w'. (Inr (accept request j), w')))) w))"

definition RenewAsset where
  "RenewAsset s sc actorID assetID w =
     (case asset_Get (w_assets w) sc (TrimSpace assetID) of
        Inl e \<Rightarrow> (Inl e, w)
      | Inr a \<Rightarrow>
          SubmitRequest s sc actorID
            \<lparr>si_RequestType = ''renew'', si_DomainIDs = as_DomainIDs a, si_CAAccountID = as_CAAccountID a,
             si_AssetID = as_ID a, si_CertificateType = as_CertificateType a, si_ChallengeType = as_ChallengeType a,
             si_IdempotencyKey = ''renew:'' @ as_ID a @ '':'' @ FormatRFC3339Nano (os_clock s (w_tick w) 0),
             si_DeploymentTargetIDs = []\<rparr>
            (w\<lparr>w_tick := Suc (w_tick w)\<rparr>))"

section \<open>The executor\<close>

definition execution_of :: "process_result \<Rightarrow> execution_result" where
  "execution_of r =
     (if pr_ErrorCode r \<noteq> [] \<and> \<not> pr_Retryable r
      then \<lparr>er_ResultStatus = AttemptStatusFailed, er_Retryable = False, er_RetryDelay = 0,
            er_ErrorCode = pr_ErrorCode r, er_ErrorMessage = pr_ErrorMessage r, er_EvidenceRef = []\<rparr>
      else \<lparr>er_ResultStatus = (if pr_Retryable r then AttemptStatusFailed else AttemptStatusSucceeded),
            er_Retryable = pr_Retryable r, er_RetryDelay = pr_RetryDelay r, er_ErrorCode = pr_ErrorCode r,
            er_ErrorMessage = pr_ErrorMessage r, er_EvidenceRef = []\<rparr>)"

definition Execute where
  "Execute service claim w =
     (case service of
        None \<Rightarrow> (\<lparr>er_ResultStatus = AttemptStatusFailed, er_Retryable = False, er_RetryDelay = 0,
                   er_ErrorCode = ''WORKFLOW_SERVICE_REQUIRED'', er_ErrorMessage = ''workflow service required'',
                   er_EvidenceRef = []\<rparr>, w)
      | Some s \<Rightarrow> (let (r, w') = ProcessJob s (fst claim) w in (execution_of r, w')))"

end
