(* ===== verification/StageRules.thy ===== *)
theory StageRules
  imports Stages IssueWorkflowInv
begin

text \<open>
  Reasoning about a stage: a weakest precondition for calls that return a value and a world, a rule
  for every call a stage makes, and what a stage may end with. The status of the workflow is all
  these rules follow; the jobs in the queue come in where a stage hands over.
\<close>

lemma result_sels [simp]:
  "pr_Retryable (failed code msg) = False" "pr_ErrorCode (failed code msg) = code"
  "pr_Retryable (retried code msg) = True" "pr_ErrorCode (retried code msg) = code"
  "pr_Retryable success = False" "pr_ErrorCode success = []"
  by (simp_all add: failed_def retried_def success_def)

section \<open>Weakest preconditions\<close>

named_theorems wp_intros

definition wp :: "('w \<Rightarrow> 'r \<times> 'w) \<Rightarrow> ('r \<Rightarrow> 'w \<Rightarrow> bool) \<Rightarrow> 'w \<Rightarrow> bool" where
  "wp m Q w = (case m w of (r, w') \<Rightarrow> Q r w')"

lemma wpD: "wp m Q w \<Longrightarrow> m w = (r, w') \<Longrightarrow> Q r w'"
  by (simp add: wp_def)

lemma wpI: "(\<And>r w'. m w = (r, w') \<Longrightarrow> Q r w') \<Longrightarrow> wp m Q w"
  by (cases "m w") (simp add: wp_def)

lemma wp_mono: "wp m Q w \<Longrightarrow> (\<And>r w'. Q r w' \<Longrightarrow> R r w') \<Longrightarrow> wp m R w"
  by (simp add: wp_def split: prod.splits)

lemma wp_attempt:
  "wp (attempt f h k) Q w \<longleftrightarrow> wp f (\<lambda>r. case r of Inl e \<Rightarrow> wp (h e) Q | Inr x \<Rightarrow> wp (k x) Q) w"
  by (simp add: wp_def attempt_def split: prod.splits sum.splits)

text \<open>A loop over challenges keeps what each of its rounds keeps.\<close>

lemma wp_all_done:
  assumes "P w"
    and "\<And>c w. c \<in> set cs \<Longrightarrow> P w \<Longrightarrow> wp (f c) (\<lambda>r w'. case r of Inl x \<Rightarrow> Q x w' | Inr _ \<Rightarrow> P w') w"
  shows "wp (all_done f cs d) (\<lambda>r w'. case r of Inl x \<Rightarrow> Q x w' | Inr _ \<Rightarrow> P w') w"
  using assms
proof (induction cs arbitrary: d w)
  case Nil
  then show ?case by (simp add: wp_def)
next
  case (Cons c cs)
  obtain r w1 where f: "f c w = (r, w1)" by fastforce
  from wpD [OF Cons.prems(2) [of c w] f] Cons.prems(1) have r: "case r of Inl x \<Rightarrow> Q x w1 | Inr _ \<Rightarrow> P w1" by simp
  show ?case
  proof (cases r)
    case (Inl x)
    with f r show ?thesis by (simp add: wp_def)
  next
    case (Inr b)
    with r have "P w1" by simp
    from Cons.IH [OF this Cons.prems(2), of "d \<and> b"] f Inr show ?thesis by (simp add: wp_def)
  qed
qed

section \<open>The status of a workflow\<close>

text \<open>The workflow visible in the scope under the identifier has that identifier and that status.\<close>

definition flow_at :: "scope \<Rightarrow> string \<Rightarrow> workflow_status \<Rightarrow> ('j, 'a, 'd, 'h) world \<Rightarrow> bool" where
  "flow_at sc i st w = (\<exists>f. workflow_Get (w_workflows w) sc i = Inr f \<and> wf_ID f = i \<and> wf_Status f = st)"

lemma flow_at_iff: "flow_at sc i st w \<longleftrightarrow>
  valid_scope sc \<and> TrimSpace i \<noteq> [] \<and> (\<exists>f. mget (ws_byID (w_workflows w)) i = Some f \<and> wf_Scope f = sc \<and> wf_ID f = i \<and> wf_Status f = st)"
  by (auto simp: flow_at_def workflow_scoped.get_ok_iff)

lemma flow_at_same: "flow_at sc i st w \<Longrightarrow> ws_byID (w_workflows w') = ws_byID (w_workflows w) \<Longrightarrow> flow_at sc i st w'"
  by (simp add: flow_at_iff)

lemma on_workflows_eq:
  "on_workflows s f w = (fst (f (w_workflows w) (os_clock s (w_tick w) 0) (os_ids s (w_tick w))),
     w\<lparr>w_workflows := snd (f (w_workflows w) (os_clock s (w_tick w) 0) (os_ids s (w_tick w))), w_tick := Suc (w_tick w)\<rparr>)"
  by (simp add: on_workflows_def split: prod.splits)

lemma UpdateChallenge_byID: "ws_byID (snd (workflow_UpdateChallengeStatus st sc i c nxt now)) = ws_byID st"
  by (simp add: workflow_UpdateChallengeStatus_def split: sum.splits prod.splits)

lemma wp_set_challenge:
  assumes "flow_at sc i st w" "\<And>r w'. flow_at sc i st w' \<Longrightarrow> Q r w'"
  shows "wp (set_challenge s sc' j c status) Q w"
  unfolding wp_def set_challenge_def on_workflows_eq prod.case
  by (rule assms(2), rule flow_at_same [OF assms(1)]) (simp add: UpdateChallenge_byID)

lemma wp_ignore: "wp f (\<lambda>_ w'. P w') w \<Longrightarrow> P (ignore f w)"
  by (simp add: wp_def ignore_def split: prod.splits)

text \<open>An update of the workflow itself moves the status when the guard allows it.\<close>

lemma wp_update:
  assumes a: "flow_at sc i st w"
    and upd: "\<And>f now ids. wf_Status f = st \<Longrightarrow> wf_Scope f = sc \<Longrightarrow> wf_ID f = i \<Longrightarrow>
      \<exists>f'. upd now f = Inr f' \<and> wf_Status f' = st' \<and> wf_Scope f' = sc \<and> wf_ID f' = i"
    and Q: "\<And>f w'. flow_at sc i st' w' \<Longrightarrow> wf_ID f = i \<Longrightarrow> wf_Status f = st' \<Longrightarrow> w_jobs w' = w_jobs w \<Longrightarrow> Q (Inr f) w'"
  shows "wp (on_workflows s (\<lambda>ws now ids. updateWorkflow ws sc i now (upd now))) Q w"
proof -
  let ?now = "os_clock s (w_tick w) 0"
  from a obtain f where f: "valid_scope sc" "TrimSpace i \<noteq> []" "mget (ws_byID (w_workflows w)) i = Some f"
    "wf_Scope f = sc" "wf_ID f = i" "wf_Status f = st" by (auto simp: flow_at_iff)
  from upd [OF f(6,4,5)] obtain f' where f': "upd ?now f = Inr f'" "wf_Status f' = st'" "wf_Scope f' = sc" "wf_ID f' = i" by blast
  have u: "updateWorkflow (w_workflows w) sc i ?now (upd ?now) = (Inr (f'\<lparr>wf_UpdatedAt := ?now\<rparr>),
      w_workflows w\<lparr>ws_byID := mput i (f'\<lparr>wf_UpdatedAt := ?now\<rparr>) (ws_byID (w_workflows w))\<rparr>)"
    using f(1,3) f'(1) by (simp add: updateWorkflow_def scoped_get_def f(4) Let_def)
  show ?thesis
    unfolding wp_def on_workflows_eq u prod.case fst_conv snd_conv
    by (rule Q) (use f f' in \<open>simp_all add: flow_at_iff\<close>)
qed

lemma wp_update_blocked:
  assumes a: "flow_at sc i st w"
    and upd: "\<And>f now. wf_Status f = st \<Longrightarrow> \<exists>e. upd now f = Inl e"
    and Q: "\<And>e. Q (Inl e) (w\<lparr>w_tick := Suc (w_tick w)\<rparr>)"
  shows "wp (on_workflows s (\<lambda>ws now ids. updateWorkflow ws sc i now (upd now))) Q w"
proof -
  let ?now = "os_clock s (w_tick w) 0"
  from a obtain f where f: "valid_scope sc" "mget (ws_byID (w_workflows w)) i = Some f" "wf_Scope f = sc" "wf_Status f = st"
    by (auto simp: flow_at_iff)
  from upd [OF f(4)] obtain e where e: "upd ?now f = Inl e" by blast
  have u: "updateWorkflow (w_workflows w) sc i ?now (upd ?now) = (Inl e, w_workflows w)"
    using f e by (simp add: updateWorkflow_def scoped_get_def)
  show ?thesis unfolding wp_def on_workflows_eq u prod.case fst_conv snd_conv using Q [of e] by simp
qed

lemmas workflow_ops = set_workflow_def record_error_def fail_workflow_def workflow_Transition_def workflow_RecordError_def
  workflow_MarkFailed_def workflow_MarkIssued_def workflow_RecordOrder_def

lemma wp_set_workflow:
  assumes "flow_at sc i st w" "canWorkflowTransition st st'"
    "\<And>f w'. flow_at sc i st' w' \<Longrightarrow> wf_ID f = i \<Longrightarrow> wf_Status f = st' \<Longrightarrow> Q (Inr f) w'"
  shows "wp (set_workflow s sc i st') Q w"
  unfolding workflow_ops by (rule wp_update [OF assms(1)]) (use assms(2,3) in auto)

lemma wp_record_error:
  assumes "flow_at sc i st w" "\<And>r w'. flow_at sc i st w' \<Longrightarrow> Q r w'"
  shows "wp (record_error s sc i code msg) Q w"
  unfolding workflow_ops by (rule wp_update [OF assms(1), where st' = st]) (use assms(2) in auto)

lemma wp_fail_workflow:
  assumes "flow_at sc i st w" "canWorkflowTransition st WfFailed"
    "\<And>f w'. flow_at sc i WfFailed w' \<Longrightarrow> Q (Inr f) w'"
  shows "wp (fail_workflow s sc i code msg) Q w"
  unfolding workflow_ops by (rule wp_update [OF assms(1)]) (use assms(2,3) in auto)

lemma wp_mark_issued:
  assumes "flow_at sc i WfFinalizing w"
    "\<And>f w'. flow_at sc i WfIssued w' \<Longrightarrow> wf_ID f = i \<Longrightarrow> wf_Status f = WfIssued \<Longrightarrow> Q (Inr f) w'"
  shows "wp (on_workflows s (\<lambda>st now ids. workflow_MarkIssued st sc i ref now)) Q w"
  unfolding workflow_ops by (rule wp_update [OF assms(1)]) (use assms(2) in auto)

text \<open>Calls that leave the workflows alone.\<close>

lemma wp_elsewhere:
  assumes "flow_at sc i st w" "\<And>r w'. flow_at sc i st w' \<Longrightarrow> Q r w'"
  shows "wp (on_acme fa) Q w" "wp (on_dns fd) Q w" "wp (on_http fh) Q w" "wp (on_requests s fr) Q w"
    "wp (on_domains fo) Q w" "wp (on_assets s fs) Q w"
  unfolding wp_def on_acme_def on_dns_def on_http_def on_requests_def on_domains_def on_assets_def Let_def
  by (auto split: prod.splits intro!: assms(2) flow_at_same [OF assms(1)])

lemma wp_ensureRequestFailed:
  assumes "flow_at sc i st w" "\<And>r w'. flow_at sc i st w' \<Longrightarrow> Q r w'"
  shows "wp (ensureRequestFailed s sc' request) Q w"
proof (cases "rq_Status request = RqFailed \<or> rq_Status request = RqCompleted")
  case True
  then show ?thesis using assms by (simp add: wp_def ensureRequestFailed_def)
next
  case False
  then have e: "ensureRequestFailed s sc' request w =
      on_requests s (\<lambda>st now i. request_MarkFailed st sc' (rq_ID request) now) w"
    by (simp add: ensureRequestFailed_def)
  show ?thesis unfolding wp_def e by (rule wp_elsewhere(4) [unfolded wp_def]) (rule assms)+
qed

section \<open>What a stage ends with\<close>

definition queued where
  "queued s i st w = (\<exists>j. sv_GetByIdempotency (os_Jobs s) (continueJobIdempotencyKey i st) (w_jobs w) = Inr j)"

text \<open>
  A retry leaves the workflow where it is; a success has failed it for good or moved it along and
  queued the job of its new status; anything else reports an error code.
\<close>

definition outcome where
  "outcome s sc i st r w =
     ((pr_Retryable r \<longrightarrow> flow_at sc i st w) \<and>
      (\<not> pr_Retryable r \<and> pr_ErrorCode r = [] \<longrightarrow>
         flow_at sc i WfFailed w \<or> (\<exists>st'. canWorkflowTransition st st' \<and> flow_at sc i st' w \<and> queued s i st' w)))"

lemma outcome_failed [simp]: "code \<noteq> [] \<Longrightarrow> outcome s sc i st (failed code msg) w"
  by (simp add: outcome_def failed_def)

lemma outcome_retried [simp]: "outcome s sc i st (retried code msg) w \<longleftrightarrow> flow_at sc i st w"
  by (simp add: outcome_def retried_def)

lemma outcome_success: "outcome s sc i st success w \<longleftrightarrow>
  flow_at sc i WfFailed w \<or> (\<exists>st'. canWorkflowTransition st st' \<and> flow_at sc i st' w \<and> queued s i st' w)"
  by (simp add: outcome_def success_def)

lemma wp_classify:
  assumes a: "flow_at sc i st w" "canWorkflowTransition st WfFailed" "wf_ID flow = i"
  shows "wp (classifyAdapterFailure s sc request flow code err) (outcome s sc i st) w"
proof -
  let ?w1 = "ignore (record_error s sc i code (error_text err)) w"
  have w1: "flow_at sc i st ?w1" by (rule wp_ignore, rule wp_record_error [OF a(1)])
  let ?w2 = "ignore (fail_workflow s sc i code (error_text err)) ?w1"
  have w2: "flow_at sc i WfFailed ?w2" by (rule wp_ignore, rule wp_fail_workflow [OF w1 a(2)])
  have "flow_at sc i WfFailed (ignore (ensureRequestFailed s sc request) ?w2)"
    by (rule wp_ignore, rule wp_ensureRequestFailed [OF w2])
  with w1 a(3) show ?thesis by (simp add: wp_def classifyAdapterFailure_def Let_def outcome_success)
qed

text \<open>What a round of a loop keeps: the status, unless it leaves the stage with an outcome.\<close>

definition kept where
  "kept s sc i st r w = (case r of Inl x \<Rightarrow> outcome s sc i st x w | Inr _ \<Rightarrow> flow_at sc i st w)"

lemma kept_simps [simp]:
  "kept s sc i st (Inl x) w = outcome s sc i st x w" "kept s sc i st (Inr b) w = flow_at sc i st w"
  by (simp_all add: kept_def)

lemma wp_going: "flow_at sc i st w \<Longrightarrow> wp (going d) (kept s sc i st) w"
  by (simp add: wp_def going_def)

lemma wp_leaves: "code \<noteq> [] \<Longrightarrow> wp (leaves code e) (kept s sc i st) w"
  by (simp add: wp_def leaves_def)

lemma wp_adapter_leaves:
  assumes "flow_at sc i st w" "canWorkflowTransition st WfFailed" "wf_ID flow = i"
  shows "wp (adapter_leaves s sc request flow code e) (kept s sc i st) w"
  using wp_classify [OF assms, of s request code e] by (simp add: wp_def adapter_leaves_def split: prod.splits)

lemma wp_moving:
  assumes "flow_at sc i st w" "wf_ID flow = i" "\<And>w'. flow_at sc i st w' \<Longrightarrow> wp k (kept s sc i st) w'"
  shows "wp (moving s sc flow c status k) (kept s sc i st) w"
  unfolding moving_def wp_attempt
  by (rule wp_set_challenge [OF assms(1)]) (auto split: sum.splits intro: assms(3) wp_leaves)

lemma wp_after_adapter:
  assumes "flow_at sc i st w" "canWorkflowTransition st WfFailed" "wf_ID flow = i"
    and "\<And>x w'. flow_at sc i st w' \<Longrightarrow> wp (k x) (kept s sc i st) w'"
  shows "(case r of Inl e \<Rightarrow> wp (adapter_leaves s sc request flow code e) (kept s sc i st)
    | Inr x \<Rightarrow> wp (k x) (kept s sc i st)) w"
  using wp_adapter_leaves [OF assms(1-3)] assms(1,4) by (cases r) simp_all

lemma wp_adapter:
  assumes a: "flow_at sc i st w" "canWorkflowTransition st WfFailed" "wf_ID flow = i"
    and k: "\<And>x w'. flow_at sc i st w' \<Longrightarrow> wp (k x) (kept s sc i st) w'"
  shows "wp (attempt (on_acme fa) (adapter_leaves s sc request flow code) k) (kept s sc i st) w"
    "wp (attempt (on_dns fd) (adapter_leaves s sc request flow code) k) (kept s sc i st) w"
    "wp (attempt (on_http fh) (adapter_leaves s sc request flow code) k) (kept s sc i st) w"
proof -
  note after = wp_after_adapter [OF _ a(2,3) k]
  show "wp (attempt (on_acme fa) (adapter_leaves s sc request flow code) k) (kept s sc i st) w"
    unfolding wp_attempt by (rule wp_elsewhere(1) [OF a(1)]) (rule after)
  show "wp (attempt (on_dns fd) (adapter_leaves s sc request flow code) k) (kept s sc i st) w"
    unfolding wp_attempt by (rule wp_elsewhere(2) [OF a(1)]) (rule after)
  show "wp (attempt (on_http fh) (adapter_leaves s sc request flow code) k) (kept s sc i st) w"
    unfolding wp_attempt by (rule wp_elsewhere(3) [OF a(1)]) (rule after)
qed

section \<open>The stages\<close>

lemma wp_if: "(b \<Longrightarrow> wp f Q w) \<Longrightarrow> (\<not> b \<Longrightarrow> wp g Q w) \<Longrightarrow> wp (if b then f else g) Q w"
  by simp

lemma wp_invalid_status: "code \<noteq> [] \<Longrightarrow> wp (\<lambda>w. (Inl (failed code msg), w)) (kept s sc i st) w"
  by (simp add: wp_def)

lemma wp_pending_round:
  assumes a: "flow_at sc i WfChallengePending w" and i: "wf_ID flow = i"
  shows "wp (pending_round s sc request flow c) (kept s sc i WfChallengePending) w"
proof -
  have f: "canWorkflowTransition WfChallengePending WfFailed" by simp
  note rules = wp_if wp_moving [OF _ i] wp_adapter(2,3) [OF _ f i] wp_going
  show ?thesis
    unfolding pending_round_def
    by (cases "ch_Status c"; simp only: challenge_status.case)
      ((intro rules a; assumption) | (rule wp_invalid_status, simp))+
qed

lemma wp_cleanup:
  fixes s :: "('j, 'a, 'd, 'h) orchestrator"
  assumes "flow_at sc i st w"
  shows "flow_at sc i st (cleanupChallenge s c w)"
proof -
  have m: "flow_at sc i st (ignore (set_challenge s a b d e) w')" if "flow_at sc i st w'" for w' a b d e
    by (rule wp_ignore, rule wp_set_challenge [OF that])
  obtain rd wd rh wh where d: "on_dns (dn_CleanupTXT (os_DNS s) (txt_record_of c)) w = (rd, wd)"
    and h: "on_http (hp_Cleanup (os_HTTP01 s) (http_material_of c)) w = (rh, wh)" by fastforce
  have "flow_at sc i st wd" "flow_at sc i st wh"
    using wpD [OF wp_elsewhere(2) [OF assms] d, of "\<lambda>_. flow_at sc i st"]
      wpD [OF wp_elsewhere(3) [OF assms] h, of "\<lambda>_. flow_at sc i st"] by simp_all
  then show ?thesis
    unfolding cleanupChallenge_def Let_def d h using m assms by (cases rd; cases rh) simp_all
qed

lemma wp_invalid:
  fixes s :: "('j, 'a, 'd, 'h) orchestrator"
  assumes a: "flow_at sc i WfChallengeProcessing w" and i: "wf_ID flow = i"
  shows "wp (invalid_challenge s sc request flow c) (kept s sc i WfChallengeProcessing) w"
  unfolding invalid_challenge_def
proof (intro wp_moving [OF _ i] a)
  fix w :: "('j, 'a, 'd, 'h) world" assume w: "flow_at sc i WfChallengeProcessing w"
  have e: "wp (attempt (ensureRequestFailed s sc request) (leaves ''REQUEST_STATE_INVALID'') (\<lambda>_ w'. (Inl success, w')))
      (kept s sc i WfChallengeProcessing) w'" if "flow_at sc i WfFailed w'" for w'
    unfolding wp_attempt
    by (rule wp_ensureRequestFailed [OF that]) (auto split: sum.split simp: wp_def leaves_def outcome_success)
  have "wp (attempt (fail_workflow s sc i ''CHALLENGE_VERIFY_FAILED'' ''challenge verification failed'')
      (leaves ''WORKFLOW_STATE_FAILED'') (\<lambda>_. attempt (ensureRequestFailed s sc request) (leaves ''REQUEST_STATE_INVALID'')
        (\<lambda>_ w'. (Inl success, w')))) (kept s sc i WfChallengeProcessing) (cleanupChallenge s c w)"
    unfolding wp_attempt [of "fail_workflow _ _ _ _ _"]
    by (rule wp_fail_workflow [OF wp_cleanup [OF w]]) (simp_all add: e)
  then show "wp (\<lambda>w. attempt (fail_workflow s sc (wf_ID flow) ''CHALLENGE_VERIFY_FAILED'' ''challenge verification failed'')
      (leaves ''WORKFLOW_STATE_FAILED'') (\<lambda>_. attempt (ensureRequestFailed s sc request) (leaves ''REQUEST_STATE_INVALID'')
        (\<lambda>_ w'. (Inl success, w'))) (cleanupChallenge s c w)) (kept s sc i WfChallengeProcessing) w"
    by (simp add: wp_def i)
qed

lemma wp_processing_round:
  fixes s :: "('j, 'a, 'd, 'h) orchestrator"
  assumes a: "flow_at sc i WfChallengeProcessing w" and i: "wf_ID flow = i"
  shows "wp (processing_round s sc request flow c) (kept s sc i WfChallengeProcessing) w"
proof -
  have f: "canWorkflowTransition WfChallengeProcessing WfFailed" by simp
  have v: "wp (case x of AuthorizationPending \<Rightarrow> going False
       | AuthorizationValid \<Rightarrow> moving s sc flow c ChValid (going True)
       | AuthorizationInvalid \<Rightarrow> invalid_challenge s sc request flow c
       | AuthorizationOther _ \<Rightarrow>
           (\<lambda>w. (Inl (failed ''CHALLENGE_VERIFY_FAILED'' ''unknown authorization status''), w)))
     (kept s sc i WfChallengeProcessing) w'" if "flow_at sc i WfChallengeProcessing w'" for x w'
    by (cases x; simp only: authorization_status.case)
      ((intro wp_moving [OF _ i] wp_going wp_invalid [OF _ i] that; assumption) | (rule wp_invalid_status, simp))+
  note rules = wp_moving [OF _ i] wp_adapter(1) [OF _ f i] wp_going v
  show ?thesis
    unfolding processing_round_def
    by (cases "ch_Status c"; simp only: challenge_status.case)
      ((intro rules a; assumption) | (rule wp_invalid_status, simp))+
qed

end
