(* ===== verification/StageFlow.thy ===== *)
theory StageFlow
  imports StageRules JobStoreProps
begin

text \<open>
  The hand-over of a stage: the interface the orchestrator expects of a job repository, its in-memory
  implementation, and for every stage that it ends with an outcome: a retry where the workflow
  stands, a failed workflow, or a workflow moved along with the job of its new status in the queue.
\<close>

section \<open>The queue a stage hands over to\<close>

text \<open>
  What the orchestrator relies on in a job repository: a created job is found under its key, a failed
  creation changes nothing, and a key in use refuses a second job.
\<close>

locale keyed_repository =
  fixes rp :: "'st repository"
    and inv :: "'st \<Rightarrow> bool"
  assumes create_found: "rp_Create rp st j = (Inr u, st') \<Longrightarrow> TrimSpace k = j_IdempotencyKey j \<Longrightarrow>
      rp_GetByIdempotency rp st' k = Inr j"
    and create_err: "rp_Create rp st j = (Inl e, st') \<Longrightarrow> st' = st"
    and create_again: "inv st \<Longrightarrow> rp_GetByIdempotency rp st k = Inr j' \<Longrightarrow> TrimSpace k = j_IdempotencyKey j \<Longrightarrow>
      rp_Create rp st j = (Inl (bare ErrDuplicateJob), st)"
    and create_inv: "inv st \<Longrightarrow> j_ID j \<noteq> [] \<Longrightarrow> rp_Create rp st j = (r, st') \<Longrightarrow> inv st'"
begin

lemma schedule_queued:
  assumes "sv_repo (os_Jobs s) = rp" "schedule_or_get s key params w = (Inr j, w')" "cp_IdempotencyKey params = key"
  shows "sv_GetByIdempotency (os_Jobs s) key (w_jobs w') = Inr j"
proof -
  obtain r st where c: "Schedule (os_Jobs s) (\<lambda>k. os_clock s (w_tick w) (Suc k)) params (os_clock s (w_tick w) 0)
      (os_rnd s (w_tick w)) (w_jobs w) = (r, st)" by fastforce
  show ?thesis
  proof (cases r)
    case (Inl e)
    with assms(2) c show ?thesis by (auto simp: schedule_or_get_def Let_def split: if_splits)
  next
    case (Inr rec)
    with assms(2) c have j: "j = rec" "w_jobs w' = st" by (auto simp: schedule_or_get_def Let_def)
    from c [unfolded Inr] obtain u where n: "job_New (params\<lparr>cp_NextRunAt := coalesceTime (cp_NextRunAt params)
        (os_clock s (w_tick w) (Suc 0))\<rparr>) (coalesceTime (os_clock s (w_tick w) 0) (os_clock s (w_tick w) (Suc (Suc 0))))
        (os_rnd s (w_tick w)) = Inr rec" and u: "rp_Create rp (w_jobs w) rec = (Inr u, st)"
      using assms(1) by (auto simp: Schedule_def split: sum.splits prod.splits)
    from n have "j_IdempotencyKey rec = TrimSpace key"
      using assms(3) by (auto simp: job_New_def Let_def split: if_splits sum.splits)
    with create_found [OF u, of key] j assms(1) show ?thesis by (simp add: sv_GetByIdempotency_def)
  qed
qed

end

text \<open>No key of the in-memory store points at the empty identifier.\<close>

definition named_keys :: "repo \<Rightarrow> bool" where
  "named_keys r = (\<forall>k i. mget (r_idempotency r) k = Some i \<longrightarrow> i \<noteq> [])"

interpretation memory_keyed: keyed_repository memory_repository named_keys
proof (unfold_locales, goal_cases)
  case (1 st j u st' k)
  then show ?case
    by (auto simp: memory_repository_def repo_Create_def repo_insert_def repo_GetByIdempotency_def split: option.splits if_splits)
next
  case (2 st j e st')
  then show ?case by (auto simp: memory_repository_def repo_Create_def split: option.splits if_splits)
next
  case (3 st k j' j)
  then show ?case
    by (auto simp: memory_repository_def repo_Create_def repo_GetByIdempotency_def named_keys_def split: option.splits)
next
  case (4 st j r st')
  then have "st' = st \<or> st' = repo_insert st j"
    by (auto simp: memory_repository_def repo_Create_def split: option.splits if_splits)
  then show ?case
  proof
    assume st': "st' = repo_insert st j"
    have "i \<noteq> []" if "mget (r_idempotency st') k = Some i" for k i
      using that 4(1,2) st' by (cases "k = j_IdempotencyKey j") (simp_all add: repo_insert_def named_keys_def)
    then show ?thesis by (simp add: named_keys_def)
  qed (use 4(1) in simp)
qed

section \<open>A stage hands over\<close>

lemma schedule_frame:
  "schedule_or_get s key params w = (r, w') \<Longrightarrow> w_workflows w' = w_workflows w \<and> w_requests w' = w_requests w"
  by (auto simp: schedule_or_get_def Let_def split: prod.splits sum.splits if_splits)

context keyed_repository
begin

lemma wp_ensureContinueJob:
  assumes "sv_repo (os_Jobs s) = rp" "flow_at sc i st' w" "wf_ID flow = i" "canWorkflowTransition st st'"
  shows "wp (attempt (ensureContinueJob s request flow st') (fails ''WORKFLOW_SCHEDULE_FAILED'') (\<lambda>_ w. (success, w)))
    (outcome s sc i st) w"
proof (rule wpI)
  fix r w' assume a: "attempt (ensureContinueJob s request flow st') (fails ''WORKFLOW_SCHEDULE_FAILED'') (\<lambda>_ w. (success, w)) w = (r, w')"
  obtain x w1 where x: "ensureContinueJob s request flow st' w = (x, w1)" by fastforce
  from schedule_frame [OF x [unfolded ensureContinueJob_def]] assms(2) have at: "flow_at sc i st' w1" by (simp add: flow_at_iff)
  show "outcome s sc i st r w'"
  proof (cases x)
    case (Inl e)
    with a x have "r = failed ''WORKFLOW_SCHEDULE_FAILED'' (err_detail e)" by (simp add: attempt_def fails_def)
    then show ?thesis by simp
  next
    case (Inr j)
    with a x have r: "r = success" "w' = w1" by (simp_all add: attempt_def)
    from schedule_queued [OF assms(1) x [unfolded ensureContinueJob_def Inr]] have "queued s i st' w1"
      by (auto simp: continue_params_def queued_def assms(3))
    with r at assms(4) show ?thesis by (auto simp: outcome_success)
  qed
qed

lemma wp_advance:
  fixes s :: "('st, 'a, 'd, 'h) orchestrator"
  assumes "sv_repo (os_Jobs s) = rp" "flow_at sc i st w" "wf_ID flow = i" "canWorkflowTransition st st'"
  shows "wp (advance s sc request flow st') (outcome s sc i st) w"
  unfolding advance_def wp_attempt [of "set_workflow _ _ _ _"] assms(3)
proof (rule wp_set_workflow [OF assms(2,4)])
  fix f and w' :: "('st, 'a, 'd, 'h) world" assume f: "flow_at sc i st' w'" "wf_ID f = i" "wf_Status f = st'"
  from wp_ensureContinueJob [OF assms(1) f(1,2) assms(4), of request] f(3)
  show "(case Inr f of Inl e \<Rightarrow> wp (fails ''WORKFLOW_STATE_FAILED'' e) (outcome s sc i st)
     | Inr x \<Rightarrow> wp (attempt (ensureContinueJob s request x (wf_Status x)) (fails ''WORKFLOW_SCHEDULE_FAILED'')
         (\<lambda>_ w. (success, w))) (outcome s sc i st)) w'" by simp
qed

lemma wp_challenge_stage:
  assumes "sv_repo (os_Jobs s) = rp" "flow_at sc i st w" "wf_ID flow = i" "canWorkflowTransition st st'" "code \<noteq> []"
    and round: "\<And>c w. flow_at sc i st w \<Longrightarrow> wp (f c) (kept s sc i st) w"
  shows "wp (\<lambda>w. case all_done f cs True w of
      (Inl r, w') \<Rightarrow> (r, w')
    | (Inr done, w') \<Rightarrow> if \<not> done then (retried code msg, w') else advance s sc request flow st' w') (outcome s sc i st) w"
proof -
  obtain x w1 where x: "all_done f cs True w = (x, w1)" by fastforce
  have "wp (f c) (\<lambda>r w'. case r of Inl x \<Rightarrow> outcome s sc i st x w' | Inr _ \<Rightarrow> flow_at sc i st w') w" if "flow_at sc i st w" for c w
    using round [OF that, of c] by (rule wp_mono) (simp add: kept_def)
  from wpD [OF wp_all_done [where P = "flow_at sc i st" and Q = "outcome s sc i st", OF assms(2) this] x]
  have k: "case x of Inl r \<Rightarrow> outcome s sc i st r w1 | Inr _ \<Rightarrow> flow_at sc i st w1" by simp
  then show ?thesis
  proof (cases x)
    case (Inl r)
    with k x show ?thesis by (simp add: wp_def)
  next
    case (Inr b)
    with k have w1: "flow_at sc i st w1" by simp
    from wp_advance [OF assms(1) w1 assms(3,4), of request] x w1 show ?thesis by (cases b) (simp_all add: wp_def Inr)
  qed
qed

lemma wp_continueChallengePending:
  assumes "sv_repo (os_Jobs s) = rp" "flow_at sc i WfChallengePending w" "wf_ID flow = i"
  shows "wp (continueChallengePending s sc request flow cs) (outcome s sc i WfChallengePending) w"
  unfolding continueChallengePending_def
  by (rule wp_challenge_stage [OF assms]) (simp_all add: wp_pending_round assms(3))

lemma wp_continueChallengeProcessing:
  assumes "sv_repo (os_Jobs s) = rp" "flow_at sc i WfChallengeProcessing w" "wf_ID flow = i"
  shows "wp (continueChallengeProcessing s sc request flow cs) (outcome s sc i WfChallengeProcessing) w"
  unfolding continueChallengeProcessing_def
  by (rule wp_challenge_stage [OF assms]) (simp_all add: wp_processing_round assms(3))

lemma wp_finalize_order:
  assumes "sv_repo (os_Jobs s) = rp" "flow_at sc i WfFinalizing w" "wf_ID flow = i"
  shows "wp (finalize_order s sc request flow) (outcome s sc i WfFinalizing) w"
proof -
  have f: "canWorkflowTransition WfFinalizing WfFailed" "canWorkflowTransition WfFinalizing WfIssued" by simp_all
  note c = wp_classify [OF _ f(1) assms(3)]
  have "wp (attempt (on_workflows s (\<lambda>st now ids. workflow_MarkIssued st sc (wf_ID flow) ref now)) (fails ''WORKFLOW_STATE_FAILED'')
      (\<lambda>flow'. attempt (ensureContinueJob s request flow' (wf_Status flow')) (fails ''WORKFLOW_SCHEDULE_FAILED'') (\<lambda>_ w. (success, w))))
      (outcome s sc i WfFinalizing) w'" if "flow_at sc i WfFinalizing w'" for ref w'
    unfolding wp_attempt [of "on_workflows _ _"] assms(3)
    by (rule wp_mark_issued [OF that]) (simp add: wp_ensureContinueJob [OF assms(1) _ _ f(2)])
  then have "wp (attempt (on_acme (am_DownloadCertificate (os_ACME s) (wf_OrderURL flow)))
      (classifyAdapterFailure s sc request flow ''ACME_DOWNLOAD_FAILED'')
      (\<lambda>ref. attempt (on_workflows s (\<lambda>st now ids. workflow_MarkIssued st sc (wf_ID flow) ref now)) (fails ''WORKFLOW_STATE_FAILED'')
        (\<lambda>flow'. attempt (ensureContinueJob s request flow' (wf_Status flow')) (fails ''WORKFLOW_SCHEDULE_FAILED'') (\<lambda>_ w. (success, w)))))
      (outcome s sc i WfFinalizing) w'" if "flow_at sc i WfFinalizing w'" for w'
    unfolding wp_attempt [of "on_acme _"]
    by (intro wp_elsewhere(1) [OF that]) (simp add: c split: sum.split)
  then show ?thesis
    unfolding finalize_order_def wp_attempt [of "on_acme _"]
    by (intro wp_elsewhere(1) [OF assms(2)]) (simp add: c split: sum.split)
qed

lemma wp_continueFinalizing:
  assumes "sv_repo (os_Jobs s) = rp" "flow_at sc i (wf_Status flow) w" "wf_ID flow = i"
    "wf_Status flow \<in> {WfChallengeValid, WfFinalizing}"
  shows "wp (continueFinalizing s sc request flow) (outcome s sc i WfFinalizing) w"
proof (cases "wf_Status flow = WfChallengeValid")
  case True
  have t: "canWorkflowTransition WfChallengeValid WfFinalizing" by simp
  show ?thesis
    unfolding continueFinalizing_def wp_attempt assms(3)
    using True assms(2) by (simp add: wp_attempt assms(3)) (rule wp_set_workflow [OF _ t], assumption, simp add: wp_finalize_order [OF assms(1)])
next
  case False
  with assms show ?thesis by (auto simp: continueFinalizing_def intro: wp_finalize_order)
qed

end

end
