(* ===== verification/StageEnds.thy ===== *)
theory StageEnds
  imports StageFlow CertRequestProps
begin

text \<open>
  The end of a continue job: completing an issued workflow, and for every status of the workflow what
  the job leaves behind.
\<close>

section \<open>Completing an issued workflow\<close>

lemma link_domains_frame:
  "link_domains sc ref ids w = (r, w') \<Longrightarrow> w_workflows w' = w_workflows w \<and> w_requests w' = w_requests w"
proof (induction ids arbitrary: w)
  case (Cons i ids)
  obtain x w1 where x: "on_domains (\<lambda>st. domain_LinkCertificateAsset st sc i ref) w = (x, w1)" by fastforce
  then have "w_workflows w1 = w_workflows w \<and> w_requests w1 = w_requests w" by (auto simp: on_domains_def split: prod.splits)
  with Cons.IH [of w1] Cons.prems x show ?case by (cases x) auto
qed simp

lemma on_assets_frame:
  "on_assets s f w = (r, w') \<Longrightarrow> w_workflows w' = w_workflows w \<and> w_requests w' = w_requests w"
  by (auto simp: on_assets_def split: prod.splits)

definition request_done where
  "request_done sc i w = (\<exists>q. request_Get (w_requests w) sc i = Inr q \<and> rq_Status q = RqCompleted)"

lemma ensureRequestCompleted_done:
  assumes "request_Get (w_requests w) sc (rq_ID request) = Inr request" "ensureRequestCompleted s sc request w = (Inr q, w')"
  shows "request_done sc (rq_ID request) w' \<and> w_workflows w' = w_workflows w"
proof (cases "rq_Status request = RqCompleted")
  case True
  with assms show ?thesis by (auto simp: ensureRequestCompleted_def request_done_def)
next
  case False
  have g: "valid_scope sc" "TrimSpace (rq_ID request) \<noteq> []" "mget (rs_byID (w_requests w)) (rq_ID request) = Some request" "rq_Scope request = sc"
    using assms(1) by (simp_all add: request_scoped.get_ok_iff)
  from False assms(2) have "request_MarkCompleted (w_requests w) sc (rq_ID request) (os_clock s (w_tick w) 0) = (Inr q, w_requests w')"
    and f: "w_workflows w' = w_workflows w"
    by (auto simp: ensureRequestCompleted_def on_requests_def split: prod.splits)
  then have "request_done sc (rq_ID request) w'"
    using g by (auto simp: request_MarkCompleted_def request_transition_ok request_done_def request_scoped.get_ok_iff)
  with f show ?thesis by simp
qed

lemma note_and_retry_at:
  assumes "flow_at sc i st w" "wf_ID flow = i" "note_and_retry s sc flow code e w = (r, w')"
  shows "flow_at sc i st w' \<and> pr_Retryable r"
proof -
  from assms(3) have "w' = ignore (record_error s sc i code (err_detail e)) w" "r = retried code (err_detail e)"
    using assms(2) by (simp_all add: note_and_retry_def)
  moreover have "flow_at sc i st (ignore (record_error s sc i code (err_detail e)) w)"
    by (rule wp_ignore, rule wp_record_error [OF assms(1)])
  ultimately show ?thesis by simp
qed

lemma completeIssued_ends:
  assumes a: "flow_at sc i WfIssued w" "wf_ID flow = i" "request_Get (w_requests w) sc (rq_ID request) = Inr request"
    and c: "completeIssued s sc request flow w = (r, w')"
  shows "(pr_Retryable r \<longrightarrow> flow_at sc i WfIssued w') \<and>
    (\<not> pr_Retryable r \<and> pr_ErrorCode r = [] \<longrightarrow> flow_at sc i WfIssued w' \<and> request_done sc (rq_ID request) w')"
proof (cases "request_ListDomains (w_requests w) sc (rq_ID request)")
  case (Inl e)
  with c a(1) show ?thesis by (auto simp: completeIssued_def)
next
  case (Inr refs)
  obtain x w1 where x: "on_assets s (\<lambda>st now ids. asset_UpsertIssued st sc (issue_of request flow (map dr_DomainID refs)) now (ids 0) (ids 1)) w
      = (x, w1)" by fastforce
  from on_assets_frame [OF x] a(1,3) have a1: "flow_at sc i WfIssued w1" "request_Get (w_requests w1) sc (rq_ID request) = Inr request"
    by (simp_all add: flow_at_iff)
  show ?thesis
  proof (cases x)
    case (Inl e)
    with c Inr x have "note_and_retry s sc flow ''ASSET_PERSIST_FAILED'' e w1 = (r, w')"
      by (simp add: completeIssued_def Let_def attempt_def)
    from note_and_retry_at [OF a1(1) a(2) this] show ?thesis by simp
  next
    case y: (Inr y)
    obtain b v created where y': "y = (b, v, created)" by (cases y)
    let ?ref = "\<lparr>cr_ID = as_ID b, cr_Name = as_Name b, cr_Status = asset_status_str (as_Status b), cr_ExpiresAt = None\<rparr>"
    obtain z w2 where z: "link_domains sc ?ref (map dr_DomainID refs) w1 = (z, w2)" by fastforce
    from link_domains_frame [OF z] a1 have a2: "flow_at sc i WfIssued w2" "request_Get (w_requests w2) sc (rq_ID request) = Inr request"
      by (simp_all add: flow_at_iff)
    show ?thesis
    proof (cases z)
      case (Inl e)
      with c Inr x y y' z have "note_and_retry s sc flow ''ASSET_LINK_FAILED'' e w2 = (r, w')"
        by (simp add: completeIssued_def Let_def attempt_def)
      from note_and_retry_at [OF a2(1) a(2) this] show ?thesis by simp
    next
      case z': (Inr u)
      obtain q w3 where q: "ensureRequestCompleted s sc request w2 = (q, w3)" by fastforce
      with c Inr x y y' z z' have r: "(r, w') = (case q of Inl e \<Rightarrow> (failed ''REQUEST_STATE_INVALID'' (err_detail e), w3) | Inr _ \<Rightarrow> (success, w3))"
        by (simp add: completeIssued_def Let_def attempt_def fails_def split: sum.splits)
      show ?thesis
      proof (cases q)
        case (Inl e)
        with r show ?thesis by simp
      next
        case (Inr g)
        from ensureRequestCompleted_done [OF a2(2) q [unfolded Inr]] a2(1) r Inr show ?thesis
          by (simp add: flow_at_iff)
      qed
    qed
  qed
qed

section \<open>One continue job\<close>

text \<open>The job finds its request, its workflow and the challenges of the workflow.\<close>

definition continues where
  "continues s rec sc request flow challenges w =
     (\<exists>p. j_JobType rec = ''continue_issue_workflow'' \<and> scopeFromJob rec = sc \<and>
        parseContinuePayload (os_codec s) (j_Payload rec) = Inr p \<and>
        request_Get (w_requests w) sc (kp_RequestID p) = Inr request \<and> rq_ID request = kp_RequestID p \<and>
        workflow_Get (w_workflows w) sc (kp_WorkflowID p) = Inr flow \<and> wf_ID flow = kp_WorkflowID p \<and>
        workflow_ListChallenges (w_workflows w) sc (wf_ID flow) = Inr challenges)"

lemma continues_at: "continues s rec sc request flow challenges w \<Longrightarrow> flow_at sc (wf_ID flow) (wf_Status flow) w"
  by (auto simp: continues_def flow_at_def)

lemma continues_request:
  "continues s rec sc request flow challenges w \<Longrightarrow> request_Get (w_requests w) sc (rq_ID request) = Inr request"
  by (auto simp: continues_def)

lemma ProcessJob_continues:
  assumes "continues s rec sc request flow challenges w"
  shows "ProcessJob s rec w =
    (case wf_Status flow of
       WfChallengePending \<Rightarrow> continueChallengePending s sc request flow challenges w
     | WfChallengeProcessing \<Rightarrow> continueChallengeProcessing s sc request flow challenges w
     | WfChallengeValid \<Rightarrow> continueFinalizing s sc request flow w
     | WfFinalizing \<Rightarrow> continueFinalizing s sc request flow w
     | WfIssued \<Rightarrow> completeIssued s sc request flow w
     | WfFailed \<Rightarrow> (success, w)
     | WfCancelled \<Rightarrow> (success, w)
     | _ \<Rightarrow> (failed ''WORKFLOW_STATUS_UNSUPPORTED'' ''unsupported workflow status'', w))"
  using assms unfolding continues_def ProcessJob_def processContinueJob_def
  by (elim exE conjE) (simp add: Let_def)

text \<open>The status the stage runs in, which is that of the workflow but for the step into finalizing.\<close>

fun stage_of :: "workflow_status \<Rightarrow> workflow_status" where
  "stage_of WfChallengeValid = WfFinalizing"
| "stage_of st = st"

lemma stage_reached: "canWorkflowTransition\<^sup>*\<^sup>* st (stage_of st)"
  by (cases st) (auto intro: r_into_rtranclp)

lemma continue_job_outcome:
  assumes m: "sv_repo (os_Jobs s) = memory_repository" and c: "continues s rec sc request flow challenges w"
    and p: "ProcessJob s rec w = (r, w')"
  shows "(pr_Retryable r \<longrightarrow> flow_at sc (wf_ID flow) (stage_of (wf_Status flow)) w') \<and>
    (\<not> pr_Retryable r \<and> pr_ErrorCode r = [] \<longrightarrow>
       flow_at sc (wf_ID flow) WfFailed w' \<or> flow_at sc (wf_ID flow) WfCancelled w' \<or>
       (wf_Status flow = WfIssued \<and> flow_at sc (wf_ID flow) WfIssued w' \<and> request_done sc (rq_ID request) w') \<or>
       (\<exists>st'. canWorkflowTransition (stage_of (wf_Status flow)) st' \<and> flow_at sc (wf_ID flow) st' w' \<and>
          queued s (wf_ID flow) st' w'))"
proof -
  note at = continues_at [OF c]
  note run = p [unfolded ProcessJob_continues [OF c]]
  have out: "?thesis" if "outcome s sc (wf_ID flow) (stage_of (wf_Status flow)) r w'"
    using that unfolding outcome_def by blast
  have unsup: ?thesis if "failed ''WORKFLOW_STATUS_UNSUPPORTED'' ''unsupported workflow status'' = r \<and> w = w'"
    using that [THEN conjunct1, symmetric] by simp
  show ?thesis
  proof (cases "wf_Status flow")
    case WfChallengePending
    from wpD [OF memory_keyed.wp_continueChallengePending [OF m at [unfolded WfChallengePending] refl]] run WfChallengePending
    show ?thesis by (intro out) simp
  next
    case WfChallengeProcessing
    from wpD [OF memory_keyed.wp_continueChallengeProcessing [OF m at [unfolded WfChallengeProcessing] refl]] run WfChallengeProcessing
    show ?thesis by (intro out) simp
  next
    case WfChallengeValid
    from wpD [OF memory_keyed.wp_continueFinalizing [OF m at refl]] run WfChallengeValid
    show ?thesis by (intro out) simp
  next
    case WfFinalizing
    from wpD [OF memory_keyed.wp_continueFinalizing [OF m at refl]] run WfFinalizing
    show ?thesis by (intro out) simp
  next
    case WfIssued
    from completeIssued_ends [OF at [unfolded WfIssued] refl continues_request [OF c]] run WfIssued show ?thesis by simp
  next
    case WfFailed
    with run at show ?thesis by auto
  next
    case WfCancelled
    with run at show ?thesis by auto
  qed (rule unsup, use run in simp)+
qed

end
