(* ===== verification/StageProps.thy ===== *)
theory StageProps
  imports StageEnds IssueWorkflowProps
begin

text \<open>
  What a continue job guarantees, with a concrete world for the witnesses: the in-memory job
  repository, the adapters the control plane is wired with, one request and its workflow.
\<close>

section \<open>A job finds its issuance\<close>

text \<open>The job is a continue job whose payload names a request and a workflow of the job's scope.\<close>

definition picks_up where
  "picks_up s rec request flow w =
     (j_JobType rec = ''continue_issue_workflow'' \<and>
      (\<exists>p. parseContinuePayload (os_codec s) (j_Payload rec) = Inr p \<and>
         request_Get (w_requests w) (scopeFromJob rec) (kp_RequestID p) = Inr request \<and>
         workflow_Get (w_workflows w) (scopeFromJob rec) (kp_WorkflowID p) = Inr flow))"

lemma request_id: "request_reachable st \<Longrightarrow> request_Get st sc i = Inr r \<Longrightarrow> rq_ID r = i"
  using request_reachable_wf [of st] by (auto simp: requests_wf_def request_scoped.get_ok_iff)

lemma workflow_id: "flows_reachable st \<Longrightarrow> workflow_Get st sc i = Inr f \<Longrightarrow> wf_ID f = i"
  using flows_wfD(1) [OF flows_reachable_wf] by (auto simp: workflow_scoped.get_ok_iff)

lemma picks_up_continues:
  assumes "request_reachable (w_requests w)" "flows_reachable (w_workflows w)" "picks_up s rec request flow w"
  shows "\<exists>cs. continues s rec (scopeFromJob rec) request flow cs w"
proof -
  from assms(3) obtain p where p: "j_JobType rec = ''continue_issue_workflow''" "parseContinuePayload (os_codec s) (j_Payload rec) = Inr p"
    "request_Get (w_requests w) (scopeFromJob rec) (kp_RequestID p) = Inr request"
    "workflow_Get (w_workflows w) (scopeFromJob rec) (kp_WorkflowID p) = Inr flow" by (auto simp: picks_up_def)
  note ids = request_id [OF assms(1) p(3)] workflow_id [OF assms(2) p(4)]
  from p(4) have "\<exists>cs. workflow_ListChallenges (w_workflows w) (scopeFromJob rec) (wf_ID flow) = Inr cs"
    by (simp add: workflow_ListChallenges_def ids)
  with p ids show ?thesis unfolding continues_def by blast
qed

lemma flow_at_get: "flow_at sc i st w \<Longrightarrow> \<exists>f. workflow_Get (w_workflows w) sc i = Inr f \<and> wf_Status f = st"
  by (auto simp: flow_at_def)

section \<open>A world for the witnesses\<close>

fun split_bar :: "string \<Rightarrow> string \<Rightarrow> string list" where
  "split_bar [] acc = []"
| "split_bar (c # s) acc = (if c = CHR ''|'' then acc # split_bar s [] else split_bar s (acc @ [c]))"

definition demo_codec :: payload_codec where
  "demo_codec = \<lparr>pc_marshal = (\<lambda>kvs. concat (map (\<lambda>(k, v). v @ ''|'') kvs)),
     pc_unmarshal = (\<lambda>fields raw. Some (\<lambda>k. case map_of (zip fields (split_bar raw [])) k of None \<Rightarrow> [] | Some v \<Rightarrow> v))\<rparr>"

definition demo_orch :: "(repo, fake_acme, fake_dns, fake_http) orchestrator" where
  "demo_orch = \<lparr>os_Jobs = \<lparr>sv_repo = memory_repository, sv_retryPolicy = DefaultBackoffPolicy\<rparr>, os_ACME = fake_client,
     os_DNS = fake_executor, os_HTTP01 = fake_presenter, os_codec = demo_codec,
     os_clock = (\<lambda>k m. 1000 + int k), os_ids = (\<lambda>k m. [CHR ''i'', char_of (97 + 2 * k + m)]),
     os_rnd = (\<lambda>k. Some (replicate 16 (word_of_nat k)))\<rparr>"

definition demo_account :: account where
  "demo_account = \<lparr>ac_ID = ''ca'', ac_Scope = demo_scope, ac_ProviderType = ''acme'', ac_ProviderName = ''letsencrypt'',
     ac_DisplayName = ''le'', ac_DirectoryURL = [], ac_Email = [], ac_AccountKID = [], ac_AccountKeySecretRef = [],
     ac_Status = ''active'', ac_Capabilities = buildCapabilities [], ac_LastCheckedAt = None, ac_CreatedAt = 1, ac_UpdatedAt = 1\<rparr>"


definition demo_flows :: "string \<Rightarrow> workflow_store" where
  "demo_flows ty = workflow_exec flow_ordered (WoEnsureChallenges demo_scope ''w1'' [flow_challenge\<lparr>ci_ChallengeType := ty\<rparr>] 7 (\<lambda>_. ''c1''))"

definition demo_world :: "string \<Rightarrow> fake_dns \<Rightarrow> (repo, fake_acme, fake_dns, fake_http) world" where
  "demo_world ty d = \<lparr>w_requests = demo_requests, w_workflows = demo_flows ty, w_assets = NewAssetService,
     w_domains = NewDomainService, w_issuers = NewIssuerService, w_jobs = NewMemoryRepository, w_acme = NewFakeClient,
     w_dns = d, w_http = \<lparr>fh_PresentErr = None, fh_CleanupErr = None\<rparr>, w_tick = 0\<rparr>"

definition demo_continue :: job where
  "demo_continue = zeroJob\<lparr>j_ID := ''j1'', j_TenantID := ''t'', j_ProjectID := ''p'', j_EnvironmentID := ''e'',
     j_JobType := ''continue_issue_workflow'', j_Payload := ''r1|w1|s|t|''\<rparr>"


lemma demo_flows_reachable: "flows_reachable (demo_flows ty)"
  unfolding demo_flows_def by (rule flow_step_reachable [OF flow_ordered_reachable]) simp

lemma demo_world_reachable:
  "request_reachable (w_requests (demo_world ty d))" "flows_reachable (w_workflows (demo_world ty d))"
  by (simp_all add: demo_world_def demo_requests_reachable demo_flows_reachable)

lemma demo_orch_jobs: "sv_repo (os_Jobs demo_orch) = memory_repository"
  by (simp add: demo_orch_def)

lemma demo_payload: "parseContinuePayload (os_codec demo_orch) (j_Payload demo_continue) =
    Inr \<lparr>kp_RequestID = ''r1'', kp_WorkflowID = ''w1'', kp_ExpectedStatus = ''s'', kp_Trigger = ''t''\<rparr>"
  by (simp add: demo_orch_def demo_codec_def demo_continue_def parseContinuePayload_def)

lemma demo_challenge_made:
  assumes "ty = ''http-01'' \<or> ty = ''dns-01''"
  shows "\<exists>f c. mget (ws_byID (demo_flows ty)) ''w1'' = Some f \<and> wf_Scope f = demo_scope \<and> wf_Status f = WfChallengePending \<and>
    mslice (ws_challenges (demo_flows ty)) ''w1'' = [c] \<and> ch_Status c = ChPending \<and> ch_ChallengeType c = ty"
proof -
  obtain w where w: "mget (ws_byID flow_ordered) ''w1'' = Some w" "wf_Status w = WfOrderPending" "wf_Scope w = demo_scope"
    using flow_ordered_at(1) by blast
  have t: "normToken ''http-01'' = ''http-01''" by code_simp
  show ?thesis
    using assms by (auto simp: demo_flows_def workflow_EnsureChallenges_def scoped_get_def w flow_ordered_at(2) flow_challenge_def Let_def t)
qed

lemma demo_picks_up:
  assumes "ty = ''http-01'' \<or> ty = ''dns-01''"
  shows "\<exists>request flow c. picks_up demo_orch demo_continue request flow (demo_world ty d) \<and> rq_Status request = RqSubmitted \<and>
    wf_Status flow = WfChallengePending \<and> workflow_ListChallenges (demo_flows ty) demo_scope ''w1'' = Inr [c] \<and>
    ch_Status c = ChPending \<and> ch_ChallengeType c = ty \<and> wf_ID flow = ''w1''"
proof -
  obtain r where r: "mget (rs_byID demo_requests) ''r1'' = Some r" "rq_Scope r = demo_scope" "rq_Status r = RqSubmitted"
    using demo_request_made by blast
  obtain f c where f: "mget (ws_byID (demo_flows ty)) ''w1'' = Some f" "wf_Scope f = demo_scope" "wf_Status f = WfChallengePending"
    "mslice (ws_challenges (demo_flows ty)) ''w1'' = [c]" "ch_Status c = ChPending" "ch_ChallengeType c = ty"
    using demo_challenge_made [OF assms] by blast
  have sc: "scopeFromJob demo_continue = demo_scope" by (simp add: scopeFromJob_def demo_continue_def demo_scope_def)
  have "workflow_Get (demo_flows ty) demo_scope ''w1'' = Inr f" "request_Get demo_requests demo_scope ''r1'' = Inr r"
    using f r by (simp_all add: workflow_scoped.get_ok_iff request_scoped.get_ok_iff)
  moreover from this(1) have "workflow_ListChallenges (demo_flows ty) demo_scope ''w1'' = Inr [c]"
    by (simp add: workflow_ListChallenges_def f(4))
  moreover have "wf_ID f = ''w1''" using flows_wfD(1) [OF flows_reachable_wf [OF demo_flows_reachable] f(1)] .
  moreover have "picks_up demo_orch demo_continue r f (demo_world ty d)"
    unfolding picks_up_def demo_payload sc
    using calculation by (simp add: demo_continue_def demo_world_def)
  ultimately show ?thesis using r f by blast
qed

lemma demo_runs:
  "fst (ProcessJob demo_orch demo_continue (demo_world ''http-01'' NewFakeExecutor)) = success"
  "fst (ProcessJob demo_orch demo_continue (demo_world ''dns-01'' NewFakeExecutor)) =
     retried ''CHALLENGE_NOT_READY'' ''challenge propagation still pending''"
  by code_simp+

section \<open>Properties\<close>

text \<open>C26: no issuance is dropped: when a continue job is done with and reports success, its workflow
  has failed or is cancelled, or it was issued and its request is completed, or it has moved along the
  transition table and the job that continues it from its new status is in the job store.\<close>

theorem no_workflow_is_dropped:
  assumes "sv_repo (os_Jobs s) = memory_repository" "request_reachable (w_requests w)" "flows_reachable (w_workflows w)"
    "picks_up s rec request flow w" "ProcessJob s rec w = (r, w')" "\<not> pr_Retryable r" "pr_ErrorCode r = []"
  shows "\<exists>flow'. workflow_Get (w_workflows w') (scopeFromJob rec) (wf_ID flow) = Inr flow' \<and>
    (wf_Status flow' \<in> {WfFailed, WfCancelled} \<or>
     wf_Status flow = WfIssued \<and> wf_Status flow' = WfIssued \<and>
       (\<exists>q. request_Get (w_requests w') (scopeFromJob rec) (rq_ID request) = Inr q \<and> rq_Status q = RqCompleted) \<or>
     canWorkflowTransition\<^sup>+\<^sup>+ (wf_Status flow) (wf_Status flow') \<and>
       (\<exists>j. repo_GetByIdempotency (w_jobs w') (continueJobIdempotencyKey (wf_ID flow) (wf_Status flow')) = Inr j))"
proof -
  obtain cs where c: "continues s rec (scopeFromJob rec) request flow cs w"
    using picks_up_continues [OF assms(2-4)] by blast
  have q: "queued s i st' w' \<Longrightarrow> \<exists>j. repo_GetByIdempotency (w_jobs w') (continueJobIdempotencyKey i st') = Inr j" for i st'
    by (simp add: queued_def sv_GetByIdempotency_def assms(1) memory_repository_def)
  have t: "canWorkflowTransition (stage_of st) st' \<Longrightarrow> canWorkflowTransition\<^sup>+\<^sup>+ st st'" for st st'
    using stage_reached [of st] by (rule rtranclp_into_tranclp1)
  from continue_job_outcome [OF assms(1) c assms(5), THEN conjunct2] assms(6,7) show ?thesis
    unfolding request_done_def by (auto dest!: flow_at_get q t)
qed

theorem no_workflow_is_dropped_witness:
  "\<exists>w' flow' j. ProcessJob demo_orch demo_continue (demo_world ''http-01'' NewFakeExecutor) = (success, w') \<and>
     workflow_Get (w_workflows w') demo_scope ''w1'' = Inr flow' \<and>
     (wf_Status flow' \<in> {WfFailed, WfCancelled} \<or>
      repo_GetByIdempotency (w_jobs w') (continueJobIdempotencyKey ''w1'' (wf_Status flow')) = Inr j)"
proof -
  obtain request flow c where p: "picks_up demo_orch demo_continue request flow (demo_world ''http-01'' NewFakeExecutor)"
    "wf_Status flow = WfChallengePending" "wf_ID flow = ''w1''" using demo_picks_up [of "''http-01''" NewFakeExecutor] by blast
  obtain w' where r: "ProcessJob demo_orch demo_continue (demo_world ''http-01'' NewFakeExecutor) = (success, w')"
    using demo_runs(1) by (metis prod.collapse)
  have sc: "scopeFromJob demo_continue = demo_scope" by (simp add: scopeFromJob_def demo_continue_def demo_scope_def)
  from no_workflow_is_dropped [OF demo_orch_jobs demo_world_reachable p(1) r] p(2,3) r show ?thesis
    unfolding sc by auto
qed

text \<open>A retry resumes where it stopped: when a continue job asks to be retried, the workflow still has
  the status it had, or stands at finalizing when it came from a validated challenge, so that the next
  attempt runs the same stage again.\<close>

theorem retries_resume_the_stage:
  assumes "sv_repo (os_Jobs s) = memory_repository" "request_reachable (w_requests w)" "flows_reachable (w_workflows w)"
    "picks_up s rec request flow w" "ProcessJob s rec w = (r, w')" "pr_Retryable r"
  shows "\<exists>flow'. workflow_Get (w_workflows w') (scopeFromJob rec) (wf_ID flow) = Inr flow' \<and>
    (wf_Status flow' = wf_Status flow \<or> wf_Status flow = WfChallengeValid \<and> wf_Status flow' = WfFinalizing)"
proof -
  obtain cs where c: "continues s rec (scopeFromJob rec) request flow cs w"
    using picks_up_continues [OF assms(2-4)] by blast
  from continue_job_outcome [OF assms(1) c assms(5), THEN conjunct1] assms(6)
  obtain f where "workflow_Get (w_workflows w') (scopeFromJob rec) (wf_ID flow) = Inr f" "wf_Status f = stage_of (wf_Status flow)"
    by (auto dest!: flow_at_get)
  then show ?thesis by (cases "wf_Status flow") auto
qed

theorem retries_resume_the_stage_witness:
  "\<exists>w' flow'. ProcessJob demo_orch demo_continue (demo_world ''dns-01'' NewFakeExecutor) =
       (retried ''CHALLENGE_NOT_READY'' ''challenge propagation still pending'', w') \<and>
     workflow_Get (w_workflows w') demo_scope ''w1'' = Inr flow' \<and> wf_Status flow' = WfChallengePending"
proof -
  obtain request flow c where p: "picks_up demo_orch demo_continue request flow (demo_world ''dns-01'' NewFakeExecutor)"
    "wf_Status flow = WfChallengePending" "wf_ID flow = ''w1''" using demo_picks_up [of "''dns-01''" NewFakeExecutor] by blast
  obtain w' where r: "ProcessJob demo_orch demo_continue (demo_world ''dns-01'' NewFakeExecutor) =
      (retried ''CHALLENGE_NOT_READY'' ''challenge propagation still pending'', w')"
    using demo_runs(2) by (metis prod.collapse)
  have sc: "scopeFromJob demo_continue = demo_scope" by (simp add: scopeFromJob_def demo_continue_def demo_scope_def)
  from retries_resume_the_stage [OF demo_orch_jobs demo_world_reachable p(1) r] p(2,3) r show ?thesis
    unfolding sc by auto
qed

end
