(* ===== verification/StageFailures.thy ===== *)
theory StageFailures
  imports StageProps
begin

text \<open>
  What failures of the adapters lead to: a temporary one to a retry, a permanent one to a failed
  issuance, and an interrupted presentation to a workflow that no retry can resume.
\<close>

section \<open>Failures of adapters\<close>

lemma update_at:
  assumes "workflow_Get st sc i = Inr f" "upd f = Inr f'" "wf_Scope f' = wf_Scope f"
  shows "\<exists>st'. updateWorkflow st sc i now upd = (Inr (f'\<lparr>wf_UpdatedAt := now\<rparr>), st') \<and>
    workflow_Get st' sc i = Inr (f'\<lparr>wf_UpdatedAt := now\<rparr>) \<and> ws_challenges st' = ws_challenges st \<and> ws_byRequest st' = ws_byRequest st"
proof -
  from assms(1) have f: "valid_scope sc" "TrimSpace i \<noteq> []" "mget (ws_byID st) i = Some f" "wf_Scope f = sc"
    by (simp_all add: workflow_scoped.get_ok_iff)
  have "updateWorkflow st sc i now upd =
      (Inr (f'\<lparr>wf_UpdatedAt := now\<rparr>), st\<lparr>ws_byID := mput i (f'\<lparr>wf_UpdatedAt := now\<rparr>) (ws_byID st)\<rparr>)"
    using f assms(2) by (simp add: updateWorkflow_def scoped_get_def Let_def)
  with f assms(3) show ?thesis by (auto simp: workflow_scoped.get_ok_iff)
qed

lemma record_error_at:
  assumes "workflow_Get (w_workflows w) sc i = Inr f"
  shows "\<exists>f'. workflow_Get (w_workflows (ignore (record_error s sc i code msg) w)) sc i = Inr f' \<and>
    wf_LastErrorCode f' = TrimSpace code \<and> wf_Status f' = wf_Status f \<and> wf_ID f' = wf_ID f \<and> wf_Scope f' = wf_Scope f"
    "w_requests (ignore (record_error s sc i code msg) w) = w_requests w"
    "ws_challenges (w_workflows (ignore (record_error s sc i code msg) w)) = ws_challenges (w_workflows w)"
  using update_at [OF assms, of "\<lambda>rec. Inr (rec\<lparr>wf_LastErrorCode := TrimSpace code, wf_LastErrorMessage := TrimSpace msg,
      wf_UpdatedAt := os_clock s (w_tick w) 0\<rparr>)", OF refl, of "os_clock s (w_tick w) 0"]
  unfolding ignore_def record_error_def on_workflows_eq workflow_RecordError_def by auto





section \<open>An interrupted presentation\<close>

lemma ch_Status_stamp [simp]: "ch_Status (stamp_challenge c st now) = st"
  by (cases st) (simp_all add: stamp_challenge_def)

lemma set_challenge_at:
  assumes "workflow_Get (w_workflows w) sc i = Inr f" "mslice (ws_challenges (w_workflows w)) i = [c]"
    "canChallengeTransition (ch_Status c) st"
  shows "\<exists>w1 c'. set_challenge s sc i (ch_ID c) st w = (Inr c', w1) \<and> ch_Status c' = st \<and>
    mslice (ws_challenges (w_workflows w1)) i = [c'] \<and> workflow_Get (w_workflows w1) sc i = Inr f \<and>
    w_requests w1 = w_requests w \<and> w_dns w1 = w_dns w"
proof -
  from assms(1) have f: "valid_scope sc" "TrimSpace i \<noteq> []" "mget (ws_byID (w_workflows w)) i = Some f" "wf_Scope f = sc"
    by (simp_all add: workflow_scoped.get_ok_iff)
  show ?thesis
    using f assms(2,3) by (simp add: set_challenge_def on_workflows_def workflow_UpdateChallengeStatus_def scoped_get_def
        workflow_scoped.get_ok_iff)
qed

lemma picks_up_again:
  assumes "picks_up s rec request flow w" "w_requests w' = w_requests w"
    "workflow_Get (w_workflows w) (scopeFromJob rec) i = Inr flow" "wf_ID flow = i" "\<And>p. parseContinuePayload (os_codec s) (j_Payload rec) = Inr p \<Longrightarrow> kp_WorkflowID p = i"
    "workflow_Get (w_workflows w') (scopeFromJob rec) i = Inr flow'"
  shows "picks_up s rec request flow' w'"
  using assms by (auto simp: picks_up_def)

lemma picks_up_payload:
  "flows_reachable (w_workflows w) \<Longrightarrow> picks_up s rec request flow w \<Longrightarrow>
   parseContinuePayload (os_codec s) (j_Payload rec) = Inr p \<Longrightarrow> kp_WorkflowID p = wf_ID flow"
  using workflow_id by (auto simp: picks_up_def)

lemma one_challenge: "workflow_ListChallenges st sc i = Inr [c] \<Longrightarrow> mslice (ws_challenges st) i = [c]"
proof -
  assume "workflow_ListChallenges st sc i = Inr [c]"
  then have "sort_key (\<lambda>c. (ch_CreatedAt c, ch_ID c)) (mslice (ws_challenges st) i) = [c]"
    by (auto simp: workflow_ListChallenges_def split: sum.splits)
  then have "mset (mslice (ws_challenges st) i) = mset [c]" by (metis mset_sort)
  then show ?thesis by (simp add: mset_single_iff)
qed

text \<open>C32: an interrupted presentation cannot be resumed: when publishing the DNS record of the only challenge
  fails for a temporary reason, the job is sent back to be retried, and the next attempt of that very
  job, whatever the DNS side answers by then, gives up for good with a state error, because the challenge was
  left as being presented.\<close>

theorem interrupted_presentation_is_stuck:
  assumes "request_reachable (w_requests w)" "flows_reachable (w_workflows w)" "picks_up s rec request flow w"
    "wf_Status flow = WfChallengePending"
    "workflow_ListChallenges (w_workflows w) (scopeFromJob rec) (wf_ID flow) = Inr [c]"
    "ch_Status c = ChPending" "ch_ChallengeType c = ''dns-01''"
    "dn_PresentTXT (os_DNS s) (txt_record_of c) (w_dns w) = (Inl err, d)" "acme_IsTemporary err \<or> dns_IsTemporary err"
  shows "\<exists>w'. ProcessJob s rec w = (retried ''CHALLENGE_PRESENT_FAILED'' (error_text err), w') \<and>
    (\<forall>d'. fst (ProcessJob s rec (w'\<lparr>w_dns := d'\<rparr>)) =
       failed ''WORKFLOW_CHALLENGE_STATE_INVALID'' ''unexpected challenge status'')"
proof -
  define sc where "sc = scopeFromJob rec"
  define i where "i = wf_ID flow"
  obtain cs0 where c0: "continues s rec sc request flow cs0 w"
    using picks_up_continues [OF assms(1-3)] unfolding sc_def by blast
  with assms(5) have cs: "continues s rec sc request flow [c] w" unfolding continues_def sc_def by auto
  have g: "workflow_Get (w_workflows w) sc i = Inr flow" using cs unfolding continues_def i_def by auto
  obtain w1 c' where w1: "set_challenge s sc i (ch_ID c) ChPresenting w = (Inr c', w1)" "ch_Status c' = ChPresenting"
    "mslice (ws_challenges (w_workflows w1)) i = [c']" "workflow_Get (w_workflows w1) sc i = Inr flow"
    "w_requests w1 = w_requests w" "w_dns w1 = w_dns w"
    using set_challenge_at [OF g one_challenge [OF assms(5) [folded sc_def i_def]], of ChPresenting s] assms(6) by auto
  define w2 where "w2 = w1\<lparr>w_dns := d\<rparr>"
  have dns: "on_dns (dn_PresentTXT (os_DNS s) (txt_record_of c)) w1 = (Inl err, w2)"
    using assms(8) w1(6) by (simp add: on_dns_def w2_def)
  define w3 where "w3 = ignore (record_error s sc i ''CHALLENGE_PRESENT_FAILED'' (error_text err)) w2"
  have run: "ProcessJob s rec w = (retried ''CHALLENGE_PRESENT_FAILED'' (error_text err), w3)"
    unfolding ProcessJob_continues [OF cs]
    using assms(4,6,7,9) w1(1) dns
    by (simp add: continueChallengePending_def pending_round_def moving_def attempt_def i_def adapter_leaves_def
        classifyAdapterFailure_def Let_def w3_def)
  have g2: "workflow_Get (w_workflows w2) sc i = Inr flow" using w1(4) by (simp add: w2_def)
  obtain f3 where f3: "workflow_Get (w_workflows w3) sc i = Inr f3" "wf_Status f3 = WfChallengePending" "wf_ID f3 = i"
    and r3: "w_requests w3 = w_requests w" and c3: "mslice (ws_challenges (w_workflows w3)) i = [c']"
    using record_error_at [OF g2, of s "''CHALLENGE_PRESENT_FAILED''" "error_text err"] assms(4) w1(3,5)
    unfolding w3_def by (auto simp: w2_def i_def)
  have "fst (ProcessJob s rec (w3\<lparr>w_dns := d'\<rparr>)) = failed ''WORKFLOW_CHALLENGE_STATE_INVALID'' ''unexpected challenge status''" for d'
  proof -
    have "workflow_ListChallenges (w_workflows w3) sc i = Inr [c']"
      using f3(1) c3 by (simp add: workflow_ListChallenges_def)
    then have again: "continues s rec sc request f3 [c'] (w3\<lparr>w_dns := d'\<rparr>)"
      using cs f3 r3 unfolding continues_def i_def by auto
    show ?thesis
      unfolding ProcessJob_continues [OF again] using f3(2) w1(2)
      by (simp add: continueChallengePending_def pending_round_def)
  qed
  with run show ?thesis by blast
qed

lemma demo_dns_record:
  assumes "workflow_ListChallenges (demo_flows ''dns-01'') demo_scope ''w1'' = Inr [c]"
  shows "\<not> blank_record (txt_record_of c)"
proof -
  obtain w where w: "mget (ws_byID flow_ordered) ''w1'' = Some w" "wf_Status w = WfOrderPending" "wf_Scope w = demo_scope"
    using flow_ordered_at(1) by blast
  have t: "TrimSpace ''n'' = ''n''" "TrimSpace ''v'' = ''v''" by code_simp+
  from one_challenge [OF assms] show ?thesis
    by (auto simp: demo_flows_def workflow_EnsureChallenges_def scoped_get_def w flow_ordered_at(2) flow_challenge_def Let_def t
        blank_record_def txt_record_of_def)
qed

theorem interrupted_presentation_is_stuck_witness:
  "\<exists>w'. fst (ProcessJob demo_orch demo_continue w') = failed ''WORKFLOW_CHALLENGE_STATE_INVALID'' ''unexpected challenge status''"
proof -
  let ?d = "NewFakeExecutor\<lparr>fd_PresentErr := Some (DnsTemporary None)\<rparr>"
  let ?w = "demo_world ''dns-01'' ?d"
  obtain request flow c where p: "picks_up demo_orch demo_continue request flow ?w" "wf_Status flow = WfChallengePending"
    "workflow_ListChallenges (demo_flows ''dns-01'') demo_scope ''w1'' = Inr [c]" "ch_Status c = ChPending"
    "ch_ChallengeType c = ''dns-01''" "wf_ID flow = ''w1''"
    using demo_picks_up [of "''dns-01''" ?d] by blast
  have sc: "scopeFromJob demo_continue = demo_scope" by (simp add: scopeFromJob_def demo_continue_def demo_scope_def)
  have l: "workflow_ListChallenges (w_workflows ?w) (scopeFromJob demo_continue) (wf_ID flow) = Inr [c]"
    using p(3,6) by (simp add: sc demo_world_def)
  have e: "dn_PresentTXT (os_DNS demo_orch) (txt_record_of c) (w_dns ?w) = (Inl (DnsTemporary None), ?d)"
    using demo_dns_record [OF p(3)] by (simp add: demo_orch_def demo_world_def fake_executor_def fake_PresentTXT_def)
  show ?thesis
    using interrupted_presentation_is_stuck [OF demo_world_reachable p(1,2) l p(4,5) e] by (auto simp: dns_IsTemporary_def)
qed

end
