(* ===== verification/StageOrder.thy ===== *)
theory StageOrder
  imports StageProps
begin

text \<open>
  The start job of a request whose workflow has its order recorded but no challenges yet: the order
  is placed again at the CA, cannot be recorded, and the job gives up.
\<close>

section \<open>An interrupted order\<close>

lemma place_order_stuck:
  assumes "workflow_Get (w_workflows w) sc (wf_ID flow) = Inr flow" "wf_Status flow = WfOrderPending"
    "request_ListDomains (w_requests w) sc (rq_ID request) = Inr refs"
    "am_CreateOrder (os_ACME s) \<lparr>or_RequestID = rq_ID request, or_CommonName = rq_CommonName request,
      or_CertificateType = rq_CertificateType request, or_ChallengeType = rq_ChallengeType request,
      or_DomainIdentifiers = mapOrderIdentifiers refs\<rparr> (w_acme w) = (Inr order, acme)"
  shows "\<exists>msg. place_order s sc request flow w =
    (failed ''WORKFLOW_ORDER_RECORD_FAILED'' msg, w\<lparr>w_acme := acme, w_tick := Suc (w_tick w)\<rparr>)"
proof -
  have f: "mget (ws_byID (w_workflows w)) (wf_ID flow) = Some flow" "wf_Scope flow = sc" "valid_scope sc"
    using assms(1) by (simp_all add: workflow_scoped.get_ok_iff)
  show ?thesis
    using f assms(2-4)
    by (simp add: place_order_def attempt_def on_acme_def on_workflows_def workflow_RecordOrder_def updateWorkflow_def
        scoped_get_def guarded_def fails_def) blast
qed

text \<open>C33: an interrupted order cannot be resumed: when the start job of a running request finds the workflow
  of the request with its order already recorded, but its challenges not yet made, it orders once more: the order of the
  domains of the request is handed to the CA, and when the CA accepts it, the job cannot record it and gives up for good.
  The CA is left as that one call leaves it, two clock readings are used up, and nothing else changes: the workflow stays
  where it was. The request names a CA account, and the identifiers of the two scopes have no slash in them.\<close>

theorem interrupted_order_is_stuck:
  assumes "request_reachable (w_requests w)" "flows_reachable (w_workflows w)" "j_JobType rec = ''start_issue_workflow''"
    "parseStartPayload (os_codec s) (j_Payload rec) = Inr p"
    "request_Get (w_requests w) (scopeFromJob rec) (sp_RequestID p) = Inr request" "rq_Status request = RqRunning"
    "TrimSpace (rq_CAAccountID request) \<noteq> []" "slash_free (scopeFromJob rec)" "slash_free (wf_Scope flow)"
    "workflow_GetByRequest (w_workflows w) (scopeFromJob rec) (rq_ID request) = Inr flow" "wf_Status flow = WfOrderPending"
    "request_ListDomains (w_requests w) (scopeFromJob rec) (rq_ID request) = Inr refs"
    "am_CreateOrder (os_ACME s) \<lparr>or_RequestID = rq_ID request, or_CommonName = rq_CommonName request,
      or_CertificateType = rq_CertificateType request, or_ChallengeType = rq_ChallengeType request,
      or_DomainIdentifiers = mapOrderIdentifiers refs\<rparr> (w_acme w) = (Inr order, acme)"
  shows "\<exists>msg. ProcessJob s rec w =
    (failed ''WORKFLOW_ORDER_RECORD_FAILED'' msg, w\<lparr>w_acme := acme, w_tick := w_tick w + 2\<rparr>)"
proof -
  define sc where "sc = scopeFromJob rec"
  note id = request_id [OF assms(1,5)]
  have r: "request_Get (w_requests w) sc (rq_ID request) = Inr request" using assms(5) id by (simp add: sc_def)
  then have rq: "valid_scope sc" "TrimSpace (rq_ID request) \<noteq> []" "mget (rs_byID (w_requests w)) (rq_ID request) = Some request"
    by (simp_all add: request_scoped.get_ok_iff)
  from request_reachable_wf [OF assms(1)] rq(3) have ty: "rq_RequestType request \<in> {''issue'', ''renew''}"
    by (auto simp: requests_wf_def request_policy_def)
  have nt: "normToken (rq_RequestType request) = rq_RequestType request"
  proof -
    have "normToken ''issue'' = ''issue''" "normToken ''renew'' = ''renew''" by code_simp+
    with ty show ?thesis by auto
  qed
  from assms(10) rq(1) obtain i where i: "mget (ws_byRequest (w_workflows w)) (envKey sc (TrimSpace (rq_ID request))) = Some i"
    "flow = workflowAt (w_workflows w) i"
    by (auto simp: workflow_GetByRequest_def sc_def envKey_eq split: option.splits)
  from flows_wf_index [OF flows_reachable_wf [OF assms(2)] i(1)] obtain v where
    v: "mget (ws_byID (w_workflows w)) i = Some v" "envKey sc (TrimSpace (rq_ID request)) = envKey (wf_Scope v) (wf_CertificateRequestID v)" .
  with i(2) have fv: "flow = v" by (simp add: workflowAt_def)
  from envKey_inj_raw [OF assms(8) [folded sc_def] assms(9)] v(2) fv have "wf_Scope flow = sc" by auto
  with v(1) fv flows_wfD(1,2) [OF flows_reachable_wf [OF assms(2)] v(1)] rq(1)
  have g: "workflow_Get (w_workflows w) sc (wf_ID flow) = Inr flow" by (simp add: workflow_scoped.get_ok_iff)
  define w1 where "w1 = w\<lparr>w_tick := Suc (w_tick w)\<rparr>"
  have e: "ensureWorkflow s sc request w = (Inr (flow, False), w1)"
    using rq(1,2) ty nt assms(7,10) i(1)
    by (auto simp: ensureWorkflow_def on_workflows_def workflow_Create_def Let_def errorsIs_def w1_def sc_def envKey_eq)
  have "workflow_Get (w_workflows w1) sc (wf_ID flow) = Inr flow" "request_ListDomains (w_requests w1) sc (rq_ID request) = Inr refs"
    "w_acme w1 = w_acme w" using g assms(12) by (simp_all add: w1_def sc_def)
  from place_order_stuck [OF this(1) assms(11) this(2), unfolded this(3), OF assms(13)] obtain msg where
    o: "place_order s sc request flow w1 = (failed ''WORKFLOW_ORDER_RECORD_FAILED'' msg, w1\<lparr>w_acme := acme, w_tick := Suc (w_tick w1)\<rparr>)" by blast
  have "ProcessJob s rec w = place_order s sc request flow w1"
    using assms(3,4,6,11) r id e
    by (simp add: ProcessJob_def processStartJob_def Let_def sc_def [symmetric] attempt_def ensureRequestRunning_def)
  with o show ?thesis by (intro exI [of _ msg]) (simp add: w1_def)
qed

definition demo_running :: request_store where
  "demo_running = snd (request_exec (snd (request_exec demo_requests (RqMove demo_scope ''r1'' RqAccepted 8)))
     (RqMove demo_scope ''r1'' RqRunning 9))"

lemma demo_running_reachable: "request_reachable demo_running"
proof -
  have step: "request_reachable st \<Longrightarrow> request_reachable (snd (request_exec st (RqMove sc i n t)))" for st sc i n t
    unfolding request_reachable_def by (erule rtranclp.rtrancl_into_rtrancl) (rule request_step.intros, simp)
  show ?thesis unfolding demo_running_def by (intro step demo_requests_reachable)
qed

lemma demo_running_at:
  "\<exists>r. request_Get demo_running demo_scope ''r1'' = Inr r \<and> rq_ID r = ''r1'' \<and> rq_Status r = RqRunning \<and>
     TrimSpace (rq_CAAccountID r) \<noteq> []"
proof -
  have "case request_Get demo_running demo_scope ''r1'' of Inl e \<Rightarrow> False
    | Inr r \<Rightarrow> rq_ID r = ''r1'' \<and> rq_Status r = RqRunning \<and> TrimSpace (rq_CAAccountID r) \<noteq> []" by code_simp
  then show ?thesis by (auto split: sum.splits)
qed

lemma demo_flow_at:
  "\<exists>w. workflow_GetByRequest flow_ordered demo_scope ''r1'' = Inr w \<and> wf_Status w = WfOrderPending \<and> wf_Scope w = demo_scope"
proof -
  have "case workflow_GetByRequest flow_ordered demo_scope ''r1'' of Inl e \<Rightarrow> False
    | Inr w \<Rightarrow> wf_Status w = WfOrderPending \<and> wf_Scope w = demo_scope" by code_simp
  then show ?thesis by (auto split: sum.splits)
qed

text \<open>A CA that accepts every order and counts them.\<close>

definition demo_ca :: "nat acme_client" where
  "demo_ca = \<lparr>am_CreateOrder = (\<lambda>q a. (Inr \<lparr>od_OrderURL = ''o2'', od_FinalizeURL = ''f2'', od_Challenges = []\<rparr>, Suc a)),
     am_NotifyChallengeReady = (\<lambda>q a. (Inr (), a)), am_PollAuthorization = (\<lambda>q a. (Inr AuthorizationValid, a)),
     am_FinalizeOrder = (\<lambda>u a. (Inr u, a)), am_DownloadCertificate = (\<lambda>u a. (Inr ''cert'', a))\<rparr>"

definition demo_start :: job where
  "demo_start = demo_continue\<lparr>j_JobType := ''start_issue_workflow'', j_Payload := ''r1|''\<rparr>"

definition demo_ca_orch :: "(repo, nat, fake_dns, fake_http) orchestrator" where
  "demo_ca_orch = \<lparr>os_Jobs = \<lparr>sv_repo = memory_repository, sv_retryPolicy = DefaultBackoffPolicy\<rparr>, os_ACME = demo_ca,
     os_DNS = fake_executor, os_HTTP01 = fake_presenter, os_codec = demo_codec,
     os_clock = (\<lambda>k m. 1000 + int k), os_ids = (\<lambda>k m. [CHR ''i'', char_of (97 + 2 * k + m)]),
     os_rnd = (\<lambda>k. Some (replicate 16 (word_of_nat k)))\<rparr>"

definition demo_ca_world :: "(repo, nat, fake_dns, fake_http) world" where
  "demo_ca_world = \<lparr>w_requests = demo_running, w_workflows = flow_ordered, w_assets = NewAssetService,
     w_domains = NewDomainService, w_issuers = NewIssuerService, w_jobs = NewMemoryRepository, w_acme = 1,
     w_dns = NewFakeExecutor, w_http = \<lparr>fh_PresentErr = None, fh_CleanupErr = None\<rparr>, w_tick = 0\<rparr>"

theorem interrupted_order_is_stuck_witness:
  "\<exists>msg w'. ProcessJob demo_ca_orch demo_start demo_ca_world = (failed ''WORKFLOW_ORDER_RECORD_FAILED'' msg, w') \<and>
     w_workflows w' = flow_ordered \<and> w_acme demo_ca_world = 1 \<and> w_acme w' = 2"
proof -
  obtain r where r: "request_Get demo_running demo_scope ''r1'' = Inr r" "rq_ID r = ''r1''" "rq_Status r = RqRunning"
    "TrimSpace (rq_CAAccountID r) \<noteq> []" using demo_running_at by blast
  obtain w where w: "workflow_GetByRequest flow_ordered demo_scope ''r1'' = Inr w" "wf_Status w = WfOrderPending" "wf_Scope w = demo_scope"
    using demo_flow_at by blast
  have sc: "scopeFromJob demo_start = demo_scope"
    by (simp add: scopeFromJob_def demo_start_def demo_continue_def demo_scope_def)
  have f: "slash_free demo_scope" by (simp add: slash_free_def demo_scope_def)
  have p: "parseStartPayload (os_codec demo_ca_orch) (j_Payload demo_start) = Inr \<lparr>sp_RequestID = ''r1''\<rparr>"
    by (simp add: parseStartPayload_def demo_ca_orch_def demo_codec_def demo_start_def)
  from r(1) obtain refs where refs: "request_ListDomains demo_running demo_scope (rq_ID r) = Inr refs"
    using r(2) by (simp add: request_ListDomains_def)
  have "\<exists>msg. ProcessJob demo_ca_orch demo_start demo_ca_world = (failed ''WORKFLOW_ORDER_RECORD_FAILED'' msg,
     demo_ca_world\<lparr>w_acme := 2, w_tick := w_tick demo_ca_world + 2\<rparr>)"
    by (rule interrupted_order_is_stuck [where p = "\<lparr>sp_RequestID = ''r1''\<rparr>" and request = r and flow = w and refs = refs])
      (use r w sc f p refs in \<open>simp_all add: demo_ca_world_def demo_running_reachable flow_ordered_reachable demo_start_def
        demo_ca_orch_def demo_ca_def\<close>)
  then show ?thesis by (auto simp: demo_ca_world_def)
qed

end
