(* ===== verification/Resubmit.thy ===== *)
theory Resubmit
  imports StageProps PlannerProps DomainProps
begin

text \<open>
  Submitting a request twice: the second submission finds the request and the job of the first by their
  keys, changes neither store and gives the same answer.
\<close>

section \<open>Scheduling twice\<close>

lemma uuid_New_nonempty: "uuid_New raw \<noteq> []"
  by (simp add: uuid_New_def Let_def)

lemma job_New_ID: "job_New p now rnd = Inr j \<Longrightarrow> j_ID j \<noteq> []"
  using uuid_New_nonempty by (auto simp: job_New_def Let_def generateID_def split: if_splits option.splits)

lemma job_New_not_duplicate: "job_New p now rnd = Inl e \<Longrightarrow> \<not> errorsIs e ErrDuplicateJob"
  by (auto simp: job_New_def Let_def errorsIs_def generateID_def split: if_splits option.splits)

lemma Schedule_cases:
  assumes s: "Schedule s clock params now (Some raw) st = (r, st')"
  shows "(st' = st \<and> (\<exists>e. r = Inl e \<and> \<not> errorsIs e ErrDuplicateJob)) \<or>
    (\<exists>rec x. params_ok params \<and> j_IdempotencyKey rec = TrimSpace (cp_IdempotencyKey params) \<and> j_ID rec \<noteq> [] \<and>
       rp_Create (sv_repo s) st rec = (x, st') \<and> r = map_sum id (\<lambda>_. rec) x)"
proof -
  define np where "np = params\<lparr>cp_NextRunAt := coalesceTime (cp_NextRunAt params) (clock 0)\<rparr>"
  define t where "t = coalesceTime now (clock 1)"
  have np: "params_ok np = params_ok params" "cp_IdempotencyKey np = cp_IdempotencyKey params"
    by (simp_all add: np_def params_ok_def)
  note S = s [unfolded Schedule_def, folded np_def t_def]
  show ?thesis
  proof (cases "job_New np t (Some raw)")
    case (Inl e)
    with S job_New_not_duplicate [OF Inl] show ?thesis by auto
  next
    case (Inr rec)
    obtain x st1 where x: "rp_Create (sv_repo s) st rec = (x, st1)" by fastforce
    from S Inr x have "r = map_sum id (\<lambda>_. rec) x" "st1 = st'" by (cases x; simp)+
    with x job_New_ok [OF Inr] job_New_ID [OF Inr] np show ?thesis
      by (intro disjI2 exI [of _ rec] exI [of _ x]) simp
  qed
qed

lemma Schedule_ok_params:
  assumes "params_ok params"
  shows "\<exists>rec x st'. j_IdempotencyKey rec = TrimSpace (cp_IdempotencyKey params) \<and>
    rp_Create (sv_repo s) st rec = (x, st') \<and> Schedule s clock params now (Some raw) st = (map_sum id (\<lambda>_. rec) x, st')"
proof -
  define np where "np = params\<lparr>cp_NextRunAt := coalesceTime (cp_NextRunAt params) (clock 0)\<rparr>"
  have np: "params_ok np" "cp_IdempotencyKey np = cp_IdempotencyKey params" using assms by (simp_all add: np_def params_ok_def)
  from job_New_total [OF np(1)] obtain rec where n: "job_New np (coalesceTime now (clock 1)) (Some raw) = Inr rec" by blast
  obtain x st1 where x: "rp_Create (sv_repo s) st rec = (x, st1)" by fastforce
  have "Schedule s clock params now (Some raw) st = (map_sum id (\<lambda>_. rec) x, st1)"
    unfolding Schedule_def np_def [symmetric] n using x by (cases x) simp_all
  with x job_New_ok [OF n] np(2) show ?thesis by metis
qed

context keyed_repository
begin

lemma scheduled:
  assumes "sv_repo (os_Jobs s) = rp" "inv (w_jobs w)" "schedule_or_get s key params w = (Inr j, w1)"
    "os_rnd s (w_tick w) \<noteq> None"
  shows "params_ok params \<and> inv (w_jobs w1)"
proof -
  obtain raw where raw: "os_rnd s (w_tick w) = Some raw" using assms(4) by auto
  obtain r st' where S: "Schedule (os_Jobs s) (\<lambda>k. os_clock s (w_tick w) (Suc k)) params (os_clock s (w_tick w) 0)
      (Some raw) (w_jobs w) = (r, st')" by fastforce
  have w1: "w_jobs w1 = st'" and ok: "\<And>e. r = Inl e \<Longrightarrow> errorsIs e ErrDuplicateJob"
    using assms(3) unfolding schedule_or_get_def raw S by (auto simp: Let_def split: sum.splits if_splits)
  from Schedule_cases [OF S] ok obtain rec x where c: "params_ok params" "j_ID rec \<noteq> []" "rp_Create rp (w_jobs w) rec = (x, st')"
    unfolding assms(1) by blast
  from create_inv [OF assms(2) c(2,3)] c(1) w1 show ?thesis by simp
qed

lemma schedule_again:
  assumes "sv_repo (os_Jobs s) = rp" "inv (w_jobs w)" "params_ok params" "cp_IdempotencyKey params = key"
    "rp_GetByIdempotency rp (w_jobs w) key = Inr j" "os_rnd s (w_tick w) \<noteq> None"
  shows "schedule_or_get s key params w = (Inr j, w\<lparr>w_tick := Suc (w_tick w)\<rparr>)"
proof -
  obtain raw where raw: "os_rnd s (w_tick w) = Some raw" using assms(6) by auto
  obtain rec x st' where c: "j_IdempotencyKey rec = TrimSpace key" "rp_Create rp (w_jobs w) rec = (x, st')"
    "Schedule (os_Jobs s) (\<lambda>k. os_clock s (w_tick w) (Suc k)) params (os_clock s (w_tick w) 0) (Some raw) (w_jobs w) =
       (map_sum id (\<lambda>_. rec) x, st')"
    using Schedule_ok_params [OF assms(3), of "os_Jobs s"] assms(1,4) by metis
  from create_again [OF assms(2,5), of rec] c(1,2) have "x = Inl (bare ErrDuplicateJob)" "st' = w_jobs w" by auto
  then show ?thesis
    unfolding schedule_or_get_def raw c(3) using assms(1,5) by (simp add: Let_def errorsIs_def sv_GetByIdempotency_def)
qed

end

section \<open>Submitting twice\<close>

text \<open>A refusal does not depend on the instant or the identifier of the attempt.\<close>

lemma request_Create_err_again:
  "request_Create st sc inp now i = (Inl e, st') \<Longrightarrow> request_Create st sc inp now' i' = (Inl e, st)"
  by (auto simp: request_Create_def Let_def split: option.splits sum.splits if_splits)

lemma request_Create_taken:
  assumes "request_Create st sc inp now i = (Inr r, st1)"
    "mget (rs_byIdempotency st') (envKey sc (TrimSpace (ri_IdempotencyKey inp))) \<noteq> None"
  shows "request_Create st' sc inp now' i' = (Inl (Err ErrConflict ''certificate request already exists''), st')"
proof -
  have v: "scope_Validate sc = None" using request_Create_ok [OF assms(1)] by auto
  obtain n refs k where n: "normalizeCreateInput inp = Inr (n, refs, k)"
    using assms(1) v by (auto simp: request_Create_def split: sum.splits)
  have "k = TrimSpace (ri_IdempotencyKey inp)" using n by (rule normalizeCreateInput_ok(5))
  with assms(2) v n show ?thesis by (auto simp: request_Create_def Let_def envKey_eq)
qed

text \<open>Accepting a request keeps its identity, its scope and the index of the keys.\<close>

lemma accepted_kept:
  assumes "ensureRequestAccepted s sc request w = (Inr q, w')" "mget (rs_byID (w_requests w)) (rq_ID request) = Some request"
  shows "(\<exists>q'. mget (rs_byID (w_requests w')) (rq_ID request) = Some q' \<and> rq_ID q' = rq_ID request \<and> rq_Scope q' = rq_Scope request) \<and>
    rs_byIdempotency (w_requests w') = rs_byIdempotency (w_requests w) \<and> w_jobs w' = w_jobs w \<and>
    w_issuers w' = w_issuers w \<and> w_domains w' = w_domains w"
  using assms
  by (auto simp: ensureRequestAccepted_def on_requests_def request_MarkAccepted_def request_transition_def Let_def scoped_get_def
      split: if_splits option.splits prod.splits sum.splits)

lemma schedule_rest: "schedule_or_get s key params w = (r, w') \<Longrightarrow> w_issuers w' = w_issuers w \<and> w_domains w' = w_domains w \<and>
    w_requests w' = w_requests w"
  by (auto simp: schedule_or_get_def Let_def split: prod.splits sum.splits if_splits)

lemma submit_conflicts:
  fixes s :: "(repo, 'a, 'd, 'h) orchestrator" and w :: "(repo, 'a, 'd, 'h) world"
  assumes "sv_repo (os_Jobs s) = memory_repository" "named_keys (w_jobs w)" "\<And>n. os_rnd s n \<noteq> None" "scope_Validate sc = None"
    "prepareRequestInput (w_issuers w) (w_domains w) sc actorID inp = Inr (ri, ds)"
    "\<And>now i. request_Create (w_requests w) sc ri now i = (Inl e, w_requests w)" "errorsIs e ErrConflict"
    "request_GetByIdempotency (w_requests w) sc (si_IdempotencyKey inp) = Inr q" "params_ok (start_params s q)"
    "repo_GetByIdempotency (w_jobs w) (startJobIdempotencyKey (rq_ID q)) = Inr j"
  shows "SubmitRequest s sc actorID inp w = (Inr (accept q j), w\<lparr>w_tick := Suc (Suc (w_tick w))\<rparr>)"
proof -
  define w1 where "w1 = w\<lparr>w_tick := Suc (w_tick w)\<rparr>"
  have "on_requests s (\<lambda>st now i. request_Create st sc ri now i) w = (Inl e, w1)"
    by (simp add: on_requests_def assms(6) w1_def)
  moreover have "ensureStartJob s q w1 = (Inr j, w1\<lparr>w_tick := Suc (w_tick w1)\<rparr>)"
    unfolding ensureStartJob_def
    by (rule memory_keyed.schedule_again)
      (use assms in \<open>simp_all add: w1_def start_params_def memory_repository_def\<close>)
  moreover have "request_GetByIdempotency (w_requests w1) sc (si_IdempotencyKey inp) = Inr q" by (simp add: w1_def assms(8))
  ultimately show ?thesis
    using assms(4,5,7) by (simp add: SubmitRequest_def attempt_def) (simp add: w1_def)
qed

lemma started:
  fixes s :: "(repo, 'a, 'd, 'h) orchestrator"
  assumes "sv_repo (os_Jobs s) = memory_repository" "named_keys (w_jobs w)" "\<And>n. os_rnd s n \<noteq> None"
    "ensureStartJob s q w = (Inr j, w')"
  shows "params_ok (start_params s q) \<and> named_keys (w_jobs w') \<and>
    repo_GetByIdempotency (w_jobs w') (startJobIdempotencyKey (rq_ID q)) = Inr j \<and>
    w_issuers w' = w_issuers w \<and> w_domains w' = w_domains w \<and> w_requests w' = w_requests w"
  using memory_keyed.scheduled [OF assms(1,2,4) [unfolded ensureStartJob_def] assms(3)]
    memory_keyed.schedule_queued [OF assms(1) assms(4) [unfolded ensureStartJob_def]]
    schedule_rest [OF assms(4) [unfolded ensureStartJob_def]] assms(1)
  by (simp add: start_params_def sv_GetByIdempotency_def memory_repository_def)

lemma reachable_named: "reachable r \<Longrightarrow> named_keys r"
  using reachable_wf [of r] repo_wfD(6) [of r] unfolding named_keys_def repo_wf_def by blast

lemma prepared_key: "prepareRequestInput issuers domains sc actorID inp = Inr (ri, ds) \<Longrightarrow>
    ri_IdempotencyKey ri = TrimSpace (si_IdempotencyKey inp)"
  by (auto simp: prepareRequestInput_def Let_def split: if_splits sum.splits prod.splits)

lemma found_by_key:
  assumes "scope_Validate sc = None" "TrimSpace k \<noteq> []" "mget (rs_byIdempotency st) (envKey sc (TrimSpace k)) = Some i"
  shows "request_GetByIdempotency st sc k = Inr (requestAt st i)"
  using assms by (simp add: request_GetByIdempotency_def envKey_eq)

text \<open>C25: submitting is idempotent: when a submission was answered, whether it made the request or
  found it made, the same submission gives the same request and the same job again, and
  nothing in any store has changed but the clock.\<close>

theorem resubmission_is_idempotent:
  fixes s :: "(repo, 'a, 'd, 'h) orchestrator" and w :: "(repo, 'a, 'd, 'h) world"
  assumes "sv_repo (os_Jobs s) = memory_repository" "reachable (w_jobs w)" "\<And>n. os_rnd s n \<noteq> None"
    "SubmitRequest s sc actorID inp w = (Inr res, w')"
  shows "SubmitRequest s sc actorID inp w' = (Inr res, w'\<lparr>w_tick := Suc (Suc (w_tick w'))\<rparr>)"
proof -
  note nk = reachable_named [OF assms(2)]
  from assms(4) have v: "scope_Validate sc = None" by (auto simp: SubmitRequest_def split: option.splits)
  with assms(4) obtain ri ds where p: "prepareRequestInput (w_issuers w) (w_domains w) sc actorID inp = Inr (ri, ds)"
    by (auto simp: SubmitRequest_def split: sum.splits)
  obtain x w1 where c: "on_requests s (\<lambda>st now i. request_Create st sc ri now i) w = (x, w1)" by fastforce
  then obtain st1 where st1: "request_Create (w_requests w) sc ri (os_clock s (w_tick w) 0) (os_ids s (w_tick w) 0) = (x, st1)"
    and w1: "w1 = w\<lparr>w_requests := st1, w_tick := Suc (w_tick w)\<rparr>"
    by (auto simp: on_requests_def Let_def split: prod.splits)
  show ?thesis
  proof (cases x)
    case (Inl e)
    with st1 have e: "st1 = w_requests w" "\<And>now i. request_Create (w_requests w) sc ri now i = (Inl e, w_requests w)"
      using request_Create_err request_Create_err_again by blast+
    from assms(4) v p c Inl obtain q j where f: "errorsIs e ErrConflict"
      "request_GetByIdempotency (w_requests w) sc (si_IdempotencyKey inp) = Inr q"
      "ensureStartJob s q w1 = (Inr j, w')" "res = accept q j"
      by (auto simp: SubmitRequest_def attempt_def passes_def w1 e(1) split: if_splits sum.splits prod.splits)
    have "named_keys (w_jobs w1)" using nk by (simp add: w1)
    from started [OF assms(1) this assms(3) f(3)] have g: "params_ok (start_params s q)" "named_keys (w_jobs w')"
      "repo_GetByIdempotency (w_jobs w') (startJobIdempotencyKey (rq_ID q)) = Inr j" "w_issuers w' = w_issuers w"
      "w_domains w' = w_domains w" "w_requests w' = w_requests w" by (simp_all add: w1 e(1))
    show ?thesis
      unfolding f(4)
      by (rule submit_conflicts [where ri = ri and ds = ds and e = e]) (use assms(1,3) v p e(2) f(1,2) g in simp_all)
  next
    case (Inr request)
    note made = request_Create_ok [OF st1 [unfolded Inr]]
    from assms(4) v p c Inr obtain j w2 q2 where f: "ensureStartJob s request w1 = (Inr j, w2)"
      "ensureRequestAccepted s sc request w2 = (Inr q2, w')" "res = accept request j"
      by (auto simp: SubmitRequest_def attempt_def passes_def split: sum.splits prod.splits)
    have "named_keys (w_jobs w1)" using nk by (simp add: w1)
    from started [OF assms(1) this assms(3) f(1)] have g: "params_ok (start_params s request)" "named_keys (w_jobs w2)"
      "repo_GetByIdempotency (w_jobs w2) (startJobIdempotencyKey (rq_ID request)) = Inr j" "w_issuers w2 = w_issuers w"
      "w_domains w2 = w_domains w" "w_requests w2 = st1" by (simp_all add: w1)
    have "mget (rs_byID (w_requests w2)) (rq_ID request) = Some request" using made g(6) by auto
    from accepted_kept [OF f(2) this] obtain q where q: "mget (rs_byID (w_requests w')) (rq_ID request) = Some q"
      "rq_ID q = rq_ID request" "rq_Scope q = rq_Scope request"
      and k: "rs_byIdempotency (w_requests w') = rs_byIdempotency st1" "w_jobs w' = w_jobs w2" "w_issuers w' = w_issuers w"
        "w_domains w' = w_domains w"
      using g by auto
    have key: "ri_IdempotencyKey ri = TrimSpace (si_IdempotencyKey inp)" using p by (rule prepared_key)
    have i: "mget (rs_byIdempotency (w_requests w')) (envKey sc (TrimSpace (si_IdempotencyKey inp))) = Some (rq_ID request)"
      using made k(1) key by auto
    have nb: "TrimSpace (si_IdempotencyKey inp) \<noteq> []"
      using made key by (auto simp: request_policy_def)
    have found: "request_GetByIdempotency (w_requests w') sc (si_IdempotencyKey inp) = Inr q"
      using found_by_key [OF v nb i] q(1) by (simp add: requestAt_def)
    have taken: "request_Create (w_requests w') sc ri now i = (Inl (Err ErrConflict ''certificate request already exists''), w_requests w')" for now i
      by (rule request_Create_taken [OF st1 [unfolded Inr]]) (use i key in simp)
    have sp: "start_params s q = start_params s request" "res = accept q j" using q(2,3) f(3) by (simp_all add: start_params_def accept_def)
    show ?thesis
      unfolding sp(2)
      by (rule submit_conflicts [where ri = ri and ds = ds and e = "Err ErrConflict ''certificate request already exists''"])
        (use assms(1,3) v p taken found g sp(1) k q(2) in \<open>simp_all add: errorsIs_def\<close>)
  qed
qed

definition demo_office :: "(repo, fake_acme, fake_dns, fake_http) world" where
  "demo_office = (demo_world ''dns-01'' NewFakeExecutor)\<lparr>w_requests := NewRequestService, w_domains := demo_domains,
     w_issuers := \<lparr>is_byID = [(''ca'', demo_account)], is_byEnvName = []\<rparr>\<rparr>"

definition demo_submission :: submit_input where
  "demo_submission = \<lparr>si_RequestType = [], si_DomainIDs = [''d1''], si_CAAccountID = ''ca'', si_AssetID = [],
     si_CertificateType = [], si_ChallengeType = [], si_IdempotencyKey = ''k1'', si_DeploymentTargetIDs = []\<rparr>"

lemma demo_submitted:
  "\<not> isl (fst (SubmitRequest demo_orch demo_scope ''me'' demo_submission demo_office))"
  by code_simp

theorem resubmission_is_idempotent_witness:
  "\<exists>res w'. SubmitRequest demo_orch demo_scope ''me'' demo_submission demo_office = (Inr res, w') \<and>
     SubmitRequest demo_orch demo_scope ''me'' demo_submission w' = (Inr res, w'\<lparr>w_tick := Suc (Suc (w_tick w'))\<rparr>)"
proof -
  obtain res w' where r: "SubmitRequest demo_orch demo_scope ''me'' demo_submission demo_office = (Inr res, w')"
    using demo_submitted by (metis isl_def prod.collapse sum.exhaust)
  have "reachable (w_jobs demo_office)" by (simp add: demo_office_def demo_world_def reachable_def)
  moreover have "os_rnd demo_orch n \<noteq> None" for n by (simp add: demo_orch_def)
  ultimately show ?thesis using resubmission_is_idempotent [OF demo_orch_jobs _ _ r] r by blast
qed

end
