(* ===== verification/Tenancy.thy ===== *)
theory Tenancy
  imports Prelude
begin

text \<open>
  Tenancy and role-based access (\<^verbatim>\<open>internal/domain/tenancy/models.go\<close>, \<^verbatim>\<open>memory_store.go\<close>, \<^verbatim>\<open>service.go\<close>): a
  user's role bindings are resolved to one tenant, project and environment and to the permissions
  the user has there. The repository is an interface; its in-memory implementation is built from
  seed records and never changes.
\<close>

section \<open>Data\<close>

datatype tenancy_status = StActive | StArchived | StDisabled | StOther string
datatype scope_type = ScopeTenant | ScopeProject | ScopeEnvironment | ScopeOther string
datatype tenancy_error = TenancyScopeMismatch | NoAccessibleScope | PermissionDenied | TenancyRecordNotFound

record tenant =
  tn_ID :: string
  tn_Name :: string
  tn_Code :: string
  tn_Locale :: string
  tn_Status :: tenancy_status

record project =
  pj_ID :: string
  pj_TenantID :: string
  pj_Name :: string
  pj_Code :: string
  pj_Status :: tenancy_status

record environment =
  en_ID :: string
  en_TenantID :: string
  en_ProjectID :: string
  en_Name :: string
  en_Code :: string
  en_Status :: tenancy_status
  en_EnvType :: string

record role =
  ro_ID :: string
  ro_TenantID :: string
  ro_Code :: string
  ro_Name :: string
  ro_ScopeLevel :: scope_type
  ro_IsSystem :: bool
  ro_Status :: tenancy_status

record role_binding =
  rb_ID :: string
  rb_TenantID :: string
  rb_ProjectID :: string
  rb_EnvironmentID :: string
  rb_UserID :: string
  rb_RoleID :: string
  rb_ScopeType :: scope_type
  rb_ScopeID :: string
  rb_Status :: tenancy_status

record selection =
  se_TenantID :: string
  se_ProjectID :: string
  se_EnvironmentID :: string

text \<open>A \<^verbatim>\<open>map[Permission]struct{}\<close> is a list of its keys.\<close>

record resolved_context =
  rc_Tenant :: tenant
  rc_Project :: project
  rc_Environment :: environment
  rc_RoleCodes :: "string list"
  rc_permissions :: "string list"

section \<open>Permissions\<close>

definition systemRolePermissions :: "(string, string list) gomap" where
  "systemRolePermissions =
     [(''tenant_admin'', [''*'']),
      (''security_admin'', [''auth.context.read'', ''auth.preferences.write'', ''audit.read'', ''settings.read'', ''settings.write'']),
      (''platform_engineer'', [''auth.context.read'', ''auth.preferences.write'', ''audit.read'', ''settings.read'', ''settings.write'']),
      (''auditor'', [''auth.context.read'', ''audit.read'', ''audit.export''])]"

definition rolePermissions :: "string list \<Rightarrow> string list" where
  "rolePermissions roleCodes = remdups (concat (map (mslice systemRolePermissions) roleCodes))"

definition HasPermission :: "resolved_context \<Rightarrow> string \<Rightarrow> bool" where
  "HasPermission c permission =
     (if ''*'' \<in> set (rc_permissions c) then True else permission \<in> set (rc_permissions c))"

definition sortRoleCodes :: "string list \<Rightarrow> string list" where
  "sortRoleCodes roleCodes = sort roleCodes"

section \<open>The repository\<close>

record tenancy_repo =
  tp_ListRoleBindingsByUser :: "string \<Rightarrow> tenancy_error + role_binding list"
  tp_ListRolesByIDs :: "string list \<Rightarrow> tenancy_error + role list"
  tp_GetTenant :: "string \<Rightarrow> tenancy_error + tenant"
  tp_ListProjectsByTenant :: "string \<Rightarrow> tenancy_error + project list"
  tp_GetProject :: "string \<Rightarrow> tenancy_error + project"
  tp_ListEnvironmentsByProject :: "string \<Rightarrow> tenancy_error + environment list"
  tp_GetEnvironment :: "string \<Rightarrow> tenancy_error + environment"

record tenancy_seed =
  sd_Tenants :: "tenant list"
  sd_Projects :: "project list"
  sd_Environments :: "environment list"
  sd_Roles :: "role list"
  sd_Bindings :: "role_binding list"

record tenancy_store =
  ty_tenants :: "(string, tenant) gomap"
  ty_projects :: "(string, project) gomap"
  ty_environments :: "(string, environment) gomap"
  ty_roles :: "(string, role) gomap"
  ty_bindingsByUser :: "(string, role_binding list) gomap"

definition NewTenancyStore :: "tenancy_seed \<Rightarrow> tenancy_store" where
  "NewTenancyStore seed = \<lparr>ty_tenants = index_by tn_ID (sd_Tenants seed), ty_projects = index_by pj_ID (sd_Projects seed),
     ty_environments = index_by en_ID (sd_Environments seed), ty_roles = index_by ro_ID (sd_Roles seed),
     ty_bindingsByUser = fold (\<lambda>b m. mput (rb_UserID b) (mslice m (rb_UserID b) @ [b]) m) (sd_Bindings seed) []\<rparr>"

definition ListRoleBindingsByUser :: "tenancy_store \<Rightarrow> string \<Rightarrow> tenancy_error + role_binding list" where
  "ListRoleBindingsByUser st userID = Inr (mslice (ty_bindingsByUser st) userID)"

fun list_roles :: "(string, role) gomap \<Rightarrow> string list \<Rightarrow> string list \<Rightarrow> role list \<Rightarrow> role list" where
  "list_roles roles [] seen result = result"
| "list_roles roles (i # ids) seen result =
     (if i \<in> set seen then list_roles roles ids seen result
      else case mget roles i of
        None \<Rightarrow> list_roles roles ids (i # seen) result
      | Some r \<Rightarrow> list_roles roles ids (i # seen) (result @ [r]))"

definition ListRolesByIDs :: "tenancy_store \<Rightarrow> string list \<Rightarrow> tenancy_error + role list" where
  "ListRolesByIDs st roleIDs = Inr (list_roles (ty_roles st) roleIDs [] [])"

definition GetTenant :: "tenancy_store \<Rightarrow> string \<Rightarrow> tenancy_error + tenant" where
  "GetTenant st i = (case mget (ty_tenants st) i of None \<Rightarrow> Inl TenancyRecordNotFound | Some t \<Rightarrow> Inr t)"

definition ListProjectsByTenant :: "tenancy_store \<Rightarrow> string \<Rightarrow> tenancy_error + project list" where
  "ListProjectsByTenant st tenantID = Inr (filter (\<lambda>p. pj_TenantID p = tenantID) (map snd (ty_projects st)))"

definition GetProject :: "tenancy_store \<Rightarrow> string \<Rightarrow> tenancy_error + project" where
  "GetProject st i = (case mget (ty_projects st) i of None \<Rightarrow> Inl TenancyRecordNotFound | Some p \<Rightarrow> Inr p)"

definition ListEnvironmentsByProject :: "tenancy_store \<Rightarrow> string \<Rightarrow> tenancy_error + environment list" where
  "ListEnvironmentsByProject st projectID =
     Inr (filter (\<lambda>e. en_ProjectID e = projectID) (map snd (ty_environments st)))"

definition GetEnvironment :: "tenancy_store \<Rightarrow> string \<Rightarrow> tenancy_error + environment" where
  "GetEnvironment st i = (case mget (ty_environments st) i of None \<Rightarrow> Inl TenancyRecordNotFound | Some e \<Rightarrow> Inr e)"

definition memory_tenancy :: "tenancy_store \<Rightarrow> tenancy_repo" where
  "memory_tenancy st = \<lparr>tp_ListRoleBindingsByUser = ListRoleBindingsByUser st, tp_ListRolesByIDs = ListRolesByIDs st,
     tp_GetTenant = GetTenant st, tp_ListProjectsByTenant = ListProjectsByTenant st, tp_GetProject = GetProject st,
     tp_ListEnvironmentsByProject = ListEnvironmentsByProject st, tp_GetEnvironment = GetEnvironment st\<rparr>"

section \<open>Resolution\<close>

definition bindingAppliesToContext :: "role_binding \<Rightarrow> string \<Rightarrow> string \<Rightarrow> string \<Rightarrow> bool" where
  "bindingAppliesToContext b tenantID projectID environmentID =
     (case rb_ScopeType b of
        ScopeTenant \<Rightarrow> rb_TenantID b = tenantID
      | ScopeProject \<Rightarrow> rb_ProjectID b = projectID
      | ScopeEnvironment \<Rightarrow> rb_EnvironmentID b = environmentID
      | ScopeOther _ \<Rightarrow> False)"

text \<open>The keys of a \<^verbatim>\<open>map[string]struct{}\<close>, collected in any order, sorted.\<close>

definition sortedKeys :: "string list \<Rightarrow> string list" where
  "sortedKeys values = sort (remdups values)"

fun uniqueStrings_loop :: "string list \<Rightarrow> string list \<Rightarrow> string list \<Rightarrow> string list" where
  "uniqueStrings_loop [] seen result = result"
| "uniqueStrings_loop (v # vs) seen result =
     (if v \<in> set seen then uniqueStrings_loop vs seen result
      else uniqueStrings_loop vs (v # seen) (result @ [v]))"

definition uniqueStrings :: "string list \<Rightarrow> string list" where
  "uniqueStrings values = uniqueStrings_loop values [] []"

text \<open>The last lines of the three selections: a requested identifier must be accessible, else the first one is taken.\<close>

definition pick :: "string list \<Rightarrow> string \<Rightarrow> tenancy_error + string" where
  "pick accessible requested =
     (if requested \<noteq> []
      then (if requested \<notin> set accessible then Inl TenancyScopeMismatch else Inr requested)
      else case sortedKeys accessible of [] \<Rightarrow> Inl NoAccessibleScope | i # _ \<Rightarrow> Inr i)"

definition selectTenant :: "string \<Rightarrow> role_binding list \<Rightarrow> (string, role) gomap \<Rightarrow> tenancy_error + string" where
  "selectTenant requested bindings roleByID =
     pick (map rb_TenantID (filter (\<lambda>b. rb_Status b = StActive \<and> mget roleByID (rb_RoleID b) \<noteq> None) bindings)) requested"

text \<open>The projects one binding gives access to.\<close>

definition project_grants ::
  "tenancy_repo \<Rightarrow> string \<Rightarrow> (string, project) gomap \<Rightarrow> (string, role) gomap \<Rightarrow> role_binding \<Rightarrow> string list" where
  "project_grants rp tenantID projectByID roleByID b =
     (if rb_Status b \<noteq> StActive \<or> rb_TenantID b \<noteq> tenantID then []
      else case mget roleByID (rb_RoleID b) of
        None \<Rightarrow> []
      | Some r \<Rightarrow>
          (case ro_ScopeLevel r of
             ScopeTenant \<Rightarrow> map fst projectByID
           | ScopeProject \<Rightarrow> (if mget projectByID (rb_ProjectID b) \<noteq> None then [rb_ProjectID b] else [])
           | ScopeEnvironment \<Rightarrow>
               (case tp_GetEnvironment rp (rb_EnvironmentID b) of
                  Inl _ \<Rightarrow> []
                | Inr e \<Rightarrow>
                    if en_Status e \<noteq> StActive then []
                    else if mget projectByID (en_ProjectID e) \<noteq> None then [en_ProjectID e] else [])
           | ScopeOther _ \<Rightarrow> []))"

definition selectProject ::
  "tenancy_repo \<Rightarrow> string \<Rightarrow> string \<Rightarrow> role_binding list \<Rightarrow> (string, role) gomap \<Rightarrow> tenancy_error + string" where
  "selectProject rp tenantID requested bindings roleByID =
     (case tp_ListProjectsByTenant rp tenantID of
        Inl _ \<Rightarrow> Inl NoAccessibleScope
      | Inr projects \<Rightarrow>
          let projectByID = index_by pj_ID (filter (\<lambda>p. pj_Status p = StActive) projects)
          in pick (concat (map (project_grants rp tenantID projectByID roleByID) bindings)) requested)"

definition environment_grants ::
  "(string, environment) gomap \<Rightarrow> (string, role) gomap \<Rightarrow> role_binding \<Rightarrow> string list" where
  "environment_grants environmentByID roleByID b =
     (case mget roleByID (rb_RoleID b) of
        None \<Rightarrow> []
      | Some r \<Rightarrow>
          if rb_Status b \<noteq> StActive then []
          else (case ro_ScopeLevel r of
             ScopeTenant \<Rightarrow> map fst environmentByID
           | ScopeProject \<Rightarrow> map fst environmentByID
           | ScopeEnvironment \<Rightarrow> (if mget environmentByID (rb_EnvironmentID b) \<noteq> None then [rb_EnvironmentID b] else [])
           | ScopeOther _ \<Rightarrow> []))"

definition selectEnvironment ::
  "tenancy_repo \<Rightarrow> string \<Rightarrow> string \<Rightarrow> role_binding list \<Rightarrow> (string, role) gomap \<Rightarrow> tenancy_error + string" where
  "selectEnvironment rp projectID requested bindings roleByID =
     (case tp_ListEnvironmentsByProject rp projectID of
        Inl _ \<Rightarrow> Inl NoAccessibleScope
      | Inr environments \<Rightarrow>
          let environmentByID = index_by en_ID (filter (\<lambda>e. en_Status e = StActive) environments)
          in pick (concat (map (environment_grants environmentByID roleByID) bindings)) requested)"

definition role_codes ::
  "role_binding list \<Rightarrow> (string, role) gomap \<Rightarrow> string \<Rightarrow> string \<Rightarrow> string \<Rightarrow> string list" where
  "role_codes bindings roleByID tenantID projectID environmentID =
     concat (map (\<lambda>b.
       if rb_Status b \<noteq> StActive then []
       else case mget roleByID (rb_RoleID b) of
         None \<Rightarrow> []
       | Some r \<Rightarrow> if bindingAppliesToContext b tenantID projectID environmentID then [ro_Code r] else []) bindings)"

definition Resolve :: "tenancy_repo \<Rightarrow> string \<Rightarrow> selection \<Rightarrow> tenancy_error + resolved_context" where
  "Resolve rp userID sel =
     (case tp_ListRoleBindingsByUser rp userID of
        Inl _ \<Rightarrow> Inl NoAccessibleScope
      | Inr bindings \<Rightarrow>
      if length bindings = 0 then Inl NoAccessibleScope else
      let roleIDs = map rb_RoleID (filter (\<lambda>b. rb_Status b = StActive) bindings) in
      (case tp_ListRolesByIDs rp roleIDs of
        Inl _ \<Rightarrow> Inl NoAccessibleScope
      | Inr roles \<Rightarrow>
      let roleByID = index_by ro_ID (filter (\<lambda>r. ro_Status r = StActive) roles) in
      (case selectTenant (se_TenantID sel) bindings roleByID of
        Inl e \<Rightarrow> Inl e
      | Inr tenantID \<Rightarrow>
      (case tp_GetTenant rp tenantID of
        Inl _ \<Rightarrow> Inl TenancyScopeMismatch
      | Inr t \<Rightarrow>
      if tn_Status t \<noteq> StActive then Inl TenancyScopeMismatch else
      (case selectProject rp tenantID (se_ProjectID sel) bindings roleByID of
        Inl e \<Rightarrow> Inl e
      | Inr projectID \<Rightarrow>
      (case tp_GetProject rp projectID of
        Inl _ \<Rightarrow> Inl TenancyScopeMismatch
      | Inr p \<Rightarrow>
      if pj_Status p \<noteq> StActive \<or> pj_TenantID p \<noteq> tn_ID t then Inl TenancyScopeMismatch else
      (case selectEnvironment rp (pj_ID p) (se_EnvironmentID sel) bindings roleByID of
        Inl e \<Rightarrow> Inl e
      | Inr environmentID \<Rightarrow>
      (case tp_GetEnvironment rp environmentID of
        Inl _ \<Rightarrow> Inl TenancyScopeMismatch
      | Inr en \<Rightarrow>
      if en_Status en \<noteq> StActive \<or> en_ProjectID en \<noteq> pj_ID p then Inl TenancyScopeMismatch else
      let roleCodes = uniqueStrings (sortRoleCodes (role_codes bindings roleByID (tn_ID t) (pj_ID p) (en_ID en)))
      in Inr \<lparr>rc_Tenant = t, rc_Project = p, rc_Environment = en, rc_RoleCodes = roleCodes,
              rc_permissions = rolePermissions roleCodes\<rparr>))))))))"

end
