(* ===== verification/TenancyProps.thy ===== *)
theory TenancyProps
  imports Tenancy
begin

text \<open>
  What a resolved context guarantees, over every store built from seed records: who may enter which
  tenant, project and environment, and where the permissions come from.
\<close>

section \<open>Bindings\<close>

lemma bindings_of_user:
  "mslice (fold (\<lambda>b m. mput (rb_UserID b) (mslice m (rb_UserID b) @ [b]) m) bs m) u = mslice m u @ filter (\<lambda>b. rb_UserID b = u) bs"
  by (induction bs arbitrary: m) auto

section \<open>Lists of identifiers\<close>

lemma list_roles_set:
  "set (list_roles roles ids seen result) = set result \<union> {r. \<exists>i \<in> set ids - set seen. mget roles i = Some r}"
  by (induction roles ids seen result rule: list_roles.induct) (auto split: option.splits)

lemma uniqueStrings_set: "set (uniqueStrings vs) = set vs"
proof -
  have "set (uniqueStrings_loop vs seen result) = set result \<union> (set vs - set seen)" for seen result
    by (induction vs seen result rule: uniqueStrings_loop.induct) auto
  then show ?thesis by (simp add: uniqueStrings_def)
qed

lemma pick_requested: "requested \<noteq> [] \<Longrightarrow> pick accessible requested = Inr i \<longleftrightarrow> i = requested \<and> requested \<in> set accessible"
  by (auto simp: pick_def)

lemma pick_ok: "pick accessible requested = Inr i \<Longrightarrow> i \<in> set accessible \<and> (requested \<noteq> [] \<longrightarrow> i = requested)"
proof (cases "requested = []")
  case True
  assume "pick accessible requested = Inr i"
  with True obtain rest where "sortedKeys accessible = i # rest" by (auto simp: pick_def split: list.splits)
  then have "i \<in> set (sortedKeys accessible)" by simp
  with True show ?thesis by (simp add: sortedKeys_def)
qed (auto simp: pick_def split: if_splits)

section \<open>A store built from seeds\<close>

definition seeded :: "tenancy_seed \<Rightarrow> tenancy_repo" where
  "seeded seed = memory_tenancy (NewTenancyStore seed)"

text \<open>The records of a seed as the store keeps them: the last one of an identifier.\<close>

definition the_tenant where "the_tenant seed i = mget (index_by tn_ID (sd_Tenants seed)) i"
definition the_project where "the_project seed i = mget (index_by pj_ID (sd_Projects seed)) i"
definition the_environment where "the_environment seed i = mget (index_by en_ID (sd_Environments seed)) i"

definition the_role where "the_role seed i = mget (index_by ro_ID (sd_Roles seed)) i"

text \<open>A user holds a role by a binding that is active, as is the role.\<close>

definition holds :: "tenancy_seed \<Rightarrow> string \<Rightarrow> role_binding \<Rightarrow> role \<Rightarrow> bool" where
  "holds seed userID b r =
     (b \<in> set (sd_Bindings seed) \<and> rb_UserID b = userID \<and> rb_Status b = StActive \<and>
      the_role seed (rb_RoleID b) = Some r \<and> ro_Status r = StActive)"

definition active_tenant where
  "active_tenant seed i t = (the_tenant seed i = Some t \<and> tn_Status t = StActive)"

definition active_project where
  "active_project seed t i p = (the_project seed i = Some p \<and> pj_Status p = StActive \<and> pj_TenantID p = t)"

definition active_environment where
  "active_environment seed p i e = (the_environment seed i = Some e \<and> en_Status e = StActive \<and> en_ProjectID e = p)"

lemma seeded_simps:
  "tp_ListRoleBindingsByUser (seeded seed) u = Inr (filter (\<lambda>b. rb_UserID b = u) (sd_Bindings seed))"
  "tp_ListRolesByIDs (seeded seed) ids = Inr (list_roles (index_by ro_ID (sd_Roles seed)) ids [] [])"
  "tp_GetTenant (seeded seed) i = (case the_tenant seed i of None \<Rightarrow> Inl TenancyRecordNotFound | Some t \<Rightarrow> Inr t)"
  "tp_GetProject (seeded seed) i = (case the_project seed i of None \<Rightarrow> Inl TenancyRecordNotFound | Some p \<Rightarrow> Inr p)"
  "tp_GetEnvironment (seeded seed) i = (case the_environment seed i of None \<Rightarrow> Inl TenancyRecordNotFound | Some e \<Rightarrow> Inr e)"
  by (simp_all add: seeded_def memory_tenancy_def ListRoleBindingsByUser_def NewTenancyStore_def bindings_of_user mslice_def
      ListRolesByIDs_def GetTenant_def GetProject_def GetEnvironment_def the_tenant_def the_project_def the_environment_def
      bindings_of_user [where m = "[]", unfolded mslice_def, simplified])

lemma the_ids:
  "the_tenant seed i = Some t \<Longrightarrow> tn_ID t = i" "the_project seed i = Some p \<Longrightarrow> pj_ID p = i"
  "the_environment seed i = Some e \<Longrightarrow> en_ID e = i" "the_role seed i = Some r \<Longrightarrow> ro_ID r = i"
  by (auto simp: the_tenant_def the_project_def the_environment_def the_role_def dest: index_by_get)

lemma seeded_projects:
  assumes "tp_ListProjectsByTenant (seeded seed) t = Inr projects"
  shows "mget (index_by pj_ID (filter (\<lambda>p. pj_Status p = StActive) projects)) i = Some p \<longleftrightarrow> active_project seed t i p"
proof -
  have "filter (\<lambda>p. pj_Status p = StActive) projects =
      filter (\<lambda>p. pj_TenantID p = t \<and> pj_Status p = StActive) (map snd (index_by pj_ID (sd_Projects seed)))"
    using assms by (auto simp: seeded_def memory_tenancy_def ListProjectsByTenant_def NewTenancyStore_def)
  then show ?thesis by (auto simp: index_by_part active_project_def the_project_def simp del: filter_map)
qed

lemma seeded_environments:
  assumes "tp_ListEnvironmentsByProject (seeded seed) p = Inr environments"
  shows "mget (index_by en_ID (filter (\<lambda>e. en_Status e = StActive) environments)) i = Some e \<longleftrightarrow> active_environment seed p i e"
proof -
  have "filter (\<lambda>e. en_Status e = StActive) environments =
      filter (\<lambda>e. en_ProjectID e = p \<and> en_Status e = StActive) (map snd (index_by en_ID (sd_Environments seed)))"
    using assms by (auto simp: seeded_def memory_tenancy_def ListEnvironmentsByProject_def NewTenancyStore_def)
  then show ?thesis by (auto simp: index_by_part active_environment_def the_environment_def)
qed

text \<open>The roles the resolver works with are those the user holds.\<close>

lemma seeded_roles:
  assumes "roleByID = index_by ro_ID (filter (\<lambda>r. ro_Status r = StActive)
      (list_roles (index_by ro_ID (sd_Roles seed)) (map rb_RoleID (filter (\<lambda>b. rb_Status b = StActive) bindings)) [] []))"
    "bindings = filter (\<lambda>b. rb_UserID b = u) (sd_Bindings seed)" "b \<in> set bindings" "rb_Status b = StActive"
  shows "mget roleByID (rb_RoleID b) = Some r \<longleftrightarrow> holds seed u b r"
proof -
  define rs where "rs = filter (\<lambda>r. ro_Status r = StActive)
      (list_roles (index_by ro_ID (sd_Roles seed)) (map rb_RoleID (filter (\<lambda>b. rb_Status b = StActive) bindings)) [] [])"
  have rs: "x \<in> set rs \<longleftrightarrow> ro_Status x = StActive \<and>
      (\<exists>b \<in> set bindings. rb_Status b = StActive \<and> the_role seed (rb_RoleID b) = Some x)" for x
    by (auto simp: rs_def list_roles_set the_role_def)
  have one: "x = y" if "x \<in> set rs" "y \<in> set rs" "ro_ID x = ro_ID y" for x y
    using that unfolding rs by (metis option.inject the_ids(4))
  have "mget (index_by ro_ID rs) (rb_RoleID b) = Some r \<longleftrightarrow> r \<in> set rs \<and> ro_ID r = rb_RoleID b"
  proof
    assume a: "r \<in> set rs \<and> ro_ID r = rb_RoleID b"
    then obtain y where y: "mget (index_by ro_ID rs) (rb_RoleID b) = Some y" using index_by_has [of ro_ID rs "rb_RoleID b"] by force
    with a one [of y r] index_by_get [OF y] show "mget (index_by ro_ID rs) (rb_RoleID b) = Some r" by simp
  qed (rule index_by_get)
  also have "\<dots> \<longleftrightarrow> holds seed u b r"
    using assms(2-4) the_ids(4) by (auto simp: rs holds_def)
  finally show ?thesis by (simp add: assms(1) rs_def)
qed

section \<open>Who may enter\<close>

definition enters_tenant :: "tenancy_seed \<Rightarrow> string \<Rightarrow> string \<Rightarrow> bool" where
  "enters_tenant seed u t = (\<exists>b r. holds seed u b r \<and> rb_TenantID b = t)"

definition enters_project :: "tenancy_seed \<Rightarrow> string \<Rightarrow> string \<Rightarrow> string \<Rightarrow> bool" where
  "enters_project seed u t p =
     (\<exists>b r. holds seed u b r \<and> rb_TenantID b = t \<and>
        (ro_ScopeLevel r = ScopeTenant \<or> ro_ScopeLevel r = ScopeProject \<and> rb_ProjectID b = p \<or>
         ro_ScopeLevel r = ScopeEnvironment \<and>
           (\<exists>e. the_environment seed (rb_EnvironmentID b) = Some e \<and> en_Status e = StActive \<and> en_ProjectID e = p)))"

definition enters_environment :: "tenancy_seed \<Rightarrow> string \<Rightarrow> string \<Rightarrow> bool" where
  "enters_environment seed u e =
     (\<exists>b r. holds seed u b r \<and>
        (ro_ScopeLevel r \<in> {ScopeTenant, ScopeProject} \<or> ro_ScopeLevel r = ScopeEnvironment \<and> rb_EnvironmentID b = e))"

text \<open>The bindings and the roles of a user as the resolver sees them.\<close>

definition user_bindings where
  "user_bindings seed u = filter (\<lambda>b. rb_UserID b = u) (sd_Bindings seed)"

definition user_roles where
  "user_roles seed u = index_by ro_ID (filter (\<lambda>r. ro_Status r = StActive)
      (list_roles (index_by ro_ID (sd_Roles seed))
        (map rb_RoleID (filter (\<lambda>b. rb_Status b = StActive) (user_bindings seed u))) [] []))"

lemma user_role: "b \<in> set (user_bindings seed u) \<Longrightarrow> rb_Status b = StActive \<Longrightarrow>
    mget (user_roles seed u) (rb_RoleID b) = Some r \<longleftrightarrow> holds seed u b r"
  by (rule seeded_roles [OF user_roles_def user_bindings_def])

lemma holds_binding: "holds seed u b r \<Longrightarrow> b \<in> set (user_bindings seed u) \<and> rb_Status b = StActive"
  by (simp add: holds_def user_bindings_def)

lemma tenant_access: "t \<in> set (map rb_TenantID (filter (\<lambda>b. rb_Status b = StActive \<and> mget (user_roles seed u) (rb_RoleID b) \<noteq> None)
    (user_bindings seed u))) \<longleftrightarrow> enters_tenant seed u t"
  using user_role holds_binding unfolding enters_tenant_def by (auto simp: image_iff) blast+

lemma project_access:
  assumes "\<And>i p. mget projects i = Some p \<longleftrightarrow> active_project seed t i p"
  shows "i \<in> set (concat (map (project_grants (seeded seed) t projects (user_roles seed u)) (user_bindings seed u))) \<longleftrightarrow>
    (\<exists>p. active_project seed t i p) \<and> enters_project seed u t i"
proof -
  have keys: "k \<in> set (map fst projects) \<longleftrightarrow> (\<exists>p. active_project seed t k p)" for k
    using assms by (metis map_of_eq_None_iff not_None_eq set_map)
  have one: "i \<in> set (project_grants (seeded seed) t projects (user_roles seed u) b) \<longleftrightarrow>
      (\<exists>p. active_project seed t i p) \<and> (\<exists>r. holds seed u b r \<and> rb_TenantID b = t \<and>
        (ro_ScopeLevel r = ScopeTenant \<or> ro_ScopeLevel r = ScopeProject \<and> rb_ProjectID b = i \<or>
         ro_ScopeLevel r = ScopeEnvironment \<and>
           (\<exists>e. the_environment seed (rb_EnvironmentID b) = Some e \<and> en_Status e = StActive \<and> en_ProjectID e = i)))"
    if b: "b \<in> set (user_bindings seed u)" for b
  proof (cases "rb_Status b = StActive \<and> rb_TenantID b = t")
    case False
    then show ?thesis by (auto simp: project_grants_def dest: holds_binding)
  next
    case True
    show ?thesis
    proof (cases "mget (user_roles seed u) (rb_RoleID b)")
      case None
      then have "\<not> holds seed u b r" for r using user_role [OF b] True by auto
      with None True show ?thesis by (simp add: project_grants_def)
    next
      case (Some r)
      then have h: "holds seed u b x \<longleftrightarrow> x = r" for x using user_role [OF b, of x] True Some by auto
      show ?thesis
        using Some True keys assms
        by (cases "ro_ScopeLevel r") (auto simp: project_grants_def h seeded_simps split: option.splits)
    qed
  qed
  then show ?thesis using holds_binding unfolding enters_project_def by (auto simp: Bex_def) blast+
qed

lemma environment_access:
  assumes "\<And>i e. mget environments i = Some e \<longleftrightarrow> active_environment seed p i e"
  shows "i \<in> set (concat (map (environment_grants environments (user_roles seed u)) (user_bindings seed u))) \<longleftrightarrow>
    (\<exists>e. active_environment seed p i e) \<and> enters_environment seed u i"
proof -
  have keys: "k \<in> set (map fst environments) \<longleftrightarrow> (\<exists>e. active_environment seed p k e)" for k
    using assms by (metis map_of_eq_None_iff not_None_eq set_map)
  have one: "i \<in> set (environment_grants environments (user_roles seed u) b) \<longleftrightarrow>
      (\<exists>e. active_environment seed p i e) \<and> (\<exists>r. holds seed u b r \<and>
        (ro_ScopeLevel r \<in> {ScopeTenant, ScopeProject} \<or> ro_ScopeLevel r = ScopeEnvironment \<and> rb_EnvironmentID b = i))"
    if b: "b \<in> set (user_bindings seed u)" for b
  proof (cases "rb_Status b = StActive")
    case False
    then show ?thesis by (auto simp: environment_grants_def dest: holds_binding split: option.splits)
  next
    case True
    show ?thesis
    proof (cases "mget (user_roles seed u) (rb_RoleID b)")
      case None
      then have "\<not> holds seed u b r" for r using user_role [OF b] True by auto
      with None show ?thesis by (simp add: environment_grants_def)
    next
      case (Some r)
      then have h: "holds seed u b x \<longleftrightarrow> x = r" for x using user_role [OF b, of x] True Some by auto
      show ?thesis
        using Some True keys assms by (cases "ro_ScopeLevel r") (auto simp: environment_grants_def h)
    qed
  qed
  then show ?thesis using holds_binding unfolding enters_environment_def by (auto simp: Bex_def) blast+
qed

lemma selected_tenant:
  "selectTenant req (user_bindings seed u) (user_roles seed u) = Inr i \<Longrightarrow> enters_tenant seed u i \<and> (req \<noteq> [] \<longrightarrow> i = req)"
  "req \<noteq> [] \<Longrightarrow> selectTenant req (user_bindings seed u) (user_roles seed u) = Inr i \<longleftrightarrow> i = req \<and> enters_tenant seed u req"
proof -
  assume "selectTenant req (user_bindings seed u) (user_roles seed u) = Inr i"
  from pick_ok [OF this [unfolded selectTenant_def]] show "enters_tenant seed u i \<and> (req \<noteq> [] \<longrightarrow> i = req)"
    unfolding tenant_access .
next
  assume "req \<noteq> []"
  show "selectTenant req (user_bindings seed u) (user_roles seed u) = Inr i \<longleftrightarrow> i = req \<and> enters_tenant seed u req"
    unfolding selectTenant_def pick_requested [OF \<open>req \<noteq> []\<close>] tenant_access by simp
qed

lemma project_list: "\<exists>ps. tp_ListProjectsByTenant (seeded seed) t = Inr ps"
  by (simp add: seeded_def memory_tenancy_def ListProjectsByTenant_def)

lemma environment_list: "\<exists>es. tp_ListEnvironmentsByProject (seeded seed) p = Inr es"
  by (simp add: seeded_def memory_tenancy_def ListEnvironmentsByProject_def)

lemma selected_project:
  "selectProject (seeded seed) t req (user_bindings seed u) (user_roles seed u) = Inr i \<Longrightarrow>
     (\<exists>p. active_project seed t i p) \<and> enters_project seed u t i \<and> (req \<noteq> [] \<longrightarrow> i = req)"
  "req \<noteq> [] \<Longrightarrow> selectProject (seeded seed) t req (user_bindings seed u) (user_roles seed u) = Inr i \<longleftrightarrow>
     i = req \<and> (\<exists>p. active_project seed t req p) \<and> enters_project seed u t req"
proof -
  obtain ps where ps: "tp_ListProjectsByTenant (seeded seed) t = Inr ps" using project_list by blast
  define m where "m = index_by pj_ID (filter (\<lambda>p. pj_Status p = StActive) ps)"
  have e: "selectProject (seeded seed) t req (user_bindings seed u) (user_roles seed u) =
      pick (concat (map (project_grants (seeded seed) t m (user_roles seed u)) (user_bindings seed u))) req" for req
    by (simp add: selectProject_def ps m_def)
  note a = project_access [OF seeded_projects [OF ps], folded m_def]
  show "selectProject (seeded seed) t req (user_bindings seed u) (user_roles seed u) = Inr i \<Longrightarrow>
     (\<exists>p. active_project seed t i p) \<and> enters_project seed u t i \<and> (req \<noteq> [] \<longrightarrow> i = req)"
    unfolding e using pick_ok a by blast
  show "req \<noteq> [] \<Longrightarrow> selectProject (seeded seed) t req (user_bindings seed u) (user_roles seed u) = Inr i \<longleftrightarrow>
     i = req \<and> (\<exists>p. active_project seed t req p) \<and> enters_project seed u t req"
    unfolding e pick_requested a by blast
qed

lemma selected_environment:
  "selectEnvironment (seeded seed) p req (user_bindings seed u) (user_roles seed u) = Inr i \<Longrightarrow>
     (\<exists>e. active_environment seed p i e) \<and> enters_environment seed u i \<and> (req \<noteq> [] \<longrightarrow> i = req)"
  "req \<noteq> [] \<Longrightarrow> selectEnvironment (seeded seed) p req (user_bindings seed u) (user_roles seed u) = Inr i \<longleftrightarrow>
     i = req \<and> (\<exists>e. active_environment seed p req e) \<and> enters_environment seed u req"
proof -
  obtain es where es: "tp_ListEnvironmentsByProject (seeded seed) p = Inr es" using environment_list by blast
  define m where "m = index_by en_ID (filter (\<lambda>e. en_Status e = StActive) es)"
  have e: "selectEnvironment (seeded seed) p req (user_bindings seed u) (user_roles seed u) =
      pick (concat (map (environment_grants m (user_roles seed u)) (user_bindings seed u))) req" for req
    by (simp add: selectEnvironment_def es m_def)
  note a = environment_access [OF seeded_environments [OF es], folded m_def]
  show "selectEnvironment (seeded seed) p req (user_bindings seed u) (user_roles seed u) = Inr i \<Longrightarrow>
     (\<exists>e. active_environment seed p i e) \<and> enters_environment seed u i \<and> (req \<noteq> [] \<longrightarrow> i = req)"
    unfolding e using pick_ok a by blast
  show "req \<noteq> [] \<Longrightarrow> selectEnvironment (seeded seed) p req (user_bindings seed u) (user_roles seed u) = Inr i \<longleftrightarrow>
     i = req \<and> (\<exists>e. active_environment seed p req e) \<and> enters_environment seed u req"
    unfolding e pick_requested a by blast
qed

text \<open>Resolution over a seeded store, its three selections one after the other.\<close>

definition resolved_roles where
  "resolved_roles seed u t p e = uniqueStrings (sortRoleCodes (role_codes (user_bindings seed u) (user_roles seed u) t p e))"

lemma Resolve_seeded:
  "Resolve (seeded seed) u sel = Inr c \<longleftrightarrow>
   (\<exists>t p e. selectTenant (se_TenantID sel) (user_bindings seed u) (user_roles seed u) = Inr (tn_ID t) \<and>
      active_tenant seed (tn_ID t) t \<and>
      selectProject (seeded seed) (tn_ID t) (se_ProjectID sel) (user_bindings seed u) (user_roles seed u) = Inr (pj_ID p) \<and>
      active_project seed (tn_ID t) (pj_ID p) p \<and>
      selectEnvironment (seeded seed) (pj_ID p) (se_EnvironmentID sel) (user_bindings seed u) (user_roles seed u) = Inr (en_ID e) \<and>
      active_environment seed (pj_ID p) (en_ID e) e \<and>
      c = \<lparr>rc_Tenant = t, rc_Project = p, rc_Environment = e,
           rc_RoleCodes = resolved_roles seed u (tn_ID t) (pj_ID p) (en_ID e),
           rc_permissions = rolePermissions (resolved_roles seed u (tn_ID t) (pj_ID p) (en_ID e))\<rparr>)"
  (is "?L \<longleftrightarrow> ?R")
proof (cases "user_bindings seed u = []")
  case True
  then have "\<not> enters_tenant seed u i" for i by (auto simp: enters_tenant_def dest: holds_binding)
  then have "\<not> ?R" using selected_tenant(1) by blast
  moreover have "\<not> ?L" using True by (simp add: Resolve_def seeded_simps user_bindings_def [symmetric])
  ultimately show ?thesis by blast
next
  case False
  note d = Resolve_def seeded_simps user_bindings_def [symmetric] user_roles_def [symmetric] Let_def False
  show ?thesis
  proof
    assume l: ?L
    then obtain ti t where t: "selectTenant (se_TenantID sel) (user_bindings seed u) (user_roles seed u) = Inr ti"
      "the_tenant seed ti = Some t" "tn_Status t = StActive"
      by (auto simp: d split: sum.splits option.splits if_splits)
    with l obtain pi p where p: "selectProject (seeded seed) ti (se_ProjectID sel) (user_bindings seed u) (user_roles seed u) = Inr pi"
      "the_project seed pi = Some p" "pj_Status p = StActive" "pj_TenantID p = tn_ID t"
      by (auto simp: d split: sum.splits option.splits if_splits)
    with l t obtain ei e where e: "selectEnvironment (seeded seed) (pj_ID p) (se_EnvironmentID sel) (user_bindings seed u) (user_roles seed u) = Inr ei"
      "the_environment seed ei = Some e" "en_Status e = StActive" "en_ProjectID e = pj_ID p"
      by (auto simp: d split: sum.splits option.splits if_splits)
    note ids = the_ids(1) [OF t(2)] the_ids(2) [OF p(2)] the_ids(3) [OF e(2)]
    have "c = \<lparr>rc_Tenant = t, rc_Project = p, rc_Environment = e,
           rc_RoleCodes = resolved_roles seed u (tn_ID t) (pj_ID p) (en_ID e),
           rc_permissions = rolePermissions (resolved_roles seed u (tn_ID t) (pj_ID p) (en_ID e))\<rparr>"
      using l t p e by (simp add: d resolved_roles_def)
    with t p e ids show ?R
      unfolding active_tenant_def active_project_def active_environment_def by metis
  next
    assume ?R
    then show ?L
      by (auto simp: d active_tenant_def active_project_def active_environment_def resolved_roles_def)
  qed
qed

lemma role_codes_set:
  "set (role_codes (user_bindings seed u) (user_roles seed u) t p e) =
     {ro_Code r |b r. holds seed u b r \<and> bindingAppliesToContext b t p e}"
proof -
  have "x \<in> set (if rb_Status b \<noteq> StActive then []
       else case mget (user_roles seed u) (rb_RoleID b) of None \<Rightarrow> []
         | Some r \<Rightarrow> if bindingAppliesToContext b t p e then [ro_Code r] else []) \<longleftrightarrow>
      (\<exists>r. holds seed u b r \<and> x = ro_Code r \<and> bindingAppliesToContext b t p e)"
    if "b \<in> set (user_bindings seed u)" for b x
  proof (cases "mget (user_roles seed u) (rb_RoleID b)")
    case None
    then show ?thesis using user_role [OF that] holds_binding [of seed u b] by auto
  next
    case (Some a)
    then have "rb_Status b = StActive \<Longrightarrow> holds seed u b r \<longleftrightarrow> r = a" for r using user_role [OF that, of r] by auto
    with Some holds_binding [of seed u b] show ?thesis by auto
  qed
  then show ?thesis using holds_binding [of seed u] by (fastforce simp: role_codes_def)
qed

lemma resolved_roles_set: "set (resolved_roles seed u t p e) = {ro_Code r |b r. holds seed u b r \<and> bindingAppliesToContext b t p e}"
  by (simp add: resolved_roles_def uniqueStrings_set sortRoleCodes_def role_codes_set)

section \<open>Properties\<close>

text \<open>C4: who may enter: a user who names a tenant, a project and an environment is let in exactly when
  all three are active and belong to each other, and active bindings to active roles open each of them:
  a binding in the tenant opens the tenant; a tenant role in it, a project role for the project or
  an environment role for an environment of the project opens the project; the environment is opened by its
  own environment role, and by any tenant or project role the user holds, wherever it is bound.\<close>

theorem scope_access_is_decided_by_bindings:
  assumes "t \<noteq> []" "p \<noteq> []" "e \<noteq> []"
  shows "(\<exists>c. Resolve (seeded seed) u \<lparr>se_TenantID = t, se_ProjectID = p, se_EnvironmentID = e\<rparr> = Inr c) \<longleftrightarrow>
    (\<exists>tn pj en. active_tenant seed t tn \<and> active_project seed t p pj \<and> active_environment seed p e en) \<and>
    enters_tenant seed u t \<and> enters_project seed u t p \<and> enters_environment seed u e"
  (is "?L \<longleftrightarrow> ?R")
proof
  assume ?L
  then show ?R unfolding Resolve_seeded
    by (auto simp: assms selected_tenant(2) selected_project(2) selected_environment(2))
next
  assume ?R
  then obtain tn pj en where a: "active_tenant seed t tn" "active_project seed t p pj" "active_environment seed p e en"
    and o: "enters_tenant seed u t" "enters_project seed u t p" "enters_environment seed u e" by blast
  from a have "tn_ID tn = t" "pj_ID pj = p" "en_ID en = e"
    by (auto simp: active_tenant_def active_project_def active_environment_def dest: the_ids)
  with a o show ?L unfolding Resolve_seeded
    by (intro exI conjI refl) (auto simp: assms selected_tenant(2) selected_project(2) selected_environment(2))
qed

text \<open>C3: permissions come from bindings: whatever a user asked for, the context that is handed out is an active
  environment of an active project of an active tenant, and it grants a permission exactly when the user
  holds an active role, by an active binding that covers this very tenant, project or environment, whose
  code has the permission or the wildcard.\<close>

theorem permissions_come_from_bindings:
  assumes "Resolve (seeded seed) u sel = Inr c"
  shows "active_tenant seed (tn_ID (rc_Tenant c)) (rc_Tenant c) \<and>
    active_project seed (tn_ID (rc_Tenant c)) (pj_ID (rc_Project c)) (rc_Project c) \<and>
    active_environment seed (pj_ID (rc_Project c)) (en_ID (rc_Environment c)) (rc_Environment c) \<and>
    (HasPermission c perm \<longleftrightarrow>
      (\<exists>b r. holds seed u b r \<and>
         bindingAppliesToContext b (tn_ID (rc_Tenant c)) (pj_ID (rc_Project c)) (en_ID (rc_Environment c)) \<and>
         (perm \<in> set (mslice systemRolePermissions (ro_Code r)) \<or> ''*'' \<in> set (mslice systemRolePermissions (ro_Code r)))))"
proof -
  have "set (rolePermissions codes) = (\<Union>x \<in> set codes. set (mslice systemRolePermissions x))" for codes
    by (simp add: rolePermissions_def)
  then have p: "x \<in> set (rolePermissions (resolved_roles seed u t p e)) \<longleftrightarrow>
      (\<exists>b r. holds seed u b r \<and> bindingAppliesToContext b t p e \<and> x \<in> set (mslice systemRolePermissions (ro_Code r)))" for x t p e
    by (auto simp: resolved_roles_set)
  from assms show ?thesis unfolding Resolve_seeded HasPermission_def
    by (elim exE conjE) (simp add: p, blast)
qed

text \<open>
  A tenant with a project \<open>p\<close>, which has the environments \<open>e1\<close> and \<open>e2\<close>, and a project \<open>q\<close>. The user audits
  \<open>e1\<close> and engineers \<open>q\<close>.
\<close>

definition demo_seed :: tenancy_seed where
  "demo_seed =
     \<lparr>sd_Tenants = [\<lparr>tn_ID = ''t'', tn_Name = ''T'', tn_Code = ''t'', tn_Locale = [], tn_Status = StActive\<rparr>],
      sd_Projects = map (\<lambda>i. \<lparr>pj_ID = i, pj_TenantID = ''t'', pj_Name = i, pj_Code = i, pj_Status = StActive\<rparr>) [''p'', ''q''],
      sd_Environments = map (\<lambda>i. \<lparr>en_ID = i, en_TenantID = ''t'', en_ProjectID = ''p'', en_Name = i, en_Code = i,
          en_Status = StActive, en_EnvType = []\<rparr>) [''e1'', ''e2''],
      sd_Roles = [\<lparr>ro_ID = ''r1'', ro_TenantID = ''t'', ro_Code = ''auditor'', ro_Name = [], ro_ScopeLevel = ScopeEnvironment,
          ro_IsSystem = True, ro_Status = StActive\<rparr>,
        \<lparr>ro_ID = ''r2'', ro_TenantID = ''t'', ro_Code = ''platform_engineer'', ro_Name = [], ro_ScopeLevel = ScopeProject,
          ro_IsSystem = True, ro_Status = StActive\<rparr>],
      sd_Bindings = [\<lparr>rb_ID = ''b1'', rb_TenantID = ''t'', rb_ProjectID = ''p'', rb_EnvironmentID = ''e1'', rb_UserID = ''u'',
          rb_RoleID = ''r1'', rb_ScopeType = ScopeEnvironment, rb_ScopeID = ''e1'', rb_Status = StActive\<rparr>,
        \<lparr>rb_ID = ''b2'', rb_TenantID = ''t'', rb_ProjectID = ''q'', rb_EnvironmentID = [], rb_UserID = ''u'',
          rb_RoleID = ''r2'', rb_ScopeType = ScopeProject, rb_ScopeID = ''q'', rb_Status = StActive\<rparr>]\<rparr>"

definition demo_selection :: "string \<Rightarrow> selection" where
  "demo_selection e = \<lparr>se_TenantID = ''t'', se_ProjectID = ''p'', se_EnvironmentID = e\<rparr>"

text \<open>The user is let into \<open>e2\<close>, where no binding of his applies, and has no role there.\<close>

lemma demo_resolved:
  "case Resolve (seeded demo_seed) ''u'' (demo_selection ''e1'') of Inl e \<Rightarrow> False
   | Inr c \<Rightarrow> rc_RoleCodes c = [''auditor''] \<and> HasPermission c ''audit.read''"
  "case Resolve (seeded demo_seed) ''u'' (demo_selection ''e2'') of Inl e \<Rightarrow> False
   | Inr c \<Rightarrow> rc_RoleCodes c = [] \<and> \<not> HasPermission c ''audit.read''"
  by code_simp+

theorem scope_access_is_decided_by_bindings_witness:
  "(\<exists>c. Resolve (seeded demo_seed) ''u'' (demo_selection ''e2'') = Inr c \<and> rc_RoleCodes c = []) \<and>
   enters_environment demo_seed ''u'' ''e2''"
proof -
  obtain c where c: "Resolve (seeded demo_seed) ''u'' (demo_selection ''e2'') = Inr c" "rc_RoleCodes c = []"
    using demo_resolved(2) by (auto split: sum.splits)
  moreover from c have "enters_environment demo_seed ''u'' ''e2''"
    using scope_access_is_decided_by_bindings [of "''t''" "''p''" "''e2''" demo_seed "''u''"] by (auto simp: demo_selection_def)
  ultimately show ?thesis by blast
qed

theorem permissions_come_from_bindings_witness:
  "\<exists>c b r. Resolve (seeded demo_seed) ''u'' (demo_selection ''e1'') = Inr c \<and> HasPermission c ''audit.read'' \<and> holds demo_seed ''u'' b r"
proof -
  obtain c where "Resolve (seeded demo_seed) ''u'' (demo_selection ''e1'') = Inr c" "HasPermission c ''audit.read''"
    using demo_resolved(1) by (auto split: sum.splits)
  with permissions_come_from_bindings [OF this(1), of "''audit.read''"] show ?thesis by blast
qed

end
