(* ===== verification/Sha256.thy ===== *)
theory Sha256
  imports Uuid
begin

text \<open>
  The hash functions of Go's standard library that the program calls: SHA-256 (\<^verbatim>\<open>crypto/sha256\<close>, FIPS 180-4)
  and HMAC over it (\<^verbatim>\<open>crypto/hmac\<close>, FIPS 198-1), on lists of bytes.
\<close>

section \<open>Bytes and words\<close>

definition string_bytes :: "string \<Rightarrow> rawbytes" where
  "string_bytes s = map (\<lambda>c. word_of_nat (byte_of c)) s"

definition bytes_string :: "rawbytes \<Rightarrow> string" where
  "bytes_string bs = map (\<lambda>b. char_of (unat b)) bs"

lemma bytes_string_bytes [simp]: "bytes_string (string_bytes s) = s"
proof (induction s)
  case (Cons c s)
  have "byte_of c < 256" by (simp add: of_char_def) 
  then have "unat (word_of_nat (byte_of c) :: 8 word) = byte_of c" by (simp add: unat_of_nat)
  with Cons show ?case by (simp add: bytes_string_def string_bytes_def)
qed (simp add: bytes_string_def string_bytes_def)

lemma string_bytes_string [simp]: "string_bytes (bytes_string bs) = bs"
proof -
  have "word_of_nat (byte_of (char_of (unat b))) = b" for b :: "8 word"
    using unat_byte [of b] by simp
  then show ?thesis by (simp add: bytes_string_def string_bytes_def comp_def)
qed

lemma length_string_bytes [simp]: "length (string_bytes s) = length s"
  by (simp add: string_bytes_def)

type_synonym w32 = "32 word"

definition be32 :: "8 word \<Rightarrow> 8 word \<Rightarrow> 8 word \<Rightarrow> 8 word \<Rightarrow> w32" where
  "be32 a b c d = push_bit 24 (ucast a) OR push_bit 16 (ucast b) OR push_bit 8 (ucast c) OR ucast d"

definition bytes32 :: "w32 \<Rightarrow> rawbytes" where
  "bytes32 w = [ucast (drop_bit 24 w), ucast (drop_bit 16 w), ucast (drop_bit 8 w), ucast w]"

definition bytes64 :: "nat \<Rightarrow> rawbytes" where
  "bytes64 n = map (\<lambda>i. ucast (drop_bit i (word_of_nat n :: 64 word))) [56, 48, 40, 32, 24, 16, 8, 0]"

fun words32 :: "rawbytes \<Rightarrow> w32 list" where
  "words32 (a # b # c # d # bs) = be32 a b c d # words32 bs"
| "words32 _ = []"

section \<open>SHA-256\<close>

definition rotr :: "nat \<Rightarrow> w32 \<Rightarrow> w32" where
  "rotr n w = drop_bit n w OR push_bit (32 - n) w"

definition sha_ch :: "w32 \<Rightarrow> w32 \<Rightarrow> w32 \<Rightarrow> w32" where
  "sha_ch x y z = (x AND y) XOR (NOT x AND z)"

definition sha_maj :: "w32 \<Rightarrow> w32 \<Rightarrow> w32 \<Rightarrow> w32" where
  "sha_maj x y z = (x AND y) XOR (x AND z) XOR (y AND z)"

definition Sig0 :: "w32 \<Rightarrow> w32" where "Sig0 x = rotr 2 x XOR rotr 13 x XOR rotr 22 x"
definition Sig1 :: "w32 \<Rightarrow> w32" where "Sig1 x = rotr 6 x XOR rotr 11 x XOR rotr 25 x"
definition sig0 :: "w32 \<Rightarrow> w32" where "sig0 x = rotr 7 x XOR rotr 18 x XOR drop_bit 3 x"
definition sig1 :: "w32 \<Rightarrow> w32" where "sig1 x = rotr 17 x XOR rotr 19 x XOR drop_bit 10 x"

definition sha_K :: "w32 list" where
  "sha_K = [
    1116352408, 1899447441, 3049323471, 3921009573, 961987163, 1508970993, 2453635748, 2870763221,
    3624381080, 310598401, 607225278, 1426881987, 1925078388, 2162078206, 2614888103, 3248222580,
    3835390401, 4022224774, 264347078, 604807628, 770255983, 1249150122, 1555081692, 1996064986,
    2554220882, 2821834349, 2952996808, 3210313671, 3336571891, 3584528711, 113926993, 338241895,
    666307205, 773529912, 1294757372, 1396182291, 1695183700, 1986661051, 2177026350, 2456956037,
    2730485921, 2820302411, 3259730800, 3345764771, 3516065817, 3600352804, 4094571909, 275423344,
    430227734, 506948616, 659060556, 883997877, 958139571, 1322822218, 1537002063, 1747873779,
    1955562222, 2024104815, 2227730452, 2361852424, 2428436474, 2756734187, 3204031479, 3329325298]"

definition sha_H0 :: "w32 list" where
  "sha_H0 = [1779033703, 3144134277, 1013904242, 2773480762, 1359893119, 2600822924, 528734635, 1541459225]"

text \<open>The message schedule, its newest word first.\<close>

primrec sha_schedule :: "nat \<Rightarrow> w32 list \<Rightarrow> w32 list" where
  "sha_schedule 0 ws = ws"
| "sha_schedule (Suc n) ws = sha_schedule n ((sig1 (ws ! 1) + ws ! 6 + sig0 (ws ! 14) + ws ! 15) # ws)"

fun sha_round :: "w32 list \<Rightarrow> w32 \<times> w32 \<Rightarrow> w32 list" where
  "sha_round [a, b, c, d, e, f, g, h] (k, w) =
     (let t1 = h + Sig1 e + sha_ch e f g + k + w; t2 = Sig0 a + sha_maj a b c in [t1 + t2, a, b, c, d + t1, e, f, g])"
| "sha_round hs _ = hs"

definition sha_compress :: "w32 list \<Rightarrow> w32 list \<Rightarrow> w32 list" where
  "sha_compress hs block =
     map2 (+) hs (foldl sha_round hs (zip sha_K (rev (sha_schedule 48 (rev block)))))"

function sha_blocks :: "w32 list \<Rightarrow> w32 list \<Rightarrow> w32 list" where
  "sha_blocks hs ws = (if length ws < 16 then hs else sha_blocks (sha_compress hs (take 16 ws)) (drop 16 ws))"
  by pat_completeness auto
termination by (relation "measure (length \<circ> snd)") auto

declare sha_blocks.simps [simp del]

definition sha_pad :: "rawbytes \<Rightarrow> rawbytes" where
  "sha_pad m = m @ [0x80] @ replicate ((119 - length m mod 64) mod 64) 0 @ bytes64 (8 * length m)"

definition sha256 :: "rawbytes \<Rightarrow> rawbytes" where
  "sha256 m = concat (map bytes32 (sha_blocks sha_H0 (words32 (sha_pad m))))"


section \<open>HMAC\<close>

definition hmac_sha256 :: "rawbytes \<Rightarrow> rawbytes \<Rightarrow> rawbytes" where
  "hmac_sha256 key data =
     (let k = (if 64 < length key then sha256 key else key);
          k0 = k @ replicate (64 - length k) 0
      in sha256 (map (\<lambda>b. b XOR 0x5c) k0 @ sha256 (map (\<lambda>b. b XOR 0x36) k0 @ data)))"

text \<open>A digest has 32 bytes.\<close>

lemma length_sha_round: "length (sha_round hs kw) = length hs"
  by (induction hs kw rule: sha_round.induct) (simp_all add: Let_def)

lemma length_sha_rounds: "length (foldl sha_round hs kws) = length hs"
  by (induction kws arbitrary: hs) (simp_all add: length_sha_round)

lemma length_sha_blocks: "length (sha_blocks hs ws) = length hs"
proof (induction hs ws rule: sha_blocks.induct)
  case (1 hs ws)
  have "length (sha_compress hs (take 16 ws)) = length hs" by (simp add: sha_compress_def length_sha_rounds)
  with 1 show ?case by (cases "length ws < 16") (simp_all add: sha_blocks.simps [of hs ws])
qed

lemma length_sha256 [simp]: "length (sha256 m) = 32"
proof -
  have "length (concat (map bytes32 ws)) = 4 * length ws" for ws by (induction ws) (simp_all add: bytes32_def)
  then show ?thesis by (simp add: sha256_def length_sha_blocks) (simp add: sha_H0_def)
qed

lemma length_hmac [simp]: "length (hmac_sha256 key data) = 32"
  by (simp add: hmac_sha256_def Let_def)

end
