(* ===== verification/Encoding.thy ===== *)
theory Encoding
  imports Rfc3339 Sha256
begin

text \<open>
  Texts the standard library writes and reads for the program: decimal numbers (\<^verbatim>\<open>strconv.Atoi\<close>), \<^verbatim>\<open>strings.Split\<close> and \<^verbatim>\<open>strings.Join\<close> on a separator of one byte, and the
  two unpadded Base64 alphabets (\<^verbatim>\<open>base64.RawStdEncoding\<close>, \<^verbatim>\<open>base64.RawURLEncoding\<close>).
\<close>

section \<open>Decimal numbers\<close>

definition digits_value :: "string \<Rightarrow> int" where
  "digits_value s = fold (\<lambda>c acc. 10 * acc + (int (byte_of c) - 48)) s 0"

text \<open>An optional sign, at least one digit, nothing else, and a value that fits 64 bits.\<close>

definition Atoi :: "string \<Rightarrow> int option" where
  "Atoi s =
     (let (neg, ds) = (case s of [] \<Rightarrow> (False, []) | c # r \<Rightarrow>
            if c = CHR ''-'' then (True, r) else if c = CHR ''+'' then (False, r) else (False, s));
          v = (if neg then - digits_value ds else digits_value ds)
      in if ds = [] \<or> list_ex (\<lambda>c. \<not> is_digit c) ds then None
         else if v < - (2 ^ 63) \<or> 2 ^ 63 \<le> v then None
         else Some v)"

lemma digits_value_digits: "digits_value (digits n) = int n"
proof -
  have a: "fold (\<lambda>c acc. 10 * acc + (int (byte_of c) - 48)) s (int acc) = int (undigits s acc)"
    if "\<forall>c \<in> set s. is_digit c" for s acc
    using that
  proof (induction s arbitrary: acc)
    case (Cons c s)
    then have "48 \<le> byte_of c" by (auto simp: is_digit_def)
    then have "10 * int acc + (int (byte_of c) - 48) = int (10 * acc + (byte_of c - 48))" by (simp add: of_nat_diff)
    moreover have "fold (\<lambda>c acc. 10 * acc + (int (byte_of c) - 48)) s (int (10 * acc + (byte_of c - 48))) =
        int (undigits s (10 * acc + (byte_of c - 48)))" using Cons.prems by (intro Cons.IH) simp
    ultimately show ?case by (simp only: fold_simps undigits.simps)
  qed simp
  show ?thesis using a [of "digits n" 0] digits_digit undigits_digits by (simp add: digits_value_def)
qed

lemma digits_nonempty: "digits n \<noteq> []"
  by (simp add: digits.simps [of n])

lemma Atoi_decimal: "- (2 ^ 63) \<le> n \<Longrightarrow> n < 2 ^ 63 \<Longrightarrow> Atoi (decimal n) = Some n"
proof -
  assume b: "- (2 ^ 63) \<le> n" "n < 2 ^ 63"
  have ok: "\<not> list_ex (\<lambda>c. \<not> is_digit c) (digits k)" for k by (auto simp: list_ex_iff dest: digits_digit)
  have nd: "\<not> is_digit CHR ''+''" by (simp add: is_digit_def)
  show ?thesis
  proof (cases "n < 0")
    case True
    then show ?thesis using b ok digits_nonempty by (simp add: Atoi_def decimal_def digits_value_digits)
  next
    case False
    obtain c r where c: "digits (nat n) = c # r" using digits_nonempty by (cases "digits (nat n)") auto
    then have "is_digit c" using digits_digit [of c "nat n"] by simp
    then have "c \<noteq> CHR ''-''" "c \<noteq> CHR ''+''" using nd not_digit by auto
    with False b ok [of "nat n"] digits_value_digits [of "nat n"] show ?thesis by (simp add: Atoi_def decimal_def c Let_def)
  qed
qed

section \<open>Splitting and joining\<close>

fun Split :: "char \<Rightarrow> string \<Rightarrow> string list" where
  "Split sep [] = [[]]"
| "Split sep (c # s) =
     (if c = sep then [] # Split sep s
      else case Split sep s of [] \<Rightarrow> [[c]] | p # ps \<Rightarrow> (c # p) # ps)"

fun Join :: "char \<Rightarrow> string list \<Rightarrow> string" where
  "Join sep [] = []"
| "Join sep [p] = p"
| "Join sep (p # ps) = p @ sep # Join sep ps"

lemma Split_nonempty: "Split sep s \<noteq> []"
  by (induction sep s rule: Split.induct) (auto split: list.splits)

lemma Split_word: "sep \<notin> set p \<Longrightarrow> Split sep (p @ sep # s) = p # Split sep s"
  by (induction p) auto

lemma Split_last: "sep \<notin> set p \<Longrightarrow> Split sep p = [p]"
  by (induction p) auto

lemma Split_Join: "ps \<noteq> [] \<Longrightarrow> \<forall>p \<in> set ps. sep \<notin> set p \<Longrightarrow> Split sep (Join sep ps) = ps"
  by (induction sep ps rule: Join.induct) (auto simp: Split_word Split_last)

section \<open>Base64\<close>

definition b64_std :: string where
  "b64_std = ''ABCDEFGHIJKLMNOPQRSTUVWXYZabcdefghijklmnopqrstuvwxyz0123456789+/''"

definition b64_url :: string where
  "b64_url = ''ABCDEFGHIJKLMNOPQRSTUVWXYZabcdefghijklmnopqrstuvwxyz0123456789-_''"

definition b64_char :: "string \<Rightarrow> int \<Rightarrow> char" where
  "b64_char al v = al ! nat (v mod 64)"

fun b64_encode :: "string \<Rightarrow> rawbytes \<Rightarrow> string" where
  "b64_encode al [] = []"
| "b64_encode al [a] = (let v = uint a * 65536 in [b64_char al (v div 262144), b64_char al (v div 4096)])"
| "b64_encode al [a, b] =
     (let v = uint a * 65536 + uint b * 256 in [b64_char al (v div 262144), b64_char al (v div 4096), b64_char al (v div 64)])"
| "b64_encode al (a # b # c # bs) =
     (let v = uint a * 65536 + uint b * 256 + uint c
      in [b64_char al (v div 262144), b64_char al (v div 4096), b64_char al (v div 64), b64_char al v] @ b64_encode al bs)"

definition b64_value :: "string \<Rightarrow> char \<Rightarrow> int option" where
  "b64_value al c = map_of (zip al (map int [0..<64])) c"

text \<open>Quanta of four digits make three bytes, the last one may have two or three digits, never one.\<close>

fun b64_quanta :: "int list \<Rightarrow> rawbytes option" where
  "b64_quanta [] = Some []"
| "b64_quanta [x] = None"
| "b64_quanta [x, y] = (let v = x * 262144 + y * 4096 in Some [word_of_int (v div 65536)])"
| "b64_quanta [x, y, z] =
     (let v = x * 262144 + y * 4096 + z * 64 in Some [word_of_int (v div 65536), word_of_int (v div 256)])"
| "b64_quanta (x # y # z # u # ds) =
     (let v = x * 262144 + y * 4096 + z * 64 + u in
      case b64_quanta ds of
        None \<Rightarrow> None
      | Some bs \<Rightarrow> Some (word_of_int (v div 65536) # word_of_int (v div 256) # word_of_int v # bs))"

text \<open>Line ends are skipped; any other byte outside the alphabet is an error.\<close>

definition b64_decode :: "string \<Rightarrow> string \<Rightarrow> rawbytes option" where
  "b64_decode al s =
     (case those (map (b64_value al) (filter (\<lambda>c. byte_of c \<noteq> 10 \<and> byte_of c \<noteq> 13) s)) of
        None \<Rightarrow> None | Some ds \<Rightarrow> b64_quanta ds)"

text \<open>An alphabet of 64 different characters, none of them a line end, reads back what it wrote.\<close>

definition b64_alphabet :: "string \<Rightarrow> bool" where
  "b64_alphabet al = (length al = 64 \<and> distinct al \<and> (\<forall>c \<in> set al. byte_of c \<noteq> 10 \<and> byte_of c \<noteq> 13))"

lemma b64_alphabets: "b64_alphabet b64_std" "b64_alphabet b64_url"
  by code_simp+

lemma b64_char_mem: "b64_alphabet al \<Longrightarrow> b64_char al v \<in> set al"
  by (simp add: b64_char_def b64_alphabet_def nat_less_iff)

lemma b64_value_char: "b64_alphabet al \<Longrightarrow> b64_value al (b64_char al v) = Some (v mod 64)"
proof -
  assume al: "b64_alphabet al"
  define k where "k = nat (v mod 64)"
  have k: "k < 64" "int k = v mod 64" by (simp_all add: k_def nat_less_iff)
  have "map_of (zip al (map int [0..<64])) (al ! k) = Some (map int [0..<64] ! k)"
    using al k(1) by (intro map_of_zip_nth) (simp_all add: b64_alphabet_def)
  with k show ?thesis by (simp add: b64_value_def b64_char_def k_def [symmetric])
qed

lemma b64_encode_mem: "b64_alphabet al \<Longrightarrow> set (b64_encode al bs) \<subseteq> set al"
  by (induction al bs rule: b64_encode.induct) (auto simp: Let_def b64_char_mem)

lemma b64_digits: "b64_alphabet al \<Longrightarrow> those (map (b64_value al) (b64_char al v # s)) =
    map_option (Cons (v mod 64)) (those (map (b64_value al) s))"
  by (simp add: b64_value_char)

lemma uint_byte: "0 \<le> uint (b :: 8 word)" "uint (b :: 8 word) < 256"
  using unsigned_less [of b] by simp_all

lemma byte_back: "(n :: int) mod 256 = uint b \<Longrightarrow> word_of_int n = (b :: 8 word)"
proof -
  assume a: "n mod 256 = uint b"
  have "take_bit 8 n = n mod 256" by (simp add: take_bit_eq_mod)
  with a show "word_of_int n = b" by (simp add: word_uint_eq_iff unsigned_of_int)
qed

lemma quantum:
  "0 \<le> v \<Longrightarrow> v < 16777216 \<Longrightarrow>
     (v :: int) div 262144 mod 64 * 262144 + v div 4096 mod 64 * 4096 + v div 64 mod 64 * 64 + v mod 64 = v"
proof -
  assume v: "0 \<le> v" "v < 16777216"
  have a: "v = 64 * (v div 64) + v mod 64" for v :: int by simp
  have d: "v div 64 div 64 = v div 4096" "v div 4096 div 64 = v div 262144" by (simp_all add: zdiv_zmult2_eq [symmetric])
  have "0 \<le> v div 262144" "v div 262144 \<le> 16777215 div 262144" using v zdiv_mono1 [of v 16777215 262144] by simp_all
  then have "v div 262144 mod 64 = v div 262144" by simp
  with a [of v] a [of "v div 64", unfolded d] a [of "v div 4096", unfolded d] show ?thesis by linarith
qed

lemma three_bytes:
  assumes "v = uint (a :: 8 word) * 65536 + uint (b :: 8 word) * 256 + uint (c :: 8 word)"
  shows "0 \<le> v" "v < 16777216" "word_of_int (v div 65536) = a" "word_of_int (v div 256) = b" "word_of_int v = c"
proof -
  note u = uint_byte [of a] uint_byte [of b] uint_byte [of c]
  show "0 \<le> v" "v < 16777216" using u assms by simp_all
  have "v div 65536 = uint a" by (rule int_div_pos_eq [where r = "uint b * 256 + uint c"]) (use u assms in simp_all)
  moreover have "v div 256 = uint a * 256 + uint b" by (rule int_div_pos_eq [where r = "uint c"]) (use u assms in simp_all)
  moreover have "v = (uint a * 256 + uint b) * 256 + uint c" using assms by simp
  moreover have "((uint a * 256 + uint b) * 256 + uint c) mod 256 = uint c" using u by (simp only: mod_mult_self3 mod_pos_pos_trivial)
  ultimately
  have "v div 65536 mod 256 = uint a" "v div 256 mod 256 = uint b" "v mod 256 = uint c" using u by simp_all
  then show "word_of_int (v div 65536) = a" "word_of_int (v div 256) = b" "word_of_int v = c" by (simp_all add: byte_back)
qed

lemma digits_read:
  assumes "b64_alphabet al"
  shows "those (map (b64_value al) [b64_char al x, b64_char al y]) = Some [x mod 64, y mod 64]"
    "those (map (b64_value al) [b64_char al x, b64_char al y, b64_char al z]) = Some [x mod 64, y mod 64, z mod 64]"
    "those (map (b64_value al) s) = Some ds \<Longrightarrow>
      those (map (b64_value al) ([b64_char al x, b64_char al y, b64_char al z, b64_char al u] @ s)) =
        Some (x mod 64 # y mod 64 # z mod 64 # u mod 64 # ds)"
  using b64_value_char [OF assms] by simp_all

lemma b64_quanta_encode:
  assumes "b64_alphabet al"
  shows "\<exists>ds. those (map (b64_value al) (b64_encode al bs)) = Some ds \<and> b64_quanta ds = Some bs"
  using assms
proof (induction al bs rule: b64_encode.induct)
  case (2 al a)
  define v where "v = uint a * 65536 + uint (0 :: 8 word) * 256 + uint (0 :: 8 word)"
  note t = three_bytes [OF v_def]
  have v2: "v = uint a * 65536" by (simp add: v_def)
  then have f: "v = (uint a * 16 * 64) * 64" by simp
  have "v div 64 = uint a * 16 * 64" unfolding f by (rule nonzero_mult_div_cancel_right) simp
  then have "v div 64 mod 64 = 0" "v mod 64 = 0" unfolding f by (simp_all only: mod_mult_self2_is_0)
  with quantum [OF t(1,2)] have q: "v div 262144 mod 64 * 262144 + v div 4096 mod 64 * 4096 = v" by linarith
  have e: "b64_encode al [a] = [b64_char al (v div 262144), b64_char al (v div 4096)]"
    by (simp only: b64_encode.simps Let_def v2)
  show ?case
    unfolding e digits_read(1) [OF 2] option.inject
    by (intro exI conjI, rule refl) (simp only: b64_quanta.simps Let_def, simp only: q t(3))
next
  case (3 al a b)
  define v where "v = uint a * 65536 + uint b * 256 + uint (0 :: 8 word)"
  note t = three_bytes [OF v_def]
  have v2: "v = uint a * 65536 + uint b * 256" by (simp add: v_def)
  then have f: "v = (uint a * 1024 + uint b * 4) * 64" by simp
  have "v mod 64 = 0" unfolding f by (simp only: mod_mult_self2_is_0)
  with quantum [OF t(1,2)] have q: "v div 262144 mod 64 * 262144 + v div 4096 mod 64 * 4096 + v div 64 mod 64 * 64 = v" by linarith
  have e: "b64_encode al [a, b] = [b64_char al (v div 262144), b64_char al (v div 4096), b64_char al (v div 64)]"
    by (simp only: b64_encode.simps Let_def v2)
  show ?case
    unfolding e digits_read(2) [OF 3] option.inject
    by (intro exI conjI, rule refl) (simp only: b64_quanta.simps Let_def, simp only: q t(3,4))
next
  case (4 al a b c bs)
  define v where "v = uint a * 65536 + uint b * 256 + uint c"
  note t = three_bytes [OF v_def]
  obtain ds where ds: "those (map (b64_value al) (b64_encode al bs)) = Some ds" "b64_quanta ds = Some bs"
    using 4 by blast
  have e: "b64_encode al (a # b # c # bs) =
      [b64_char al (v div 262144), b64_char al (v div 4096), b64_char al (v div 64), b64_char al v] @ b64_encode al bs"
    by (simp only: b64_encode.simps Let_def v_def)
  show ?case
    unfolding e digits_read(3) [OF 4(2) ds(1)] option.inject
    by (intro exI conjI, rule refl) (simp only: b64_quanta.simps Let_def, simp only: quantum [OF t(1,2)] t(3-5) ds(2) option.case)
qed simp

lemma b64_decode_encode: "b64_alphabet al \<Longrightarrow> b64_decode al (b64_encode al bs) = Some bs"
proof -
  assume al: "b64_alphabet al"
  have "filter (\<lambda>c. byte_of c \<noteq> 10 \<and> byte_of c \<noteq> 13) (b64_encode al bs) = b64_encode al bs"
    using b64_encode_mem [OF al, of bs] al by (auto simp: b64_alphabet_def filter_id_conv)
  moreover obtain ds where "those (map (b64_value al) (b64_encode al bs)) = Some ds" "b64_quanta ds = Some bs"
    using b64_quanta_encode [OF al] by blast
  ultimately show ?thesis by (simp add: b64_decode_def)
qed

text \<open>The letters of an encoding are none of the separators.\<close>

lemma b64_no_separator:
  "CHR ''$'' \<notin> set (b64_encode b64_std bs)" "CHR ''.'' \<notin> set (b64_encode b64_url bs)"
proof -
  have "CHR ''$'' \<notin> set b64_std" "CHR ''.'' \<notin> set b64_url" by code_simp+
  then show "CHR ''$'' \<notin> set (b64_encode b64_std bs)" "CHR ''.'' \<notin> set (b64_encode b64_url bs)"
    using b64_encode_mem [OF b64_alphabets(1)] b64_encode_mem [OF b64_alphabets(2)] by blast+
qed

lemma b64_encode_inj: "b64_alphabet al \<Longrightarrow> b64_encode al x = b64_encode al y \<longleftrightarrow> x = y"
  by (metis b64_decode_encode option.inject)

end
