(* ===== verification/Password.thy ===== *)
theory Password
  imports Encoding
begin

text \<open>
  Password credentials (\<^verbatim>\<open>internal/domain/identity/password.go\<close>): PBKDF2 over HMAC-SHA-256, the text a hash is
  stored as, and its verification. \<open>rnd\<close> is what \<^verbatim>\<open>rand.Read\<close> fills a slice of the given length
  with, or its failure.
\<close>

section \<open>Key derivation\<close>

text \<open>The inner loop: \<open>u\<close> is the last block of the chain, \<open>t\<close> the sum so far.\<close>

primrec pbkdf2_rounds :: "rawbytes \<Rightarrow> nat \<Rightarrow> rawbytes \<Rightarrow> rawbytes \<Rightarrow> rawbytes" where
  "pbkdf2_rounds password 0 u t = t"
| "pbkdf2_rounds password (Suc n) u t =
     (let u' = hmac_sha256 password u in pbkdf2_rounds password n u' (map2 (\<lambda>x y. x XOR y) t u'))"

definition pbkdf2_block :: "rawbytes \<Rightarrow> rawbytes \<Rightarrow> int \<Rightarrow> nat \<Rightarrow> rawbytes" where
  "pbkdf2_block password salt iterations block =
     (let u = hmac_sha256 password (salt @ bytes32 (word_of_nat block))
      in pbkdf2_rounds password (nat (iterations - 1)) u u)"

definition pbkdf2SHA256 :: "rawbytes \<Rightarrow> rawbytes \<Rightarrow> int \<Rightarrow> nat \<Rightarrow> rawbytes" where
  "pbkdf2SHA256 password salt iterations keyLen =
     (let blocks = (keyLen + 32 - 1) div 32
      in take keyLen (concat (map (pbkdf2_block password salt iterations) [1..<Suc blocks])))"

section \<open>Hashes\<close>

record password_hasher =
  ph_Iterations :: int
  ph_SaltBytes :: int
  ph_KeyBytes :: int

definition DefaultPasswordHasher :: password_hasher where
  "DefaultPasswordHasher = \<lparr>ph_Iterations = 120000, ph_SaltBytes = 16, ph_KeyBytes = 32\<rparr>"

definition passwordAlgoVersion :: int where
  "passwordAlgoVersion = 1"

text \<open>\<open>NegativeLength\<close> is the run-time panic of a negative slice length.\<close>

datatype password_error = InvalidPasswordHash | SaltUnavailable | NegativeLength

definition encode_hash :: "int \<Rightarrow> rawbytes \<Rightarrow> rawbytes \<Rightarrow> string" where
  "encode_hash iterations salt key =
     Join (CHR ''$'') [''pbkdf2-sha256'', decimal passwordAlgoVersion, decimal iterations,
       b64_encode b64_std salt, b64_encode b64_std key]"

definition HashPassword ::
  "password_hasher \<Rightarrow> string \<Rightarrow> (nat \<Rightarrow> rawbytes option) \<Rightarrow> password_error + string \<times> int" where
  "HashPassword h password rnd =
     (if password = [] then Inl InvalidPasswordHash
      else if ph_SaltBytes h < 0 then Inl NegativeLength
      else case rnd (nat (ph_SaltBytes h)) of
        None \<Rightarrow> Inl SaltUnavailable
      | Some salt \<Rightarrow>
          if ph_KeyBytes h < 0 then Inl NegativeLength
          else
            let key = pbkdf2SHA256 (string_bytes password) salt (ph_Iterations h) (nat (ph_KeyBytes h))
            in Inr (encode_hash (ph_Iterations h) salt key, passwordAlgoVersion))"

definition VerifyPassword :: "string \<Rightarrow> string \<Rightarrow> password_error + bool" where
  "VerifyPassword encoded password =
     (case Split (CHR ''$'') encoded of
        [p0, p1, p2, p3, p4] \<Rightarrow>
          if p0 \<noteq> ''pbkdf2-sha256'' then Inl InvalidPasswordHash
          else if p1 \<noteq> decimal passwordAlgoVersion then Inl InvalidPasswordHash
          else (case Atoi p2 of
            None \<Rightarrow> Inl InvalidPasswordHash
          | Some iterations \<Rightarrow>
              if iterations \<le> 0 then Inl InvalidPasswordHash
              else (case b64_decode b64_std p3 of
                None \<Rightarrow> Inl InvalidPasswordHash
              | Some salt \<Rightarrow>
                  (case b64_decode b64_std p4 of
                    None \<Rightarrow> Inl InvalidPasswordHash
                  | Some expected \<Rightarrow>
                      Inr (pbkdf2SHA256 (string_bytes password) salt iterations (length expected) = expected))))
      | _ \<Rightarrow> Inl InvalidPasswordHash)"

section \<open>The key is that of RFC 8018\<close>

text \<open>
  The specification: \<open>U_1\<close> is the keyed hash of the salt and the block number, \<open>U_{j+1}\<close> that of \<open>U_j\<close>; a
  block is the sum of the first \<open>c\<close> of them.
\<close>

primrec rfc_U :: "rawbytes \<Rightarrow> rawbytes \<Rightarrow> nat \<Rightarrow> nat \<Rightarrow> rawbytes" where
  "rfc_U p salt i 0 = hmac_sha256 p (salt @ bytes32 (word_of_nat i))"
| "rfc_U p salt i (Suc j) = hmac_sha256 p (rfc_U p salt i j)"

definition xor_bytes :: "rawbytes \<Rightarrow> rawbytes \<Rightarrow> rawbytes" where
  "xor_bytes = map2 (\<lambda>x y. x XOR y)"

definition rfc_F :: "rawbytes \<Rightarrow> rawbytes \<Rightarrow> nat \<Rightarrow> nat \<Rightarrow> rawbytes" where
  "rfc_F p salt c i = fold (\<lambda>j t. xor_bytes t (rfc_U p salt i j)) [0..<c] (replicate 32 0)"

text \<open>The derived key is byte by byte that of the block it lies in.\<close>

definition rfc_key :: "rawbytes \<Rightarrow> rawbytes \<Rightarrow> nat \<Rightarrow> nat \<Rightarrow> rawbytes" where
  "rfc_key p salt c dkLen = map (\<lambda>k. rfc_F p salt c (k div 32 + 1) ! (k mod 32)) [0..<dkLen]"

lemma length_rfc_U [simp]: "length (rfc_U p salt i j) = 32"
  by (cases j) simp_all

lemma xor_zeros: "length u = n \<Longrightarrow> xor_bytes (replicate n 0) u = u"
  by (induction u arbitrary: n) (auto simp: xor_bytes_def)

lemma rounds_chain:
  "pbkdf2_rounds p n (rfc_U p salt i k) t = fold (\<lambda>j t. xor_bytes t (rfc_U p salt i j)) [Suc k..<Suc (k + n)] t"
proof (induction n arbitrary: k t)
  case (Suc n)
  have "[Suc k..<Suc (k + Suc n)] = Suc k # [Suc (Suc k)..<Suc (Suc k + n)]" by (simp add: upt_conv_Cons)
  with Suc.IH [of "Suc k"] show ?case by (simp add: Let_def xor_bytes_def)
qed simp

lemma block_is_F: "0 < c \<Longrightarrow> pbkdf2_block p salt c i = rfc_F p salt (nat c) i"
proof -
  assume c: "0 < c"
  then have "[0..<nat c] = 0 # [Suc 0..<Suc (0 + nat (c - 1))]" by (simp add: upt_conv_Cons nat_diff_distrib)
  moreover have "pbkdf2_block p salt c i = pbkdf2_rounds p (nat (c - 1)) (rfc_U p salt i 0) (rfc_U p salt i 0)"
    by (simp add: pbkdf2_block_def Let_def)
  ultimately show ?thesis unfolding rounds_chain by (simp add: rfc_F_def xor_zeros)
qed

lemma length_rfc_F [simp]: "length (rfc_F p salt c i) = 32"
proof -
  have "length (fold (\<lambda>j t. xor_bytes t (rfc_U p salt i j)) js t) = length t" if "length t = 32" for js t
    using that by (induction js arbitrary: t) (simp_all add: xor_bytes_def)
  then show ?thesis by (simp add: rfc_F_def)
qed

lemma nth_concat_blocks:
  assumes "\<And>i. length (f i) = 32" "k < 32 * n"
  shows "concat (map f [1..<Suc n]) ! k = f (k div 32 + 1) ! (k mod 32)"
  using assms(2)
proof (induction n arbitrary: k)
  case (Suc n)
  define xs where "xs = concat (map f [1..<Suc n])"
  have l: "length xs = 32 * n" unfolding xs_def by (induction n) (simp_all add: assms(1))
  have e: "concat (map f [1..<Suc (Suc n)]) = xs @ f (Suc n)" by (simp add: xs_def)
  show ?case
  proof (cases "k < 32 * n")
    case True
    with Suc.IH [folded xs_def] l show ?thesis unfolding e by (simp add: nth_append)
  next
    case False
    then obtain d where d: "k = 32 * n + d" by (metis le_iff_add linorder_not_less)
    with Suc.prems have "d < 32" by simp
    with d have "k div 32 = n" "k mod 32 = d" by simp_all
    with d l show ?thesis unfolding e by (simp add: nth_append)
  qed
qed simp

lemma length_blocks: "(\<And>i. length (f i) = 32) \<Longrightarrow> length (concat (map f [1..<Suc n])) = 32 * n"
  by (induction n) simp_all

lemma key_derivation:
  assumes "0 < iterations"
  shows "pbkdf2SHA256 password salt iterations keyLen = rfc_key password salt (nat iterations) keyLen"
proof (rule nth_equalityI)
  define n where "n = (keyLen + 32 - 1) div 32"
  define f where "f = pbkdf2_block password salt iterations"
  have f: "f i = rfc_F password salt (nat iterations) i" for i by (simp add: f_def block_is_F [OF assms])
  then have l: "\<And>i. length (f i) = 32" by simp
  have n: "keyLen \<le> 32 * n" by (simp add: n_def)
  have e: "pbkdf2SHA256 password salt iterations keyLen = take keyLen (concat (map f [1..<Suc n]))"
    by (simp only: pbkdf2SHA256_def Let_def n_def f_def)
  show "length (pbkdf2SHA256 password salt iterations keyLen) = length (rfc_key password salt (nat iterations) keyLen)"
    unfolding e length_take length_blocks [OF l] using n by (simp add: rfc_key_def)
  fix k assume "k < length (pbkdf2SHA256 password salt iterations keyLen)"
  then have k: "k < keyLen" "k < 32 * n" unfolding e using n by simp_all
  show "pbkdf2SHA256 password salt iterations keyLen ! k = rfc_key password salt (nat iterations) keyLen ! k"
    unfolding e nth_take [OF k(1)] nth_concat_blocks [where f = f, OF l k(2)] f using k(1) by (simp add: rfc_key_def)
qed

lemma verify_hashed:
  assumes "HashPassword h password rnd = Inr (encoded, version)" "0 < ph_Iterations h" "ph_Iterations h < 2 ^ 63"
  shows "VerifyPassword encoded password = Inr True \<and>
    (\<exists>salt. rnd (nat (ph_SaltBytes h)) = Some salt \<and>
      (\<forall>other. VerifyPassword encoded other =
        Inr (rfc_key (string_bytes other) salt (nat (ph_Iterations h)) (nat (ph_KeyBytes h)) =
             rfc_key (string_bytes password) salt (nat (ph_Iterations h)) (nat (ph_KeyBytes h)))))"
proof -
  from assms(1) obtain salt where salt: "rnd (nat (ph_SaltBytes h)) = Some salt"
    and e: "encoded = encode_hash (ph_Iterations h) salt
      (pbkdf2SHA256 (string_bytes password) salt (ph_Iterations h) (nat (ph_KeyBytes h)))"
    by (auto simp: HashPassword_def Let_def split: if_splits option.splits)
  define key where "key = pbkdf2SHA256 (string_bytes password) salt (ph_Iterations h) (nat (ph_KeyBytes h))"
  have k: "key = rfc_key (string_bytes password) salt (nat (ph_Iterations h)) (nat (ph_KeyBytes h))"
    unfolding key_def by (rule key_derivation [OF assms(2)])
  have d: "CHR ''$'' \<notin> set (decimal n)" if "0 \<le> n" for n
    using that digits_digit [of "CHR ''$''"] by (auto simp: decimal_def is_digit_def)
  have "Split (CHR ''$'') encoded = [''pbkdf2-sha256'', decimal passwordAlgoVersion, decimal (ph_Iterations h),
      b64_encode b64_std salt, b64_encode b64_std key]"
    unfolding e encode_hash_def key_def [symmetric]
    by (rule Split_Join) (use d assms(2) b64_no_separator(1) in \<open>auto simp: passwordAlgoVersion_def\<close>)
  moreover have "Atoi (decimal (ph_Iterations h)) = Some (ph_Iterations h)" using assms(2,3) by (intro Atoi_decimal) simp_all
  ultimately have v: "VerifyPassword encoded other =
      Inr (pbkdf2SHA256 (string_bytes other) salt (ph_Iterations h) (length key) = key)" for other
    using assms(2) by (simp add: VerifyPassword_def b64_decode_encode [OF b64_alphabets(1)])
  have "length key = nat (ph_KeyBytes h)" by (simp add: k rfc_key_def)
  with v k salt show ?thesis by (simp add: key_derivation [OF assms(2)])
qed

section \<open>Properties\<close>

text \<open>C9: the key derivation computes the keys of RFC 8018: for a positive work factor every byte of the derived key is the byte
  of the specification, whatever the length of the key, though the code computes whole blocks in
  place and cuts off the rest.\<close>

theorem key_derivation_follows_rfc8018:
  assumes "0 < iterations"
  shows "pbkdf2SHA256 password salt iterations keyLen = rfc_key password salt (nat iterations) keyLen"
  by (rule key_derivation [OF assms])

theorem key_derivation_follows_rfc8018_witness:
  "pbkdf2SHA256 (string_bytes ''p'') [1, 2] 3 40 = rfc_key (string_bytes ''p'') [1, 2] 3 40"
  using key_derivation_follows_rfc8018 [of 3 "string_bytes ''p''" "[1, 2]" 40] by simp

text \<open>A work factor that is not positive makes a text that no verification reads.\<close>

lemma verify_unreadable:
  assumes "HashPassword h password rnd = Inr (encoded, version)" "- (2 ^ 63) \<le> ph_Iterations h" "ph_Iterations h \<le> 0"
  shows "VerifyPassword encoded other = Inl InvalidPasswordHash"
proof -
  from assms(1) obtain salt key where e: "encoded = encode_hash (ph_Iterations h) salt key"
    by (auto simp: HashPassword_def Let_def split: if_splits option.splits)
  have d: "CHR ''$'' \<notin> set (decimal n)" for n
    using digits_digit [of "CHR ''$''"] by (auto simp: decimal_def is_digit_def)
  have "Split (CHR ''$'') encoded = [''pbkdf2-sha256'', decimal passwordAlgoVersion, decimal (ph_Iterations h),
      b64_encode b64_std salt, b64_encode b64_std key]"
    unfolding e encode_hash_def by (rule Split_Join) (use d b64_no_separator(1) in auto)
  moreover have "Atoi (decimal (ph_Iterations h)) = Some (ph_Iterations h)" using assms(2,3) by (intro Atoi_decimal) simp_all
  ultimately show ?thesis using assms(3) by (simp add: VerifyPassword_def)
qed

text \<open>C8: a stored password is verified by the text it was stored as: when the work factor, a 64-bit integer, is positive, what
  hashing returns is read back whatever the salt and the length of the key were, the password it was made of is accepted,
  and any other password is accepted exactly when it derives the same key; when the work factor is not positive, hashing
  succeeds all the same and its text is refused for every password.\<close>

theorem password_verifies_against_its_hash:
  assumes "HashPassword h password rnd = Inr (encoded, version)" "- (2 ^ 63) \<le> ph_Iterations h" "ph_Iterations h < 2 ^ 63"
  shows "if 0 < ph_Iterations h
    then VerifyPassword encoded password = Inr True \<and>
      (\<exists>salt. rnd (nat (ph_SaltBytes h)) = Some salt \<and>
        (\<forall>other. VerifyPassword encoded other =
          Inr (rfc_key (string_bytes other) salt (nat (ph_Iterations h)) (nat (ph_KeyBytes h)) =
               rfc_key (string_bytes password) salt (nat (ph_Iterations h)) (nat (ph_KeyBytes h)))))
    else \<forall>other. VerifyPassword encoded other = Inl InvalidPasswordHash"
  using verify_hashed [OF assms(1) _ assms(3)] verify_unreadable [OF assms(1,2)] by simp

theorem password_verifies_against_its_hash_witness:
  "\<exists>encoded bad. HashPassword DefaultPasswordHasher ''secret'' (\<lambda>n. Some (replicate n 7)) = Inr (encoded, 1) \<and>
     VerifyPassword encoded ''secret'' = Inr True \<and>
     HashPassword (DefaultPasswordHasher\<lparr>ph_Iterations := 0\<rparr>) ''secret'' (\<lambda>n. Some (replicate n 7)) = Inr (bad, 1) \<and>
     VerifyPassword bad ''secret'' = Inl InvalidPasswordHash"
proof -
  have h: "\<exists>encoded. HashPassword (DefaultPasswordHasher\<lparr>ph_Iterations := n\<rparr>) ''secret'' (\<lambda>n. Some (replicate n 7)) = Inr (encoded, 1)" for n
    by (simp add: HashPassword_def DefaultPasswordHasher_def Let_def passwordAlgoVersion_def)
  have d: "DefaultPasswordHasher\<lparr>ph_Iterations := 120000\<rparr> = DefaultPasswordHasher" "ph_Iterations DefaultPasswordHasher = 120000"
    by (simp_all add: DefaultPasswordHasher_def)
  from h [of 120000] obtain encoded where e: "HashPassword DefaultPasswordHasher ''secret'' (\<lambda>n. Some (replicate n 7)) = Inr (encoded, 1)"
    unfolding d by blast
  from h [of 0] obtain bad where b: "HashPassword (DefaultPasswordHasher\<lparr>ph_Iterations := 0\<rparr>) ''secret'' (\<lambda>n. Some (replicate n 7)) = Inr (bad, 1)" by blast
  from password_verifies_against_its_hash [OF e] d(2) have "VerifyPassword encoded ''secret'' = Inr True" by simp
  moreover from password_verifies_against_its_hash [OF b] have "VerifyPassword bad ''secret'' = Inl InvalidPasswordHash" by simp
  ultimately show ?thesis using e b by blast
qed

end
