(* ===== verification/Json.thy ===== *)
theory Json
  imports Encoding
begin

text \<open>
  The part of \<^verbatim>\<open>encoding/json\<close> the program uses for its tokens and job payloads: writing and reading a
  struct whose fields are strings and integers. Reading takes any text: white space, escapes and
  surrogate pairs, unknown and repeated fields, field names in any case, values of other types. A
  nesting deeper than 10000 is refused, as the scanner of the library does.
\<close>

section \<open>UTF-8\<close>

text \<open>The length of the well-formed sequence of two to four bytes a text starts with, 0 if there is none.\<close>

definition continuation :: "nat \<Rightarrow> bool" where
  "continuation b = (128 \<le> b \<and> b \<le> 191)"

fun wide_len :: "nat list \<Rightarrow> nat" where
  "wide_len (a # b # r) =
     (if 194 \<le> a \<and> a \<le> 223 then (if continuation b then 2 else 0)
      else if 224 \<le> a \<and> a \<le> 239 then
        (case r of
           c # _ \<Rightarrow> if continuation b \<and> continuation c \<and> (a = 224 \<longrightarrow> 160 \<le> b) \<and> (a = 237 \<longrightarrow> b \<le> 159) then 3 else 0
         | [] \<Rightarrow> 0)
      else if 240 \<le> a \<and> a \<le> 244 then
        (case r of
           c # d # _ \<Rightarrow> if continuation b \<and> continuation c \<and> continuation d \<and> (a = 240 \<longrightarrow> 144 \<le> b) \<and> (a = 244 \<longrightarrow> b \<le> 143)
             then 4 else 0
         | _ \<Rightarrow> 0)
      else 0)"
| "wide_len _ = 0"

definition rune_len :: "string \<Rightarrow> nat" where
  "rune_len s = wide_len (map byte_of (take 4 s))"

definition text_of :: "nat list \<Rightarrow> string" where
  "text_of bs = map char_of bs"

text \<open>U+FFFD, and the bytes of a code point.\<close>

definition replacement :: string where
  "replacement = text_of [239, 191, 189]"

definition utf8_encode :: "nat \<Rightarrow> string" where
  "utf8_encode r = text_of
     (if r < 128 then [r]
      else if r < 2048 then [192 + r div 64, 128 + r mod 64]
      else if r < 65536 then [224 + r div 4096, 128 + r div 64 mod 64, 128 + r mod 64]
      else [240 + r div 262144, 128 + r div 4096 mod 64, 128 + r div 64 mod 64, 128 + r mod 64])"

section \<open>Writing\<close>

definition u_escape :: "nat \<Rightarrow> string" where
  "u_escape b = [CHR 0x5C, CHR ''u'', CHR ''0'', CHR ''0'', hex_digit (b div 16), hex_digit (b mod 16)]"

text \<open>A byte below 128, with the characters that are special in HTML escaped.\<close>

definition escape_ascii :: "char \<Rightarrow> string" where
  "escape_ascii c =
     (if c = CHR 0x22 \<or> c = CHR 0x5C then [CHR 0x5C, c]
      else if c = CHR 0x08 then [CHR 0x5C, CHR ''b'']
      else if c = CHR 0x0C then [CHR 0x5C, CHR ''f'']
      else if c = CHR 0x0A then [CHR 0x5C, CHR ''n'']
      else if c = CHR 0x0D then [CHR 0x5C, CHR ''r'']
      else if c = CHR 0x09 then [CHR 0x5C, CHR ''t'']
      else if byte_of c < 32 \<or> c \<in> {CHR ''<'', CHR ''>'', CHR ''&''} then u_escape (byte_of c)
      else [c])"

function escape :: "string \<Rightarrow> string" where
  "escape s =
     (case s of
        [] \<Rightarrow> []
      | c # r \<Rightarrow>
          if byte_of c < 128 then escape_ascii c @ escape r
          else if rune_len s = 0 then CHR 0x5C # ''ufffd'' @ escape r
          else if take 3 s = text_of [226, 128, 168] then CHR 0x5C # ''u2028'' @ escape (drop 3 s)
          else if take 3 s = text_of [226, 128, 169] then CHR 0x5C # ''u2029'' @ escape (drop 3 s)
          else take (rune_len s) s @ escape (drop (rune_len s) s))"
  by pat_completeness auto
termination by (relation "measure length") auto

declare escape.simps [simp del]

definition quoted :: "string \<Rightarrow> string" where
  "quoted s = CHR 0x22 # escape s @ [CHR 0x22]"

datatype field_value = FString string | FInt int

definition field_text :: "string \<times> field_value \<Rightarrow> string" where
  "field_text f = quoted (fst f) @ CHR '':'' # (case snd f of FString s \<Rightarrow> quoted s | FInt n \<Rightarrow> decimal n)"

definition marshal :: "(string \<times> field_value) list \<Rightarrow> string" where
  "marshal fs = CHR ''{'' # Join (CHR '','') (map field_text fs) @ ''}''"

section \<open>Reading strings\<close>

definition hex_value :: "char \<Rightarrow> nat option" where
  "hex_value c =
     (let b = byte_of c in
      if 48 \<le> b \<and> b \<le> 57 then Some (b - 48)
      else if 97 \<le> b \<and> b \<le> 102 then Some (b - 87)
      else if 65 \<le> b \<and> b \<le> 70 then Some (b - 55)
      else None)"

text \<open>\<^verbatim>\<open>\uXXXX\<close> at the start of a text.\<close>

definition getu4 :: "string \<Rightarrow> nat option" where
  "getu4 s =
     (case s of
        p # u # a # b # c # d # _ \<Rightarrow>
          if p \<noteq> CHR 0x5C \<or> u \<noteq> CHR ''u'' then None
          else (case (hex_value a, hex_value b, hex_value c, hex_value d) of
            (Some w, Some x, Some y, Some z) \<Rightarrow> Some (w * 4096 + x * 256 + y * 16 + z) | _ \<Rightarrow> None)
      | _ \<Rightarrow> None)"

text \<open>The text and the length of a \<^verbatim>\<open>\u\<close> escape that stands for \<open>r\<close>, where \<open>s\<close> follows it.\<close>

definition read_u :: "nat \<Rightarrow> string \<Rightarrow> string \<times> nat" where
  "read_u r s =
     (if r < 55296 \<or> 57344 \<le> r then (utf8_encode r, 6)
      else case getu4 s of
        Some r2 \<Rightarrow>
          if r < 56320 \<and> 56320 \<le> r2 \<and> r2 < 57344
          then (utf8_encode ((r - 55296) * 1024 + (r2 - 56320) + 65536), 12)
          else (replacement, 6)
      | None \<Rightarrow> (replacement, 6))"

definition short_escapes :: "(char \<times> char) list" where
  "short_escapes = [(CHR 0x22, CHR 0x22), (CHR 0x5C, CHR 0x5C), (CHR ''/'', CHR ''/''), (CHR ''b'', CHR 0x08),
     (CHR ''f'', CHR 0x0C), (CHR ''n'', CHR 0x0A), (CHR ''r'', CHR 0x0D), (CHR ''t'', CHR 0x09)]"

text \<open>What the text starts with and how many bytes that takes, \<open>None\<close> for a malformed piece.\<close>

definition read_piece :: "string \<Rightarrow> (string \<times> nat) option" where
  "read_piece s =
     (case s of
        [] \<Rightarrow> None
      | c # r \<Rightarrow>
          if c = CHR 0x5C then
            (case r of
               [] \<Rightarrow> None
             | e # _ \<Rightarrow>
                 if e = CHR ''u'' then (case getu4 s of None \<Rightarrow> None | Some u \<Rightarrow> Some (read_u u (drop 6 s)))
                 else (case map_of short_escapes e of None \<Rightarrow> None | Some x \<Rightarrow> Some ([x], 2)))
          else if byte_of c < 32 then None
          else if byte_of c < 128 then Some ([c], 1)
          else if rune_len s = 0 then Some (replacement, 1)
          else Some (take (rune_len s) s, rune_len s))"

text \<open>A string up to its closing quote, and what follows it.\<close>

function read_string :: "string \<Rightarrow> (string \<times> string) option" where
  "read_string s =
     (case s of
        [] \<Rightarrow> None
      | c # r \<Rightarrow>
          if c = CHR 0x22 then Some ([], r)
          else (case read_piece s of
            None \<Rightarrow> None
          | Some (t, n) \<Rightarrow>
              (case read_string (drop (max 1 n) s) of None \<Rightarrow> None | Some (u, rest) \<Rightarrow> Some (t @ u, rest))))"
  by pat_completeness auto
termination by (relation "measure length") auto

declare read_string.simps [simp del]

section \<open>Reading values\<close>

datatype json =
  JNull
| JBool bool
| JNumber string
| JString string
| JArray "json list"
| JObject "(string \<times> json) list"

definition is_space :: "char \<Rightarrow> bool" where
  "is_space c = (c \<in> {CHR '' '', CHR 0x09, CHR 0x0A, CHR 0x0D})"

definition skip_space :: "string \<Rightarrow> string" where
  "skip_space s = dropWhile is_space s"

text \<open>The integer part, the fraction and the exponent of a number at the start of a text.\<close>

definition integer_part :: "string \<Rightarrow> (string \<times> string) option" where
  "integer_part s =
     (let (sign, r) = (case s of c # r \<Rightarrow> if c = CHR ''-'' then ([c], r) else ([], s) | [] \<Rightarrow> ([], s)) in
      case r of
        [] \<Rightarrow> None
      | c # q \<Rightarrow>
          if c = CHR ''0'' then Some (sign @ [c], q)
          else if is_digit c then Some (sign @ takeWhile is_digit r, dropWhile is_digit r)
          else None)"

definition some_digits :: "string \<Rightarrow> string \<Rightarrow> (string \<times> string) option" where
  "some_digits mark r = (if takeWhile is_digit r = [] then None else Some (mark @ takeWhile is_digit r, dropWhile is_digit r))"

definition fraction_part :: "string \<Rightarrow> (string \<times> string) option" where
  "fraction_part s = (case s of c # r \<Rightarrow> if c = CHR ''.'' then some_digits [c] r else Some ([], s) | [] \<Rightarrow> Some ([], s))"

definition exponent_part :: "string \<Rightarrow> (string \<times> string) option" where
  "exponent_part s =
     (case s of
        c # r \<Rightarrow>
          if c = CHR ''e'' \<or> c = CHR ''E'' then
            (case r of
               d # q \<Rightarrow> if d = CHR ''+'' \<or> d = CHR ''-'' then some_digits [c, d] q else some_digits [c] r
             | [] \<Rightarrow> None)
          else Some ([], s)
      | [] \<Rightarrow> Some ([], s))"

definition read_number :: "string \<Rightarrow> (string \<times> string) option" where
  "read_number s =
     (case integer_part s of
        None \<Rightarrow> None
      | Some (i, r) \<Rightarrow>
          (case fraction_part r of
             None \<Rightarrow> None
           | Some (f, q) \<Rightarrow> (case exponent_part q of None \<Rightarrow> None | Some (e, t) \<Rightarrow> Some (i @ f @ e, t))))"

definition maxNestingDepth :: int where
  "maxNestingDepth = 10000"

text \<open>
  A value, the elements of an array after its bracket or a comma, and the fields of an object. Every call
  takes one unit of the fuel; a text of \<open>n\<close> bytes needs at most \<open>2 * n + 2\<close>, since every second call reads a byte.
\<close>

fun read_value :: "nat \<Rightarrow> int \<Rightarrow> string \<Rightarrow> (json \<times> string) option"
  and read_items :: "nat \<Rightarrow> int \<Rightarrow> string \<Rightarrow> (json list \<times> string) option"
  and read_fields :: "nat \<Rightarrow> int \<Rightarrow> string \<Rightarrow> ((string \<times> json) list \<times> string) option"
where
  "read_value 0 d s = None"
| "read_value (Suc n) d s =
     (case skip_space s of
        [] \<Rightarrow> None
      | c # r \<Rightarrow>
          if c = CHR 0x22 then (case read_string r of None \<Rightarrow> None | Some (t, q) \<Rightarrow> Some (JString t, q))
          else if c = CHR ''{'' then
            if maxNestingDepth < d + 1 then None
            else if take 1 (skip_space r) = ''}'' then Some (JObject [], drop 1 (skip_space r))
            else (case read_fields n (d + 1) r of None \<Rightarrow> None | Some (fs, q) \<Rightarrow> Some (JObject fs, q))
          else if c = CHR ''['' then
            if maxNestingDepth < d + 1 then None
            else if take 1 (skip_space r) = '']'' then Some (JArray [], drop 1 (skip_space r))
            else (case read_items n (d + 1) r of None \<Rightarrow> None | Some (vs, q) \<Rightarrow> Some (JArray vs, q))
          else if take 4 (c # r) = ''true'' then Some (JBool True, drop 4 (c # r))
          else if take 5 (c # r) = ''false'' then Some (JBool False, drop 5 (c # r))
          else if take 4 (c # r) = ''null'' then Some (JNull, drop 4 (c # r))
          else (case read_number (c # r) of None \<Rightarrow> None | Some (t, q) \<Rightarrow> Some (JNumber t, q)))"
| "read_items 0 d s = None"
| "read_items (Suc n) d s =
     (case read_value n d s of
        None \<Rightarrow> None
      | Some (v, q) \<Rightarrow>
          (case skip_space q of
             [] \<Rightarrow> None
           | c # r \<Rightarrow>
               if c = CHR '']'' then Some ([v], r)
               else if c = CHR '','' then
                 (case read_items n d r of None \<Rightarrow> None | Some (vs, t) \<Rightarrow> Some (v # vs, t))
               else None))"
| "read_fields 0 d s = None"
| "read_fields (Suc n) d s =
     (case skip_space s of
        [] \<Rightarrow> None
      | c # r \<Rightarrow>
          if c \<noteq> CHR 0x22 then None
          else (case read_string r of
            None \<Rightarrow> None
          | Some (k, q) \<Rightarrow>
              (case skip_space q of
                 [] \<Rightarrow> None
               | c # r \<Rightarrow>
                   if c \<noteq> CHR '':'' then None
                   else (case read_value n d r of
                     None \<Rightarrow> None
                   | Some (v, q) \<Rightarrow>
                       (case skip_space q of
                          [] \<Rightarrow> None
                        | c # r \<Rightarrow>
                            if c = CHR ''}'' then Some ([(k, v)], r)
                            else if c = CHR '','' then
                              (case read_fields n d r of None \<Rightarrow> None | Some (fs, t) \<Rightarrow> Some ((k, v) # fs, t))
                            else None)))))"

definition parse_json :: "string \<Rightarrow> json option" where
  "parse_json s =
     (case read_value (2 * length s + 2) 0 s of
        None \<Rightarrow> None
      | Some (v, r) \<Rightarrow> if skip_space r = [] then Some v else None)"

section \<open>Filling a struct\<close>

text \<open>
  Names are compared after folding: the two letters outside ASCII that fold to an ASCII letter are
  the long s and the Kelvin sign.
\<close>

function fold_name :: "string \<Rightarrow> string" where
  "fold_name s =
     (case s of
        [] \<Rightarrow> []
      | c # r \<Rightarrow>
          if take 2 s = text_of [197, 191] then CHR ''S'' # fold_name (drop 2 s)
          else if take 3 s = text_of [226, 132, 170] then CHR ''K'' # fold_name (drop 3 s)
          else (if 97 \<le> byte_of c \<and> byte_of c \<le> 122 then char_of (byte_of c - 32) else c) # fold_name r)"
  by pat_completeness auto
termination by (relation "measure length") auto

declare fold_name.simps [simp del]

text \<open>What a value does to a field: \<^verbatim>\<open>null\<close> leaves it, a value of another type is an error.\<close>

definition store_value :: "json \<Rightarrow> field_value \<Rightarrow> field_value option" where
  "store_value v f =
     (case v of
        JNull \<Rightarrow> Some f
      | JString t \<Rightarrow> (case f of FString _ \<Rightarrow> Some (FString t) | FInt _ \<Rightarrow> None)
      | JNumber t \<Rightarrow> (case f of FInt _ \<Rightarrow> map_option FInt (Atoi t) | FString _ \<Rightarrow> None)
      | _ \<Rightarrow> None)"

fun store_field :: "string \<times> json \<Rightarrow> (string \<times> field_value) list \<Rightarrow> (string \<times> field_value) list option" where
  "store_field kv [] = Some []"
| "store_field kv ((name, f) # fs) =
     (if fold_name name = fold_name (fst kv)
      then (case store_value (snd kv) f of None \<Rightarrow> None | Some g \<Rightarrow> Some ((name, g) # fs))
      else (case store_field kv fs of None \<Rightarrow> None | Some gs \<Rightarrow> Some ((name, f) # gs)))"

fun store_fields :: "(string \<times> json) list \<Rightarrow> (string \<times> field_value) list \<Rightarrow> (string \<times> field_value) list option" where
  "store_fields [] fs = Some fs"
| "store_fields (kv # kvs) fs = (case store_field kv fs of None \<Rightarrow> None | Some gs \<Rightarrow> store_fields kvs gs)"

definition unmarshal :: "(string \<times> field_value) list \<Rightarrow> string \<Rightarrow> (string \<times> field_value) list option" where
  "unmarshal fs s =
     (case parse_json s of
        None \<Rightarrow> None
      | Some (JObject kvs) \<Rightarrow> store_fields kvs fs
      | Some JNull \<Rightarrow> Some fs
      | Some _ \<Rightarrow> None)"

end
