(* ===== verification/JsonRoundtrip.thy ===== *)
theory JsonRoundtrip
  imports Json
begin

text \<open>
  What is written as a JSON object is read back: every string as it was, with the bytes that are not
  UTF-8 replaced by U+FFFD (\<open>scrub\<close>), every integer that fits 64 bits as it was.
\<close>

section \<open>Strings\<close>

function scrub :: "string \<Rightarrow> string" where
  "scrub s =
     (case s of
        [] \<Rightarrow> []
      | c # r \<Rightarrow>
          if byte_of c < 128 then c # scrub r
          else if rune_len s = 0 then replacement @ scrub r
          else take (rune_len s) s @ scrub (drop (rune_len s) s))"
  by pat_completeness auto
termination by (relation "measure length") auto

declare scrub.simps [simp del]

lemma wide_len_less: "wide_len xs = n \<Longrightarrow> n \<le> length xs \<and> n \<le> 4 \<and> (0 < n \<longrightarrow> 2 \<le> n)"
  by (induction xs rule: wide_len.induct) (auto split: if_splits list.splits)

lemma wide_len_prefix: "wide_len xs = n \<Longrightarrow> 0 < n \<Longrightarrow> wide_len (take n xs @ ys) = n"
  by (induction xs rule: wide_len.induct) (auto split: if_splits list.splits)

lemma wide_len_take4: "wide_len (take 4 xs) = wide_len xs"
  by (cases xs rule: wide_len.cases) (simp_all add: numeral_eq_Suc take_Cons' split: list.splits)

lemma rune_len_alt: "rune_len s = wide_len (map byte_of s)"
  by (simp add: rune_len_def wide_len_take4 take_map [symmetric])

lemma rune_len_less: "rune_len s \<le> length s" "0 < rune_len s \<Longrightarrow> 2 \<le> rune_len s"
  using wide_len_less [of "map byte_of s" "rune_len s"] by (auto simp: rune_len_alt)

lemma rune_len_prefix: "0 < rune_len s \<Longrightarrow> rune_len (take (rune_len s) s @ q) = rune_len s"
  using wide_len_prefix [of "map byte_of s" "rune_len s" "map byte_of q"] by (simp add: rune_len_alt take_map)

lemma hex_value_digit: "n < 16 \<Longrightarrow> hex_value (hex_digit n) = Some n"
  by (simp add: hex_value_def byte_of_hex_digit Let_def)

lemma read_u_escape: "b < 128 \<Longrightarrow> read_piece (u_escape b @ q) = Some ([char_of b], 6)"
proof -
  assume b: "b < 128"
  have z: "hex_value CHR ''0'' = Some 0" by code_simp
  have "getu4 (u_escape b @ q) = Some b"
    using b hex_value_digit [of "b div 16"] hex_value_digit [of "b mod 16"]
    by (simp add: u_escape_def getu4_def z)
  with b show ?thesis by (simp add: u_escape_def read_piece_def read_u_def utf8_encode_def text_of_def)
qed

lemma short_escape:
  "c \<in> set [CHR 0x22, CHR 0x5C, CHR 0x08, CHR 0x0C, CHR 0x0A, CHR 0x0D, CHR 0x09] \<Longrightarrow>
     \<exists>e. escape_ascii c = [CHR 0x5C, e] \<and> e \<noteq> CHR ''u'' \<and> map_of short_escapes e = Some c"
proof -
  have "list_all (\<lambda>c. case escape_ascii c of
        [p, e] \<Rightarrow> p = CHR 0x5C \<and> e \<noteq> CHR ''u'' \<and> map_of short_escapes e = Some c | _ \<Rightarrow> False)
      [CHR 0x22, CHR 0x5C, CHR 0x08, CHR 0x0C, CHR 0x0A, CHR 0x0D, CHR 0x09]" by code_simp
  then show "c \<in> set [CHR 0x22, CHR 0x5C, CHR 0x08, CHR 0x0C, CHR 0x0A, CHR 0x0D, CHR 0x09] \<Longrightarrow> ?thesis"
    unfolding list_all_iff by (fastforce split: list.splits)
qed

lemma read_ascii:
  assumes "byte_of c < 128"
  shows "read_piece (escape_ascii c @ q) = Some ([c], length (escape_ascii c))"
proof (cases "c \<in> set [CHR 0x22, CHR 0x5C, CHR 0x08, CHR 0x0C, CHR 0x0A, CHR 0x0D, CHR 0x09]")
  case True
  then show ?thesis using short_escape [of c] by (auto simp: read_piece_def)
next
  case False
  then have n: "c \<noteq> CHR 0x22" "c \<noteq> CHR 0x5C" "c \<noteq> CHR 0x08" "c \<noteq> CHR 0x0C" "c \<noteq> CHR 0x0A" "c \<noteq> CHR 0x0D" "c \<noteq> CHR 0x09"
    by simp_all
  show ?thesis
  proof (cases "byte_of c < 32 \<or> c \<in> {CHR ''<'', CHR ''>'', CHR ''&''}")
    case True
    with n have "escape_ascii c = u_escape (byte_of c)" by (simp only: escape_ascii_def if_False simp_thms if_True)
    moreover have "length (u_escape (byte_of c)) = 6" by (simp add: u_escape_def)
    ultimately show ?thesis using read_u_escape [OF assms, of q] by simp
  next
    case False
    with n have "escape_ascii c = [c]" by (simp only: escape_ascii_def if_False simp_thms)
    with n False assms show ?thesis by (simp add: read_piece_def)
  qed
qed

lemma escape_ascii_start: "escape_ascii c \<noteq> [] \<and> hd (escape_ascii c) \<noteq> CHR 0x22"
  by (simp add: escape_ascii_def u_escape_def)

lemma read_step:
  assumes "p \<noteq> []" "hd p \<noteq> CHR 0x22" "read_piece (p @ q) = Some (t, length p)"
  shows "read_string (p @ q) = (case read_string q of None \<Rightarrow> None | Some (u, rest) \<Rightarrow> Some (t @ u, rest))"
proof -
  obtain c r where p: "p = c # r" using assms(1) by (cases p) auto
  have m: "max 1 (length p) = length p" using assms(1) by (cases p) auto
  show ?thesis
    using assms m by (subst read_string.simps) (simp add: p)
qed

lemma read_separator:
  "read_piece (CHR 0x5C # ''ufffd'' @ q) = Some (replacement, 6)"
  "read_piece (CHR 0x5C # ''u2028'' @ q) = Some (text_of [226, 128, 168], 6)"
  "read_piece (CHR 0x5C # ''u2029'' @ q) = Some (text_of [226, 128, 169], 6)"
proof -
  have "getu4 (CHR 0x5C # ''ufffd'' @ q) = Some 65533" "getu4 (CHR 0x5C # ''u2028'' @ q) = Some 8232"
    "getu4 (CHR 0x5C # ''u2029'' @ q) = Some 8233" by (simp_all add: getu4_def hex_value_def Let_def)
  moreover have "read_u 65533 r = (replacement, 6)" "read_u 8232 r = (text_of [226, 128, 168], 6)"
    "read_u 8233 r = (text_of [226, 128, 169], 6)" for r
    by (simp_all add: read_u_def utf8_encode_def replacement_def text_of_def)
  ultimately show "read_piece (CHR 0x5C # ''ufffd'' @ q) = Some (replacement, 6)"
    "read_piece (CHR 0x5C # ''u2028'' @ q) = Some (text_of [226, 128, 168], 6)"
    "read_piece (CHR 0x5C # ''u2029'' @ q) = Some (text_of [226, 128, 169], 6)"
    by (simp_all add: read_piece_def)
qed

lemma read_escape: "read_string (escape s @ CHR 0x22 # r) = Some (scrub s, r)"
proof (induction s rule: length_induct)
  case (1 s)
  show ?case
  proof (cases s)
    case Nil
    then show ?thesis by (simp add: escape.simps scrub.simps read_string.simps)
  next
    case (Cons c t)
    have IH: "read_string (escape (drop n s) @ CHR 0x22 # r) = Some (scrub (drop n s), r)" if "0 < n" for n
      using 1 that Cons by simp
    have drop1: "drop 1 s = t" using Cons by simp
    have sep: "rune_len s = 3" if "take 3 s = text_of [226, 128, b]" "b = 168 \<or> b = 169" for b
    proof -
      have "s = text_of [226, 128, b] @ drop 3 s" using that(1) by (metis append_take_drop_id)
      then have "map byte_of s = map byte_of (text_of [226, 128, b]) @ map byte_of (drop 3 s)" by (metis map_append)
      with that(2) show ?thesis by (auto simp: rune_len_alt continuation_def text_of_def)
    qed
    consider "byte_of c < 128" | "\<not> byte_of c < 128" "rune_len s = 0"
      | "\<not> byte_of c < 128" "0 < rune_len s" "take 3 s = text_of [226, 128, 168]"
      | "\<not> byte_of c < 128" "0 < rune_len s" "take 3 s = text_of [226, 128, 169]"
      | "\<not> byte_of c < 128" "0 < rune_len s" "take 3 s \<noteq> text_of [226, 128, 168]" "take 3 s \<noteq> text_of [226, 128, 169]"
      by blast
    then show ?thesis
    proof cases
      case 1
      then have e: "escape s = escape_ascii c @ escape t" "scrub s = [c] @ scrub t"
        using Cons by (simp_all add: escape.simps [of "c # t"] scrub.simps [of "c # t"])
      show ?thesis unfolding e append_assoc
        by (subst read_step [OF _ _ read_ascii [OF 1]]) (use escape_ascii_start IH [of 1] drop1 in simp_all)
    next
      case 2
      then have e: "escape s = (CHR 0x5C # ''ufffd'') @ escape t" "scrub s = replacement @ scrub t"
        using Cons by (simp_all add: escape.simps [of "c # t"] scrub.simps [of "c # t"])
      show ?thesis unfolding e append_assoc
        by (subst read_step [where t = replacement]) (use IH [of 1] drop1 read_separator(1) in simp_all)
    next
      case 3
      then have e: "escape s = (CHR 0x5C # ''u2028'') @ escape (drop 3 s)" "scrub s = text_of [226, 128, 168] @ scrub (drop 3 s)"
        using Cons sep [of 168] by (simp_all add: escape.simps [of "c # t"] scrub.simps [of "c # t"])
      show ?thesis unfolding e append_assoc
        by (subst read_step [where t = "text_of [226, 128, 168]"]) (use IH [of 3] read_separator(2) in simp_all)
    next
      case 4
      then have n: "take 3 s \<noteq> text_of [226, 128, 168]" by (simp add: text_of_def)
      with 4 have e: "escape s = (CHR 0x5C # ''u2029'') @ escape (drop 3 s)" "scrub s = text_of [226, 128, 169] @ scrub (drop 3 s)"
        using Cons sep [of 169] by (simp_all add: escape.simps [of "c # t"] scrub.simps [of "c # t"])
      show ?thesis unfolding e append_assoc
        by (subst read_step [where t = "text_of [226, 128, 169]"]) (use IH [of 3] read_separator(3) in simp_all)
    next
      case 5
      define n where "n = rune_len s"
      have n: "0 < n" "n \<le> length s" using 5 rune_len_less by (auto simp: n_def)
      from 5 have e: "escape s = take n s @ escape (drop n s)" "scrub s = take n s @ scrub (drop n s)"
        using Cons by (simp_all add: escape.simps [of "c # t"] scrub.simps [of "c # t"] n_def)
      have hd: "take n s \<noteq> []" "hd (take n s) = c" using n Cons by (cases n; simp)+
      have c: "c \<noteq> CHR 0x22" "c \<noteq> CHR 0x5C" using 5(1) by auto
      have "read_piece (take n s @ q) = Some (take n s, length (take n s))" for q
      proof -
        have l: "rune_len (take n s @ q) = n" using rune_len_prefix [of s q] n by (simp add: n_def)
        obtain u where u: "take n s @ q = c # u" using hd by (cases "take n s") auto
        have "read_piece (take n s @ q) = Some (take n (take n s @ q), n)"
          using 5(1) c l n(1) unfolding u by (simp add: read_piece_def)
        with n(2) show ?thesis by simp
      qed
      with hd c have "read_string (take n s @ q) = (case read_string q of None \<Rightarrow> None | Some (u, rest) \<Rightarrow> Some (take n s @ u, rest))" for q
        by (intro read_step) simp_all
      with IH [OF n(1)] show ?thesis unfolding e by simp
    qed
  qed
qed

section \<open>Numbers\<close>

lemma digits_start: "0 < n \<Longrightarrow> hd (digits n) \<noteq> CHR ''0''"
proof (induction n rule: digits.induct)
  case (1 n)
  show ?case
  proof (cases "n < 10")
    case True
    then have "byte_of (hd (digits n)) = 48 + n" by (simp add: digits.simps [of n])
    with 1 have "byte_of (hd (digits n)) \<noteq> byte_of CHR ''0''" by simp
    then show ?thesis by metis
  next
    case False
    with 1 have "hd (digits (n div 10)) \<noteq> CHR ''0''" by simp
    moreover have "hd (digits n) = hd (digits (n div 10))"
      using False digits_nonempty [of "n div 10"] by (simp add: digits.simps [of n])
    ultimately show ?thesis by simp
  qed
qed

definition stops_number :: "char \<Rightarrow> bool" where
  "stops_number c = (\<not> is_digit c \<and> c \<notin> {CHR ''.'', CHR ''e'', CHR ''E''})"

lemma integer_part_digits:
  assumes "stops_number c" "sign = [] \<or> sign = [CHR ''-'']"
  shows "integer_part (sign @ digits n @ c # q) = Some (sign @ digits n, c # q)"
proof -
  obtain d r where d: "digits n = d # r" using digits_nonempty [of n] by (cases "digits n") auto
  have dig: "\<forall>x \<in> set (digits n). is_digit x" using digits_digit by blast
  with d have dd: "is_digit d" by simp
  have c: "\<not> is_digit c" using assms(1) by (simp add: stops_number_def)
  have t: "takeWhile is_digit (digits n @ c # q) = digits n" "dropWhile is_digit (digits n @ c # q) = c # q"
    using dig c by (simp_all add: takeWhile_append2 dropWhile_append2)
  have m: "d \<noteq> CHR ''-''" using dd by (auto simp: is_digit_def)
  have "d = CHR ''0'' \<Longrightarrow> r = []"
  proof -
    assume "d = CHR ''0''"
    with d digits_start [of n] have "n = 0" by (cases n) auto
    with d show "r = []" by (simp add: digits.simps)
  qed
  then show ?thesis using assms(2) m dd t by (auto simp: integer_part_def d Let_def)
qed

lemma read_number_decimal:
  assumes "stops_number c"
  shows "read_number (decimal n @ c # q) = Some (decimal n, c # q)"
proof -
  have "integer_part (decimal n @ c # q) = Some (decimal n, c # q)"
    using integer_part_digits [OF assms, of "[CHR ''-'']" "nat (- n)" q] integer_part_digits [OF assms, of "[]" "nat n" q]
    by (simp add: decimal_def)
  with assms show ?thesis by (simp add: read_number_def fraction_part_def exponent_part_def stops_number_def)
qed

lemma decimal_start: "\<exists>c r. decimal n = c # r \<and> (is_digit c \<or> c = CHR ''-'')"
proof -
  obtain d r where d: "digits (nat n) = d # r" using digits_nonempty [of "nat n"] by (cases "digits (nat n)") auto
  with digits_digit [of d "nat n"] show ?thesis by (simp add: decimal_def)
qed

declare read_value.simps [simp del] read_fields.simps [simp del] read_items.simps [simp del]

section \<open>Objects\<close>

definition json_field :: "string \<times> field_value \<Rightarrow> string \<times> json" where
  "json_field f = (scrub (fst f), case snd f of FString t \<Rightarrow> JString (scrub t) | FInt n \<Rightarrow> JNumber (decimal n))"

lemma skip_none: "\<not> is_space c \<Longrightarrow> skip_space (c # s) = c # s"
  by (simp add: skip_space_def)

lemma read_quoted: "read_value (Suc n) d (quoted t @ q) = Some (JString (scrub t), q)"
proof -
  have "quoted t @ q = CHR 0x22 # escape t @ CHR 0x22 # q" by (simp add: quoted_def)
  moreover have "skip_space (CHR 0x22 # s) = CHR 0x22 # s" for s by (rule skip_none) (simp add: is_space_def)
  ultimately show ?thesis by (simp add: read_value.simps read_escape)
qed

lemma read_decimal: "stops_number c \<Longrightarrow> read_value (Suc n) d (decimal i @ c # q) = Some (JNumber (decimal i), c # q)"
proof -
  assume c: "stops_number c"
  obtain a r where a: "decimal i = a # r" "is_digit a \<or> a = CHR ''-''" using decimal_start by blast
  then have ne: "a \<notin> {CHR '' '', CHR 0x09, CHR 0x0A, CHR 0x0D, CHR 0x22, CHR ''{'', CHR ''['', CHR ''t'', CHR ''f'', CHR ''n''}"
    by (auto simp: is_digit_def)
  then have "skip_space (a # s) = a # s" for s by (intro skip_none) (simp add: is_space_def)
  with ne read_number_decimal [OF c, of i q, unfolded a append_Cons] show ?thesis by (simp add: a read_value.simps)
qed

lemma read_field:
  assumes "c = CHR '','' \<or> c = CHR ''}''"
  shows "read_fields (Suc (Suc n)) d (field_text f @ c # q) =
    (if c = CHR ''}'' then Some ([json_field f], q)
     else case read_fields (Suc n) d q of None \<Rightarrow> None | Some (fs, t) \<Rightarrow> Some (json_field f # fs, t))"
proof -
  have st: "stops_number c" using assms by (auto simp: stops_number_def is_digit_def)
  define v where "v = (case snd f of FString s \<Rightarrow> quoted s | FInt n \<Rightarrow> decimal n)"
  have v: "read_value (Suc n) d (v @ c # q) = Some (snd (json_field f), c # q)" for n
    using read_quoted read_decimal [OF st] by (simp add: v_def json_field_def split: field_value.splits)
  have t: "field_text f @ c # q = CHR 0x22 # escape (fst f) @ CHR 0x22 # CHR '':'' # v @ c # q"
    by (simp add: field_text_def quoted_def v_def)
  have sp: "skip_space (CHR 0x22 # s) = CHR 0x22 # s" "skip_space (CHR '':'' # s) = CHR '':'' # s" "skip_space (c # s) = c # s" for s
    using assms by (auto intro!: skip_none simp: is_space_def)
  show ?thesis
    unfolding t using assms
    by (subst read_fields.simps) (auto simp: sp read_escape v json_field_def split: option.splits prod.splits)
qed

lemma read_all_fields:
  "fs \<noteq> [] \<Longrightarrow> read_fields (length fs + Suc n) d (Join CHR '','' (map field_text fs) @ CHR ''}'' # q) =
    Some (map json_field fs, q)"
proof (induction fs)
  case (Cons f fs)
  show ?case
  proof (cases fs)
    case Nil
    then show ?thesis using read_field [of "CHR ''}''" n d f q] by simp
  next
    case (Cons g gs)
    then show ?thesis using Cons.IH read_field [of "CHR '',''" "Suc (length gs + n)" d f "Join CHR '','' (map field_text fs) @ CHR ''}'' # q"]
      by simp
  qed
qed simp

lemma length_join: "length fs \<le> length (Join c (map field_text fs))"
proof (induction fs)
  case (Cons f fs)
  have "1 \<le> length (field_text f)" by (simp add: field_text_def quoted_def)
  with Cons show ?case by (cases fs) simp_all
qed simp

lemma parse_marshal: "fs \<noteq> [] \<Longrightarrow> parse_json (marshal fs) = Some (JObject (map json_field fs))"
proof -
  assume fs: "fs \<noteq> []"
  define j where "j = Join CHR '','' (map field_text fs)"
  have m: "marshal fs = CHR ''{'' # j @ ''}''" by (simp add: marshal_def j_def)
  have "length fs \<le> length j" using length_join by (simp add: j_def)
  then have "length fs + Suc (2 * length (marshal fs) - length fs) = 2 * length (marshal fs) + 1" by (simp add: m)
  then have r: "read_fields (2 * length (marshal fs) + 1) 1 (j @ ''}'') = Some (map json_field fs, [])"
    using read_all_fields [OF fs, of "2 * length (marshal fs) - length fs" 1 "[]"] by (simp add: j_def)
  obtain f gs where f: "fs = f # gs" using fs by (cases fs) auto
  obtain t where "field_text f = CHR 0x22 # t" by (simp add: field_text_def quoted_def)
  then obtain u where u: "j = CHR 0x22 # u" by (cases gs) (auto simp: j_def f)
  have sp: "skip_space (CHR 0x22 # s) = CHR 0x22 # s" "skip_space (CHR ''{'' # s) = CHR ''{'' # s" "skip_space [] = []" for s
    by (auto intro!: skip_none simp: is_space_def) (simp add: skip_space_def)
  have "read_value (Suc (2 * length (marshal fs) + 1)) 0 (CHR ''{'' # j @ ''}'') = Some (JObject (map json_field fs), [])"
    using r by (subst read_value.simps) (simp add: sp u maxNestingDepth_def)
  then show ?thesis unfolding m by (simp add: parse_json_def sp)
qed

section \<open>The fuel is enough\<close>

lemma skip_space_le: "length (skip_space s) \<le> length s"
  by (simp add: skip_space_def length_dropWhile_le)

lemma skip_space_shorter: "skip_space s = c # r \<Longrightarrow> length r < length s"
  using skip_space_le [of s] by simp

lemma read_string_shorter: "read_string s = Some (t, q) \<Longrightarrow> length q < length s"
proof (induction s arbitrary: t q rule: length_induct)
  case (1 s)
  then show ?case
  proof (cases s)
    case (Cons c r)
    show ?thesis
    proof (cases "c = CHR 0x22")
      case True
      with 1(2) Cons show ?thesis by (simp add: read_string.simps [of "CHR 0x22 # r"])
    next
      case False
      with 1(2) Cons obtain p n where p: "read_piece s = Some (p, n)" by (auto simp: read_string.simps [of "c # r"] split: option.splits)
      with False 1(2) Cons obtain u where "read_string (drop (max 1 n) s) = Some (u, q)"
        by (auto simp: read_string.simps [of "c # r"] split: option.splits)
      moreover have "length (drop (max 1 n) s) < length s" using Cons by simp
      ultimately have "length q < length (drop (max 1 n) s)" using 1(1) by blast
      then show ?thesis by simp
    qed
  qed (simp add: read_string.simps)
qed

lemma some_digits_shorter: "some_digits m r = Some (t, q) \<Longrightarrow> length q \<le> length r"
  by (auto simp: some_digits_def length_dropWhile_le split: if_splits)

lemma read_number_shorter: "read_number s = Some (t, q) \<Longrightarrow> length q < length s"
proof -
  assume a: "read_number s = Some (t, q)"
  then obtain i r f p e where i: "integer_part s = Some (i, r)" and f: "fraction_part r = Some (f, p)"
    and e: "exponent_part p = Some (e, q)"
    by (auto simp: read_number_def split: option.splits prod.splits)
  have d: "is_digit c \<Longrightarrow> length (dropWhile is_digit (c # x)) < Suc (length x)" for c x
    by (simp add: length_dropWhile_le le_imp_less_Suc)
  have "length r < length s" using i d
    by (auto simp: integer_part_def Let_def less_Suc_eq_le length_dropWhile_le intro: le_SucI split: list.splits if_splits)
  moreover have "length p \<le> length r" using f some_digits_shorter
    by (fastforce simp: fraction_part_def split: list.splits if_splits)
  moreover have "length q \<le> length p" using e some_digits_shorter
    by (fastforce simp: exponent_part_def split: list.splits if_splits)
  ultimately show ?thesis by simp
qed

lemma read_shorter:
  "read_value n d s = Some (v, q) \<Longrightarrow> length q < length s"
  "read_items n d s = Some (vs, q) \<Longrightarrow> length q < length s"
  "read_fields n d s = Some (fs, q) \<Longrightarrow> length q < length s"
proof (induction n arbitrary: d s v vs fs q)
  case 0
  { case 1 then show ?case by (simp add: read_value.simps) }
  { case 2 then show ?case by (simp add: read_items.simps) }
  { case 3 then show ?case by (simp add: read_fields.simps) }
next
  case (Suc n)
  { case 1
    then obtain c r where s: "skip_space s = c # r" by (cases "skip_space s") (simp_all add: read_value.simps)
    then have r: "length r < length s" by (rule skip_space_shorter)
    have w: "length (drop k (skip_space r)) \<le> length r" for k using skip_space_le [of r] by simp
    have "length q \<le> length r"
      using 1 s w [of 1] Suc.IH(2,3) read_string_shorter read_number_shorter
      by (fastforce simp: read_value.simps split: if_splits option.splits)
    with r show ?case by simp }
  { case 2
    then obtain v1 q1 where v: "read_value n d s = Some (v1, q1)" by (auto simp: read_items.simps split: option.splits)
    with 2 obtain c r where c: "skip_space q1 = c # r" by (cases "skip_space q1") (simp_all add: read_items.simps)
    from 2 v c Suc.IH(2) have "length q \<le> length r" by (fastforce simp: read_items.simps split: if_splits option.splits)
    with skip_space_shorter [OF c] Suc.IH(1) [OF v] show ?case by simp }
  { case 3
    then obtain c r where c: "skip_space s = c # r" by (cases "skip_space s") (simp_all add: read_fields.simps)
    with 3 obtain k q1 where k: "read_string r = Some (k, q1)" by (auto simp: read_fields.simps split: if_splits option.splits)
    with 3 c obtain c2 r2 where c2: "skip_space q1 = c2 # r2" by (cases "skip_space q1") (auto simp: read_fields.simps split: if_splits)
    with 3 c k obtain v1 q2 where v: "read_value n d r2 = Some (v1, q2)" by (auto simp: read_fields.simps split: if_splits option.splits)
    with 3 c k c2 obtain c3 r3 where c3: "skip_space q2 = c3 # r3" by (cases "skip_space q2") (auto simp: read_fields.simps split: if_splits)
    from 3 c k c2 v c3 Suc.IH(3) have "length q \<le> length r3" by (fastforce simp: read_fields.simps split: if_splits option.splits)
    with skip_space_shorter [OF c] read_string_shorter [OF k] skip_space_shorter [OF c2] Suc.IH(1) [OF v] skip_space_shorter [OF c3]
    show ?case by simp }
qed

lemma read_fuel:
  "2 * length s + 1 \<le> n \<Longrightarrow> read_value (Suc n) d s = read_value n d s"
  "2 * length s + 2 \<le> n \<Longrightarrow> read_items (Suc n) d s = read_items n d s"
  "2 * length s + 1 \<le> n \<Longrightarrow> read_fields (Suc n) d s = read_fields n d s"
proof (induction n arbitrary: d s)
  case (Suc n)
  { case 1
    have "read_items (Suc n) (d + 1) r = read_items n (d + 1) r" "read_fields (Suc n) (d + 1) r = read_fields n (d + 1) r"
      if "skip_space s = c # r" for c r
      using skip_space_shorter [OF that] 1 by (auto intro!: Suc.IH)
    then show ?case by (simp add: read_value.simps split: list.splits) }
  { case 2
    have "read_value (Suc n) d s = read_value n d s" using 2 by (intro Suc.IH) simp
    moreover have "read_items (Suc n) d r = read_items n d r" if "read_value n d s = Some (v, q)" "skip_space q = c # r" for v q c r
      using read_shorter(1) [OF that(1)] skip_space_shorter [OF that(2)] 2 by (intro Suc.IH) simp
    ultimately show ?case by (auto simp: read_items.simps split: option.splits list.splits) }
  { case 3
    have "read_value (Suc n) d r2 = read_value n d r2"
      if "skip_space s = c # r" "read_string r = Some (k, q1)" "skip_space q1 = c2 # r2" for c r k q1 c2 r2
      using skip_space_shorter [OF that(1)] read_string_shorter [OF that(2)] skip_space_shorter [OF that(3)] 3 by (intro Suc.IH) simp
    moreover have "read_fields (Suc n) d r3 = read_fields n d r3"
      if "skip_space s = c # r" "read_string r = Some (k, q1)" "skip_space q1 = c2 # r2" "read_value n d r2 = Some (v, q2)" "skip_space q2 = c3 # r3"
      for c r k q1 c2 r2 v q2 c3 r3
      using skip_space_shorter [OF that(1)] read_string_shorter [OF that(2)] skip_space_shorter [OF that(3)]
        read_shorter(1) [OF that(4)] skip_space_shorter [OF that(5)] 3 by (intro Suc.IH) simp
    ultimately show ?case by (simp add: read_fields.simps split: option.splits list.splits) }
qed simp_all

lemma fuel_is_enough: "2 * length s + 2 \<le> n \<Longrightarrow> read_value n 0 s = read_value (2 * length s + 2) 0 s"
  by (induction n rule: nat_induct_at_least) (simp_all only: , metis (no_types) read_fuel(1) add_leD1 le_trans one_le_numeral add_le_cancel_left)

end
