(* ===== verification/Tokens.thy ===== *)
theory Tokens
  imports JsonRoundtrip
begin

text \<open>
  Access and refresh tokens (\<^verbatim>\<open>internal/domain/identity/tokens.go\<close>, the users and sessions of
  \<^verbatim>\<open>models.go\<close>). The clock reading of a call is its argument \<open>now\<close>.
\<close>

section \<open>Users and sessions\<close>

datatype user_status = UsActive | UsLocked | UsDisabled | UsOther string
datatype session_status = SsActive | SsRevoked | SsExpired | SsOther string

record user =
  us_ID :: string
  us_TenantID :: string
  us_Username :: string
  us_DisplayName :: string
  us_Email :: string
  us_Phone :: string
  us_Locale :: string
  us_Status :: user_status
  us_LastLoginAt :: gotime
  us_CreatedAt :: gotime
  us_UpdatedAt :: gotime

record session =
  ss_ID :: string
  ss_TenantID :: string
  ss_UserID :: string
  ss_RefreshTokenHash :: string
  ss_ClientIP :: string
  ss_UserAgent :: string
  ss_Status :: session_status
  ss_IssuedAt :: gotime
  ss_ExpiresAt :: gotime
  ss_LastSeenAt :: gotime
  ss_RevokedAt :: gotime
  ss_CreatedAt :: gotime
  ss_UpdatedAt :: gotime

section \<open>Claims\<close>

record token_claims =
  tc_Issuer :: string
  tc_Subject :: string
  tc_Session :: string
  tc_TenantID :: string
  tc_IssuedAt :: int
  tc_Expires :: int

definition header_fields :: "(string \<times> field_value) list" where
  "header_fields = [(''alg'', FString ''HS256''), (''typ'', FString ''JWT'')]"

text \<open>\<^verbatim>\<open>tid\<close> is left out where it is empty.\<close>

definition claims_fields :: "token_claims \<Rightarrow> (string \<times> field_value) list" where
  "claims_fields c =
     [(''iss'', FString (tc_Issuer c)), (''sub'', FString (tc_Subject c)), (''sid'', FString (tc_Session c))] @
     (if tc_TenantID c = [] then [] else [(''tid'', FString (tc_TenantID c))]) @
     [(''iat'', FInt (tc_IssuedAt c)), (''exp'', FInt (tc_Expires c))]"

definition empty_claims :: "(string \<times> field_value) list" where
  "empty_claims = [(''iss'', FString []), (''sub'', FString []), (''sid'', FString []), (''tid'', FString []),
     (''iat'', FInt 0), (''exp'', FInt 0)]"

definition string_field :: "(string \<times> field_value) list \<Rightarrow> string \<Rightarrow> string" where
  "string_field fs name = (case map_of fs name of Some (FString t) \<Rightarrow> t | _ \<Rightarrow> [])"

definition int_field :: "(string \<times> field_value) list \<Rightarrow> string \<Rightarrow> int" where
  "int_field fs name = (case map_of fs name of Some (FInt n) \<Rightarrow> n | _ \<Rightarrow> 0)"

definition read_claims :: "string \<Rightarrow> token_claims option" where
  "read_claims payload =
     (case unmarshal empty_claims payload of
        None \<Rightarrow> None
      | Some fs \<Rightarrow> Some \<lparr>tc_Issuer = string_field fs ''iss'', tc_Subject = string_field fs ''sub'',
          tc_Session = string_field fs ''sid'', tc_TenantID = string_field fs ''tid'',
          tc_IssuedAt = int_field fs ''iat'', tc_Expires = int_field fs ''exp''\<rparr>)"

section \<open>The signer\<close>

datatype token_error = InvalidAccessToken | AccessTokenExpired

record token_signer =
  sg_issuer :: string
  sg_secret :: rawbytes

definition NewTokenSigner :: "string \<Rightarrow> string \<Rightarrow> token_signer" where
  "NewTokenSigner secret issuer = \<lparr>sg_issuer = issuer, sg_secret = string_bytes secret\<rparr>"

text \<open>\<^verbatim>\<open>t.Unix()\<close>: full seconds since 1970, 62135596800 seconds after the zero time.\<close>

definition Unix :: "gotime \<Rightarrow> int" where
  "Unix t = t div second_ns - 62135596800"

text \<open>Division of integers in Go rounds towards zero.\<close>

definition go_div :: "int \<Rightarrow> int \<Rightarrow> int" where
  "go_div a b = sgn a * sgn b * (\<bar>a\<bar> div \<bar>b\<bar>)"

definition signToken :: "string \<Rightarrow> rawbytes \<Rightarrow> string" where
  "signToken signing secret = b64_encode b64_url (hmac_sha256 secret (string_bytes signing))"

definition token_claims_of :: "token_signer \<Rightarrow> user \<Rightarrow> session \<Rightarrow> duration \<Rightarrow> gotime \<Rightarrow> token_claims" where
  "token_claims_of s user session ttl now = \<lparr>tc_Issuer = sg_issuer s, tc_Subject = us_ID user, tc_Session = ss_ID session,
     tc_TenantID = us_TenantID user, tc_IssuedAt = Unix now, tc_Expires = Unix (now + ttl)\<rparr>"

definition IssueAccessToken :: "token_signer \<Rightarrow> user \<Rightarrow> session \<Rightarrow> duration \<Rightarrow> gotime \<Rightarrow> string \<times> int" where
  "IssueAccessToken s user session ttl now =
     (let claims = token_claims_of s user session ttl now;
          headerPart = b64_encode b64_url (string_bytes (marshal header_fields));
          claimsPart = b64_encode b64_url (string_bytes (marshal (claims_fields claims)));
          signing = headerPart @ ''.'' @ claimsPart;
          signature = signToken signing (sg_secret s)
      in (signing @ ''.'' @ signature, go_div ttl second_ns))"

definition VerifyAccessToken :: "token_signer \<Rightarrow> string \<Rightarrow> gotime \<Rightarrow> token_error + token_claims" where
  "VerifyAccessToken s token now =
     (case Split CHR ''.'' token of
        [p0, p1, p2] \<Rightarrow>
          (let signing = p0 @ ''.'' @ p1;
               expected = signToken signing (sg_secret s)
           in if p2 \<noteq> expected then Inl InvalidAccessToken
              else (case b64_decode b64_url p1 of
                None \<Rightarrow> Inl InvalidAccessToken
              | Some payload \<Rightarrow>
                  (case read_claims (bytes_string payload) of
                     None \<Rightarrow> Inl InvalidAccessToken
                   | Some claims \<Rightarrow>
                       if tc_Subject claims = [] \<or> tc_Session claims = [] \<or> tc_Expires claims = 0 then Inl InvalidAccessToken
                       else if tc_Expires claims \<le> Unix now then Inl AccessTokenExpired
                       else Inr claims)))
      | _ \<Rightarrow> Inl InvalidAccessToken)"

section \<open>Refresh tokens\<close>

definition NewRefreshToken :: "(nat \<Rightarrow> rawbytes option) \<Rightarrow> string option" where
  "NewRefreshToken rnd = (case rnd 32 of None \<Rightarrow> None | Some raw \<Rightarrow> Some (b64_encode b64_url raw))"

definition HashRefreshToken :: "string \<Rightarrow> string" where
  "HashRefreshToken token = b64_encode b64_url (sha256 (string_bytes token))"

section \<open>What is written is read back\<close>

definition scrub_claims :: "token_claims \<Rightarrow> token_claims" where
  "scrub_claims c = c\<lparr>tc_Issuer := scrub (tc_Issuer c), tc_Subject := scrub (tc_Subject c),
     tc_Session := scrub (tc_Session c), tc_TenantID := scrub (tc_TenantID c)\<rparr>"

definition int64 :: "int \<Rightarrow> bool" where
  "int64 n = (- (2 ^ 63) \<le> n \<and> n < 2 ^ 63)"

lemma claim_names:
  "fold_name ''iss'' = ''ISS''" "fold_name ''sub'' = ''SUB''" "fold_name ''sid'' = ''SID''"
  "fold_name ''tid'' = ''TID''" "fold_name ''iat'' = ''IAT''" "fold_name ''exp'' = ''EXP''"
  "scrub ''iss'' = ''iss''" "scrub ''sub'' = ''sub''" "scrub ''sid'' = ''sid''"
  "scrub ''tid'' = ''tid''" "scrub ''iat'' = ''iat''" "scrub ''exp'' = ''exp''"
  by code_simp+

lemma json_fields:
  "json_field (name, FString t) = (scrub name, JString (scrub t))"
  "json_field (name, FInt n) = (scrub name, JNumber (decimal n))"
  by (simp_all add: json_field_def)

lemma store_kinds:
  "store_value (JString t) (FString u) = Some (FString t)"
  "Atoi (decimal n) = Some n \<Longrightarrow> store_value (JNumber (decimal n)) (FInt m) = Some (FInt n)"
  by (simp_all add: store_value_def)

lemma store_claims:
  assumes "int64 (tc_IssuedAt c)" "int64 (tc_Expires c)"
  shows "store_fields (map json_field (claims_fields c)) empty_claims =
    Some [(''iss'', FString (scrub (tc_Issuer c))), (''sub'', FString (scrub (tc_Subject c))),
      (''sid'', FString (scrub (tc_Session c))), (''tid'', FString (scrub (tc_TenantID c))),
      (''iat'', FInt (tc_IssuedAt c)), (''exp'', FInt (tc_Expires c))]"
proof -
  have a: "Atoi (decimal (tc_IssuedAt c)) = Some (tc_IssuedAt c)" "Atoi (decimal (tc_Expires c)) = Some (tc_Expires c)"
    using assms by (simp_all add: int64_def Atoi_decimal)
  have e: "scrub [] = []" by (simp add: scrub.simps)
  show ?thesis
    by (simp add: claims_fields_def json_fields empty_claims_def claim_names store_kinds a e)
qed

lemma read_claims_marshal:
  assumes "int64 (tc_IssuedAt c)" "int64 (tc_Expires c)"
  shows "read_claims (marshal (claims_fields c)) = Some (scrub_claims c)"
proof -
  have "parse_json (marshal (claims_fields c)) = Some (JObject (map json_field (claims_fields c)))"
    by (rule parse_marshal) (simp add: claims_fields_def)
  then have "unmarshal empty_claims (marshal (claims_fields c)) = store_fields (map json_field (claims_fields c)) empty_claims"
    by (simp add: unmarshal_def)
  then show ?thesis
    unfolding store_claims [OF assms] by (simp add: read_claims_def string_field_def int_field_def scrub_claims_def)
qed

lemma scrub_nonempty: "scrub s = [] \<longleftrightarrow> s = []"
proof (cases s)
  case (Cons c r)
  have "replacement \<noteq> []" by (simp add: replacement_def text_of_def)
  moreover have "rune_len s = 0 \<or> take (rune_len s) s \<noteq> []" using Cons by auto
  ultimately show ?thesis using Cons by (subst scrub.simps) auto
qed (simp add: scrub.simps)

lemma no_dot: "CHR ''.'' \<notin> set (signToken u k)"
  by (simp add: signToken_def b64_no_separator)

lemma Split_three:
  "CHR ''.'' \<notin> set p \<Longrightarrow> CHR ''.'' \<notin> set q \<Longrightarrow> CHR ''.'' \<notin> set r \<Longrightarrow> Split CHR ''.'' ((p @ ''.'' @ q) @ ''.'' @ r) = [p, q, r]"
  using Split_word [of "CHR ''.''" p "q @ ''.'' @ r"] Split_word [of "CHR ''.''" q r] Split_last [of "CHR ''.''" r] by simp

lemma Join_Split: "Join sep (Split sep s) = s"
proof (induction s)
  case (Cons c s)
  then show ?case using Split_nonempty [of sep s] by (cases "Split sep s") (auto, (case_tac list; auto)+)
qed simp

lemma signed_token:
  "VerifyAccessToken s token now = Inr claims \<Longrightarrow>
     \<exists>p0 p1 payload. token = (p0 @ ''.'' @ p1) @ ''.'' @ signToken (p0 @ ''.'' @ p1) (sg_secret s) \<and>
       b64_decode b64_url p1 = Some payload \<and> read_claims (bytes_string payload) = Some claims \<and> Unix now < tc_Expires claims"
proof -
  assume v: "VerifyAccessToken s token now = Inr claims"
  then obtain p0 p1 p2 where p: "Split CHR ''.'' token = [p0, p1, p2]"
    by (auto simp: VerifyAccessToken_def split: list.splits)
  then have "token = (p0 @ ''.'' @ p1) @ ''.'' @ p2" using Join_Split [of "CHR ''.''" token] by simp
  with v p show ?thesis
    by (auto simp: VerifyAccessToken_def Let_def split: if_splits option.splits)
qed

lemma verify_issued:
  assumes "IssueAccessToken s user session ttl now = (token, expiresIn)" "us_ID user \<noteq> []" "ss_ID session \<noteq> []"
    and "int64 (Unix now)" "int64 (Unix (now + ttl))" "Unix (now + ttl) \<noteq> 0"
  shows "VerifyAccessToken s token later =
      (if Unix (now + ttl) \<le> Unix later then Inl AccessTokenExpired
       else Inr (scrub_claims (token_claims_of s user session ttl now)))"
proof -
  define c where "c = token_claims_of s user session ttl now"
  define p0 where "p0 = b64_encode b64_url (string_bytes (marshal header_fields))"
  define p1 where "p1 = b64_encode b64_url (string_bytes (marshal (claims_fields c)))"
  have token: "token = (p0 @ ''.'' @ p1) @ ''.'' @ signToken (p0 @ ''.'' @ p1) (sg_secret s)"
    using assms(1) by (simp add: IssueAccessToken_def Let_def c_def p0_def p1_def)
  have split: "Split CHR ''.'' token = [p0, p1, signToken (p0 @ ''.'' @ p1) (sg_secret s)]"
    unfolding token by (rule Split_three) (simp_all add: p0_def p1_def b64_no_separator no_dot)
  have dec: "b64_decode b64_url p1 = Some (string_bytes (marshal (claims_fields c)))"
    unfolding p1_def by (rule b64_decode_encode [OF b64_alphabets(2)])
  have "read_claims (marshal (claims_fields c)) = Some (scrub_claims c)"
    using assms(4,5) by (intro read_claims_marshal) (simp_all add: c_def token_claims_of_def)
  with split dec show ?thesis
    using assms(2,3,6)
    by (simp add: VerifyAccessToken_def scrub_claims_def c_def token_claims_of_def scrub_nonempty)
qed

section \<open>Properties\<close>

text \<open>C7: an issued access token verifies: with the secret it was signed with, the token is read back as the
  claims it was issued for (bytes that are not UTF-8 replaced) until the second it expires in, and as
  expired from then on; and the only tokens a signer ever accepts are those whose last part is its
  keyed hash of the other two.\<close>

theorem issued_token_verifies:
  assumes "IssueAccessToken s user session ttl now = (token, expiresIn)" "us_ID user \<noteq> []" "ss_ID session \<noteq> []"
    and "int64 (Unix now)" "int64 (Unix (now + ttl))" "Unix (now + ttl) \<noteq> 0"
  shows "VerifyAccessToken s token later =
      (if Unix (now + ttl) \<le> Unix later then Inl AccessTokenExpired
       else Inr (scrub_claims (token_claims_of s user session ttl now))) \<and>
    (\<forall>other claims. VerifyAccessToken s other later = Inr claims \<longrightarrow>
      (\<exists>p0 p1. other = (p0 @ ''.'' @ p1) @ ''.'' @ signToken (p0 @ ''.'' @ p1) (sg_secret s)))"
  using verify_issued [OF assms] signed_token by blast

definition sample_user :: user where
  "sample_user = \<lparr>us_ID = ''u1'', us_TenantID = ''t1'', us_Username = ''Ann'', us_DisplayName = ''Ann'', us_Email = [],
     us_Phone = [], us_Locale = ''en-US'', us_Status = UsActive, us_LastLoginAt = zeroTime, us_CreatedAt = zeroTime,
     us_UpdatedAt = zeroTime\<rparr>"

definition sample_session :: session where
  "sample_session = \<lparr>ss_ID = ''s1'', ss_TenantID = ''t1'', ss_UserID = ''u1'', ss_RefreshTokenHash = HashRefreshToken ''r1'',
     ss_ClientIP = [], ss_UserAgent = [], ss_Status = SsActive, ss_IssuedAt = zeroTime, ss_ExpiresAt = 100,
     ss_LastSeenAt = zeroTime, ss_RevokedAt = zeroTime, ss_CreatedAt = zeroTime, ss_UpdatedAt = zeroTime\<rparr>"

theorem issued_token_verifies_witness:
  "VerifyAccessToken (NewTokenSigner ''key'' ''iss'')
     (fst (IssueAccessToken (NewTokenSigner ''key'' ''iss'') sample_user sample_session (60 * second_ns) 0)) (90 * second_ns) =
   Inl AccessTokenExpired"
  using issued_token_verifies [of "NewTokenSigner ''key'' ''iss''" sample_user sample_session "60 * second_ns" 0
      "fst (IssueAccessToken (NewTokenSigner ''key'' ''iss'') sample_user sample_session (60 * second_ns) 0)"
      "snd (IssueAccessToken (NewTokenSigner ''key'' ''iss'') sample_user sample_session (60 * second_ns) 0)" "90 * second_ns"]
  by (simp add: sample_user_def sample_session_def Unix_def int64_def)

end
