(* ===== verification/Identity.thy ===== *)
theory Identity
  imports Password Tokens
begin

text \<open>
  The identity service (\<^verbatim>\<open>internal/domain/identity/memory_store.go\<close>, \<^verbatim>\<open>service.go\<close>): the in-memory
  repository of users, credentials and sessions, and login, refresh, access-token authentication,
  logout and the locale preference over it. Every repository call is one atomic step of the store;
  an operation of the service makes several, so \<open>Refresh\<close> is the composition of
  \<open>refresh_lookup\<close> and \<open>issueSession\<close>, and another request may run between the two.
\<close>

section \<open>Data\<close>

record credential =
  cd_ID :: string
  cd_UserID :: string
  cd_CredentialType :: string
  cd_PasswordHash :: string
  cd_PasswordAlgoVersion :: int
  cd_MustChangePassword :: bool
  cd_PasswordUpdatedAt :: gotime
  cd_CreatedAt :: gotime
  cd_UpdatedAt :: gotime

record session_metadata =
  sm_ClientIP :: string
  sm_UserAgent :: string

record authenticated_user =
  an_User :: user
  an_Session :: session

record login_result =
  lr_AccessToken :: string
  lr_RefreshToken :: string
  lr_ExpiresIn :: int
  lr_AuthenticatedUser :: authenticated_user

definition empty_session :: session where
  "empty_session = \<lparr>ss_ID = [], ss_TenantID = [], ss_UserID = [], ss_RefreshTokenHash = [], ss_ClientIP = [],
     ss_UserAgent = [], ss_Status = SsOther [], ss_IssuedAt = zeroTime, ss_ExpiresAt = zeroTime,
     ss_LastSeenAt = zeroTime, ss_RevokedAt = zeroTime, ss_CreatedAt = zeroTime, ss_UpdatedAt = zeroTime\<rparr>"

section \<open>The in-memory store\<close>

datatype store_failure = RecordNotFound | SessionAlreadyExists string

record identity_seed =
  is_Users :: "user list"
  is_Credentials :: "credential list"
  is_Sessions :: "session list"

record identity_store =
  iy_users :: "(string, user) gomap"
  iy_usernames :: "(string, string) gomap"
  iy_credentialsByUser :: "(string, credential) gomap"
  iy_sessions :: "(string, session) gomap"
  iy_sessionByRefresh :: "(string, string) gomap"

definition NewIdentityStore :: "identity_seed \<Rightarrow> identity_store" where
  "NewIdentityStore seed = \<lparr>iy_users = index_by us_ID (is_Users seed),
     iy_usernames = fold (\<lambda>u m. mput (ToLower (us_Username u)) (us_ID u) m) (is_Users seed) [],
     iy_credentialsByUser = index_by cd_UserID (is_Credentials seed),
     iy_sessions = index_by ss_ID (is_Sessions seed),
     iy_sessionByRefresh = fold (\<lambda>s m. if ss_RefreshTokenHash s \<noteq> [] then mput (ss_RefreshTokenHash s) (ss_ID s) m else m)
       (is_Sessions seed) []\<rparr>"

text \<open>A missing user behind a known name reads as the zero \<^verbatim>\<open>User{}\<close>.\<close>

definition empty_user :: user where
  "empty_user = \<lparr>us_ID = [], us_TenantID = [], us_Username = [], us_DisplayName = [], us_Email = [], us_Phone = [],
     us_Locale = [], us_Status = UsOther [], us_LastLoginAt = zeroTime, us_CreatedAt = zeroTime, us_UpdatedAt = zeroTime\<rparr>"

definition FindByUsername :: "identity_store \<Rightarrow> string \<Rightarrow> store_failure + user" where
  "FindByUsername st username =
     (case mget (iy_usernames st) (ToLower username) of
        None \<Rightarrow> Inl RecordNotFound
      | Some userID \<Rightarrow> Inr (case mget (iy_users st) userID of None \<Rightarrow> empty_user | Some u \<Rightarrow> u))"

definition FindUserByID :: "identity_store \<Rightarrow> string \<Rightarrow> store_failure + user" where
  "FindUserByID st userID = (case mget (iy_users st) userID of None \<Rightarrow> Inl RecordNotFound | Some u \<Rightarrow> Inr u)"

definition UpdateUser :: "identity_store \<Rightarrow> user \<Rightarrow> store_failure + identity_store" where
  "UpdateUser st u =
     (case mget (iy_users st) (us_ID u) of
        None \<Rightarrow> Inl RecordNotFound
      | Some _ \<Rightarrow> Inr (st\<lparr>iy_users := mput (us_ID u) u (iy_users st),
          iy_usernames := mput (ToLower (us_Username u)) (us_ID u) (iy_usernames st)\<rparr>))"

definition FindPasswordCredential :: "identity_store \<Rightarrow> string \<Rightarrow> store_failure + credential" where
  "FindPasswordCredential st userID =
     (case mget (iy_credentialsByUser st) userID of None \<Rightarrow> Inl RecordNotFound | Some c \<Rightarrow> Inr c)"

definition SaveSession :: "identity_store \<Rightarrow> session \<Rightarrow> store_failure + identity_store" where
  "SaveSession st s =
     (case mget (iy_sessions st) (ss_ID s) of
        Some _ \<Rightarrow> Inl (SessionAlreadyExists (ss_ID s))
      | None \<Rightarrow> Inr (st\<lparr>iy_sessions := mput (ss_ID s) s (iy_sessions st),
          iy_sessionByRefresh := mput (ss_RefreshTokenHash s) (ss_ID s) (iy_sessionByRefresh st)\<rparr>))"

definition FindSessionByID :: "identity_store \<Rightarrow> string \<Rightarrow> store_failure + session" where
  "FindSessionByID st sessionID = (case mget (iy_sessions st) sessionID of None \<Rightarrow> Inl RecordNotFound | Some s \<Rightarrow> Inr s)"

definition FindByRefreshTokenHash :: "identity_store \<Rightarrow> string \<Rightarrow> store_failure + session" where
  "FindByRefreshTokenHash st refreshTokenHash =
     (case mget (iy_sessionByRefresh st) refreshTokenHash of
        None \<Rightarrow> Inl RecordNotFound
      | Some sessionID \<Rightarrow> (case mget (iy_sessions st) sessionID of None \<Rightarrow> Inl RecordNotFound | Some s \<Rightarrow> Inr s))"

definition UpdateSession :: "identity_store \<Rightarrow> session \<Rightarrow> store_failure + identity_store" where
  "UpdateSession st s =
     (case mget (iy_sessions st) (ss_ID s) of
        None \<Rightarrow> Inl RecordNotFound
      | Some current \<Rightarrow>
          let byRefresh = (if ss_RefreshTokenHash current \<noteq> [] \<and> ss_RefreshTokenHash current \<noteq> ss_RefreshTokenHash s
                then mdel (ss_RefreshTokenHash current) (iy_sessionByRefresh st) else iy_sessionByRefresh st)
          in Inr (st\<lparr>iy_sessions := mput (ss_ID s) s (iy_sessions st),
                iy_sessionByRefresh := mput (ss_RefreshTokenHash s) (ss_ID s) byRefresh\<rparr>))"

section \<open>The service\<close>

datatype identity_error =
    InvalidCredentials | Unauthorized | SessionExpired | UserDisabled | UserLocked
  | NewRefreshTokenFailed | SaveSessionFailed store_failure | UpdateSessionFailed store_failure
  | UpdateLastLoginFailed store_failure | UpdateLocaleFailed store_failure | LogoutFailed store_failure

record identity_service =
  iv_signer :: token_signer
  iv_accessTTL :: duration
  iv_refreshTTL :: duration

text \<open>
  What an operation reads from outside: the clock at the check of a stored session, at the
  issue of a session and at the signing of the token, what \<^verbatim>\<open>rand.Read\<close> gives, and the identifier
  \<^verbatim>\<open>uuidx.New\<close> makes.
\<close>

record request_env =
  ie_checkNow :: gotime
  ie_now :: gotime
  ie_tokenNow :: gotime
  ie_random :: "nat \<Rightarrow> rawbytes option"
  ie_newID :: string

definition validateUserStatus :: "user \<Rightarrow> identity_error option" where
  "validateUserStatus u = (case us_Status u of UsActive \<Rightarrow> None | UsLocked \<Rightarrow> Some UserLocked | _ \<Rightarrow> Some UserDisabled)"

definition issued_session :: "identity_service \<Rightarrow> request_env \<Rightarrow> user \<Rightarrow> session_metadata \<Rightarrow> session \<Rightarrow> string \<Rightarrow> session" where
  "issued_session sv env u metadata existing refreshToken =
     (let now = ie_now env;
          s = (if ss_ID existing = [] then empty_session\<lparr>ss_ID := ie_newID env, ss_TenantID := us_TenantID u,
                 ss_UserID := us_ID u, ss_CreatedAt := now\<rparr> else existing)
      in s\<lparr>ss_ClientIP := sm_ClientIP metadata, ss_UserAgent := sm_UserAgent metadata, ss_Status := SsActive,
           ss_RefreshTokenHash := HashRefreshToken refreshToken, ss_IssuedAt := now, ss_LastSeenAt := now,
           ss_ExpiresAt := now + iv_refreshTTL sv, ss_UpdatedAt := now,
           ss_RevokedAt := (if zeroTime < ss_RevokedAt s then zeroTime else ss_RevokedAt s)\<rparr>)"

definition issueSession ::
  "identity_service \<Rightarrow> identity_store \<Rightarrow> request_env \<Rightarrow> user \<Rightarrow> session_metadata \<Rightarrow> session
     \<Rightarrow> (identity_error + login_result) \<times> identity_store" where
  "issueSession sv st env u metadata existing =
     (case NewRefreshToken (ie_random env) of
        None \<Rightarrow> (Inl NewRefreshTokenFailed, st)
      | Some refreshToken \<Rightarrow>
      let s = issued_session sv env u metadata existing refreshToken in
      (case (if ss_ID existing = []
             then (case SaveSession st s of Inl e \<Rightarrow> Inl (SaveSessionFailed e) | Inr st1 \<Rightarrow> Inr st1)
             else (case UpdateSession st s of Inl e \<Rightarrow> Inl (UpdateSessionFailed e) | Inr st1 \<Rightarrow> Inr st1)) of
        Inl e \<Rightarrow> (Inl e, st)
      | Inr st1 \<Rightarrow>
      let u2 = u\<lparr>us_LastLoginAt := ie_now env, us_UpdatedAt := ie_now env\<rparr> in
      (case UpdateUser st1 u2 of
        Inl e \<Rightarrow> (Inl (UpdateLastLoginFailed e), st1)
      | Inr st2 \<Rightarrow>
      let (accessToken, expiresIn) = IssueAccessToken (iv_signer sv) u2 s (iv_accessTTL sv) (ie_tokenNow env)
      in (Inr \<lparr>lr_AccessToken = accessToken, lr_RefreshToken = refreshToken, lr_ExpiresIn = expiresIn,
               lr_AuthenticatedUser = \<lparr>an_User = u2, an_Session = s\<rparr>\<rparr>, st2))))"

definition Login ::
  "identity_service \<Rightarrow> identity_store \<Rightarrow> request_env \<Rightarrow> string \<Rightarrow> string \<Rightarrow> session_metadata
     \<Rightarrow> (identity_error + login_result) \<times> identity_store" where
  "Login sv st env username password metadata =
     (case FindByUsername st username of
        Inl _ \<Rightarrow> (Inl InvalidCredentials, st)
      | Inr u \<Rightarrow>
      (case validateUserStatus u of
        Some e \<Rightarrow> (Inl e, st)
      | None \<Rightarrow>
      (case FindPasswordCredential st (us_ID u) of
        Inl _ \<Rightarrow> (Inl InvalidCredentials, st)
      | Inr cred \<Rightarrow>
      (case VerifyPassword (cd_PasswordHash cred) password of
        Inl _ \<Rightarrow> (Inl InvalidCredentials, st)
      | Inr ok \<Rightarrow>
          if \<not> ok then (Inl InvalidCredentials, st)
          else issueSession sv st env u metadata empty_session))))"

text \<open>The first half of \<open>Refresh\<close>, which only reads the store.\<close>

definition refresh_lookup :: "identity_store \<Rightarrow> gotime \<Rightarrow> string \<Rightarrow> identity_error + user \<times> session" where
  "refresh_lookup st now refreshToken =
     (case FindByRefreshTokenHash st (HashRefreshToken refreshToken) of
        Inl _ \<Rightarrow> Inl Unauthorized
      | Inr s \<Rightarrow>
          if ss_Status s \<noteq> SsActive \<or> ss_ExpiresAt s < now then Inl SessionExpired
          else (case FindUserByID st (ss_UserID s) of
            Inl _ \<Rightarrow> Inl Unauthorized
          | Inr u \<Rightarrow> (case validateUserStatus u of Some e \<Rightarrow> Inl e | None \<Rightarrow> Inr (u, s))))"

definition Refresh ::
  "identity_service \<Rightarrow> identity_store \<Rightarrow> request_env \<Rightarrow> string \<Rightarrow> session_metadata
     \<Rightarrow> (identity_error + login_result) \<times> identity_store" where
  "Refresh sv st env refreshToken metadata =
     (case refresh_lookup st (ie_checkNow env) refreshToken of
        Inl e \<Rightarrow> (Inl e, st)
      | Inr (u, s) \<Rightarrow> issueSession sv st env u metadata s)"

definition AuthenticateAccessToken ::
  "identity_service \<Rightarrow> identity_store \<Rightarrow> gotime \<Rightarrow> gotime \<Rightarrow> string \<Rightarrow> identity_error + authenticated_user" where
  "AuthenticateAccessToken sv st tokenNow now accessToken =
     (case VerifyAccessToken (iv_signer sv) accessToken tokenNow of
        Inl e \<Rightarrow> Inl (if e = AccessTokenExpired then SessionExpired else Unauthorized)
      | Inr claims \<Rightarrow>
      (case FindSessionByID st (tc_Session claims) of
        Inl _ \<Rightarrow> Inl Unauthorized
      | Inr s \<Rightarrow>
      if ss_Status s \<noteq> SsActive \<or> ss_ExpiresAt s < now then Inl SessionExpired else
      (case FindUserByID st (tc_Subject claims) of
        Inl _ \<Rightarrow> Inl Unauthorized
      | Inr u \<Rightarrow> (case validateUserStatus u of Some e \<Rightarrow> Inl e | None \<Rightarrow> Inr \<lparr>an_User = u, an_Session = s\<rparr>))))"

definition Logout :: "identity_store \<Rightarrow> gotime \<Rightarrow> string \<Rightarrow> identity_error option \<times> identity_store" where
  "Logout st now sessionID =
     (case FindSessionByID st sessionID of
        Inl _ \<Rightarrow> (Some Unauthorized, st)
      | Inr s \<Rightarrow>
          (case UpdateSession st (s\<lparr>ss_Status := SsRevoked, ss_RevokedAt := now, ss_UpdatedAt := now\<rparr>) of
             Inl e \<Rightarrow> (Some (LogoutFailed e), st)
           | Inr st2 \<Rightarrow> (None, st2)))"

definition UpdateLocale :: "identity_store \<Rightarrow> gotime \<Rightarrow> string \<Rightarrow> string \<Rightarrow> (identity_error + user) \<times> identity_store" where
  "UpdateLocale st now userID locale =
     (case FindUserByID st userID of
        Inl _ \<Rightarrow> (Inl Unauthorized, st)
      | Inr u \<Rightarrow>
      (case validateUserStatus u of
        Some e \<Rightarrow> (Inl e, st)
      | None \<Rightarrow>
      let u2 = u\<lparr>us_Locale := locale, us_UpdatedAt := now\<rparr> in
      (case UpdateUser st u2 of
        Inl e \<Rightarrow> (Inl (UpdateLocaleFailed e), st)
      | Inr st2 \<Rightarrow> (Inr u2, st2))))"

end
