(* ===== verification/Sessions.thy ===== *)
theory Sessions
  imports Identity
begin

text \<open>
  The contract of a session repository as a locale, and its interpretation on the in-memory store.
\<close>

section \<open>The contract of a session repository\<close>

text \<open>
  \<open>by_hash\<close> is used only for hashes that are not empty. \<open>good\<close> is the invariant of the provider.
\<close>

locale session_repository =
  fixes good :: "'s \<Rightarrow> bool"
    and by_id :: "'s \<Rightarrow> string \<Rightarrow> store_failure + session"
    and by_hash :: "'s \<Rightarrow> string \<Rightarrow> store_failure + session"
    and save :: "'s \<Rightarrow> session \<Rightarrow> store_failure + 's"
    and update :: "'s \<Rightarrow> session \<Rightarrow> store_failure + 's"
  assumes id_sound: "good st \<Longrightarrow> by_id st i = Inr s \<Longrightarrow> ss_ID s = i"
    and hash_sound: "good st \<Longrightarrow> h \<noteq> [] \<Longrightarrow> by_hash st h = Inr s \<Longrightarrow> ss_RefreshTokenHash s = h \<and> by_id st (ss_ID s) = Inr s"
    and save_ok: "save st s = Inr st' \<Longrightarrow> by_id st i = Inr t \<Longrightarrow> by_id st' i = Inr t \<and> ss_ID s \<noteq> i"
    and save_new: "save st s = Inr st' \<Longrightarrow> by_id st' (ss_ID s) = Inr s"
    and save_good: "good st \<Longrightarrow> save st s = Inr st' \<Longrightarrow> good st'"
    and update_id: "update st s = Inr st' \<Longrightarrow> by_id st' i = (if i = ss_ID s then Inr s else by_id st i)"
    and update_good: "good st \<Longrightarrow> update st s = Inr st' \<Longrightarrow> good st'"
    and update_hash: "good st \<Longrightarrow> update st s = Inr st' \<Longrightarrow> h \<noteq> [] \<Longrightarrow> by_id st (ss_ID s) = Inr cur \<Longrightarrow>
      by_hash st' h = (if h = ss_RefreshTokenHash s then Inr s
                       else if h = ss_RefreshTokenHash cur then Inl RecordNotFound else by_hash st h)"
begin

lemma rotated:
  assumes "good st" "h \<noteq> []" "by_hash st h = Inr s" "update st s' = Inr st'" "ss_ID s' = ss_ID s" "ss_RefreshTokenHash s' \<noteq> h"
  shows "by_hash st' h = Inl RecordNotFound"
  using hash_sound [OF assms(1-3)] update_hash [OF assms(1,4,2), of s] assms(5,6) by auto

lemma found_after_update:
  "good st \<Longrightarrow> update st s = Inr st' \<Longrightarrow> ss_RefreshTokenHash s \<noteq> [] \<Longrightarrow> by_id st (ss_ID s) = Inr cur \<Longrightarrow>
     by_hash st' (ss_RefreshTokenHash s) = Inr s"
  using update_hash by simp

text \<open>A session that is not active stays so as long as only active sessions are replaced by active ones.\<close>

lemma ended_stays:
  assumes "good st" "by_id st i = Inr t" "ss_Status t \<noteq> SsActive"
    and "update st s = Inr st'" "ss_Status s = SsActive \<Longrightarrow> \<exists>cur. by_id st (ss_ID s) = Inr cur \<and> ss_Status cur = SsActive"
  shows "\<exists>t'. by_id st' i = Inr t' \<and> ss_Status t' \<noteq> SsActive"
  using assms update_id [OF assms(4), of i] by auto

end

section \<open>The in-memory store keeps it\<close>

definition good_sessions :: "identity_store \<Rightarrow> bool" where
  "good_sessions st \<longleftrightarrow>
     (\<forall>i s. mget (iy_sessions st) i = Some s \<longrightarrow> ss_ID s = i) \<and>
     (\<forall>h i. h \<noteq> [] \<longrightarrow> mget (iy_sessionByRefresh st) h = Some i \<longrightarrow>
       (\<exists>s. mget (iy_sessions st) i = Some s \<and> ss_RefreshTokenHash s = h))"

lemma good_sessionsD:
  "good_sessions st \<Longrightarrow> mget (iy_sessions st) i = Some s \<Longrightarrow> ss_ID s = i"
  "good_sessions st \<Longrightarrow> h \<noteq> [] \<Longrightarrow> mget (iy_sessionByRefresh st) h = Some i \<Longrightarrow>
     \<exists>s. mget (iy_sessions st) i = Some s \<and> ss_RefreshTokenHash s = h"
  by (auto simp: good_sessions_def)

lemma find_id_iff: "FindSessionByID st i = Inr s \<longleftrightarrow> mget (iy_sessions st) i = Some s"
  by (simp add: FindSessionByID_def split: option.splits)

lemma find_hash_iff: "FindByRefreshTokenHash st h = Inr s \<longleftrightarrow>
    (\<exists>i. mget (iy_sessionByRefresh st) h = Some i \<and> mget (iy_sessions st) i = Some s)"
  by (simp add: FindByRefreshTokenHash_def split: option.splits)

lemma hash_sound:
  assumes "good_sessions st" "h \<noteq> []" "FindByRefreshTokenHash st h = Inr s"
  shows "ss_RefreshTokenHash s = h \<and> FindSessionByID st (ss_ID s) = Inr s"
proof -
  from assms(3) obtain i where i: "mget (iy_sessionByRefresh st) h = Some i" "mget (iy_sessions st) i = Some s"
    by (auto simp: find_hash_iff)
  with good_sessionsD(1) [OF assms(1) i(2)] good_sessionsD(2) [OF assms(1,2) i(1)] show ?thesis by (simp add: find_id_iff)
qed

lemma goodI:
  assumes "\<And>i s. mget (iy_sessions st) i = Some s \<Longrightarrow> ss_ID s = i"
    and "\<And>h i. h \<noteq> [] \<Longrightarrow> mget (iy_sessionByRefresh st) h = Some i \<Longrightarrow>
       \<exists>s. mget (iy_sessions st) i = Some s \<and> ss_RefreshTokenHash s = h"
  shows "good_sessions st"
  using assms by (simp add: good_sessions_def)

lemma save_cases:
  "SaveSession st s = Inr st' \<Longrightarrow> mget (iy_sessions st) (ss_ID s) = None \<and> iy_sessions st' = mput (ss_ID s) s (iy_sessions st) \<and>
     iy_sessionByRefresh st' = mput (ss_RefreshTokenHash s) (ss_ID s) (iy_sessionByRefresh st)"
  by (auto simp: SaveSession_def split: option.splits)

lemma update_cases:
  assumes "UpdateSession st s = Inr st'"
  shows "\<exists>cur. mget (iy_sessions st) (ss_ID s) = Some cur \<and> iy_sessions st' = mput (ss_ID s) s (iy_sessions st) \<and>
       iy_sessionByRefresh st' = mput (ss_RefreshTokenHash s) (ss_ID s)
         (if ss_RefreshTokenHash cur \<noteq> [] \<and> ss_RefreshTokenHash cur \<noteq> ss_RefreshTokenHash s
          then mdel (ss_RefreshTokenHash cur) (iy_sessionByRefresh st) else iy_sessionByRefresh st)"
proof (cases "mget (iy_sessions st) (ss_ID s)")
  case None
  with assms show ?thesis by (simp add: UpdateSession_def)
next
  case (Some cur)
  define m where "m = (if ss_RefreshTokenHash cur \<noteq> [] \<and> ss_RefreshTokenHash cur \<noteq> ss_RefreshTokenHash s
     then mdel (ss_RefreshTokenHash cur) (iy_sessionByRefresh st) else iy_sessionByRefresh st)"
  from Some assms have "st' = st\<lparr>iy_sessions := mput (ss_ID s) s (iy_sessions st),
      iy_sessionByRefresh := mput (ss_RefreshTokenHash s) (ss_ID s) m\<rparr>"
    by (simp only: UpdateSession_def Let_def option.case sum.inject m_def)
  then show ?thesis using Some by (intro exI [of _ cur] conjI) (simp_all add: m_def)
qed

lemma save_good: "good_sessions st \<Longrightarrow> SaveSession st s = Inr st' \<Longrightarrow> good_sessions st'"
proof (rule goodI)
  assume g: "good_sessions st" and u: "SaveSession st s = Inr st'"
  note c = save_cases [OF u]
  show "ss_ID t = i" if "mget (iy_sessions st') i = Some t" for i t
    using that c good_sessionsD(1) [OF g, of i t] by (cases "i = ss_ID s") simp_all
  show "\<exists>t. mget (iy_sessions st') i = Some t \<and> ss_RefreshTokenHash t = h"
    if h: "h \<noteq> []" "mget (iy_sessionByRefresh st') h = Some i" for h i
  proof (cases "h = ss_RefreshTokenHash s")
    case False
    with h c have "mget (iy_sessionByRefresh st) h = Some i" by simp
    from good_sessionsD(2) [OF g h(1) this] obtain t where "mget (iy_sessions st) i = Some t" "ss_RefreshTokenHash t = h" by blast
    moreover from this c have "i \<noteq> ss_ID s" by auto
    ultimately show ?thesis using c by simp
  qed (use h c in simp)
qed

lemma update_good: "good_sessions st \<Longrightarrow> UpdateSession st s = Inr st' \<Longrightarrow> good_sessions st'"
proof (rule goodI)
  assume g: "good_sessions st" and u: "UpdateSession st s = Inr st'"
  from update_cases [OF u] obtain cur where
    c: "mget (iy_sessions st) (ss_ID s) = Some cur" "iy_sessions st' = mput (ss_ID s) s (iy_sessions st)"
    and r: "iy_sessionByRefresh st' = mput (ss_RefreshTokenHash s) (ss_ID s)
         (if ss_RefreshTokenHash cur \<noteq> [] \<and> ss_RefreshTokenHash cur \<noteq> ss_RefreshTokenHash s
          then mdel (ss_RefreshTokenHash cur) (iy_sessionByRefresh st) else iy_sessionByRefresh st)" by blast
  show "ss_ID t = i" if "mget (iy_sessions st') i = Some t" for i t
    using that c(2) good_sessionsD(1) [OF g, of i t] by (cases "i = ss_ID s") simp_all
  show "\<exists>t. mget (iy_sessions st') i = Some t \<and> ss_RefreshTokenHash t = h"
    if h: "h \<noteq> []" "mget (iy_sessionByRefresh st') h = Some i" for h i
  proof (cases "h = ss_RefreshTokenHash s")
    case False
    with h r have m: "mget (iy_sessionByRefresh st) h = Some i" "h \<noteq> ss_RefreshTokenHash cur" by (auto split: if_splits)
    from good_sessionsD(2) [OF g h(1) m(1)] obtain t where t: "mget (iy_sessions st) i = Some t" "ss_RefreshTokenHash t = h" by blast
    with c(1) m(2) have "i \<noteq> ss_ID s" by auto
    with t c(2) show ?thesis by simp
  qed (use h c(2) r in simp)
qed

lemma update_hash:
  assumes "good_sessions st" "UpdateSession st s = Inr st'" "h \<noteq> []" "FindSessionByID st (ss_ID s) = Inr cur"
  shows "FindByRefreshTokenHash st' h = (if h = ss_RefreshTokenHash s then Inr s
    else if h = ss_RefreshTokenHash cur then Inl RecordNotFound else FindByRefreshTokenHash st h)"
proof -
  have cur: "mget (iy_sessions st) (ss_ID s) = Some cur" using assms(4) by (simp add: find_id_iff)
  with update_cases [OF assms(2)] have c: "iy_sessions st' = mput (ss_ID s) s (iy_sessions st)"
    and r: "iy_sessionByRefresh st' = mput (ss_RefreshTokenHash s) (ss_ID s)
         (if ss_RefreshTokenHash cur \<noteq> [] \<and> ss_RefreshTokenHash cur \<noteq> ss_RefreshTokenHash s
          then mdel (ss_RefreshTokenHash cur) (iy_sessionByRefresh st) else iy_sessionByRefresh st)" by simp_all
  have other: "i \<noteq> ss_ID s" if "mget (iy_sessionByRefresh st) h = Some i" "h \<noteq> ss_RefreshTokenHash cur" for i
    using good_sessionsD(2) [OF assms(1,3) that(1)] cur that(2) by auto
  consider "h = ss_RefreshTokenHash s" | "h \<noteq> ss_RefreshTokenHash s" "h = ss_RefreshTokenHash cur"
    | "h \<noteq> ss_RefreshTokenHash s" "h \<noteq> ss_RefreshTokenHash cur" by blast
  then show ?thesis
  proof cases
    case 3
    then show ?thesis using c r other by (cases "mget (iy_sessionByRefresh st) h") (simp_all add: FindByRefreshTokenHash_def)
  qed (use assms(3) c r in \<open>simp_all add: FindByRefreshTokenHash_def\<close>)
qed

interpretation sr: session_repository good_sessions FindSessionByID FindByRefreshTokenHash SaveSession UpdateSession
proof
  fix st st' :: identity_store and s t :: session and h i :: string
  show "good_sessions st \<Longrightarrow> FindSessionByID st i = Inr s \<Longrightarrow> ss_ID s = i"
    by (simp add: find_id_iff good_sessionsD)
  show "SaveSession st s = Inr st' \<Longrightarrow> FindSessionByID st i = Inr t \<Longrightarrow> FindSessionByID st' i = Inr t \<and> ss_ID s \<noteq> i"
    using save_cases [of st s st'] by (auto simp: find_id_iff)
  show "SaveSession st s = Inr st' \<Longrightarrow> FindSessionByID st' (ss_ID s) = Inr s"
    using save_cases [of st s st'] by (simp add: find_id_iff)
  show "UpdateSession st s = Inr st' \<Longrightarrow> FindSessionByID st' i = (if i = ss_ID s then Inr s else FindSessionByID st i)"
    using update_cases [of st s st'] by (auto simp: FindSessionByID_def)
qed (rule hash_sound save_good update_good update_hash; assumption)+

lemma hash_index_seed:
  "mget (fold (\<lambda>s m. if ss_RefreshTokenHash s \<noteq> [] then mput (ss_RefreshTokenHash s) (ss_ID s) m else m) ss m) h = Some i \<Longrightarrow>
     mget m h = Some i \<or> (\<exists>s \<in> set ss. ss_ID s = i \<and> ss_RefreshTokenHash s = h)"
proof (induction ss arbitrary: m)
  case (Cons s ss)
  from Cons.IH [of "if ss_RefreshTokenHash s \<noteq> [] then mput (ss_RefreshTokenHash s) (ss_ID s) m else m"] Cons.prems
  show ?case by (auto split: if_splits)
qed simp

lemma seed_good:
  assumes "distinct (map ss_ID (is_Sessions seed))"
  shows "good_sessions (NewIdentityStore seed)"
proof (rule goodI)
  note d = index_by_distinct [OF assms]
  show "ss_ID s = i" if "mget (iy_sessions (NewIdentityStore seed)) i = Some s" for i s
    using that d by (simp add: NewIdentityStore_def)
  show "\<exists>s. mget (iy_sessions (NewIdentityStore seed)) i = Some s \<and> ss_RefreshTokenHash s = h"
    if "mget (iy_sessionByRefresh (NewIdentityStore seed)) h = Some i" for h i
    using hash_index_seed [of "is_Sessions seed" "[]" h i] that d by (auto simp: NewIdentityStore_def)
qed

end
