(* ===== verification/IdentityProps.thy ===== *)
theory IdentityProps
  imports Sessions
begin

text \<open>
  The life of sessions: rotation of refresh tokens, revocation that lasts, a login whose token
  authenticates, and what a refresh that races with a logout does.
\<close>

section \<open>Issuing a session\<close>

definition same_sessions :: "identity_store \<Rightarrow> identity_store \<Rightarrow> bool" where
  "same_sessions a b = (iy_sessions a = iy_sessions b \<and> iy_sessionByRefresh a = iy_sessionByRefresh b)"

lemma same_sessions_find:
  "same_sessions a b \<Longrightarrow> FindSessionByID a i = FindSessionByID b i"
  "same_sessions a b \<Longrightarrow> FindByRefreshTokenHash a h = FindByRefreshTokenHash b h"
  "same_sessions a b \<Longrightarrow> good_sessions a = good_sessions b"
  by (simp_all add: same_sessions_def FindSessionByID_def FindByRefreshTokenHash_def good_sessions_def cong: option.case_cong)

lemma update_user: "UpdateUser st u = Inr st' \<Longrightarrow> same_sessions st' st \<and> FindUserByID st' (us_ID u) = Inr u"
  by (auto simp: UpdateUser_def same_sessions_def FindUserByID_def split: option.splits)

definition stored_session :: "identity_store \<Rightarrow> session \<Rightarrow> session \<Rightarrow> store_failure + identity_store" where
  "stored_session st existing s = (if ss_ID existing = [] then SaveSession st s else UpdateSession st s)"

lemma issue_ok:
  assumes "issueSession sv st env u metadata existing = (Inr r, st')"
  shows "\<exists>refreshToken st1. NewRefreshToken (ie_random env) = Some refreshToken \<and>
    stored_session st existing (issued_session sv env u metadata existing refreshToken) = Inr st1 \<and>
    UpdateUser st1 (u\<lparr>us_LastLoginAt := ie_now env, us_UpdatedAt := ie_now env\<rparr>) = Inr st' \<and>
    lr_RefreshToken r = refreshToken \<and>
    lr_AccessToken r = fst (IssueAccessToken (iv_signer sv) (u\<lparr>us_LastLoginAt := ie_now env, us_UpdatedAt := ie_now env\<rparr>)
      (issued_session sv env u metadata existing refreshToken) (iv_accessTTL sv) (ie_tokenNow env)) \<and>
    lr_AuthenticatedUser r = \<lparr>an_User = u\<lparr>us_LastLoginAt := ie_now env, us_UpdatedAt := ie_now env\<rparr>,
      an_Session = issued_session sv env u metadata existing refreshToken\<rparr>"
  using assms
  by (auto simp: issueSession_def Let_def stored_session_def split: option.splits sum.splits if_splits prod.splits)

lemma issue_store:
  "same_sessions (snd (issueSession sv st env u metadata existing)) st \<or>
   (\<exists>refreshToken st1. stored_session st existing (issued_session sv env u metadata existing refreshToken) = Inr st1 \<and>
      same_sessions (snd (issueSession sv st env u metadata existing)) st1)"
proof (cases "NewRefreshToken (ie_random env)")
  case None
  then show ?thesis by (simp add: issueSession_def same_sessions_def)
next
  case (Some tok)
  define s where "s = issued_session sv env u metadata existing tok"
  show ?thesis
  proof (cases "stored_session st existing s")
    case (Inl e)
    with Some show ?thesis by (auto simp: issueSession_def Let_def s_def stored_session_def same_sessions_def split: if_splits)
  next
    case (Inr st1)
    with Some have "snd (issueSession sv st env u metadata existing) =
        (case UpdateUser st1 (u\<lparr>us_LastLoginAt := ie_now env, us_UpdatedAt := ie_now env\<rparr>) of Inl _ \<Rightarrow> st1 | Inr st2 \<Rightarrow> st2)"
      by (auto simp: issueSession_def Let_def s_def stored_session_def split: if_splits sum.splits prod.splits)
    then have "same_sessions (snd (issueSession sv st env u metadata existing)) st1"
      using update_user by (auto simp: same_sessions_def split: sum.splits)
    with Inr show ?thesis by (auto simp: s_def)
  qed
qed

lemma issued_fields:
  "ss_Status (issued_session sv env u metadata existing tok) = SsActive"
  "ss_RefreshTokenHash (issued_session sv env u metadata existing tok) = HashRefreshToken tok"
  "ss_ExpiresAt (issued_session sv env u metadata existing tok) = ie_now env + iv_refreshTTL sv"
  "ss_ID (issued_session sv env u metadata existing tok) = (if ss_ID existing = [] then ie_newID env else ss_ID existing)"
  "ss_UserID (issued_session sv env u metadata existing tok) = (if ss_ID existing = [] then us_ID u else ss_UserID existing)"
  "ss_CreatedAt (issued_session sv env u metadata existing tok) = (if ss_ID existing = [] then ie_now env else ss_CreatedAt existing)"
  by (simp_all add: issued_session_def Let_def empty_session_def)

lemma hash_nonempty: "HashRefreshToken tok \<noteq> []"
proof -
  have "b64_encode al bs \<noteq> []" if "bs \<noteq> []" for al bs using that by (cases "(al, bs)" rule: b64_encode.cases) (auto simp: Let_def)
  moreover have "sha256 (string_bytes tok) \<noteq> []" using length_sha256 [of "string_bytes tok"] by fastforce
  ultimately show ?thesis by (simp add: HashRefreshToken_def)
qed

lemma lookup_ok:
  "refresh_lookup st now tok = Inr (u, s) \<longleftrightarrow>
     FindByRefreshTokenHash st (HashRefreshToken tok) = Inr s \<and> ss_Status s = SsActive \<and> now \<le> ss_ExpiresAt s \<and>
     FindUserByID st (ss_UserID s) = Inr u \<and> us_Status u = UsActive"
  by (auto simp: refresh_lookup_def validateUserStatus_def split: sum.splits option.splits user_status.splits)

section \<open>Requests one after another\<close>

inductive identity_step :: "identity_service \<Rightarrow> identity_store \<Rightarrow> identity_store \<Rightarrow> bool" for sv where
  login: "identity_step sv st (snd (Login sv st env username password metadata))"
| refresh: "identity_step sv st (snd (Refresh sv st env refreshToken metadata))"
| logout: "identity_step sv st (snd (Logout st now sessionID))"
| language: "identity_step sv st (snd (UpdateLocale st now userID loc))"

definition ended_session :: "identity_store \<Rightarrow> string \<Rightarrow> bool" where
  "ended_session st i = (\<exists>s. FindSessionByID st i = Inr s \<and> ss_Status s \<noteq> SsActive)"

lemma issue_keeps:
  assumes "good_sessions st"
    and "ss_ID existing = [] \<or> (\<exists>cur. FindSessionByID st (ss_ID existing) = Inr cur \<and> ss_Status cur = SsActive)"
  shows "good_sessions (snd (issueSession sv st env u metadata existing))"
    "ended_session st i \<Longrightarrow> ended_session (snd (issueSession sv st env u metadata existing)) i"
proof -
  have "good_sessions (snd (issueSession sv st env u metadata existing)) \<and>
    (ended_session st i \<longrightarrow> ended_session (snd (issueSession sv st env u metadata existing)) i)"
    using issue_store [of sv st env u metadata existing]
  proof (elim disjE exE conjE)
    assume "same_sessions (snd (issueSession sv st env u metadata existing)) st"
    with assms(1) show ?thesis by (simp add: same_sessions_find ended_session_def)
  next
    fix tok st1
    define s where "s = issued_session sv env u metadata existing tok"
    assume "stored_session st existing (issued_session sv env u metadata existing tok) = Inr st1"
      and same: "same_sessions (snd (issueSession sv st env u metadata existing)) st1"
    then have st: "stored_session st existing s = Inr st1" by (simp add: s_def)
    have "good_sessions st1 \<and> (ended_session st i \<longrightarrow> ended_session st1 i)"
    proof (cases "ss_ID existing = []")
      case True
      with st have "SaveSession st s = Inr st1" by (simp add: stored_session_def)
      with assms(1) sr.save_ok sr.save_good show ?thesis unfolding ended_session_def by blast
    next
      case False
      with st have up: "UpdateSession st s = Inr st1" by (simp add: stored_session_def)
      have "ss_ID s = ss_ID existing" using False by (simp add: s_def issued_fields)
      with False assms(2) have "\<exists>cur. FindSessionByID st (ss_ID s) = Inr cur \<and> ss_Status cur = SsActive" by simp
      with sr.ended_stays [OF assms(1) _ _ up] sr.update_good [OF assms(1) up] show ?thesis
        unfolding ended_session_def by blast
    qed
    then show ?thesis using same by (simp add: same_sessions_find ended_session_def)
  qed
  then show "good_sessions (snd (issueSession sv st env u metadata existing))"
    "ended_session st i \<Longrightarrow> ended_session (snd (issueSession sv st env u metadata existing)) i" by blast+
qed

lemma step_keeps:
  assumes "identity_step sv st st'" "good_sessions st"
  shows "good_sessions st' \<and> (ended_session st i \<longrightarrow> ended_session st' i)"
  using assms
proof cases
  case (login env username password metadata)
  have "snd (Login sv st env username password metadata) = st \<or>
      (\<exists>u. snd (Login sv st env username password metadata) = snd (issueSession sv st env u metadata empty_session))"
    by (auto simp: Login_def split: sum.splits option.splits)
  with login issue_keeps [OF assms(2), of empty_session] assms(2) show ?thesis by (auto simp: empty_session_def)
next
  case (refresh env refreshToken metadata)
  show ?thesis
  proof (cases "refresh_lookup st (ie_checkNow env) refreshToken")
    case (Inl e)
    with refresh assms(2) show ?thesis by (simp add: Refresh_def)
  next
    case (Inr us)
    then obtain u s where l: "refresh_lookup st (ie_checkNow env) refreshToken = Inr (u, s)" by (cases us) auto
    then have "FindSessionByID st (ss_ID s) = Inr s \<and> ss_Status s = SsActive"
      using sr.hash_sound [OF assms(2) hash_nonempty] by (auto simp: lookup_ok)
    with issue_keeps [OF assms(2), of s] refresh l show ?thesis by (auto simp: Refresh_def)
  qed
next
  case (logout now sessionID)
  show ?thesis
  proof (cases "FindSessionByID st sessionID")
    case (Inl e)
    with logout assms(2) show ?thesis by (simp add: Logout_def)
  next
    case (Inr s)
    define t where "t = s\<lparr>ss_Status := SsRevoked, ss_RevokedAt := now, ss_UpdatedAt := now\<rparr>"
    show ?thesis
    proof (cases "UpdateSession st t")
      case (Inl e)
      with logout Inr assms(2) show ?thesis by (simp add: Logout_def t_def)
    next
      case (Inr st2)
      with logout \<open>FindSessionByID st sessionID = Inr s\<close> have "st' = st2" by (simp add: Logout_def t_def)
      moreover have "ss_Status t \<noteq> SsActive" by (simp add: t_def)
      ultimately show ?thesis using sr.update_good [OF assms(2) Inr] sr.ended_stays [OF assms(2) _ _ Inr, of i]
        unfolding ended_session_def by blast
    qed
  qed
next
  case (language now userID loc)
  have "same_sessions st' st"
    unfolding language using update_user
    by (auto simp: UpdateLocale_def Let_def same_sessions_def split: sum.splits option.splits)
  with assms(2) show ?thesis by (simp add: same_sessions_find ended_session_def)
qed

lemma steps_keep:
  assumes "(identity_step sv)\<^sup>*\<^sup>* st st'" "good_sessions st"
  shows "good_sessions st' \<and> (ended_session st i \<longrightarrow> ended_session st' i)"
  using assms by (induction rule: rtranclp_induct) (auto dest: step_keeps [where i = i])

section \<open>A sample store\<close>

definition sample_identities :: "string \<Rightarrow> identity_store" where
  "sample_identities passwordHash = NewIdentityStore \<lparr>is_Users = [sample_user],
     is_Credentials = [\<lparr>cd_ID = ''c1'', cd_UserID = ''u1'', cd_CredentialType = ''password'', cd_PasswordHash = passwordHash,
       cd_PasswordAlgoVersion = 1, cd_MustChangePassword = False, cd_PasswordUpdatedAt = zeroTime, cd_CreatedAt = zeroTime,
       cd_UpdatedAt = zeroTime\<rparr>],
     is_Sessions = [sample_session]\<rparr>"

definition sample_identity_service :: identity_service where
  "sample_identity_service = \<lparr>iv_signer = NewTokenSigner ''key'' ''iss'', iv_accessTTL = 60 * second_ns, iv_refreshTTL = 1000\<rparr>"

definition sample_env :: request_env where
  "sample_env = \<lparr>ie_checkNow = 10, ie_now = 20, ie_tokenNow = 30, ie_random = (\<lambda>n. Some (replicate n 7)), ie_newID = ''s2''\<rparr>"

definition no_metadata :: session_metadata where
  "no_metadata = \<lparr>sm_ClientIP = [], sm_UserAgent = []\<rparr>"

lemma sample_finds:
  "good_sessions (sample_identities p)"
  "FindSessionByID (sample_identities p) [] = Inl RecordNotFound"
  "FindSessionByID (sample_identities p) ''s1'' = Inr sample_session"
  "FindByRefreshTokenHash (sample_identities p) (HashRefreshToken ''r1'') = Inr sample_session"
  "FindUserByID (sample_identities p) ''u1'' = Inr sample_user"
  "FindByUsername (sample_identities p) ''ANN'' = Inr sample_user"
proof -
  show "good_sessions (sample_identities p)" unfolding sample_identities_def by (rule seed_good) simp
  have "ToLower ''ANN'' = ''ann''" "ToLower ''Ann'' = ''ann''" by code_simp+
  then show "FindSessionByID (sample_identities p) [] = Inl RecordNotFound"
    "FindSessionByID (sample_identities p) ''s1'' = Inr sample_session"
    "FindByRefreshTokenHash (sample_identities p) (HashRefreshToken ''r1'') = Inr sample_session"
    "FindUserByID (sample_identities p) ''u1'' = Inr sample_user"
    "FindByUsername (sample_identities p) ''ANN'' = Inr sample_user"
    using hash_nonempty [of "''r1''"]
    by (simp_all add: sample_identities_def NewIdentityStore_def index_by_def sample_session_def sample_user_def
        FindSessionByID_def FindByRefreshTokenHash_def FindUserByID_def FindByUsername_def)
qed

lemma sample_lookup: "refresh_lookup (sample_identities p) 10 ''r1'' = Inr (sample_user, sample_session)"
  unfolding lookup_ok using sample_finds [of p] by (simp add: sample_session_def sample_user_def)

lemma sample_logout: "fst (Logout (sample_identities p) 5 ''s1'') = None"
proof -
  have "mget (iy_sessions (sample_identities p)) ''s1'' = Some sample_session" using sample_finds(3) by (simp add: find_id_iff)
  then show ?thesis by (simp add: Logout_def FindSessionByID_def UpdateSession_def Let_def) (simp add: sample_session_def)
qed

text \<open>Issuing succeeds where the session and the user are stored.\<close>

lemma issue_succeeds:
  assumes "NewRefreshToken (ie_random env) = Some tok"
    and "stored_session st existing (issued_session sv env u metadata existing tok) = Inr st1"
    and "FindUserByID st1 (us_ID u) = Inr v"
  shows "\<exists>r st2. issueSession sv st env u metadata existing = (Inr r, st2)"
proof -
  have "\<exists>st2. UpdateUser st1 (u\<lparr>us_LastLoginAt := ie_now env, us_UpdatedAt := ie_now env\<rparr>) = Inr st2"
    using assms(3) by (auto simp: UpdateUser_def FindUserByID_def split: option.splits)
  with assms(1,2) show ?thesis
    by (auto simp: issueSession_def Let_def stored_session_def split: if_splits prod.splits)
qed

lemma update_users: "UpdateSession st s = Inr st' \<Longrightarrow> iy_users st' = iy_users st"
  "SaveSession st s = Inr st' \<Longrightarrow> iy_users st' = iy_users st"
  by (auto simp: UpdateSession_def SaveSession_def Let_def split: option.splits)

lemma reissue_succeeds:
  assumes "FindSessionByID st ''s1'' = Inr t" "FindUserByID st ''u1'' = Inr v"
  shows "\<exists>r st2. issueSession sample_identity_service st sample_env sample_user no_metadata sample_session = (Inr r, st2)"
proof -
  define s where "s = issued_session sample_identity_service sample_env sample_user no_metadata sample_session (b64_encode b64_url (replicate 32 7))"
  have s: "ss_ID s = ''s1''" by (simp add: s_def issued_fields) (simp add: sample_session_def)
  then obtain st1 where st1: "UpdateSession st s = Inr st1"
    using assms(1) by (auto simp: UpdateSession_def FindSessionByID_def split: option.splits)
  have "NewRefreshToken (ie_random sample_env) = Some (b64_encode b64_url (replicate 32 7))"
    by (simp add: NewRefreshToken_def sample_env_def)
  moreover have "stored_session st sample_session s = Inr st1" using st1 by (simp add: stored_session_def sample_session_def)
  moreover have "FindUserByID st1 (us_ID sample_user) = Inr v"
    using update_users(1) [OF st1] assms(2) by (simp add: FindUserByID_def sample_user_def)
  ultimately show ?thesis unfolding s_def by (rule issue_succeeds)
qed

section \<open>Rotation\<close>

lemma refresh_rotated:
  assumes "good_sessions st" "FindSessionByID st [] = Inl RecordNotFound" "Refresh sv st env token metadata = (Inr r, st')"
  shows "\<exists>old new. FindByRefreshTokenHash st (HashRefreshToken token) = Inr old \<and>
    FindByRefreshTokenHash st' (HashRefreshToken (lr_RefreshToken r)) = Inr new \<and> an_Session (lr_AuthenticatedUser r) = new \<and>
    ss_ID new = ss_ID old \<and> ss_UserID new = ss_UserID old \<and> ss_CreatedAt new = ss_CreatedAt old \<and>
    ss_Status new = SsActive \<and> ss_ExpiresAt new = ie_now env + iv_refreshTTL sv \<and>
    (HashRefreshToken token = HashRefreshToken (lr_RefreshToken r) \<or>
      (\<forall>env2 metadata2. Refresh sv st' env2 token metadata2 = (Inl Unauthorized, st')))"
proof -
  obtain u s where l: "refresh_lookup st (ie_checkNow env) token = Inr (u, s)"
    and iss: "issueSession sv st env u metadata s = (Inr r, st')"
    using assms(3) by (auto simp: Refresh_def split: sum.splits)
  have h: "FindByRefreshTokenHash st (HashRefreshToken token) = Inr s" using l by (simp add: lookup_ok)
  have s: "FindSessionByID st (ss_ID s) = Inr s" using sr.hash_sound [OF assms(1) hash_nonempty h] by simp
  then have ne: "ss_ID s \<noteq> []" using assms(2) by auto
  from issue_ok [OF iss] obtain tok st1 where
    st: "stored_session st s (issued_session sv env u metadata s tok) = Inr st1"
    and uu: "UpdateUser st1 (u\<lparr>us_LastLoginAt := ie_now env, us_UpdatedAt := ie_now env\<rparr>) = Inr st'"
    and r: "an_Session (lr_AuthenticatedUser r) = issued_session sv env u metadata s tok" "lr_RefreshToken r = tok" by auto
  define new where "new = issued_session sv env u metadata s tok"
  have new: "ss_ID new = ss_ID s" "ss_UserID new = ss_UserID s" "ss_CreatedAt new = ss_CreatedAt s" "ss_Status new = SsActive"
      "ss_ExpiresAt new = ie_now env + iv_refreshTTL sv" "ss_RefreshTokenHash new = HashRefreshToken tok"
    using ne by (simp_all add: new_def issued_fields)
  have up: "UpdateSession st new = Inr st1" using st ne by (simp add: stored_session_def new_def)
  have same: "same_sessions st' st1" using update_user [OF uu] by simp
  have f: "FindByRefreshTokenHash st' (HashRefreshToken tok) = Inr new"
    using sr.found_after_update [OF assms(1) up, of s] new(1,6) s hash_nonempty same by (simp add: same_sessions_find)
  have "Refresh sv st' env2 token metadata2 = (Inl Unauthorized, st')"
    if "HashRefreshToken token \<noteq> HashRefreshToken tok" for env2 metadata2
  proof -
    have "FindByRefreshTokenHash st' (HashRefreshToken token) = Inl RecordNotFound"
      using sr.rotated [OF assms(1) hash_nonempty h up new(1)] that same new(6) by (simp add: same_sessions_find)
    then show ?thesis by (simp add: Refresh_def refresh_lookup_def)
  qed
  with f h new r show ?thesis by (auto simp: new_def)
qed

section \<open>Properties\<close>

text \<open>C6: a logged-out session is dead for good: after a logout, whatever requests follow one after another, no access
  token authenticates as that session and no refresh token yields it again.\<close>

theorem logout_is_final:
  assumes "good_sessions st" "Logout st now i = (None, st1)" "(identity_step sv)\<^sup>*\<^sup>* st1 st2"
  shows "(\<forall>tokenNow now token a. AuthenticateAccessToken sv st2 tokenNow now token = Inr a \<longrightarrow> ss_ID (an_Session a) \<noteq> i) \<and>
    (\<forall>env token metadata r st3. Refresh sv st2 env token metadata = (Inr r, st3) \<longrightarrow>
      ss_ID (an_Session (lr_AuthenticatedUser r)) \<noteq> i)"
proof -
  have "identity_step sv st st1" using identity_step.logout [of sv st now i] assms(2) by simp
  then have g1: "good_sessions st1" using step_keeps assms(1) by blast
  obtain s where s: "FindSessionByID st i = Inr s"
      "UpdateSession st (s\<lparr>ss_Status := SsRevoked, ss_RevokedAt := now, ss_UpdatedAt := now\<rparr>) = Inr st1"
    using assms(2) by (auto simp: Logout_def split: sum.splits)
  have "ss_ID s = i" by (rule sr.id_sound [OF assms(1) s(1)])
  then have "ended_session st1 i" using sr.update_id [OF s(2), of i] by (simp add: ended_session_def)
  with steps_keep [OF assms(3) g1, of i] obtain t where g: "good_sessions st2"
    and t: "FindSessionByID st2 i = Inr t" "ss_Status t \<noteq> SsActive" by (auto simp: ended_session_def)
  have "ss_ID (an_Session a) \<noteq> i" if "AuthenticateAccessToken sv st2 tn n token = Inr a" for tn n token a
    using that t sr.id_sound [OF g] by (fastforce simp: AuthenticateAccessToken_def split: sum.splits if_splits option.splits)
  moreover have "ss_ID (an_Session (lr_AuthenticatedUser r)) \<noteq> i"
    if r: "Refresh sv st2 env token metadata = (Inr r, st3)" for env token metadata r st3
  proof -
    obtain u x where l: "refresh_lookup st2 (ie_checkNow env) token = Inr (u, x)"
      and iss: "issueSession sv st2 env u metadata x = (Inr r, st3)"
      using r by (auto simp: Refresh_def split: sum.splits)
    have x: "FindSessionByID st2 (ss_ID x) = Inr x" "ss_Status x = SsActive"
      using l sr.hash_sound [OF g hash_nonempty] by (auto simp: lookup_ok)
    from issue_ok [OF iss] obtain tok st4 where
      st: "stored_session st2 x (issued_session sv env u metadata x tok) = Inr st4"
      and r: "an_Session (lr_AuthenticatedUser r) = issued_session sv env u metadata x tok" by auto
    show ?thesis
    proof (cases "ss_ID x = []")
      case True
      with st sr.save_ok [OF _ t(1)] r show ?thesis by (simp add: stored_session_def)
    next
      case False
      with x t r show ?thesis by (auto simp: issued_fields)
    qed
  qed
  ultimately show ?thesis by blast
qed

theorem logout_is_final_witness:
  "\<not> (\<exists>token a. AuthenticateAccessToken sample_identity_service (snd (Logout (sample_identities ''h'') 5 ''s1'')) 6 6 token = Inr a \<and>
     ss_ID (an_Session a) = ''s1'')"
proof -
  define st1 where "st1 = snd (Logout (sample_identities ''h'') 5 ''s1'')"
  have "Logout (sample_identities ''h'') 5 ''s1'' = (None, st1)"
    using sample_logout [of "''h''"] by (simp add: st1_def prod_eq_iff)
  from logout_is_final [OF sample_finds(1) this rtranclp.rtrancl_refl] show ?thesis unfolding st1_def [symmetric] by blast
qed

text \<open>C10: a refresh rotates the token: the new refresh token finds the session, which keeps its identifier, user and
  creation time and starts a new lifetime, and the token that was used is refused from then on
  unless its hash is that of the new one.\<close>

theorem refresh_rotates_the_token:
  assumes "good_sessions st" "FindSessionByID st [] = Inl RecordNotFound" "Refresh sv st env token metadata = (Inr r, st')"
  shows "\<exists>old new. FindByRefreshTokenHash st (HashRefreshToken token) = Inr old \<and>
    FindByRefreshTokenHash st' (HashRefreshToken (lr_RefreshToken r)) = Inr new \<and> an_Session (lr_AuthenticatedUser r) = new \<and>
    ss_ID new = ss_ID old \<and> ss_UserID new = ss_UserID old \<and> ss_CreatedAt new = ss_CreatedAt old \<and>
    ss_Status new = SsActive \<and> ss_ExpiresAt new = ie_now env + iv_refreshTTL sv \<and>
    (HashRefreshToken token = HashRefreshToken (lr_RefreshToken r) \<or>
      (\<forall>env2 metadata2. Refresh sv st' env2 token metadata2 = (Inl Unauthorized, st')))"
  by (rule refresh_rotated [OF assms])

theorem refresh_rotates_the_token_witness:
  "\<exists>r st'. Refresh sample_identity_service (sample_identities ''h'') sample_env ''r1'' no_metadata = (Inr r, st') \<and>
     ss_ID (an_Session (lr_AuthenticatedUser r)) = ''s1''"
proof -
  have "Refresh sample_identity_service (sample_identities ''h'') sample_env ''r1'' no_metadata =
      issueSession sample_identity_service (sample_identities ''h'') sample_env sample_user no_metadata sample_session"
    using sample_lookup [of "''h''"] by (simp add: Refresh_def sample_env_def)
  then obtain r st' where r: "Refresh sample_identity_service (sample_identities ''h'') sample_env ''r1'' no_metadata = (Inr r, st')"
    using reissue_succeeds [OF sample_finds(3,5)] by metis
  from refresh_rotates_the_token [OF sample_finds(1,2) r] have "ss_ID (an_Session (lr_AuthenticatedUser r)) = ss_ID sample_session"
    using sample_finds(4) [of "''h''"] by auto
  with r show ?thesis by (auto simp: sample_session_def)
qed

text \<open>C11: a refresh that is under way undoes a logout: when the logout runs between the check of the stored session
  and its update, the update writes the session back as active, and the new refresh token works.\<close>

theorem racing_refresh_undoes_logout:
  assumes "good_sessions st" "refresh_lookup st checked token = Inr (u, s)" "ss_ID s \<noteq> []"
    and "Logout st now (ss_ID s) = (None, st1)" "issueSession sv st1 env u metadata s = (Inr r, st2)"
  shows "FindSessionByID st2 (ss_ID s) = Inr (an_Session (lr_AuthenticatedUser r)) \<and>
    ss_Status (an_Session (lr_AuthenticatedUser r)) = SsActive \<and>
    FindByRefreshTokenHash st2 (HashRefreshToken (lr_RefreshToken r)) = Inr (an_Session (lr_AuthenticatedUser r))"
proof -
  have "identity_step sv st st1" using identity_step.logout [of sv st now "ss_ID s"] assms(4) by simp
  then have g1: "good_sessions st1" using step_keeps assms(1) by blast
  from issue_ok [OF assms(5)] obtain tok st3 where
    st: "stored_session st1 s (issued_session sv env u metadata s tok) = Inr st3"
    and uu: "UpdateUser st3 (u\<lparr>us_LastLoginAt := ie_now env, us_UpdatedAt := ie_now env\<rparr>) = Inr st2"
    and r: "an_Session (lr_AuthenticatedUser r) = issued_session sv env u metadata s tok" "lr_RefreshToken r = tok" by auto
  define new where "new = issued_session sv env u metadata s tok"
  have new: "ss_ID new = ss_ID s" "ss_Status new = SsActive" "ss_RefreshTokenHash new = HashRefreshToken tok"
    using assms(3) by (simp_all add: new_def issued_fields)
  have up: "UpdateSession st1 new = Inr st3" using st assms(3) by (simp add: stored_session_def new_def)
  have same: "same_sessions st2 st3" using update_user [OF uu] by simp
  obtain cur where "FindSessionByID st1 (ss_ID new) = Inr cur"
    using up by (auto simp: UpdateSession_def FindSessionByID_def split: option.splits)
  with sr.found_after_update [OF g1 up] sr.update_id [OF up, of "ss_ID s"] new hash_nonempty same r show ?thesis
    by (simp add: same_sessions_find new_def)
qed

theorem racing_refresh_undoes_logout_witness:
  "\<exists>r st2. issueSession sample_identity_service (snd (Logout (sample_identities ''h'') 5 ''s1'')) sample_env sample_user no_metadata
       sample_session = (Inr r, st2) \<and>
     FindSessionByID st2 ''s1'' = Inr (an_Session (lr_AuthenticatedUser r)) \<and>
     ss_Status (an_Session (lr_AuthenticatedUser r)) = SsActive"
proof -
  define st1 where "st1 = snd (Logout (sample_identities ''h'') 5 ''s1'')"
  have l: "Logout (sample_identities ''h'') 5 (ss_ID sample_session) = (None, st1)" and i: "ss_ID sample_session = ''s1''"
    using sample_logout [of "''h''"] by (simp_all add: st1_def prod_eq_iff sample_session_def)
  from l sample_finds(3) [of "''h''"] obtain t where
    up: "UpdateSession (sample_identities ''h'') t = Inr st1" and t: "ss_ID t = ''s1''"
    by (auto simp: Logout_def i split: sum.splits)
  have "FindSessionByID st1 ''s1'' = Inr t" "FindUserByID st1 ''u1'' = Inr sample_user"
    using sr.update_id [OF up, of "''s1''"] t update_users(1) [OF up] sample_finds(5) [of "''h''"] by (simp_all add: FindUserByID_def)
  from reissue_succeeds [OF this] obtain r st2 where
    r: "issueSession sample_identity_service st1 sample_env sample_user no_metadata sample_session = (Inr r, st2)" by blast
  with racing_refresh_undoes_logout [OF sample_finds(1) sample_lookup _ l r] show ?thesis
    unfolding st1_def [symmetric] by (auto simp: i)
qed

text \<open>C5: a login opens the session its access token names: the password was verified against the stored hash, the
  session is new, and until the token or the session expires the access token authenticates as
  exactly the user and session of the login.\<close>

theorem login_token_authenticates:
  assumes "Login sv st env username password metadata = (Inr r, st')"
    and "us_ID (an_User (lr_AuthenticatedUser r)) \<noteq> []" "ie_newID env \<noteq> []"
    and "scrub (us_ID (an_User (lr_AuthenticatedUser r))) = us_ID (an_User (lr_AuthenticatedUser r))" "scrub (ie_newID env) = ie_newID env"
    and "int64 (Unix (ie_tokenNow env))" "int64 (Unix (ie_tokenNow env + iv_accessTTL sv))"
    and "Unix (ie_tokenNow env + iv_accessTTL sv) \<noteq> 0" "Unix tokenNow < Unix (ie_tokenNow env + iv_accessTTL sv)"
    and "now \<le> ie_now env + iv_refreshTTL sv"
  shows "AuthenticateAccessToken sv st' tokenNow now (lr_AccessToken r) = Inr (lr_AuthenticatedUser r) \<and>
    FindSessionByID st (ie_newID env) = Inl RecordNotFound \<and>
    (\<exists>u cred. FindByUsername st username = Inr u \<and> FindPasswordCredential st (us_ID u) = Inr cred \<and>
       VerifyPassword (cd_PasswordHash cred) password = Inr True)"
proof -
  obtain u cred where u: "FindByUsername st username = Inr u" "us_Status u = UsActive" "FindPasswordCredential st (us_ID u) = Inr cred"
      "VerifyPassword (cd_PasswordHash cred) password = Inr True" "issueSession sv st env u metadata empty_session = (Inr r, st')"
    using assms(1) by (auto simp: Login_def validateUserStatus_def split: sum.splits option.splits if_splits user_status.splits)
  define u2 where "u2 = u\<lparr>us_LastLoginAt := ie_now env, us_UpdatedAt := ie_now env\<rparr>"
  from issue_ok [OF u(5), folded u2_def] obtain tok st1 where
    st: "stored_session st empty_session (issued_session sv env u metadata empty_session tok) = Inr st1"
    and uu: "UpdateUser st1 u2 = Inr st'"
    and a: "lr_AccessToken r = fst (IssueAccessToken (iv_signer sv) u2 (issued_session sv env u metadata empty_session tok) (iv_accessTTL sv) (ie_tokenNow env))"
    and r: "lr_AuthenticatedUser r = \<lparr>an_User = u2, an_Session = issued_session sv env u metadata empty_session tok\<rparr>" by auto
  define s where "s = issued_session sv env u metadata empty_session tok"
  have s: "ss_ID s = ie_newID env" "ss_Status s = SsActive" "ss_ExpiresAt s = ie_now env + iv_refreshTTL sv"
    by (simp_all add: s_def issued_fields) (simp_all add: empty_session_def)
  have save: "SaveSession st s = Inr st1" using st by (simp add: stored_session_def s_def empty_session_def)
  obtain x where tok: "IssueAccessToken (iv_signer sv) u2 s (iv_accessTTL sv) (ie_tokenNow env) = (lr_AccessToken r, x)"
    using a by (cases "IssueAccessToken (iv_signer sv) u2 s (iv_accessTTL sv) (ie_tokenNow env)") (simp add: s_def)
  have id: "us_ID u2 \<noteq> []" "ss_ID s \<noteq> []" using assms(2,3) r s by simp_all
  from verify_issued [OF tok id assms(6-8), of tokenNow]
  have v: "VerifyAccessToken (iv_signer sv) (lr_AccessToken r) tokenNow =
      Inr (scrub_claims (token_claims_of (iv_signer sv) u2 s (iv_accessTTL sv) (ie_tokenNow env)))"
    using assms(9) by simp
  have c: "tc_Session (scrub_claims (token_claims_of (iv_signer sv) u2 s (iv_accessTTL sv) (ie_tokenNow env))) = ie_newID env"
      "tc_Subject (scrub_claims (token_claims_of (iv_signer sv) u2 s (iv_accessTTL sv) (ie_tokenNow env))) = us_ID u2"
    using assms(4,5) r s by (simp_all add: scrub_claims_def token_claims_of_def)
  have same: "same_sessions st' st1" "FindUserByID st' (us_ID u2) = Inr u2" using update_user [OF uu] by simp_all
  have f: "FindSessionByID st' (ie_newID env) = Inr s" using sr.save_new [OF save] s same by (simp add: same_sessions_find)
  have "us_Status u2 = UsActive" using u(2) by (simp add: u2_def)
  then have "AuthenticateAccessToken sv st' tokenNow now (lr_AccessToken r) = Inr (lr_AuthenticatedUser r)"
    using assms(10) same s r by (simp add: AuthenticateAccessToken_def v c f s_def [symmetric] validateUserStatus_def)
  moreover have "FindSessionByID st (ie_newID env) = Inl RecordNotFound"
    using save_cases [OF save] s by (simp add: FindSessionByID_def)
  ultimately show ?thesis using u by blast
qed

theorem login_token_authenticates_witness:
  "\<exists>p r st'. Login sample_identity_service (sample_identities p) sample_env ''ANN'' ''secret'' no_metadata = (Inr r, st') \<and>
     AuthenticateAccessToken sample_identity_service st' 40 40 (lr_AccessToken r) = Inr (lr_AuthenticatedUser r)"
proof -
  obtain p v where h: "HashPassword DefaultPasswordHasher ''secret'' (\<lambda>n. Some (replicate n 7)) = Inr (p, v)"
    by (simp add: HashPassword_def DefaultPasswordHasher_def Let_def)
  have "VerifyPassword p ''secret'' = Inr True"
    using verify_hashed [OF h] by (simp add: DefaultPasswordHasher_def)
  moreover have "FindPasswordCredential (sample_identities p) ''u1'' = Inr c \<Longrightarrow> cd_PasswordHash c = p" for c
    by (auto simp: FindPasswordCredential_def sample_identities_def NewIdentityStore_def index_by_def)
  moreover have "\<exists>c. FindPasswordCredential (sample_identities p) ''u1'' = Inr c"
    by (simp add: FindPasswordCredential_def sample_identities_def NewIdentityStore_def index_by_def)
  ultimately have "Login sample_identity_service (sample_identities p) sample_env ''ANN'' ''secret'' no_metadata =
      issueSession sample_identity_service (sample_identities p) sample_env sample_user no_metadata empty_session"
    using sample_finds(6) [of p] by (auto simp: Login_def validateUserStatus_def sample_user_def)
  moreover have "\<exists>r st2. issueSession sample_identity_service (sample_identities p) sample_env sample_user no_metadata empty_session = (Inr r, st2)"
  proof -
    define s where "s = issued_session sample_identity_service sample_env sample_user no_metadata empty_session (b64_encode b64_url (replicate 32 7))"
    have "ss_ID s = ''s2''" by (simp add: s_def issued_fields) (simp add: empty_session_def sample_env_def)
    then obtain st1 where st1: "SaveSession (sample_identities p) s = Inr st1"
      by (auto simp: SaveSession_def sample_identities_def NewIdentityStore_def index_by_def sample_session_def)
    have "NewRefreshToken (ie_random sample_env) = Some (b64_encode b64_url (replicate 32 7))"
      by (simp add: NewRefreshToken_def sample_env_def)
    moreover have "stored_session (sample_identities p) empty_session s = Inr st1" using st1 by (simp add: stored_session_def empty_session_def)
    moreover have "FindUserByID st1 (us_ID sample_user) = Inr sample_user"
      using update_users(2) [OF st1] sample_finds(5) [of p] by (simp add: FindUserByID_def sample_user_def)
    ultimately show ?thesis unfolding s_def by (rule issue_succeeds)
  qed
  ultimately obtain r st' where
    r: "Login sample_identity_service (sample_identities p) sample_env ''ANN'' ''secret'' no_metadata = (Inr r, st')"
    and iss: "issueSession sample_identity_service (sample_identities p) sample_env sample_user no_metadata empty_session = (Inr r, st')" by metis
  have u: "us_ID (an_User (lr_AuthenticatedUser r)) = ''u1''" using issue_ok [OF iss] by (auto simp: sample_user_def)
  have e: "ie_newID sample_env = ''s2''" by (simp add: sample_env_def)
  have sc: "scrub ''u1'' = ''u1''" "scrub ''s2'' = ''s2''" by code_simp+
  have t: "ie_tokenNow sample_env = 30" "ie_now sample_env = 20" "iv_accessTTL sample_identity_service = 60 * second_ns"
      "iv_refreshTTL sample_identity_service = 1000" by (simp_all add: sample_env_def sample_identity_service_def)
  have "AuthenticateAccessToken sample_identity_service st' 40 40 (lr_AccessToken r) = Inr (lr_AuthenticatedUser r)"
    using login_token_authenticates [OF r, of 40 40] unfolding u e sc t by (simp add: int64_def Unix_def)
  with r show ?thesis by blast
qed

end
