(* ===== verification/AuthCommand.thy ===== *)
theory AuthCommand
  imports IdentityProps TenancyProps
begin

text \<open>
  The authentication commands (\<^verbatim>\<open>internal/application/command/auth/service.go\<close>): the identity service and the
  resolution of the tenant, project and environment composed to one principal, and the accounts
  the control plane is wired with (\<^verbatim>\<open>internal/app/controlplane/wiring/auth.go\<close>).
\<close>

section \<open>Commands\<close>

record principal =
  pr_User :: user
  pr_Session :: session
  pr_Context :: resolved_context

record auth_selection =
  sl_TenantID :: string
  sl_ProjectID :: string
  sl_EnvironmentID :: string

record auth_result =
  ar_AccessToken :: string
  ar_RefreshToken :: string
  ar_ExpiresIn :: int
  ar_Principal :: principal

datatype auth_error = IdentityErr identity_error | TenancyErr tenancy_error | UnsupportedLocale string

definition LocaleZH :: string where "LocaleZH = ''zh-CN''"
definition LocaleEN :: string where "LocaleEN = ''en-US''"

definition toTenancySelection :: "auth_selection \<Rightarrow> selection" where
  "toTenancySelection s = \<lparr>se_TenantID = sl_TenantID s, se_ProjectID = sl_ProjectID s, se_EnvironmentID = sl_EnvironmentID s\<rparr>"

definition isSupportedLocale :: "string \<Rightarrow> bool" where
  "isSupportedLocale locale_name = (locale_name = LocaleZH \<or> locale_name = LocaleEN)"

definition principalFromAuth :: "tenancy_repo \<Rightarrow> authenticated_user \<Rightarrow> auth_selection \<Rightarrow> auth_error + principal" where
  "principalFromAuth rp authenticated sel =
     (case Resolve rp (us_ID (an_User authenticated)) (toTenancySelection sel) of
        Inl e \<Rightarrow> (if e = TenancyScopeMismatch then Inl (TenancyErr TenancyScopeMismatch) else Inl (TenancyErr e))
      | Inr resolved \<Rightarrow> Inr \<lparr>pr_User = an_User authenticated, pr_Session = an_Session authenticated, pr_Context = resolved\<rparr>)"

definition auth_result_of :: "tenancy_repo \<Rightarrow> login_result \<Rightarrow> auth_selection \<Rightarrow> auth_error + auth_result" where
  "auth_result_of rp result sel =
     (case principalFromAuth rp (lr_AuthenticatedUser result) sel of
        Inl e \<Rightarrow> Inl e
      | Inr prin \<Rightarrow> Inr \<lparr>ar_AccessToken = lr_AccessToken result, ar_RefreshToken = lr_RefreshToken result,
          ar_ExpiresIn = lr_ExpiresIn result, ar_Principal = prin\<rparr>)"

definition auth_Login ::
  "identity_service \<Rightarrow> tenancy_repo \<Rightarrow> identity_store \<Rightarrow> request_env \<Rightarrow> string \<Rightarrow> string \<Rightarrow> auth_selection \<Rightarrow> session_metadata
     \<Rightarrow> (auth_error + auth_result) \<times> identity_store" where
  "auth_Login sv rp st env username password sel metadata =
     (case Login sv st env username password metadata of
        (Inl e, st') \<Rightarrow> (Inl (IdentityErr e), st')
      | (Inr result, st') \<Rightarrow> (auth_result_of rp result sel, st'))"

definition auth_Refresh ::
  "identity_service \<Rightarrow> tenancy_repo \<Rightarrow> identity_store \<Rightarrow> request_env \<Rightarrow> string \<Rightarrow> auth_selection \<Rightarrow> session_metadata
     \<Rightarrow> (auth_error + auth_result) \<times> identity_store" where
  "auth_Refresh sv rp st env refreshToken sel metadata =
     (case Refresh sv st env refreshToken metadata of
        (Inl e, st') \<Rightarrow> (Inl (IdentityErr e), st')
      | (Inr result, st') \<Rightarrow> (auth_result_of rp result sel, st'))"

definition auth_Authenticate ::
  "identity_service \<Rightarrow> tenancy_repo \<Rightarrow> identity_store \<Rightarrow> gotime \<Rightarrow> gotime \<Rightarrow> string \<Rightarrow> auth_selection \<Rightarrow> auth_error + principal" where
  "auth_Authenticate sv rp st tokenNow now accessToken sel =
     (case AuthenticateAccessToken sv st tokenNow now accessToken of
        Inl e \<Rightarrow> Inl (IdentityErr e)
      | Inr authenticated \<Rightarrow> principalFromAuth rp authenticated sel)"

definition auth_Logout :: "identity_store \<Rightarrow> gotime \<Rightarrow> principal \<Rightarrow> identity_error option \<times> identity_store" where
  "auth_Logout st now prin = Logout st now (ss_ID (pr_Session prin))"

definition auth_UpdateLocale ::
  "tenancy_repo \<Rightarrow> identity_store \<Rightarrow> gotime \<Rightarrow> principal \<Rightarrow> string \<Rightarrow> (auth_error + principal) \<times> identity_store" where
  "auth_UpdateLocale rp st now prin locale_name =
     (if \<not> isSupportedLocale locale_name then (Inl (UnsupportedLocale locale_name), st)
      else case UpdateLocale st now (us_ID (pr_User prin)) locale_name of
        (Inl e, st') \<Rightarrow> (Inl (IdentityErr e), st')
      | (Inr u, st') \<Rightarrow>
          let c = pr_Context prin;
              sel = \<lparr>sl_TenantID = tn_ID (rc_Tenant c), sl_ProjectID = pj_ID (rc_Project c),
                     sl_EnvironmentID = en_ID (rc_Environment c)\<rparr>
          in (case Resolve rp (us_ID u) (toTenancySelection sel) of
                Inl e \<Rightarrow> (Inl (TenancyErr e), st')
              | Inr resolved \<Rightarrow> (Inr \<lparr>pr_User = u, pr_Session = pr_Session prin, pr_Context = resolved\<rparr>, st')))"

section \<open>The wired accounts\<close>

definition wired_user :: "string \<Rightarrow> string \<Rightarrow> string \<Rightarrow> string \<Rightarrow> string \<Rightarrow> gotime \<Rightarrow> user" where
  "wired_user ident username display email locale_name now = \<lparr>us_ID = ident,
     us_TenantID = ''11111111-1111-4111-8111-111111111111'', us_Username = username, us_DisplayName = display,
     us_Email = email, us_Phone = [], us_Locale = locale_name, us_Status = UsActive, us_LastLoginAt = zeroTime,
     us_CreatedAt = now, us_UpdatedAt = now\<rparr>"

definition wired_credential :: "string \<Rightarrow> string \<Rightarrow> string \<times> int \<Rightarrow> gotime \<Rightarrow> credential" where
  "wired_credential ident userID h now = \<lparr>cd_ID = ident, cd_UserID = userID, cd_CredentialType = ''password'',
     cd_PasswordHash = fst h, cd_PasswordAlgoVersion = snd h, cd_MustChangePassword = False, cd_PasswordUpdatedAt = now,
     cd_CreatedAt = now, cd_UpdatedAt = now\<rparr>"

definition wired_identities :: "string \<times> int \<Rightarrow> string \<times> int \<Rightarrow> gotime \<Rightarrow> identity_seed" where
  "wired_identities admin auditor now = \<lparr>
     is_Users =
       [wired_user ''44444444-4444-4444-8444-444444444441'' ''admin'' ''Tenant Admin'' ''admin@acme.local'' LocaleEN now,
        wired_user ''44444444-4444-4444-8444-444444444442'' ''auditor'' ''Audit Reader'' ''auditor@acme.local'' [] now],
     is_Credentials =
       [wired_credential ''77777777-7777-4777-8777-777777777771'' ''44444444-4444-4444-8444-444444444441'' admin now,
        wired_credential ''77777777-7777-4777-8777-777777777772'' ''44444444-4444-4444-8444-444444444442'' auditor now],
     is_Sessions = []\<rparr>"

definition wired_tenancy :: tenancy_seed where
  "wired_tenancy = \<lparr>
     sd_Tenants =
       [\<lparr>tn_ID = ''11111111-1111-4111-8111-111111111111'', tn_Name = ''Acme'', tn_Code = ''acme'', tn_Locale = LocaleZH, tn_Status = StActive\<rparr>,
        \<lparr>tn_ID = ''11111111-1111-4111-8111-111111111112'', tn_Name = ''Other'', tn_Code = ''other'', tn_Locale = LocaleEN, tn_Status = StActive\<rparr>],
     sd_Projects =
       [\<lparr>pj_ID = ''22222222-2222-4222-8222-222222222221'', pj_TenantID = ''11111111-1111-4111-8111-111111111111'',
         pj_Name = ''Core'', pj_Code = ''core'', pj_Status = StActive\<rparr>,
        \<lparr>pj_ID = ''22222222-2222-4222-8222-222222222222'', pj_TenantID = ''11111111-1111-4111-8111-111111111111'',
         pj_Name = ''Platform'', pj_Code = ''platform'', pj_Status = StActive\<rparr>,
        \<lparr>pj_ID = ''22222222-2222-4222-8222-222222222223'', pj_TenantID = ''11111111-1111-4111-8111-111111111112'',
         pj_Name = ''OtherProject'', pj_Code = ''other-project'', pj_Status = StActive\<rparr>],
     sd_Environments =
       [\<lparr>en_ID = ''33333333-3333-4333-8333-333333333331'', en_TenantID = ''11111111-1111-4111-8111-111111111111'',
         en_ProjectID = ''22222222-2222-4222-8222-222222222221'', en_Name = ''Production'', en_Code = ''prod'', en_Status = StActive, en_EnvType = ''prod''\<rparr>,
        \<lparr>en_ID = ''33333333-3333-4333-8333-333333333332'', en_TenantID = ''11111111-1111-4111-8111-111111111111'',
         en_ProjectID = ''22222222-2222-4222-8222-222222222222'', en_Name = ''Staging'', en_Code = ''staging'', en_Status = StActive, en_EnvType = ''staging''\<rparr>,
        \<lparr>en_ID = ''33333333-3333-4333-8333-333333333333'', en_TenantID = ''11111111-1111-4111-8111-111111111112'',
         en_ProjectID = ''22222222-2222-4222-8222-222222222223'', en_Name = ''OtherProd'', en_Code = ''prod'', en_Status = StActive, en_EnvType = ''prod''\<rparr>],
     sd_Roles =
       [\<lparr>ro_ID = ''55555555-5555-4555-8555-555555555551'', ro_TenantID = [], ro_Code = ''tenant_admin'', ro_Name = ''Tenant Admin'',
         ro_ScopeLevel = ScopeTenant, ro_IsSystem = True, ro_Status = StActive\<rparr>,
        \<lparr>ro_ID = ''55555555-5555-4555-8555-555555555552'', ro_TenantID = [], ro_Code = ''auditor'', ro_Name = ''Auditor'',
         ro_ScopeLevel = ScopeEnvironment, ro_IsSystem = True, ro_Status = StActive\<rparr>],
     sd_Bindings =
       [\<lparr>rb_ID = ''66666666-6666-4666-8666-666666666661'', rb_TenantID = ''11111111-1111-4111-8111-111111111111'', rb_ProjectID = [],
         rb_EnvironmentID = [], rb_UserID = ''44444444-4444-4444-8444-444444444441'', rb_RoleID = ''55555555-5555-4555-8555-555555555551'',
         rb_ScopeType = ScopeTenant, rb_ScopeID = ''11111111-1111-4111-8111-111111111111'', rb_Status = StActive\<rparr>,
        \<lparr>rb_ID = ''66666666-6666-4666-8666-666666666662'', rb_TenantID = ''11111111-1111-4111-8111-111111111111'',
         rb_ProjectID = ''22222222-2222-4222-8222-222222222221'', rb_EnvironmentID = ''33333333-3333-4333-8333-333333333331'',
         rb_UserID = ''44444444-4444-4444-8444-444444444442'', rb_RoleID = ''55555555-5555-4555-8555-555555555552'',
         rb_ScopeType = ScopeEnvironment, rb_ScopeID = ''33333333-3333-4333-8333-333333333331'', rb_Status = StActive\<rparr>]\<rparr>"

text \<open>The hashes of the two passwords, each with a salt of its own, and the services over them.\<close>

definition newAuthServices ::
  "token_signer \<Rightarrow> duration \<Rightarrow> duration \<Rightarrow> gotime \<Rightarrow> (nat \<Rightarrow> rawbytes option) \<Rightarrow> (nat \<Rightarrow> rawbytes option)
     \<Rightarrow> password_error + identity_service \<times> identity_store \<times> tenancy_repo" where
  "newAuthServices signer accessTTL refreshTTL now rnd1 rnd2 =
     (case HashPassword DefaultPasswordHasher ''admin123!'' rnd1 of
        Inl e \<Rightarrow> Inl e
      | Inr admin \<Rightarrow>
      (case HashPassword DefaultPasswordHasher ''auditor123!'' rnd2 of
        Inl e \<Rightarrow> Inl e
      | Inr auditor \<Rightarrow> Inr (\<lparr>iv_signer = signer, iv_accessTTL = accessTTL, iv_refreshTTL = refreshTTL\<rparr>,
          NewIdentityStore (wired_identities admin auditor now), memory_tenancy (NewTenancyStore wired_tenancy))))"

section \<open>A refresh for a selection that is not accessible\<close>

lemma auth_refresh_fails:
  assumes "auth_Refresh sv rp st env token sel metadata = (Inl (TenancyErr e), st')"
  shows "\<exists>r. Refresh sv st env token metadata = (Inr r, st')"
  using assms by (auto simp: auth_Refresh_def split: prod.splits sum.splits)

section \<open>What the wired stores hold\<close>

abbreviation no_selection :: auth_selection where
  "no_selection \<equiv> \<lparr>sl_TenantID = [], sl_ProjectID = [], sl_EnvironmentID = []\<rparr>"

abbreviation admin_id :: string where "admin_id \<equiv> ''44444444-4444-4444-8444-444444444441''"
abbreviation auditor_id :: string where "auditor_id \<equiv> ''44444444-4444-4444-8444-444444444442''"

lemma wired_resolution:
  "case Resolve (memory_tenancy (NewTenancyStore wired_tenancy)) admin_id (toTenancySelection no_selection) of
     Inr c \<Rightarrow> rc_RoleCodes c = [''tenant_admin''] \<and> rc_permissions c = [''*''] \<and> en_Code (rc_Environment c) = ''prod''
   | Inl _ \<Rightarrow> False"
  "case Resolve (memory_tenancy (NewTenancyStore wired_tenancy)) auditor_id (toTenancySelection no_selection) of
     Inr c \<Rightarrow> rc_RoleCodes c = [''auditor''] \<and> rc_permissions c = [''auth.context.read'', ''audit.read'', ''audit.export''] \<and>
       en_Code (rc_Environment c) = ''prod''
   | Inl _ \<Rightarrow> False"
  by code_simp+

lemma wired_lookup:
  fixes a b now defines "st \<equiv> NewIdentityStore (wired_identities a b now)"
  shows "FindByUsername st name = (if ToLower name = ''admin'' then Inr (hd (is_Users (wired_identities a b now)))
      else if ToLower name = ''auditor'' then Inr (hd (tl (is_Users (wired_identities a b now)))) else Inl RecordNotFound)"
    "FindPasswordCredential st admin_id = Inr (wired_credential ''77777777-7777-4777-8777-777777777771'' admin_id a now)"
    "FindPasswordCredential st auditor_id = Inr (wired_credential ''77777777-7777-4777-8777-777777777772'' auditor_id b now)"
    "iy_sessions st = []" "iy_users st = index_by us_ID (is_Users (wired_identities a b now))"
proof -
  have l: "ToLower ''admin'' = ''admin''" "ToLower ''auditor'' = ''auditor''" by code_simp+
  show "FindByUsername st name = (if ToLower name = ''admin'' then Inr (hd (is_Users (wired_identities a b now)))
      else if ToLower name = ''auditor'' then Inr (hd (tl (is_Users (wired_identities a b now)))) else Inl RecordNotFound)"
    by (simp add: st_def NewIdentityStore_def wired_identities_def wired_user_def index_by_def FindByUsername_def l)
  show "FindPasswordCredential st admin_id = Inr (wired_credential ''77777777-7777-4777-8777-777777777771'' admin_id a now)"
    "FindPasswordCredential st auditor_id = Inr (wired_credential ''77777777-7777-4777-8777-777777777772'' auditor_id b now)"
    "iy_sessions st = []" "iy_users st = index_by us_ID (is_Users (wired_identities a b now))"
    by (simp_all add: st_def NewIdentityStore_def wired_identities_def index_by_def FindPasswordCredential_def wired_credential_def)
qed

lemma wired_login:
  assumes "iy_sessions st = []" "FindByUsername st name = Inr u" "us_Status u = UsActive" "mget (iy_users st) (us_ID u) = Some v"
    and "FindPasswordCredential st (us_ID u) = Inr cred" "VerifyPassword (cd_PasswordHash cred) password = Inr True"
    and "NewRefreshToken (ie_random env) = Some tok"
  shows "\<exists>r st'. Login sv st env name password metadata = (Inr r, st') \<and> us_ID (an_User (lr_AuthenticatedUser r)) = us_ID u"
proof -
  define s where "s = issued_session sv env u metadata empty_session tok"
  obtain st1 where st1: "SaveSession st s = Inr st1" using assms(1) by (auto simp: SaveSession_def)
  have "stored_session st empty_session s = Inr st1" using st1 by (simp add: stored_session_def empty_session_def)
  moreover have "FindUserByID st1 (us_ID u) = Inr v" using update_users(2) [OF st1] assms(4) by (simp add: FindUserByID_def)
  ultimately obtain r st' where r: "issueSession sv st env u metadata empty_session = (Inr r, st')"
    using issue_succeeds [where env = env, OF assms(7)] s_def by blast
  moreover have "Login sv st env name password metadata = issueSession sv st env u metadata empty_session"
    using assms(2,3,5,6) by (simp add: Login_def validateUserStatus_def)
  moreover have "us_ID (an_User (lr_AuthenticatedUser r)) = us_ID u" using issue_ok [OF r] by auto
  ultimately show ?thesis by simp
qed

lemma auth_login_of:
  assumes "Login sv st env name password metadata = (Inr l, st')"
    and "Resolve rp (us_ID (an_User (lr_AuthenticatedUser l))) (toTenancySelection sel) = Inr c"
  shows "\<exists>r. auth_Login sv rp st env name password sel metadata = (Inr r, st') \<and> pr_Context (ar_Principal r) = c"
  using assms by (simp add: auth_Login_def auth_result_of_def principalFromAuth_def)

lemma sample_token: "NewRefreshToken (ie_random sample_env) = Some (b64_encode b64_url (replicate 32 7))"
  by (simp only: NewRefreshToken_def sample_env_def request_env.simps option.case)

section \<open>Properties\<close>

text \<open>A refresh for a selection that is not accessible costs the session its refresh token: the command answers
  with the error of the resolution only after the token was rotated, the new one is never handed
  out, and the old one is refused from then on.\<close>

theorem inaccessible_selection_burns_the_refresh_token:
  assumes "good_sessions st" "FindSessionByID st [] = Inl RecordNotFound"
    and "auth_Refresh sv rp st env token sel metadata = (Inl (TenancyErr e), st')"
    and "NewRefreshToken (ie_random env) = Some new"
  shows "HashRefreshToken token = HashRefreshToken new \<or>
    (\<forall>env2 sel2 metadata2. auth_Refresh sv rp st' env2 token sel2 metadata2 = (Inl (IdentityErr Unauthorized), st'))"
proof -
  obtain r where r: "Refresh sv st env token metadata = (Inr r, st')" using auth_refresh_fails [OF assms(3)] by blast
  then have "lr_RefreshToken r = new" using assms(4) issue_ok by (fastforce simp: Refresh_def split: sum.splits prod.splits)
  with refresh_rotated [OF assms(1,2) r] show ?thesis by (auto simp: auth_Refresh_def)
qed

theorem inaccessible_selection_burns_the_refresh_token_witness:
  "\<exists>new st'. NewRefreshToken (ie_random sample_env) = Some new \<and>
     auth_Refresh sample_identity_service (memory_tenancy (NewTenancyStore wired_tenancy)) (sample_identities ''h'') sample_env ''r1''
       no_selection no_metadata = (Inl (TenancyErr NoAccessibleScope), st') \<and>
     (HashRefreshToken ''r1'' = HashRefreshToken new \<or>
      (\<forall>sel2. auth_Refresh sample_identity_service (memory_tenancy (NewTenancyStore wired_tenancy)) st' sample_env ''r1'' sel2 no_metadata =
         (Inl (IdentityErr Unauthorized), st')))"
proof -
  note new = sample_token
  have "Refresh sample_identity_service (sample_identities ''h'') sample_env ''r1'' no_metadata =
      issueSession sample_identity_service (sample_identities ''h'') sample_env sample_user no_metadata sample_session"
    using sample_lookup [of "''h''"] by (simp add: Refresh_def sample_env_def)
  then obtain r st' where r: "Refresh sample_identity_service (sample_identities ''h'') sample_env ''r1'' no_metadata = (Inr r, st')"
      "issueSession sample_identity_service (sample_identities ''h'') sample_env sample_user no_metadata sample_session = (Inr r, st')"
    using reissue_succeeds [OF sample_finds(3,5)] by metis
  have "us_ID (an_User (lr_AuthenticatedUser r)) = ''u1''" using issue_ok [OF r(2)] by (auto simp: sample_user_def)
  moreover have "Resolve (memory_tenancy (NewTenancyStore wired_tenancy)) ''u1'' (toTenancySelection no_selection) = Inl NoAccessibleScope"
    by code_simp
  ultimately have b: "auth_Refresh sample_identity_service (memory_tenancy (NewTenancyStore wired_tenancy)) (sample_identities ''h'')
      sample_env ''r1'' no_selection no_metadata = (Inl (TenancyErr NoAccessibleScope), st')"
    using r(1) by (simp add: auth_Refresh_def auth_result_of_def principalFromAuth_def)
  show ?thesis
    using inaccessible_selection_burns_the_refresh_token [OF sample_finds(1,2) b new] new b by blast
qed

text \<open>The wired accounts: in the stores the control plane starts with, the two accounts log in under their
  passwords, their names in any case, with nothing selected; the administrator may do everything, the
  auditor exactly three things, both in the production environment, and no other name logs in.\<close>

theorem wired_accounts_log_in:
  assumes "newAuthServices signer accessTTL refreshTTL now rnd1 rnd2 = Inr (sv, st, rp)"
    and "NewRefreshToken (ie_random env) = Some tok"
  shows "(\<exists>r st'. auth_Login sv rp st env ''Admin'' ''admin123!'' no_selection metadata = (Inr r, st') \<and>
      en_Code (rc_Environment (pr_Context (ar_Principal r))) = ''prod'' \<and> (\<forall>p. HasPermission (pr_Context (ar_Principal r)) p)) \<and>
    (\<exists>r st'. auth_Login sv rp st env ''auditor'' ''auditor123!'' no_selection metadata = (Inr r, st') \<and>
      en_Code (rc_Environment (pr_Context (ar_Principal r))) = ''prod'' \<and>
      (\<forall>p. HasPermission (pr_Context (ar_Principal r)) p = (p \<in> {''auth.context.read'', ''audit.read'', ''audit.export''}))) \<and>
    (\<forall>name password sel. ToLower name \<noteq> ''admin'' \<longrightarrow> ToLower name \<noteq> ''auditor'' \<longrightarrow>
      auth_Login sv rp st env name password sel metadata = (Inl (IdentityErr InvalidCredentials), st))"
proof (intro conjI allI impI)
  obtain a b where a: "HashPassword DefaultPasswordHasher ''admin123!'' rnd1 = Inr a"
    and b: "HashPassword DefaultPasswordHasher ''auditor123!'' rnd2 = Inr b"
    and st: "st = NewIdentityStore (wired_identities a b now)" and rp: "rp = memory_tenancy (NewTenancyStore wired_tenancy)"
    using assms(1) by (auto simp: newAuthServices_def split: sum.splits)
  note w = wired_lookup [of a b now, folded st]
  have ids: "us_ID (hd (is_Users (wired_identities a b now))) = admin_id" "us_Status (hd (is_Users (wired_identities a b now))) = UsActive"
    "us_ID (hd (tl (is_Users (wired_identities a b now)))) = auditor_id" "us_Status (hd (tl (is_Users (wired_identities a b now)))) = UsActive"
    by (simp_all add: wired_identities_def wired_user_def)
  have u: "mget (iy_users st) admin_id = Some (hd (is_Users (wired_identities a b now)))"
    "mget (iy_users st) auditor_id = Some (hd (tl (is_Users (wired_identities a b now))))"
    unfolding w(5) by (simp_all add: wired_identities_def wired_user_def index_by_def)
  have v: "VerifyPassword (fst a) ''admin123!'' = Inr True" "VerifyPassword (fst b) ''auditor123!'' = Inr True"
    using verify_hashed [of DefaultPasswordHasher "''admin123!''" rnd1 "fst a" "snd a"]
      verify_hashed [of DefaultPasswordHasher "''auditor123!''" rnd2 "fst b" "snd b"] a b by (simp_all add: DefaultPasswordHasher_def)
  have low: "ToLower ''Admin'' = ''admin''" "ToLower ''auditor'' = ''auditor''" by code_simp+
  obtain c where c: "Resolve rp admin_id (toTenancySelection no_selection) = Inr c" "rc_permissions c = [''*'']"
      "en_Code (rc_Environment c) = ''prod''"
    using wired_resolution(1) unfolding rp by (auto split: sum.splits)
  obtain d where d: "Resolve rp auditor_id (toTenancySelection no_selection) = Inr d"
      "rc_permissions d = [''auth.context.read'', ''audit.read'', ''audit.export'']" "en_Code (rc_Environment d) = ''prod''"
    using wired_resolution(2) unfolding rp by (auto split: sum.splits)
  define ua ub where "ua = hd (is_Users (wired_identities a b now))" and "ub = hd (tl (is_Users (wired_identities a b now)))"
  have fa: "FindByUsername st ''Admin'' = Inr ua" "us_Status ua = UsActive" "mget (iy_users st) (us_ID ua) = Some ua"
      "FindPasswordCredential st (us_ID ua) = Inr (wired_credential ''77777777-7777-4777-8777-777777777771'' admin_id a now)"
      "VerifyPassword (cd_PasswordHash (wired_credential ''77777777-7777-4777-8777-777777777771'' admin_id a now)) ''admin123!'' = Inr True"
    using ids u v w(2) by (simp_all add: w(1) low ua_def wired_credential_def)
  have fb: "FindByUsername st ''auditor'' = Inr ub" "us_Status ub = UsActive" "mget (iy_users st) (us_ID ub) = Some ub"
      "FindPasswordCredential st (us_ID ub) = Inr (wired_credential ''77777777-7777-4777-8777-777777777772'' auditor_id b now)"
      "VerifyPassword (cd_PasswordHash (wired_credential ''77777777-7777-4777-8777-777777777772'' auditor_id b now)) ''auditor123!'' = Inr True"
    using ids u v w(3) by (simp_all add: w(1) low ub_def wired_credential_def)
  obtain l st1 where l: "Login sv st env ''Admin'' ''admin123!'' metadata = (Inr l, st1)" "us_ID (an_User (lr_AuthenticatedUser l)) = admin_id"
    using wired_login [OF w(4) fa assms(2)] ids(1) unfolding ua_def by metis
  from auth_login_of [OF l(1), unfolded l(2), OF c(1)] obtain r where
    "auth_Login sv rp st env ''Admin'' ''admin123!'' no_selection metadata = (Inr r, st1)" "pr_Context (ar_Principal r) = c" by blast
  with c show "\<exists>r st'. auth_Login sv rp st env ''Admin'' ''admin123!'' no_selection metadata = (Inr r, st') \<and>
      en_Code (rc_Environment (pr_Context (ar_Principal r))) = ''prod'' \<and> (\<forall>p. HasPermission (pr_Context (ar_Principal r)) p)"
    by (auto simp: HasPermission_def)
  obtain m st2 where m: "Login sv st env ''auditor'' ''auditor123!'' metadata = (Inr m, st2)" "us_ID (an_User (lr_AuthenticatedUser m)) = auditor_id"
    using wired_login [OF w(4) fb assms(2)] ids(3) unfolding ub_def by metis
  from auth_login_of [OF m(1), unfolded m(2), OF d(1)] obtain q where
    "auth_Login sv rp st env ''auditor'' ''auditor123!'' no_selection metadata = (Inr q, st2)" "pr_Context (ar_Principal q) = d" by blast
  with d show "\<exists>r st'. auth_Login sv rp st env ''auditor'' ''auditor123!'' no_selection metadata = (Inr r, st') \<and>
      en_Code (rc_Environment (pr_Context (ar_Principal r))) = ''prod'' \<and>
      (\<forall>p. HasPermission (pr_Context (ar_Principal r)) p = (p \<in> {''auth.context.read'', ''audit.read'', ''audit.export''}))"
    by (auto simp: HasPermission_def)
  fix name password sel
  assume "ToLower name \<noteq> ''admin''" "ToLower name \<noteq> ''auditor''"
  with w(1) show "auth_Login sv rp st env name password sel metadata = (Inl (IdentityErr InvalidCredentials), st)"
    by (simp add: auth_Login_def Login_def)
qed

lemma default_hash_succeeds:
  "rnd 16 = Some salt \<Longrightarrow> password \<noteq> [] \<Longrightarrow> \<exists>h. HashPassword DefaultPasswordHasher password rnd = Inr h"
  by (simp add: HashPassword_def DefaultPasswordHasher_def Let_def)

theorem wired_accounts_log_in_witness:
  "\<exists>sv st rp r st'. newAuthServices (NewTokenSigner ''key'' ''iss'') 60 1000 0 (\<lambda>n. Some (replicate n 1)) (\<lambda>n. Some (replicate n 2)) =
       Inr (sv, st, rp) \<and>
     auth_Login sv rp st sample_env ''Admin'' ''admin123!'' no_selection no_metadata = (Inr r, st') \<and>
     HasPermission (pr_Context (ar_Principal r)) ''settings.write''"
proof -
  obtain p where p: "HashPassword DefaultPasswordHasher ''admin123!'' (\<lambda>n. Some (replicate n 1)) = Inr p"
    using default_hash_succeeds [of "\<lambda>n. Some (replicate n 1)", OF refl, of "''admin123!''"] by blast
  obtain q where q: "HashPassword DefaultPasswordHasher ''auditor123!'' (\<lambda>n. Some (replicate n 2)) = Inr q"
    using default_hash_succeeds [of "\<lambda>n. Some (replicate n 2)", OF refl, of "''auditor123!''"] by blast
  have "\<exists>x. newAuthServices (NewTokenSigner ''key'' ''iss'') 60 1000 0 (\<lambda>n. Some (replicate n 1)) (\<lambda>n. Some (replicate n 2)) = Inr x"
    unfolding newAuthServices_def p q sum.case by (rule exI) (rule refl)
  then obtain sv st rp where n: "newAuthServices (NewTokenSigner ''key'' ''iss'') 60 1000 0 (\<lambda>n. Some (replicate n 1))
      (\<lambda>n. Some (replicate n 2)) = Inr (sv, st, rp)" by (metis prod_cases3)
  from wired_accounts_log_in [OF n sample_token, of no_metadata, THEN conjunct1] obtain r st' where
    "auth_Login sv rp st sample_env ''Admin'' ''admin123!'' no_selection no_metadata = (Inr r, st')"
    "\<forall>p. HasPermission (pr_Context (ar_Principal r)) p" by (elim exE conjE)
  with n show ?thesis by (intro exI conjI) (assumption, assumption, erule spec)
qed

end
