(* ===== verification/AgentNode.thy ===== *)
theory AgentNode
  imports Resource
begin

text \<open>
  Agent nodes (\<^verbatim>\<open>internal/domain/agentnode/service.go\<close>): the nodes of an environment, their registration tokens, their
  heartbeats, labels and capabilities, and the choice of nodes for work. Instants and new identifiers are
  arguments; \<open>parse_addr\<close> is whether \<^verbatim>\<open>netip.ParseAddr\<close> accepts a text.
\<close>

section \<open>Data\<close>

type_synonym string_map = "(string, string) gomap"

record node =
  nd_ID :: string
  nd_Scope :: scope
  nd_Name :: string
  nd_Hostname :: string
  nd_IPAddress :: string
  nd_Version :: string
  nd_ProtocolVersion :: int
  nd_OS :: string
  nd_Arch :: string
  nd_Labels :: string_map
  nd_Capabilities :: "string list"
  nd_Status :: string
  nd_LastSeenAt :: "gotime option"
  nd_CreatedAt :: gotime
  nd_UpdatedAt :: gotime

record registration_token =
  rt_ID :: string
  rt_Scope :: scope
  rt_Token :: string
  rt_ExpiresAt :: gotime
  rt_CreatedAt :: gotime

record registration_input =
  ri_Name :: string
  ri_Hostname :: string
  ri_IPAddress :: string
  ri_Version :: string
  ri_ProtocolVersion :: int
  ri_OS :: string
  ri_Arch :: string
  ri_Labels :: string_map
  ri_Capabilities :: "string list"

record heartbeat_input =
  hi_Version :: string
  hi_ProtocolVersion :: int
  hi_Status :: string
  hi_Capabilities :: "string list"

record node_store =
  ns_byID :: "(string, node) gomap"
  ns_byEnvName :: "(string, string) gomap"
  ns_byToken :: "(string, registration_token) gomap"

definition NewNodeService :: node_store where
  "NewNodeService = \<lparr>ns_byID = [], ns_byEnvName = [], ns_byToken = []\<rparr>"

definition MinimumSupportedProtocolVersion :: int where
  "MinimumSupportedProtocolVersion = 1"

section \<open>Normalization and validation\<close>

text \<open>Keys and values are trimmed, blank keys dropped; of two keys that trim to one the one visited last wins.\<close>

definition cloneStringMap :: "string_map \<Rightarrow> string_map" where
  "cloneStringMap values =
     fold (\<lambda>(key, value) clone. if TrimSpace key = [] then clone else mput (TrimSpace key) (TrimSpace value) clone) values []"

definition cloneNode :: "node \<Rightarrow> node" where
  "cloneNode n = n\<lparr>nd_Labels := cloneStringMap (nd_Labels n)\<rparr>"

definition validCapability :: "string \<Rightarrow> bool" where
  "validCapability code = (code \<in> set [''keygen:rsa'', ''challenge:http-01'', ''deploy:nginx'', ''deploy:tomcat-jsse-pkcs12'',
     ''verify:nginx'', ''verify:tomcat'', ''discover:nginx'', ''discover:tomcat''])"

fun normalizeCapabilities_loop :: "string list \<Rightarrow> string list \<Rightarrow> string list" where
  "normalizeCapabilities_loop [] result = result"
| "normalizeCapabilities_loop (item # items) result =
     (let code = ToLower (TrimSpace item) in
      if \<not> validCapability code then normalizeCapabilities_loop items result
      else if code \<in> set result then normalizeCapabilities_loop items result
      else normalizeCapabilities_loop items (result @ [code]))"

definition normalizeCapabilities :: "string list \<Rightarrow> string list" where
  "normalizeCapabilities items = sort (normalizeCapabilities_loop items [])"

definition normalizeNodeStatus :: "string \<Rightarrow> string" where
  "normalizeNodeStatus st = ToLower (TrimSpace st)"

definition validHeartbeatStatus :: "string \<Rightarrow> bool" where
  "validHeartbeatStatus st = (normalizeNodeStatus st \<in> set [''online'', ''degraded'', ''incompatible''])"

definition isSchedulable :: "string \<Rightarrow> bool" where
  "isSchedulable st = (st \<in> set [''online'', ''degraded''])"

definition containsAll :: "string list \<Rightarrow> string list \<Rightarrow> bool" where
  "containsAll actual required = list_all (\<lambda>item. item \<in> set actual) required"

text \<open>A missing label reads as the empty text.\<close>

definition labelsMatch :: "string_map \<Rightarrow> string_map \<Rightarrow> bool" where
  "labelsMatch actual required = list_all (\<lambda>(key, value). (case mget actual key of None \<Rightarrow> [] | Some v \<Rightarrow> v) = value) required"

definition capabilities_invalid :: "string list \<Rightarrow> bool" where
  "capabilities_invalid items = (0 < length items \<and> length (normalizeCapabilities items) \<noteq> length items)"

definition validateRegistration :: "(string \<Rightarrow> bool) \<Rightarrow> registration_input \<Rightarrow> gerror option" where
  "validateRegistration parse_addr inp =
     (if TrimSpace (ri_Name inp) = [] then Some (Err ErrValidation ''node_name required'')
      else if TrimSpace (ri_IPAddress inp) \<noteq> [] \<and> \<not> parse_addr (TrimSpace (ri_IPAddress inp))
      then Some (Err ErrValidation ''ip_address invalid'')
      else if TrimSpace (ri_Version inp) = [] then Some (Err ErrValidation ''version required'')
      else if ri_ProtocolVersion inp < MinimumSupportedProtocolVersion
      then Some (Err ErrValidation ''protocol_version unsupported'')
      else if capabilities_invalid (ri_Capabilities inp) then Some (Err ErrValidation ''capabilities invalid'')
      else None)"

definition validateHeartbeat :: "heartbeat_input \<Rightarrow> gerror option" where
  "validateHeartbeat inp =
     (if hi_ProtocolVersion inp < MinimumSupportedProtocolVersion
      then Some (Err ErrValidation ''protocol_version unsupported'')
      else if \<not> validHeartbeatStatus (hi_Status inp) then Some (Err ErrValidation ''status invalid'')
      else if capabilities_invalid (hi_Capabilities inp) then Some (Err ErrValidation ''capabilities invalid'')
      else None)"

section \<open>Queries\<close>

definition node_List :: "node_store \<Rightarrow> scope \<Rightarrow> gerror + node list" where
  "node_List st sc =
     (case scope_Validate sc of
        Some e \<Rightarrow> Inl e
      | None \<Rightarrow> Inr (sort_key nd_Name (map cloneNode (filter (\<lambda>n. scope_Equals (nd_Scope n) sc) (map snd (ns_byID st))))))"

definition node_Get :: "node_store \<Rightarrow> scope \<Rightarrow> string \<Rightarrow> gerror + node" where
  "node_Get st sc i =
     (case scope_Validate sc of
        Some e \<Rightarrow> Inl e
      | None \<Rightarrow>
          if TrimSpace i = [] then Inl (Err ErrValidation ''node id required'')
          else map_sum id cloneNode (scoped_get ''node'' nd_Scope (ns_byID st) sc i))"

definition node_Lookup :: "node_store \<Rightarrow> string \<Rightarrow> gerror + node" where
  "node_Lookup st i =
     (if TrimSpace i = [] then Inl (Err ErrValidation ''node id required'')
      else case mget (ns_byID st) i of None \<Rightarrow> Inl (Err ErrNotFound (''node '' @ i)) | Some n \<Rightarrow> Inr (cloneNode n))"

definition zero_node :: node where
  "zero_node = \<lparr>nd_ID = [], nd_Scope = \<lparr>TenantID = [], ProjectID = [], EnvironmentID = []\<rparr>, nd_Name = [], nd_Hostname = [],
     nd_IPAddress = [], nd_Version = [], nd_ProtocolVersion = 0, nd_OS = [], nd_Arch = [], nd_Labels = [], nd_Capabilities = [],
     nd_Status = [], nd_LastSeenAt = None, nd_CreatedAt = zeroTime, nd_UpdatedAt = zeroTime\<rparr>"

definition node_FindByName :: "node_store \<Rightarrow> scope \<Rightarrow> string \<Rightarrow> gerror + node" where
  "node_FindByName st sc name =
     (case scope_Validate sc of
        Some e \<Rightarrow> Inl e
      | None \<Rightarrow>
          if TrimSpace name = [] then Inl (Err ErrValidation ''node_name required'')
          else case mget (ns_byEnvName st) (EnvironmentKey sc @ ''/'' @ TrimSpace name) of
            None \<Rightarrow> Inl (Err ErrNotFound (''node '' @ TrimSpace name))
          | Some i \<Rightarrow> Inr (cloneNode (case mget (ns_byID st) i of None \<Rightarrow> zero_node | Some n \<Rightarrow> n)))"

definition node_MatchCapable :: "node_store \<Rightarrow> scope \<Rightarrow> string list \<Rightarrow> string_map \<Rightarrow> gerror + node list" where
  "node_MatchCapable st sc requiredCapabilities requiredLabels =
     (case scope_Validate sc of
        Some e \<Rightarrow> Inl e
      | None \<Rightarrow>
          let normalized = normalizeCapabilities requiredCapabilities in
          if length requiredCapabilities \<noteq> length normalized then Inl (Err ErrValidation ''required capabilities invalid'')
          else Inr (sort_key nd_Name (map cloneNode (filter (\<lambda>n.
            scope_Equals (nd_Scope n) sc \<and> isSchedulable (nd_Status n) \<and> containsAll (nd_Capabilities n) normalized \<and>
            labelsMatch (nd_Labels n) requiredLabels) (map snd (ns_byID st))))))"

section \<open>Operations\<close>

definition new_node :: "scope \<Rightarrow> registration_input \<Rightarrow> gotime \<Rightarrow> string \<Rightarrow> node" where
  "new_node sc inp now newID = \<lparr>nd_ID = newID, nd_Scope = sc, nd_Name = TrimSpace (ri_Name inp),
     nd_Hostname = TrimSpace (ri_Hostname inp), nd_IPAddress = TrimSpace (ri_IPAddress inp), nd_Version = TrimSpace (ri_Version inp),
     nd_ProtocolVersion = ri_ProtocolVersion inp, nd_OS = normToken (ri_OS inp), nd_Arch = normToken (ri_Arch inp),
     nd_Labels = cloneStringMap (ri_Labels inp), nd_Capabilities = normalizeCapabilities (ri_Capabilities inp),
     nd_Status = ''registering'', nd_LastSeenAt = None, nd_CreatedAt = now, nd_UpdatedAt = now\<rparr>"

definition node_Register ::
  "(string \<Rightarrow> bool) \<Rightarrow> node_store \<Rightarrow> scope \<Rightarrow> registration_input \<Rightarrow> gotime \<Rightarrow> string \<Rightarrow> (gerror + node) \<times> node_store" where
  "node_Register parse_addr st sc inp now newID =
     (case scope_Validate sc of
        Some e \<Rightarrow> (Inl e, st)
      | None \<Rightarrow>
          (case validateRegistration parse_addr inp of
             Some e \<Rightarrow> (Inl e, st)
           | None \<Rightarrow>
               let n = new_node sc inp now newID;
                   key = EnvironmentKey sc @ ''/'' @ nd_Name n in
               if mget (ns_byEnvName st) key \<noteq> None
               then (Inl (Err ErrConflict ''node already exists under environment''), st)
               else (Inr (cloneNode n), st\<lparr>ns_byID := mput newID n (ns_byID st),
                                          ns_byEnvName := mput key newID (ns_byEnvName st)\<rparr>)))"

definition CreateRegistrationToken ::
  "node_store \<Rightarrow> scope \<Rightarrow> gotime \<Rightarrow> string \<Rightarrow> (gerror + registration_token) \<times> node_store" where
  "CreateRegistrationToken st sc now newID =
     (case scope_Validate sc of
        Some e \<Rightarrow> (Inl e, st)
      | None \<Rightarrow>
          let token = \<lparr>rt_ID = newID, rt_Scope = sc, rt_Token = ''acx_'' @ filter (\<lambda>c. c \<noteq> CHR ''-'') newID,
                rt_ExpiresAt = now + 86400000000000, rt_CreatedAt = now\<rparr>
          in (Inr token, st\<lparr>ns_byToken := mput (rt_Token token) token (ns_byToken st)\<rparr>))"

definition ResolveRegistrationToken :: "node_store \<Rightarrow> string \<Rightarrow> gotime \<Rightarrow> gerror + registration_token" where
  "ResolveRegistrationToken st token now =
     (if TrimSpace token = [] then Inl (Err ErrValidation ''token required'')
      else case mget (ns_byToken st) (TrimSpace token) of
        None \<Rightarrow> Inl (Err ErrNotFound ''registration token not found'')
      | Some r \<Rightarrow> if \<not> now < rt_ExpiresAt r then Inl (Err ErrUnavailable ''registration token expired'') else Inr r)"

definition node_Heartbeat ::
  "node_store \<Rightarrow> scope \<Rightarrow> string \<Rightarrow> heartbeat_input \<Rightarrow> gotime \<Rightarrow> (gerror + node) \<times> node_store" where
  "node_Heartbeat st sc i inp now =
     (case scope_Validate sc of
        Some e \<Rightarrow> (Inl e, st)
      | None \<Rightarrow>
          (case validateHeartbeat inp of
             Some e \<Rightarrow> (Inl e, st)
           | None \<Rightarrow>
               (case scoped_get ''node'' nd_Scope (ns_byID st) sc i of
                  Inl e \<Rightarrow> (Inl e, st)
                | Inr n \<Rightarrow>
                    if nd_Status n = ''disabled'' then (Inl (Err ErrUnavailable (''node '' @ i @ '' disabled'')), st)
                    else
                      let n' = n\<lparr>nd_Version := TrimSpace (hi_Version inp), nd_ProtocolVersion := hi_ProtocolVersion inp,
                            nd_Status := normalizeNodeStatus (hi_Status inp),
                            nd_Capabilities := normalizeCapabilities (hi_Capabilities inp), nd_LastSeenAt := Some now,
                            nd_UpdatedAt := now\<rparr>
                      in (Inr (cloneNode n'), st\<lparr>ns_byID := mput (nd_ID n) n' (ns_byID st)\<rparr>))))"

definition node_UpdateLabels ::
  "node_store \<Rightarrow> scope \<Rightarrow> string \<Rightarrow> string_map \<Rightarrow> gotime \<Rightarrow> (gerror + node) \<times> node_store" where
  "node_UpdateLabels st sc i labels now =
     (case scope_Validate sc of
        Some e \<Rightarrow> (Inl e, st)
      | None \<Rightarrow>
          (case scoped_get ''node'' nd_Scope (ns_byID st) sc i of
             Inl e \<Rightarrow> (Inl e, st)
           | Inr n \<Rightarrow>
               let n' = n\<lparr>nd_Labels := cloneStringMap labels, nd_UpdatedAt := now\<rparr>
               in (Inr (cloneNode n'), st\<lparr>ns_byID := mput (nd_ID n) n' (ns_byID st)\<rparr>)))"

definition node_Disable :: "node_store \<Rightarrow> scope \<Rightarrow> string \<Rightarrow> gotime \<Rightarrow> (gerror + node) \<times> node_store" where
  "node_Disable st sc i now =
     (case scope_Validate sc of
        Some e \<Rightarrow> (Inl e, st)
      | None \<Rightarrow>
          (case scoped_get ''node'' nd_Scope (ns_byID st) sc i of
             Inl e \<Rightarrow> (Inl e, st)
           | Inr n \<Rightarrow>
               let n' = n\<lparr>nd_Status := ''disabled'', nd_UpdatedAt := now\<rparr>
               in (Inr (cloneNode n'), st\<lparr>ns_byID := mput (nd_ID n) n' (ns_byID st)\<rparr>)))"

end
