(* ===== verification/AgentNodeProps.thy ===== *)
theory AgentNodeProps
  imports AgentNode
begin

text \<open>
  The nodes of an environment: the invariant of the store under all its operations, exactly which nodes are
  offered for work, and that a disabled node never is again.
\<close>

section \<open>Normal forms\<close>

lemma mput_new: "mget m k = None \<Longrightarrow> mput k v m = m @ [(k, v)]"
  unfolding mput_def by (induction m) (auto split: if_splits)

lemma fold_mput: "distinct (map fst (acc @ m)) \<Longrightarrow> fold (\<lambda>(k, v) a. mput k v a) m acc = acc @ m"
proof (induction m arbitrary: acc)
  case (Cons x m)
  obtain k v where x: "x = (k, v)" by (cases x)
  with Cons.prems have "mget acc k = None" by (auto simp: map_of_eq_None_iff)
  then have "mput k v acc = acc @ [(k, v)]" by (rule mput_new)
  with Cons.IH [of "acc @ [(k, v)]"] Cons.prems x show ?case by simp
qed simp

definition trimmed_map :: "string_map \<Rightarrow> bool" where
  "trimmed_map m = (mwf m \<and> (\<forall>(k, v) \<in> set m. k \<noteq> [] \<and> TrimSpace k = k \<and> TrimSpace v = v))"

lemma clone_trimmed: "trimmed_map m \<Longrightarrow> cloneStringMap m = m"
proof -
  assume t: "trimmed_map m"
  have "fold (\<lambda>(key, value) clone. if TrimSpace key = [] then clone else mput (TrimSpace key) (TrimSpace value) clone) m a =
      fold (\<lambda>(k, v) a. mput k v a) m a" for a
    using t by (intro fold_cong) (auto simp: trimmed_map_def)
  with t fold_mput [of "[]" m] show ?thesis by (simp add: cloneStringMap_def trimmed_map_def mwf_def)
qed

lemma mput_set: "(k', v') \<in> set (mput k v m) \<Longrightarrow> mwf m \<Longrightarrow> (k', v') = (k, v) \<or> (k', v') \<in> set m"
  using mwf_mput [of m k v] by (auto simp: mem_mget split: if_splits)

lemma trimmed_clone: "trimmed_map (cloneStringMap m)"
proof -
  have "trimmed_map acc \<Longrightarrow>
    trimmed_map (fold (\<lambda>(key, value) clone. if TrimSpace key = [] then clone else mput (TrimSpace key) (TrimSpace value) clone) m acc)" for acc
  proof (induction m arbitrary: acc)
    case (Cons x m)
    obtain k v where x: "x = (k, v)" by (cases x)
    have "trimmed_map (mput (TrimSpace k) (TrimSpace v) acc)" if "TrimSpace k \<noteq> []"
      using Cons.prems that mput_set [of _ _ "TrimSpace k" "TrimSpace v" acc] by (fastforce simp: trimmed_map_def)
    with Cons x show ?case by simp
  qed simp
  moreover have "trimmed_map []" by (simp add: trimmed_map_def)
  ultimately show ?thesis unfolding cloneStringMap_def by blast
qed

lemma clone_idem [simp]: "cloneStringMap (cloneStringMap m) = cloneStringMap m"
  by (rule clone_trimmed [OF trimmed_clone])

lemma cap_loop:
  "set (normalizeCapabilities_loop items result) = set result \<union> {c \<in> (\<lambda>i. ToLower (TrimSpace i)) ` set items. validCapability c}"
  "distinct result \<Longrightarrow> distinct (normalizeCapabilities_loop items result)"
  by (induction items result rule: normalizeCapabilities_loop.induct) (auto simp: Let_def)

lemma normalizeCapabilities_set:
  "set (normalizeCapabilities items) = {c \<in> (\<lambda>i. ToLower (TrimSpace i)) ` set items. validCapability c}"
  "distinct (normalizeCapabilities items)" "sorted (normalizeCapabilities items)"
  using cap_loop [where result = "[]"] by (simp_all add: normalizeCapabilities_def)

text \<open>Where no item is dropped, all of them are capabilities.\<close>

lemma normalizeCapabilities_all:
  "length (normalizeCapabilities items) = length items \<Longrightarrow> set (normalizeCapabilities items) = (\<lambda>i. ToLower (TrimSpace i)) ` set items"
proof -
  assume l: "length (normalizeCapabilities items) = length items"
  have "card (set (normalizeCapabilities items)) = length items"
    using l distinct_card [OF normalizeCapabilities_set(2)] by simp
  moreover have "card ((\<lambda>i. ToLower (TrimSpace i)) ` set items) \<le> length items"
    using card_image_le [of "set items"] card_length [of items] le_trans by blast
  ultimately show ?thesis using normalizeCapabilities_set(1) [of items]
    by (intro card_seteq) auto
qed

section \<open>The invariant\<close>

definition node_statuses :: "string set" where
  "node_statuses = {''registering'', ''online'', ''degraded'', ''incompatible'', ''disabled''}"

definition node_ok :: "node \<Rightarrow> bool" where
  "node_ok n = (nd_Name n \<noteq> [] \<and> valid_scope (nd_Scope n) \<and> trimmed_map (nd_Labels n) \<and>
     1 \<le> nd_ProtocolVersion n \<and> nd_Status n \<in> node_statuses)"

definition nodes_wf :: "node_store \<Rightarrow> bool" where
  "nodes_wf st =
     (mwf (ns_byID st) \<and>
      (\<forall>i n. mget (ns_byID st) i = Some n \<longrightarrow> nd_ID n = i \<and> node_ok n \<and>
         mget (ns_byEnvName st) (envKey (nd_Scope n) (nd_Name n)) = Some i) \<and>
      (\<forall>k i. mget (ns_byEnvName st) k = Some i \<longrightarrow>
         (\<exists>n. mget (ns_byID st) i = Some n \<and> k = envKey (nd_Scope n) (nd_Name n))))"

lemma nodes_wfI:
  assumes "mwf (ns_byID st)"
    and "\<And>i n. mget (ns_byID st) i = Some n \<Longrightarrow> nd_ID n = i \<and> node_ok n \<and>
       mget (ns_byEnvName st) (envKey (nd_Scope n) (nd_Name n)) = Some i"
    and "\<And>k i. mget (ns_byEnvName st) k = Some i \<Longrightarrow> \<exists>n. mget (ns_byID st) i = Some n \<and> k = envKey (nd_Scope n) (nd_Name n)"
  shows "nodes_wf st"
  unfolding nodes_wf_def using assms by blast

lemma nodes_wfD:
  assumes "nodes_wf st" "mget (ns_byID st) i = Some n"
  shows "nd_ID n = i" "node_ok n" "mget (ns_byEnvName st) (envKey (nd_Scope n) (nd_Name n)) = Some i" "cloneNode n = n"
  using assms unfolding nodes_wf_def by (auto simp: node_ok_def cloneNode_def clone_trimmed)

lemma clone_fields [simp]:
  "nd_ID (cloneNode n) = nd_ID n" "nd_Scope (cloneNode n) = nd_Scope n" "nd_Name (cloneNode n) = nd_Name n"
  "nd_Status (cloneNode n) = nd_Status n" "nd_Capabilities (cloneNode n) = nd_Capabilities n"
  by (simp_all add: cloneNode_def)

text \<open>Every operation but \<open>Register\<close> and the tokens replaces one node and keeps its identifier, scope and name.\<close>

lemma nodes_wf_replace:
  assumes wf: "nodes_wf st" and n: "mget (ns_byID st) i = Some n" "node_ok n'" "nd_ID n' = nd_ID n" "nd_Scope n' = nd_Scope n"
      "nd_Name n' = nd_Name n"
  shows "nodes_wf (st\<lparr>ns_byID := mput (nd_ID n) n' (ns_byID st)\<rparr>)"
proof -
  note old = nodes_wfD [OF wf n(1)]
  have w: "mwf (ns_byID st)" using wf by (simp add: nodes_wf_def)
  have a: "nd_ID m = j \<and> node_ok m \<and> mget (ns_byEnvName st) (envKey (nd_Scope m) (nd_Name m)) = Some j"
    if "mget (mput (nd_ID n) n' (ns_byID st)) j = Some m" for j m
  proof (cases "j = i")
    case True
    with that old(1) have "m = n'" by simp
    with True n old show ?thesis by simp
  next
    case False
    with that old(1) have "mget (ns_byID st) j = Some m" by simp
    with nodes_wfD(1-3) [OF wf this] show ?thesis by simp
  qed
  have b: "\<exists>m. mget (mput (nd_ID n) n' (ns_byID st)) j = Some m \<and> k = envKey (nd_Scope m) (nd_Name m)"
    if k: "mget (ns_byEnvName st) k = Some j" for k j
  proof -
    from wf k obtain m where "mget (ns_byID st) j = Some m" "k = envKey (nd_Scope m) (nd_Name m)" unfolding nodes_wf_def by blast
    with n old show ?thesis by (cases "j = i") simp_all
  qed
  define st2 where "st2 = st\<lparr>ns_byID := mput (nd_ID n) n' (ns_byID st)\<rparr>"
  have st2: "ns_byID st2 = mput (nd_ID n) n' (ns_byID st)" "ns_byEnvName st2 = ns_byEnvName st" by (simp_all add: st2_def)
  show ?thesis unfolding st2_def [symmetric]
    by (rule nodes_wfI; unfold st2) (rule mwf_mput [OF w], erule a, erule b)
qed

text \<open>How an operation on one node that succeeds looks.\<close>

definition replaces :: "node_store \<Rightarrow> string \<Rightarrow> node \<Rightarrow> node \<Rightarrow> node_store \<Rightarrow> bool" where
  "replaces st i n n' st' = (mget (ns_byID st) i = Some n \<and> nd_ID n' = nd_ID n \<and> nd_Scope n' = nd_Scope n \<and> nd_Name n' = nd_Name n \<and>
     st' = st\<lparr>ns_byID := mput (nd_ID n) n' (ns_byID st)\<rparr>)"

lemma heartbeat_cases:
  assumes "node_Heartbeat st sc i inp now = (r, st')"
  shows "st' = st \<or>
     (\<exists>n n'. replaces st i n n' st' \<and> nd_Status n \<noteq> ''disabled'' \<and> nd_Labels n' = nd_Labels n \<and> 1 \<le> nd_ProtocolVersion n' \<and>
       nd_Status n' \<in> {''online'', ''degraded'', ''incompatible''})"
proof (cases "st' = st")
  case False
  define beat where "beat = (\<lambda>n. n\<lparr>nd_Version := TrimSpace (hi_Version inp), nd_ProtocolVersion := hi_ProtocolVersion inp,
      nd_Status := normalizeNodeStatus (hi_Status inp), nd_Capabilities := normalizeCapabilities (hi_Capabilities inp),
      nd_LastSeenAt := Some now, nd_UpdatedAt := now\<rparr> :: node)"
  from False assms obtain n where n: "mget (ns_byID st) i = Some n" "nd_Status n \<noteq> ''disabled''" "validateHeartbeat inp = None"
    "st' = st\<lparr>ns_byID := mput (nd_ID n) (beat n) (ns_byID st)\<rparr>"
    by (auto simp: node_Heartbeat_def Let_def beat_def split: option.splits sum.splits if_splits)
  then have "replaces st i n (beat n) st'" by (simp add: replaces_def beat_def)
  moreover have "1 \<le> nd_ProtocolVersion (beat n)" "nd_Status (beat n) \<in> {''online'', ''degraded'', ''incompatible''}"
    using n(3) by (auto simp: validateHeartbeat_def validHeartbeatStatus_def MinimumSupportedProtocolVersion_def beat_def split: if_splits)
  moreover have "nd_Labels (beat n) = nd_Labels n" by (simp add: beat_def)
  ultimately show ?thesis using n(2) by blast
qed simp

lemma labels_cases:
  assumes "node_UpdateLabels st sc i labels now = (r, st')"
  shows "st' = st \<or>
     (\<exists>n n'. replaces st i n n' st' \<and> nd_Status n' = nd_Status n \<and> nd_Labels n' = cloneStringMap labels \<and>
       nd_ProtocolVersion n' = nd_ProtocolVersion n)"
proof (cases "st' = st")
  case False
  define relabel where "relabel = (\<lambda>n. n\<lparr>nd_Labels := cloneStringMap labels, nd_UpdatedAt := now\<rparr> :: node)"
  from False assms obtain n where "mget (ns_byID st) i = Some n" "st' = st\<lparr>ns_byID := mput (nd_ID n) (relabel n) (ns_byID st)\<rparr>"
    by (auto simp: node_UpdateLabels_def Let_def relabel_def split: option.splits sum.splits)
  then have "replaces st i n (relabel n) st'" by (simp add: replaces_def relabel_def)
  moreover have "nd_Status (relabel n) = nd_Status n" "nd_Labels (relabel n) = cloneStringMap labels"
    "nd_ProtocolVersion (relabel n) = nd_ProtocolVersion n" by (simp_all add: relabel_def)
  ultimately show ?thesis by blast
qed simp

lemma disable_cases:
  assumes "node_Disable st sc i now = (r, st')"
  shows "(\<exists>e. r = Inl e \<and> st' = st) \<or>
     (\<exists>n n'. replaces st i n n' st' \<and> nd_Status n' = ''disabled'' \<and> nd_Labels n' = nd_Labels n \<and>
       nd_ProtocolVersion n' = nd_ProtocolVersion n)"
proof (cases r)
  case (Inl e)
  with assms show ?thesis by (auto simp: node_Disable_def Let_def split: option.splits sum.splits)
next
  case (Inr x)
  define off where "off = (\<lambda>n. n\<lparr>nd_Status := ''disabled'', nd_UpdatedAt := now\<rparr> :: node)"
  from Inr assms obtain n where "mget (ns_byID st) i = Some n" "st' = st\<lparr>ns_byID := mput (nd_ID n) (off n) (ns_byID st)\<rparr>"
    by (auto simp: node_Disable_def Let_def off_def split: option.splits sum.splits)
  then have "replaces st i n (off n) st'" by (simp add: replaces_def off_def)
  moreover have "nd_Status (off n) = ''disabled''" "nd_Labels (off n) = nd_Labels n" "nd_ProtocolVersion (off n) = nd_ProtocolVersion n"
    by (simp_all add: off_def)
  ultimately show ?thesis by blast
qed

lemma replaces_wf:
  "nodes_wf st \<Longrightarrow> replaces st i n n' st' \<Longrightarrow> trimmed_map (nd_Labels n') \<Longrightarrow> 1 \<le> nd_ProtocolVersion n' \<Longrightarrow>
     nd_Status n' \<in> node_statuses \<Longrightarrow> nodes_wf st'"
  using nodes_wfD(2) by (auto simp: replaces_def node_ok_def intro!: nodes_wf_replace)

lemma register_cases:
  assumes "node_Register pa st sc inp now i = (r, st')"
  shows "(\<exists>e. r = Inl e \<and> st' = st) \<or>
    (valid_scope sc \<and> validateRegistration pa inp = None \<and> mget (ns_byEnvName st) (envKey sc (nd_Name (new_node sc inp now i))) = None \<and>
     r = Inr (cloneNode (new_node sc inp now i)) \<and>
     st' = st\<lparr>ns_byID := mput i (new_node sc inp now i) (ns_byID st),
       ns_byEnvName := mput (envKey sc (nd_Name (new_node sc inp now i))) i (ns_byEnvName st)\<rparr>)"
  using assms by (auto simp: node_Register_def Let_def envKey_def split: option.splits if_splits)

lemma new_node_ok: "valid_scope sc \<Longrightarrow> validateRegistration pa inp = None \<Longrightarrow> node_ok (new_node sc inp now i)"
  by (auto simp: validateRegistration_def node_ok_def new_node_def trimmed_clone node_statuses_def MinimumSupportedProtocolVersion_def
      split: if_splits)

lemma register_wf:
  assumes wf: "nodes_wf st" and f: "mget (ns_byID st) i = None" and r: "node_Register pa st sc inp now i = (r, st')"
  shows "nodes_wf st'"
proof (cases "\<exists>e. r = Inl e \<and> st' = st")
  case False
  define n where "n = new_node sc inp now i"
  have id: "nd_ID n = i" "nd_Scope n = sc" by (simp_all add: n_def new_node_def)
  from register_cases [OF r] False have v: "valid_scope sc" "validateRegistration pa inp = None"
    and new: "mget (ns_byEnvName st) (envKey sc (nd_Name n)) = None"
    and st': "st' = st\<lparr>ns_byID := mput i n (ns_byID st), ns_byEnvName := mput (envKey sc (nd_Name n)) i (ns_byEnvName st)\<rparr>"
    by (auto simp: n_def)
  have ok: "node_ok n" unfolding n_def by (rule new_node_ok [OF v])
  have w: "mwf (ns_byID st)" using wf by (simp add: nodes_wf_def)
  have a: "nd_ID m = j \<and> node_ok m \<and> mget (mput (envKey sc (nd_Name n)) i (ns_byEnvName st)) (envKey (nd_Scope m) (nd_Name m)) = Some j"
    if "mget (mput i n (ns_byID st)) j = Some m" for j m
    using that ok id new nodes_wfD(1-3) [OF wf, of j m] by (cases "j = i") auto
  have b: "\<exists>m. mget (mput i n (ns_byID st)) j = Some m \<and> k = envKey (nd_Scope m) (nd_Name m)"
    if k: "mget (mput (envKey sc (nd_Name n)) i (ns_byEnvName st)) k = Some j" for k j
  proof (cases "k = envKey sc (nd_Name n)")
    case True
    with k id show ?thesis by simp
  next
    case False
    with k have "mget (ns_byEnvName st) k = Some j" by simp
    with wf obtain m where "mget (ns_byID st) j = Some m" "k = envKey (nd_Scope m) (nd_Name m)" unfolding nodes_wf_def by blast
    with f show ?thesis by auto
  qed
  have st2: "ns_byID st' = mput i n (ns_byID st)" "ns_byEnvName st' = mput (envKey sc (nd_Name n)) i (ns_byEnvName st)"
    by (simp_all add: st')
  show ?thesis by (rule nodes_wfI; unfold st2) (rule mwf_mput [OF w], erule a, erule b)
qed (use wf in auto)

section \<open>Reachable stores\<close>

inductive node_step :: "node_store \<Rightarrow> node_store \<Rightarrow> bool" where
  registered: "mget (ns_byID st) i = None \<Longrightarrow> node_Register pa st sc inp now i = (r, st') \<Longrightarrow> node_step st st'"
| invited: "CreateRegistrationToken st sc now i = (t, st') \<Longrightarrow> node_step st st'"
| beaten: "node_Heartbeat st sc i beat now = (r, st') \<Longrightarrow> node_step st st'"
| labelled: "node_UpdateLabels st sc i labels now = (r, st') \<Longrightarrow> node_step st st'"
| disabled: "node_Disable st sc i now = (r, st') \<Longrightarrow> node_step st st'"

lemma token_same: "CreateRegistrationToken st sc now i = (t, st') \<Longrightarrow> ns_byID st' = ns_byID st \<and> ns_byEnvName st' = ns_byEnvName st"
  by (auto simp: CreateRegistrationToken_def Let_def split: option.splits)

lemma node_step_wf: "node_step st st' \<Longrightarrow> nodes_wf st \<Longrightarrow> nodes_wf st'"
proof (induction rule: node_step.induct)
  case (registered st i pa sc inp now r st')
  then show ?case using register_wf by blast
next
  case (invited st sc now i t st')
  then show ?case using token_same by (simp add: nodes_wf_def)
next
  case (beaten st sc i beat now r st')
  from heartbeat_cases [OF beaten(1)] show ?case
  proof (elim disjE exE conjE)
    fix n n' assume n: "replaces st i n n' st'" "nd_Labels n' = nd_Labels n" "1 \<le> nd_ProtocolVersion n'"
      "nd_Status n' \<in> {''online'', ''degraded'', ''incompatible''}"
    have "nd_Status n' \<in> node_statuses" using n(4) by (auto simp: node_statuses_def)
    with n beaten.prems replaces_wf nodes_wfD(2) show ?thesis by (metis node_ok_def replaces_def)
  qed (use beaten.prems in simp)
next
  case (labelled st sc i labels now r st')
  from labels_cases [OF labelled(1)] show ?case
  proof (elim disjE exE conjE)
    fix n n' assume n: "replaces st i n n' st'" "nd_Status n' = nd_Status n" "nd_Labels n' = cloneStringMap labels"
      "nd_ProtocolVersion n' = nd_ProtocolVersion n"
    with labelled.prems replaces_wf nodes_wfD(2) trimmed_clone show ?thesis by (metis node_ok_def replaces_def)
  qed (use labelled.prems in simp)
next
  case (disabled st sc i now r st')
  from disable_cases [OF disabled(1)] show ?case
  proof (elim disjE exE conjE)
    fix n n' assume n: "replaces st i n n' st'" "nd_Status n' = ''disabled''" "nd_Labels n' = nd_Labels n"
      "nd_ProtocolVersion n' = nd_ProtocolVersion n"
    have "nd_Status n' \<in> node_statuses" using n(2) by (simp add: node_statuses_def)
    with n disabled.prems replaces_wf nodes_wfD(2) show ?thesis by (metis node_ok_def replaces_def)
  qed (use disabled.prems in simp)
qed

lemma nodes_reachable_wf: "node_step\<^sup>*\<^sup>* NewNodeService st \<Longrightarrow> nodes_wf st"
  by (induction rule: rtranclp_induct) (auto simp: nodes_wf_def NewNodeService_def dest: node_step_wf [unfolded nodes_wf_def])

definition disabled_node :: "node_store \<Rightarrow> string \<Rightarrow> bool" where
  "disabled_node st i = (\<exists>n. mget (ns_byID st) i = Some n \<and> nd_Status n = ''disabled'')"

lemma replaces_disabled:
  "nodes_wf st \<Longrightarrow> replaces st j n n' st' \<Longrightarrow> (nd_Status n = ''disabled'' \<Longrightarrow> nd_Status n' = ''disabled'') \<Longrightarrow>
     disabled_node st i \<Longrightarrow> disabled_node st' i"
  using nodes_wfD(1) [of st j n] by (auto simp: replaces_def disabled_node_def)

lemma node_step_disabled: "node_step st st' \<Longrightarrow> nodes_wf st \<Longrightarrow> disabled_node st i \<Longrightarrow> disabled_node st' i"
proof (induction rule: node_step.induct)
  case (registered st j pa sc inp now r st')
  from register_cases [OF registered(2)] registered(1,4) show ?case by (auto simp: disabled_node_def)
next
  case (invited st sc now j t st')
  then show ?case using token_same by (simp add: disabled_node_def)
next
  case (beaten st sc j beat now r st')
  from heartbeat_cases [OF beaten(1)] beaten(2,3) replaces_disabled show ?case by metis
next
  case (labelled st sc j labels now r st')
  from labels_cases [OF labelled(1)] labelled(2,3) replaces_disabled show ?case by metis
next
  case (disabled st sc j now r st')
  from disable_cases [OF disabled(1)] disabled(2,3) replaces_disabled show ?case by metis
qed

lemma node_steps_disabled:
  "node_step\<^sup>*\<^sup>* st st' \<Longrightarrow> nodes_wf st \<Longrightarrow> disabled_node st i \<Longrightarrow> nodes_wf st' \<and> disabled_node st' i"
  by (induction rule: rtranclp_induct) (auto intro: node_step_wf node_step_disabled)

interpretation node_scoped: scoped_store "\<lambda>st i. map_option cloneNode (mget (ns_byID st) i)" nd_Scope node_Get "\<lambda>i. TrimSpace i = []"
proof (unfold_locales, goal_cases)
  case (2 sc st i)
  then show ?case using invalid_scope_Validate by (fastforce simp: node_Get_def)
next
  case (3 i st sc)
  then show ?case using invalid_scope_Validate [of sc] by (cases "valid_scope sc") (auto simp: node_Get_def)
qed (auto simp: node_Get_def scoped_get_def)

section \<open>Matching\<close>

definition label_of :: "node \<Rightarrow> string \<Rightarrow> string" where
  "label_of n k = (case mget (nd_Labels n) k of None \<Rightarrow> [] | Some v \<Rightarrow> v)"

lemma stored_nodes:
  "nodes_wf st \<Longrightarrow> n \<in> set (map snd (ns_byID st)) \<longleftrightarrow> mget (ns_byID st) (nd_ID n) = Some n"
proof -
  assume wf: "nodes_wf st"
  have w: "mwf (ns_byID st)" using wf by (simp add: nodes_wf_def)
  show ?thesis
  proof
    assume "n \<in> set (map snd (ns_byID st))"
    then obtain i where "(i, n) \<in> set (ns_byID st)" by auto
    then have "mget (ns_byID st) i = Some n" using w by (simp add: mem_mget)
    with nodes_wfD(1) [OF wf this] show "mget (ns_byID st) (nd_ID n) = Some n" by simp
  next
    assume "mget (ns_byID st) (nd_ID n) = Some n"
    then show "n \<in> set (map snd (ns_byID st))" by (force dest: map_of_SomeD)
  qed
qed

definition offered :: "node_store \<Rightarrow> scope \<Rightarrow> string list \<Rightarrow> string_map \<Rightarrow> node \<Rightarrow> bool" where
  "offered st sc caps labels n = (mget (ns_byID st) (nd_ID n) = Some n \<and> nd_Scope n = sc \<and>
     nd_Status n \<in> {''online'', ''degraded''} \<and> (\<forall>c \<in> set caps. ToLower (TrimSpace c) \<in> set (nd_Capabilities n)) \<and>
     (\<forall>(k, v) \<in> set labels. label_of n k = v))"

lemma match_result:
  assumes "nodes_wf st" "node_MatchCapable st sc caps labels = Inr ns"
  shows "n \<in> set ns \<longleftrightarrow> offered st sc caps labels n" "sorted (map nd_Name ns)" "distinct (map nd_Name ns)"
proof -
  define P where "P = (\<lambda>n :: node. scope_Equals (nd_Scope n) sc \<and> isSchedulable (nd_Status n) \<and>
      containsAll (nd_Capabilities n) (normalizeCapabilities caps) \<and> labelsMatch (nd_Labels n) labels)"
  define xs where "xs = filter P (map snd (ns_byID st))"
  have c: "length (normalizeCapabilities caps) = length caps" and ns: "ns = sort_key nd_Name (map cloneNode xs)"
    using assms(2) by (auto simp: node_MatchCapable_def Let_def P_def xs_def split: option.splits if_splits)
  have m: "m \<in> set xs \<longleftrightarrow> mget (ns_byID st) (nd_ID m) = Some m \<and> P m" for m
    using stored_nodes [OF assms(1)] by (auto simp: xs_def)
  have "map cloneNode xs = xs" by (rule map_idI) (use m nodes_wfD(4) [OF assms(1)] in blast)
  with ns have ns: "ns = sort_key nd_Name xs" by simp
  have P: "P m \<longleftrightarrow> nd_Scope m = sc \<and> nd_Status m \<in> {''online'', ''degraded''} \<and>
      (\<forall>c \<in> set caps. ToLower (TrimSpace c) \<in> set (nd_Capabilities m)) \<and> (\<forall>(k, v) \<in> set labels. label_of m k = v)" for m
    using normalizeCapabilities_all [OF c]
    by (auto simp: P_def isSchedulable_def containsAll_def labelsMatch_def label_of_def list_all_iff)
  show "n \<in> set ns \<longleftrightarrow> offered st sc caps labels n" using m P by (auto simp: ns offered_def)
  show "sorted (map nd_Name ns)" by (simp add: ns)
  have inj: "inj_on nd_Name (set xs)"
  proof (rule inj_onI)
    fix a b assume a: "a \<in> set xs" "b \<in> set xs" "nd_Name a = nd_Name b"
    then have g: "mget (ns_byID st) (nd_ID a) = Some a" "mget (ns_byID st) (nd_ID b) = Some b" "nd_Scope a = nd_Scope b"
      using m [of a] m [of b] P [of a] P [of b] by simp_all
    have "nd_ID a = nd_ID b"
      using nodes_wfD(3) [OF assms(1) g(1)] nodes_wfD(3) [OF assms(1) g(2)] g(3) a(3) by (metis option.inject)
    then show "a = b" using g(1,2) by (metis option.inject)
  qed
  have "distinct (map snd (ns_byID st))"
  proof -
    have w: "mwf (ns_byID st)" using assms(1) by (simp add: nodes_wf_def)
    have "map nd_ID (map snd (ns_byID st)) = map fst (ns_byID st)"
      unfolding map_map using w nodes_wfD(1) [OF assms(1)] by (intro map_cong refl) (auto simp: mem_mget [symmetric])
    with w show ?thesis by (metis distinct_map mwf_def)
  qed
  then have "distinct xs" by (simp add: xs_def)
  then have "distinct ns" "set ns = set xs" by (simp_all add: ns)
  with inj show "distinct (map nd_Name ns)" by (simp add: distinct_map)
qed

section \<open>Properties\<close>

definition demo_registration :: registration_input where
  "demo_registration = \<lparr>ri_Name = ''edge-1'', ri_Hostname = [], ri_IPAddress = [], ri_Version = ''1'', ri_ProtocolVersion = 1,
     ri_OS = [], ri_Arch = [], ri_Labels = [(''zone'', ''a'')], ri_Capabilities = [''Deploy:nginx'']\<rparr>"

definition demo_beat :: heartbeat_input where
  "demo_beat = \<lparr>hi_Version = ''1'', hi_ProtocolVersion = 1, hi_Status = ''Online'', hi_Capabilities = [''deploy:nginx'']\<rparr>"

definition registered_nodes :: node_store where
  "registered_nodes = snd (node_Register (\<lambda>_. True) NewNodeService demo_scope demo_registration 1 ''n1'')"

definition demo_nodes :: node_store where
  "demo_nodes = snd (node_Heartbeat registered_nodes demo_scope ''n1'' demo_beat 2)"

lemma demo_nodes_reachable: "node_step\<^sup>*\<^sup>* NewNodeService demo_nodes"
proof -
  have "node_step NewNodeService registered_nodes"
    unfolding registered_nodes_def by (rule node_step.registered [OF _ prod.collapse [symmetric]]) (simp add: NewNodeService_def)
  moreover have "node_step registered_nodes demo_nodes"
    unfolding demo_nodes_def by (rule node_step.beaten [OF prod.collapse [symmetric]])
  ultimately show ?thesis by (meson rtranclp.rtrancl_into_rtrancl rtranclp.rtrancl_refl)
qed

text \<open>Work is offered to the nodes that can do it: a match returns exactly the nodes of the scope that are online or
  degraded, have every required capability and every required label, each name once and in order.\<close>

theorem work_is_offered_to_capable_nodes:
  assumes "node_step\<^sup>*\<^sup>* NewNodeService st" "node_MatchCapable st sc caps labels = Inr ns"
  shows "(\<forall>n. n \<in> set ns \<longleftrightarrow> offered st sc caps labels n) \<and> sorted (map nd_Name ns) \<and> distinct (map nd_Name ns)"
  using match_result [OF nodes_reachable_wf [OF assms(1)] assms(2)] by blast

theorem work_is_offered_to_capable_nodes_witness:
  "\<exists>ns. node_MatchCapable demo_nodes demo_scope [''deploy:NGINX''] [(''zone'', ''a'')] = Inr ns \<and> map nd_ID ns = [''n1''] \<and>
     (\<forall>n. n \<in> set ns \<longleftrightarrow> offered demo_nodes demo_scope [''deploy:NGINX''] [(''zone'', ''a'')] n)"
proof -
  have "case node_MatchCapable demo_nodes demo_scope [''deploy:NGINX''] [(''zone'', ''a'')] of Inr ns \<Rightarrow> map nd_ID ns = [''n1''] | Inl _ \<Rightarrow> False"
    by code_simp
  then obtain ns where ns: "node_MatchCapable demo_nodes demo_scope [''deploy:NGINX''] [(''zone'', ''a'')] = Inr ns" "map nd_ID ns = [''n1'']"
    by (auto split: sum.splits)
  with work_is_offered_to_capable_nodes [OF demo_nodes_reachable ns(1), THEN conjunct1] show ?thesis by (intro exI conjI)
qed

text \<open>A disabled node gets no more work: after it was disabled, whatever operations follow, no heartbeat revives
  it and no match offers it.\<close>

theorem disabled_node_gets_no_work:
  assumes "node_step\<^sup>*\<^sup>* NewNodeService st" "node_Disable st sc i now = (Inr n, st1)" "node_step\<^sup>*\<^sup>* st1 st2"
  shows "(\<forall>sc2 beat now2. \<exists>e. node_Heartbeat st2 sc2 i beat now2 = (Inl e, st2)) \<and>
    (\<forall>sc2 caps labels ns. node_MatchCapable st2 sc2 caps labels = Inr ns \<longrightarrow> i \<notin> set (map nd_ID ns))"
proof -
  note wf = nodes_reachable_wf [OF assms(1)]
  have wf1: "nodes_wf st1" using node_step_wf [OF node_step.disabled [OF assms(2)] wf] .
  from disable_cases [OF assms(2)] obtain m m' where m: "replaces st i m m' st1" "nd_Status m' = ''disabled''" by auto
  then have "disabled_node st1 i" using nodes_wfD(1) [OF wf, of i m] by (auto simp: replaces_def disabled_node_def)
  from node_steps_disabled [OF assms(3) wf1 this] obtain x where wf2: "nodes_wf st2"
    and x: "mget (ns_byID st2) i = Some x" "nd_Status x = ''disabled''" by (auto simp: disabled_node_def)
  have "\<exists>e. node_Heartbeat st2 sc2 i beat now2 = (Inl e, st2)" for sc2 beat now2
    using x by (auto simp: node_Heartbeat_def scoped_get_def split: option.splits)
  moreover have "i \<notin> set (map nd_ID ns)" if ns: "node_MatchCapable st2 sc2 caps labels = Inr ns" for sc2 caps labels ns
  proof
    assume "i \<in> set (map nd_ID ns)"
    then obtain y where "y \<in> set ns" "nd_ID y = i" by auto
    with match_result(1) [OF wf2 ns] x show False by (auto simp: offered_def)
  qed
  ultimately show ?thesis by blast
qed

theorem disabled_node_gets_no_work_witness:
  "\<exists>n st1 e. node_Disable demo_nodes demo_scope ''n1'' 3 = (Inr n, st1) \<and>
     node_Heartbeat st1 demo_scope ''n1'' demo_beat 4 = (Inl e, st1)"
proof -
  have "case fst (node_Disable demo_nodes demo_scope ''n1'' 3) of Inr _ \<Rightarrow> True | Inl _ \<Rightarrow> False" by code_simp
  then obtain n st1 where d: "node_Disable demo_nodes demo_scope ''n1'' 3 = (Inr n, st1)"
    by (cases "node_Disable demo_nodes demo_scope ''n1'' 3") (auto split: sum.splits)
  from disabled_node_gets_no_work [OF demo_nodes_reachable d rtranclp.rtrancl_refl] d show ?thesis by blast
qed

end
