(* ===== verification/AgentTransport.thy ===== *)
theory AgentTransport
  imports AgentNodeProps Json
begin

text \<open>
  The pull-style transport of work to agents (\<^verbatim>\<open>internal/driver/agenttransport/service.go\<close>): registration and
  heartbeats passed on to the node service, and jobs that are dispatched to one node, leased by its polls,
  kept by its progress reports and completed once. The state holds the node service and the outside
  \<open>'w\<close> the two callbacks act on; an operation runs under the lock and is one step. A callback returns its
  error text or none. \<open>clone\<close> is what marshalling a payload and unmarshalling the text makes of it.
\<close>

section \<open>Data\<close>

type_synonym payload = "(string, json) gomap"

text \<open>An \<^verbatim>\<open>apperr.Error\<close> is its status, code and details; the error of a callback is passed on as it is.\<close>

datatype transport_error =
    AppErr (app_status: int) (app_code: string) (app_details: "(string \<times> string) list")
  | CallbackErr string

record register_request =
  rr_Token :: string
  rr_NodeName :: string
  rr_Hostname :: string
  rr_IPAddress :: string
  rr_OS :: string
  rr_Arch :: string
  rr_Version :: string
  rr_ProtocolVersion :: int
  rr_Capabilities :: "string list"
  rr_Labels :: string_map

record register_response =
  rs_NodeID :: string
  rs_Status :: string
  rs_PollIntervalSeconds :: int

text \<open>The leases a heartbeat reports are not read.\<close>

record heartbeat_request =
  hb_NodeID :: string
  hb_ProtocolVersion :: int
  hb_Status :: string
  hb_Version :: string
  hb_Capabilities :: "string list"

record heartbeat_response =
  hs_Status :: string
  hs_ServerTime :: gotime

record poll_request =
  pq_NodeID :: string
  pq_ProtocolVersion :: int
  pq_SupportedSchemaVersions :: "int list"
  pq_MaxJobs :: int

record agent_job =
  aj_JobID :: string
  aj_JobType :: string
  aj_SchemaVersion :: int
  aj_OperationID :: string
  aj_LeaseExpireAt :: gotime
  aj_Payload :: payload

record progress_request =
  gp_OperationID :: string
  gp_Status :: string
  gp_Message :: string
  gp_ErrorCode :: string
  gp_ProgressPercent :: "int option"
  gp_Evidence :: payload

record complete_request =
  gc_OperationID :: string
  gc_ResultStatus :: string
  gc_ErrorCode :: string
  gc_ErrorMessage :: string
  gc_FailedStage :: string
  gc_Retryable :: bool
  gc_CompensationRequired :: bool
  gc_Evidence :: payload

record dispatch_input =
  dp_Scope :: scope
  dp_NodeID :: string
  dp_JobType :: string
  dp_SchemaVersion :: int
  dp_OperationID :: string
  dp_Payload :: "payload option"

record job_record =
  jr_scope :: scope
  jr_nodeID :: string
  jr_job :: agent_job
  jr_progress :: progress_request
  jr_completion :: complete_request
  jr_completed :: bool
  jr_completedAt :: gotime

record 'w transport =
  at_pollInterval :: duration
  at_leaseTTL :: duration
  at_progressCallback :: "(progress_request \<Rightarrow> 'w \<Rightarrow> string option \<times> 'w) option"
  at_completionCallback :: "(complete_request \<Rightarrow> 'w \<Rightarrow> string option \<times> 'w) option"
  at_clone :: "payload \<Rightarrow> payload option"
  at_parseAddr :: "string \<Rightarrow> bool"

record 'w transport_state =
  ts_nodes :: node_store
  ts_jobsByID :: "(string, job_record) gomap"
  ts_queueByNode :: "(string, string list) gomap"
  ts_world :: 'w

definition NewTransport ::
  "duration \<Rightarrow> duration \<Rightarrow> (progress_request \<Rightarrow> 'w \<Rightarrow> string option \<times> 'w) option \<Rightarrow> (complete_request \<Rightarrow> 'w \<Rightarrow> string option \<times> 'w) option
     \<Rightarrow> (payload \<Rightarrow> payload option) \<Rightarrow> (string \<Rightarrow> bool) \<Rightarrow> node_store \<Rightarrow> 'w \<Rightarrow> 'w transport \<times> 'w transport_state" where
  "NewTransport pollInterval leaseTTL progressCallback completionCallback clone parse_addr nodes w =
     (\<lparr>at_pollInterval = (if pollInterval \<le> 0 then 15 * second_ns else pollInterval),
       at_leaseTTL = (if leaseTTL \<le> 0 then 30 * second_ns else leaseTTL),
       at_progressCallback = progressCallback, at_completionCallback = completionCallback, at_clone = clone,
       at_parseAddr = parse_addr\<rparr>,
      \<lparr>ts_nodes = nodes, ts_jobsByID = [], ts_queueByNode = [], ts_world = w\<rparr>)"

section \<open>Errors\<close>

definition validationError :: "string \<Rightarrow> string \<Rightarrow> transport_error" where
  "validationError field reason = AppErr 400 ''REQUEST_VALIDATION_FAILED'' [(field, reason)]"

definition translateRegistrationTokenError :: "gerror \<Rightarrow> transport_error" where
  "translateRegistrationTokenError e =
     (if errorsIs e ErrValidation then validationError ''token'' ''required''
      else if errorsIs e ErrNotFound \<or> errorsIs e ErrUnavailable then AppErr 401 ''AGENT_REGISTRATION_DENIED'' []
      else AppErr 500 ''INTERNAL_ERROR'' [])"

definition translateNodeError :: "gerror \<Rightarrow> transport_error" where
  "translateNodeError e =
     (if errorsIs e ErrValidation then AppErr 400 ''REQUEST_VALIDATION_FAILED'' [(''request'', err_detail e)]
      else if errorsIs e ErrNotFound then AppErr 404 ''RESOURCE_NOT_FOUND'' []
      else if errorsIs e ErrConflict then AppErr 409 ''RESOURCE_CONFLICT'' []
      else if errorsIs e ErrScopeMismatch then AppErr 409 ''TENANT_SCOPE_MISMATCH'' []
      else if errorsIs e ErrUnavailable then AppErr 409 ''RESOURCE_UNAVAILABLE'' []
      else AppErr 500 ''INTERNAL_ERROR'' [])"

definition capabilityForJobType :: "string \<Rightarrow> transport_error + string" where
  "capabilityForJobType jobType =
     (let t = TrimSpace jobType in
      if t \<in> set [''present_http01_challenge'', ''cleanup_http01_challenge''] then Inr ''challenge:http-01''
      else if t = ''deploy_nginx_certificate'' then Inr ''deploy:nginx''
      else if t = ''deploy_tomcat_certificate'' then Inr ''deploy:tomcat-jsse-pkcs12''
      else if t = ''verify_nginx_deployment'' then Inr ''verify:nginx''
      else if t = ''verify_tomcat_deployment'' then Inr ''verify:tomcat''
      else if t = ''discover_nginx_certificates'' then Inr ''discover:nginx''
      else if t = ''discover_tomcat_certificates'' then Inr ''discover:tomcat''
      else Inl (validationError ''job_type'' ''invalid''))"

definition validProgressStatus :: "string \<Rightarrow> bool" where
  "validProgressStatus st = (TrimSpace st \<in> set [''started'', ''heartbeating'', ''running''])"

definition validResultStatus :: "string \<Rightarrow> bool" where
  "validResultStatus st = (TrimSpace st \<in> set [''succeeded'', ''failed'', ''timed_out'', ''abandoned''])"

definition cloneEvidence :: "(payload \<Rightarrow> payload option) \<Rightarrow> payload \<Rightarrow> payload" where
  "cloneEvidence clone values = (if values = [] then [] else case clone values of None \<Rightarrow> [] | Some c \<Rightarrow> c)"

definition cloneJob :: "(payload \<Rightarrow> payload option) \<Rightarrow> agent_job \<Rightarrow> agent_job" where
  "cloneJob clone j = j\<lparr>aj_Payload := cloneEvidence clone (aj_Payload j)\<rparr>"

section \<open>Nodes\<close>

text \<open>A name that is taken is answered with the node that has it. \<open>pollInterval\<close> is positive.\<close>

definition agent_Register ::
  "'w transport \<Rightarrow> 'w transport_state \<Rightarrow> register_request \<Rightarrow> gotime \<Rightarrow> gotime \<Rightarrow> string
     \<Rightarrow> (transport_error + register_response) \<times> 'w transport_state" where
  "agent_Register tr st req tokenNow now newID =
     (let answer = (\<lambda>n. \<lparr>rs_NodeID = nd_ID n, rs_Status = nd_Status n, rs_PollIntervalSeconds = at_pollInterval tr div second_ns\<rparr>) in
      case ResolveRegistrationToken (ts_nodes st) (rr_Token req) tokenNow of
        Inl e \<Rightarrow> (Inl (translateRegistrationTokenError e), st)
      | Inr token \<Rightarrow>
          (case node_Register (at_parseAddr tr) (ts_nodes st) (rt_Scope token)
              \<lparr>ri_Name = rr_NodeName req, ri_Hostname = rr_Hostname req, ri_IPAddress = rr_IPAddress req, ri_Version = rr_Version req,
               ri_ProtocolVersion = rr_ProtocolVersion req, ri_OS = rr_OS req, ri_Arch = rr_Arch req, ri_Labels = rr_Labels req,
               ri_Capabilities = rr_Capabilities req\<rparr> now newID of
             (Inl e, nodes) \<Rightarrow>
               (if errorsIs e ErrConflict
                then (case node_FindByName nodes (rt_Scope token) (rr_NodeName req) of
                        Inr existing \<Rightarrow> (Inr (answer existing), st\<lparr>ts_nodes := nodes\<rparr>)
                      | Inl _ \<Rightarrow> (Inl (translateNodeError e), st\<lparr>ts_nodes := nodes\<rparr>))
                else (Inl (translateNodeError e), st\<lparr>ts_nodes := nodes\<rparr>))
           | (Inr n, nodes) \<Rightarrow> (Inr (answer n), st\<lparr>ts_nodes := nodes\<rparr>)))"

definition agent_Heartbeat ::
  "'w transport_state \<Rightarrow> heartbeat_request \<Rightarrow> gotime \<Rightarrow> gotime \<Rightarrow> (transport_error + heartbeat_response) \<times> 'w transport_state" where
  "agent_Heartbeat st req nodeNow now =
     (case node_Lookup (ts_nodes st) (hb_NodeID req) of
        Inl e \<Rightarrow> (Inl (translateNodeError e), st)
      | Inr n \<Rightarrow>
          (case node_Heartbeat (ts_nodes st) (nd_Scope n) (nd_ID n)
              \<lparr>hi_Version = hb_Version req, hi_ProtocolVersion = hb_ProtocolVersion req, hi_Status = hb_Status req,
               hi_Capabilities = hb_Capabilities req\<rparr> nodeNow of
             (Inl e, nodes) \<Rightarrow> (Inl (translateNodeError e), st\<lparr>ts_nodes := nodes\<rparr>)
           | (Inr _, nodes) \<Rightarrow> (Inr \<lparr>hs_Status = ''ok'', hs_ServerTime = now\<rparr>, st\<lparr>ts_nodes := nodes\<rparr>)))"

section \<open>Jobs\<close>

definition empty_progress :: progress_request where
  "empty_progress = \<lparr>gp_OperationID = [], gp_Status = [], gp_Message = [], gp_ErrorCode = [], gp_ProgressPercent = None, gp_Evidence = []\<rparr>"

definition empty_completion :: complete_request where
  "empty_completion = \<lparr>gc_OperationID = [], gc_ResultStatus = [], gc_ErrorCode = [], gc_ErrorMessage = [], gc_FailedStage = [],
     gc_Retryable = False, gc_CompensationRequired = False, gc_Evidence = []\<rparr>"

definition dispatched :: "dispatch_input \<Rightarrow> node \<Rightarrow> int \<Rightarrow> payload \<Rightarrow> gotime \<Rightarrow> string \<Rightarrow> job_record" where
  "dispatched inp n schemaVersion payload now newID = \<lparr>jr_scope = dp_Scope inp, jr_nodeID = nd_ID n,
     jr_job = \<lparr>aj_JobID = newID, aj_JobType = TrimSpace (dp_JobType inp), aj_SchemaVersion = schemaVersion,
       aj_OperationID = TrimSpace (dp_OperationID inp), aj_LeaseExpireAt = now,
       aj_Payload = mput ''operation_id'' (JString (TrimSpace (dp_OperationID inp)))
         (mput ''schema_version'' (JNumber (decimal schemaVersion)) payload)\<rparr>,
     jr_progress = empty_progress, jr_completion = empty_completion, jr_completed = False, jr_completedAt = zeroTime\<rparr>"

definition Dispatch ::
  "'w transport \<Rightarrow> 'w transport_state \<Rightarrow> dispatch_input \<Rightarrow> gotime \<Rightarrow> string \<Rightarrow> (transport_error + agent_job) \<times> 'w transport_state" where
  "Dispatch tr st inp now newID =
     (case scope_Validate (dp_Scope inp) of
        Some e \<Rightarrow> (Inl (translateNodeError e), st)
      | None \<Rightarrow>
      if TrimSpace (dp_NodeID inp) = [] then (Inl (validationError ''node_id'' ''required''), st)
      else if TrimSpace (dp_OperationID inp) = [] then (Inl (validationError ''operation_id'' ''required''), st)
      else (case node_Lookup (ts_nodes st) (dp_NodeID inp) of
        Inl e \<Rightarrow> (Inl (translateNodeError e), st)
      | Inr n \<Rightarrow>
      if \<not> scope_Equals (nd_Scope n) (dp_Scope inp) then (Inl (AppErr 409 ''TENANT_SCOPE_MISMATCH'' []), st)
      else (case capabilityForJobType (dp_JobType inp) of
        Inl e \<Rightarrow> (Inl e, st)
      | Inr requiredCapability \<Rightarrow>
      if requiredCapability \<noteq> [] \<and> requiredCapability \<notin> set (nd_Capabilities n)
      then (Inl (AppErr 409 ''AGENT_CAPABILITY_MISMATCH'' [(''job_type'', dp_JobType inp)]), st)
      else
      let schemaVersion = (if dp_SchemaVersion inp = 0 then 1 else dp_SchemaVersion inp) in
      if schemaVersion \<noteq> 1 then (Inl (validationError ''schema_version'' ''unsupported''), st)
      else (case (case dp_Payload inp of None \<Rightarrow> Some [] | Some p \<Rightarrow> at_clone tr p) of
        None \<Rightarrow> (Inl (AppErr 400 ''REQUEST_VALIDATION_FAILED'' [(''payload'', ''invalid'')]), st)
      | Some payload \<Rightarrow>
          let r = dispatched inp n schemaVersion payload now newID
          in (Inr (cloneJob (at_clone tr) (jr_job r)),
              st\<lparr>ts_jobsByID := mput newID r (ts_jobsByID st),
                 ts_queueByNode := mput (nd_ID n) (mslice (ts_queueByNode st) (nd_ID n) @ [newID]) (ts_queueByNode st)\<rparr>)))))"

definition job_waits :: "job_record \<Rightarrow> gotime \<Rightarrow> bool" where
  "job_waits r now = (\<not> jr_completed r \<and> aj_SchemaVersion (jr_job r) = 1 \<and>
     \<not> (\<not> IsZero (aj_LeaseExpireAt (jr_job r)) \<and> now < aj_LeaseExpireAt (jr_job r)))"

definition leased :: "job_record \<Rightarrow> gotime \<Rightarrow> job_record" where
  "leased r until = r\<lparr>jr_job := (jr_job r)\<lparr>aj_LeaseExpireAt := until\<rparr>\<rparr>"

text \<open>The walk over the queue of the node; it stops when enough jobs were taken.\<close>

fun poll_loop ::
  "'w transport \<Rightarrow> gotime \<Rightarrow> int \<Rightarrow> string list \<Rightarrow> (string, job_record) gomap \<Rightarrow> agent_job list
     \<Rightarrow> agent_job list \<times> (string, job_record) gomap" where
  "poll_loop tr now maxJobs [] jobs items = (items, jobs)"
| "poll_loop tr now maxJobs (jobID # queue) jobs items =
     (case mget jobs jobID of
        None \<Rightarrow> poll_loop tr now maxJobs queue jobs items
      | Some r \<Rightarrow>
          if \<not> job_waits r now then poll_loop tr now maxJobs queue jobs items
          else
            let r' = leased r (now + at_leaseTTL tr);
                items' = items @ [cloneJob (at_clone tr) (jr_job r')];
                jobs' = mput jobID r' jobs
            in if maxJobs \<le> int (length items') then (items', jobs')
               else poll_loop tr now maxJobs queue jobs' items')"

definition poll_limit :: "int \<Rightarrow> int" where
  "poll_limit n = (let m = (if n \<le> 0 then 1 else n) in if 20 < m then 20 else m)"

definition Poll ::
  "'w transport \<Rightarrow> 'w transport_state \<Rightarrow> poll_request \<Rightarrow> gotime \<Rightarrow> (transport_error + agent_job list) \<times> 'w transport_state" where
  "Poll tr st req now =
     (if TrimSpace (pq_NodeID req) = [] then (Inl (validationError ''node_id'' ''required''), st)
      else if pq_ProtocolVersion req < MinimumSupportedProtocolVersion
      then (Inl (validationError ''protocol_version'' ''unsupported''), st)
      else if 1 \<notin> set (pq_SupportedSchemaVersions req)
      then (Inl (validationError ''supported_schema_versions'' ''missing_supported_schema''), st)
      else (case node_Lookup (ts_nodes st) (pq_NodeID req) of
        Inl e \<Rightarrow> (Inl (translateNodeError e), st)
      | Inr n \<Rightarrow>
          if nd_Status n \<noteq> ''online'' \<and> nd_Status n \<noteq> ''degraded'' then (Inr [], st)
          else
            let (items, jobs) = poll_loop tr now (poll_limit (pq_MaxJobs req)) (mslice (ts_queueByNode st) (nd_ID n)) (ts_jobsByID st) []
            in (Inr items, st\<lparr>ts_jobsByID := jobs\<rparr>)))"

definition requireOwnedJobLocked ::
  "(string, job_record) gomap \<Rightarrow> string \<Rightarrow> string \<Rightarrow> string \<Rightarrow> transport_error + job_record" where
  "requireOwnedJobLocked jobs nodeID jobID operationID =
     (case mget jobs (TrimSpace jobID) of
        None \<Rightarrow> Inl (AppErr 404 ''RESOURCE_NOT_FOUND'' [])
      | Some r \<Rightarrow>
          if jr_nodeID r \<noteq> TrimSpace nodeID then Inl (AppErr 409 ''TENANT_SCOPE_MISMATCH'' [])
          else if aj_OperationID (jr_job r) \<noteq> TrimSpace operationID
          then Inl (AppErr 409 ''RESOURCE_CONFLICT'' [(''operation_id'', ''mismatch'')])
          else Inr r)"

text \<open>A callback that is not set leaves the outside alone.\<close>

definition call_back :: "('r \<Rightarrow> 'w \<Rightarrow> string option \<times> 'w) option \<Rightarrow> 'r \<Rightarrow> 'w \<Rightarrow> string option \<times> 'w" where
  "call_back cb req w = (case cb of None \<Rightarrow> (None, w) | Some f \<Rightarrow> f req w)"

definition ReportProgress ::
  "'w transport \<Rightarrow> 'w transport_state \<Rightarrow> string \<Rightarrow> string \<Rightarrow> progress_request \<Rightarrow> gotime \<Rightarrow> transport_error option \<times> 'w transport_state" where
  "ReportProgress tr st nodeID jobID req now =
     (if TrimSpace nodeID = [] then (Some (validationError ''node_id'' ''required''), st)
      else if TrimSpace (gp_OperationID req) = [] then (Some (validationError ''operation_id'' ''required''), st)
      else if \<not> validProgressStatus (gp_Status req) then (Some (validationError ''status'' ''invalid''), st)
      else (case requireOwnedJobLocked (ts_jobsByID st) nodeID jobID (gp_OperationID req) of
        Inl e \<Rightarrow> (Some e, st)
      | Inr r \<Rightarrow>
          if jr_completed r then (None, st)
          else
            let progress = \<lparr>gp_OperationID = TrimSpace (gp_OperationID req), gp_Status = TrimSpace (gp_Status req),
                  gp_Message = TrimSpace (gp_Message req), gp_ErrorCode = TrimSpace (gp_ErrorCode req),
                  gp_ProgressPercent = gp_ProgressPercent req, gp_Evidence = cloneEvidence (at_clone tr) (gp_Evidence req)\<rparr>
            in (case call_back (at_progressCallback tr) progress (ts_world st) of
                  (Some e, w) \<Rightarrow> (Some (CallbackErr e), st\<lparr>ts_world := w\<rparr>)
                | (None, w) \<Rightarrow> (None, st\<lparr>ts_world := w, ts_jobsByID := mput (TrimSpace jobID)
                    (leased (r\<lparr>jr_progress := progress\<rparr>) (now + at_leaseTTL tr)) (ts_jobsByID st)\<rparr>))))"

definition CompleteJob ::
  "'w transport \<Rightarrow> 'w transport_state \<Rightarrow> string \<Rightarrow> string \<Rightarrow> complete_request \<Rightarrow> gotime \<Rightarrow> transport_error option \<times> 'w transport_state" where
  "CompleteJob tr st nodeID jobID req now =
     (if TrimSpace nodeID = [] then (Some (validationError ''node_id'' ''required''), st)
      else if TrimSpace (gc_OperationID req) = [] then (Some (validationError ''operation_id'' ''required''), st)
      else if \<not> validResultStatus (gc_ResultStatus req) then (Some (validationError ''result_status'' ''invalid''), st)
      else (case requireOwnedJobLocked (ts_jobsByID st) nodeID jobID (gc_OperationID req) of
        Inl e \<Rightarrow> (Some e, st)
      | Inr r \<Rightarrow>
          if jr_completed r then
            (if gc_ResultStatus (jr_completion r) = TrimSpace (gc_ResultStatus req) \<and>
                gc_OperationID (jr_completion r) = TrimSpace (gc_OperationID req)
             then (None, st)
             else (Some (AppErr 409 ''RESOURCE_CONFLICT'' [(''operation_id'', ''job already completed'')]), st))
          else
            let completion = \<lparr>gc_OperationID = TrimSpace (gc_OperationID req), gc_ResultStatus = TrimSpace (gc_ResultStatus req),
                  gc_ErrorCode = TrimSpace (gc_ErrorCode req), gc_ErrorMessage = TrimSpace (gc_ErrorMessage req),
                  gc_FailedStage = TrimSpace (gc_FailedStage req), gc_Retryable = gc_Retryable req,
                  gc_CompensationRequired = gc_CompensationRequired req, gc_Evidence = cloneEvidence (at_clone tr) (gc_Evidence req)\<rparr>
            in (case call_back (at_completionCallback tr) completion (ts_world st) of
                  (Some e, w) \<Rightarrow> (Some (CallbackErr e), st\<lparr>ts_world := w\<rparr>)
                | (None, w) \<Rightarrow> (None, st\<lparr>ts_world := w, ts_jobsByID := mput (TrimSpace jobID)
                    (leased (r\<lparr>jr_completed := True, jr_completedAt := now, jr_completion := completion\<rparr>) zeroTime)
                    (ts_jobsByID st)\<rparr>))))"

end
