(* ===== verification/AgentTransportProps.thy ===== *)
theory AgentTransportProps
  imports AgentTransport
begin

text \<open>
  What agents and the control plane may rely on: exactly which jobs a poll hands out, that a job under a lease is
  not handed out again, and that a completion is final.
\<close>

section \<open>The walk over a queue\<close>

definition waits_in :: "(string, job_record) gomap \<Rightarrow> gotime \<Rightarrow> string \<Rightarrow> bool" where
  "waits_in jobs now i = (case mget jobs i of None \<Rightarrow> False | Some r \<Rightarrow> job_waits r now)"

definition lease_of :: "(string, job_record) gomap \<Rightarrow> gotime \<Rightarrow> string \<Rightarrow> job_record" where
  "lease_of jobs until i = leased (the (mget jobs i)) until"

lemma waits_other: "i \<noteq> j \<Longrightarrow> waits_in (mput j r jobs) now i = waits_in jobs now i"
  by (simp add: waits_in_def)

definition handed :: "(string, job_record) gomap \<Rightarrow> gotime \<Rightarrow> string list \<Rightarrow> nat \<Rightarrow> string list" where
  "handed jobs now queue k = take k (filter (waits_in jobs now) queue)"

definition envelope :: "'w transport \<Rightarrow> (string, job_record) gomap \<Rightarrow> gotime \<Rightarrow> string \<Rightarrow> agent_job" where
  "envelope tr jobs until i = cloneJob (at_clone tr) (jr_job (lease_of jobs until i))"

lemma handed_set: "set (handed jobs now queue k) \<subseteq> set queue"
  using set_take_subset by (fastforce simp: handed_def)

lemma poll_loop_result:
  assumes "distinct queue" "int (length items) < maxJobs"
  shows "fst (poll_loop tr now maxJobs queue jobs items) =
      items @ map (envelope tr jobs (now + at_leaseTTL tr)) (handed jobs now queue (nat maxJobs - length items)) \<and>
    (\<forall>i. mget (snd (poll_loop tr now maxJobs queue jobs items)) i =
      (if i \<in> set (handed jobs now queue (nat maxJobs - length items))
       then Some (lease_of jobs (now + at_leaseTTL tr) i) else mget jobs i))"
  using assms
proof (induction queue arbitrary: jobs items)
  case (Cons j queue)
  then have jq: "j \<notin> set queue" "distinct queue" and lt: "int (length items) < maxJobs" by simp_all
  define until where "until = now + at_leaseTTL tr"
  show ?case
  proof (cases "waits_in jobs now j")
    case False
    then have "poll_loop tr now maxJobs (j # queue) jobs items = poll_loop tr now maxJobs queue jobs items"
      by (auto simp: waits_in_def split: option.splits)
    with False Cons.IH [OF jq(2) lt, of jobs] show ?thesis by (simp add: handed_def)
  next
    case True
    then obtain r where r: "mget jobs j = Some r" "job_waits r now" by (auto simp: waits_in_def split: option.splits)
    define jobs' where "jobs' = mput j (leased r until) jobs"
    define items' where "items' = items @ [envelope tr jobs until j]"
    have lj: "lease_of jobs u j = leased r u" for u using r by (simp add: lease_of_def)
    have e: "poll_loop tr now maxJobs (j # queue) jobs items =
        (if maxJobs \<le> int (length items') then (items', jobs') else poll_loop tr now maxJobs queue jobs' items')"
      using r by (simp add: jobs'_def items'_def Let_def envelope_def lj until_def)
    have l: "mget jobs' i = (if i = j then Some (lease_of jobs until j) else mget jobs i)"
      "i \<noteq> j \<Longrightarrow> lease_of jobs' until i = lease_of jobs until i" for i using lj by (simp_all add: lease_of_def jobs'_def)
    have n: "nat maxJobs - length items = Suc (nat maxJobs - length items')" using lt by (simp add: items'_def)
    have "waits_in jobs' now i = waits_in jobs now i" if "i \<in> set queue" for i
      using that jq(1) waits_other [of i j] by (auto simp: jobs'_def)
    then have f: "handed jobs' now queue k = handed jobs now queue k" for k
      by (simp add: handed_def cong: filter_cong)
    have s: "handed jobs now (j # queue) (Suc k) = j # handed jobs now queue k" for k using True by (simp add: handed_def)
    have q: "j \<notin> set (handed jobs now queue k)" for k using jq(1) handed_set by blast
    have m: "map (envelope tr jobs' until) (handed jobs now queue k) = map (envelope tr jobs until) (handed jobs now queue k)" for k
    proof (intro map_cong refl)
      fix i assume "i \<in> set (handed jobs now queue k)"
      with q have ij: "i \<noteq> j" by blast
      show "envelope tr jobs' until i = envelope tr jobs until i" by (simp only: envelope_def l(2) [OF ij])
    qed
    have h: "i \<in> set (handed jobs now queue k) \<Longrightarrow> i \<noteq> j \<and> lease_of jobs' until i = lease_of jobs until i" for i k
    proof
      assume "i \<in> set (handed jobs now queue k)"
      with q show "i \<noteq> j" by blast
      then show "lease_of jobs' until i = lease_of jobs until i" by (rule l(2))
    qed
    show ?thesis
    proof (cases "maxJobs \<le> int (length items')")
      case True
      then have z: "nat maxJobs - length items' = 0" by simp
      show ?thesis unfolding e n s z using True l(1) by (simp add: items'_def until_def handed_def)
    next
      case False
      then have "int (length items') < maxJobs" by simp
      from Cons.IH [OF jq(2) this, of jobs'] h l(1) show ?thesis
        unfolding e n s f until_def [symmetric] m using False by (auto simp: items'_def)
    qed
  qed
qed (simp add: handed_def)

section \<open>The invariant\<close>

definition transport_wf :: "'w transport_state \<Rightarrow> bool" where
  "transport_wf st =
     (nodes_wf (ts_nodes st) \<and>
      (\<forall>i r. mget (ts_jobsByID st) i = Some r \<longrightarrow> aj_JobID (jr_job r) = i \<and> i \<in> set (mslice (ts_queueByNode st) (jr_nodeID r))) \<and>
      (\<forall>n. distinct (mslice (ts_queueByNode st) n)) \<and>
      (\<forall>n i. i \<in> set (mslice (ts_queueByNode st) n) \<longrightarrow> (\<exists>r. mget (ts_jobsByID st) i = Some r \<and> jr_nodeID r = n)))"

lemma transport_wfI:
  assumes "nodes_wf (ts_nodes st)"
    and "\<And>i r. mget (ts_jobsByID st) i = Some r \<Longrightarrow> aj_JobID (jr_job r) = i \<and> i \<in> set (mslice (ts_queueByNode st) (jr_nodeID r))"
    and "\<And>n. distinct (mslice (ts_queueByNode st) n)"
    and "\<And>n i. i \<in> set (mslice (ts_queueByNode st) n) \<Longrightarrow> \<exists>r. mget (ts_jobsByID st) i = Some r \<and> jr_nodeID r = n"
  shows "transport_wf st"
  using assms by (simp add: transport_wf_def)

lemma transport_wfD:
  assumes "transport_wf st"
  shows "nodes_wf (ts_nodes st)"
    "mget (ts_jobsByID st) i = Some r \<Longrightarrow> aj_JobID (jr_job r) = i" "mget (ts_jobsByID st) i = Some r \<Longrightarrow> i \<in> set (mslice (ts_queueByNode st) (jr_nodeID r))"
    "distinct (mslice (ts_queueByNode st) n)"
    "i \<in> set (mslice (ts_queueByNode st) n) \<Longrightarrow> \<exists>r. mget (ts_jobsByID st) i = Some r \<and> jr_nodeID r = n"
  using assms unfolding transport_wf_def by blast+

text \<open>What may happen to the record of a job: its node and its identifier stay.\<close>

definition same_job :: "job_record \<Rightarrow> job_record \<Rightarrow> bool" where
  "same_job r r' = (jr_nodeID r' = jr_nodeID r \<and> aj_JobID (jr_job r') = aj_JobID (jr_job r))"

lemma transport_wf_jobs:
  assumes wf: "transport_wf st"
    and st': "nodes_wf (ts_nodes st')" "ts_queueByNode st' = ts_queueByNode st"
    and old: "\<And>i r'. mget (ts_jobsByID st') i = Some r' \<Longrightarrow> \<exists>r. mget (ts_jobsByID st) i = Some r \<and> same_job r r'"
    and new: "\<And>i r. mget (ts_jobsByID st) i = Some r \<Longrightarrow> \<exists>r'. mget (ts_jobsByID st') i = Some r' \<and> same_job r r'"
  shows "transport_wf st'"
proof (rule transport_wfI; (unfold st'(2))?)
  show "nodes_wf (ts_nodes st')" by fact
  show "distinct (mslice (ts_queueByNode st) n)" for n by (rule transport_wfD(4) [OF wf])
  show "aj_JobID (jr_job r') = i \<and> i \<in> set (mslice (ts_queueByNode st) (jr_nodeID r'))" if "mget (ts_jobsByID st') i = Some r'" for i r'
    using old [OF that] transport_wfD(2,3) [OF wf] by (auto simp: same_job_def)
  show "\<exists>r'. mget (ts_jobsByID st') i = Some r' \<and> jr_nodeID r' = n" if "i \<in> set (mslice (ts_queueByNode st) n)" for n i
    using transport_wfD(5) [OF wf that] new by (fastforce simp: same_job_def)
qed

section \<open>What one operation does\<close>

inductive transport_op :: "'w transport \<Rightarrow> gotime \<Rightarrow> 'w transport_state \<Rightarrow> 'w transport_state \<Rightarrow> bool" for tr now where
  registering: "mget (ns_byID (ts_nodes st)) newID = None \<Longrightarrow>
     transport_op tr now st (snd (agent_Register tr st req tokenNow nodeNow newID))"
| beating: "transport_op tr now st (snd (agent_Heartbeat st beat nodeNow now))"
| dispatching: "mget (ts_jobsByID st) newID = None \<Longrightarrow> transport_op tr now st (snd (Dispatch tr st inp now newID))"
| polling: "transport_op tr now st (snd (Poll tr st poll now))"
| reporting: "transport_op tr now st (snd (ReportProgress tr st nodeID jobID progress now))"
| completing: "transport_op tr now st (snd (CompleteJob tr st nodeID jobID completion now))"
| governing: "node_step (ts_nodes st) nodes \<Longrightarrow> transport_op tr now st (st\<lparr>ts_nodes := nodes\<rparr>)"

text \<open>A job is left alone, leased anew from now on, or completed; a completed one is left alone.\<close>

definition job_moves :: "'w transport \<Rightarrow> gotime \<Rightarrow> job_record \<Rightarrow> job_record \<Rightarrow> bool" where
  "job_moves tr now r r' = (r' = r \<or> (same_job r r' \<and> \<not> jr_completed r \<and>
     (jr_completed r' \<or> aj_LeaseExpireAt (jr_job r') = now + at_leaseTTL tr)))"

definition same_but_nodes :: "'w transport_state \<Rightarrow> 'w transport_state \<Rightarrow> bool" where
  "same_but_nodes st st' = (ts_jobsByID st' = ts_jobsByID st \<and> ts_queueByNode st' = ts_queueByNode st)"

lemma register_keeps:
  assumes "nodes_wf (ts_nodes st)" "mget (ns_byID (ts_nodes st)) i = None"
  shows "nodes_wf (ts_nodes (snd (agent_Register tr st req t1 t2 i))) \<and> same_but_nodes st (snd (agent_Register tr st req t1 t2 i))"
proof (cases "ResolveRegistrationToken (ts_nodes st) (rr_Token req) t1")
  case (Inl e)
  with assms show ?thesis by (simp add: agent_Register_def same_but_nodes_def)
next
  case (Inr token)
  define inp where "inp = \<lparr>ri_Name = rr_NodeName req, ri_Hostname = rr_Hostname req, ri_IPAddress = rr_IPAddress req, ri_Version = rr_Version req,
       ri_ProtocolVersion = rr_ProtocolVersion req, ri_OS = rr_OS req, ri_Arch = rr_Arch req, ri_Labels = rr_Labels req,
       ri_Capabilities = rr_Capabilities req\<rparr>"
  obtain r nodes where r: "node_Register (at_parseAddr tr) (ts_nodes st) (rt_Scope token) inp t2 i = (r, nodes)" by fastforce
  have "nodes_wf nodes" by (rule register_wf [OF assms r])
  with Inr r show ?thesis
    by (auto simp: agent_Register_def inp_def [symmetric] Let_def same_but_nodes_def split: sum.splits)
qed

lemma heartbeat_keeps:
  assumes "nodes_wf (ts_nodes st)"
  shows "nodes_wf (ts_nodes (snd (agent_Heartbeat st req t1 t2))) \<and> same_but_nodes st (snd (agent_Heartbeat st req t1 t2))"
proof (cases "node_Lookup (ts_nodes st) (hb_NodeID req)")
  case (Inl e)
  with assms show ?thesis by (simp add: agent_Heartbeat_def same_but_nodes_def)
next
  case (Inr n)
  define inp where "inp = \<lparr>hi_Version = hb_Version req, hi_ProtocolVersion = hb_ProtocolVersion req, hi_Status = hb_Status req,
       hi_Capabilities = hb_Capabilities req\<rparr>"
  obtain r nodes where r: "node_Heartbeat (ts_nodes st) (nd_Scope n) (nd_ID n) inp t1 = (r, nodes)" by fastforce
  have "nodes_wf nodes" by (rule node_step_wf [OF node_step.beaten [OF r] assms])
  with Inr r show ?thesis by (auto simp: agent_Heartbeat_def inp_def [symmetric] same_but_nodes_def split: sum.splits)
qed

lemma capability_nonempty: "capabilityForJobType t = Inr c \<Longrightarrow> c \<noteq> []"
  by (auto simp: capabilityForJobType_def Let_def split: if_splits)

lemma dispatch_cases:
  assumes "Dispatch tr st inp now i = (x, st')"
  shows "(\<exists>e. x = Inl e \<and> st' = st) \<or>
   (\<exists>n p c. node_Lookup (ts_nodes st) (dp_NodeID inp) = Inr n \<and> nd_Scope n = dp_Scope inp \<and>
      capabilityForJobType (dp_JobType inp) = Inr c \<and> c \<in> set (nd_Capabilities n) \<and>
      x = Inr (cloneJob (at_clone tr) (jr_job (dispatched inp n 1 p now i))) \<and>
      ts_nodes st' = ts_nodes st \<and> ts_jobsByID st' = mput i (dispatched inp n 1 p now i) (ts_jobsByID st) \<and>
      ts_queueByNode st' = mput (nd_ID n) (mslice (ts_queueByNode st) (nd_ID n) @ [i]) (ts_queueByNode st))"
proof (cases x)
  case (Inl e)
  with assms show ?thesis
    by (auto simp: Dispatch_def Let_def split: option.splits sum.splits if_splits)
next
  case (Inr j)
  note ok = assms [unfolded Dispatch_def Let_def Inr, simplified result_simps scope_Validate_None]
  then obtain n c where n: "node_Lookup (ts_nodes st) (dp_NodeID inp) = Inr n" "capabilityForJobType (dp_JobType inp) = Inr c"
      "nd_Scope n = dp_Scope inp" "c \<noteq> [] \<longrightarrow> c \<in> set (nd_Capabilities n)"
    and s: "(if dp_SchemaVersion inp = 0 then 1 else dp_SchemaVersion inp) = 1"
    and p: "(case (case dp_Payload inp of None \<Rightarrow> Some [] | Some p \<Rightarrow> at_clone tr p) of
        None \<Rightarrow> (Inl (AppErr 400 ''REQUEST_VALIDATION_FAILED'' [(''payload'', ''invalid'')]), st)
      | Some p \<Rightarrow> (Inr (cloneJob (at_clone tr) (jr_job (dispatched inp n (if dp_SchemaVersion inp = 0 then 1 else dp_SchemaVersion inp) p now i))),
          st\<lparr>ts_jobsByID := mput i (dispatched inp n (if dp_SchemaVersion inp = 0 then 1 else dp_SchemaVersion inp) p now i) (ts_jobsByID st),
             ts_queueByNode := mput (nd_ID n) (mslice (ts_queueByNode st) (nd_ID n) @ [i]) (ts_queueByNode st)\<rparr>)) = (Inr j, st')"
    by auto
  from p [unfolded s] obtain q where "j = cloneJob (at_clone tr) (jr_job (dispatched inp n 1 q now i))"
      "st' = st\<lparr>ts_jobsByID := mput i (dispatched inp n 1 q now i) (ts_jobsByID st),
             ts_queueByNode := mput (nd_ID n) (mslice (ts_queueByNode st) (nd_ID n) @ [i]) (ts_queueByNode st)\<rparr>"
    by (auto split: option.splits)
  with n capability_nonempty [OF n(2)] Inr show ?thesis by (intro disjI2 exI [of _ n] exI [of _ q] exI [of _ c]) simp
qed

lemma poll_cases:
  assumes "Poll tr st req now = (x, st')" "transport_wf st"
  shows "(ts_jobsByID st' = ts_jobsByID st \<and> st' = st \<and> (\<forall>items. x = Inr items \<longrightarrow> items = [])) \<or>
    (\<exists>n. node_Lookup (ts_nodes st) (pq_NodeID req) = Inr n \<and> nd_Status n \<in> {''online'', ''degraded''} \<and>
      x = Inr (map (envelope tr (ts_jobsByID st) (now + at_leaseTTL tr))
        (handed (ts_jobsByID st) now (mslice (ts_queueByNode st) (nd_ID n)) (nat (poll_limit (pq_MaxJobs req))))) \<and>
      ts_nodes st' = ts_nodes st \<and> ts_queueByNode st' = ts_queueByNode st \<and>
      (\<forall>i. mget (ts_jobsByID st') i =
        (if i \<in> set (handed (ts_jobsByID st) now (mslice (ts_queueByNode st) (nd_ID n)) (nat (poll_limit (pq_MaxJobs req))))
         then Some (lease_of (ts_jobsByID st) (now + at_leaseTTL tr) i) else mget (ts_jobsByID st) i)))"
proof (cases "st' = st \<and> (\<forall>items. x = Inr items \<longrightarrow> items = [])")
  case False
  then obtain n where n: "node_Lookup (ts_nodes st) (pq_NodeID req) = Inr n" "nd_Status n \<in> {''online'', ''degraded''}"
    and p: "(let (items, jobs) = poll_loop tr now (poll_limit (pq_MaxJobs req)) (mslice (ts_queueByNode st) (nd_ID n)) (ts_jobsByID st) []
       in (Inr items, st\<lparr>ts_jobsByID := jobs\<rparr>)) = (x, st')"
    using assms(1) by (auto simp: Poll_def split: if_splits sum.splits)
  have "int (length ([] :: agent_job list)) < poll_limit (pq_MaxJobs req)" by (simp add: poll_limit_def Let_def)
  from poll_loop_result [OF transport_wfD(4) [OF assms(2)] this, of tr now "nd_ID n" "ts_jobsByID st"] p n show ?thesis
    by (intro disjI2 exI [of _ n]) (auto simp: split_beta Let_def)
qed simp

lemma owned_cases: "requireOwnedJobLocked jobs nodeID jobID op = Inr r \<Longrightarrow> mget jobs (TrimSpace jobID) = Some r"
  by (auto simp: requireOwnedJobLocked_def split: option.splits if_splits)

lemma report_cases:
  assumes "ReportProgress tr st nodeID jobID req now = (x, st')"
  shows "same_but_nodes st st' \<and> ts_nodes st' = ts_nodes st \<or>
    (\<exists>r p. mget (ts_jobsByID st) (TrimSpace jobID) = Some r \<and> \<not> jr_completed r \<and> ts_nodes st' = ts_nodes st \<and>
      ts_queueByNode st' = ts_queueByNode st \<and>
      ts_jobsByID st' = mput (TrimSpace jobID) (leased (r\<lparr>jr_progress := p\<rparr>) (now + at_leaseTTL tr)) (ts_jobsByID st))"
proof (cases "requireOwnedJobLocked (ts_jobsByID st) nodeID jobID (gp_OperationID req)")
  case (Inl e)
  with assms show ?thesis by (auto simp: ReportProgress_def same_but_nodes_def split: if_splits)
next
  case (Inr r)
  define pc where "pc = \<lparr>gp_OperationID = TrimSpace (gp_OperationID req), gp_Status = TrimSpace (gp_Status req),
      gp_Message = TrimSpace (gp_Message req), gp_ErrorCode = TrimSpace (gp_ErrorCode req),
      gp_ProgressPercent = gp_ProgressPercent req, gp_Evidence = cloneEvidence (at_clone tr) (gp_Evidence req)\<rparr>"
  show ?thesis
  proof (cases "jr_completed r")
    case True
    with assms Inr show ?thesis by (auto simp: ReportProgress_def same_but_nodes_def split: if_splits)
  next
    case False
    obtain res w where w: "call_back (at_progressCallback tr) pc (ts_world st) = (res, w)" by fastforce
    show ?thesis
    proof (cases "same_but_nodes st st' \<and> ts_nodes st' = ts_nodes st")
      case other: False
      have "res = None" using assms Inr False w other
        by (cases res) (auto simp: ReportProgress_def Let_def same_but_nodes_def pc_def split: if_splits)
      with assms Inr False w other have "x = None" "st' = st\<lparr>ts_world := w, ts_jobsByID := mput (TrimSpace jobID) (leased (r\<lparr>jr_progress := pc\<rparr>) (now + at_leaseTTL tr)) (ts_jobsByID st)\<rparr>"
        by (auto simp: ReportProgress_def Let_def same_but_nodes_def pc_def split: if_splits)
      with owned_cases [OF Inr] False show ?thesis by (intro disjI2 exI [of _ r] exI [of _ pc]) (simp)
    qed simp
  qed
qed

lemma complete_cases:
  assumes "CompleteJob tr st nodeID jobID req now = (x, st')"
  shows "same_but_nodes st st' \<and> ts_nodes st' = ts_nodes st \<or>
    (\<exists>r c. mget (ts_jobsByID st) (TrimSpace jobID) = Some r \<and> \<not> jr_completed r \<and> ts_nodes st' = ts_nodes st \<and>
      ts_queueByNode st' = ts_queueByNode st \<and> x = None \<and>
      gc_ResultStatus c = TrimSpace (gc_ResultStatus req) \<and> gc_OperationID c = TrimSpace (gc_OperationID req) \<and>
      ts_jobsByID st' = mput (TrimSpace jobID)
        (leased (r\<lparr>jr_completed := True, jr_completedAt := now, jr_completion := c\<rparr>) zeroTime) (ts_jobsByID st))"
proof (cases "requireOwnedJobLocked (ts_jobsByID st) nodeID jobID (gc_OperationID req)")
  case (Inl e)
  with assms show ?thesis by (auto simp: CompleteJob_def same_but_nodes_def split: if_splits)
next
  case (Inr r)
  define pc where "pc = \<lparr>gc_OperationID = TrimSpace (gc_OperationID req), gc_ResultStatus = TrimSpace (gc_ResultStatus req),
      gc_ErrorCode = TrimSpace (gc_ErrorCode req), gc_ErrorMessage = TrimSpace (gc_ErrorMessage req),
      gc_FailedStage = TrimSpace (gc_FailedStage req), gc_Retryable = gc_Retryable req,
      gc_CompensationRequired = gc_CompensationRequired req, gc_Evidence = cloneEvidence (at_clone tr) (gc_Evidence req)\<rparr>"
  show ?thesis
  proof (cases "jr_completed r")
    case True
    with assms Inr show ?thesis by (auto simp: CompleteJob_def same_but_nodes_def split: if_splits)
  next
    case False
    obtain res w where w: "call_back (at_completionCallback tr) pc (ts_world st) = (res, w)" by fastforce
    show ?thesis
    proof (cases "same_but_nodes st st' \<and> ts_nodes st' = ts_nodes st")
      case other: False
      have "res = None" using assms Inr False w other
        by (cases res) (auto simp: CompleteJob_def Let_def same_but_nodes_def pc_def split: if_splits)
      with assms Inr False w other have "x = None" "st' = st\<lparr>ts_world := w, ts_jobsByID := mput (TrimSpace jobID) (leased (r\<lparr>jr_completed := True, jr_completedAt := now, jr_completion := pc\<rparr>) zeroTime) (ts_jobsByID st)\<rparr>"
        by (auto simp: CompleteJob_def Let_def same_but_nodes_def pc_def split: if_splits)
      with owned_cases [OF Inr] False show ?thesis by (intro disjI2 exI [of _ r] exI [of _ pc]) (simp add: pc_def)
    qed simp
  qed
qed

section \<open>Every operation\<close>

definition moved :: "'w transport \<Rightarrow> gotime \<Rightarrow> 'w transport_state \<Rightarrow> 'w transport_state \<Rightarrow> bool" where
  "moved tr now st st' = (nodes_wf (ts_nodes st') \<and> ts_queueByNode st' = ts_queueByNode st \<and>
     (\<forall>i. case mget (ts_jobsByID st) i of
        None \<Rightarrow> mget (ts_jobsByID st') i = None
      | Some r \<Rightarrow> \<exists>r'. mget (ts_jobsByID st') i = Some r' \<and> job_moves tr now r r'))"

lemma moved_same: "nodes_wf (ts_nodes st') \<Longrightarrow> same_but_nodes st st' \<Longrightarrow> moved tr now st st'"
  by (auto simp: moved_def same_but_nodes_def job_moves_def split: option.splits)

lemma moved_put:
  assumes "nodes_wf (ts_nodes st')" "ts_queueByNode st' = ts_queueByNode st" "mget (ts_jobsByID st) j = Some r"
    and "ts_jobsByID st' = mput j r' (ts_jobsByID st)" "job_moves tr now r r'"
  shows "moved tr now st st'"
  unfolding moved_def
proof (intro conjI allI)
  fix i
  show "case mget (ts_jobsByID st) i of None \<Rightarrow> mget (ts_jobsByID st') i = None
      | Some r \<Rightarrow> \<exists>r'. mget (ts_jobsByID st') i = Some r' \<and> job_moves tr now r r'"
    using assms(3-5) by (cases "i = j") (auto simp: job_moves_def split: option.splits)
qed (use assms in simp_all)

lemma moved_wf: "moved tr now st st' \<Longrightarrow> transport_wf st \<Longrightarrow> transport_wf st'"
proof (rule transport_wf_jobs)
  assume m: "moved tr now st st'" and "transport_wf st"
  then show "transport_wf st" "nodes_wf (ts_nodes st')" "ts_queueByNode st' = ts_queueByNode st" by (simp_all add: moved_def)
  have same: "job_moves tr now r r' \<Longrightarrow> same_job r r'" for r r' by (auto simp: job_moves_def same_job_def)
  show "\<exists>r. mget (ts_jobsByID st) i = Some r \<and> same_job r r'" if "mget (ts_jobsByID st') i = Some r'" for i r'
  proof (cases "mget (ts_jobsByID st) i")
    case None
    with m have "mget (ts_jobsByID st') i = None" by (auto simp: moved_def dest: spec [of _ i])
    with that show ?thesis by simp
  next
    case (Some r)
    with m have "\<exists>r'. mget (ts_jobsByID st') i = Some r' \<and> job_moves tr now r r'" by (auto simp: moved_def dest: spec [of _ i])
    with that Some same show ?thesis by auto
  qed
  show "\<exists>r'. mget (ts_jobsByID st') i = Some r' \<and> same_job r r'" if "mget (ts_jobsByID st) i = Some r" for i r
    using m that same by (fastforce simp: moved_def split: option.splits)
qed

lemma op_cases:
  assumes "transport_op tr now st st'" "transport_wf st"
  shows "moved tr now st st' \<or>
    (\<exists>inp i x. mget (ts_jobsByID st) i = None \<and> Dispatch tr st inp now i = (x, st') \<and> st' \<noteq> st)"
  using assms(1)
proof cases
  case (registering newID req tokenNow nodeNow)
  with register_keeps [OF transport_wfD(1) [OF assms(2)]] moved_same show ?thesis by blast
next
  case (beating beat nodeNow)
  with heartbeat_keeps [OF transport_wfD(1) [OF assms(2)]] moved_same show ?thesis by blast
next
  case (dispatching newID inp)
  show ?thesis
  proof (cases "st' = st")
    case True
    with moved_same [of st' st] transport_wfD(1) [OF assms(2)] show ?thesis by (simp add: same_but_nodes_def)
  next
    case False
    with dispatching show ?thesis by (metis prod.collapse)
  qed
next
  case (polling poll)
  obtain x where x: "Poll tr st poll now = (x, st')" using polling by (metis prod.collapse)
  from poll_cases [OF x assms(2)] show ?thesis
  proof (elim disjE exE conjE)
    assume "st' = st"
    with moved_same [of st' st] transport_wfD(1) [OF assms(2)] show ?thesis by (simp add: same_but_nodes_def)
  next
    fix n
    define ids where "ids = handed (ts_jobsByID st) now (mslice (ts_queueByNode st) (nd_ID n)) (nat (poll_limit (pq_MaxJobs poll)))"
    assume q: "ts_nodes st' = ts_nodes st" "ts_queueByNode st' = ts_queueByNode st"
      and "\<forall>i. mget (ts_jobsByID st') i =
        (if i \<in> set (handed (ts_jobsByID st) now (mslice (ts_queueByNode st) (nd_ID n)) (nat (poll_limit (pq_MaxJobs poll))))
         then Some (lease_of (ts_jobsByID st) (now + at_leaseTTL tr) i) else mget (ts_jobsByID st) i)"
    then have j: "mget (ts_jobsByID st') i = (if i \<in> set ids then Some (lease_of (ts_jobsByID st) (now + at_leaseTTL tr) i) else mget (ts_jobsByID st) i)" for i
      by (simp add: ids_def)
    have w: "\<exists>r. mget (ts_jobsByID st) i = Some r \<and> \<not> jr_completed r" if "i \<in> set ids" for i
    proof -
      have "waits_in (ts_jobsByID st) now i" using that by (auto simp: ids_def handed_def dest: in_set_takeD)
      then show ?thesis by (auto simp: waits_in_def job_waits_def split: option.splits)
    qed
    have "case mget (ts_jobsByID st) i of None \<Rightarrow> mget (ts_jobsByID st') i = None
        | Some r \<Rightarrow> \<exists>r'. mget (ts_jobsByID st') i = Some r' \<and> job_moves tr now r r'" for i
    proof (cases "i \<in> set ids")
      case True
      with w obtain r where r: "mget (ts_jobsByID st) i = Some r" "\<not> jr_completed r" by blast
      have "job_moves tr now r (lease_of (ts_jobsByID st) (now + at_leaseTTL tr) i)"
        using r by (simp add: job_moves_def lease_of_def leased_def same_job_def)
      with True j r show ?thesis by simp
    qed (use j in \<open>auto simp: job_moves_def split: option.splits\<close>)
    with q transport_wfD(1) [OF assms(2)] show ?thesis by (simp add: moved_def)
  qed
next
  case (reporting nodeID jobID progress)
  obtain x where x: "ReportProgress tr st nodeID jobID progress now = (x, st')" using reporting by (metis prod.collapse)
  from report_cases [OF x] show ?thesis
  proof (elim disjE exE conjE)
    assume "same_but_nodes st st'" "ts_nodes st' = ts_nodes st"
    with moved_same [of st' st] transport_wfD(1) [OF assms(2)] show ?thesis by simp
  next
    fix r p
    assume a: "mget (ts_jobsByID st) (TrimSpace jobID) = Some r" "\<not> jr_completed r" "ts_nodes st' = ts_nodes st"
      "ts_queueByNode st' = ts_queueByNode st"
      "ts_jobsByID st' = mput (TrimSpace jobID) (leased (r\<lparr>jr_progress := p\<rparr>) (now + at_leaseTTL tr)) (ts_jobsByID st)"
    have "job_moves tr now r (leased (r\<lparr>jr_progress := p\<rparr>) (now + at_leaseTTL tr))"
      using a(2) by (simp add: job_moves_def leased_def same_job_def)
    from moved_put [OF _ a(4,1,5) this] a(3) transport_wfD(1) [OF assms(2)] show ?thesis by simp
  qed
next
  case (completing nodeID jobID completion)
  obtain x where x: "CompleteJob tr st nodeID jobID completion now = (x, st')" using completing by (metis prod.collapse)
  from complete_cases [OF x] show ?thesis
  proof (elim disjE exE conjE)
    assume "same_but_nodes st st'" "ts_nodes st' = ts_nodes st"
    with moved_same [of st' st] transport_wfD(1) [OF assms(2)] show ?thesis by simp
  next
    fix r c
    assume a: "mget (ts_jobsByID st) (TrimSpace jobID) = Some r" "\<not> jr_completed r" "ts_nodes st' = ts_nodes st"
      "ts_queueByNode st' = ts_queueByNode st"
      "ts_jobsByID st' = mput (TrimSpace jobID)
        (leased (r\<lparr>jr_completed := True, jr_completedAt := now, jr_completion := c\<rparr>) zeroTime) (ts_jobsByID st)"
    have "job_moves tr now r (leased (r\<lparr>jr_completed := True, jr_completedAt := now, jr_completion := c\<rparr>) zeroTime)"
      using a(2) by (simp add: job_moves_def leased_def same_job_def)
    from moved_put [OF _ a(4,1,5) this] a(3) transport_wfD(1) [OF assms(2)] show ?thesis by simp
  qed
next
  case (governing nodes)
  with moved_same [of st' st] node_step_wf [OF _ transport_wfD(1) [OF assms(2)]] show ?thesis by (simp add: same_but_nodes_def)
qed

lemma dispatch_keeps:
  assumes "Dispatch tr st inp now i = (x, st')" "mget (ts_jobsByID st) i = None" "transport_wf st" "st' \<noteq> st"
  shows "transport_wf st'" "mget (ts_jobsByID st) j = Some r \<Longrightarrow> mget (ts_jobsByID st') j = Some r"
proof -
  from dispatch_cases [OF assms(1)] assms(4) obtain n p where
    st': "ts_nodes st' = ts_nodes st" "ts_jobsByID st' = mput i (dispatched inp n 1 p now i) (ts_jobsByID st)"
      "ts_queueByNode st' = mput (nd_ID n) (mslice (ts_queueByNode st) (nd_ID n) @ [i]) (ts_queueByNode st)" by auto
  have d: "jr_nodeID (dispatched inp n 1 p now i) = nd_ID n" "aj_JobID (jr_job (dispatched inp n 1 p now i)) = i"
    by (simp_all add: dispatched_def)
  note wf = transport_wfD [OF assms(3)]
  have new: "i \<notin> set (mslice (ts_queueByNode st) m)" for m using wf(5) assms(2) by fastforce
  show "transport_wf st'"
  proof (rule transport_wfI)
    show "nodes_wf (ts_nodes st')" using st' wf(1) by simp
    show "aj_JobID (jr_job q) = k \<and> k \<in> set (mslice (ts_queueByNode st') (jr_nodeID q))" if "mget (ts_jobsByID st') k = Some q" for k q
    proof (cases "k = i")
      case True
      with that st' d show ?thesis by simp
    next
      case False
      with that st'(2) have q: "mget (ts_jobsByID st) k = Some q" by simp
      from wf(2) [OF q] wf(3) [OF q] st'(3) show ?thesis by (cases "jr_nodeID q = nd_ID n") simp_all
    qed
    show "distinct (mslice (ts_queueByNode st') m)" for m using st'(3) wf(4) new by simp
    show "\<exists>q. mget (ts_jobsByID st') k = Some q \<and> jr_nodeID q = m" if "k \<in> set (mslice (ts_queueByNode st') m)" for m k
    proof (cases "k = i")
      case True
      with that st'(3) new [of m] have "m = nd_ID n" by (cases "m = nd_ID n") simp_all
      with True st'(2) d show ?thesis by simp
    next
      case False
      with that st'(3) have "k \<in> set (mslice (ts_queueByNode st) m)" by (cases "m = nd_ID n") simp_all
      from wf(5) [OF this] False st'(2) show ?thesis by simp
    qed
  qed
  show "mget (ts_jobsByID st) j = Some r \<Longrightarrow> mget (ts_jobsByID st') j = Some r" using st' assms(2) by auto
qed

lemma op_keeps:
  assumes "transport_op tr now st st'" "transport_wf st"
  shows "transport_wf st'" "mget (ts_jobsByID st) i = Some r \<Longrightarrow> \<exists>r'. mget (ts_jobsByID st') i = Some r' \<and> job_moves tr now r r'"
proof -
  have "transport_wf st' \<and> (mget (ts_jobsByID st) i = Some r \<longrightarrow> (\<exists>r'. mget (ts_jobsByID st') i = Some r' \<and> job_moves tr now r r'))"
    using op_cases [OF assms]
  proof (elim disjE exE conjE)
    assume m: "moved tr now st st'"
    have "mget (ts_jobsByID st) i = Some r \<longrightarrow> (\<exists>r'. mget (ts_jobsByID st') i = Some r' \<and> job_moves tr now r r')"
      using m by (auto simp: moved_def split: option.splits)
    with moved_wf [OF m assms(2)] show ?thesis by blast
  next
    fix inp j x assume "mget (ts_jobsByID st) j = None" "Dispatch tr st inp now j = (x, st')" "st' \<noteq> st"
    from dispatch_keeps [OF this(2,1) assms(2) this(3)] show ?thesis by (auto simp: job_moves_def)
  qed
  then show "transport_wf st'" "mget (ts_jobsByID st) i = Some r \<Longrightarrow> \<exists>r'. mget (ts_jobsByID st') i = Some r' \<and> job_moves tr now r r'"
    by blast+
qed

section \<open>Runs\<close>

text \<open>A run that starts at \<open>t0\<close>: the clock never goes back between two operations, and \<open>t\<close> is the time of the last.\<close>

inductive transport_run :: "'w transport \<Rightarrow> gotime \<Rightarrow> 'w transport_state \<Rightarrow> gotime \<Rightarrow> 'w transport_state \<Rightarrow> bool" for tr t0 st where
  start: "transport_run tr t0 st t0 st"
| operate: "transport_run tr t0 st t st1 \<Longrightarrow> t \<le> now \<Longrightarrow> transport_op tr now st1 st2 \<Longrightarrow> transport_run tr t0 st now st2"

definition keeps_lease :: "gotime \<Rightarrow> job_record \<Rightarrow> bool" where
  "keeps_lease until r = (jr_completed r \<or> until \<le> aj_LeaseExpireAt (jr_job r))"

lemma run_keeps:
  assumes "transport_run tr t0 st t st'" "transport_wf st"
  shows "transport_wf st' \<and> t0 \<le> t"
  using assms by induction (auto intro: op_keeps(1))

lemma run_job:
  assumes "transport_run tr t0 st t st'" "transport_wf st" "mget (ts_jobsByID st) i = Some r"
  shows "\<exists>r'. mget (ts_jobsByID st') i = Some r' \<and> same_job r r' \<and> (jr_completed r \<longrightarrow> r' = r) \<and>
    (keeps_lease (t0 + at_leaseTTL tr) r \<longrightarrow> keeps_lease (t0 + at_leaseTTL tr) r')"
  using assms
proof induction
  case start
  then show ?case by (simp add: same_job_def)
next
  case (operate t st1 now st2)
  from operate.IH [OF operate.prems] obtain r1 where r1: "mget (ts_jobsByID st1) i = Some r1" "same_job r r1"
      "jr_completed r \<longrightarrow> r1 = r" "keeps_lease (t0 + at_leaseTTL tr) r \<longrightarrow> keeps_lease (t0 + at_leaseTTL tr) r1" by blast
  note run = run_keeps [OF operate.hyps(1) operate.prems(1)]
  from op_keeps(2) [OF operate.hyps(3) run [THEN conjunct1] r1(1)] obtain r2
    where r2: "mget (ts_jobsByID st2) i = Some r2" "job_moves tr now r1 r2" by blast
  show ?case
  proof (cases "r2 = r1")
    case True
    with r1 r2 show ?thesis by blast
  next
    case False
    with r2(2) have m: "same_job r1 r2" "\<not> jr_completed r1" "jr_completed r2 \<or> aj_LeaseExpireAt (jr_job r2) = now + at_leaseTTL tr"
      by (auto simp: job_moves_def)
    then have "keeps_lease (t0 + at_leaseTTL tr) r2" using operate.hyps(2) run by (auto simp: keeps_lease_def)
    moreover have "same_job r r2" using m(1) r1(2) by (simp add: same_job_def)
    moreover have "\<not> jr_completed r" using m(2) r1(3) by auto
    ultimately show ?thesis using r2(1) by blast
  qed
qed

lemma fresh_wf:
  assumes "NewTransport pollInterval leaseTTL progress completion clone parse_addr NewNodeService w = (tr, st)"
  shows "transport_wf st" "0 < at_leaseTTL tr"
  using assms nodes_reachable_wf [OF rtranclp.rtrancl_refl]
  by (auto simp: NewTransport_def transport_wf_def mslice_def)

text \<open>What a poll hands out, by identifier.\<close>

lemma poll_items:
  assumes "Poll tr st req now = (Inr items, st')" "transport_wf st" "j \<in> set items"
  shows "\<exists>r. mget (ts_jobsByID st) (aj_JobID j) = Some r \<and> job_waits r now \<and>
    mget (ts_jobsByID st') (aj_JobID j) = Some (leased r (now + at_leaseTTL tr)) \<and> aj_LeaseExpireAt j = now + at_leaseTTL tr"
  using poll_cases [OF assms(1,2)]
proof (elim disjE exE conjE)
  assume "\<forall>is. (Inr items :: transport_error + agent_job list) = Inr is \<longrightarrow> is = []"
  with assms(3) show ?thesis by simp
next
  fix n
  define ids where "ids = handed (ts_jobsByID st) now (mslice (ts_queueByNode st) (nd_ID n)) (nat (poll_limit (pq_MaxJobs req)))"
  assume x: "(Inr items :: transport_error + agent_job list) = Inr (map (envelope tr (ts_jobsByID st) (now + at_leaseTTL tr))
        (handed (ts_jobsByID st) now (mslice (ts_queueByNode st) (nd_ID n)) (nat (poll_limit (pq_MaxJobs req)))))"
    and s: "\<forall>i. mget (ts_jobsByID st') i =
        (if i \<in> set (handed (ts_jobsByID st) now (mslice (ts_queueByNode st) (nd_ID n)) (nat (poll_limit (pq_MaxJobs req))))
         then Some (lease_of (ts_jobsByID st) (now + at_leaseTTL tr) i) else mget (ts_jobsByID st) i)"
  from x assms(3) obtain i where i: "i \<in> set ids" "j = envelope tr (ts_jobsByID st) (now + at_leaseTTL tr) i" by (auto simp: ids_def)
  then have "waits_in (ts_jobsByID st) now i" by (auto simp: ids_def handed_def dest: in_set_takeD)
  then obtain r where r: "mget (ts_jobsByID st) i = Some r" "job_waits r now" by (auto simp: waits_in_def split: option.splits)
  have l: "lease_of (ts_jobsByID st) u i = leased r u" for u using r by (simp add: lease_of_def)
  have "aj_JobID j = i" "aj_LeaseExpireAt j = now + at_leaseTTL tr"
    using transport_wfD(2) [OF assms(2) r(1)] by (simp_all add: i envelope_def l cloneJob_def leased_def)
  moreover have "mget (ts_jobsByID st') i = Some (leased r (now + at_leaseTTL tr))"
    using s i(1) l by (simp add: ids_def)
  ultimately show ?thesis using r by simp
qed

lemma complete_settles:
  assumes "CompleteJob tr st nodeID jobID req now = (None, st')"
  shows "\<exists>r. mget (ts_jobsByID st') (TrimSpace jobID) = Some r \<and> jr_completed r \<and> jr_nodeID r = TrimSpace nodeID \<and>
    aj_OperationID (jr_job r) = TrimSpace (gc_OperationID req) \<and> gc_OperationID (jr_completion r) = TrimSpace (gc_OperationID req) \<and>
    gc_ResultStatus (jr_completion r) = TrimSpace (gc_ResultStatus req)"
proof (cases "requireOwnedJobLocked (ts_jobsByID st) nodeID jobID (gc_OperationID req)")
  case (Inl e)
  with assms show ?thesis by (auto simp: CompleteJob_def split: if_splits)
next
  case (Inr r)
  then have r: "mget (ts_jobsByID st) (TrimSpace jobID) = Some r" "jr_nodeID r = TrimSpace nodeID"
      "aj_OperationID (jr_job r) = TrimSpace (gc_OperationID req)"
    by (auto simp: requireOwnedJobLocked_def split: option.splits if_splits)
  with assms Inr show ?thesis
    by (cases "jr_completed r") (auto simp: CompleteJob_def Let_def leased_def split: if_splits prod.splits option.splits)
qed

lemma completed_is_answered:
  assumes "mget (ts_jobsByID st) (TrimSpace jobID) = Some r" "jr_completed r"
  shows "snd (CompleteJob tr st nodeID jobID req now) = st" "snd (ReportProgress tr st nodeID jobID progress now) = st"
    "fst (CompleteJob tr st nodeID jobID req now) = None \<Longrightarrow>
      TrimSpace (gc_ResultStatus req) = gc_ResultStatus (jr_completion r)"
  using assms by (auto simp: CompleteJob_def ReportProgress_def requireOwnedJobLocked_def Let_def split: if_splits)

section \<open>Properties\<close>

definition demo_setup :: "unit transport \<times> unit transport_state" where
  "demo_setup = NewTransport 0 0 None None Some (\<lambda>_. True) NewNodeService ()"

abbreviation demo_transport :: "unit transport" where "demo_transport \<equiv> fst demo_setup"

definition demo_dispatch :: dispatch_input where
  "demo_dispatch = \<lparr>dp_Scope = demo_scope, dp_NodeID = ''n1'', dp_JobType = ''deploy_nginx_certificate'', dp_SchemaVersion = 0,
     dp_OperationID = ''op1'', dp_Payload = None\<rparr>"

definition demo_poll :: poll_request where
  "demo_poll = \<lparr>pq_NodeID = ''n1'', pq_ProtocolVersion = 1, pq_SupportedSchemaVersions = [1], pq_MaxJobs = 5\<rparr>"

definition demo_completion :: complete_request where
  "demo_completion = empty_completion\<lparr>gc_OperationID := ''op1'', gc_ResultStatus := ''succeeded''\<rparr>"

definition waiting_state :: "unit transport_state" where
  "waiting_state = snd (Dispatch demo_transport ((snd demo_setup)\<lparr>ts_nodes := demo_nodes\<rparr>) demo_dispatch 3 ''j1'')"

lemma demo_setup_new: "NewTransport 0 0 None None Some (\<lambda>_. True) NewNodeService () = (demo_transport, snd demo_setup)"
  by (simp add: demo_setup_def)

lemma waiting_reachable: "transport_run demo_transport 0 (snd demo_setup) 3 waiting_state"
proof -
  have n: "ts_nodes (snd demo_setup) = NewNodeService" by (simp add: demo_setup_def NewTransport_def)
  have step1: "node_step NewNodeService registered_nodes"
    unfolding registered_nodes_def by (rule node_step.registered [OF _ prod.collapse [symmetric]]) (simp add: NewNodeService_def)
  have step2: "node_step registered_nodes demo_nodes"
    unfolding demo_nodes_def by (rule node_step.beaten [OF prod.collapse [symmetric]])
  have r1: "transport_run demo_transport 0 (snd demo_setup) 1 ((snd demo_setup)\<lparr>ts_nodes := registered_nodes\<rparr>)"
    by (rule transport_run.operate [OF transport_run.start _ transport_op.governing]) (simp_all add: n step1)
  have "transport_op demo_transport 2 ((snd demo_setup)\<lparr>ts_nodes := registered_nodes\<rparr>)
      (((snd demo_setup)\<lparr>ts_nodes := registered_nodes\<rparr>)\<lparr>ts_nodes := demo_nodes\<rparr>)"
    by (rule transport_op.governing) (simp add: step2)
  then have r2: "transport_run demo_transport 0 (snd demo_setup) 2 ((snd demo_setup)\<lparr>ts_nodes := demo_nodes\<rparr>)"
    using transport_run.operate [OF r1] by simp
  show ?thesis unfolding waiting_state_def
    by (rule transport_run.operate [OF r2 _ transport_op.dispatching]) (simp_all add: demo_setup_def NewTransport_def)
qed

text \<open>C12: a job under a lease is handed out to nobody: between a poll that returned it and the expiry it was given, whatever
  operations follow, no poll of any node returns it again.\<close>

theorem leased_job_is_not_handed_out_again:
  assumes "NewTransport pollInterval leaseTTL progress completion clone parse_addr NewNodeService w = (tr, st0)"
    and "transport_run tr t0 st0 t st" "Poll tr st req now = (Inr items, st1)" "j \<in> set items" "0 \<le> now"
    and "transport_run tr now st1 t2 st2" "t2 \<le> now2" "now2 < aj_LeaseExpireAt j"
    and "Poll tr st2 req2 now2 = (Inr items2, st3)"
  shows "aj_JobID j \<notin> set (map aj_JobID items2)"
proof
  assume "aj_JobID j \<in> set (map aj_JobID items2)"
  then obtain k where k: "k \<in> set items2" "aj_JobID k = aj_JobID j" by auto
  have wf: "transport_wf st" using run_keeps [OF assms(2) fresh_wf(1) [OF assms(1)]] by blast
  from poll_items [OF assms(3) wf assms(4)] obtain r where r: "mget (ts_jobsByID st1) (aj_JobID j) = Some (leased r (now + at_leaseTTL tr))"
      "aj_LeaseExpireAt j = now + at_leaseTTL tr" by blast
  have "transport_op tr now st st1" using transport_op.polling [of tr now st req] assms(3) by simp
  from op_keeps(1) [OF this wf] have wf1: "transport_wf st1" .
  have "keeps_lease (now + at_leaseTTL tr) (leased r (now + at_leaseTTL tr))" by (simp add: keeps_lease_def leased_def)
  with run_job [OF assms(6) wf1 r(1)] obtain r2 where r2: "mget (ts_jobsByID st2) (aj_JobID j) = Some r2"
      "keeps_lease (now + at_leaseTTL tr) r2" by blast
  have "transport_wf st2" using run_keeps [OF assms(6) wf1] by blast
  from poll_items [OF assms(9) this k(1)] r2 k(2) have "job_waits r2 now2" by auto
  with r2(2) r(2) assms(5,8) fresh_wf(2) [OF assms(1)] show False by (auto simp: job_waits_def keeps_lease_def IsZero_def)
qed

theorem leased_job_is_not_handed_out_again_witness:
  "\<exists>items st1 items2 st3. Poll demo_transport waiting_state demo_poll 4 = (Inr items, st1) \<and> map aj_JobID items = [''j1''] \<and>
     Poll demo_transport st1 demo_poll 5 = (Inr items2, st3) \<and> ''j1'' \<notin> set (map aj_JobID items2)"
proof -
  have "case Poll demo_transport waiting_state demo_poll 4 of
      (Inr items, st1) \<Rightarrow> map aj_JobID items = [''j1''] \<and> list_all (\<lambda>j. 5 < aj_LeaseExpireAt j) items \<and>
        (case Poll demo_transport st1 demo_poll 5 of (Inr _, _) \<Rightarrow> True | (Inl _, _) \<Rightarrow> False)
    | (Inl _, _) \<Rightarrow> False" by code_simp
  then obtain items st1 items2 st3 where p: "Poll demo_transport waiting_state demo_poll 4 = (Inr items, st1)"
      "map aj_JobID items = [''j1'']" "list_all (\<lambda>j. 5 < aj_LeaseExpireAt j) items" "Poll demo_transport st1 demo_poll 5 = (Inr items2, st3)"
    by (auto split: prod.splits sum.splits)
  from p(2) obtain j where j: "items = [j]" "aj_JobID j = ''j1''" by auto
  have "''j1'' \<notin> set (map aj_JobID items2)"
    unfolding j(2) [symmetric]
    by (rule leased_job_is_not_handed_out_again [OF demo_setup_new waiting_reachable p(1) _ _ transport_run.start _ _ p(4)])
      (use j p(3) in simp_all)
  with p(1,2,4) show ?thesis by (intro exI conjI)
qed

text \<open>A completion is final: once a completion was accepted, whatever operations follow, the job is never handed out
  again, repeating the completion succeeds, a different result is refused, and neither completions nor progress
  reports change anything.\<close>

theorem completion_is_final:
  assumes "NewTransport pollInterval leaseTTL progress completion clone parse_addr NewNodeService w = (tr, st0)"
    and "transport_run tr t0 st0 t st" "CompleteJob tr st nodeID jobID req now = (None, st1)" "transport_run tr now st1 t2 st2"
  shows "(\<forall>poll now2 items st3. Poll tr st2 poll now2 = (Inr items, st3) \<longrightarrow> TrimSpace jobID \<notin> set (map aj_JobID items)) \<and>
    (\<forall>now2. CompleteJob tr st2 nodeID jobID req now2 = (None, st2)) \<and>
    (\<forall>node2 other now2. TrimSpace (gc_ResultStatus other) \<noteq> TrimSpace (gc_ResultStatus req) \<longrightarrow>
       (\<exists>e. CompleteJob tr st2 node2 jobID other now2 = (Some e, st2))) \<and>
    (\<forall>node2 report now2. snd (ReportProgress tr st2 node2 jobID report now2) = st2)"
proof -
  have wf: "transport_wf st" using run_keeps [OF assms(2) fresh_wf(1) [OF assms(1)]] by blast
  have "transport_op tr now st st1" using transport_op.completing [of tr now st nodeID jobID req] assms(3) by simp
  from op_keeps(1) [OF this wf] have wf1: "transport_wf st1" .
  from complete_settles [OF assms(3)] obtain r where r: "mget (ts_jobsByID st1) (TrimSpace jobID) = Some r" "jr_completed r"
      "jr_nodeID r = TrimSpace nodeID" "aj_OperationID (jr_job r) = TrimSpace (gc_OperationID req)"
      "gc_OperationID (jr_completion r) = TrimSpace (gc_OperationID req)"
      "gc_ResultStatus (jr_completion r) = TrimSpace (gc_ResultStatus req)" by blast
  with run_job [OF assms(4) wf1 r(1)] have r2: "mget (ts_jobsByID st2) (TrimSpace jobID) = Some r" by auto
  have wf2: "transport_wf st2" using run_keeps [OF assms(4) wf1] by blast
  have "TrimSpace jobID \<notin> set (map aj_JobID items)" if "Poll tr st2 poll now2 = (Inr items, st3)" for poll now2 items st3
  proof
    assume "TrimSpace jobID \<in> set (map aj_JobID items)"
    then obtain k where k: "k \<in> set items" "aj_JobID k = TrimSpace jobID" by auto
    from poll_items [OF that wf2 k(1)] r2 k(2) have "job_waits r now2" by simp
    with r(2) show False by (simp add: job_waits_def)
  qed
  moreover have "CompleteJob tr st2 nodeID jobID req now2 = (None, st2)" for now2
    using assms(3) r2 r by (auto simp: CompleteJob_def requireOwnedJobLocked_def split: if_splits)
  moreover have "\<exists>e. CompleteJob tr st2 node2 jobID other now2 = (Some e, st2)"
    if "TrimSpace (gc_ResultStatus other) \<noteq> TrimSpace (gc_ResultStatus req)" for node2 other now2
    using completed_is_answered(1,3) [OF r2 r(2), of tr node2 other now2] that r(6)
    by (metis option.exhaust prod.collapse)
  ultimately show ?thesis using completed_is_answered(2) [OF r2 r(2)] by simp
qed

theorem completion_is_final_witness:
  "\<exists>st1. CompleteJob demo_transport waiting_state ''n1'' ''j1'' demo_completion 4 = (None, st1) \<and>
     (\<forall>now2. CompleteJob demo_transport st1 ''n1'' ''j1'' demo_completion now2 = (None, st1)) \<and>
     (\<exists>e. CompleteJob demo_transport st1 ''n1'' ''j1'' (demo_completion\<lparr>gc_ResultStatus := ''failed''\<rparr>) 5 = (Some e, st1))"
proof -
  have "fst (CompleteJob demo_transport waiting_state ''n1'' ''j1'' demo_completion 4) = None" by code_simp
  then obtain st1 where c: "CompleteJob demo_transport waiting_state ''n1'' ''j1'' demo_completion 4 = (None, st1)"
    by (metis prod.collapse)
  note final = completion_is_final [OF demo_setup_new waiting_reachable c transport_run.start]
  have "TrimSpace (gc_ResultStatus (demo_completion\<lparr>gc_ResultStatus := ''failed''\<rparr>)) \<noteq> TrimSpace (gc_ResultStatus demo_completion)"
    by code_simp
  with final c show ?thesis by blast
qed

text \<open>A poll of a node that takes work hands out exactly the jobs at the head of its own queue that wait for an agent,
  in the order they were dispatched and at most as many as were asked for, each with a new lease and nothing
  else changed.\<close>

theorem poll_hands_out_the_oldest_waiting_jobs:
  assumes "NewTransport pollInterval leaseTTL progress completion clone parse_addr NewNodeService w = (tr, st0)"
    and "transport_run tr t0 st0 t st" "Poll tr st req now = (Inr items, st')"
    and "node_Lookup (ts_nodes st) (pq_NodeID req) = Inr n" "nd_Status n \<in> {''online'', ''degraded''}"
    and "ids = take (nat (poll_limit (pq_MaxJobs req))) (filter (waits_in (ts_jobsByID st) now) (mslice (ts_queueByNode st) (nd_ID n)))"
  shows "map aj_JobID items = ids \<and> distinct ids \<and>
    (\<forall>i. mget (ts_jobsByID st') i = (if i \<in> set ids then Some (lease_of (ts_jobsByID st) (now + at_leaseTTL tr) i) else mget (ts_jobsByID st) i)) \<and>
    (\<forall>i \<in> set ids. \<exists>r. mget (ts_jobsByID st) i = Some r \<and> jr_nodeID r = nd_ID n \<and> job_waits r now) \<and> length ids \<le> 20"
proof -
  have wf: "transport_wf st" using run_keeps [OF assms(2) fresh_wf(1) [OF assms(1)]] by blast
  have ids: "ids = handed (ts_jobsByID st) now (mslice (ts_queueByNode st) (nd_ID n)) (nat (poll_limit (pq_MaxJobs req)))"
    using assms(6) by (simp add: handed_def)
  have p: "(let (items, jobs) = poll_loop tr now (poll_limit (pq_MaxJobs req)) (mslice (ts_queueByNode st) (nd_ID n)) (ts_jobsByID st) []
       in (Inr items, st\<lparr>ts_jobsByID := jobs\<rparr>)) = (Inr items :: transport_error + agent_job list, st')"
    using assms(3-5) by (auto simp: Poll_def split: if_splits)
  have "int (length ([] :: agent_job list)) < poll_limit (pq_MaxJobs req)" by (simp add: poll_limit_def Let_def)
  from poll_loop_result [OF transport_wfD(4) [OF wf] this, of tr now "nd_ID n" "ts_jobsByID st"] p
  have r: "items = map (envelope tr (ts_jobsByID st) (now + at_leaseTTL tr)) ids"
      "\<And>i. mget (ts_jobsByID st') i = (if i \<in> set ids then Some (lease_of (ts_jobsByID st) (now + at_leaseTTL tr) i) else mget (ts_jobsByID st) i)"
    by (auto simp: split_beta Let_def ids)
  have own: "\<exists>r. mget (ts_jobsByID st) i = Some r \<and> jr_nodeID r = nd_ID n \<and> job_waits r now" if "i \<in> set ids" for i
  proof -
    from that have "i \<in> set (mslice (ts_queueByNode st) (nd_ID n))" "waits_in (ts_jobsByID st) now i"
      by (auto simp: ids handed_def dest: in_set_takeD)
    with transport_wfD(5) [OF wf this(1)] show ?thesis by (auto simp: waits_in_def)
  qed
  have "aj_JobID (envelope tr (ts_jobsByID st) (now + at_leaseTTL tr) i) = i" if "i \<in> set ids" for i
  proof -
    from own [OF that] obtain q where q: "mget (ts_jobsByID st) i = Some q" by blast
    have "lease_of (ts_jobsByID st) u i = leased q u" for u using q by (simp add: lease_of_def)
    with transport_wfD(2) [OF wf q] show ?thesis by (simp add: envelope_def cloneJob_def leased_def)
  qed
  then have "map aj_JobID items = ids" unfolding r(1) by (simp add: map_idI)
  moreover have "distinct ids" using transport_wfD(4) [OF wf] by (simp add: ids handed_def)
  moreover have "length ids \<le> 20"
  proof -
    have "length ids \<le> nat (poll_limit (pq_MaxJobs req))" by (simp add: ids handed_def)
    moreover have "poll_limit (pq_MaxJobs req) \<le> 20" by (simp add: poll_limit_def Let_def)
    ultimately show ?thesis by linarith
  qed
  ultimately show ?thesis using r(2) own by blast
qed

theorem poll_hands_out_the_oldest_waiting_jobs_witness:
  "\<exists>items st'. Poll demo_transport waiting_state demo_poll 4 = (Inr items, st') \<and> map aj_JobID items = [''j1'']"
proof -
  have "case Poll demo_transport waiting_state demo_poll 4 of (Inr _, _) \<Rightarrow> True | (Inl _, _) \<Rightarrow> False" by code_simp
  then obtain items st' where p: "Poll demo_transport waiting_state demo_poll 4 = (Inr items, st')"
    by (auto split: prod.splits sum.splits)
  have "case node_Lookup (ts_nodes waiting_state) (pq_NodeID demo_poll) of
      Inr n \<Rightarrow> nd_Status n = ''online'' \<and> take (nat (poll_limit (pq_MaxJobs demo_poll)))
        (filter (waits_in (ts_jobsByID waiting_state) 4) (mslice (ts_queueByNode waiting_state) (nd_ID n))) = [''j1'']
    | Inl _ \<Rightarrow> False" by code_simp
  then obtain n where n: "node_Lookup (ts_nodes waiting_state) (pq_NodeID demo_poll) = Inr n" "nd_Status n = ''online''"
      "take (nat (poll_limit (pq_MaxJobs demo_poll)))
        (filter (waits_in (ts_jobsByID waiting_state) 4) (mslice (ts_queueByNode waiting_state) (nd_ID n))) = [''j1'']"
    by (auto split: sum.splits)
  have "nd_Status n \<in> {''online'', ''degraded''}" using n(2) by simp
  from poll_hands_out_the_oldest_waiting_jobs [OF demo_setup_new waiting_reachable p n(1) this n(3) [symmetric], THEN conjunct1] p
  show ?thesis by (intro exI conjI)
qed

end
