(* ===== verification/NginxDeploy.thy ===== *)
theory NginxDeploy
  imports Sha256 Encoding Uuid
begin

text \<open>
  The deployment of a certificate to NGINX by an agent (\<^verbatim>\<open>internal/agent/deploy/nginx\<close>,
  \<^verbatim>\<open>internal/agent/verify/nginx/service.go\<close>): precheck, backup, install, reload, verification, and the rollback when a
  stage after the backup fails. The files, the command runner and the TLS probe are records of functions over the
  state \<open>'w\<close> of the host; an error is its text, without the values formatted into it but with the text of the error it
  wraps. Decoding of PEM and X.509 is the parameter \<open>x509_lib\<close>; \<open>'k\<close> is what it takes for a public key.
\<close>

section \<open>Fingerprints and certificates\<close>

definition NormalizeFingerprint :: "string \<Rightarrow> string" where
  "NormalizeFingerprint value = filter (\<lambda>c. c \<noteq> CHR '' '') (filter (\<lambda>c. c \<noteq> CHR '':'') (ToLower (TrimSpace value)))"

record 'k x509_certificate =
  xc_Raw :: rawbytes
  xc_PublicKey :: 'k

datatype 'k private_key = RsaKey 'k | EcdsaKey 'k | Ed25519Key 'k | OtherKey

text \<open>The first PEM block with its type, the parsers, and the PKIX form of a public key.\<close>

record 'k x509_lib =
  xl_pem :: "rawbytes \<Rightarrow> (string \<times> rawbytes) option"
  xl_certificate :: "rawbytes \<Rightarrow> string + 'k x509_certificate"
  xl_pkcs1 :: "rawbytes \<Rightarrow> 'k option"
  xl_ec :: "rawbytes \<Rightarrow> 'k option"
  xl_pkcs8 :: "rawbytes \<Rightarrow> string + 'k private_key"
  xl_pkix :: "'k \<Rightarrow> rawbytes option"

definition parseCertificate :: "'k x509_lib \<Rightarrow> rawbytes \<Rightarrow> string + 'k x509_certificate" where
  "parseCertificate lib certPEM =
     (case xl_pem lib certPEM of
        None \<Rightarrow> Inl ''certificate pem invalid''
      | Some (t, b) \<Rightarrow>
          if t \<noteq> ''CERTIFICATE'' then Inl ''certificate pem invalid''
          else (case xl_certificate lib b of Inl e \<Rightarrow> Inl (''parse certificate: '' @ e) | Inr c \<Rightarrow> Inr c))"

definition parsePrivateKeyPublic :: "'k x509_lib \<Rightarrow> rawbytes \<Rightarrow> string + 'k" where
  "parsePrivateKeyPublic lib keyPEM =
     (case xl_pem lib keyPEM of
        None \<Rightarrow> Inl ''private key pem invalid''
      | Some (_, b) \<Rightarrow>
          (case xl_pkcs1 lib b of Some k \<Rightarrow> Inr k | None \<Rightarrow>
          (case xl_ec lib b of Some k \<Rightarrow> Inr k | None \<Rightarrow>
          (case xl_pkcs8 lib b of
             Inl e \<Rightarrow> Inl (''parse private key: '' @ e)
           | Inr (RsaKey k) \<Rightarrow> Inr k
           | Inr (EcdsaKey k) \<Rightarrow> Inr k
           | Inr (Ed25519Key k) \<Rightarrow> Inr k
           | Inr OtherKey \<Rightarrow> Inl ''private key type unsupported''))))"

definition publicKeysEqual :: "'k x509_lib \<Rightarrow> 'k \<Rightarrow> 'k \<Rightarrow> bool" where
  "publicKeysEqual lib a b =
     (case xl_pkix lib a of None \<Rightarrow> False | Some l \<Rightarrow> (case xl_pkix lib b of None \<Rightarrow> False | Some r \<Rightarrow> l = r))"

definition FingerprintCertificate :: "'k x509_certificate \<Rightarrow> string" where
  "FingerprintCertificate cert = hex_bytes (sha256 (xc_Raw cert))"

definition FingerprintPEM :: "'k x509_lib \<Rightarrow> rawbytes \<Rightarrow> string + string" where
  "FingerprintPEM lib certPEM = map_sum id FingerprintCertificate (parseCertificate lib certPEM)"

section \<open>Verification\<close>

record verify_request =
  vq_Host :: string
  vq_Port :: int
  vq_ServerName :: string
  vq_ExpectedFingerprint :: string

record verify_result =
  vr_Status :: string
  vr_Matched :: bool
  vr_HostPort :: string
  vr_ServerName :: string
  vr_ExpectedFingerprint :: string
  vr_ActiveFingerprint :: string

record probe_request =
  pb_Host :: string
  pb_Port :: int
  pb_ServerName :: string

type_synonym 'w probe = "probe_request \<Rightarrow> 'w \<Rightarrow> (string + string) \<times> 'w"

definition zero_verify_result :: verify_result where
  "zero_verify_result = \<lparr>vr_Status = [], vr_Matched = False, vr_HostPort = [], vr_ServerName = [],
     vr_ExpectedFingerprint = [], vr_ActiveFingerprint = []\<rparr>"

definition JoinHostPort :: "string \<Rightarrow> string \<Rightarrow> string" where
  "JoinHostPort host port =
     (if CHR '':'' \<in> set host then ''['' @ host @ '']:'' @ port else host @ '':'' @ port)"

definition validateRequest :: "verify_request \<Rightarrow> string option" where
  "validateRequest req =
     (if TrimSpace (vq_Host req) = [] then Some ''verify host required''
      else if vq_Port req \<le> 0 \<or> 65535 < vq_Port req then Some ''verify port invalid''
      else if TrimSpace (vq_ExpectedFingerprint req) = [] then Some ''expected fingerprint required''
      else None)"

definition validateProbeRequest :: "probe_request \<Rightarrow> string option" where
  "validateProbeRequest req =
     (if TrimSpace (pb_Host req) = [] then Some ''probe host required''
      else if pb_Port req \<le> 0 \<or> 65535 < pb_Port req then Some ''probe port invalid''
      else None)"

text \<open>The connection is a parameter: it gives the certificates the peer presented to this address and server name.\<close>

definition tls_FetchLeafFingerprint ::
  "(duration \<Rightarrow> string \<Rightarrow> string \<Rightarrow> 'w \<Rightarrow> (string + 'k x509_certificate list) \<times> 'w) \<Rightarrow> duration \<Rightarrow> 'w probe" where
  "tls_FetchLeafFingerprint dial timeout0 req w =
     (case validateProbeRequest req of
        Some e \<Rightarrow> (Inl e, w)
      | None \<Rightarrow>
          let timeout = (if timeout0 \<le> 0 then 5 * second_ns else timeout0) in
          (case dial timeout (JoinHostPort (TrimSpace (pb_Host req)) (decimal (pb_Port req))) (TrimSpace (pb_ServerName req)) w of
             (Inl e, w') \<Rightarrow> (Inl e, w')
           | (Inr certs, w') \<Rightarrow>
               (case certs of [] \<Rightarrow> (Inl ''peer certificate missing'', w') | leaf # _ \<Rightarrow> (Inr (FingerprintCertificate leaf), w'))))"

definition nginx_Verify :: "'w probe \<Rightarrow> verify_request \<Rightarrow> 'w \<Rightarrow> (verify_result \<times> string option) \<times> 'w" where
  "nginx_Verify probe req w =
     (case validateRequest req of
        Some e \<Rightarrow> ((zero_verify_result, Some e), w)
      | None \<Rightarrow>
          (case probe \<lparr>pb_Host = TrimSpace (vq_Host req), pb_Port = vq_Port req, pb_ServerName = TrimSpace (vq_ServerName req)\<rparr> w of
             (Inl e, w') \<Rightarrow> ((zero_verify_result, Some (''fetch leaf fingerprint: '' @ e)), w')
           | (Inr active0, w') \<Rightarrow>
               let expected = NormalizeFingerprint (vq_ExpectedFingerprint req);
                   active = NormalizeFingerprint active0;
                   result = \<lparr>vr_Status = ''verified'', vr_Matched = (active = expected),
                     vr_HostPort = JoinHostPort (TrimSpace (vq_Host req)) (decimal (vq_Port req)),
                     vr_ServerName = TrimSpace (vq_ServerName req), vr_ExpectedFingerprint = expected, vr_ActiveFingerprint = active\<rparr>
               in (if \<not> vr_Matched result then ((result, Some ''active certificate fingerprint mismatch''), w')
                   else ((result, None), w'))))"

section \<open>Paths\<close>

text \<open>\<^verbatim>\<open>filepath.Clean\<close> on Unix: the elements that are kept, the last one first, and the path they make.\<close>

definition clean_step :: "bool \<Rightarrow> string list \<Rightarrow> string \<Rightarrow> string list" where
  "clean_step rooted stack elem =
     (if elem = [] \<or> elem = ''.'' then stack
      else if elem = ''..'' then
        (case stack of
           [] \<Rightarrow> if rooted then [] else [''..'']
         | parent # rest \<Rightarrow> if parent = ''..'' then ''..'' # stack else rest)
      else elem # stack)"

definition IsAbs :: "string \<Rightarrow> bool" where
  "IsAbs path = HasPrefix path ''/''"

definition clean_elements :: "string \<Rightarrow> string list" where
  "clean_elements path = rev (foldl (clean_step (IsAbs path)) [] (Split CHR ''/'' path))"

definition Clean :: "string \<Rightarrow> string" where
  "Clean path =
     (let out = (if IsAbs path then ''/'' else []) @ Join CHR ''/'' (clean_elements path) in if out = [] then ''.'' else out)"

fun admitted_under :: "string \<Rightarrow> string list \<Rightarrow> bool" where
  "admitted_under cleanPath [] = False"
| "admitted_under cleanPath (allowed # rest) =
     (let cleanAllowed = Clean (TrimSpace allowed) in
      if cleanAllowed = ''.'' \<or> \<not> IsAbs cleanAllowed then admitted_under cleanPath rest
      else if cleanPath = cleanAllowed \<or> HasPrefix cleanPath (cleanAllowed @ ''/'') then True
      else admitted_under cleanPath rest)"

definition DefaultPathPolicy :: "string \<Rightarrow> string list \<Rightarrow> string option" where
  "DefaultPathPolicy path allowedPaths =
     (let cleanPath = Clean (TrimSpace path) in
      if cleanPath = ''.'' \<or> \<not> IsAbs cleanPath then Some ''path must be absolute''
      else if admitted_under cleanPath allowedPaths then None
      else Some ''path is outside allowed_paths'')"

section \<open>Requests and results\<close>

record command =
  cm_Name :: string
  cm_Args :: "string list"

record command_result =
  cr_Stdout :: string
  cr_Stderr :: string
  cr_ExitCode :: int

record deploy_request =
  dq_TargetID :: string
  dq_CertificatePEM :: rawbytes
  dq_PrivateKeyPEM :: rawbytes
  dq_CertificatePath :: string
  dq_PrivateKeyPath :: string
  dq_ConfigPath :: string
  dq_NGINXTestCommand :: command
  dq_ReloadCommand :: command
  dq_AllowedPaths :: "string list"
  dq_VerifyHost :: string
  dq_VerifyPort :: int
  dq_ServerName :: string
  dq_ExpectedFingerprint :: string

record step_result =
  sp_Stage :: string
  sp_Status :: string
  sp_Message :: string
  sp_Stdout :: string
  sp_Stderr :: string
  sp_ExitCode :: int

record rollback_result =
  rb_Status :: string
  rb_Message :: string
  rb_RestoredPaths :: "string list"
  rb_ConfigTest :: command_result
  rb_Reload :: command_result

record evidence =
  ev_TargetID :: string
  ev_AffectedPaths :: "string list"
  ev_BackupRefs :: "(string, string) gomap"
  ev_ConfigTest :: command_result
  ev_Reload :: command_result
  ev_Verify :: verify_result
  ev_Rollback :: "rollback_result option"
  ev_ExpectedFingerprint :: string
  ev_ActiveFingerprint :: string

record deploy_result =
  dr_Status :: string
  dr_ActiveFingerprint :: string
  dr_BackupRefs :: "(string, string) gomap"
  dr_Steps :: "step_result list"
  dr_Rollback :: "rollback_result option"
  dr_Evidence :: evidence

record 'w file_store =
  fs_Read :: "string \<Rightarrow> 'w \<Rightarrow> (string + rawbytes) \<times> 'w"
  fs_WriteAtomic :: "string \<Rightarrow> rawbytes \<Rightarrow> int \<Rightarrow> 'w \<Rightarrow> string option \<times> 'w"
  fs_Backup :: "string \<Rightarrow> 'w \<Rightarrow> (string + string) \<times> 'w"
  fs_Restore :: "string \<Rightarrow> string \<Rightarrow> 'w \<Rightarrow> string option \<times> 'w"
  fs_Remove :: "string \<Rightarrow> 'w \<Rightarrow> string option \<times> 'w"

type_synonym 'w command_runner = "string \<Rightarrow> string list \<Rightarrow> 'w \<Rightarrow> (command_result \<times> string option) \<times> 'w"
type_synonym 'w verifier = "verify_request \<Rightarrow> 'w \<Rightarrow> (verify_result \<times> string option) \<times> 'w"
type_synonym path_policy = "string \<Rightarrow> string list \<Rightarrow> string option"

text \<open>A part that is not set is \<open>None\<close>.\<close>

record 'w nginx_service =
  ng_Files :: "'w file_store option"
  ng_Runner :: "'w command_runner option"
  ng_Verifier :: "'w verifier option"
  ng_PathPolicy :: "path_policy option"

definition no_output :: command_result where
  "no_output = \<lparr>cr_Stdout = [], cr_Stderr = [], cr_ExitCode = 0\<rparr>"

definition newResult :: "deploy_request \<Rightarrow> deploy_result" where
  "newResult req = \<lparr>dr_Status = ''pending'', dr_ActiveFingerprint = [], dr_BackupRefs = [], dr_Steps = [], dr_Rollback = None,
     dr_Evidence = \<lparr>ev_TargetID = dq_TargetID req,
       ev_AffectedPaths = [dq_CertificatePath req, dq_PrivateKeyPath req, dq_ConfigPath req], ev_BackupRefs = [],
       ev_ConfigTest = no_output, ev_Reload = no_output, ev_Verify = zero_verify_result, ev_Rollback = None,
       ev_ExpectedFingerprint = [], ev_ActiveFingerprint = []\<rparr>\<rparr>"

definition addStep :: "string \<Rightarrow> string \<Rightarrow> string \<Rightarrow> command_result \<Rightarrow> deploy_result \<Rightarrow> deploy_result" where
  "addStep stage stat message cmd r = r\<lparr>dr_Steps := dr_Steps r @ [\<lparr>sp_Stage = stage, sp_Status = stat, sp_Message = message,
     sp_Stdout = cr_Stdout cmd, sp_Stderr = cr_Stderr cmd, sp_ExitCode = cr_ExitCode cmd\<rparr>]\<rparr>"

definition on_evidence :: "(evidence \<Rightarrow> evidence) \<Rightarrow> deploy_result \<Rightarrow> deploy_result" where
  "on_evidence f r = r\<lparr>dr_Evidence := f (dr_Evidence r)\<rparr>"

text \<open>The result and its evidence point to one record of the rollback.\<close>

definition on_rollback :: "(rollback_result \<Rightarrow> rollback_result) \<Rightarrow> deploy_result \<Rightarrow> deploy_result" where
  "on_rollback f r = on_evidence (\<lambda>ev. ev\<lparr>ev_Rollback := map_option f (ev_Rollback ev)\<rparr>) (r\<lparr>dr_Rollback := map_option f (dr_Rollback r)\<rparr>)"

section \<open>Stages\<close>

definition runCommand :: "'w command_runner \<Rightarrow> command \<Rightarrow> 'w \<Rightarrow> (command_result \<times> string option) \<times> 'w" where
  "runCommand runner cmd w =
     (case runner (TrimSpace (cm_Name cmd)) (cm_Args cmd) w of
        ((result, Some e), w') \<Rightarrow> ((result, Some e), w')
      | ((result, None), w') \<Rightarrow>
          if cr_ExitCode result \<noteq> 0 then ((result, Some (''exit code '' @ decimal (cr_ExitCode result))), w')
          else ((result, None), w'))"

definition request_error :: "'w nginx_service \<Rightarrow> deploy_request \<Rightarrow> string option" where
  "request_error s req =
     (if ng_Files s = None then Some ''file store required''
      else if ng_Runner s = None then Some ''command runner required''
      else if ng_Verifier s = None then Some ''verifier required''
      else if TrimSpace (dq_CertificatePath req) = [] then Some ''certificate_path required''
      else if TrimSpace (dq_PrivateKeyPath req) = [] then Some ''private_key_path required''
      else if TrimSpace (dq_ConfigPath req) = [] then Some ''config_path required''
      else if TrimSpace (cm_Name (dq_NGINXTestCommand req)) = [] then Some ''nginx test command required''
      else if TrimSpace (cm_Name (dq_ReloadCommand req)) = [] then Some ''reload command required''
      else if TrimSpace (dq_VerifyHost req) = [] then Some ''verify_host required''
      else if dq_VerifyPort req \<le> 0 \<or> 65535 < dq_VerifyPort req then Some ''verify_port invalid''
      else if dq_AllowedPaths req = [] then Some ''allowed_paths required''
      else None)"

fun policy_error :: "path_policy \<Rightarrow> string list \<Rightarrow> string list \<Rightarrow> string option" where
  "policy_error policy allowed [] = None"
| "policy_error policy allowed (path # paths) =
     (case policy path allowed of Some e \<Rightarrow> Some e | None \<Rightarrow> policy_error policy allowed paths)"

text \<open>The files are read only when the checks on the request have passed, so they are set then.\<close>

definition nginx_precheck :: "'k x509_lib \<Rightarrow> 'w nginx_service \<Rightarrow> deploy_request \<Rightarrow> 'w \<Rightarrow> (string + string) \<times> 'w" where
  "nginx_precheck lib s req w =
     (case request_error s req of Some e \<Rightarrow> (Inl e, w) | None \<Rightarrow>
     (case policy_error (case ng_PathPolicy s of None \<Rightarrow> DefaultPathPolicy | Some p \<Rightarrow> p) (dq_AllowedPaths req)
        [dq_CertificatePath req, dq_PrivateKeyPath req, dq_ConfigPath req] of Some e \<Rightarrow> (Inl e, w) | None \<Rightarrow>
     (case parseCertificate lib (dq_CertificatePEM req) of Inl e \<Rightarrow> (Inl e, w) | Inr cert \<Rightarrow>
     (case parsePrivateKeyPublic lib (dq_PrivateKeyPEM req) of Inl e \<Rightarrow> (Inl e, w) | Inr keyPublic \<Rightarrow>
      if \<not> publicKeysEqual lib (xc_PublicKey cert) keyPublic then (Inl ''certificate and private key mismatch'', w)
      else (case fs_Read (the (ng_Files s)) (dq_ConfigPath req) w of
        (Inl e, w') \<Rightarrow> (Inl (''read config path: '' @ e), w')
      | (Inr _, w') \<Rightarrow>
          let expected = NormalizeFingerprint (dq_ExpectedFingerprint req) in
          if expected = [] then (FingerprintPEM lib (dq_CertificatePEM req), w') else (Inr expected, w'))))))"

definition nginx_backup :: "'w file_store \<Rightarrow> deploy_request \<Rightarrow> deploy_result \<Rightarrow> 'w \<Rightarrow> (string option \<times> deploy_result) \<times> 'w" where
  "nginx_backup files req r w =
     (case fs_Backup files (dq_CertificatePath req) w of
        (Inl e, w1) \<Rightarrow> ((Some (''backup certificate: '' @ e), r), w1)
      | (Inr certRef, w1) \<Rightarrow>
          (case fs_Backup files (dq_PrivateKeyPath req) w1 of
             (Inl e, w2) \<Rightarrow> ((Some (''backup private key: '' @ e), r), w2)
           | (Inr keyRef, w2) \<Rightarrow>
               let note = (\<lambda>m. mput (dq_PrivateKeyPath req) keyRef (mput (dq_CertificatePath req) certRef m));
                   r1 = r\<lparr>dr_BackupRefs := note (dr_BackupRefs r)\<rparr>;
                   r2 = on_evidence (\<lambda>ev. ev\<lparr>ev_BackupRefs := note (ev_BackupRefs ev)\<rparr>) r1
               in ((None, addStep ''backing_up'' ''succeeded'' ''certificate and key backed up'' no_output r2), w2)))"

text \<open>The certificate is written with mode 0644, the key with mode 0600.\<close>

definition nginx_install :: "'w file_store \<Rightarrow> deploy_request \<Rightarrow> deploy_result \<Rightarrow> 'w \<Rightarrow> (string option \<times> deploy_result) \<times> 'w" where
  "nginx_install files req r w =
     (case fs_WriteAtomic files (dq_CertificatePath req) (dq_CertificatePEM req) 420 w of
        (Some e, w1) \<Rightarrow> ((Some (''write certificate: '' @ e), r), w1)
      | (None, w1) \<Rightarrow>
          (case fs_WriteAtomic files (dq_PrivateKeyPath req) (dq_PrivateKeyPEM req) 384 w1 of
             (Some e, w2) \<Rightarrow> ((Some (''write private key: '' @ e), r), w2)
           | (None, w2) \<Rightarrow>
               ((None, addStep ''installing'' ''succeeded'' ''certificate and key installed'' no_output r), w2)))"

definition nginx_reload ::
  "'w command_runner \<Rightarrow> deploy_request \<Rightarrow> deploy_result \<Rightarrow> bool \<Rightarrow> 'w \<Rightarrow> (string option \<times> deploy_result) \<times> 'w" where
  "nginx_reload runner req r rolling w =
     (case runCommand runner (dq_NGINXTestCommand req) w of ((testResult, err), w1) \<Rightarrow>
      let r1 = (if rolling then on_rollback (\<lambda>b. b\<lparr>rb_ConfigTest := testResult\<rparr>) r
                else on_evidence (\<lambda>ev. ev\<lparr>ev_ConfigTest := testResult\<rparr>) r) in
      (case err of
         Some e \<Rightarrow> ((Some (''nginx config test: '' @ e), r1), w1)
       | None \<Rightarrow>
          (case runCommand runner (dq_ReloadCommand req) w1 of ((reloadResult, err2), w2) \<Rightarrow>
           let r2 = (if rolling then on_rollback (\<lambda>b. b\<lparr>rb_Reload := reloadResult\<rparr>) r1
                     else on_evidence (\<lambda>ev. ev\<lparr>ev_Reload := reloadResult\<rparr>) r1) in
           (case err2 of
              Some e \<Rightarrow> ((Some (''nginx reload: '' @ e), r2), w2)
            | None \<Rightarrow> ((None, addStep ''reloading'' ''succeeded'' ''nginx config test and reload succeeded'' reloadResult r2), w2)))))"

section \<open>Rollback\<close>

definition rollback_failed :: "string \<Rightarrow> deploy_result \<Rightarrow> deploy_result" where
  "rollback_failed message r =
     addStep ''rolling_back'' ''failed'' message no_output
       ((on_rollback (\<lambda>b. b\<lparr>rb_Status := ''rollback_failed'', rb_Message := message\<rparr>) r)\<lparr>dr_Status := ''rollback_failed''\<rparr>)"

text \<open>The loop over the two paths: the result when a restore failed, or where it got to. A path without a backup is skipped.\<close>

fun restore_paths :: "'w file_store \<Rightarrow> string list \<Rightarrow> deploy_result \<Rightarrow> 'w \<Rightarrow> (deploy_result + deploy_result) \<times> 'w" where
  "restore_paths files [] r w = (Inr r, w)"
| "restore_paths files (path # paths) r w =
     (let ref = (case mget (dr_BackupRefs r) path of None \<Rightarrow> [] | Some x \<Rightarrow> x) in
      if TrimSpace ref = [] then restore_paths files paths r w
      else (case fs_Restore files path ref w of
        (Some e, w') \<Rightarrow> (Inl (rollback_failed (''restore '' @ path @ '': '' @ e) r), w')
      | (None, w') \<Rightarrow> restore_paths files paths (on_rollback (\<lambda>b. b\<lparr>rb_RestoredPaths := rb_RestoredPaths b @ [path]\<rparr>) r) w'))"

definition nginx_rollback ::
  "'w file_store \<Rightarrow> 'w command_runner \<Rightarrow> deploy_request \<Rightarrow> deploy_result \<Rightarrow> string \<Rightarrow> 'w \<Rightarrow> (deploy_result \<times> string option) \<times> 'w" where
  "nginx_rollback files runner req result cause w =
     (let rb = \<lparr>rb_Status = ''rolling_back'', rb_Message = [], rb_RestoredPaths = [], rb_ConfigTest = no_output, rb_Reload = no_output\<rparr>;
          r = on_evidence (\<lambda>ev. ev\<lparr>ev_Rollback := Some rb\<rparr>) (result\<lparr>dr_Status := ''rolling_back'', dr_Rollback := Some rb\<rparr>)
      in (case restore_paths files [dq_CertificatePath req, dq_PrivateKeyPath req] r w of
            (Inl failed, w1) \<Rightarrow> ((failed, Some cause), w1)
          | (Inr r1, w1) \<Rightarrow>
              (case nginx_reload runner req r1 True w1 of
                 ((Some e, r2), w2) \<Rightarrow> ((rollback_failed e r2, Some cause), w2)
               | ((None, r2), w2) \<Rightarrow>
                   ((addStep ''rolling_back'' ''succeeded'' ''rollback succeeded'' no_output
                      ((on_rollback (\<lambda>b. b\<lparr>rb_Status := ''rolled_back'', rb_Message := ''rollback succeeded''\<rparr>) r2)\<lparr>dr_Status := ''rolled_back''\<rparr>),
                     Some cause), w2))))"

section \<open>Deployment\<close>

definition failed_stage :: "string \<Rightarrow> string \<Rightarrow> deploy_result \<Rightarrow> deploy_result" where
  "failed_stage stage e r = addStep stage ''failed'' e no_output r"

definition Deploy ::
  "'k x509_lib \<Rightarrow> 'w nginx_service \<Rightarrow> deploy_request \<Rightarrow> 'w \<Rightarrow> (deploy_result \<times> string option) \<times> 'w" where
  "Deploy lib s req w =
     (case nginx_precheck lib s req w of
        (Inl e, w1) \<Rightarrow> ((failed_stage ''prechecking'' e ((newResult req)\<lparr>dr_Status := ''failed''\<rparr>), Some e), w1)
      | (Inr expected, w1) \<Rightarrow>
      let files = the (ng_Files s); runner = the (ng_Runner s); verify = the (ng_Verifier s);
          r1 = addStep ''prechecking'' ''succeeded'' ''request and certificate material validated'' no_output
                 (on_evidence (\<lambda>ev. ev\<lparr>ev_ExpectedFingerprint := expected\<rparr>) ((newResult req)\<lparr>dr_Status := ''prechecking''\<rparr>)) in
     (case nginx_backup files req (r1\<lparr>dr_Status := ''backing_up''\<rparr>) w1 of
        ((Some e, r2), w2) \<Rightarrow> ((failed_stage ''backing_up'' e (r2\<lparr>dr_Status := ''failed''\<rparr>), Some e), w2)
      | ((None, r2), w2) \<Rightarrow>
     (case nginx_install files req (r2\<lparr>dr_Status := ''installing''\<rparr>) w2 of
        ((Some e, r3), w3) \<Rightarrow> nginx_rollback files runner req (failed_stage ''installing'' e r3) e w3
      | ((None, r3), w3) \<Rightarrow>
     (case nginx_reload runner req (r3\<lparr>dr_Status := ''reloading''\<rparr>) False w3 of
        ((Some e, r4), w4) \<Rightarrow> nginx_rollback files runner req (failed_stage ''reloading'' e r4) e w4
      | ((None, r4), w4) \<Rightarrow>
     (case verify \<lparr>vq_Host = dq_VerifyHost req, vq_Port = dq_VerifyPort req, vq_ServerName = dq_ServerName req,
             vq_ExpectedFingerprint = expected\<rparr> w4 of ((verifyResult, err), w5) \<Rightarrow>
      let r5 = on_evidence (\<lambda>ev. ev\<lparr>ev_Verify := verifyResult, ev_ActiveFingerprint := vr_ActiveFingerprint verifyResult\<rparr>)
                 (r4\<lparr>dr_Status := ''verifying'', dr_ActiveFingerprint := vr_ActiveFingerprint verifyResult\<rparr>) in
      (case err of
         Some e \<Rightarrow> nginx_rollback files runner req (failed_stage ''verifying'' e r5) e w5
       | None \<Rightarrow>
           ((addStep ''verifying'' ''succeeded'' ''active certificate fingerprint matched'' no_output (r5\<lparr>dr_Status := ''succeeded''\<rparr>), None), w5)))))))"

end
