(* ===== verification/NginxProps.thy ===== *)
theory NginxProps
  imports NginxDeploy
begin

text \<open>
  What a deployment leaves on the disk of the host: the interface of its files, runner and verifier as a locale, every
  way a deployment can end, which files the agent asks its store for, and where the admitted paths lie. The interface is interpreted on the in-memory file
  store and runner of \<^verbatim>\<open>internal/agent/deploy/nginx/service_test.go\<close>, the implementations the repository has.
\<close>

section \<open>Paths\<close>

lemma Split_mem: "p \<in> set (Split sep s) \<Longrightarrow> sep \<notin> set p"
  by (induction sep s arbitrary: p rule: Split.induct) (auto split: list.splits if_splits)

lemma Split_append: "Split sep (a @ sep # b) = Split sep a @ Split sep b"
  by (induction a) (auto split: list.splits simp: Split_nonempty)

definition plain_elements :: "string list \<Rightarrow> bool" where
  "plain_elements es = (\<forall>e \<in> set es. e \<noteq> [] \<and> e \<noteq> ''.'' \<and> CHR ''/'' \<notin> set e)"

lemma clean_step_plain:
  "plain_elements st \<Longrightarrow> CHR ''/'' \<notin> set e \<Longrightarrow> plain_elements (clean_step rooted st e)"
  by (cases "e = [] \<or> e = ''.''"; cases "e = ''..''"; cases st) (simp_all add: clean_step_def plain_elements_def)

lemma clean_fold_plain:
  "plain_elements st \<Longrightarrow> \<forall>e \<in> set es. CHR ''/'' \<notin> set e \<Longrightarrow> plain_elements (foldl (clean_step rooted) st es)"
  by (induction es arbitrary: st) (auto intro: clean_step_plain)

lemma clean_fold_up: "''..'' \<notin> set st \<Longrightarrow> ''..'' \<notin> set (foldl (clean_step True) st es)"
proof (induction es arbitrary: st)
  case (Cons e es)
  have "''..'' \<notin> set (clean_step True st e)" using Cons.prems by (auto simp: clean_step_def split: list.splits)
  with Cons.IH show ?case by simp
qed simp

lemma clean_elements_plain: "plain_elements (clean_elements p)"
proof -
  have "plain_elements (foldl (clean_step (IsAbs p)) [] (Split CHR ''/'' p))"
    by (rule clean_fold_plain) (auto simp: plain_elements_def dest: Split_mem)
  then show ?thesis by (simp add: plain_elements_def clean_elements_def)
qed

lemma clean_elements_up: "IsAbs p \<Longrightarrow> ''..'' \<notin> set (clean_elements p)"
  using clean_fold_up [of "[]"] by (simp add: clean_elements_def)

lemma Clean_abs: "IsAbs p \<Longrightarrow> Clean p = CHR ''/'' # Join CHR ''/'' (clean_elements p)"
  by (simp add: Clean_def Let_def)

lemma Join_hd: "plain_elements (e # es) \<Longrightarrow> \<exists>c r. Join CHR ''/'' (e # es) = c # r \<and> c \<noteq> CHR ''/''"
  by (cases e; cases es) (auto simp: plain_elements_def)

lemma IsAbs_Cons [simp]: "IsAbs (c # s) \<longleftrightarrow> c = CHR ''/''" "\<not> IsAbs []"
  by (simp_all add: IsAbs_def HasPrefix_def)

lemma IsAbs_Clean: "IsAbs (Clean p) \<longleftrightarrow> IsAbs p"
proof (cases "IsAbs p")
  case False
  show ?thesis
  proof (cases "clean_elements p")
    case Nil
    with False show ?thesis by (simp add: Clean_def)
  next
    case (Cons e es)
    with Join_hd [of e es] clean_elements_plain [of p] False show ?thesis by (auto simp: Clean_def Let_def)
  qed
qed (simp add: Clean_abs)

lemma Join_inj: "plain_elements a \<Longrightarrow> plain_elements b \<Longrightarrow> Join CHR ''/'' a = Join CHR ''/'' b \<Longrightarrow> a = b"
proof -
  assume p: "plain_elements a" "plain_elements b" and j: "Join CHR ''/'' a = Join CHR ''/'' b"
  show "a = b"
  proof (cases "a = [] \<or> b = []")
    case True
    with p j Join_hd show ?thesis by (metis Join.simps(1) list.distinct(1) neq_Nil_conv)
  next
    case False
    have "Split CHR ''/'' (Join CHR ''/'' c) = c" if "c \<noteq> []" "plain_elements c" for c
      using Split_Join [OF that(1)] that(2) by (simp add: plain_elements_def)
    with p j False show ?thesis by metis
  qed
qed

text \<open>Below a directory: its elements followed by more. The root has nothing below it here.\<close>

lemma below_elements:
  assumes "plain_elements a" "plain_elements b" "HasPrefix (CHR ''/'' # Join CHR ''/'' b) ((CHR ''/'' # Join CHR ''/'' a) @ ''/'')"
  shows "a \<noteq> [] \<and> (\<exists>rest. b = a @ rest)"
proof -
  from assms(3) obtain r where r: "Join CHR ''/'' b = Join CHR ''/'' a @ CHR ''/'' # r" by (auto simp: HasPrefix_iff)
  have b: "b \<noteq> []" using r by (cases b) simp_all
  have a: "a \<noteq> []"
  proof
    assume "a = []"
    with r have j: "Join CHR ''/'' b = CHR ''/'' # r" by simp
    from b obtain e es where e: "b = e # es" by (cases b) auto
    from Join_hd [of e es] assms(2) j show False by (simp add: e)
  qed
  have "b = Split CHR ''/'' (Join CHR ''/'' b)" using Split_Join [OF b] assms(2) by (simp add: plain_elements_def)
  also have "\<dots> = a @ Split CHR ''/'' r" using Split_Join [OF a] assms(1) by (simp add: r Split_append plain_elements_def)
  finally show ?thesis using a by blast
qed

text \<open>The elements of the file that a path names for a process in the directory \<open>cwd\<close>.\<close>

definition resolved :: "string list \<Rightarrow> string \<Rightarrow> string list" where
  "resolved cwd path = rev (foldl (clean_step True) (if IsAbs path then [] else rev cwd) (Split CHR ''/'' path))"

lemma resolved_abs: "IsAbs p \<Longrightarrow> resolved cwd p = clean_elements p"
  by (simp add: resolved_def clean_elements_def)

lemma admitted_under_iff:
  "admitted_under c as \<longleftrightarrow> (\<exists>a \<in> set as. IsAbs (Clean (TrimSpace a)) \<and> (c = Clean (TrimSpace a) \<or> HasPrefix c (Clean (TrimSpace a) @ ''/'')))"
proof (induction as)
  case (Cons a as)
  have "IsAbs (Clean (TrimSpace a)) \<Longrightarrow> Clean (TrimSpace a) \<noteq> ''.''" by auto
  with Cons show ?case by (auto simp: Let_def)
qed simp

lemma admitted_elements:
  assumes "DefaultPathPolicy path allowed = None"
  shows "IsAbs (TrimSpace path) \<and> (\<exists>a \<in> set allowed. IsAbs (TrimSpace a) \<and>
    (\<exists>rest. clean_elements (TrimSpace path) = clean_elements (TrimSpace a) @ rest \<and> (clean_elements (TrimSpace a) = [] \<longrightarrow> rest = [])))"
proof -
  let ?p = "TrimSpace path"
  from assms have p: "IsAbs ?p" and u: "admitted_under (Clean ?p) allowed"
    by (auto simp: DefaultPathPolicy_def Let_def IsAbs_Clean split: if_splits)
  from u obtain a where a: "a \<in> set allowed" "IsAbs (TrimSpace a)"
      and c: "Clean ?p = Clean (TrimSpace a) \<or> HasPrefix (Clean ?p) (Clean (TrimSpace a) @ ''/'')"
    by (auto simp: admitted_under_iff IsAbs_Clean)
  note pl = clean_elements_plain [of ?p] clean_elements_plain [of "TrimSpace a"]
  from c show ?thesis
  proof
    assume "Clean ?p = Clean (TrimSpace a)"
    then have "clean_elements ?p = clean_elements (TrimSpace a)" using Join_inj [OF pl] p a by (simp add: Clean_abs)
    with p a show ?thesis by fastforce
  next
    assume "HasPrefix (Clean ?p) (Clean (TrimSpace a) @ ''/'')"
    with below_elements [OF pl(2,1)] p a show ?thesis by (fastforce simp: Clean_abs)
  qed
qed

section \<open>The host an agent works on\<close>

text \<open>
  \<open>content\<close> is what the disk holds under a path, \<open>saved\<close> what a backup reference stands for, \<open>good\<close> an invariant of
  the provider. A write is atomic, a backup keeps older ones, and commands and probes leave the files alone.
\<close>

locale agent_host =
  fixes files :: "'w file_store" and runner :: "'w command_runner" and verify :: "'w verifier"
    and content saved :: "'w \<Rightarrow> string \<Rightarrow> rawbytes option" and good :: "'w \<Rightarrow> bool"
  assumes read_keeps: "good w \<Longrightarrow> fs_Read files p w = (r, w') \<Longrightarrow> good w' \<and> content w' = content w \<and> saved w' = saved w"
    and write_ok: "good w \<Longrightarrow> fs_WriteAtomic files p b m w = (None, w') \<Longrightarrow>
      good w' \<and> content w' = (content w)(p \<mapsto> b) \<and> saved w' = saved w"
    and write_failed: "good w \<Longrightarrow> fs_WriteAtomic files p b m w = (Some e, w') \<Longrightarrow>
      good w' \<and> content w' = content w \<and> saved w' = saved w"
    and backup_ok: "good w \<Longrightarrow> fs_Backup files p w = (Inr ref, w') \<Longrightarrow>
      good w' \<and> TrimSpace ref \<noteq> [] \<and> saved w ref = None \<and> content w p \<noteq> None \<and>
      content w' = content w \<and> saved w' = (saved w)(ref := content w p)"
    and backup_failed: "good w \<Longrightarrow> fs_Backup files p w = (Inl e, w') \<Longrightarrow> good w' \<and> content w' = content w \<and> saved w' = saved w"
    and restore_ok: "good w \<Longrightarrow> fs_Restore files p ref w = (None, w') \<Longrightarrow>
      good w' \<and> saved w ref \<noteq> None \<and> content w' = (content w)(p := saved w ref) \<and> saved w' = saved w"
    and restore_failed: "good w \<Longrightarrow> fs_Restore files p ref w = (Some e, w') \<Longrightarrow>
      good w' \<and> content w' = content w \<and> saved w' = saved w"
    and run_keeps: "good w \<Longrightarrow> runner c args w = (x, w') \<Longrightarrow> good w' \<and> content w' = content w \<and> saved w' = saved w"
    and verify_keeps: "good w \<Longrightarrow> verify q w = (v, w') \<Longrightarrow> good w' \<and> content w' = content w \<and> saved w' = saved w"
begin

definition same_disk :: "'w \<Rightarrow> 'w \<Rightarrow> bool" where
  "same_disk w w' = (good w' \<and> content w' = content w \<and> saved w' = saved w)"

lemma same_disk_trans: "same_disk w w1 \<Longrightarrow> same_disk w1 w2 \<Longrightarrow> same_disk w w2"
  by (simp add: same_disk_def)

text \<open>Both paths have a backup of what they held.\<close>

definition backed :: "(string \<Rightarrow> rawbytes option) \<Rightarrow> deploy_request \<Rightarrow> (string, string) gomap \<Rightarrow> 'w \<Rightarrow> bool" where
  "backed old req refs w = (\<forall>p \<in> {dq_CertificatePath req, dq_PrivateKeyPath req}.
     \<exists>ref. mget refs p = Some ref \<and> TrimSpace ref \<noteq> [] \<and> saved w ref = old p)"

definition others_kept :: "(string \<Rightarrow> rawbytes option) \<Rightarrow> deploy_request \<Rightarrow> 'w \<Rightarrow> bool" where
  "others_kept old req w = (\<forall>p. p \<noteq> dq_CertificatePath req \<longrightarrow> p \<noteq> dq_PrivateKeyPath req \<longrightarrow> content w p = old p)"

lemma precheck_keeps: "good w \<Longrightarrow> nginx_precheck lib s req w = (x, w') \<Longrightarrow> ng_Files s = Some files \<Longrightarrow> same_disk w w'"
  by (auto simp: nginx_precheck_def same_disk_def Let_def split: option.splits sum.splits if_splits prod.splits dest: read_keeps)

lemma backup_result:
  assumes "good w" "nginx_backup files req r w = ((e, r'), w')"
  shows "good w' \<and> content w' = content w \<and> (e = None \<longrightarrow> backed (content w) req (dr_BackupRefs r') w')"
proof (cases "fs_Backup files (dq_CertificatePath req) w")
  case (Pair c w1)
  show ?thesis
  proof (cases c)
    case (Inl e1)
    with Pair assms backup_failed [OF assms(1)] show ?thesis by (auto simp: nginx_backup_def)
  next
    case (Inr c')
    note first = backup_ok [OF assms(1) Pair [unfolded Inr]]
    obtain k w2 where k: "fs_Backup files (dq_PrivateKeyPath req) w1 = (k, w2)" by fastforce
    show ?thesis
    proof (cases k)
      case (Inl e2)
      with Pair Inr k assms(2) first backup_failed [of w1 "dq_PrivateKeyPath req" e2 w2] show ?thesis by (auto simp: nginx_backup_def)
    next
      case kref: (Inr k')
      from first have "good w1" by blast
      note second = backup_ok [OF this k [unfolded kref]]
      have refs: "dr_BackupRefs r' = mput (dq_PrivateKeyPath req) k' (mput (dq_CertificatePath req) c' (dr_BackupRefs r))" "e = None" "w' = w2"
        using Pair Inr k kref assms(2) by (auto simp: nginx_backup_def Let_def addStep_def on_evidence_def)
      have "c' \<noteq> k'" using first second by auto
      with refs first second show ?thesis by (auto simp: backed_def)
    qed
  qed
qed

lemma install_result:
  assumes "good w" "nginx_install files req r w = ((e, r'), w')"
  shows "good w' \<and> saved w' = saved w \<and> others_kept (content w) req w' \<and> dr_BackupRefs r' = dr_BackupRefs r \<and>
    (e = None \<longrightarrow> content w' = (content w)(dq_CertificatePath req \<mapsto> dq_CertificatePEM req, dq_PrivateKeyPath req \<mapsto> dq_PrivateKeyPEM req))"
proof (cases "fs_WriteAtomic files (dq_CertificatePath req) (dq_CertificatePEM req) 420 w")
  case (Pair c w1)
  show ?thesis
  proof (cases c)
    case (Some e1)
    with Pair assms write_failed [OF assms(1)] show ?thesis by (auto simp: nginx_install_def others_kept_def)
  next
    case None
    note first = write_ok [OF assms(1) Pair [unfolded None]]
    obtain k w2 where k: "fs_WriteAtomic files (dq_PrivateKeyPath req) (dq_PrivateKeyPEM req) 384 w1 = (k, w2)" by fastforce
    from first have g: "good w1" by blast
    show ?thesis
    proof (cases k)
      case (Some e2)
      with Pair None k assms(2) first write_failed [OF g k [unfolded Some]] show ?thesis by (auto simp: nginx_install_def others_kept_def)
    next
      case kn: None
      from Pair None k assms(2) first write_ok [OF g k [unfolded kn]] kn show ?thesis
        by (auto simp: nginx_install_def others_kept_def addStep_def)
    qed
  qed
qed

lemma run_command_keeps: "good w \<Longrightarrow> runCommand runner c w = (x, w') \<Longrightarrow> same_disk w w'"
  by (auto simp: runCommand_def same_disk_def split: prod.splits option.splits if_splits dest: run_keeps)

lemma refs_frame [simp]:
  "dr_BackupRefs (on_evidence f r) = dr_BackupRefs r" "dr_BackupRefs (on_rollback g r) = dr_BackupRefs r"
  "dr_BackupRefs (addStep a b c d r) = dr_BackupRefs r"
  "dr_Status (on_evidence f r) = dr_Status r" "dr_Status (on_rollback g r) = dr_Status r" "dr_Status (addStep a b c d r) = dr_Status r"
  by (simp_all add: on_evidence_def on_rollback_def addStep_def)

lemma reload_keeps:
  assumes "good w" "nginx_reload runner req r rolling w = ((e, r'), w')"
  shows "same_disk w w' \<and> dr_BackupRefs r' = dr_BackupRefs r"
proof -
  obtain t err w1 where t: "runCommand runner (dq_NGINXTestCommand req) w = ((t, err), w1)" by (metis prod.collapse)
  obtain t2 err2 w2 where t2: "runCommand runner (dq_ReloadCommand req) w1 = ((t2, err2), w2)" by (metis prod.collapse)
  have s1: "same_disk w w1" by (rule run_command_keeps [OF assms(1) t])
  then have s2: "same_disk w w2" using run_command_keeps [OF _ t2] same_disk_trans by (auto simp: same_disk_def)
  from assms(2) t t2 s1 s2 show ?thesis
    by (cases err; cases err2) (auto simp: nginx_reload_def Let_def split: if_splits)
qed

lemma restore_result:
  assumes "good w" "restore_paths files ps r w = (x, w')"
    and "\<forall>p \<in> set ps. \<exists>ref. mget (dr_BackupRefs r) p = Some ref \<and> TrimSpace ref \<noteq> [] \<and> saved w ref = old p"
  shows "good w' \<and> saved w' = saved w \<and> (\<forall>p. p \<notin> set ps \<longrightarrow> content w' p = content w p) \<and>
    (case x of Inl r' \<Rightarrow> dr_Status r' = ''rollback_failed'' | Inr r' \<Rightarrow> (\<forall>p \<in> set ps. content w' p = old p))"
  using assms
proof (induction ps arbitrary: r w)
  case (Cons p ps)
  from Cons.prems(3) obtain ref where ref: "mget (dr_BackupRefs r) p = Some ref" "TrimSpace ref \<noteq> []" "saved w ref = old p" by auto
  obtain e w1 where e: "fs_Restore files p ref w = (e, w1)" by fastforce
  show ?case
  proof (cases e)
    case (Some msg)
    with Cons.prems(2) ref e restore_failed [OF Cons.prems(1) e [unfolded Some]] show ?thesis
      by (auto simp: rollback_failed_def)
  next
    case None
    note ok = restore_ok [OF Cons.prems(1) e [unfolded None]]
    from ok have g: "good w1" by blast
    have rest: "restore_paths files ps (on_rollback (\<lambda>b. b\<lparr>rb_RestoredPaths := rb_RestoredPaths b @ [p]\<rparr>) r) w1 = (x, w')"
      using Cons.prems(2) ref e None by simp
    have b: "\<forall>q \<in> set ps. \<exists>ref. mget (dr_BackupRefs (on_rollback (\<lambda>b. b\<lparr>rb_RestoredPaths := rb_RestoredPaths b @ [p]\<rparr>) r)) q = Some ref \<and>
        TrimSpace ref \<noteq> [] \<and> saved w1 ref = old q" using Cons.prems(3) ok by auto
    from Cons.IH [OF g rest b] ok ref(3) show ?thesis
      by (cases "p \<in> set ps") (auto split: sum.splits)
  qed
qed (auto split: sum.splits)

lemma rollback_result:
  assumes "good w" "backed old req (dr_BackupRefs r) w" "others_kept old req w" "nginx_rollback files runner req r cause w = ((r', e), w')"
  shows "e = Some cause \<and> (dr_Status r' = ''rolled_back'' \<and> content w' = old \<or> dr_Status r' = ''rollback_failed'' \<and> others_kept old req w')"
proof -
  define rb where "rb = \<lparr>rb_Status = ''rolling_back'', rb_Message = [], rb_RestoredPaths = [], rb_ConfigTest = no_output, rb_Reload = no_output\<rparr>"
  define r0 where "r0 = on_evidence (\<lambda>ev. ev\<lparr>ev_Rollback := Some rb\<rparr>) (r\<lparr>dr_Status := ''rolling_back'', dr_Rollback := Some rb\<rparr>)"
  obtain x w1 where x: "restore_paths files [dq_CertificatePath req, dq_PrivateKeyPath req] r0 w = (x, w1)" by fastforce
  have "dr_BackupRefs r0 = dr_BackupRefs r" by (simp add: r0_def)
  with restore_result [OF assms(1) x, of old] assms(2)
  have res: "good w1 \<and> (\<forall>p. p \<notin> {dq_CertificatePath req, dq_PrivateKeyPath req} \<longrightarrow> content w1 p = content w p) \<and>
    (case x of Inl r' \<Rightarrow> dr_Status r' = ''rollback_failed''
     | Inr r' \<Rightarrow> (\<forall>p \<in> {dq_CertificatePath req, dq_PrivateKeyPath req}. content w1 p = old p))"
    by (auto simp del: restore_paths.simps simp: backed_def split: sum.splits)
  show ?thesis
  proof (cases x)
    case (Inl r1)
    with x assms(3,4) res show ?thesis
      by (auto simp del: restore_paths.simps simp: nginx_rollback_def rb_def [symmetric] r0_def [symmetric] others_kept_def)
  next
    case (Inr r1)
    obtain y r2 w2 where y: "nginx_reload runner req r1 True w1 = ((y, r2), w2)" by (metis prod.collapse)
    have "same_disk w1 w2" using reload_keeps [OF _ y] res by blast
    with res Inr assms(3) have c: "content w2 p = old p" for p
      by (cases "p \<in> {dq_CertificatePath req, dq_PrivateKeyPath req}") (auto simp: same_disk_def others_kept_def)
    with Inr x y assms(4) show ?thesis
      by (cases y) (auto simp del: restore_paths.simps simp: nginx_rollback_def rb_def [symmetric] r0_def [symmetric] others_kept_def rollback_failed_def)
  qed
qed

lemma deploy_result_cases:
  assumes "good w" "ng_Files s = Some files" "ng_Runner s = Some runner" "ng_Verifier s = Some verify"
    and "Deploy lib s req w = ((r, e), w')"
  shows "(dr_Status r = ''succeeded'' \<and> e = None \<and>
      content w' = (content w)(dq_CertificatePath req \<mapsto> dq_CertificatePEM req, dq_PrivateKeyPath req \<mapsto> dq_PrivateKeyPEM req)) \<or>
    (dr_Status r \<in> {''failed'', ''rolled_back''} \<and> e \<noteq> None \<and> content w' = content w) \<or>
    (dr_Status r = ''rollback_failed'' \<and> e \<noteq> None \<and> others_kept (content w) req w')"
proof -
  obtain x w1 where x: "nginx_precheck lib s req w = (x, w1)" by fastforce
  have s1: "good w1" "content w1 = content w" using precheck_keeps [OF assms(1) x assms(2)] by (simp_all add: same_disk_def)
  show ?thesis
  proof (cases x)
    case (Inl m)
    with x s1 assms(5) show ?thesis by (auto simp: Deploy_def failed_stage_def)
  next
    case (Inr expected)
    define r1 where "r1 = addStep ''prechecking'' ''succeeded'' ''request and certificate material validated'' no_output
                 (on_evidence (\<lambda>ev. ev\<lparr>ev_ExpectedFingerprint := expected\<rparr>) ((newResult req)\<lparr>dr_Status := ''prechecking''\<rparr>))"
    note deploy = assms(5) [unfolded Deploy_def x Inr assms(2-4) option.sel prod.case sum.case Let_def, folded r1_def]
    obtain e2 r2 w2 where b: "nginx_backup files req (r1\<lparr>dr_Status := ''backing_up''\<rparr>) w1 = ((e2, r2), w2)" by (metis prod.collapse)
    note s2 = backup_result [OF s1(1) b]
    show ?thesis
    proof (cases e2)
      case (Some m)
      with deploy b s1 s2 show ?thesis by (auto simp: failed_stage_def)
    next
      case None
      note deploy = deploy [unfolded b None prod.case option.case]
      obtain e3 r3 w3 where i: "nginx_install files req (r2\<lparr>dr_Status := ''installing''\<rparr>) w2 = ((e3, r3), w3)" by (metis prod.collapse)
      from s2 have g2: "good w2" by blast
      note s3 = install_result [OF g2 i]
      have bk: "backed (content w) req (dr_BackupRefs r3) w3" "others_kept (content w) req w3"
        using s1 s2 s3 None by (simp_all add: backed_def)
      show ?thesis
      proof (cases e3)
        case (Some m)
        from deploy i Some have "nginx_rollback files runner req (failed_stage ''installing'' m r3) m w3 = ((r, e), w')" by simp
        from rollback_result [OF _ _ bk(2) this] s3 bk(1) show ?thesis by (auto simp: failed_stage_def)
      next
        case e3: None
        note deploy = deploy [unfolded i e3 prod.case option.case]
        obtain e4 r4 w4 where l: "nginx_reload runner req (r3\<lparr>dr_Status := ''reloading''\<rparr>) False w3 = ((e4, r4), w4)" by (metis prod.collapse)
        have s4: "same_disk w3 w4 \<and> dr_BackupRefs r4 = dr_BackupRefs r3" using reload_keeps [OF _ l] s3 by simp
        have bk4: "backed (content w) req (dr_BackupRefs r4) w4" "others_kept (content w) req w4" "good w4"
          using bk s4 by (simp_all add: backed_def others_kept_def same_disk_def)
        show ?thesis
        proof (cases e4)
          case (Some m)
          from deploy l Some have "nginx_rollback files runner req (failed_stage ''reloading'' m r4) m w4 = ((r, e), w')" by simp
          from rollback_result [OF bk4(3) _ bk4(2) this] bk4(1) show ?thesis by (auto simp: failed_stage_def)
        next
          case e4: None
          note deploy = deploy [unfolded l e4 prod.case option.case]
          obtain v e5 w5 where v: "verify \<lparr>vq_Host = dq_VerifyHost req, vq_Port = dq_VerifyPort req, vq_ServerName = dq_ServerName req,
             vq_ExpectedFingerprint = expected\<rparr> w4 = ((v, e5), w5)" by (metis prod.collapse)
          have s5: "good w5" "content w5 = content w4" "saved w5 = saved w4" using verify_keeps [OF bk4(3) v] by simp_all
          show ?thesis
          proof (cases e5)
            case (Some m)
            with deploy v obtain r5 where "nginx_rollback files runner req r5 m w5 = ((r, e), w')" "dr_BackupRefs r5 = dr_BackupRefs r4"
              by (auto simp: failed_stage_def)
            with rollback_result [OF s5(1) _ _ this(1), of "content w"] bk4 s5 show ?thesis by (auto simp: backed_def others_kept_def)
          next
            case e5: None
            with deploy v have "dr_Status r = ''succeeded''" "e = None" "w' = w5" by auto
            with s5 s4 s3 s2 s1 e3 show ?thesis by (simp add: same_disk_def)
          qed
        qed
      qed
    qed
  qed
qed

end

section \<open>The file store and runner of the repository's tests\<close>

record fake_host =
  mf_files :: "(string, rawbytes) gomap"
  mf_modes :: "(string, int) gomap"
  mf_backups :: "(string, rawbytes) gomap"
  mf_nextBackup :: nat
  mf_failWritePath :: string
  mf_failRestore :: bool
  fr_results :: "(string, command_result) gomap"
  fr_sequences :: "(string, command_result list) gomap"
  fr_errs :: "(string, string) gomap"
  fr_calls :: "string list"

definition memory_Read :: "string \<Rightarrow> fake_host \<Rightarrow> (string + rawbytes) \<times> fake_host" where
  "memory_Read path w = (case mget (mf_files w) path of None \<Rightarrow> (Inl ''file not found'', w) | Some b \<Rightarrow> (Inr b, w))"

definition memory_WriteAtomic :: "string \<Rightarrow> rawbytes \<Rightarrow> int \<Rightarrow> fake_host \<Rightarrow> string option \<times> fake_host" where
  "memory_WriteAtomic path b mode w =
     (if path = mf_failWritePath w then (Some ''write failed'', w)
      else (None, w\<lparr>mf_files := mput path b (mf_files w), mf_modes := mput path mode (mf_modes w)\<rparr>))"

definition memory_Backup :: "string \<Rightarrow> fake_host \<Rightarrow> (string + string) \<times> fake_host" where
  "memory_Backup path w =
     (case mget (mf_files w) path of
        None \<Rightarrow> (Inl ''file not found'', w)
      | Some b \<Rightarrow>
          let n = Suc (mf_nextBackup w); ref = ''backup-'' @ digits n
          in (Inr ref, w\<lparr>mf_nextBackup := n, mf_backups := mput ref b (mf_backups w)\<rparr>))"

definition memory_Restore :: "string \<Rightarrow> string \<Rightarrow> fake_host \<Rightarrow> string option \<times> fake_host" where
  "memory_Restore path ref w =
     (if mf_failRestore w then (Some ''restore failed'', w)
      else case mget (mf_backups w) ref of
        None \<Rightarrow> (Some ''backup not found'', w)
      | Some b \<Rightarrow> (None, w\<lparr>mf_files := mput path b (mf_files w)\<rparr>))"

definition memory_Remove :: "string \<Rightarrow> fake_host \<Rightarrow> string option \<times> fake_host" where
  "memory_Remove path w = (None, w\<lparr>mf_files := mdel path (mf_files w), mf_modes := mdel path (mf_modes w)\<rparr>)"

definition memory_file_store :: "fake_host file_store" where
  "memory_file_store = \<lparr>fs_Read = memory_Read, fs_WriteAtomic = memory_WriteAtomic, fs_Backup = memory_Backup,
     fs_Restore = memory_Restore, fs_Remove = memory_Remove\<rparr>"

definition fake_Run :: "fake_host command_runner" where
  "fake_Run name args w0 =
     (let w = w0\<lparr>fr_calls := fr_calls w0 @ [name]\<rparr> in
      case mget (fr_errs w) name of
        Some e \<Rightarrow> ((no_output, Some e), w)
      | None \<Rightarrow>
          (case mslice (fr_sequences w) name of
             r # rest \<Rightarrow> ((r, None), w\<lparr>fr_sequences := mput name rest (fr_sequences w)\<rparr>)
           | [] \<Rightarrow> (case mget (fr_results w) name of Some r \<Rightarrow> ((r, None), w) | None \<Rightarrow> ((no_output, None), w))))"

text \<open>The probe of the tests answers with one fingerprint.\<close>

definition fixed_probe :: "string \<Rightarrow> fake_host probe" where
  "fixed_probe fingerprint req w = (Inr fingerprint, w)"

definition host_files :: "fake_host \<Rightarrow> string \<Rightarrow> rawbytes option" where
  "host_files w = mget (mf_files w)"

definition host_backups :: "fake_host \<Rightarrow> string \<Rightarrow> rawbytes option" where
  "host_backups w = mget (mf_backups w)"

text \<open>Every reference was made by counting up.\<close>

definition host_ok :: "fake_host \<Rightarrow> bool" where
  "host_ok w = (\<forall>ref. mget (mf_backups w) ref \<noteq> None \<longrightarrow> (\<exists>n \<le> mf_nextBackup w. ref = ''backup-'' @ digits n))"

lemma digits_inj: "digits m = digits n \<longleftrightarrow> m = n"
  by (metis undigits_digits)

lemma backup_name: "TrimSpace (''backup-'' @ digits n) = ''backup-'' @ digits n"
proof (rule TrimSpace_solid)
  have "is_digit (last (digits n))" by (rule digits_digit [of _ n]) (simp add: digits_nonempty)
  then show "solid (last (''backup-'' @ digits n))" by (simp add: digits_nonempty solid_def is_digit_def)
qed (simp_all add: solid_def)

interpretation memory_host: agent_host memory_file_store fake_Run "nginx_Verify (fixed_probe fingerprint)" host_files host_backups host_ok
proof (unfold_locales, goal_cases)
  case (1 w p r w')
  then show ?case by (auto simp: memory_file_store_def memory_Read_def split: option.splits)
next
  case (2 w p b m w')
  then show ?case by (auto simp: memory_file_store_def memory_WriteAtomic_def host_ok_def host_files_def host_backups_def split: if_splits)
next
  case (3 w p b m e w')
  then show ?case by (auto simp: memory_file_store_def memory_WriteAtomic_def split: if_splits)
next
  case (4 w p ref w')
  from 4(2) obtain c where c: "mget (mf_files w) p = Some c" "ref = ''backup-'' @ digits (Suc (mf_nextBackup w))"
      "w' = w\<lparr>mf_nextBackup := Suc (mf_nextBackup w), mf_backups := mput ref c (mf_backups w)\<rparr>"
    by (auto simp: memory_file_store_def memory_Backup_def Let_def split: option.splits)
  have new: "mget (mf_backups w) ref = None"
  proof (rule ccontr)
    assume "mget (mf_backups w) ref \<noteq> None"
    with 4(1) obtain n where "n \<le> mf_nextBackup w" "ref = ''backup-'' @ digits n" by (auto simp: host_ok_def)
    with c(2) digits_inj [of n "Suc (mf_nextBackup w)"] show False by simp
  qed
  have "host_ok w'" unfolding host_ok_def
  proof (intro allI impI)
    fix q assume "mget (mf_backups w') q \<noteq> None"
    then have "q = ref \<or> mget (mf_backups w) q \<noteq> None" by (auto simp: c(3) split: if_splits)
    then show "\<exists>n \<le> mf_nextBackup w'. q = ''backup-'' @ digits n"
    proof
      assume "q = ref"
      with c(2,3) show ?thesis by (intro exI [of _ "Suc (mf_nextBackup w)"]) simp
    next
      assume "mget (mf_backups w) q \<noteq> None"
      with 4(1) obtain n where "n \<le> mf_nextBackup w" "q = ''backup-'' @ digits n" by (auto simp: host_ok_def)
      with c(3) show ?thesis by (intro exI [of _ n]) simp
    qed
  qed
  moreover have "TrimSpace ref \<noteq> []" by (simp only: c(2) backup_name) simp
  moreover have "host_backups w' = (host_backups w)(ref := host_files w p)" by (auto simp: host_backups_def host_files_def c(1,3))
  ultimately show ?case using new c(1,3) by (simp add: host_files_def host_backups_def)
next
  case (5 w p e w')
  then show ?case by (auto simp: memory_file_store_def memory_Backup_def Let_def split: option.splits)
next
  case (6 w p ref w')
  then show ?case
    by (auto simp: memory_file_store_def memory_Restore_def host_ok_def host_files_def host_backups_def split: if_splits option.splits)
next
  case (7 w p ref e w')
  then show ?case by (auto simp: memory_file_store_def memory_Restore_def split: if_splits option.splits)
next
  case (8 w c args x w')
  then show ?case
    by (auto simp: fake_Run_def Let_def host_ok_def host_files_def host_backups_def split: option.splits list.splits)
next
  case (9 w q v w')
  then show ?case by (auto simp: nginx_Verify_def fixed_probe_def Let_def split: option.splits if_splits)
qed

section \<open>A deployment that succeeds\<close>

lemma rollback_fails: "snd (fst (nginx_rollback files runner req r cause w)) = Some cause"
  by (auto simp del: restore_paths.simps simp: nginx_rollback_def Let_def split: prod.splits sum.splits option.splits)

lemma runCommand_ok: "runCommand runner c w = ((t, None), w') \<longleftrightarrow> runner (TrimSpace (cm_Name c)) (cm_Args c) w = ((t, None), w') \<and> cr_ExitCode t = 0"
  by (auto simp: runCommand_def split: prod.splits option.splits)

lemma reload_ok:
  assumes "nginx_reload runner req r False w = ((None, r'), w')"
  shows "\<exists>t l w1. runCommand runner (dq_NGINXTestCommand req) w = ((t, None), w1) \<and> runCommand runner (dq_ReloadCommand req) w1 = ((l, None), w') \<and>
    ev_ConfigTest (dr_Evidence r') = t \<and> ev_Reload (dr_Evidence r') = l"
  using assms by (auto simp: nginx_reload_def on_evidence_def addStep_def Let_def split: prod.splits option.splits)

lemma install_ok:
  "nginx_install files req r w = ((None, r'), w') \<Longrightarrow> \<exists>w1. fs_WriteAtomic files (dq_CertificatePath req) (dq_CertificatePEM req) 420 w = (None, w1) \<and>
    fs_WriteAtomic files (dq_PrivateKeyPath req) (dq_PrivateKeyPEM req) 384 w1 = (None, w')"
  by (auto simp: nginx_install_def split: prod.splits option.splits)

lemma backup_made:
  "nginx_backup files req r w = ((None, r'), w') \<Longrightarrow> \<exists>c k w1. fs_Backup files (dq_CertificatePath req) w = (Inr c, w1) \<and>
    fs_Backup files (dq_PrivateKeyPath req) w1 = (Inr k, w')"
  by (auto simp: nginx_backup_def split: prod.splits sum.splits)

lemma deploy_success:
  assumes "Deploy lib s req w = ((r, None), w')"
  shows "\<exists>expected w1 c k w2 w3 w4 w5 t l w6 w7 v. nginx_precheck lib s req w = (Inr expected, w1) \<and>
    fs_Backup (the (ng_Files s)) (dq_CertificatePath req) w1 = (Inr c, w2) \<and>
    fs_Backup (the (ng_Files s)) (dq_PrivateKeyPath req) w2 = (Inr k, w3) \<and>
    fs_WriteAtomic (the (ng_Files s)) (dq_CertificatePath req) (dq_CertificatePEM req) 420 w3 = (None, w4) \<and>
    fs_WriteAtomic (the (ng_Files s)) (dq_PrivateKeyPath req) (dq_PrivateKeyPEM req) 384 w4 = (None, w5) \<and>
    runCommand (the (ng_Runner s)) (dq_NGINXTestCommand req) w5 = ((t, None), w6) \<and>
    runCommand (the (ng_Runner s)) (dq_ReloadCommand req) w6 = ((l, None), w7) \<and>
    the (ng_Verifier s) \<lparr>vq_Host = dq_VerifyHost req, vq_Port = dq_VerifyPort req, vq_ServerName = dq_ServerName req,
      vq_ExpectedFingerprint = expected\<rparr> w7 = ((v, None), w') \<and> dr_ActiveFingerprint r = vr_ActiveFingerprint v \<and>
    ev_ConfigTest (dr_Evidence r) = t \<and> ev_Reload (dr_Evidence r) = l \<and> dr_Status r = ''succeeded''"
proof -
  have no: "nginx_rollback files runner req x cause u \<noteq> ((r, None), w')" for files runner x cause u
    using rollback_fails [of files runner req x cause u] by auto
  obtain x w1 where x: "nginx_precheck lib s req w = (x, w1)" by fastforce
  with assms obtain expected where e: "x = Inr expected" by (cases x) (auto simp: Deploy_def)
  define r1 where "r1 = addStep ''prechecking'' ''succeeded'' ''request and certificate material validated'' no_output
                 (on_evidence (\<lambda>ev. ev\<lparr>ev_ExpectedFingerprint := expected\<rparr>) ((newResult req)\<lparr>dr_Status := ''prechecking''\<rparr>))"
  note deploy = assms [unfolded Deploy_def x e prod.case sum.case Let_def, folded r1_def]
  from deploy obtain r2 w2 where b: "nginx_backup (the (ng_Files s)) req (r1\<lparr>dr_Status := ''backing_up''\<rparr>) w1 = ((None, r2), w2)"
    by (auto split: prod.splits option.splits)
  note deploy = deploy [unfolded b prod.case option.case]
  from deploy no obtain r3 w3 where i: "nginx_install (the (ng_Files s)) req (r2\<lparr>dr_Status := ''installing''\<rparr>) w2 = ((None, r3), w3)"
    by (auto split: prod.splits option.splits)
  note deploy = deploy [unfolded i prod.case option.case]
  from deploy no obtain r4 w4 where l: "nginx_reload (the (ng_Runner s)) req (r3\<lparr>dr_Status := ''reloading''\<rparr>) False w3 = ((None, r4), w4)"
    by (auto split: prod.splits option.splits)
  note deploy = deploy [unfolded l prod.case option.case]
  from deploy no obtain v where v: "the (ng_Verifier s) \<lparr>vq_Host = dq_VerifyHost req, vq_Port = dq_VerifyPort req, vq_ServerName = dq_ServerName req,
      vq_ExpectedFingerprint = expected\<rparr> w4 = ((v, None), w')" "dr_ActiveFingerprint r = vr_ActiveFingerprint v"
      "ev_ConfigTest (dr_Evidence r) = ev_ConfigTest (dr_Evidence r4)" "ev_Reload (dr_Evidence r) = ev_Reload (dr_Evidence r4)"
      "dr_Status r = ''succeeded''"
    by (auto simp: on_evidence_def addStep_def split: prod.splits option.splits)
  from backup_made [OF b] install_ok [OF i] reload_ok [OF l] x e v show ?thesis by blast
qed

lemma precheck_success:
  assumes "nginx_precheck lib s req w = (Inr expected, w')"
  shows "\<exists>cert key. parseCertificate lib (dq_CertificatePEM req) = Inr cert \<and> parsePrivateKeyPublic lib (dq_PrivateKeyPEM req) = Inr key \<and>
    publicKeysEqual lib (xc_PublicKey cert) key \<and>
    expected = (if NormalizeFingerprint (dq_ExpectedFingerprint req) = [] then FingerprintCertificate cert
                else NormalizeFingerprint (dq_ExpectedFingerprint req))"
    and "ng_PathPolicy s = None \<Longrightarrow> p \<in> {dq_CertificatePath req, dq_PrivateKeyPath req, dq_ConfigPath req} \<Longrightarrow>
      DefaultPathPolicy p (dq_AllowedPaths req) = None"
  using assms
  by (auto simp: nginx_precheck_def FingerprintPEM_def Let_def split: option.splits sum.splits if_splits prod.splits)

lemma precheck_read:
  "nginx_precheck lib s req w = (Inr expected, w') \<Longrightarrow> \<exists>conf. fs_Read (the (ng_Files s)) (dq_ConfigPath req) w = (Inr conf, w')"
  by (auto simp: nginx_precheck_def Let_def split: option.splits sum.splits if_splits prod.splits)

lemma hex_fingerprint: "NormalizeFingerprint (FingerprintCertificate cert) = FingerprintCertificate cert"
proof -
  define h where "h = FingerprintCertificate cert"
  have hx: "\<forall>c \<in> set h. is_hex c" by (simp add: h_def FingerprintCertificate_def hex_bytes_is_hex)
  then have "filter (\<lambda>c. c \<noteq> CHR '' '') (filter (\<lambda>c. c \<noteq> CHR '':'') h) = h" "ToLower h = h"
    by (auto simp: filter_id_conv is_hex_def Let_def ToLower_def lower_char_def intro!: map_idI)
  moreover have "TrimSpace h = h"
  proof (cases "h = []")
    case False
    with hx have "solid (hd h)" "solid (last h)" by (simp_all add: solid_hex)
    with False show ?thesis by (rule TrimSpace_solid)
  qed simp
  ultimately show ?thesis by (simp add: NormalizeFingerprint_def h_def [symmetric])
qed

lemma verify_success:
  assumes "nginx_Verify probe q w = ((v, None), w')"
  shows "\<exists>active. probe \<lparr>pb_Host = TrimSpace (vq_Host q), pb_Port = vq_Port q, pb_ServerName = TrimSpace (vq_ServerName q)\<rparr> w = (Inr active, w') \<and>
    vr_ActiveFingerprint v = NormalizeFingerprint active \<and> NormalizeFingerprint active = NormalizeFingerprint (vq_ExpectedFingerprint q)"
  using assms by (auto simp: nginx_Verify_def Let_def split: option.splits prod.splits sum.splits if_splits)

section \<open>Properties\<close>

definition demo_lib :: "unit x509_lib" where
  "demo_lib = \<lparr>xl_pem = (\<lambda>b. Some (''CERTIFICATE'', b)), xl_certificate = (\<lambda>b. Inr \<lparr>xc_Raw = b, xc_PublicKey = ()\<rparr>),
     xl_pkcs1 = (\<lambda>b. None), xl_ec = (\<lambda>b. Some ()), xl_pkcs8 = (\<lambda>b. Inr OtherKey), xl_pkix = (\<lambda>k. Some [])\<rparr>"

definition demo_deployment :: deploy_request where
  "demo_deployment = \<lparr>dq_TargetID = ''t1'', dq_CertificatePEM = [7], dq_PrivateKeyPEM = [8],
     dq_CertificatePath = ''/etc/nginx/certs/../site.pem'', dq_PrivateKeyPath = ''/etc/nginx/site.key'', dq_ConfigPath = ''/etc/nginx/nginx.conf'',
     dq_NGINXTestCommand = \<lparr>cm_Name = ''nginx-test'', cm_Args = []\<rparr>, dq_ReloadCommand = \<lparr>cm_Name = ''nginx-reload'', cm_Args = []\<rparr>,
     dq_AllowedPaths = [''/etc/nginx/''], dq_VerifyHost = ''127.0.0.1'', dq_VerifyPort = 443, dq_ServerName = ''api.example.com'',
     dq_ExpectedFingerprint = ''AA:BB''\<rparr>"

definition demo_host :: "command_result list \<Rightarrow> fake_host" where
  "demo_host reloads = \<lparr>mf_files = [(''/etc/nginx/certs/../site.pem'', [1]), (''/etc/nginx/site.key'', [2]), (''/etc/nginx/nginx.conf'', [3])],
     mf_modes = [], mf_backups = [], mf_nextBackup = 0, mf_failWritePath = [], mf_failRestore = False, fr_results = [],
     fr_sequences = [(''nginx-reload'', reloads)], fr_errs = [], fr_calls = []\<rparr>"

definition demo_nginx :: "fake_host nginx_service" where
  "demo_nginx = \<lparr>ng_Files = Some memory_file_store, ng_Runner = Some fake_Run, ng_Verifier = Some (nginx_Verify (fixed_probe ''aabb'')),
     ng_PathPolicy = None\<rparr>"

definition broken_reload :: command_result where
  "broken_reload = no_output\<lparr>cr_ExitCode := 1\<rparr>"

lemma demo_nginx_sel: "ng_Files demo_nginx = Some memory_file_store" "ng_Runner demo_nginx = Some fake_Run"
  "ng_Verifier demo_nginx = Some (nginx_Verify (fixed_probe ''aabb''))" "ng_PathPolicy demo_nginx = None"
  by (simp_all add: demo_nginx_def)

lemma demo_host_ok: "host_ok (demo_host reloads)"
  by (simp add: host_ok_def demo_host_def)

text \<open>C13: a deployment ends in one of three ways, whatever fails: it reports success and both files are the new ones and
  no other file changed; it reports failed or rolled_back with an error and no file changed; or it reports
  rollback_failed with an error and no file but the two changed. The commands of the request and the probe are taken to
  leave the files alone.\<close>

theorem deployment_outcomes:
  assumes "agent_host files runner verify content saved good" "good w"
    and "ng_Files s = Some files" "ng_Runner s = Some runner" "ng_Verifier s = Some verify"
    and "Deploy lib s req w = ((r, e), w')"
  shows "(dr_Status r = ''succeeded'' \<and> e = None \<and>
      content w' = (content w)(dq_CertificatePath req \<mapsto> dq_CertificatePEM req, dq_PrivateKeyPath req \<mapsto> dq_PrivateKeyPEM req)) \<or>
    (dr_Status r \<in> {''failed'', ''rolled_back''} \<and> e \<noteq> None \<and> content w' = content w) \<or>
    (dr_Status r = ''rollback_failed'' \<and> e \<noteq> None \<and>
      (\<forall>p. p \<noteq> dq_CertificatePath req \<longrightarrow> p \<noteq> dq_PrivateKeyPath req \<longrightarrow> content w' p = content w p))"
  by (rule agent_host.deploy_result_cases [OF assms, unfolded agent_host.others_kept_def [OF assms(1)]])

theorem deployment_outcomes_witness:
  "\<exists>r e w'. Deploy demo_lib demo_nginx demo_deployment (demo_host [broken_reload]) = ((r, e), w') \<and>
     dr_Status r = ''rolled_back'' \<and> mf_files w' \<noteq> [] \<and> host_files w' = host_files (demo_host [broken_reload])"
proof -
  have "case Deploy demo_lib demo_nginx demo_deployment (demo_host [broken_reload]) of
      ((r, e), w') \<Rightarrow> dr_Status r = ''rolled_back'' \<and> mf_files w' \<noteq> []" by code_simp
  then obtain r e w' where d: "Deploy demo_lib demo_nginx demo_deployment (demo_host [broken_reload]) = ((r, e), w')"
      "dr_Status r = ''rolled_back''" "mf_files w' \<noteq> []" by (auto split: prod.splits)
  from deployment_outcomes [OF memory_host.agent_host_axioms demo_host_ok demo_nginx_sel(1-3) d(1)] d(2)
  have "host_files w' = host_files (demo_host [broken_reload])" by auto
  with d show ?thesis by (intro exI conjI)
qed

text \<open>C14: a deployment that succeeds did every stage, in this order, each on the state the one before left: the certificate parsed
  and its key was that of the private key; the configuration file was read; both files were backed up, then written; then the test command of the request was run and after it the reload
  command, each returning without an error and with exit code 0, and their outputs are what the evidence records; and last
  the probe read a fingerprint from the running server that is the expected one, which is the SHA-256 of the certificate
  when the request names none.\<close>

theorem successful_deployment_is_verified:
  assumes "Deploy lib s req w = ((r, None), w')"
    and "ng_Files s = Some files" "ng_Runner s = Some runner" "ng_Verifier s = Some (nginx_Verify probe)"
  shows "\<exists>cert key w1 w2 w3 w4 w5 w6 w7 conf certRef keyRef tested reloaded active.
    parseCertificate lib (dq_CertificatePEM req) = Inr cert \<and> parsePrivateKeyPublic lib (dq_PrivateKeyPEM req) = Inr key \<and>
    publicKeysEqual lib (xc_PublicKey cert) key \<and> fs_Read files (dq_ConfigPath req) w = (Inr conf, w1) \<and>
    fs_Backup files (dq_CertificatePath req) w1 = (Inr certRef, w2) \<and> fs_Backup files (dq_PrivateKeyPath req) w2 = (Inr keyRef, w3) \<and>
    fs_WriteAtomic files (dq_CertificatePath req) (dq_CertificatePEM req) 420 w3 = (None, w4) \<and>
    fs_WriteAtomic files (dq_PrivateKeyPath req) (dq_PrivateKeyPEM req) 384 w4 = (None, w5) \<and>
    runner (TrimSpace (cm_Name (dq_NGINXTestCommand req))) (cm_Args (dq_NGINXTestCommand req)) w5 = ((tested, None), w6) \<and>
    cr_ExitCode tested = 0 \<and> ev_ConfigTest (dr_Evidence r) = tested \<and>
    runner (TrimSpace (cm_Name (dq_ReloadCommand req))) (cm_Args (dq_ReloadCommand req)) w6 = ((reloaded, None), w7) \<and>
    cr_ExitCode reloaded = 0 \<and> ev_Reload (dr_Evidence r) = reloaded \<and>
    probe \<lparr>pb_Host = TrimSpace (dq_VerifyHost req), pb_Port = dq_VerifyPort req, pb_ServerName = TrimSpace (dq_ServerName req)\<rparr> w7 = (Inr active, w') \<and>
    dr_ActiveFingerprint r = NormalizeFingerprint active \<and>
    NormalizeFingerprint active = (if NormalizeFingerprint (dq_ExpectedFingerprint req) = [] then FingerprintCertificate cert
      else NormalizeFingerprint (NormalizeFingerprint (dq_ExpectedFingerprint req)))"
proof -
  from deploy_success [OF assms(1), unfolded assms(2-4) option.sel] obtain expected w1 c k w2 w3 w4 w5 t l w6 w7 v where
    d: "nginx_precheck lib s req w = (Inr expected, w1)"
    "fs_Backup files (dq_CertificatePath req) w1 = (Inr c, w2)" "fs_Backup files (dq_PrivateKeyPath req) w2 = (Inr k, w3)"
    "fs_WriteAtomic files (dq_CertificatePath req) (dq_CertificatePEM req) 420 w3 = (None, w4)"
    "fs_WriteAtomic files (dq_PrivateKeyPath req) (dq_PrivateKeyPEM req) 384 w4 = (None, w5)"
    "runCommand runner (dq_NGINXTestCommand req) w5 = ((t, None), w6)" "runCommand runner (dq_ReloadCommand req) w6 = ((l, None), w7)"
    "nginx_Verify probe \<lparr>vq_Host = dq_VerifyHost req, vq_Port = dq_VerifyPort req, vq_ServerName = dq_ServerName req,
        vq_ExpectedFingerprint = expected\<rparr> w7 = ((v, None), w')"
    and e: "dr_ActiveFingerprint r = vr_ActiveFingerprint v" "ev_ConfigTest (dr_Evidence r) = t" "ev_Reload (dr_Evidence r) = l" by blast
  from precheck_success(1) [OF d(1)] obtain cert key where p: "parseCertificate lib (dq_CertificatePEM req) = Inr cert"
      "parsePrivateKeyPublic lib (dq_PrivateKeyPEM req) = Inr key" "publicKeysEqual lib (xc_PublicKey cert) key"
      "expected = (if NormalizeFingerprint (dq_ExpectedFingerprint req) = [] then FingerprintCertificate cert
                else NormalizeFingerprint (dq_ExpectedFingerprint req))" by blast
  from verify_success [OF d(8)] obtain active where v:
      "probe \<lparr>pb_Host = TrimSpace (dq_VerifyHost req), pb_Port = dq_VerifyPort req, pb_ServerName = TrimSpace (dq_ServerName req)\<rparr> w7 = (Inr active, w')"
      "vr_ActiveFingerprint v = NormalizeFingerprint active" "NormalizeFingerprint active = NormalizeFingerprint expected" by auto
  have fp: "NormalizeFingerprint active = (if NormalizeFingerprint (dq_ExpectedFingerprint req) = [] then FingerprintCertificate cert
      else NormalizeFingerprint (NormalizeFingerprint (dq_ExpectedFingerprint req)))"
    unfolding v(3) p(4) by (simp add: hex_fingerprint)
  from d(6,7) have run: "runner (TrimSpace (cm_Name (dq_NGINXTestCommand req))) (cm_Args (dq_NGINXTestCommand req)) w5 = ((t, None), w6)"
      "cr_ExitCode t = 0" "runner (TrimSpace (cm_Name (dq_ReloadCommand req))) (cm_Args (dq_ReloadCommand req)) w6 = ((l, None), w7)"
      "cr_ExitCode l = 0" unfolding runCommand_ok by blast+
  from e(1) v(2) have active: "dr_ActiveFingerprint r = NormalizeFingerprint active" by (rule trans)
  from precheck_read [OF d(1)] obtain conf where c0: "fs_Read files (dq_ConfigPath req) w = (Inr conf, w1)" unfolding assms(2) option.sel by blast
  show ?thesis by (intro exI conjI) (rule p(1-3) c0 d(2-5) run v(1) active fp e(2,3))+
qed

theorem successful_deployment_is_verified_witness:
  "\<exists>r w'. Deploy demo_lib demo_nginx demo_deployment (demo_host []) = ((r, None), w') \<and> fr_calls w' = [''nginx-test'', ''nginx-reload''] \<and>
     (\<exists>w5 w6 w7 t l. fake_Run ''nginx-test'' [] w5 = ((t, None), w6) \<and> fake_Run ''nginx-reload'' [] w6 = ((l, None), w7) \<and>
       fixed_probe ''aabb'' \<lparr>pb_Host = ''127.0.0.1'', pb_Port = 443, pb_ServerName = ''api.example.com''\<rparr> w7 = (Inr ''aabb'', w'))"
proof -
  have "case Deploy demo_lib demo_nginx demo_deployment (demo_host []) of
      ((r, e), w') \<Rightarrow> e = None \<and> fr_calls w' = [''nginx-test'', ''nginx-reload'']" by code_simp
  then obtain r w' where d: "Deploy demo_lib demo_nginx demo_deployment (demo_host []) = ((r, None), w')" "fr_calls w' = [''nginx-test'', ''nginx-reload'']"
    by (auto split: prod.splits)
  have t: "TrimSpace ''127.0.0.1'' = ''127.0.0.1''" "TrimSpace ''api.example.com'' = ''api.example.com''" "TrimSpace ''nginx-test'' = ''nginx-test''"
    "TrimSpace ''nginx-reload'' = ''nginx-reload''" by code_simp+
  have f: "dq_VerifyHost demo_deployment = ''127.0.0.1''" "dq_VerifyPort demo_deployment = 443" "dq_ServerName demo_deployment = ''api.example.com''"
    "dq_NGINXTestCommand demo_deployment = \<lparr>cm_Name = ''nginx-test'', cm_Args = []\<rparr>"
    "dq_ReloadCommand demo_deployment = \<lparr>cm_Name = ''nginx-reload'', cm_Args = []\<rparr>" by (simp_all add: demo_deployment_def)
  from successful_deployment_is_verified [OF d(1) demo_nginx_sel(1-3), unfolded f command.select_convs t]
  obtain w5 w6 w7 t l active where "fake_Run ''nginx-test'' [] w5 = ((t, None), w6)" "fake_Run ''nginx-reload'' [] w6 = ((l, None), w7)"
      "fixed_probe ''aabb'' \<lparr>pb_Host = ''127.0.0.1'', pb_Port = 443, pb_ServerName = ''api.example.com''\<rparr> w7 = (Inr active, w')" by blast
  with d show ?thesis by (auto simp: fixed_probe_def)
qed

text \<open>Every call of the file store, noted with its path; the commands and the probe act on the host as before.\<close>

datatype file_op = OpRead | OpWrite | OpBackup | OpRestore | OpRemove

definition noted :: "file_op \<Rightarrow> string \<Rightarrow> ('w \<Rightarrow> 'a \<times> 'w) \<Rightarrow> 'w \<times> (file_op \<times> string) list \<Rightarrow> 'a \<times> 'w \<times> (file_op \<times> string) list" where
  "noted k p f = (\<lambda>(w, log). case f w of (x, w') \<Rightarrow> (x, w', log @ [(k, p)]))"

definition unnoted :: "('w \<Rightarrow> 'a \<times> 'w) \<Rightarrow> 'w \<times> 'l \<Rightarrow> 'a \<times> 'w \<times> 'l" where
  "unnoted f = (\<lambda>(w, log). case f w of (x, w') \<Rightarrow> (x, w', log))"

definition logged_store :: "'w file_store \<Rightarrow> ('w \<times> (file_op \<times> string) list) file_store" where
  "logged_store files = \<lparr>fs_Read = (\<lambda>p. noted OpRead p (fs_Read files p)),
     fs_WriteAtomic = (\<lambda>p b m. noted OpWrite p (fs_WriteAtomic files p b m)),
     fs_Backup = (\<lambda>p. noted OpBackup p (fs_Backup files p)),
     fs_Restore = (\<lambda>p ref. noted OpRestore p (fs_Restore files p ref)),
     fs_Remove = (\<lambda>p. noted OpRemove p (fs_Remove files p))\<rparr>"

definition logged_service :: "'w nginx_service \<Rightarrow> ('w \<times> (file_op \<times> string) list) nginx_service" where
  "logged_service s = \<lparr>ng_Files = map_option logged_store (ng_Files s),
     ng_Runner = map_option (\<lambda>run c args. unnoted (run c args)) (ng_Runner s),
     ng_Verifier = map_option (\<lambda>verify q. unnoted (verify q)) (ng_Verifier s), ng_PathPolicy = ng_PathPolicy s\<rparr>"

definition deploy_ops :: "deploy_request \<Rightarrow> (file_op \<times> string) set" where
  "deploy_ops req = insert (OpRead, dq_ConfigPath req) ({OpBackup, OpWrite, OpRestore} \<times> {dq_CertificatePath req, dq_PrivateKeyPath req})"

definition follows :: "(file_op \<times> string) set \<Rightarrow> (file_op \<times> string) list \<Rightarrow> 'a \<times> 'w \<Rightarrow> 'a \<times> 'w \<times> (file_op \<times> string) list \<Rightarrow> bool" where
  "follows P log x y = (\<exists>ops. set ops \<subseteq> P \<and> y = (fst x, snd x, log @ ops))"

lemma follows_trans: "follows P log x (a, w, log') \<Longrightarrow> follows P log' y z \<Longrightarrow> follows P log y z"
  by (auto simp: follows_def)

lemma followsD: "follows P log (x, w) y \<Longrightarrow> \<exists>ops. set ops \<subseteq> P \<and> y = (x, w, log @ ops)"
  by (simp add: follows_def)

lemma followsI: "set ops \<subseteq> P \<Longrightarrow> follows P log (x, w) (x, w, log @ ops)"
  by (auto simp: follows_def)

lemma followsI0: "follows P log (x, w) (x, w, log)"
  by (auto simp: follows_def)

lemma logged_backup: "follows (deploy_ops req) log (nginx_backup files req r w) (nginx_backup (logged_store files) req r (w, log))"
  by (auto simp: follows_def nginx_backup_def logged_store_def noted_def deploy_ops_def Let_def split: prod.splits sum.splits)

lemma logged_install: "follows (deploy_ops req) log (nginx_install files req r w) (nginx_install (logged_store files) req r (w, log))"
  by (auto simp: follows_def nginx_install_def logged_store_def noted_def deploy_ops_def Let_def split: prod.splits option.splits)

lemma logged_command: "runCommand (\<lambda>c args. unnoted (run c args)) cmd (w, log) = (fst (runCommand run cmd w), snd (runCommand run cmd w), log)"
  by (auto simp: runCommand_def unnoted_def split: prod.splits option.splits)

lemma logged_reload: "nginx_reload (\<lambda>c args. unnoted (run c args)) req r rolling (w, log) =
    (fst (nginx_reload run req r rolling w), snd (nginx_reload run req r rolling w), log)"
  by (simp add: nginx_reload_def logged_command Let_def split: prod.split option.split)

lemma logged_restore:
  fixes w :: 'w
  shows "{OpRestore} \<times> set ps \<subseteq> P \<Longrightarrow> follows P log (restore_paths files ps r w) (restore_paths (logged_store files) ps r (w, log))"
proof (induction ps arbitrary: r w log)
  case (Cons p ps)
  define ref where "ref = (case mget (dr_BackupRefs r) p of None \<Rightarrow> [] | Some x \<Rightarrow> x)"
  obtain e w1 where e: "fs_Restore files p ref w = (e, w1)" by fastforce
  then have l: "fs_Restore (logged_store files) p ref (w, log) = (e, w1, log @ [(OpRestore, p)])" by (simp add: logged_store_def noted_def)
  have IH: "follows P log' (restore_paths files ps r' w') (restore_paths (logged_store files) ps r' (w', log'))" for r' w' log'
    using Cons by simp
  have one: "follows P log (x, w') (x, w', log @ [(OpRestore, p)])" for x :: "deploy_result + deploy_result" and w' :: 'w using Cons.prems by (auto intro: followsI)
  have step: "follows P log y z" if "follows P (log @ [(OpRestore, p)]) y z" for y :: "(deploy_result + deploy_result) \<times> 'w" and z
    using follows_trans [OF one that] .
  show ?case using IH step one e l by (cases e) (simp_all add: ref_def [symmetric])
qed (simp add: followsI0)

lemma logged_rollback: "follows (deploy_ops req) log (nginx_rollback files run req r cause w)
    (nginx_rollback (logged_store files) (\<lambda>c args. unnoted (run c args)) req r cause (w, log))"
proof -
  define rb where "rb = \<lparr>rb_Status = ''rolling_back'', rb_Message = [], rb_RestoredPaths = [], rb_ConfigTest = no_output, rb_Reload = no_output\<rparr>"
  define r0 where "r0 = on_evidence (\<lambda>ev. ev\<lparr>ev_Rollback := Some rb\<rparr>) (r\<lparr>dr_Status := ''rolling_back'', dr_Rollback := Some rb\<rparr>)"
  obtain x w1 where x: "restore_paths files [dq_CertificatePath req, dq_PrivateKeyPath req] r0 w = (x, w1)" by fastforce
  from logged_restore [of "[dq_CertificatePath req, dq_PrivateKeyPath req]" "deploy_ops req" log files r0 w, unfolded x] obtain ops where
    ops: "set ops \<subseteq> deploy_ops req" "restore_paths (logged_store files) [dq_CertificatePath req, dq_PrivateKeyPath req] r0 (w, log) = (x, w1, log @ ops)"
    by (auto simp del: restore_paths.simps simp: deploy_ops_def dest!: followsD)
  show ?thesis
    unfolding nginx_rollback_def rb_def [symmetric] Let_def r0_def [symmetric] x ops(2) prod.case
    using ops(1) by (auto simp: logged_reload follows_def split: sum.split prod.split option.split)
qed

lemma logged_sel:
  "ng_Files (logged_service s) = map_option logged_store (ng_Files s)" "ng_PathPolicy (logged_service s) = ng_PathPolicy s"
  "ng_Runner (logged_service s) = None \<longleftrightarrow> ng_Runner s = None" "ng_Verifier (logged_service s) = None \<longleftrightarrow> ng_Verifier s = None"
  "ng_Files (logged_service s) = None \<longleftrightarrow> ng_Files s = None"
  by (simp_all add: logged_service_def)

lemma logged_request_error: "request_error (logged_service s) req = request_error s req"
  by (simp only: request_error_def logged_sel option.map_disc_iff)

lemma logged_precheck: "follows (deploy_ops req) log (nginx_precheck lib s req w) (nginx_precheck lib (logged_service s) req (w, log))"
proof (cases "ng_Files s")
  case None
  then have "request_error s req = Some ''file store required''" by (simp only: request_error_def if_True simp_thms refl)
  then show ?thesis by (simp only: nginx_precheck_def logged_request_error option.case followsI0)
next
  case (Some files)
  note e = logged_request_error
  have l: "ng_PathPolicy (logged_service s) = ng_PathPolicy s"
    "fs_Read (the (ng_Files (logged_service s))) = (\<lambda>p. noted OpRead p (fs_Read files p))" by (simp_all add: logged_sel logged_store_def Some)
  show ?thesis unfolding nginx_precheck_def e l Some option.sel
    by (auto simp: follows_def noted_def deploy_ops_def Let_def split: prod.splits option.splits sum.splits)
qed

lemma precheck_set: "nginx_precheck lib s req w = (Inr expected, w') \<Longrightarrow>
    \<exists>files run verify. ng_Files s = Some files \<and> ng_Runner s = Some run \<and> ng_Verifier s = Some verify"
  by (auto simp: nginx_precheck_def request_error_def split: option.splits if_splits)

lemma precheck_outside:
  assumes "ng_PathPolicy s = None" "p \<in> {dq_CertificatePath req, dq_PrivateKeyPath req, dq_ConfigPath req}"
    and "DefaultPathPolicy p (dq_AllowedPaths req) \<noteq> None"
  shows "\<exists>e. nginx_precheck lib s req w = (Inl e, w)"
proof -
  from assms(2,3) have "policy_error DefaultPathPolicy (dq_AllowedPaths req) [dq_CertificatePath req, dq_PrivateKeyPath req, dq_ConfigPath req] \<noteq> None"
    by (auto split: option.splits)
  then obtain e where
    "policy_error DefaultPathPolicy (dq_AllowedPaths req) [dq_CertificatePath req, dq_PrivateKeyPath req, dq_ConfigPath req] = Some e" by blast
  then show ?thesis by (cases "request_error s req") (simp_all del: policy_error.simps add: nginx_precheck_def assms(1))
qed

lemma logged_deploy: "follows (deploy_ops req) log (Deploy lib s req w) (Deploy lib (logged_service s) req (w, log))"
proof -
  obtain x w1 where x: "nginx_precheck lib s req w = (x, w1)" by fastforce
  from logged_precheck [of req log lib s w, unfolded x, THEN followsD] obtain l1 where
    l1: "set l1 \<subseteq> deploy_ops req" "nginx_precheck lib (logged_service s) req (w, log) = (x, w1, log @ l1)" by blast
  note more = follows_trans [OF followsI [OF l1(1)]]
  show ?thesis
  proof (cases x)
    case (Inl m)
    show ?thesis unfolding Deploy_def x l1(2) Inl using l1(1) by (simp add: followsI)
  next
    case (Inr expected)
    from precheck_set [OF x [unfolded Inr]] obtain files run verify where
      s: "ng_Files s = Some files" "ng_Runner s = Some run" "ng_Verifier s = Some verify" by blast
    have ls: "ng_Files (logged_service s) = Some (logged_store files)" "ng_Runner (logged_service s) = Some (\<lambda>c args. unnoted (run c args))"
      "ng_Verifier (logged_service s) = Some (\<lambda>q. unnoted (verify q))" by (simp_all add: logged_service_def s)
    define r1 where "r1 = addStep ''prechecking'' ''succeeded'' ''request and certificate material validated'' no_output
                 (on_evidence (\<lambda>ev. ev\<lparr>ev_ExpectedFingerprint := expected\<rparr>) ((newResult req)\<lparr>dr_Status := ''prechecking''\<rparr>))"
    obtain e2 r2 w2 where b: "nginx_backup files req (r1\<lparr>dr_Status := ''backing_up''\<rparr>) w1 = ((e2, r2), w2)" by (metis prod.collapse)
    from logged_backup [of req "log @ l1" files "r1\<lparr>dr_Status := ''backing_up''\<rparr>" w1, unfolded b, THEN followsD] obtain l2 where
      l2: "set l2 \<subseteq> deploy_ops req" "nginx_backup (logged_store files) req (r1\<lparr>dr_Status := ''backing_up''\<rparr>) (w1, log @ l1) = ((e2, r2), w2, (log @ l1) @ l2)" by blast
    obtain e3 r3 w3 where i: "nginx_install files req (r2\<lparr>dr_Status := ''installing''\<rparr>) w2 = ((e3, r3), w3)" by (metis prod.collapse)
    from logged_install [of req "(log @ l1) @ l2" files "r2\<lparr>dr_Status := ''installing''\<rparr>" w2, unfolded i, THEN followsD] obtain l3 where
      l3: "set l3 \<subseteq> deploy_ops req" "nginx_install (logged_store files) req (r2\<lparr>dr_Status := ''installing''\<rparr>) (w2, (log @ l1) @ l2) =
        ((e3, r3), w3, ((log @ l1) @ l2) @ l3)" by blast
    obtain e4 r4 w4 where l: "nginx_reload run req (r3\<lparr>dr_Status := ''reloading''\<rparr>) False w3 = ((e4, r4), w4)" by (metis prod.collapse)
    note l' = logged_reload [of run req "r3\<lparr>dr_Status := ''reloading''\<rparr>" False w3 "((log @ l1) @ l2) @ l3", unfolded l fst_conv snd_conv]
    obtain v e5 w5 where v: "verify \<lparr>vq_Host = dq_VerifyHost req, vq_Port = dq_VerifyPort req, vq_ServerName = dq_ServerName req,
             vq_ExpectedFingerprint = expected\<rparr> w4 = ((v, e5), w5)" by (metis prod.collapse)
    have v': "unnoted (verify \<lparr>vq_Host = dq_VerifyHost req, vq_Port = dq_VerifyPort req, vq_ServerName = dq_ServerName req,
             vq_ExpectedFingerprint = expected\<rparr>) (w4, k) = ((v, e5), w5, k)" for k by (simp add: unnoted_def v)
    have upto: "follows (deploy_ops req) log (y, u) (y, u, (log @ l1) @ l2)" "follows (deploy_ops req) log (y, u) (y, u, ((log @ l1) @ l2) @ l3)"
      for y :: "deploy_result \<times> string option" and u :: 'a
      using l1(1) l2(1) l3(1) by (auto simp: follows_def)
    have on: "follows (deploy_ops req) log y z" if "follows (deploy_ops req) (((log @ l1) @ l2) @ l3) y z"
      for y :: "(deploy_result \<times> string option) \<times> 'a" and z
      using follows_trans [OF upto(2) that] .
    note chain = Deploy_def x l1(2) Inr prod.case sum.case Let_def s ls option.sel r1_def [symmetric] b l2(2)
    show ?thesis
    proof (cases e2)
      case (Some m)
      show ?thesis unfolding chain unfolding Some prod.case option.case by (rule upto)
    next
      case n2: None
      show ?thesis
      proof (cases e3)
        case (Some m)
        show ?thesis unfolding chain unfolding n2 prod.case option.case i l3(2) unfolding Some prod.case option.case by (rule on) (rule logged_rollback)
      next
        case n3: None
        show ?thesis
        proof (cases e4)
          case (Some m)
          show ?thesis unfolding chain unfolding n2 prod.case option.case i l3(2) unfolding n3 prod.case option.case l l' unfolding Some prod.case option.case
            by (rule on) (rule logged_rollback)
        next
          case n4: None
          show ?thesis
          proof (cases e5)
            case (Some m)
            show ?thesis unfolding chain unfolding n2 prod.case option.case i l3(2) unfolding n3 prod.case option.case l l'
              unfolding n4 prod.case option.case v v' unfolding Some prod.case option.case by (rule on) (rule logged_rollback)
          next
            case None
            show ?thesis unfolding chain unfolding n2 prod.case option.case i l3(2) unfolding n3 prod.case option.case l l'
              unfolding n4 prod.case option.case v v' unfolding None prod.case option.case by (rule upto)
          qed
        qed
      qed
    qed
  qed
qed

text \<open>C15: an agent with the default policy asks its file store for nothing but the three files of the request: it reads the
  configuration file, and it backs up, writes and restores the certificate and the key; and when it asks for anything at
  all, each of the three paths, with its blanks trimmed, is absolute and leads into one of the allowed directories that is
  absolute, dot-dot elements included. This holds whatever the commands of the request, the probe and the store do, and is
  about the accesses of the agent itself, not about those of the commands it runs.\<close>

theorem deployments_stay_in_allowed_paths:
  assumes "ng_PathPolicy s = None" "Deploy lib s req w = ((r, e), w')"
  shows "\<exists>ops. Deploy lib (logged_service s) req (w, []) = ((r, e), (w', ops)) \<and>
    set ops \<subseteq> {(OpRead, dq_ConfigPath req)} \<union> {OpBackup, OpWrite, OpRestore} \<times> {dq_CertificatePath req, dq_PrivateKeyPath req} \<and>
    (ops \<noteq> [] \<longrightarrow> (\<forall>p \<in> {dq_CertificatePath req, dq_PrivateKeyPath req, dq_ConfigPath req}. IsAbs (TrimSpace p) \<and>
      (\<exists>a \<in> set (dq_AllowedPaths req). IsAbs (TrimSpace a) \<and>
        (\<exists>rest. resolved cwd (TrimSpace p) = resolved cwd (TrimSpace a) @ rest \<and> ''..'' \<notin> set rest))))"
proof -
  from logged_deploy [of req "[]" lib s w, unfolded assms(2), THEN followsD] obtain ops where
    o: "set ops \<subseteq> deploy_ops req" "Deploy lib (logged_service s) req (w, []) = ((r, e), w', ops)" by auto
  have "IsAbs (TrimSpace p) \<and> (\<exists>a \<in> set (dq_AllowedPaths req). IsAbs (TrimSpace a) \<and>
        (\<exists>rest. resolved cwd (TrimSpace p) = resolved cwd (TrimSpace a) @ rest \<and> ''..'' \<notin> set rest))"
    if ne: "ops \<noteq> []" and p: "p \<in> {dq_CertificatePath req, dq_PrivateKeyPath req, dq_ConfigPath req}" for p
  proof -
    have ok: "DefaultPathPolicy p (dq_AllowedPaths req) = None"
    proof (rule ccontr)
      assume "DefaultPathPolicy p (dq_AllowedPaths req) \<noteq> None"
      from precheck_outside [of "logged_service s", unfolded logged_sel, OF assms(1) p this, of lib "(w, [])"] o(2) ne
      show False by (auto simp: Deploy_def)
    qed
    from admitted_elements [OF ok] obtain a rest where a: "IsAbs (TrimSpace p)" "a \<in> set (dq_AllowedPaths req)" "IsAbs (TrimSpace a)"
        "clean_elements (TrimSpace p) = clean_elements (TrimSpace a) @ rest" by blast
    moreover from a clean_elements_up [OF a(1)] have "''..'' \<notin> set rest" by simp
    ultimately have "resolved cwd (TrimSpace p) = resolved cwd (TrimSpace a) @ rest \<and> ''..'' \<notin> set rest"
      by (simp add: resolved_abs)
    with a show ?thesis by blast
  qed
  with o show ?thesis by (auto simp: deploy_ops_def)
qed

theorem deployments_stay_in_allowed_paths_witness:
  "\<exists>r e w' ops. Deploy demo_lib (logged_service demo_nginx) demo_deployment (demo_host [broken_reload], []) = ((r, e), (w', ops)) \<and>
     (OpRestore, ''/etc/nginx/certs/../site.pem'') \<in> set ops \<and> dr_Status r = ''rolled_back'' \<and>
     (\<exists>rest. resolved [] (TrimSpace ''/etc/nginx/certs/../site.pem'') = resolved [] (TrimSpace ''/etc/nginx/'') @ rest)"
proof -
  obtain r e w' where d: "Deploy demo_lib demo_nginx demo_deployment (demo_host [broken_reload]) = ((r, e), w')" by (metis prod.collapse)
  have "case Deploy demo_lib (logged_service demo_nginx) demo_deployment (demo_host [broken_reload], []) of
      ((r, e), (w', ops)) \<Rightarrow> (OpRestore, ''/etc/nginx/certs/../site.pem'') \<in> set ops \<and> dr_Status r = ''rolled_back''" by code_simp
  moreover from deployments_stay_in_allowed_paths [OF demo_nginx_sel(4) d, of "[]"] obtain ops where
    o: "Deploy demo_lib (logged_service demo_nginx) demo_deployment (demo_host [broken_reload], []) = ((r, e), (w', ops))"
    "ops \<noteq> [] \<longrightarrow> (\<forall>p \<in> {dq_CertificatePath demo_deployment, dq_PrivateKeyPath demo_deployment, dq_ConfigPath demo_deployment}. IsAbs (TrimSpace p) \<and>
      (\<exists>a \<in> set (dq_AllowedPaths demo_deployment). IsAbs (TrimSpace a) \<and>
        (\<exists>rest. resolved [] (TrimSpace p) = resolved [] (TrimSpace a) @ rest \<and> ''..'' \<notin> set rest)))" by blast
  ultimately have m: "(OpRestore, ''/etc/nginx/certs/../site.pem'') \<in> set ops" "dr_Status r = ''rolled_back''" by simp_all
  have f: "dq_CertificatePath demo_deployment = ''/etc/nginx/certs/../site.pem''" "set (dq_AllowedPaths demo_deployment) = {''/etc/nginx/''}"
    by (simp_all add: demo_deployment_def)
  from m(1) have "ops \<noteq> []" by auto
  with o(2) have "\<exists>rest. resolved [] (TrimSpace ''/etc/nginx/certs/../site.pem'') = resolved [] (TrimSpace ''/etc/nginx/'') @ rest"
    unfolding f by blast
  with o(1) m show ?thesis by blast
qed

lemma space_trimmed: "TrimSpace (CHR '' '' # s) = TrimSpace s"
  by (simp add: TrimSpace_def trimLeft_def trim_with.simps [of wide_spaces "CHR '' '' # s"] space_len_def ascii_space_def)

lemma padded_precheck:
  assumes "ng_PathPolicy s = None"
  shows "nginx_precheck lib s (req\<lparr>dq_CertificatePath := CHR '' '' # dq_CertificatePath req\<rparr>) w = nginx_precheck lib s req w"
proof -
  let ?req = "req\<lparr>dq_CertificatePath := CHR '' '' # dq_CertificatePath req\<rparr>"
  have f: "dq_CertificatePath ?req = CHR '' '' # dq_CertificatePath req" "dq_PrivateKeyPath ?req = dq_PrivateKeyPath req"
    "dq_ConfigPath ?req = dq_ConfigPath req" "dq_AllowedPaths ?req = dq_AllowedPaths req" "dq_CertificatePEM ?req = dq_CertificatePEM req"
    "dq_PrivateKeyPEM ?req = dq_PrivateKeyPEM req" "dq_ExpectedFingerprint ?req = dq_ExpectedFingerprint req"
    "dq_NGINXTestCommand ?req = dq_NGINXTestCommand req" "dq_ReloadCommand ?req = dq_ReloadCommand req"
    "dq_VerifyHost ?req = dq_VerifyHost req" "dq_VerifyPort ?req = dq_VerifyPort req" by simp_all
  have p: "DefaultPathPolicy (CHR '' '' # path) allowed = DefaultPathPolicy path allowed" for path allowed
    by (simp only: DefaultPathPolicy_def space_trimmed)
  show ?thesis by (simp only: nginx_precheck_def request_error_def f space_trimmed assms option.case policy_error.simps p)
qed

lemma padded_resolved:
  assumes "IsAbs path" "''..'' \<notin> set (Split CHR ''/'' path)"
  shows "resolved cwd (CHR '' '' # path) = cwd @ '' '' # resolved cwd path"
proof -
  from assms(1) obtain q where q: "path = CHR ''/'' # q" by (cases path) auto
  have up: "foldl (clean_step True) st es = rev (filter (\<lambda>e. e \<noteq> [] \<and> e \<noteq> ''.'') es) @ st" if "''..'' \<notin> set es" for st es
    using that by (induction es arbitrary: st) (auto simp: clean_step_def)
  have "''..'' \<notin> set (Split CHR ''/'' q)" using assms(2) by (simp add: q)
  then show ?thesis using up [of "Split CHR ''/'' q"] by (simp add: resolved_def q clean_step_def)
qed

text \<open>C16: the check of a path trims it and the write does not: a request whose certificate path is absolute and has no dot-dot
  element passes or fails the checks exactly as the same request with a blank in front of that path; but the padded path is
  no longer absolute, it names a file under the working directory of the agent, and it is the padded path, besides the key
  path, that a successful deployment writes, where the commands of the request leave the files alone.\<close>

theorem padded_paths_escape_the_allow_list:
  assumes "agent_host files runner verify content saved good" "good w"
    and "ng_Files s = Some files" "ng_Runner s = Some runner" "ng_Verifier s = Some verify" "ng_PathPolicy s = None"
    and "path = dq_CertificatePath req" "IsAbs path" "''..'' \<notin> set (Split CHR ''/'' path)"
    and "padded = req\<lparr>dq_CertificatePath := CHR '' '' # path\<rparr>"
  shows "nginx_precheck lib s padded w = nginx_precheck lib s req w \<and>
    \<not> IsAbs (CHR '' '' # path) \<and> resolved cwd (CHR '' '' # path) = cwd @ '' '' # resolved cwd path \<and>
    (\<forall>r w'. Deploy lib s padded w = ((r, None), w') \<longrightarrow>
      content w' = (content w)(CHR '' '' # path \<mapsto> dq_CertificatePEM req, dq_PrivateKeyPath req \<mapsto> dq_PrivateKeyPEM req))"
proof (intro conjI allI impI)
  show "nginx_precheck lib s padded w = nginx_precheck lib s req w" unfolding assms(7,10) by (rule padded_precheck [OF assms(6)])
  show "resolved cwd (CHR '' '' # path) = cwd @ '' '' # resolved cwd path" by (rule padded_resolved [OF assms(8,9)])
  fix r w' assume "Deploy lib s padded w = ((r, None), w')"
  from agent_host.deploy_result_cases [OF assms(1-5) this]
  show "content w' = (content w)(CHR '' '' # path \<mapsto> dq_CertificatePEM req, dq_PrivateKeyPath req \<mapsto> dq_PrivateKeyPEM req)"
    by (auto simp: assms(10))
qed simp

theorem padded_paths_escape_the_allow_list_witness:
  "\<exists>req w r w' x. dq_CertificatePath req = ''/etc/nginx/site.pem'' \<and> dq_AllowedPaths req = [''/etc/nginx/''] \<and> nginx_precheck demo_lib demo_nginx req w = (Inr x, w) \<and>
     Deploy demo_lib demo_nginx (req\<lparr>dq_CertificatePath := '' /etc/nginx/site.pem''\<rparr>) w = ((r, None), w') \<and>
     host_files w' '' /etc/nginx/site.pem'' = Some [7] \<and> host_files w' ''/etc/nginx/site.pem'' = Some [1] \<and>
     resolved [''var'', ''agent''] '' /etc/nginx/site.pem'' = [''var'', ''agent'', '' '', ''etc'', ''nginx'', ''site.pem'']"
proof -
  define req where "req = demo_deployment\<lparr>dq_CertificatePath := ''/etc/nginx/site.pem''\<rparr>"
  define w where "w = (demo_host [])\<lparr>mf_files := [('' /etc/nginx/site.pem'', [0]), (''/etc/nginx/site.pem'', [1]), (''/etc/nginx/site.key'', [2]), (''/etc/nginx/nginx.conf'', [3])]\<rparr>"
  have "case Deploy demo_lib demo_nginx (demo_deployment\<lparr>dq_CertificatePath := '' /etc/nginx/site.pem''\<rparr>)
      ((demo_host [])\<lparr>mf_files := [('' /etc/nginx/site.pem'', [0]), (''/etc/nginx/site.pem'', [1]), (''/etc/nginx/site.key'', [2]), (''/etc/nginx/nginx.conf'', [3])]\<rparr>) of
      ((r, e), w') \<Rightarrow> e = None" by code_simp
  then obtain r w' where d: "Deploy demo_lib demo_nginx (req\<lparr>dq_CertificatePath := '' /etc/nginx/site.pem''\<rparr>) w = ((r, None), w')"
    by (auto simp: req_def w_def split: prod.splits)
  have p: "dq_CertificatePath req = ''/etc/nginx/site.pem''" "IsAbs ''/etc/nginx/site.pem''" by (simp_all add: req_def)
  have u: "''..'' \<notin> set (Split CHR ''/'' ''/etc/nginx/site.pem'')" "resolved [''var'', ''agent''] ''/etc/nginx/site.pem'' = [''etc'', ''nginx'', ''site.pem'']"
    by code_simp+
  have k: "host_ok w" by (simp add: w_def host_ok_def demo_host_def)
  note all = padded_paths_escape_the_allow_list [OF memory_host.agent_host_axioms k demo_nginx_sel p(1) [symmetric] p(2) u(1) refl, of demo_lib "[''var'', ''agent'']"]
  from all d have c: "host_files w' = (host_files w)('' /etc/nginx/site.pem'' \<mapsto> dq_CertificatePEM req, dq_PrivateKeyPath req \<mapsto> dq_PrivateKeyPEM req)" by blast
  have v: "dq_CertificatePEM req = [7]" "dq_PrivateKeyPath req = ''/etc/nginx/site.key''" "dq_AllowedPaths req = [''/etc/nginx/'']" by (simp_all add: req_def demo_deployment_def)
  have "host_files w ''/etc/nginx/site.pem'' = Some [1]" by (simp add: host_files_def w_def)
  with c v have h: "host_files w' '' /etc/nginx/site.pem'' = Some [7]" "host_files w' ''/etc/nginx/site.pem'' = Some [1]" by simp_all
  have r: "resolved [''var'', ''agent''] '' /etc/nginx/site.pem'' = [''var'', ''agent'', '' '', ''etc'', ''nginx'', ''site.pem'']" using all u(2) by simp
  have "case nginx_precheck demo_lib demo_nginx (demo_deployment\<lparr>dq_CertificatePath := ''/etc/nginx/site.pem''\<rparr>)
      ((demo_host [])\<lparr>mf_files := [('' /etc/nginx/site.pem'', [0]), (''/etc/nginx/site.pem'', [1]), (''/etc/nginx/site.key'', [2]), (''/etc/nginx/nginx.conf'', [3])]\<rparr>) of
      (x, w1) \<Rightarrow> \<not> isl x \<and> w1 = ((demo_host [])\<lparr>mf_files := [('' /etc/nginx/site.pem'', [0]), (''/etc/nginx/site.pem'', [1]), (''/etc/nginx/site.key'', [2]), (''/etc/nginx/nginx.conf'', [3])]\<rparr>)" by code_simp
  then obtain x where "nginx_precheck demo_lib demo_nginx req w = (Inr x, w)"
    unfolding req_def [symmetric] w_def [symmetric] by (auto simp: isl_def split: prod.splits) (metis sum.exhaust)
  with d p(1) v(3) h r show ?thesis by blast
qed

end
