(* ===== verification/NamedStore.thy ===== *)
theory NamedStore
  imports Resource
begin

text \<open>
  What the governance stores share: records by identifier and an index from the key of a record, its scope and its
  name, to its identifier. The interface \<open>named_store\<close> says how an operation may change the two maps; whoever keeps to
  it has one record a key.
\<close>

text \<open>The index after a rename, or nothing when the new name belongs to another record.\<close>

definition move_name :: "(string, string) gomap \<Rightarrow> string \<Rightarrow> string \<Rightarrow> string \<Rightarrow> (string, string) gomap option" where
  "move_name names i oldKey newKey =
     (if newKey = oldKey then Some names
      else if (case mget names newKey of None \<Rightarrow> False | Some existingID \<Rightarrow> existingID \<noteq> i) then None
      else Some (mput newKey i (mdel oldKey names)))"

lemma move_name_get:
  assumes "move_name names i oldKey newKey = Some names'" "mget names oldKey = Some i"
  shows "mget names' k = (if k = newKey then Some i else if k = oldKey then None else mget names k)"
    and "mget names newKey = None \<or> mget names newKey = Some i"
  using assms by (auto simp: move_name_def split: if_splits option.splits)

text \<open>How an operation may change the records and the index: not at all, by one new record under a free key, or by a new value of a record
  whose key is moved along.\<close>

definition keeps_names ::
  "('st \<Rightarrow> (string, 'r) gomap) \<Rightarrow> ('st \<Rightarrow> (string, string) gomap) \<Rightarrow> ('r \<Rightarrow> string) \<Rightarrow> ('r \<Rightarrow> string) \<Rightarrow> 'st \<Rightarrow> 'st \<Rightarrow> bool" where
  "keeps_names recs names ident key st st' =
     ((recs st' = recs st \<and> names st' = names st) \<or>
      (\<exists>r. mget (recs st) (ident r) = None \<and> mget (names st) (key r) = None \<and>
        recs st' = mput (ident r) r (recs st) \<and> names st' = mput (key r) (ident r) (names st)) \<or>
      (\<exists>i r r'. mget (recs st) i = Some r \<and> ident r' = ident r \<and> recs st' = mput (ident r) r' (recs st) \<and>
        move_name (names st) (ident r) (key r) (key r') = Some (names st')))"

lemma keeps_same: "recs st' = recs st \<Longrightarrow> names st' = names st \<Longrightarrow> keeps_names recs names ident key st st'"
  by (simp add: keeps_names_def)

lemma keeps_created:
  assumes "recs st' = mput i r (recs st)" "names st' = mput (key r) i (names st)"
    and "ident r = i" "mget (recs st) i = None" "mget (names st) (key r) = None"
  shows "keeps_names recs names ident key st st'"
  unfolding keeps_names_def using assms by blast

lemma keeps_changed:
  assumes "mget (recs st) i = Some r" "recs st' = mput (ident r) r' (recs st)" "ident r' = ident r"
    and "move_name (names st) (ident r) (key r) (key r') = Some (names st')"
  shows "keeps_names recs names ident key st st'"
  unfolding keeps_names_def using assms by blast

locale named_store =
  fixes recs :: "'st \<Rightarrow> (string, 'r) gomap" and names :: "'st \<Rightarrow> (string, string) gomap"
    and ident key :: "'r \<Rightarrow> string" and step :: "'st \<Rightarrow> 'st \<Rightarrow> bool" and start :: 'st
  assumes start_empty: "recs start = [] \<and> names start = []"
    and step_keeps: "step st st' \<Longrightarrow> keeps_names recs names ident key st st'"
begin

definition named :: "'st \<Rightarrow> bool" where
  "named st = (mwf (recs st) \<and> (\<forall>i r. mget (recs st) i = Some r \<longrightarrow> ident r = i \<and> mget (names st) (key r) = Some i) \<and>
     (\<forall>k i. mget (names st) k = Some i \<longrightarrow> (\<exists>r. mget (recs st) i = Some r \<and> key r = k)))"

lemma namedD:
  assumes "named st"
  shows "mwf (recs st)" "mget (recs st) i = Some r \<Longrightarrow> ident r = i" "mget (recs st) i = Some r \<Longrightarrow> mget (names st) (key r) = Some i"
    "mget (names st) k = Some i \<Longrightarrow> \<exists>r. mget (recs st) i = Some r \<and> key r = k"
  using assms unfolding named_def by blast+

lemma namedI:
  assumes "mwf (recs st)" "\<And>i r. mget (recs st) i = Some r \<Longrightarrow> ident r = i \<and> mget (names st) (key r) = Some i"
    and "\<And>k i. mget (names st) k = Some i \<Longrightarrow> \<exists>r. mget (recs st) i = Some r \<and> key r = k"
  shows "named st"
  using assms unfolding named_def by blast

lemma named_create:
  assumes "named st" "mget (recs st) (ident r) = None" "mget (names st) (key r) = None"
    and "recs st' = mput (ident r) r (recs st)" "names st' = mput (key r) (ident r) (names st)"
  shows "named st'"
proof (rule namedI)
  show "mwf (recs st')" using namedD(1) [OF assms(1)] assms(4) by simp
next
  fix i q assume q: "mget (recs st') i = Some q"
  show "ident q = i \<and> mget (names st') (key q) = Some i"
  proof (cases "i = ident r")
    case True
    with q assms(4,5) show ?thesis by simp
  next
    case False
    with q assms(4) have o: "mget (recs st) i = Some q" by simp
    from namedD(2,3) [OF assms(1) o] assms(3,5) show ?thesis by auto
  qed
next
  fix k i assume k: "mget (names st') k = Some i"
  show "\<exists>q. mget (recs st') i = Some q \<and> key q = k"
  proof (cases "k = key r")
    case True
    with k assms(4,5) show ?thesis by simp
  next
    case False
    with k assms(5) have "mget (names st) k = Some i" by simp
    from namedD(4) [OF assms(1) this] assms(2,4) show ?thesis by auto
  qed
qed

lemma named_change:
  assumes "named st" "mget (recs st) i = Some r" "ident r' = ident r" "recs st' = mput (ident r) r' (recs st)"
    and "move_name (names st) (ident r) (key r) (key r') = Some (names st')"
  shows "named st'"
proof -
  have i: "ident r = i" "mget (names st) (key r) = Some (ident r)" using namedD(2,3) [OF assms(1,2)] by simp_all
  note get = move_name_get [OF assms(5) i(2)]
  show ?thesis
  proof (rule namedI)
    show "mwf (recs st')" using namedD(1) [OF assms(1)] assms(4) by simp
  next
    fix j q assume q: "mget (recs st') j = Some q"
    show "ident q = j \<and> mget (names st') (key q) = Some j"
    proof (cases "j = i")
      case True
      with q assms(3,4) i get(1) show ?thesis by auto
    next
      case False
      with q assms(4) i have o: "mget (recs st) j = Some q" by simp
      note oj = namedD(2,3) [OF assms(1) o]
      have "key q \<noteq> key r" "key q \<noteq> key r'" using oj(2) i get(2) False by auto
      with oj get(1) show ?thesis by simp
    qed
  next
    fix k j assume k: "mget (names st') k = Some j"
    show "\<exists>q. mget (recs st') j = Some q \<and> key q = k"
    proof (cases "k = key r'")
      case True
      with k get(1) assms(4) show ?thesis by auto
    next
      case False
      with k get(1) have o: "mget (names st) k = Some j" "k \<noteq> key r" by (auto split: if_splits)
      from namedD(4) [OF assms(1) o(1)] obtain q where q: "mget (recs st) j = Some q" "key q = k" by blast
      with o(2) assms(2) have "j \<noteq> i" by auto
      with q assms(4) i show ?thesis by simp
    qed
  qed
qed

lemma named_start: "named start"
  using start_empty by (simp add: named_def)

lemma named_step: "step st st' \<Longrightarrow> named st \<Longrightarrow> named st'"
proof -
  assume "step st st'" and n: "named st"
  from step_keeps [OF this(1), unfolded keeps_names_def] show "named st'"
  proof (elim disjE exE conjE)
    assume "recs st' = recs st" "names st' = names st"
    with n show ?thesis by (simp add: named_def)
  qed (rule named_create [OF n] named_change [OF n]; assumption)+
qed

lemma named_reachable: "step\<^sup>*\<^sup>* start st \<Longrightarrow> named st"
  by (induction rule: rtranclp_induct) (auto intro: named_start named_step)

lemma distinct_keys:
  assumes "step\<^sup>*\<^sup>* start st"
  shows "distinct (map key (filter P (map snd (recs st))))"
proof -
  note n = named_reachable [OF assms]
  have "distinct (map snd (recs st)) \<and> inj_on key (set (map snd (recs st)))"
  proof -
    have m: "(i, r) \<in> set (recs st) \<Longrightarrow> ident r = i \<and> mget (names st) (key r) = Some i" for i r
      using namedD(2,3) [OF n] namedD(1) [OF n] by (simp add: mem_mget)
    have e: "map ident (map snd (recs st)) = map fst (recs st)" using m by (auto intro!: map_cong)
    have d: "distinct (map ident (map snd (recs st)))" unfolding e using namedD(1) [OF n] by (simp add: mwf_def)
    have "inj_on key (set (map snd (recs st)))"
    proof (rule inj_onI)
      fix a b assume ab: "a \<in> set (map snd (recs st))" "b \<in> set (map snd (recs st))" "key a = key b"
      then obtain i j where ij: "(i, a) \<in> set (recs st)" "(j, b) \<in> set (recs st)" by auto
      from m [OF ij(1)] m [OF ij(2)] ab(3) have "i = j" by simp
      with ij namedD(1) [OF n] show "a = b" by (simp add: mem_mget)
    qed
    with d show ?thesis by (auto simp: distinct_map intro: inj_on_imageI2)
  qed
  then show ?thesis by (auto simp: distinct_map inj_on_def)
qed

text \<open>The names of the records of one scope, sorted or not, where the key of a record is made of its name.\<close>

lemma distinct_names:
  assumes "step\<^sup>*\<^sup>* start st" "\<And>r. P r \<Longrightarrow> key r = f (name r)"
  shows "distinct (map name (filter P (map snd (recs st))))"
proof -
  have "map key (filter P (map snd (recs st))) = map f (map name (filter P (map snd (recs st))))" using assms(2) by auto
  with distinct_keys [OF assms(1), of P] show ?thesis by (simp add: distinct_map del: map_map)
qed

lemma index_exact:
  assumes "step\<^sup>*\<^sup>* start st"
  shows "mget (names st) k = Some i \<longleftrightarrow> (\<exists>r. mget (recs st) i = Some r \<and> key r = k)"
  using namedD(3,4) [OF named_reachable [OF assms]] by blast

lemma one_record_per_key:
  assumes "step\<^sup>*\<^sup>* start st" "mget (recs st) i = Some r" "mget (recs st) j = Some q" "key r = key q"
  shows "i = j \<and> r = q"
proof -
  note n = named_reachable [OF assms(1)]
  from namedD(3) [OF n assms(2)] namedD(3) [OF n assms(3)] assms(4) have "i = j" by simp
  with assms(2,3) show ?thesis by simp
qed

end

end
