(* ===== verification/Governance.thy ===== *)
theory Governance
  imports NamedStore AgentNode Sha256 Uuid
begin

text \<open>
  Three governance services: deployment targets (\<^verbatim>\<open>internal/domain/deploymenttarget/service.go\<close>), DNS credentials
  (\<^verbatim>\<open>internal/domain/dnscredentials/service.go\<close>) and the settings of an environment
  (\<^verbatim>\<open>internal/domain/settings/service.go\<close>). Selectors are cloned as the labels of a node are. Clock readings and new
  identifiers are arguments.
\<close>

section \<open>Deployment targets\<close>

record target =
  tg_ID :: string
  tg_Scope :: scope
  tg_Name :: string
  tg_TargetType :: string
  tg_AgentID :: string
  tg_AgentSelector :: string_map
  tg_ConfigPath :: string
  tg_CertificatePath :: string
  tg_PrivateKeyPath :: string
  tg_KeystorePath :: string
  tg_Status :: string
  tg_CreatedAt :: gotime
  tg_UpdatedAt :: gotime

record target_input =
  ti_Name :: string
  ti_TargetType :: string
  ti_AgentID :: string
  ti_AgentSelector :: string_map
  ti_ConfigPath :: string
  ti_CertificatePath :: string
  ti_PrivateKeyPath :: string
  ti_KeystorePath :: string

record target_store =
  tgs_byID :: "(string, target) gomap"
  tgs_byEnvName :: "(string, string) gomap"

definition NewTargetService :: target_store where
  "NewTargetService = \<lparr>tgs_byID = [], tgs_byEnvName = []\<rparr>"

definition blank_path :: "string \<Rightarrow> string \<Rightarrow> gerror option \<Rightarrow> gerror option" where
  "blank_path path message rest = (if TrimSpace path = [] then Some (Err ErrValidation message) else rest)"

definition target_validateUpsert :: "target_input \<Rightarrow> gerror option" where
  "target_validateUpsert inp =
     (if TrimSpace (ti_Name inp) = [] then Some (Err ErrValidation ''name required'')
      else
      let targetType = normToken (ti_TargetType inp) in
      if targetType \<noteq> ''nginx'' \<and> targetType \<noteq> ''tomcat-jsse-pkcs12'' then Some (Err ErrValidation ''target_type invalid'')
      else if TrimSpace (ti_AgentID inp) = [] \<and> length (ti_AgentSelector inp) = 0 then Some (Err ErrValidation ''agent binding required'')
      else if targetType = ''nginx'' then
        blank_path (ti_ConfigPath inp) ''config_path required for nginx''
          (blank_path (ti_CertificatePath inp) ''certificate_path required for nginx''
            (blank_path (ti_PrivateKeyPath inp) ''private_key_path required for nginx'' None))
      else
        blank_path (ti_ConfigPath inp) ''config_path required for tomcat''
          (blank_path (ti_KeystorePath inp) ''keystore_path required for tomcat'' None))"

definition cloneTarget :: "target \<Rightarrow> target" where
  "cloneTarget t = t\<lparr>tg_AgentSelector := cloneStringMap (tg_AgentSelector t)\<rparr>"

definition target_List :: "target_store \<Rightarrow> scope \<Rightarrow> gerror + target list" where
  "target_List st sc =
     (case scope_Validate sc of
        Some e \<Rightarrow> Inl e
      | None \<Rightarrow> Inr (sort_key tg_Name (map cloneTarget (filter (\<lambda>t. scope_Equals (tg_Scope t) sc) (map snd (tgs_byID st))))))"

definition target_Get :: "target_store \<Rightarrow> scope \<Rightarrow> string \<Rightarrow> gerror + target" where
  "target_Get st sc i =
     (case scope_Validate sc of
        Some e \<Rightarrow> Inl e
      | None \<Rightarrow>
          if TrimSpace i = [] then Inl (Err ErrValidation ''deployment target id required'')
          else map_sum id cloneTarget (scoped_get ''deployment target'' tg_Scope (tgs_byID st) sc i))"

definition target_apply :: "target \<Rightarrow> target_input \<Rightarrow> gotime \<Rightarrow> target" where
  "target_apply t inp now = t\<lparr>tg_Name := TrimSpace (ti_Name inp), tg_TargetType := normToken (ti_TargetType inp),
     tg_AgentID := TrimSpace (ti_AgentID inp), tg_AgentSelector := cloneStringMap (ti_AgentSelector inp),
     tg_ConfigPath := TrimSpace (ti_ConfigPath inp), tg_CertificatePath := TrimSpace (ti_CertificatePath inp),
     tg_PrivateKeyPath := TrimSpace (ti_PrivateKeyPath inp), tg_KeystorePath := TrimSpace (ti_KeystorePath inp),
     tg_Status := ''active'', tg_UpdatedAt := now\<rparr>"

definition new_target :: "scope \<Rightarrow> target_input \<Rightarrow> gotime \<Rightarrow> string \<Rightarrow> target" where
  "new_target sc inp now newID = \<lparr>tg_ID = newID, tg_Scope = sc, tg_Name = TrimSpace (ti_Name inp), tg_TargetType = normToken (ti_TargetType inp),
     tg_AgentID = TrimSpace (ti_AgentID inp), tg_AgentSelector = cloneStringMap (ti_AgentSelector inp),
     tg_ConfigPath = TrimSpace (ti_ConfigPath inp), tg_CertificatePath = TrimSpace (ti_CertificatePath inp),
     tg_PrivateKeyPath = TrimSpace (ti_PrivateKeyPath inp), tg_KeystorePath = TrimSpace (ti_KeystorePath inp),
     tg_Status = ''active'', tg_CreatedAt = now, tg_UpdatedAt = now\<rparr>"

definition target_Create :: "target_store \<Rightarrow> scope \<Rightarrow> target_input \<Rightarrow> gotime \<Rightarrow> string \<Rightarrow> (gerror + target) \<times> target_store" where
  "target_Create st sc inp now newID =
     (case scope_Validate sc of
        Some e \<Rightarrow> (Inl e, st)
      | None \<Rightarrow>
          (case target_validateUpsert inp of
             Some e \<Rightarrow> (Inl e, st)
           | None \<Rightarrow>
               let t = new_target sc inp now newID; key = envKey sc (tg_Name t) in
               if mget (tgs_byEnvName st) key \<noteq> None
               then (Inl (Err ErrConflict ''deployment target already exists under environment''), st)
               else (Inr (cloneTarget t), st\<lparr>tgs_byID := mput (tg_ID t) t (tgs_byID st), tgs_byEnvName := mput key (tg_ID t) (tgs_byEnvName st)\<rparr>)))"

definition target_Update ::
  "target_store \<Rightarrow> scope \<Rightarrow> string \<Rightarrow> target_input \<Rightarrow> gotime \<Rightarrow> (gerror + target) \<times> target_store" where
  "target_Update st sc i inp now =
     (case scope_Validate sc of
        Some e \<Rightarrow> (Inl e, st)
      | None \<Rightarrow>
          (case target_validateUpsert inp of
             Some e \<Rightarrow> (Inl e, st)
           | None \<Rightarrow>
               (case scoped_get ''deployment target'' tg_Scope (tgs_byID st) sc i of
                  Inl e \<Rightarrow> (Inl e, st)
                | Inr t \<Rightarrow>
                    let t' = target_apply t inp now in
                    (case move_name (tgs_byEnvName st) (tg_ID t) (envKey (tg_Scope t) (tg_Name t)) (envKey (tg_Scope t) (tg_Name t')) of
                       None \<Rightarrow> (Inl (Err ErrConflict ''deployment target already exists under environment''), st)
                     | Some names \<Rightarrow> (Inr (cloneTarget t'), st\<lparr>tgs_byID := mput (tg_ID t) t' (tgs_byID st), tgs_byEnvName := names\<rparr>)))))"

definition target_Disable :: "target_store \<Rightarrow> scope \<Rightarrow> string \<Rightarrow> gotime \<Rightarrow> (gerror + target) \<times> target_store" where
  "target_Disable st sc i now =
     (case scope_Validate sc of
        Some e \<Rightarrow> (Inl e, st)
      | None \<Rightarrow>
          (case scoped_get ''deployment target'' tg_Scope (tgs_byID st) sc i of
             Inl e \<Rightarrow> (Inl e, st)
           | Inr t \<Rightarrow>
               let t' = t\<lparr>tg_Status := ''disabled'', tg_UpdatedAt := now\<rparr>
               in (Inr (cloneTarget t'), st\<lparr>tgs_byID := mput (tg_ID t) t' (tgs_byID st)\<rparr>)))"

section \<open>DNS credentials\<close>

record dns_credential =
  dc_ID :: string
  dc_Scope :: scope
  dc_ProviderType :: string
  dc_DisplayName :: string
  dc_AccessKeyID :: string
  dc_SecretDigest :: string
  dc_ScopeMode :: string
  dc_Status :: string
  dc_LastVerifiedAt :: "gotime option"
  dc_LastRotatedAt :: "gotime option"
  dc_CreatedAt :: gotime
  dc_UpdatedAt :: gotime

record credential_input =
  cri_DisplayName :: string
  cri_ProviderType :: string
  cri_AccessKeyID :: string
  cri_Secret :: string
  cri_ScopeMode :: string

record credential_ref =
  crf_ID :: string
  crf_Scope :: scope
  crf_ProviderType :: string
  crf_ScopeMode :: string
  crf_Status :: string

record credential_store =
  dcs_byID :: "(string, dns_credential) gomap"
  dcs_byEnvName :: "(string, string) gomap"

definition NewCredentialService :: credential_store where
  "NewCredentialService = \<lparr>dcs_byID = [], dcs_byEnvName = []\<rparr>"

definition normalizeScopeMode :: "string \<Rightarrow> string" where
  "normalizeScopeMode value = (let normalized = normToken value in if normalized = [] then ''environment'' else normalized)"

definition credential_digestSecret :: "string \<Rightarrow> string" where
  "credential_digestSecret secret = hex_bytes (sha256 (string_bytes secret))"

definition credential_validateUpsert :: "credential_input \<Rightarrow> gerror option" where
  "credential_validateUpsert inp =
     (if TrimSpace (cri_DisplayName inp) = [] then Some (Err ErrValidation ''display_name required'')
      else if normToken (cri_ProviderType inp) \<noteq> ''alidns'' then Some (Err ErrValidation ''unsupported provider_type'')
      else if TrimSpace (cri_AccessKeyID inp) = [] then Some (Err ErrValidation ''access_key_id required'')
      else if TrimSpace (cri_Secret inp) = [] then Some (Err ErrValidation ''secret required'')
      else if normalizeScopeMode (cri_ScopeMode inp) \<noteq> ''environment'' \<and> normalizeScopeMode (cri_ScopeMode inp) \<noteq> ''domain''
      then Some (Err ErrValidation ''unsupported scope_mode'')
      else None)"

definition credential_List :: "credential_store \<Rightarrow> scope \<Rightarrow> gerror + dns_credential list" where
  "credential_List st sc =
     (case scope_Validate sc of
        Some e \<Rightarrow> Inl e
      | None \<Rightarrow> Inr (sort_key dc_DisplayName (filter (\<lambda>c. scope_Equals (dc_Scope c) sc) (map snd (dcs_byID st)))))"

definition credential_Get :: "credential_store \<Rightarrow> scope \<Rightarrow> string \<Rightarrow> gerror + dns_credential" where
  "credential_Get st sc i =
     (case scope_Validate sc of
        Some e \<Rightarrow> Inl e
      | None \<Rightarrow>
          if TrimSpace i = [] then Inl (Err ErrValidation ''credential id required'')
          else scoped_get ''credential'' dc_Scope (dcs_byID st) sc i)"

definition LookupAvailable :: "credential_store \<Rightarrow> scope \<Rightarrow> string \<Rightarrow> gerror + credential_ref" where
  "LookupAvailable st sc i =
     (case credential_Get st sc i of
        Inl e \<Rightarrow> Inl e
      | Inr c \<Rightarrow>
          if dc_Status c \<noteq> ''active'' then Inl (Err ErrUnavailable (''credential '' @ i @ '' status '' @ dc_Status c))
          else Inr \<lparr>crf_ID = dc_ID c, crf_Scope = dc_Scope c, crf_ProviderType = dc_ProviderType c, crf_ScopeMode = dc_ScopeMode c,
            crf_Status = dc_Status c\<rparr>)"

definition new_credential :: "scope \<Rightarrow> credential_input \<Rightarrow> gotime \<Rightarrow> string \<Rightarrow> dns_credential" where
  "new_credential sc inp now newID = \<lparr>dc_ID = newID, dc_Scope = sc, dc_ProviderType = normToken (cri_ProviderType inp),
     dc_DisplayName = TrimSpace (cri_DisplayName inp), dc_AccessKeyID = TrimSpace (cri_AccessKeyID inp),
     dc_SecretDigest = credential_digestSecret (cri_Secret inp), dc_ScopeMode = normalizeScopeMode (cri_ScopeMode inp),
     dc_Status = ''active'', dc_LastVerifiedAt = None, dc_LastRotatedAt = None, dc_CreatedAt = now, dc_UpdatedAt = now\<rparr>"

definition credential_Create ::
  "credential_store \<Rightarrow> scope \<Rightarrow> credential_input \<Rightarrow> gotime \<Rightarrow> string \<Rightarrow> (gerror + dns_credential) \<times> credential_store" where
  "credential_Create st sc inp now newID =
     (case scope_Validate sc of
        Some e \<Rightarrow> (Inl e, st)
      | None \<Rightarrow>
          (case credential_validateUpsert inp of
             Some e \<Rightarrow> (Inl e, st)
           | None \<Rightarrow>
               let c = new_credential sc inp now newID; key = envKey sc (dc_DisplayName c) in
               if mget (dcs_byEnvName st) key \<noteq> None
               then (Inl (Err ErrConflict ''credential display_name already exists under environment''), st)
               else (Inr c, st\<lparr>dcs_byID := mput (dc_ID c) c (dcs_byID st), dcs_byEnvName := mput key (dc_ID c) (dcs_byEnvName st)\<rparr>)))"

definition credential_apply :: "dns_credential \<Rightarrow> credential_input \<Rightarrow> gotime \<Rightarrow> dns_credential" where
  "credential_apply c inp now = c\<lparr>dc_DisplayName := TrimSpace (cri_DisplayName inp), dc_ProviderType := normToken (cri_ProviderType inp),
     dc_AccessKeyID := TrimSpace (cri_AccessKeyID inp), dc_SecretDigest := credential_digestSecret (cri_Secret inp),
     dc_ScopeMode := normalizeScopeMode (cri_ScopeMode inp), dc_Status := ''active'', dc_UpdatedAt := now\<rparr>"

definition credential_Update ::
  "credential_store \<Rightarrow> scope \<Rightarrow> string \<Rightarrow> credential_input \<Rightarrow> gotime \<Rightarrow> (gerror + dns_credential) \<times> credential_store" where
  "credential_Update st sc i inp now =
     (case scope_Validate sc of
        Some e \<Rightarrow> (Inl e, st)
      | None \<Rightarrow>
          (case credential_validateUpsert inp of
             Some e \<Rightarrow> (Inl e, st)
           | None \<Rightarrow>
               (case scoped_get ''credential'' dc_Scope (dcs_byID st) sc i of
                  Inl e \<Rightarrow> (Inl e, st)
                | Inr c \<Rightarrow>
                    let c' = credential_apply c inp now in
                    (case move_name (dcs_byEnvName st) (dc_ID c) (envKey (dc_Scope c) (dc_DisplayName c)) (envKey (dc_Scope c) (dc_DisplayName c')) of
                       None \<Rightarrow> (Inl (Err ErrConflict ''credential display_name already exists under environment''), st)
                     | Some names \<Rightarrow> (Inr c', st\<lparr>dcs_byID := mput (dc_ID c) c' (dcs_byID st), dcs_byEnvName := names\<rparr>)))))"

definition credential_Rotate :: "credential_store \<Rightarrow> scope \<Rightarrow> string \<Rightarrow> gotime \<Rightarrow> (gerror + dns_credential) \<times> credential_store" where
  "credential_Rotate st sc i now =
     (case scoped_get ''credential'' dc_Scope (dcs_byID st) sc i of
        Inl e \<Rightarrow> (Inl e, st)
      | Inr c \<Rightarrow>
          let c' = c\<lparr>dc_LastRotatedAt := Some now, dc_Status := ''active'', dc_UpdatedAt := now\<rparr>
          in (Inr c', st\<lparr>dcs_byID := mput (dc_ID c) c' (dcs_byID st)\<rparr>))"

section \<open>Settings\<close>

record renewal_settings =
  rn_DaysBeforeExpiry :: int
  rn_ScanIntervalMinute :: int
  rn_UpdatedAt :: gotime

record security_settings =
  se_EnforceStrongPassword :: bool
  se_PasswordRotationDays :: int
  se_MaxSessionCount :: int
  se_UpdatedAt :: gotime

text \<open>A field that is not given is \<open>None\<close>.\<close>

record security_input =
  sei_EnforceStrongPassword :: "bool option"
  sei_PasswordRotationDays :: "int option"
  sei_MaxSessionCount :: "int option"

record settings_store =
  stt_renewalByScope :: "(string, renewal_settings) gomap"
  stt_securityByScope :: "(string, security_settings) gomap"

definition NewSettingsService :: settings_store where
  "NewSettingsService = \<lparr>stt_renewalByScope = [], stt_securityByScope = []\<rparr>"

definition default_renewal :: renewal_settings where
  "default_renewal = \<lparr>rn_DaysBeforeExpiry = 30, rn_ScanIntervalMinute = 60, rn_UpdatedAt = zeroTime\<rparr>"

definition default_security :: security_settings where
  "default_security = \<lparr>se_EnforceStrongPassword = True, se_PasswordRotationDays = 90, se_MaxSessionCount = 5, se_UpdatedAt = zeroTime\<rparr>"

definition GetRenewalWindowSettings :: "settings_store \<Rightarrow> scope \<Rightarrow> gerror + renewal_settings" where
  "GetRenewalWindowSettings st sc =
     (case scope_Validate sc of
        Some e \<Rightarrow> Inl e
      | None \<Rightarrow> Inr (case mget (stt_renewalByScope st) (EnvironmentKey sc) of Some r \<Rightarrow> r | None \<Rightarrow> default_renewal))"

definition validateRenewalInput :: "int \<Rightarrow> int \<Rightarrow> gerror option" where
  "validateRenewalInput days interval =
     (if days < 1 then Some (Err ErrValidation ''days_before_expiry must be >= 1'')
      else if interval < 1 then Some (Err ErrValidation ''scan_interval_minutes must be >= 1'')
      else if 365 < days then Some (Err ErrValidation ''days_before_expiry must be <= 365'')
      else None)"

definition UpdateRenewalWindowSettings ::
  "settings_store \<Rightarrow> scope \<Rightarrow> int \<Rightarrow> int \<Rightarrow> gotime \<Rightarrow> (gerror + renewal_settings) \<times> settings_store" where
  "UpdateRenewalWindowSettings st sc days interval now =
     (case scope_Validate sc of
        Some e \<Rightarrow> (Inl e, st)
      | None \<Rightarrow>
          (case validateRenewalInput days interval of
             Some e \<Rightarrow> (Inl e, st)
           | None \<Rightarrow>
               let updated = \<lparr>rn_DaysBeforeExpiry = days, rn_ScanIntervalMinute = interval, rn_UpdatedAt = now\<rparr>
               in (Inr updated, st\<lparr>stt_renewalByScope := mput (EnvironmentKey sc) updated (stt_renewalByScope st)\<rparr>)))"

definition GetSecuritySettings :: "settings_store \<Rightarrow> scope \<Rightarrow> gerror + security_settings" where
  "GetSecuritySettings st sc =
     (case scope_Validate sc of
        Some e \<Rightarrow> Inl e
      | None \<Rightarrow> Inr (case mget (stt_securityByScope st) (EnvironmentKey sc) of Some s \<Rightarrow> s | None \<Rightarrow> default_security))"

definition below_one :: "int option \<Rightarrow> bool" where
  "below_one v = (case v of None \<Rightarrow> False | Some n \<Rightarrow> n < 1)"

definition validateSecurityInput :: "security_input \<Rightarrow> gerror option" where
  "validateSecurityInput inp =
     (if below_one (sei_PasswordRotationDays inp) then Some (Err ErrValidation ''password_rotation_days must be >= 1'')
      else if below_one (sei_MaxSessionCount inp) then Some (Err ErrValidation ''max_session_count must be >= 1'')
      else if sei_EnforceStrongPassword inp = None \<and> sei_PasswordRotationDays inp = None \<and> sei_MaxSessionCount inp = None
      then Some (Err ErrValidation ''at least one security setting must be provided'')
      else None)"

definition security_patch :: "security_settings \<Rightarrow> security_input \<Rightarrow> gotime \<Rightarrow> security_settings" where
  "security_patch current inp now = current\<lparr>
     se_EnforceStrongPassword := (case sei_EnforceStrongPassword inp of Some b \<Rightarrow> b | None \<Rightarrow> se_EnforceStrongPassword current),
     se_PasswordRotationDays := (case sei_PasswordRotationDays inp of Some n \<Rightarrow> n | None \<Rightarrow> se_PasswordRotationDays current),
     se_MaxSessionCount := (case sei_MaxSessionCount inp of Some n \<Rightarrow> n | None \<Rightarrow> se_MaxSessionCount current),
     se_UpdatedAt := now\<rparr>"

text \<open>The lock is held for the read and for the write, not between them: what was read is patched, and the result is
  written over whatever is there by then.\<close>

definition read_security :: "settings_store \<Rightarrow> scope \<Rightarrow> security_input \<Rightarrow> gotime \<Rightarrow> gerror + security_settings" where
  "read_security st sc inp now =
     (case scope_Validate sc of
        Some e \<Rightarrow> Inl e
      | None \<Rightarrow>
          (case validateSecurityInput inp of
             Some e \<Rightarrow> Inl e
           | None \<Rightarrow> (case GetSecuritySettings st sc of Inl e \<Rightarrow> Inl e | Inr current \<Rightarrow> Inr (security_patch current inp now))))"

definition write_security :: "settings_store \<Rightarrow> scope \<Rightarrow> security_settings \<Rightarrow> settings_store" where
  "write_security st sc current = st\<lparr>stt_securityByScope := mput (EnvironmentKey sc) current (stt_securityByScope st)\<rparr>"

definition UpdateSecuritySettings ::
  "settings_store \<Rightarrow> scope \<Rightarrow> security_input \<Rightarrow> gotime \<Rightarrow> (gerror + security_settings) \<times> settings_store" where
  "UpdateSecuritySettings st sc inp now =
     (case read_security st sc inp now of
        Inl e \<Rightarrow> (Inl e, st)
      | Inr current \<Rightarrow> (Inr current, write_security st sc current))"

end
