(* ===== verification/AuditLog.thy ===== *)
theory AuditLog
  imports Resource Sha256 Uuid
begin

text \<open>
  The audit trail and what it sends out (\<^verbatim>\<open>internal/domain/audit/service.go\<close>): events, evidence, webhook endpoints, the
  notifications an event fans out to them, their delivery with retries, and export records. The state is the record
  of the maps of the service. A delivery is two steps under the lock with the call of the deliverer between them; \<open>'w\<close>
  is what the deliverer acts on. Clock readings and new identifiers are arguments, and so is the parser of the URLs:
  the scheme, the host and the normalized text of a URL it accepts. The copies of maps and slices a caller gets are
  the values themselves here.
\<close>

section \<open>Data\<close>

type_synonym details = "(string, string) gomap"

record audit_event =
  ae_ID :: string
  ae_Scope :: scope
  ae_ActorType :: string
  ae_ActorID :: string
  ae_Action :: string
  ae_ResourceType :: string
  ae_ResourceID :: string
  ae_RequestID :: string
  ae_TraceID :: string
  ae_Detail :: details
  ae_OccurredAt :: gotime
  ae_CreatedAt :: gotime
  ae_UpdatedAt :: gotime

record event_filter =
  ef_ActorID :: string
  ef_Action :: string
  ef_ResourceType :: string
  ef_ResourceID :: string
  ef_StartTime :: "gotime option"
  ef_EndTime :: "gotime option"

record event_input =
  ei_ActorType :: string
  ei_ActorID :: string
  ei_Action :: string
  ei_ResourceType :: string
  ei_ResourceID :: string
  ei_RequestID :: string
  ei_TraceID :: string
  ei_Detail :: details
  ei_OccurredAt :: gotime

record evidence_record =
  er_ID :: string
  er_Scope :: scope
  er_ResourceType :: string
  er_ResourceID :: string
  er_EvidenceType :: string
  er_StorageRef :: string
  er_DigestSHA256 :: string
  er_Metadata :: details
  er_Status :: string
  er_CreatedAt :: gotime
  er_UpdatedAt :: gotime

record evidence_input =
  vi_ResourceType :: string
  vi_ResourceID :: string
  vi_EvidenceType :: string
  vi_StorageRef :: string
  vi_DigestSHA256 :: string
  vi_Metadata :: details

record webhook_endpoint =
  wh_ID :: string
  wh_Scope :: scope
  wh_Name :: string
  wh_URL :: string
  wh_SecretDigest :: string
  wh_EventTypes :: "string list"
  wh_Status :: string
  wh_LastTestedAt :: "gotime option"
  wh_CreatedAt :: gotime
  wh_UpdatedAt :: gotime

record webhook_input =
  wi_Name :: string
  wi_URL :: string
  wi_Secret :: string
  wi_EventTypes :: "string list"
  wi_Enabled :: bool

record notification_event =
  ne_ID :: string
  ne_Scope :: scope
  ne_WebhookEndpointID :: string
  ne_EventType :: string
  ne_ResourceType :: string
  ne_ResourceID :: string
  ne_Payload :: details
  ne_Status :: string
  ne_AttemptCount :: int
  ne_LastErrorCode :: string
  ne_LastErrorMessage :: string
  ne_NextRetryAt :: "gotime option"
  ne_DeliveredAt :: "gotime option"
  ne_CreatedAt :: gotime
  ne_UpdatedAt :: gotime

record export_record =
  xr_ID :: string
  xr_Scope :: scope
  xr_ExportNo :: string
  xr_ExportType :: string
  xr_ResourceType :: string
  xr_RequestedBy :: string
  xr_Format :: string
  xr_Filters :: details
  xr_Status :: string
  xr_StorageRef :: string
  xr_ErrorCode :: string
  xr_ErrorMessage :: string
  xr_FinishedAt :: "gotime option"
  xr_CreatedAt :: gotime
  xr_UpdatedAt :: gotime

record export_input =
  xi_ExportType :: string
  xi_ResourceType :: string
  xi_RequestedBy :: string
  xi_Format :: string
  xi_Filters :: details
  xi_Status :: string

record audit_store =
  ad_eventsByID :: "(string, audit_event) gomap"
  ad_evidenceByID :: "(string, evidence_record) gomap"
  ad_webhooksByID :: "(string, webhook_endpoint) gomap"
  ad_webhookNameByEnvScope :: "(string, string) gomap"
  ad_notificationsByID :: "(string, notification_event) gomap"
  ad_exportsByID :: "(string, export_record) gomap"

definition NewAuditService :: audit_store where
  "NewAuditService = \<lparr>ad_eventsByID = [], ad_evidenceByID = [], ad_webhooksByID = [], ad_webhookNameByEnvScope = [],
     ad_notificationsByID = [], ad_exportsByID = []\<rparr>"

definition maxDeliveryAttempts :: int where
  "maxDeliveryAttempts = 3"

definition retryBaseInterval :: duration where
  "retryBaseInterval = 5 * 60 * 1000000000"

section \<open>Validation\<close>

definition required :: "string \<Rightarrow> string \<Rightarrow> gerror option" where
  "required what value = (if TrimSpace value = [] then Some (Err ErrValidation (what @ '' required'')) else None)"

fun first_error :: "gerror option list \<Rightarrow> gerror option" where
  "first_error [] = None"
| "first_error (Some e # es) = Some e"
| "first_error (None # es) = first_error es"

definition buildEvent :: "scope \<Rightarrow> event_input \<Rightarrow> gotime \<Rightarrow> gotime \<Rightarrow> string \<Rightarrow> gerror + audit_event" where
  "buildEvent sc inp occurredNow createdAt newID =
     (let actorType = (if TrimSpace (ei_ActorType inp) = [] then ''system'' else TrimSpace (ei_ActorType inp)) in
      if actorType \<notin> set [''user'', ''system'', ''agent'', ''api_key''] then Inl (Err ErrValidation ''unsupported actor_type'')
      else (case first_error [required ''actor_id'' (ei_ActorID inp), required ''action'' (ei_Action inp),
                required ''resource_type'' (ei_ResourceType inp)] of
        Some e \<Rightarrow> Inl e
      | None \<Rightarrow> Inr \<lparr>ae_ID = newID, ae_Scope = sc, ae_ActorType = actorType, ae_ActorID = TrimSpace (ei_ActorID inp),
          ae_Action = TrimSpace (ei_Action inp), ae_ResourceType = TrimSpace (ei_ResourceType inp),
          ae_ResourceID = TrimSpace (ei_ResourceID inp), ae_RequestID = TrimSpace (ei_RequestID inp),
          ae_TraceID = TrimSpace (ei_TraceID inp), ae_Detail = ei_Detail inp,
          ae_OccurredAt = (if IsZero (ei_OccurredAt inp) then occurredNow else ei_OccurredAt inp),
          ae_CreatedAt = createdAt, ae_UpdatedAt = createdAt\<rparr>))"

definition validateEventFilter :: "event_filter \<Rightarrow> gerror option" where
  "validateEventFilter f =
     (case (ef_StartTime f, ef_EndTime f) of
        (Some s, Some e) \<Rightarrow> if e < s then Some (Err ErrValidation ''end_time before start_time'') else None
      | _ \<Rightarrow> None)"

definition wanted :: "string \<Rightarrow> string \<Rightarrow> bool" where
  "wanted pattern value = (TrimSpace pattern = [] \<or> value = TrimSpace pattern)"

definition filterMatchesEvent :: "event_filter \<Rightarrow> audit_event \<Rightarrow> bool" where
  "filterMatchesEvent f e =
     (wanted (ef_ActorID f) (ae_ActorID e) \<and> wanted (ef_Action f) (ae_Action e) \<and>
      wanted (ef_ResourceType f) (ae_ResourceType e) \<and> wanted (ef_ResourceID f) (ae_ResourceID e) \<and>
      (case ef_StartTime f of None \<Rightarrow> True | Some s \<Rightarrow> \<not> ae_OccurredAt e < s) \<and>
      (case ef_EndTime f of None \<Rightarrow> True | Some t \<Rightarrow> \<not> t < ae_OccurredAt e))"

definition validateEvidenceInput :: "evidence_input \<Rightarrow> gerror option" where
  "validateEvidenceInput inp = first_error [required ''resource_type'' (vi_ResourceType inp), required ''resource_id'' (vi_ResourceID inp),
     required ''evidence_type'' (vi_EvidenceType inp), required ''storage_ref'' (vi_StorageRef inp),
     required ''digest_sha256'' (vi_DigestSHA256 inp)]"

fun normalizeEventTypes_loop :: "string list \<Rightarrow> string list \<Rightarrow> gerror + string list" where
  "normalizeEventTypes_loop [] result = Inr result"
| "normalizeEventTypes_loop (item # items) result =
     (if TrimSpace item = [] then Inl (Err ErrValidation ''event_types contains empty entry'')
      else if TrimSpace item \<in> set result then normalizeEventTypes_loop items result
      else normalizeEventTypes_loop items (result @ [TrimSpace item]))"

definition normalizeEventTypes :: "string list \<Rightarrow> gerror + string list" where
  "normalizeEventTypes items =
     (if items = [] then Inl (Err ErrValidation ''event_types required'')
      else map_sum id sort (normalizeEventTypes_loop items []))"

record normalized_webhook =
  nw_Name :: string
  nw_URL :: string
  nw_Secret :: string
  nw_EventTypes :: "string list"
  nw_Status :: string

definition normalizeWebhookInput ::
  "(string \<Rightarrow> (string \<times> string \<times> string) option) \<Rightarrow> webhook_input \<Rightarrow> bool \<Rightarrow> gerror + normalized_webhook" where
  "normalizeWebhookInput parse_url inp secretRequired =
     (let name = TrimSpace (wi_Name inp); rawURL = TrimSpace (wi_URL inp) in
      if name = [] then Inl (Err ErrValidation ''name required'')
      else if rawURL = [] then Inl (Err ErrValidation ''url required'')
      else (case parse_url rawURL of
        None \<Rightarrow> Inl (Err ErrValidation ''invalid url'')
      | Some (scheme, host, text) \<Rightarrow>
          if host = [] then Inl (Err ErrValidation ''invalid url'')
          else if scheme \<noteq> ''http'' \<and> scheme \<noteq> ''https'' then Inl (Err ErrValidation ''unsupported url scheme'')
          else if secretRequired \<and> TrimSpace (wi_Secret inp) = [] then Inl (Err ErrValidation ''secret required'')
          else (case normalizeEventTypes (wi_EventTypes inp) of
            Inl e \<Rightarrow> Inl e
          | Inr eventTypes \<Rightarrow> Inr \<lparr>nw_Name = name, nw_URL = text, nw_Secret = TrimSpace (wi_Secret inp), nw_EventTypes = eventTypes,
              nw_Status = (if wi_Enabled inp then ''active'' else ''disabled'')\<rparr>)))"

fun matchesEventType :: "string list \<Rightarrow> string \<Rightarrow> bool" where
  "matchesEventType [] eventType = False"
| "matchesEventType (candidate # rest) eventType =
     (if candidate = ''*'' then True
      else if HasSuffix candidate ''*'' then
        (if HasPrefix eventType (TrimSuffix candidate ''*'') then True else matchesEventType rest eventType)
      else if candidate = eventType then True
      else matchesEventType rest eventType)"

definition validateExportInput :: "export_input \<Rightarrow> gerror option" where
  "validateExportInput inp =
     (if TrimSpace (xi_ExportType inp) \<notin> set [''audit'', ''evidence'', ''report''] then Some (Err ErrValidation ''unsupported export_type'')
      else if TrimSpace (xi_Format inp) \<notin> set [''csv'', ''pdf'', ''json''] then Some (Err ErrValidation ''unsupported format'')
      else if TrimSpace (xi_Status inp) \<notin> set [''pending'', ''running'', ''succeeded'', ''failed'', ''expired'']
      then Some (Err ErrValidation ''unsupported status'')
      else None)"

definition digestSecret :: "string \<Rightarrow> string" where
  "digestSecret secret = (if TrimSpace secret = [] then [] else hex_bytes (sha256 (string_bytes secret)))"

section \<open>Deliveries\<close>

type_synonym 'w deliverer = "webhook_endpoint \<Rightarrow> notification_event \<Rightarrow> 'w \<Rightarrow> string option \<times> 'w"

text \<open>The first half of \<^verbatim>\<open>processNotification\<close>, up to the call of the deliverer.\<close>

definition begin_delivery ::
  "audit_store \<Rightarrow> string \<Rightarrow> gotime \<Rightarrow> gerror + webhook_endpoint \<times> notification_event \<times> audit_store" where
  "begin_delivery st i now =
     (case mget (ad_notificationsByID st) i of
        None \<Rightarrow> Inl (Err ErrNotFound (''notification event '' @ i))
      | Some n \<Rightarrow>
          (case mget (ad_webhooksByID st) (ne_WebhookEndpointID n) of
             None \<Rightarrow> Inl (Err ErrNotFound (''webhook endpoint '' @ ne_WebhookEndpointID n))
           | Some ep \<Rightarrow>
               if \<not> scope_Equals (ne_Scope n) (wh_Scope ep) then Inl (Err ErrScopeMismatch ''notification endpoint scope mismatch'')
               else
                 let n' = n\<lparr>ne_Status := ''delivering'', ne_AttemptCount := ne_AttemptCount n + 1, ne_UpdatedAt := now, ne_NextRetryAt := None\<rparr>
                 in Inr (ep, n', st\<lparr>ad_notificationsByID := mput (ne_ID n') n' (ad_notificationsByID st)\<rparr>)))"

definition zero_notification :: notification_event where
  "zero_notification = \<lparr>ne_ID = [], ne_Scope = \<lparr>TenantID = [], ProjectID = [], EnvironmentID = []\<rparr>, ne_WebhookEndpointID = [],
     ne_EventType = [], ne_ResourceType = [], ne_ResourceID = [], ne_Payload = [], ne_Status = [], ne_AttemptCount = 0,
     ne_LastErrorCode = [], ne_LastErrorMessage = [], ne_NextRetryAt = None, ne_DeliveredAt = None,
     ne_CreatedAt = zeroTime, ne_UpdatedAt = zeroTime\<rparr>"

definition delivered :: "notification_event \<Rightarrow> string option \<Rightarrow> gotime \<Rightarrow> notification_event" where
  "delivered current err now =
     (case err of
        None \<Rightarrow> current\<lparr>ne_UpdatedAt := now, ne_Status := ''succeeded'', ne_LastErrorCode := [], ne_LastErrorMessage := [],
          ne_DeliveredAt := Some now\<rparr>
      | Some e \<Rightarrow>
          let failed = current\<lparr>ne_UpdatedAt := now, ne_LastErrorCode := ''WEBHOOK_DELIVERY_FAILED'', ne_LastErrorMessage := e\<rparr> in
          if maxDeliveryAttempts \<le> ne_AttemptCount failed then failed\<lparr>ne_Status := ''failed''\<rparr>
          else failed\<lparr>ne_Status := ''retry'', ne_NextRetryAt := Some (now + ne_AttemptCount failed * retryBaseInterval)\<rparr>)"

text \<open>The second half: the outcome is written to the record as it is by now.\<close>

definition finish_delivery :: "audit_store \<Rightarrow> string \<Rightarrow> string option \<Rightarrow> gotime \<Rightarrow> audit_store" where
  "finish_delivery st i err now =
     (let current = (case mget (ad_notificationsByID st) i of None \<Rightarrow> zero_notification | Some n \<Rightarrow> n); n = delivered current err now
      in st\<lparr>ad_notificationsByID := mput (ne_ID n) n (ad_notificationsByID st)\<rparr>)"

definition processNotification ::
  "'w deliverer \<Rightarrow> audit_store \<Rightarrow> string \<Rightarrow> gotime \<Rightarrow> gotime \<Rightarrow> 'w \<Rightarrow> gerror option \<times> audit_store \<times> 'w" where
  "processNotification deliver st i now1 now2 w =
     (case begin_delivery st i now1 of
        Inl e \<Rightarrow> (Some e, st, w)
      | Inr (ep, n, st1) \<Rightarrow> (case deliver ep n w of (err, w') \<Rightarrow> (None, finish_delivery st1 (ne_ID n) err now2, w')))"

text \<open>The loops over identifiers: the errors of the first are dropped, the second stops at one. \<open>clock k\<close> is the \<open>k\<close>-th
  reading of the clock.\<close>

fun deliver_all :: "'w deliverer \<Rightarrow> string list \<Rightarrow> (nat \<Rightarrow> gotime) \<Rightarrow> nat \<Rightarrow> audit_store \<Rightarrow> 'w \<Rightarrow> audit_store \<times> 'w" where
  "deliver_all deliver [] clock k st w = (st, w)"
| "deliver_all deliver (i # is) clock k st w =
     (case processNotification deliver st i (clock k) (clock (k + 1)) w of
        (_, st', w') \<Rightarrow> deliver_all deliver is clock (k + 2) st' w')"

fun process_due ::
  "'w deliverer \<Rightarrow> string list \<Rightarrow> (nat \<Rightarrow> gotime) \<Rightarrow> nat \<Rightarrow> audit_store \<Rightarrow> 'w \<Rightarrow> gerror option \<times> audit_store \<times> 'w" where
  "process_due deliver [] clock k st w = (None, st, w)"
| "process_due deliver (i # is) clock k st w =
     (case processNotification deliver st i (clock k) (clock (k + 1)) w of
        (Some e, st', w') \<Rightarrow> (Some e, st', w')
      | (None, st', w') \<Rightarrow> process_due deliver is clock (k + 2) st' w')"

definition is_due :: "notification_event \<Rightarrow> gotime \<Rightarrow> bool" where
  "is_due n now =
     (ne_Status n = ''pending'' \<or>
      ne_Status n = ''retry'' \<and> (case ne_NextRetryAt n of None \<Rightarrow> False | Some t \<Rightarrow> \<not> now < t))"

definition ProcessDueNotifications :: "'w deliverer \<Rightarrow> audit_store \<Rightarrow> (nat \<Rightarrow> gotime) \<Rightarrow> 'w \<Rightarrow> gerror option \<times> audit_store \<times> 'w" where
  "ProcessDueNotifications deliver st clock w =
     process_due deliver (map fst (filter (\<lambda>(i, n). is_due n (clock 0)) (ad_notificationsByID st))) clock 1 st w"

text \<open>The deliverer of the service: it fails for every URL with the word fail in it.\<close>

definition stub_Deliver :: "'w deliverer" where
  "stub_Deliver ep n w = ((if Contains (wh_URL ep) ''fail'' then Some (''stub delivery failure for '' @ wh_URL ep) else None), w)"

section \<open>Events\<close>

definition new_notification :: "audit_event \<Rightarrow> webhook_endpoint \<Rightarrow> string \<Rightarrow> notification_event" where
  "new_notification ev ep newID = \<lparr>ne_ID = newID, ne_Scope = ae_Scope ev, ne_WebhookEndpointID = wh_ID ep, ne_EventType = ae_Action ev,
     ne_ResourceType = ae_ResourceType ev, ne_ResourceID = ae_ResourceID ev,
     ne_Payload = [(''audit_event_id'', ae_ID ev), (''actor_id'', ae_ActorID ev), (''action'', ae_Action ev),
       (''resource_type'', ae_ResourceType ev), (''resource_id'', ae_ResourceID ev)],
     ne_Status = ''pending'', ne_AttemptCount = 0, ne_LastErrorCode = [], ne_LastErrorMessage = [], ne_NextRetryAt = None,
     ne_DeliveredAt = None, ne_CreatedAt = ae_CreatedAt ev, ne_UpdatedAt = ae_CreatedAt ev\<rparr>"

definition subscribed :: "audit_event \<Rightarrow> webhook_endpoint \<Rightarrow> bool" where
  "subscribed ev ep =
     (\<not> (\<not> scope_Equals (wh_Scope ep) (ae_Scope ev) \<or> wh_Status ep \<noteq> ''active'') \<and> matchesEventType (wh_EventTypes ep) (ae_Action ev))"

text \<open>The part under the lock: the event is stored and a notification for every endpoint that wants it. \<open>newIDs k\<close> is the
  identifier drawn for the \<open>k\<close>-th notification.\<close>

definition notifications_for :: "audit_event \<Rightarrow> webhook_endpoint list \<Rightarrow> (nat \<Rightarrow> string) \<Rightarrow> notification_event list" where
  "notifications_for ev eps newIDs = map (\<lambda>(k, ep). new_notification ev ep (newIDs k)) (enumerate 0 (filter (subscribed ev) eps))"

definition store_event :: "audit_store \<Rightarrow> audit_event \<Rightarrow> (nat \<Rightarrow> string) \<Rightarrow> string list \<times> audit_store" where
  "store_event st ev newIDs =
     (let ns = notifications_for ev (map snd (ad_webhooksByID st)) newIDs in
      (map ne_ID ns, st\<lparr>ad_eventsByID := mput (ae_ID ev) ev (ad_eventsByID st),
         ad_notificationsByID := fold (\<lambda>n. mput (ne_ID n) n) ns (ad_notificationsByID st)\<rparr>))"

definition RecordEvent ::
  "'w deliverer \<Rightarrow> audit_store \<Rightarrow> scope \<Rightarrow> event_input \<Rightarrow> (nat \<Rightarrow> gotime) \<Rightarrow> string \<Rightarrow> (nat \<Rightarrow> string) \<Rightarrow> 'w
     \<Rightarrow> (gerror + audit_event) \<times> audit_store \<times> 'w" where
  "RecordEvent deliver st sc inp clock newID newIDs w =
     (case scope_Validate sc of
        Some e \<Rightarrow> (Inl e, st, w)
      | None \<Rightarrow>
          (case buildEvent sc inp (clock 0) (clock 1) newID of
             Inl e \<Rightarrow> (Inl e, st, w)
           | Inr ev \<Rightarrow>
               (case store_event st ev newIDs of (ids, st1) \<Rightarrow>
                (case deliver_all deliver ids clock 2 st1 w of (st2, w') \<Rightarrow> (Inr ev, st2, w')))))"

definition audit_ListEvents :: "audit_store \<Rightarrow> scope \<Rightarrow> event_filter \<Rightarrow> gerror + audit_event list" where
  "audit_ListEvents st sc f =
     (case scope_Validate sc of
        Some e \<Rightarrow> Inl e
      | None \<Rightarrow>
          (case validateEventFilter f of
             Some e \<Rightarrow> Inl e
           | None \<Rightarrow> Inr (sort_key (\<lambda>e. (- ae_OccurredAt e, ae_ID e))
               (filter (\<lambda>e. scope_Equals (ae_Scope e) sc \<and> filterMatchesEvent f e) (map snd (ad_eventsByID st))))))"

definition audit_GetEvent :: "audit_store \<Rightarrow> scope \<Rightarrow> string \<Rightarrow> gerror + audit_event" where
  "audit_GetEvent st sc i =
     (case scope_Validate sc of
        Some e \<Rightarrow> Inl e
      | None \<Rightarrow>
          if TrimSpace i = [] then Inl (Err ErrValidation ''audit event id required'')
          else scoped_get ''audit event'' ae_Scope (ad_eventsByID st) sc i)"

section \<open>Evidence\<close>

definition AddEvidence :: "audit_store \<Rightarrow> scope \<Rightarrow> evidence_input \<Rightarrow> gotime \<Rightarrow> string \<Rightarrow> (gerror + evidence_record) \<times> audit_store" where
  "AddEvidence st sc inp now newID =
     (case first_error [scope_Validate sc, validateEvidenceInput inp] of
        Some e \<Rightarrow> (Inl e, st)
      | None \<Rightarrow>
          let r = \<lparr>er_ID = newID, er_Scope = sc, er_ResourceType = TrimSpace (vi_ResourceType inp), er_ResourceID = TrimSpace (vi_ResourceID inp),
                er_EvidenceType = TrimSpace (vi_EvidenceType inp), er_StorageRef = TrimSpace (vi_StorageRef inp),
                er_DigestSHA256 = TrimSpace (vi_DigestSHA256 inp), er_Metadata = vi_Metadata inp, er_Status = ''active'',
                er_CreatedAt = now, er_UpdatedAt = now\<rparr>
          in (Inr r, st\<lparr>ad_evidenceByID := mput (er_ID r) r (ad_evidenceByID st)\<rparr>))"

section \<open>Webhook endpoints\<close>

definition webhookKey :: "scope \<Rightarrow> string \<Rightarrow> string" where
  "webhookKey sc name = EnvironmentKey sc @ ''/'' @ name"

definition CreateWebhookEndpoint ::
  "(string \<Rightarrow> (string \<times> string \<times> string) option) \<Rightarrow> audit_store \<Rightarrow> scope \<Rightarrow> webhook_input \<Rightarrow> gotime \<Rightarrow> string
     \<Rightarrow> (gerror + webhook_endpoint) \<times> audit_store" where
  "CreateWebhookEndpoint parse_url st sc inp now newID =
     (case scope_Validate sc of
        Some e \<Rightarrow> (Inl e, st)
      | None \<Rightarrow>
          (case normalizeWebhookInput parse_url inp True of
             Inl e \<Rightarrow> (Inl e, st)
           | Inr n \<Rightarrow>
               let ep = \<lparr>wh_ID = newID, wh_Scope = sc, wh_Name = nw_Name n, wh_URL = nw_URL n, wh_SecretDigest = digestSecret (nw_Secret n),
                     wh_EventTypes = nw_EventTypes n, wh_Status = nw_Status n, wh_LastTestedAt = None, wh_CreatedAt = now, wh_UpdatedAt = now\<rparr>;
                   scopeKey = webhookKey sc (wh_Name ep)
               in (if mget (ad_webhookNameByEnvScope st) scopeKey \<noteq> None
                   then (Inl (Err ErrConflict ''webhook endpoint already exists under environment''), st)
                   else (Inr ep, st\<lparr>ad_webhooksByID := mput (wh_ID ep) ep (ad_webhooksByID st),
                                   ad_webhookNameByEnvScope := mput scopeKey (wh_ID ep) (ad_webhookNameByEnvScope st)\<rparr>))))"

definition webhook_renamed :: "(string, string) gomap \<Rightarrow> string \<Rightarrow> string \<Rightarrow> string \<Rightarrow> (string, string) gomap option" where
  "webhook_renamed names i oldKey newKey =
     (if oldKey = newKey then Some names
      else if (case mget names newKey of None \<Rightarrow> False | Some existingID \<Rightarrow> existingID \<noteq> i) then None
      else Some (mput newKey i (mdel oldKey names)))"

definition UpdateWebhookEndpoint ::
  "(string \<Rightarrow> (string \<times> string \<times> string) option) \<Rightarrow> audit_store \<Rightarrow> scope \<Rightarrow> string \<Rightarrow> webhook_input \<Rightarrow> gotime
     \<Rightarrow> (gerror + webhook_endpoint) \<times> audit_store" where
  "UpdateWebhookEndpoint parse_url st sc i inp now =
     (case scope_Validate sc of
        Some e \<Rightarrow> (Inl e, st)
      | None \<Rightarrow>
      if TrimSpace i = [] then (Inl (Err ErrValidation ''webhook endpoint id required''), st)
      else (case normalizeWebhookInput parse_url inp False of
        Inl e \<Rightarrow> (Inl e, st)
      | Inr n \<Rightarrow>
      (case scoped_get ''webhook endpoint'' wh_Scope (ad_webhooksByID st) sc i of
        Inl e \<Rightarrow> (Inl e, st)
      | Inr ep \<Rightarrow>
      (case webhook_renamed (ad_webhookNameByEnvScope st) (wh_ID ep) (webhookKey (wh_Scope ep) (wh_Name ep)) (webhookKey (wh_Scope ep) (nw_Name n)) of
        None \<Rightarrow> (Inl (Err ErrConflict ''webhook endpoint already exists under environment''), st)
      | Some names \<Rightarrow>
          let ep' = ep\<lparr>wh_Name := nw_Name n, wh_URL := nw_URL n,
                wh_SecretDigest := (if nw_Secret n \<noteq> [] then digestSecret (nw_Secret n) else wh_SecretDigest ep),
                wh_EventTypes := nw_EventTypes n, wh_Status := nw_Status n, wh_UpdatedAt := now\<rparr>
          in (Inr ep', st\<lparr>ad_webhookNameByEnvScope := names, ad_webhooksByID := mput (wh_ID ep') ep' (ad_webhooksByID st)\<rparr>)))))"

definition ListWebhookEndpoints :: "audit_store \<Rightarrow> scope \<Rightarrow> gerror + webhook_endpoint list" where
  "ListWebhookEndpoints st sc =
     (case scope_Validate sc of
        Some e \<Rightarrow> Inl e
      | None \<Rightarrow> Inr (sort_key (\<lambda>ep. (wh_Name ep, wh_ID ep)) (filter (\<lambda>ep. scope_Equals (wh_Scope ep) sc) (map snd (ad_webhooksByID st)))))"

definition ListNotificationEvents :: "audit_store \<Rightarrow> scope \<Rightarrow> gerror + notification_event list" where
  "ListNotificationEvents st sc =
     (case scope_Validate sc of
        Some e \<Rightarrow> Inl e
      | None \<Rightarrow> Inr (sort_key (\<lambda>n. (- ne_CreatedAt n, ne_ID n))
          (filter (\<lambda>n. scope_Equals (ne_Scope n) sc) (map snd (ad_notificationsByID st)))))"

section \<open>Exports\<close>

definition CreateExportRecord ::
  "audit_store \<Rightarrow> scope \<Rightarrow> export_input \<Rightarrow> gotime \<Rightarrow> string \<Rightarrow> string \<Rightarrow> (gerror + export_record) \<times> audit_store" where
  "CreateExportRecord st sc inp now newID newExportNo =
     (case first_error [scope_Validate sc, validateExportInput inp] of
        Some e \<Rightarrow> (Inl e, st)
      | None \<Rightarrow>
          let r = \<lparr>xr_ID = newID, xr_Scope = sc, xr_ExportNo = newExportNo, xr_ExportType = TrimSpace (xi_ExportType inp),
                xr_ResourceType = TrimSpace (xi_ResourceType inp), xr_RequestedBy = TrimSpace (xi_RequestedBy inp),
                xr_Format = TrimSpace (xi_Format inp), xr_Filters = xi_Filters inp, xr_Status = TrimSpace (xi_Status inp),
                xr_StorageRef = [], xr_ErrorCode = [], xr_ErrorMessage = [], xr_FinishedAt = None, xr_CreatedAt = now, xr_UpdatedAt = now\<rparr>
          in (Inr r, st\<lparr>ad_exportsByID := mput (xr_ID r) r (ad_exportsByID st)\<rparr>))"

definition GetExportRecord :: "audit_store \<Rightarrow> scope \<Rightarrow> string \<Rightarrow> gerror + export_record" where
  "GetExportRecord st sc i =
     (case scope_Validate sc of
        Some e \<Rightarrow> Inl e
      | None \<Rightarrow>
          if TrimSpace i = [] then Inl (Err ErrValidation ''export record id required'')
          else scoped_get ''export record'' xr_Scope (ad_exportsByID st) sc i)"

definition MarkExportSucceeded :: "audit_store \<Rightarrow> scope \<Rightarrow> string \<Rightarrow> string \<Rightarrow> gotime \<Rightarrow> (gerror + export_record) \<times> audit_store" where
  "MarkExportSucceeded st sc i storageRef now =
     (case first_error [scope_Validate sc, required ''export record id'' i, required ''storage_ref'' storageRef] of
        Some e \<Rightarrow> (Inl e, st)
      | None \<Rightarrow>
          (case scoped_get ''export record'' xr_Scope (ad_exportsByID st) sc i of
             Inl e \<Rightarrow> (Inl e, st)
           | Inr r \<Rightarrow>
               let r' = r\<lparr>xr_Status := ''succeeded'', xr_StorageRef := TrimSpace storageRef, xr_ErrorCode := [], xr_ErrorMessage := [],
                     xr_FinishedAt := Some now, xr_UpdatedAt := now\<rparr>
               in (Inr r', st\<lparr>ad_exportsByID := mput (xr_ID r') r' (ad_exportsByID st)\<rparr>)))"

definition MarkExportFailed :: "audit_store \<Rightarrow> scope \<Rightarrow> string \<Rightarrow> string \<Rightarrow> string \<Rightarrow> gotime \<Rightarrow> (gerror + export_record) \<times> audit_store" where
  "MarkExportFailed st sc i code message now =
     (case first_error [scope_Validate sc, required ''export record id'' i] of
        Some e \<Rightarrow> (Inl e, st)
      | None \<Rightarrow>
          (case scoped_get ''export record'' xr_Scope (ad_exportsByID st) sc i of
             Inl e \<Rightarrow> (Inl e, st)
           | Inr r \<Rightarrow>
               let r' = r\<lparr>xr_Status := ''failed'', xr_ErrorCode := TrimSpace code, xr_ErrorMessage := TrimSpace message,
                     xr_FinishedAt := Some now, xr_UpdatedAt := now\<rparr>
               in (Inr r', st\<lparr>ad_exportsByID := mput (xr_ID r') r' (ad_exportsByID st)\<rparr>)))"

end
