(* ===== verification/AuditProps.thy ===== *)
theory AuditProps
  imports AuditLog
begin

text \<open>
  What the audit trail promises: events stay as they were recorded, an event notifies exactly the endpoints that want
  it, deliveries one after the other are tried at most three times on a fixed schedule, and what two deliveries of one
  notification at once do.
\<close>

section \<open>Deliveries leave everything else alone\<close>

definition same_but_notifications :: "audit_store \<Rightarrow> audit_store \<Rightarrow> bool" where
  "same_but_notifications st st' =
     (ad_eventsByID st' = ad_eventsByID st \<and> ad_evidenceByID st' = ad_evidenceByID st \<and> ad_webhooksByID st' = ad_webhooksByID st \<and>
      ad_webhookNameByEnvScope st' = ad_webhookNameByEnvScope st \<and> ad_exportsByID st' = ad_exportsByID st)"

lemma begin_cases:
  assumes "begin_delivery st i now = Inr (ep, n', st')"
  shows "\<exists>n. mget (ad_notificationsByID st) i = Some n \<and> mget (ad_webhooksByID st) (ne_WebhookEndpointID n) = Some ep \<and>
    wh_Scope ep = ne_Scope n \<and>
    n' = n\<lparr>ne_Status := ''delivering'', ne_AttemptCount := ne_AttemptCount n + 1, ne_UpdatedAt := now, ne_NextRetryAt := None\<rparr> \<and>
    st' = st\<lparr>ad_notificationsByID := mput (ne_ID n) n' (ad_notificationsByID st)\<rparr>"
  using assms by (auto simp: begin_delivery_def Let_def split: option.splits if_splits)

lemma process_keeps:
  assumes "processNotification deliver st i t1 t2 w = (e, st', w')"
  shows "same_but_notifications st st'"
  using assms
  by (auto simp: processNotification_def finish_delivery_def same_but_notifications_def Let_def split: sum.splits prod.splits
      dest!: begin_cases)

lemma same_trans: "same_but_notifications a b \<Longrightarrow> same_but_notifications b c \<Longrightarrow> same_but_notifications a c"
  by (simp add: same_but_notifications_def)

lemma deliver_all_keeps: "deliver_all deliver is clock k st w = (st', w') \<Longrightarrow> same_but_notifications st st'"
proof (induction "is" arbitrary: k st w)
  case (Cons i "is")
  obtain e st1 w1 where p: "processNotification deliver st i (clock k) (clock (k + 1)) w = (e, st1, w1)" by (metis prod.collapse)
  with Cons.prems have "deliver_all deliver is clock (k + 2) st1 w1 = (st', w')" by simp
  from same_trans [OF process_keeps [OF p] Cons.IH [OF this]] show ?case .
qed (simp add: same_but_notifications_def)

lemma process_due_keeps: "process_due deliver is clock k st w = (e, st', w') \<Longrightarrow> same_but_notifications st st'"
proof (induction "is" arbitrary: k st w)
  case (Cons i "is")
  obtain e1 st1 w1 where p: "processNotification deliver st i (clock k) (clock (k + 1)) w = (e1, st1, w1)" by (metis prod.collapse)
  show ?case
  proof (cases e1)
    case None
    with Cons.prems p have "process_due deliver is clock (k + 2) st1 w1 = (e, st', w')" by simp
    from same_trans [OF process_keeps [OF p] Cons.IH [OF this]] show ?thesis .
  next
    case (Some x)
    with Cons.prems p process_keeps [OF p] show ?thesis by simp
  qed
qed (simp add: same_but_notifications_def)

section \<open>All operations, in any order\<close>

text \<open>Every operation of the service, a delivery as its two steps, so that deliveries may run beside everything else. New
  identifiers of events are fresh.\<close>

inductive audit_step :: "audit_store \<Rightarrow> audit_store \<Rightarrow> bool" where
  storing: "mget (ad_eventsByID st) (ae_ID ev) = None \<Longrightarrow> audit_step st (snd (store_event st ev newIDs))"
| beginning: "begin_delivery st i now = Inr (ep, n, st') \<Longrightarrow> audit_step st st'"
| finishing: "audit_step st (finish_delivery st i err now)"
| proving: "audit_step st (snd (AddEvidence st sc evi now newID))"
| hooking: "audit_step st (snd (CreateWebhookEndpoint parse_url st sc hook now newID))"
| rehooking: "audit_step st (snd (UpdateWebhookEndpoint parse_url st sc i hook now))"
| exporting: "audit_step st (snd (CreateExportRecord st sc xinp now newID newNo))"
| exported: "audit_step st (snd (MarkExportSucceeded st sc i ref now))"
| not_exported: "audit_step st (snd (MarkExportFailed st sc i code message now))"

lemma step_keeps_event:
  assumes "audit_step st st'" "mget (ad_eventsByID st) i = Some ev"
  shows "mget (ad_eventsByID st') i = Some ev"
  using assms
  by cases
    (auto simp: store_event_def finish_delivery_def AddEvidence_def CreateWebhookEndpoint_def UpdateWebhookEndpoint_def CreateExportRecord_def
      MarkExportSucceeded_def MarkExportFailed_def Let_def split: option.splits sum.splits if_splits dest!: begin_cases)

lemma steps_keep_event: "audit_step\<^sup>*\<^sup>* st st' \<Longrightarrow> mget (ad_eventsByID st) i = Some ev \<Longrightarrow> mget (ad_eventsByID st') i = Some ev"
  by (induction rule: rtranclp_induct) (auto intro: step_keeps_event)

lemma record_stores:
  assumes "RecordEvent deliver st sc inp clock newID newIDs w = (Inr ev, st', w')"
  shows "ad_eventsByID st' = mput newID ev (ad_eventsByID st) \<and> ae_ID ev = newID \<and> ae_Scope ev = sc \<and> valid_scope sc \<and>
    buildEvent sc inp (clock 0) (clock 1) newID = Inr ev"
proof -
  from assms have v: "valid_scope sc" and b: "buildEvent sc inp (clock 0) (clock 1) newID = Inr ev"
    by (auto simp: RecordEvent_def split: option.splits sum.splits prod.splits)
  obtain ids st1 where s: "store_event st ev newIDs = (ids, st1)" by fastforce
  from b have e: "ae_ID ev = newID" "ae_Scope ev = sc" by (auto simp: buildEvent_def Let_def split: if_splits option.splits)
  obtain st2 w2 where d: "deliver_all deliver ids clock 2 st1 w = (st2, w2)" by fastforce
  with assms v b s have "st' = st2" by (simp add: RecordEvent_def)
  with deliver_all_keeps [OF d] s e v b show ?thesis by (auto simp: same_but_notifications_def store_event_def Let_def)
qed

section \<open>One delivery after the other\<close>

definition note_ok :: "notification_event \<Rightarrow> bool" where
  "note_ok n =
     (ne_Status n = ''pending'' \<and> ne_AttemptCount n = 0 \<or>
      ne_Status n = ''retry'' \<and> 1 \<le> ne_AttemptCount n \<and> ne_AttemptCount n < maxDeliveryAttempts \<and>
        ne_NextRetryAt n = Some (ne_UpdatedAt n + ne_AttemptCount n * retryBaseInterval) \<or>
      ne_Status n = ''succeeded'' \<and> 1 \<le> ne_AttemptCount n \<and> ne_AttemptCount n \<le> maxDeliveryAttempts \<and> ne_DeliveredAt n = Some (ne_UpdatedAt n) \<or>
      ne_Status n = ''failed'' \<and> ne_AttemptCount n = maxDeliveryAttempts)"

definition waiting :: "notification_event \<Rightarrow> bool" where
  "waiting n = (ne_Status n = ''pending'' \<or> ne_Status n = ''retry'')"

definition notes_wf :: "audit_store \<Rightarrow> bool" where
  "notes_wf st = (mwf (ad_notificationsByID st) \<and> (\<forall>i n. mget (ad_notificationsByID st) i = Some n \<longrightarrow> ne_ID n = i \<and> note_ok n))"

lemma delivered_ok:
  assumes "note_ok n" "waiting n"
  shows "note_ok (delivered (n\<lparr>ne_Status := ''delivering'', ne_AttemptCount := ne_AttemptCount n + 1, ne_UpdatedAt := t1, ne_NextRetryAt := None\<rparr>) err t2)"
  using assms by (auto simp: note_ok_def waiting_def delivered_def maxDeliveryAttempts_def Let_def split: option.splits)

lemma ne_ID_delivered [simp]: "ne_ID (delivered n err t) = ne_ID n"
  by (simp add: delivered_def Let_def split: option.splits)

lemma process_turn:
  assumes "notes_wf st" "mget (ad_notificationsByID st) i = Some n" "waiting n"
    and "processNotification deliver st i t1 t2 w = (e, st', w')"
  shows "notes_wf st' \<and> (\<forall>j. j \<noteq> i \<longrightarrow> mget (ad_notificationsByID st') j = mget (ad_notificationsByID st) j)"
proof (cases "begin_delivery st i t1")
  case (Inl x)
  with assms show ?thesis by (simp add: processNotification_def)
next
  case (Inr y)
  obtain ep n' st1 where y: "y = (ep, n', st1)" by (metis prod_cases3)
  define m where "m = n\<lparr>ne_Status := ''delivering'', ne_AttemptCount := ne_AttemptCount n + 1, ne_UpdatedAt := t1, ne_NextRetryAt := None\<rparr>"
  have id: "ne_ID n = i" "note_ok n" using assms(1,2) by (auto simp: notes_wf_def)
  from begin_cases [OF Inr [unfolded y]] assms(2) have b: "n' = m" "st1 = st\<lparr>ad_notificationsByID := mput i m (ad_notificationsByID st)\<rparr>"
    by (auto simp: m_def id)
  obtain err w1 where d: "deliver ep n' w = (err, w1)" by fastforce
  have mi: "ne_ID m = i" by (simp add: m_def id)
  from assms(4) Inr y d have "st' = finish_delivery st1 (ne_ID n') err t2" by (simp add: processNotification_def)
  then have st': "ad_notificationsByID st' = mput i (delivered m err t2) (mput i m (ad_notificationsByID st))"
    by (simp add: finish_delivery_def b mi Let_def)
  have "note_ok (delivered m err t2)" unfolding m_def by (rule delivered_ok [OF id(2) assms(3)])
  with st' assms(1) mi show ?thesis by (simp add: notes_wf_def)
qed

lemma turns:
  assumes "notes_wf st" "distinct is" "\<forall>i \<in> set is. \<exists>n. mget (ad_notificationsByID st) i = Some n \<and> waiting n"
  shows "notes_wf (fst (deliver_all deliver is clock k st w))" "notes_wf (fst (snd (process_due deliver is clock k st w)))"
  using assms
proof (induction "is" arbitrary: k st w)
  case (Cons i "is")
  {
    case 1
    then obtain n where n: "mget (ad_notificationsByID st) i = Some n" "waiting n" by auto
    obtain e st1 w1 where p: "processNotification deliver st i (clock k) (clock (k + 1)) w = (e, st1, w1)" by (metis prod.collapse)
    note t = process_turn [OF 1(1) n p]
    have r: "distinct is" "\<forall>j \<in> set is. \<exists>n. mget (ad_notificationsByID st1) j = Some n \<and> waiting n" using t 1 by auto
    from Cons.IH(1) [OF _ r] t p show ?case by simp
  next
    case 2
    then obtain n where n: "mget (ad_notificationsByID st) i = Some n" "waiting n" by auto
    obtain e st1 w1 where p: "processNotification deliver st i (clock k) (clock (k + 1)) w = (e, st1, w1)" by (metis prod.collapse)
    note t = process_turn [OF 2(1) n p]
    have r: "distinct is" "\<forall>j \<in> set is. \<exists>n. mget (ad_notificationsByID st1) j = Some n \<and> waiting n" using t 2 by auto
    from Cons.IH(2) [OF _ r] t p show ?case by (cases e) simp_all
  }
qed simp_all

lemma turns_others:
  assumes "notes_wf st" "distinct is" "\<forall>i \<in> set is. \<exists>n. mget (ad_notificationsByID st) i = Some n \<and> waiting n" "j \<notin> set is"
  shows "mget (ad_notificationsByID (fst (deliver_all deliver is clock k st w))) j = mget (ad_notificationsByID st) j"
    "mget (ad_notificationsByID (fst (snd (process_due deliver is clock k st w)))) j = mget (ad_notificationsByID st) j"
  using assms
proof (induction "is" arbitrary: k st w)
  case (Cons i "is")
  {
    case 1
    then obtain n where n: "mget (ad_notificationsByID st) i = Some n" "waiting n" by auto
    obtain e st1 w1 where p: "processNotification deliver st i (clock k) (clock (k + 1)) w = (e, st1, w1)" by (metis prod.collapse)
    note t = process_turn [OF 1(1) n p]
    have r: "distinct is" "\<forall>j \<in> set is. \<exists>n. mget (ad_notificationsByID st1) j = Some n \<and> waiting n" "j \<notin> set is" "j \<noteq> i"
      using t 1 by auto
    from Cons.IH(1) [OF _ r(1-3)] t p r(4) show ?case by simp
  next
    case 2
    then obtain n where n: "mget (ad_notificationsByID st) i = Some n" "waiting n" by auto
    obtain e st1 w1 where p: "processNotification deliver st i (clock k) (clock (k + 1)) w = (e, st1, w1)" by (metis prod.collapse)
    note t = process_turn [OF 2(1) n p]
    have r: "distinct is" "\<forall>j \<in> set is. \<exists>n. mget (ad_notificationsByID st1) j = Some n \<and> waiting n" "j \<notin> set is" "j \<noteq> i"
      using t 2 by auto
    from Cons.IH(2) [OF _ r(1-3)] t p r(4) show ?case by (cases e) simp_all
  }
qed simp_all

lemma fold_put:
  assumes "distinct (map f ns)"
  shows "n \<in> set ns \<Longrightarrow> mget (fold (\<lambda>n. mput (f n) n) ns m) (f n) = Some n"
    "k \<notin> f ` set ns \<Longrightarrow> mget (fold (\<lambda>n. mput (f n) n) ns m) k = mget m k"
    "mwf m \<Longrightarrow> mwf (fold (\<lambda>n. mput (f n) n) ns m)"
  using assms
proof (induction ns arbitrary: m k n)
  case (Cons x ns)
  {
    case 1
    show ?case
    proof (cases "n \<in> set ns")
      case True
      with Cons.IH(1) 1 show ?thesis by simp
    next
      case False
      with 1 have "n = x" by simp
      with Cons.IH(2) [where k = "f x" and m = "mput (f x) x m"] 1 show ?thesis by simp
    qed
  next
    case 2
    with Cons.IH(2) [where k = k and m = "mput (f x) x m"] show ?case by auto
  next
    case 3
    with Cons.IH(3) [where m = "mput (f x) x m"] show ?case by simp
  }
qed simp_all

lemma enumerated_notifications:
  "map ne_ID (map (\<lambda>(k, ep). new_notification ev ep (newIDs k)) (enumerate m eps)) = map newIDs [m..<m + length eps]"
  "map ne_WebhookEndpointID (map (\<lambda>(k, ep). new_notification ev ep (newIDs k)) (enumerate m eps)) = map wh_ID eps"
  by (induction eps arbitrary: m) (simp_all add: new_notification_def upt_conv_Cons del: upt_Suc)

lemma notification_ids: "map ne_ID (notifications_for ev eps newIDs) = map newIDs [0..<length (filter (subscribed ev) eps)]"
  unfolding notifications_for_def enumerated_notifications(1) by simp

lemma notification_endpoints: "map ne_WebhookEndpointID (notifications_for ev eps newIDs) = map wh_ID (filter (subscribed ev) eps)"
  unfolding notifications_for_def by (rule enumerated_notifications(2))

lemma notifications_pending: "n \<in> set (notifications_for ev eps newIDs) \<Longrightarrow> ne_Status n = ''pending'' \<and> ne_AttemptCount n = 0"
  by (auto simp: notifications_for_def new_notification_def)

lemma stored_notifications:
  assumes "store_event st ev newIDs = (ids, st')" "inj newIDs"
  shows "ids = map ne_ID (notifications_for ev (map snd (ad_webhooksByID st)) newIDs)" "distinct ids"
    "n \<in> set (notifications_for ev (map snd (ad_webhooksByID st)) newIDs) \<Longrightarrow> mget (ad_notificationsByID st') (ne_ID n) = Some n"
    "i \<notin> set ids \<Longrightarrow> mget (ad_notificationsByID st') i = mget (ad_notificationsByID st) i"
    "mwf (ad_notificationsByID st) \<Longrightarrow> mwf (ad_notificationsByID st')"
proof -
  let ?ns = "notifications_for ev (map snd (ad_webhooksByID st)) newIDs"
  have d: "distinct (map ne_ID ?ns)" unfolding notification_ids by (simp add: distinct_map inj_on_subset [OF assms(2) subset_UNIV])
  have s: "ids = map ne_ID ?ns" "ad_notificationsByID st' = fold (\<lambda>n. mput (ne_ID n) n) ?ns (ad_notificationsByID st)"
    using assms(1) by (auto simp: store_event_def Let_def)
  show "ids = map ne_ID ?ns" by (rule s(1))
  show "distinct ids" using d s(1) by simp
  show "n \<in> set ?ns \<Longrightarrow> mget (ad_notificationsByID st') (ne_ID n) = Some n" unfolding s(2) by (rule fold_put(1) [OF d])
  show "i \<notin> set ids \<Longrightarrow> mget (ad_notificationsByID st') i = mget (ad_notificationsByID st) i"
    unfolding s by (rule fold_put(2) [OF d]) simp
  show "mwf (ad_notificationsByID st) \<Longrightarrow> mwf (ad_notificationsByID st')" unfolding s(2) by (rule fold_put(3) [OF d])
qed

lemma stored_wf:
  assumes "notes_wf st" "store_event st ev newIDs = (ids, st')" "inj newIDs"
  shows "notes_wf st' \<and> (\<forall>i \<in> set ids. \<exists>n. mget (ad_notificationsByID st') i = Some n \<and> waiting n)"
proof -
  note s = stored_notifications [OF assms(2,3)]
  have new: "\<exists>n. mget (ad_notificationsByID st') i = Some n \<and> ne_ID n = i \<and> ne_Status n = ''pending'' \<and> ne_AttemptCount n = 0"
    if "i \<in> set ids" for i using that s(1,3) notifications_pending by fastforce
  have "ne_ID n = i \<and> note_ok n" if n: "mget (ad_notificationsByID st') i = Some n" for i n
  proof (cases "i \<in> set ids")
    case True
    with new n show ?thesis by (fastforce simp: note_ok_def)
  next
    case False
    with s(4) n assms(1) show ?thesis by (auto simp: notes_wf_def)
  qed
  moreover have "mwf (ad_notificationsByID st')" using s(5) assms(1) by (simp add: notes_wf_def)
  moreover have "\<exists>n. mget (ad_notificationsByID st') i = Some n \<and> waiting n" if "i \<in> set ids" for i
    using new [OF that] by (auto simp: waiting_def)
  ultimately show ?thesis by (simp add: notes_wf_def)
qed

text \<open>The calls of the deliverer, noted with the notification each one is made for.\<close>

definition counted :: "'w deliverer \<Rightarrow> ('w \<times> string list) deliverer" where
  "counted deliver ep n = (\<lambda>(w, calls). case deliver ep n w of (err, w') \<Rightarrow> (err, w', calls @ [ne_ID n]))"

text \<open>The service used by one caller at a time: an event with the deliveries it causes, a round over the due notifications, or
  anything that leaves the notifications alone, while the world of the deliverer may change as it likes. The last part of
  the state is the calls made so far.\<close>

inductive audit_turn :: "'w deliverer \<Rightarrow> audit_store \<times> 'w \<times> string list \<Rightarrow> audit_store \<times> 'w \<times> string list \<Rightarrow> bool" for deliver where
  recording: "inj newIDs \<Longrightarrow> \<forall>k. mget (ad_notificationsByID st) (newIDs k) = None \<Longrightarrow>
     audit_turn deliver (st, w) (snd (RecordEvent (counted deliver) st sc inp clock newID newIDs w))"
| retrying: "audit_turn deliver (st, w) (snd (ProcessDueNotifications (counted deliver) st clock w))"
| managing: "audit_step st st' \<Longrightarrow> ad_notificationsByID st' = ad_notificationsByID st \<Longrightarrow>
     audit_turn deliver (st, w, calls) (st', w', calls)"

text \<open>A notification has been handed to the deliverer as often as its record says, one that is not stored never.\<close>

definition calls_ok :: "audit_store \<Rightarrow> string list \<Rightarrow> bool" where
  "calls_ok st calls =
     (\<forall>i. int (count_list calls i) = (case mget (ad_notificationsByID st) i of None \<Rightarrow> 0 | Some n \<Rightarrow> ne_AttemptCount n))"

lemma ne_AttemptCount_delivered [simp]: "ne_AttemptCount (delivered n err t) = ne_AttemptCount n"
  by (simp add: delivered_def Let_def split: option.splits)

lemma process_calls:
  assumes "notes_wf st" "calls_ok st calls" "processNotification (counted deliver) st i t1 t2 (w, calls) = (e, st', w', calls')"
  shows "calls_ok st' calls'"
proof (cases "begin_delivery st i t1")
  case (Inl x)
  with assms show ?thesis by (simp add: processNotification_def)
next
  case (Inr y)
  obtain ep m st1 where y: "y = (ep, m, st1)" by (metis prod_cases3)
  from begin_cases [OF Inr [unfolded y]] obtain n where b: "mget (ad_notificationsByID st) i = Some n" "ne_AttemptCount m = ne_AttemptCount n + 1"
      "ne_ID m = ne_ID n" "st1 = st\<lparr>ad_notificationsByID := mput (ne_ID n) m (ad_notificationsByID st)\<rparr>" by auto
  have id: "ne_ID n = i" using assms(1) b(1) by (auto simp: notes_wf_def)
  obtain err w1 where d: "deliver ep m w = (err, w1)" by fastforce
  with assms(3) Inr y have "st' = finish_delivery st1 i err t2" "calls' = calls @ [i]"
    by (simp_all add: processNotification_def counted_def b(3) id)
  then have "ad_notificationsByID st' = mput i (delivered m err t2) (mput i m (ad_notificationsByID st))" "calls' = calls @ [i]"
    by (simp_all add: finish_delivery_def b(3,4) id Let_def)
  with assms(2) b(1,2) show ?thesis by (auto simp: calls_ok_def)
qed

lemma turns_calls:
  assumes "notes_wf st" "distinct is" "\<forall>i \<in> set is. \<exists>n. mget (ad_notificationsByID st) i = Some n \<and> waiting n" "calls_ok st (snd x)"
  shows "case deliver_all (counted deliver) is clock k st x of (st', x') \<Rightarrow> calls_ok st' (snd x')"
    "case process_due (counted deliver) is clock k st x of (_, st', x') \<Rightarrow> calls_ok st' (snd x')"
  using assms
proof (induction "is" arbitrary: k st x)
  case (Cons i "is")
  {
    case 1
    then obtain n where n: "mget (ad_notificationsByID st) i = Some n" "waiting n" by auto
    obtain e st1 x1 where p: "processNotification (counted deliver) st i (clock k) (clock (k + 1)) x = (e, st1, x1)" by (metis prod.collapse)
    note t = process_turn [OF 1(1) n p]
    have r: "distinct is" "\<forall>j \<in> set is. \<exists>n. mget (ad_notificationsByID st1) j = Some n \<and> waiting n" using t 1 by auto
    have "calls_ok st1 (snd x1)" using process_calls [OF 1(1,4)] p by (metis prod.collapse)
    from Cons.IH(1) [OF _ r this] t p show ?case by simp
  next
    case 2
    then obtain n where n: "mget (ad_notificationsByID st) i = Some n" "waiting n" by auto
    obtain e st1 x1 where p: "processNotification (counted deliver) st i (clock k) (clock (k + 1)) x = (e, st1, x1)" by (metis prod.collapse)
    note t = process_turn [OF 2(1) n p]
    have r: "distinct is" "\<forall>j \<in> set is. \<exists>n. mget (ad_notificationsByID st1) j = Some n \<and> waiting n" using t 2 by auto
    have c: "calls_ok st1 (snd x1)" using process_calls [OF 2(1,4)] p by (metis prod.collapse)
    from Cons.IH(2) [OF _ r c] t p c show ?case by (cases e) simp_all
  }
qed simp_all

definition due_ids :: "audit_store \<Rightarrow> gotime \<Rightarrow> string list" where
  "due_ids st now = map fst (filter (\<lambda>(i, n). is_due n now) (ad_notificationsByID st))"

lemma due_ids_ok:
  assumes "notes_wf st"
  shows "distinct (due_ids st now)" "\<forall>i \<in> set (due_ids st now). \<exists>n. mget (ad_notificationsByID st) i = Some n \<and> waiting n"
proof -
  from assms have m: "mwf (ad_notificationsByID st)" by (simp add: notes_wf_def)
  then show "distinct (due_ids st now)" unfolding due_ids_def mwf_def by (rule distinct_map_filter)
  show "\<forall>i \<in> set (due_ids st now). \<exists>n. mget (ad_notificationsByID st) i = Some n \<and> waiting n"
    using m by (auto simp: due_ids_def mem_mget is_due_def waiting_def)
qed

lemma stored_calls:
  assumes "calls_ok st calls" "store_event st ev newIDs = (ids, st')" "inj newIDs" "\<forall>k. mget (ad_notificationsByID st) (newIDs k) = None"
  shows "calls_ok st' calls"
  unfolding calls_ok_def
proof
  fix i
  note s = stored_notifications [OF assms(2,3)]
  show "int (count_list calls i) = (case mget (ad_notificationsByID st') i of None \<Rightarrow> 0 | Some n \<Rightarrow> ne_AttemptCount n)"
  proof (cases "i \<in> set ids")
    case True
    then obtain n where "n \<in> set (notifications_for ev (map snd (ad_webhooksByID st)) newIDs)" "i = ne_ID n" by (auto simp: s(1))
    with s(3) notifications_pending have n: "mget (ad_notificationsByID st') i = Some n" "ne_AttemptCount n = 0" by auto
    have "mget (ad_notificationsByID st) i = None" using True assms(4) by (auto simp: s(1) notification_ids)
    with assms(1) have "int (count_list calls i) = 0" by (simp add: calls_ok_def)
    with n show ?thesis by simp
  next
    case False
    with assms(1) s(4) show ?thesis by (simp add: calls_ok_def)
  qed
qed

lemma turn_keeps:
  assumes "audit_turn deliver x y" "notes_wf (fst x)" "calls_ok (fst x) (snd (snd x))"
  shows "notes_wf (fst y) \<and> calls_ok (fst y) (snd (snd y)) \<and> (\<forall>i n. mget (ad_notificationsByID (fst x)) i = Some n \<and> \<not> waiting n \<longrightarrow> mget (ad_notificationsByID (fst y)) i = Some n)"
  using assms
proof cases
  case (recording newIDs st w sc inp clock newID)
  obtain r st2 w2 where rec: "RecordEvent (counted deliver) st sc inp clock newID newIDs w = (r, st2, w2)" by (metis prod.collapse)
  show ?thesis
  proof (cases r)
    case (Inl e)
    with rec have "st2 = st" "w2 = w" by (auto simp: RecordEvent_def split: option.splits sum.splits prod.splits)
    with recording rec assms(2,3) show ?thesis by simp
  next
    case (Inr ev)
    note rs = record_stores [OF rec [unfolded Inr]]
    obtain ids st1 where s: "store_event st ev newIDs = (ids, st1)" by fastforce
    from rec Inr rs s have d: "st2 = fst (deliver_all (counted deliver) ids clock 2 st1 w)" and d2: "deliver_all (counted deliver) ids clock 2 st1 w = (st2, w2)"
      by (auto simp: RecordEvent_def split: prod.splits)
    have wf: "notes_wf st" using recording assms(2) by simp
    note sw = stored_wf [OF wf s recording(3)]
    note sn = stored_notifications [OF s recording(3)]
    have keep: "mget (ad_notificationsByID st2) i = Some n" if n: "mget (ad_notificationsByID st) i = Some n" for i n
    proof -
      have "i \<notin> set ids" using n recording(4) by (auto simp: sn(1) notification_ids)
      have "mget (ad_notificationsByID st2) i = mget (ad_notificationsByID st1) i"
        unfolding d by (rule turns_others(1)) (use sw sn(2) \<open>i \<notin> set ids\<close> in auto)
      with sn(4) [OF \<open>i \<notin> set ids\<close>] n show ?thesis by simp
    qed
    have "notes_wf st2" unfolding d by (rule turns(1)) (use sw sn(2) in auto)
    moreover have "calls_ok st2 (snd w2)"
      using turns_calls(1) [OF conjunct1 [OF sw] sn(2) conjunct2 [OF sw], of w deliver clock 2]
        stored_calls [OF _ s recording(3,4), of "snd w"] assms(3) recording(1) by (simp add: d2)
    ultimately show ?thesis using keep recording rec by simp
  qed
next
  case (retrying st w clock)
  have wf: "notes_wf st" using retrying assms(2) by simp
  note du = due_ids_ok [OF wf, of "clock 0"]
  have y: "fst y = fst (snd (process_due (counted deliver) (due_ids st (clock 0)) clock 1 st w))"
    using retrying by (simp add: ProcessDueNotifications_def due_ids_def)
  have "mget (ad_notificationsByID (fst y)) i = Some n" if "mget (ad_notificationsByID st) i = Some n" "\<not> waiting n" for i n
  proof -
    have "i \<notin> set (due_ids st (clock 0))" using du(2) that by fastforce
    from turns_others(2) [OF wf du this] that show ?thesis by (simp add: y)
  qed
  moreover have "notes_wf (fst y)" unfolding y by (rule turns(2) [OF wf du])
  moreover have "calls_ok (fst y) (snd (snd y))"
    using turns_calls(2) [OF wf du, of w deliver clock 1] assms(3) retrying by (simp add: ProcessDueNotifications_def due_ids_def split: prod.splits)
  ultimately show ?thesis using retrying by simp
next
  case (managing st st' w calls w')
  with assms(2,3) show ?thesis by (simp add: notes_wf_def calls_ok_def)
qed

lemma turns_keep:
  assumes "(audit_turn deliver)\<^sup>*\<^sup>* x y" "notes_wf (fst x)" "calls_ok (fst x) (snd (snd x))"
  shows "notes_wf (fst y) \<and> calls_ok (fst y) (snd (snd y)) \<and> (\<forall>i n. mget (ad_notificationsByID (fst x)) i = Some n \<and> \<not> waiting n \<longrightarrow> mget (ad_notificationsByID (fst y)) i = Some n)"
  using assms(1)
proof (induction rule: rtranclp_induct)
  case (step y z)
  with turn_keeps [OF step.hyps(2)] show ?case by blast
qed (use assms(2,3) in simp)

lemma notes_wf_new: "notes_wf NewAuditService"
  by (simp add: notes_wf_def NewAuditService_def)

section \<open>Patterns\<close>

lemma matches_iff: "matchesEventType types e \<longleftrightarrow> (\<exists>c \<in> set types. c = e \<or> (\<exists>p r. c = p @ ''*'' \<and> e = p @ r))"
proof (induction types)
  case (Cons c types)
  have "(\<exists>p. c = p @ ''*'') \<longleftrightarrow> HasSuffix c ''*''"
    by (cases c rule: rev_cases) (auto simp: HasSuffix_def)
  moreover have "HasPrefix e (TrimSuffix (p @ ''*'') ''*'') \<longleftrightarrow> (\<exists>r. e = p @ r)" for p
    by (simp add: TrimSuffix_def HasSuffix_def HasPrefix_iff)
  ultimately have "matchesEventType (c # types) e \<longleftrightarrow> (c = e \<or> (\<exists>p r. c = p @ ''*'' \<and> e = p @ r)) \<or> matchesEventType types e"
    by (cases "HasSuffix c ''*''") (auto simp: TrimSuffix_def HasSuffix_def HasPrefix_iff)
  with Cons show ?case by simp
qed simp

lemma subscribed_iff:
  "subscribed ev ep \<longleftrightarrow> wh_Scope ep = ae_Scope ev \<and> wh_Status ep = ''active'' \<and>
     (\<exists>c \<in> set (wh_EventTypes ep). c = ae_Action ev \<or> (\<exists>p r. c = p @ ''*'' \<and> ae_Action ev = p @ r))"
  by (auto simp: subscribed_def matches_iff)

section \<open>Properties\<close>

definition demo_input :: event_input where
  "demo_input = \<lparr>ei_ActorType = [], ei_ActorID = ''u1'', ei_Action = ''domain.created'', ei_ResourceType = ''domain'',
     ei_ResourceID = ''d1'', ei_RequestID = [], ei_TraceID = [], ei_Detail = [], ei_OccurredAt = 0\<rparr>"

definition demo_hook :: webhook_endpoint where
  "demo_hook = \<lparr>wh_ID = ''h1'', wh_Scope = demo_scope, wh_Name = ''ops'', wh_URL = ''https://fail.example'', wh_SecretDigest = [],
     wh_EventTypes = [''domain.*''], wh_Status = ''active'', wh_LastTestedAt = None, wh_CreatedAt = 1, wh_UpdatedAt = 1\<rparr>"

definition hooked_store :: audit_store where
  "hooked_store = NewAuditService\<lparr>ad_webhooksByID := [(''h1'', demo_hook)]\<rparr>"

definition demo_ids :: "nat \<Rightarrow> string" where
  "demo_ids k = replicate (Suc k) CHR ''n''"

lemma demo_ids_inj: "inj demo_ids"
  by (rule injI) (metis demo_ids_def length_replicate nat.inject)

text \<open>C17: a recorded event is permanent: whatever operations follow, it is found under its identifier in its scope exactly as it
  was recorded and in no other scope, and a list of the scope has it exactly when the filter matches it.\<close>

theorem recorded_events_are_permanent:
  assumes "RecordEvent deliver st sc inp clock newID newIDs w = (Inr ev, st1, w1)" "TrimSpace newID \<noteq> []" "audit_step\<^sup>*\<^sup>* st1 st2"
  shows "audit_GetEvent st2 sc newID = Inr ev \<and> (\<forall>sc2 ev2. audit_GetEvent st2 sc2 newID = Inr ev2 \<longrightarrow> sc2 = sc \<and> ev2 = ev) \<and>
    (\<forall>f items. audit_ListEvents st2 sc f = Inr items \<longrightarrow> (ev \<in> set items \<longleftrightarrow> filterMatchesEvent f ev))"
proof -
  note r = record_stores [OF assms(1)]
  have e: "mget (ad_eventsByID st2) newID = Some ev" by (rule steps_keep_event [OF assms(3)]) (simp add: r)
  then have "(newID, ev) \<in> set (ad_eventsByID st2)" by (rule map_of_SomeD)
  then have m: "ev \<in> set (map snd (ad_eventsByID st2))" by force
  have "ev \<in> set items \<longleftrightarrow> filterMatchesEvent f ev" if "audit_ListEvents st2 sc f = Inr items" for f items
  proof -
    have "set items = {e \<in> set (map snd (ad_eventsByID st2)). ae_Scope e = sc \<and> filterMatchesEvent f e}"
      using that r by (force simp: audit_ListEvents_def split: option.splits)
    with m r show ?thesis by simp
  qed
  with e r assms(2) show ?thesis by (auto simp: audit_GetEvent_def split: option.splits)
qed

theorem recorded_events_are_permanent_witness:
  "\<exists>ev st1 w1. RecordEvent stub_Deliver hooked_store demo_scope demo_input (\<lambda>k. int k + 5) ''e1'' demo_ids () = (Inr ev, st1, w1) \<and>
     audit_GetEvent (snd (AddEvidence st1 demo_scope \<lparr>vi_ResourceType = ''x'', vi_ResourceID = ''y'', vi_EvidenceType = ''z'', vi_StorageRef = ''s'',
       vi_DigestSHA256 = ''d'', vi_Metadata = []\<rparr> 9 ''v1'')) demo_scope ''e1'' = Inr ev"
proof -
  have "case RecordEvent stub_Deliver hooked_store demo_scope demo_input (\<lambda>k. int k + 5) ''e1'' demo_ids () of
      (Inr _, _) \<Rightarrow> True | _ \<Rightarrow> False" by code_simp
  then obtain ev st1 w1 where r: "RecordEvent stub_Deliver hooked_store demo_scope demo_input (\<lambda>k. int k + 5) ''e1'' demo_ids () = (Inr ev, st1, w1)"
    by (auto split: sum.splits prod.splits)
  have t: "TrimSpace ''e1'' \<noteq> []" by code_simp
  have "audit_step\<^sup>*\<^sup>* st1 (snd (AddEvidence st1 demo_scope \<lparr>vi_ResourceType = ''x'', vi_ResourceID = ''y'', vi_EvidenceType = ''z'', vi_StorageRef = ''s'',
       vi_DigestSHA256 = ''d'', vi_Metadata = []\<rparr> 9 ''v1''))"
    by (rule r_into_rtranclp) (rule audit_step.proving)
  from recorded_events_are_permanent [OF r t this, THEN conjunct1] r show ?thesis by (intro exI conjI)
qed

text \<open>C18: an event notifies exactly the endpoints that want it, one pending notification each: the active endpoints of its scope
  with a pattern that is the action itself or a prefix of it followed by a star.\<close>

theorem event_notifies_its_subscribers:
  assumes "store_event st ev newIDs = (ids, st')" "inj newIDs"
  shows "map (\<lambda>i. map_option ne_WebhookEndpointID (mget (ad_notificationsByID st') i)) ids =
      map (\<lambda>ep. Some (wh_ID ep)) (filter (\<lambda>ep. wh_Scope ep = ae_Scope ev \<and> wh_Status ep = ''active'' \<and>
        (\<exists>c \<in> set (wh_EventTypes ep). c = ae_Action ev \<or> (\<exists>p r. c = p @ ''*'' \<and> ae_Action ev = p @ r))) (map snd (ad_webhooksByID st))) \<and>
    (\<forall>i \<in> set ids. \<exists>n. mget (ad_notificationsByID st') i = Some n \<and> ne_Status n = ''pending'' \<and> ne_AttemptCount n = 0) \<and>
    distinct ids \<and> (\<forall>i. i \<notin> set ids \<longrightarrow> mget (ad_notificationsByID st') i = mget (ad_notificationsByID st) i)"
proof -
  define ns where "ns = notifications_for ev (map snd (ad_webhooksByID st)) newIDs"
  note s = stored_notifications [OF assms, folded ns_def]
  have "map (\<lambda>i. map_option ne_WebhookEndpointID (mget (ad_notificationsByID st') i)) ids = map (\<lambda>n. Some (ne_WebhookEndpointID n)) ns"
    using s(3) by (simp add: s(1))
  also have "\<dots> = map Some (map ne_WebhookEndpointID ns)" by simp
  also have "\<dots> = map (\<lambda>ep. Some (wh_ID ep)) (filter (subscribed ev) (map snd (ad_webhooksByID st)))"
    unfolding ns_def notification_endpoints by simp
  finally have "map (\<lambda>i. map_option ne_WebhookEndpointID (mget (ad_notificationsByID st') i)) ids =
      map (\<lambda>ep. Some (wh_ID ep)) (filter (subscribed ev) (map snd (ad_webhooksByID st)))" .
  moreover have "\<exists>n. mget (ad_notificationsByID st') i = Some n \<and> ne_Status n = ''pending'' \<and> ne_AttemptCount n = 0" if "i \<in> set ids" for i
  proof -
    from that s(1) obtain n where "n \<in> set ns" "i = ne_ID n" by auto
    with s(3) notifications_pending [of n ev _ newIDs] show ?thesis by (auto simp: ns_def)
  qed
  moreover have eq: "subscribed ev = (\<lambda>ep. wh_Scope ep = ae_Scope ev \<and> wh_Status ep = ''active'' \<and>
        (\<exists>c \<in> set (wh_EventTypes ep). c = ae_Action ev \<or> (\<exists>p r. c = p @ ''*'' \<and> ae_Action ev = p @ r)))"
    by (rule ext) (rule subscribed_iff)
  ultimately show ?thesis using s(2,4) unfolding eq [symmetric] by blast
qed

theorem event_notifies_its_subscribers_witness:
  "\<exists>ev ids st'. buildEvent demo_scope demo_input 5 6 ''e1'' = Inr ev \<and> store_event hooked_store ev demo_ids = (ids, st') \<and>
     ids = [''n''] \<and> distinct ids"
proof -
  have "case buildEvent demo_scope demo_input 5 6 ''e1'' of Inr ev \<Rightarrow> fst (store_event hooked_store ev demo_ids) = [''n''] | Inl _ \<Rightarrow> False"
    by code_simp
  then obtain ev ids st' where s: "buildEvent demo_scope demo_input 5 6 ''e1'' = Inr ev" "store_event hooked_store ev demo_ids = (ids, st')" "ids = [''n'']"
    by (auto split: sum.splits) (metis prod.collapse)
  with event_notifies_its_subscribers [OF s(2) demo_ids_inj] show ?thesis by blast
qed

text \<open>C19: used by one caller at a time from a store without notifications on, the service hands no notification to its
  deliverer more than three times; a stored one has been handed over as often as its record says, and it is pending and
  untried, waits for a retry five minutes times the number of tries after the last one, succeeded, or failed after three
  tries; and once it succeeded or failed it never changes and is never handed over again. An event with its deliveries, and a round of retries, is a single turn here.\<close>

theorem deliveries_end:
  assumes "ad_notificationsByID st0 = []" "(audit_turn deliver)\<^sup>*\<^sup>* (st0, w0, []) (st, w, calls)"
  shows "(\<forall>i. count_list calls i \<le> 3) \<and>
    (\<forall>i n. mget (ad_notificationsByID st) i = Some n \<longrightarrow>
      ne_AttemptCount n = int (count_list calls i) \<and>
      (ne_Status n = ''pending'' \<and> count_list calls i = 0 \<or>
       ne_Status n = ''retry'' \<and> count_list calls i \<in> {1, 2} \<and>
         ne_NextRetryAt n = Some (ne_UpdatedAt n + int (count_list calls i) * 300000000000) \<or>
       ne_Status n = ''succeeded'' \<and> count_list calls i \<in> {1, 2, 3} \<or> ne_Status n = ''failed'' \<and> count_list calls i = 3) \<and>
      (ne_Status n = ''succeeded'' \<or> ne_Status n = ''failed'' \<longrightarrow>
        (\<forall>st2 w2 calls2. (audit_turn deliver)\<^sup>*\<^sup>* (st, w, calls) (st2, w2, calls2) \<longrightarrow>
          mget (ad_notificationsByID st2) i = Some n \<and> count_list calls2 i = count_list calls i)))"
proof -
  have "notes_wf st0" "calls_ok st0 []" using assms(1) by (simp_all add: notes_wf_def calls_ok_def)
  then have wf: "notes_wf st" and c: "calls_ok st calls" using turns_keep [OF assms(2)] by simp_all
  have tried: "int (count_list calls i) = ne_AttemptCount n" "note_ok n" if "mget (ad_notificationsByID st) i = Some n" for i n
    using c wf that by (auto simp: calls_ok_def notes_wf_def dest: spec [of _ i])
  have three: "count_list calls i \<le> 3" for i
  proof (cases "mget (ad_notificationsByID st) i")
    case None
    with c have "int (count_list calls i) = 0" by (simp add: calls_ok_def)
    then show ?thesis by simp
  next
    case (Some n)
    with tried [OF Some] show ?thesis by (auto simp: note_ok_def maxDeliveryAttempts_def)
  qed
  have states: "ne_Status n = ''pending'' \<and> count_list calls i = 0 \<or>
       ne_Status n = ''retry'' \<and> count_list calls i \<in> {1, 2} \<and>
         ne_NextRetryAt n = Some (ne_UpdatedAt n + int (count_list calls i) * 300000000000) \<or>
       ne_Status n = ''succeeded'' \<and> count_list calls i \<in> {1, 2, 3} \<or> ne_Status n = ''failed'' \<and> count_list calls i = 3"
    if "mget (ad_notificationsByID st) i = Some n" for i n
    using tried [OF that] by (auto simp: note_ok_def maxDeliveryAttempts_def retryBaseInterval_def)
  have final: "mget (ad_notificationsByID st2) i = Some n \<and> count_list calls2 i = count_list calls i"
    if n: "mget (ad_notificationsByID st) i = Some n" "ne_Status n = ''succeeded'' \<or> ne_Status n = ''failed''"
      and t: "(audit_turn deliver)\<^sup>*\<^sup>* (st, w, calls) (st2, w2, calls2)" for i n st2 w2 calls2
  proof -
    from turns_keep [OF t] wf c n have k: "mget (ad_notificationsByID st2) i = Some n" "calls_ok st2 calls2" by (auto simp: waiting_def)
    then have "int (count_list calls2 i) = ne_AttemptCount n" by (simp add: calls_ok_def)
    with tried(1) [OF n(1)] k(1) show ?thesis by simp
  qed
  show ?thesis
  proof (intro conjI allI impI)
    show "count_list calls i \<le> 3" for i by (rule three)
  next
    fix i n assume n: "mget (ad_notificationsByID st) i = Some n"
    show "ne_AttemptCount n = int (count_list calls i)" by (rule tried(1) [OF n, symmetric])
    show "ne_Status n = ''pending'' \<and> count_list calls i = 0 \<or>
       ne_Status n = ''retry'' \<and> count_list calls i \<in> {1, 2} \<and>
         ne_NextRetryAt n = Some (ne_UpdatedAt n + int (count_list calls i) * 300000000000) \<or>
       ne_Status n = ''succeeded'' \<and> count_list calls i \<in> {1, 2, 3} \<or> ne_Status n = ''failed'' \<and> count_list calls i = 3"
      by (rule states [OF n])
    fix st2 w2 calls2 assume "ne_Status n = ''succeeded'' \<or> ne_Status n = ''failed''" "(audit_turn deliver)\<^sup>*\<^sup>* (st, w, calls) (st2, w2, calls2)"
    from final [OF n this] show "mget (ad_notificationsByID st2) i = Some n" "count_list calls2 i = count_list calls i" by simp_all
  qed
qed

theorem deliveries_end_witness:
  "\<exists>st n. (audit_turn stub_Deliver)\<^sup>*\<^sup>* (hooked_store, (), []) (st, (), [''n'']) \<and> mget (ad_notificationsByID st) ''n'' = Some n \<and>
     ne_Status n = ''retry'' \<and> ne_AttemptCount n = 1"
proof -
  let ?r = "RecordEvent (counted stub_Deliver) hooked_store demo_scope demo_input (\<lambda>k. int k + 5) ''e1'' demo_ids ((), [])"
  have c1: "case mget (ad_notificationsByID (fst (snd ?r))) ''n'' of Some n \<Rightarrow> ne_Status n = ''retry'' | None \<Rightarrow> False" by code_simp
  have c2: "snd (snd (snd ?r)) = [''n'']" by code_simp
  have case_some: "\<exists>n. x = Some n \<and> P n" if "case x of Some n \<Rightarrow> P n | None \<Rightarrow> False" for x :: "notification_event option" and P
    using that by (cases x) simp_all
  from case_some [OF c1] obtain n where n: "mget (ad_notificationsByID (fst (snd ?r))) ''n'' = Some n" "ne_Status n = ''retry''" by blast
  have parts: "x = (fst x, (), k)" if "snd (snd x) = k" for x :: "audit_store \<times> unit \<times> string list" and k
    using that by (cases x) simp
  note a = parts [OF c2]
  have e: "ad_notificationsByID hooked_store = []" by (simp add: hooked_store_def NewAuditService_def)
  have "audit_turn stub_Deliver (hooked_store, (), []) (snd ?r)" by (rule audit_turn.recording [OF demo_ids_inj]) (simp add: e)
  then have t: "(audit_turn stub_Deliver)\<^sup>*\<^sup>* (hooked_store, (), []) (fst (snd ?r), (), [''n''])"
    unfolding a [symmetric] by (rule r_into_rtranclp)
  from n t obtain st where st: "mget (ad_notificationsByID st) ''n'' = Some n"
      "(audit_turn stub_Deliver)\<^sup>*\<^sup>* (hooked_store, (), []) (st, (), [''n''])" by blast
  from deliveries_end [OF e st(2)] st(1) have "ne_AttemptCount n = int (count_list [''n''] ''n'')" by blast
  with st n(2) show ?thesis by auto
qed

text \<open>Two deliveries of one notification at once are not kept apart: a second one begins while the first is under way, so the
  endpoint is called twice, and when the first succeeds and the second fails the notification waits for a retry although
  it was delivered.\<close>

theorem racing_deliveries_send_twice:
  assumes "mget (ad_notificationsByID st) i = Some n" "ne_ID n = i" "ne_AttemptCount n = 0"
    and "mget (ad_webhooksByID st) (ne_WebhookEndpointID n) = Some ep" "wh_Scope ep = ne_Scope n"
  shows "\<exists>n1 st1 n2 st2 n3 n4. begin_delivery st i t1 = Inr (ep, n1, st1) \<and> begin_delivery st1 i t2 = Inr (ep, n2, st2) \<and>
    mget (ad_notificationsByID (finish_delivery st2 i None t3)) i = Some n3 \<and> ne_Status n3 = ''succeeded'' \<and>
    mget (ad_notificationsByID (finish_delivery (finish_delivery st2 i None t3) i (Some e) t4)) i = Some n4 \<and>
    ne_Status n4 = ''retry'' \<and> ne_DeliveredAt n4 = Some t3 \<and> is_due n4 (t4 + 2 * retryBaseInterval)"
proof -
  define n1 where "n1 = n\<lparr>ne_Status := ''delivering'', ne_AttemptCount := 1, ne_UpdatedAt := t1, ne_NextRetryAt := None\<rparr>"
  define st1 where "st1 = st\<lparr>ad_notificationsByID := mput i n1 (ad_notificationsByID st)\<rparr>"
  define n2 where "n2 = n1\<lparr>ne_Status := ''delivering'', ne_AttemptCount := 2, ne_UpdatedAt := t2, ne_NextRetryAt := None\<rparr>"
  define st2 where "st2 = st1\<lparr>ad_notificationsByID := mput i n2 (ad_notificationsByID st1)\<rparr>"
  have "begin_delivery st i t1 = Inr (ep, n1, st1)" using assms by (simp add: begin_delivery_def n1_def st1_def Let_def)
  moreover have "begin_delivery st1 i t2 = Inr (ep, n2, st2)"
    using assms by (simp add: begin_delivery_def n2_def st2_def st1_def n1_def Let_def)
  moreover have "ne_ID n2 = i" "ne_AttemptCount n2 = 2" using assms by (simp_all add: n2_def n1_def)
  moreover have "mget (ad_notificationsByID st2) i = Some n2" by (simp add: st2_def)
  ultimately show ?thesis
    by (simp add: finish_delivery_def delivered_def Let_def maxDeliveryAttempts_def is_due_def)
qed

theorem racing_deliveries_send_twice_witness:
  "\<exists>st1 ids n1 st2 n2 st3. store_event hooked_store
       \<lparr>ae_ID = ''e1'', ae_Scope = demo_scope, ae_ActorType = ''user'', ae_ActorID = ''u1'', ae_Action = ''domain.created'',
        ae_ResourceType = ''domain'', ae_ResourceID = [], ae_RequestID = [], ae_TraceID = [], ae_Detail = [], ae_OccurredAt = 1,
        ae_CreatedAt = 1, ae_UpdatedAt = 1\<rparr> demo_ids = (ids, st1) \<and>
     begin_delivery st1 ''n'' 2 = Inr (demo_hook, n1, st2) \<and> begin_delivery st2 ''n'' 3 = Inr (demo_hook, n2, st3)"
proof -
  define ev where "ev = \<lparr>ae_ID = ''e1'', ae_Scope = demo_scope, ae_ActorType = ''user'', ae_ActorID = ''u1'', ae_Action = ''domain.created'',
        ae_ResourceType = ''domain'', ae_ResourceID = [], ae_RequestID = [], ae_TraceID = [], ae_Detail = [], ae_OccurredAt = 1,
        ae_CreatedAt = 1, ae_UpdatedAt = 1\<rparr>"
  obtain ids st1 where s: "store_event hooked_store ev demo_ids = (ids, st1)" by fastforce
  have m: "matchesEventType [''domain.*''] ''domain.created''" by code_simp
  have ns: "notifications_for ev (map snd (ad_webhooksByID hooked_store)) demo_ids = [new_notification ev demo_hook ''n'']"
    using m by (simp add: notifications_for_def hooked_store_def subscribed_def demo_hook_def ev_def demo_ids_def)
  have st1: "ad_notificationsByID st1 = mput ''n'' (new_notification ev demo_hook ''n'') []" "ad_webhooksByID st1 = [(''h1'', demo_hook)]"
    using s ns by (auto simp: store_event_def new_notification_def hooked_store_def NewAuditService_def Let_def)
  have "mget (ad_notificationsByID st1) ''n'' = Some (new_notification ev demo_hook ''n'')" by (simp add: st1)
  from racing_deliveries_send_twice [OF this, of demo_hook 2 3] s show ?thesis
    by (fastforce simp: new_notification_def st1 demo_hook_def ev_def)
qed

end
