(* ===== verification/GovernanceProps.thy ===== *)
theory GovernanceProps
  imports Governance AuditProps DomainProps
begin

text \<open>
  The governance services keep to their interfaces: targets, DNS credentials, domains and webhook endpoints are found only
  in their scope and have one name each in an environment; settings stay within their bounds, and what two partial
  updates at once do.
\<close>

section \<open>Interfaces\<close>

interpretation target_scoped: scoped_store "\<lambda>st i. map_option cloneTarget (mget (tgs_byID st) i)" tg_Scope target_Get "\<lambda>i. TrimSpace i = []"
proof (unfold_locales, goal_cases)
  case (2 sc st i)
  then show ?case using invalid_scope_Validate by (fastforce simp: target_Get_def)
next
  case (3 i st sc)
  then show ?case using invalid_scope_Validate [of sc] by (cases "valid_scope sc") (auto simp: target_Get_def)
qed (auto simp: target_Get_def scoped_get_def cloneTarget_def)

interpretation credential_scoped: scoped_store "\<lambda>st. mget (dcs_byID st)" dc_Scope credential_Get "\<lambda>i. TrimSpace i = []"
proof (unfold_locales, goal_cases)
  case (2 sc st i)
  then show ?case using invalid_scope_Validate by (fastforce simp: credential_Get_def)
next
  case (3 i st sc)
  then show ?case using invalid_scope_Validate [of sc] by (cases "valid_scope sc") (auto simp: credential_Get_def)
qed (auto simp: credential_Get_def scoped_get_def)

inductive target_step :: "target_store \<Rightarrow> target_store \<Rightarrow> bool" where
  created: "mget (tgs_byID st) newID = None \<Longrightarrow> target_step st (snd (target_Create st sc inp now newID))"
| updated: "target_step st (snd (target_Update st sc i inp now))"
| disabled: "target_step st (snd (target_Disable st sc i now))"

inductive credential_step :: "credential_store \<Rightarrow> credential_store \<Rightarrow> bool" where
  created: "mget (dcs_byID st) newID = None \<Longrightarrow> credential_step st (snd (credential_Create st sc inp now newID))"
| updated: "credential_step st (snd (credential_Update st sc i inp now))"
| rotated: "credential_step st (snd (credential_Rotate st sc i now))"

inductive webhook_step :: "audit_store \<Rightarrow> audit_store \<Rightarrow> bool" where
  created: "mget (ad_webhooksByID st) newID = None \<Longrightarrow> webhook_step st (snd (CreateWebhookEndpoint parse_url st sc inp now newID))"
| updated: "webhook_step st (snd (UpdateWebhookEndpoint parse_url st sc i inp now))"
| else_where: "ad_webhooksByID st' = ad_webhooksByID st \<Longrightarrow> ad_webhookNameByEnvScope st' = ad_webhookNameByEnvScope st \<Longrightarrow> webhook_step st st'"

definition target_key :: "target \<Rightarrow> string" where
  "target_key t = envKey (tg_Scope t) (tg_Name t)"

definition credential_key :: "dns_credential \<Rightarrow> string" where
  "credential_key c = envKey (dc_Scope c) (dc_DisplayName c)"

definition webhook_key :: "webhook_endpoint \<Rightarrow> string" where
  "webhook_key w = webhookKey (wh_Scope w) (wh_Name w)"

lemma kept_name: "move_name names i k k = Some names"
  by (simp add: move_name_def)

lemma target_Create_cases:
  assumes "t = new_target sc inp now newID"
  shows "snd (target_Create st sc inp now newID) = st \<or>
    (mget (tgs_byEnvName st) (target_key t) = None \<and> snd (target_Create st sc inp now newID) =
      st\<lparr>tgs_byID := mput newID t (tgs_byID st), tgs_byEnvName := mput (target_key t) newID (tgs_byEnvName st)\<rparr>)"
  unfolding assms by (auto simp: target_Create_def target_key_def new_target_def Let_def split: option.splits)

lemma target_Create_keeps:
  assumes "mget (tgs_byID st) newID = None"
  shows "keeps_names tgs_byID tgs_byEnvName tg_ID target_key st (snd (target_Create st sc inp now newID))"
  using target_Create_cases [OF refl, of st sc inp now newID]
proof (elim disjE conjE)
  let ?t = "new_target sc inp now newID"
  assume k: "mget (tgs_byEnvName st) (target_key ?t) = None"
    and e: "snd (target_Create st sc inp now newID) =
      st\<lparr>tgs_byID := mput newID ?t (tgs_byID st), tgs_byEnvName := mput (target_key ?t) newID (tgs_byEnvName st)\<rparr>"
  have i: "tg_ID ?t = newID" by (simp add: new_target_def)
  show ?thesis unfolding e by (rule keeps_created [where i = newID and r = ?t]) (simp_all add: i k assms)
qed (simp add: keeps_same)

lemma target_Update_cases:
  "snd (target_Update st sc i inp now) = st \<or>
   (\<exists>t names. mget (tgs_byID st) i = Some t \<and> tg_Scope t = sc \<and>
     move_name (tgs_byEnvName st) (tg_ID t) (target_key t) (target_key (target_apply t inp now)) = Some names \<and>
     snd (target_Update st sc i inp now) = st\<lparr>tgs_byID := mput (tg_ID t) (target_apply t inp now) (tgs_byID st), tgs_byEnvName := names\<rparr>)"
  by (auto simp: target_Update_def target_key_def target_apply_def Let_def split: option.splits sum.splits)

lemma target_Disable_cases:
  "snd (target_Disable st sc i now) = st \<or>
   (\<exists>t. mget (tgs_byID st) i = Some t \<and>
     snd (target_Disable st sc i now) = st\<lparr>tgs_byID := mput (tg_ID t) (t\<lparr>tg_Status := ''disabled'', tg_UpdatedAt := now\<rparr>) (tgs_byID st)\<rparr>)"
  by (auto simp: target_Disable_def Let_def split: option.splits sum.splits)

lemma target_Update_keeps: "keeps_names tgs_byID tgs_byEnvName tg_ID target_key st (snd (target_Update st sc i inp now))"
  using target_Update_cases [of st sc i inp now]
proof (elim disjE exE conjE)
  fix t names assume t: "mget (tgs_byID st) i = Some t"
    and m: "move_name (tgs_byEnvName st) (tg_ID t) (target_key t) (target_key (target_apply t inp now)) = Some names"
    and e: "snd (target_Update st sc i inp now) = st\<lparr>tgs_byID := mput (tg_ID t) (target_apply t inp now) (tgs_byID st), tgs_byEnvName := names\<rparr>"
  show ?thesis unfolding e by (rule keeps_changed [where i = i and r = t and r' = "target_apply t inp now"]) (simp_all add: t m, simp add: target_apply_def)
qed (simp add: keeps_same)

lemma target_Disable_keeps: "keeps_names tgs_byID tgs_byEnvName tg_ID target_key st (snd (target_Disable st sc i now))"
  using target_Disable_cases [of st sc i now]
proof (elim disjE exE conjE)
  fix t assume t: "mget (tgs_byID st) i = Some t"
    and e: "snd (target_Disable st sc i now) = st\<lparr>tgs_byID := mput (tg_ID t) (t\<lparr>tg_Status := ''disabled'', tg_UpdatedAt := now\<rparr>) (tgs_byID st)\<rparr>"
  show ?thesis unfolding e by (rule keeps_changed [where i = i and r = t and r' = "t\<lparr>tg_Status := ''disabled'', tg_UpdatedAt := now\<rparr>"]) (simp_all add: t target_key_def kept_name)
qed (simp add: keeps_same)

interpretation target_names: named_store tgs_byID tgs_byEnvName tg_ID target_key target_step NewTargetService
proof (unfold_locales, goal_cases)
  case (2 st st')
  then show ?case by cases (simp_all add: target_Create_keeps target_Update_keeps target_Disable_keeps)
qed (simp add: NewTargetService_def)

lemma credential_Create_cases:
  assumes "c = new_credential sc inp now newID"
  shows "snd (credential_Create st sc inp now newID) = st \<or>
    (mget (dcs_byEnvName st) (credential_key c) = None \<and> snd (credential_Create st sc inp now newID) =
      st\<lparr>dcs_byID := mput newID c (dcs_byID st), dcs_byEnvName := mput (credential_key c) newID (dcs_byEnvName st)\<rparr>)"
  unfolding assms by (auto simp: credential_Create_def credential_key_def new_credential_def Let_def split: option.splits)

lemma credential_Create_keeps:
  assumes "mget (dcs_byID st) newID = None"
  shows "keeps_names dcs_byID dcs_byEnvName dc_ID credential_key st (snd (credential_Create st sc inp now newID))"
  using credential_Create_cases [OF refl, of st sc inp now newID]
proof (elim disjE conjE)
  let ?c = "new_credential sc inp now newID"
  assume k: "mget (dcs_byEnvName st) (credential_key ?c) = None"
    and e: "snd (credential_Create st sc inp now newID) =
      st\<lparr>dcs_byID := mput newID ?c (dcs_byID st), dcs_byEnvName := mput (credential_key ?c) newID (dcs_byEnvName st)\<rparr>"
  have i: "dc_ID ?c = newID" by (simp add: new_credential_def)
  show ?thesis unfolding e by (rule keeps_created [where i = newID and r = ?c]) (simp_all add: i k assms)
qed (simp add: keeps_same)

lemma credential_Update_cases:
  "snd (credential_Update st sc i inp now) = st \<or>
   (\<exists>c names. mget (dcs_byID st) i = Some c \<and> dc_Scope c = sc \<and>
     move_name (dcs_byEnvName st) (dc_ID c) (credential_key c) (credential_key (credential_apply c inp now)) = Some names \<and>
     snd (credential_Update st sc i inp now) = st\<lparr>dcs_byID := mput (dc_ID c) (credential_apply c inp now) (dcs_byID st), dcs_byEnvName := names\<rparr>)"
  by (auto simp: credential_Update_def credential_key_def credential_apply_def Let_def split: option.splits sum.splits)

lemma credential_Rotate_cases:
  "snd (credential_Rotate st sc i now) = st \<or>
   (\<exists>c. mget (dcs_byID st) i = Some c \<and> snd (credential_Rotate st sc i now) =
     st\<lparr>dcs_byID := mput (dc_ID c) (c\<lparr>dc_LastRotatedAt := Some now, dc_Status := ''active'', dc_UpdatedAt := now\<rparr>) (dcs_byID st)\<rparr>)"
  by (auto simp: credential_Rotate_def Let_def split: sum.splits)

lemma credential_Update_keeps: "keeps_names dcs_byID dcs_byEnvName dc_ID credential_key st (snd (credential_Update st sc i inp now))"
  using credential_Update_cases [of st sc i inp now]
proof (elim disjE exE conjE)
  fix c names assume c: "mget (dcs_byID st) i = Some c"
    and m: "move_name (dcs_byEnvName st) (dc_ID c) (credential_key c) (credential_key (credential_apply c inp now)) = Some names"
    and e: "snd (credential_Update st sc i inp now) = st\<lparr>dcs_byID := mput (dc_ID c) (credential_apply c inp now) (dcs_byID st), dcs_byEnvName := names\<rparr>"
  show ?thesis unfolding e by (rule keeps_changed [where i = i and r = c and r' = "credential_apply c inp now"]) (simp_all add: c m, simp add: credential_apply_def)
qed (simp add: keeps_same)

lemma credential_Rotate_keeps: "keeps_names dcs_byID dcs_byEnvName dc_ID credential_key st (snd (credential_Rotate st sc i now))"
  using credential_Rotate_cases [of st sc i now]
proof (elim disjE exE conjE)
  fix c assume c: "mget (dcs_byID st) i = Some c" and e: "snd (credential_Rotate st sc i now) =
    st\<lparr>dcs_byID := mput (dc_ID c) (c\<lparr>dc_LastRotatedAt := Some now, dc_Status := ''active'', dc_UpdatedAt := now\<rparr>) (dcs_byID st)\<rparr>"
  show ?thesis unfolding e
    by (rule keeps_changed [where i = i and r = c and r' = "c\<lparr>dc_LastRotatedAt := Some now, dc_Status := ''active'', dc_UpdatedAt := now\<rparr>"])
      (simp_all add: c credential_key_def kept_name)
qed (simp add: keeps_same)

interpretation credential_names: named_store dcs_byID dcs_byEnvName dc_ID credential_key credential_step NewCredentialService
proof (unfold_locales, goal_cases)
  case (2 st st')
  then show ?case by cases (simp_all add: credential_Create_keeps credential_Update_keeps credential_Rotate_keeps)
qed (simp add: NewCredentialService_def)

lemma webhook_renamed_eq: "webhook_renamed names i oldKey newKey = move_name names i oldKey newKey"
  by (simp add: webhook_renamed_def move_name_def)

lemma webhook_Create_keeps:
  assumes "mget (ad_webhooksByID st) newID = None"
  shows "keeps_names ad_webhooksByID ad_webhookNameByEnvScope wh_ID webhook_key st (snd (CreateWebhookEndpoint parse_url st sc inp now newID))"
proof (cases "snd (CreateWebhookEndpoint parse_url st sc inp now newID) = st")
  case False
  then obtain n where n: "normalizeWebhookInput parse_url inp True = Inr n" and k: "mget (ad_webhookNameByEnvScope st) (webhookKey sc (nw_Name n)) = None"
    and v: "scope_Validate sc = None"
    by (auto simp: CreateWebhookEndpoint_def Let_def split: option.splits sum.splits if_splits)
  show ?thesis by (rule keeps_created [where i = newID])
    (simp add: CreateWebhookEndpoint_def Let_def n k v, simp_all add: CreateWebhookEndpoint_def Let_def n k v assms webhook_key_def)
qed (simp add: keeps_same)

lemma webhook_Update_keeps:
  "keeps_names ad_webhooksByID ad_webhookNameByEnvScope wh_ID webhook_key st (snd (UpdateWebhookEndpoint parse_url st sc i inp now))"
proof (cases "snd (UpdateWebhookEndpoint parse_url st sc i inp now) = st")
  case False
  then obtain n ep names where n: "normalizeWebhookInput parse_url inp False = Inr n" "TrimSpace i \<noteq> []"
    and ep: "mget (ad_webhooksByID st) i = Some ep" "wh_Scope ep = sc" and v: "valid_scope sc"
    and m: "move_name (ad_webhookNameByEnvScope st) (wh_ID ep) (webhookKey sc (wh_Name ep)) (webhookKey sc (nw_Name n)) = Some names"
    by (auto simp: UpdateWebhookEndpoint_def Let_def webhook_renamed_eq split: option.splits sum.splits if_splits)
  show ?thesis by (rule keeps_changed [where i = i and r = ep])
    (simp add: ep, simp add: UpdateWebhookEndpoint_def Let_def webhook_renamed_eq scoped_get_def n ep v m,
     simp_all add: UpdateWebhookEndpoint_def Let_def webhook_renamed_eq webhook_key_def scoped_get_def n ep v m)
qed (simp add: keeps_same)

interpretation webhook_names: named_store ad_webhooksByID ad_webhookNameByEnvScope wh_ID webhook_key webhook_step NewAuditService
proof (unfold_locales, goal_cases)
  case (2 st st')
  then show ?case by cases (simp_all add: webhook_Create_keeps webhook_Update_keeps keeps_same)
qed (simp add: NewAuditService_def)

definition domain_key :: "domain_asset \<Rightarrow> string" where
  "domain_key a = envKey (da_Scope a) (da_DomainName a)"

lemma rename_eq: "\<not> rename_taken st a k k' \<Longrightarrow>
    move_name (ds_byEnvDomain st) (da_ID a) k k' = Some (rename_index (ds_byEnvDomain st) (da_ID a) k k')"
  by (auto simp: move_name_def rename_taken_def rename_index_def split: option.splits)

lemma domain_Create_keeps:
  assumes "domain_Create st sc inp now i = (Inr a, st')" "mget (ds_byID st) i = None"
  shows "keeps_names ds_byID ds_byEnvDomain da_ID domain_key st st'"
proof (rule keeps_created [where i = i and r = a])
  note ok = domain_Create_ok [OF assms(1)]
  show "mget (ds_byEnvDomain st) (domain_key a) = None" unfolding domain_key_def ok(3) by (rule ok(6))
qed (simp_all add: domain_Create_ok(3,4,7) [OF assms(1)] assms(2) domain_key_def)

lemma keeps_refl: "keeps_names recs names ident key st st"
  by (simp add: keeps_same)

lemma domain_Update_keeps:
  assumes "domain_Update st sc i inp now = (Inr a', st')"
  shows "keeps_names ds_byID ds_byEnvDomain da_ID domain_key st st'"
proof -
  from domain_Update_ok [OF assms] obtain a where a: "mget (ds_byID st) i = Some a" "da_Scope a = sc" "da_Scope a' = sc" "da_ID a' = da_ID a"
    and r: "\<not> rename_taken st a (envKey sc (da_DomainName a)) (envKey sc (da_DomainName a'))"
    and st': "st' = st\<lparr>ds_byID := mput (da_ID a) a' (ds_byID st),
      ds_byEnvDomain := rename_index (ds_byEnvDomain st) (da_ID a) (envKey sc (da_DomainName a)) (envKey sc (da_DomainName a'))\<rparr>"
    by blast
  show ?thesis unfolding st' by (rule keeps_changed [where i = i and r = a and r' = a'])
    (simp_all add: a domain_key_def rename_eq [OF r])
qed

lemma domain_Bind_keeps:
  assumes "domain_BindDNSCredential st sc i cred prov now = (Inr a', st')"
  shows "keeps_names ds_byID ds_byEnvDomain da_ID domain_key st st'"
proof -
  note ok = assms [unfolded domain_BindDNSCredential_def Let_def, simplified result_simps]
  then obtain a where a: "mget (ds_byID st) i = Some a"
    and a': "a' = a\<lparr>da_DNSCredentialID := TrimSpace cred, da_DefaultDNSProvider := normToken prov, da_UpdatedAt := now\<rparr>"
    and st': "st' = st\<lparr>ds_byID := mput (da_ID a) a' (ds_byID st)\<rparr>" by auto
  show ?thesis unfolding st' by (rule keeps_changed [where i = i and r = a and r' = a']) (simp_all add: a a' domain_key_def kept_name)
qed

lemma domain_Link_keeps: "domain_LinkCertificateAsset st sc i ref = (r, st') \<Longrightarrow> keeps_names ds_byID ds_byEnvDomain da_ID domain_key st st'"
  by (rule keeps_same) (auto simp: domain_LinkCertificateAsset_def Let_def split: sum.splits if_splits)

interpretation domain_names: named_store ds_byID ds_byEnvDomain da_ID domain_key domain_step NewDomainService
proof (unfold_locales, goal_cases)
  case (2 st st')
  then show ?case
  proof cases
    case (created i sc inp now r)
    then show ?thesis by (cases r) (auto dest: domain_errs(1) intro: domain_Create_keeps simp: keeps_refl)
  next
    case (updated sc i inp now r)
    then show ?thesis by (cases r) (auto dest: domain_errs(2) intro: domain_Update_keeps simp: keeps_refl)
  next
    case (bound sc i cred prov now r)
    then show ?thesis by (cases r) (auto dest: domain_errs(3) intro: domain_Bind_keeps simp: keeps_refl)
  next
    case (linked sc i ref r)
    then show ?thesis by (intro domain_Link_keeps)
  qed
qed (simp add: NewDomainService_def)

section \<open>One name, one record\<close>

lemma distinct_map_sort_key [simp]: "distinct (map f (sort_key g xs)) \<longleftrightarrow> distinct (map f xs)"
proof -
  have "mset (map f (sort_key g xs)) = mset (map f xs)" by simp
  then show ?thesis by (rule mset_eq_imp_distinct_iff)
qed

lemma target_List_names: "target_List st sc = Inr ts \<Longrightarrow>
    distinct (map tg_Name ts) \<longleftrightarrow> distinct (map tg_Name (filter (\<lambda>t. tg_Scope t = sc) (map snd (tgs_byID st))))"
  by (auto simp: target_List_def cloneTarget_def comp_def split: option.splits)

lemma credential_List_names: "credential_List st sc = Inr cs \<Longrightarrow>
    distinct (map dc_DisplayName cs) \<longleftrightarrow> distinct (map dc_DisplayName (filter (\<lambda>c. dc_Scope c = sc) (map snd (dcs_byID st))))"
  by (auto simp: credential_List_def split: option.splits)

lemma webhook_List_names: "ListWebhookEndpoints st sc = Inr ws \<Longrightarrow>
    distinct (map wh_Name ws) \<longleftrightarrow> distinct (map wh_Name (filter (\<lambda>w. wh_Scope w = sc) (map snd (ad_webhooksByID st))))"
  by (auto simp: ListWebhookEndpoints_def split: option.splits)

lemma domain_List_names: "domain_List st sc = Inr ds \<Longrightarrow>
    distinct (map da_DomainName ds) \<longleftrightarrow> distinct (map da_DomainName (filter (\<lambda>a. da_Scope a = sc) (map snd (ds_byID st))))"
  by (auto simp: domain_List_def split: option.splits)

text \<open>C20: the names an environment lists are distinct: whatever domains, targets, DNS credentials and webhook endpoints were created,
  updated, renamed, rotated or disabled, and in whatever order, no list shows one domain twice, two deployment targets of one
  name, two credentials of one display name or two webhook endpoints of one name. And the index of each store has exactly
  the names the stored records bear by now, each with the identifier of its record: a rename has taken the old name out of
  it and put the new one in.\<close>

theorem governance_names_are_unique:
  assumes "domain_step\<^sup>*\<^sup>* NewDomainService dst" "domain_List dst sc = Inr ds"
    and "target_step\<^sup>*\<^sup>* NewTargetService tst" "target_List tst sc = Inr ts"
    and "credential_step\<^sup>*\<^sup>* NewCredentialService cst" "credential_List cst sc = Inr cs"
    and "webhook_step\<^sup>*\<^sup>* NewAuditService ast" "ListWebhookEndpoints ast sc = Inr ws"
  shows "distinct (map da_DomainName ds) \<and> distinct (map tg_Name ts) \<and> distinct (map dc_DisplayName cs) \<and> distinct (map wh_Name ws) \<and>
    (\<forall>k i. (mget (ds_byEnvDomain dst) k = Some i \<longleftrightarrow>
        (\<exists>a. mget (ds_byID dst) i = Some a \<and> envKey (da_Scope a) (da_DomainName a) = k)) \<and>
      (mget (tgs_byEnvName tst) k = Some i \<longleftrightarrow> (\<exists>t. mget (tgs_byID tst) i = Some t \<and> envKey (tg_Scope t) (tg_Name t) = k)) \<and>
      (mget (dcs_byEnvName cst) k = Some i \<longleftrightarrow>
        (\<exists>c. mget (dcs_byID cst) i = Some c \<and> envKey (dc_Scope c) (dc_DisplayName c) = k)) \<and>
      (mget (ad_webhookNameByEnvScope ast) k = Some i \<longleftrightarrow>
        (\<exists>w. mget (ad_webhooksByID ast) i = Some w \<and> webhookKey (wh_Scope w) (wh_Name w) = k)))"
  unfolding domain_List_names [OF assms(2)] target_List_names [OF assms(4)] credential_List_names [OF assms(6)] webhook_List_names [OF assms(8)]
    domain_names.index_exact [OF assms(1)] target_names.index_exact [OF assms(3)] credential_names.index_exact [OF assms(5)]
    webhook_names.index_exact [OF assms(7)]
  using domain_names.distinct_names [OF assms(1), of "\<lambda>a. da_Scope a = sc" "envKey sc" da_DomainName]
    target_names.distinct_names [OF assms(3), of "\<lambda>t. tg_Scope t = sc" "envKey sc" tg_Name]
    credential_names.distinct_names [OF assms(5), of "\<lambda>c. dc_Scope c = sc" "envKey sc" dc_DisplayName]
    webhook_names.distinct_names [OF assms(7), of "\<lambda>w. wh_Scope w = sc" "webhookKey sc" wh_Name]
  by (simp add: domain_key_def target_key_def credential_key_def webhook_key_def)

definition sample_env :: scope where
  "sample_env = \<lparr>TenantID = ''t'', ProjectID = ''p'', EnvironmentID = ''e''\<rparr>"

definition sample_target :: target_input where
  "sample_target = \<lparr>ti_Name = ''edge'', ti_TargetType = ''NGINX'', ti_AgentID = ''a1'', ti_AgentSelector = [], ti_ConfigPath = ''/etc/nginx/nginx.conf'',
     ti_CertificatePath = ''/etc/nginx/c.pem'', ti_PrivateKeyPath = ''/etc/nginx/k.pem'', ti_KeystorePath = []\<rparr>"

definition two_targets :: target_store where
  "two_targets = snd (target_Update (snd (target_Create (snd (target_Create NewTargetService sample_env sample_target 1 ''d1'')) sample_env
     (sample_target\<lparr>ti_Name := ''origin''\<rparr>) 2 ''d2'')) sample_env ''d1'' (sample_target\<lparr>ti_Name := ''front''\<rparr>) 3)"

lemma two_targets_reachable: "target_step\<^sup>*\<^sup>* NewTargetService two_targets"
proof -
  let ?a = "snd (target_Create NewTargetService sample_env sample_target 1 ''d1'')"
  let ?b = "snd (target_Create ?a sample_env (sample_target\<lparr>ti_Name := ''origin''\<rparr>) 2 ''d2'')"
  have "target_step NewTargetService ?a" by (rule target_step.created) (simp add: NewTargetService_def)
  moreover have "target_step ?a ?b" by (rule target_step.created) code_simp
  moreover have "target_step ?b two_targets" unfolding two_targets_def by (rule target_step.updated)
  ultimately show ?thesis by (meson r_into_rtranclp rtranclp_trans)
qed

theorem governance_names_are_unique_witness:
  "map (tg_Name \<circ> snd) (tgs_byID two_targets) = [''front'', ''origin'']
   \<and> (\<exists>ts. target_List two_targets sample_env = Inr ts \<and> distinct (map tg_Name ts))
   \<and> mget (tgs_byEnvName two_targets) (envKey sample_env ''front'') = Some ''d1''
   \<and> mget (tgs_byEnvName two_targets) (envKey sample_env ''edge'') \<noteq> Some ''d1''"
proof -
  have v: "scope_Validate sample_env = None" by code_simp
  obtain ts where l: "target_List two_targets sample_env = Inr ts" by (simp add: target_List_def v)
  have c: "credential_List NewCredentialService sample_env = Inr []" and w: "ListWebhookEndpoints NewAuditService sample_env = Inr []"
    by (simp_all add: credential_List_def ListWebhookEndpoints_def v NewCredentialService_def NewAuditService_def)
  have d: "domain_List NewDomainService sample_env = Inr []" by (simp add: domain_List_def v NewDomainService_def)
  note all = governance_names_are_unique [OF rtranclp.rtrancl_refl d two_targets_reachable l rtranclp.rtrancl_refl c rtranclp.rtrancl_refl w]
  have t: "case mget (tgs_byID two_targets) ''d1'' of Some t \<Rightarrow> tg_Name t = ''front'' \<and> tg_Scope t = sample_env \<and>
      envKey (tg_Scope t) (tg_Name t) \<noteq> envKey sample_env ''edge'' | None \<Rightarrow> False" by code_simp
  have some: "\<exists>t. x = Some t \<and> P t" if "case x of Some t \<Rightarrow> P t | None \<Rightarrow> False" for x :: "target option" and P using that by (cases x) simp_all
  from some [OF t] obtain t where t: "mget (tgs_byID two_targets) ''d1'' = Some t" "tg_Name t = ''front''" "tg_Scope t = sample_env"
      "envKey (tg_Scope t) (tg_Name t) \<noteq> envKey sample_env ''edge''" by blast
  from all have ix: "mget (tgs_byEnvName two_targets) k = Some i \<longleftrightarrow>
      (\<exists>t. mget (tgs_byID two_targets) i = Some t \<and> envKey (tg_Scope t) (tg_Name t) = k)" for k i by blast
  have "mget (tgs_byEnvName two_targets) (envKey sample_env ''front'') = Some ''d1''" unfolding ix using t by auto
  moreover have "mget (tgs_byEnvName two_targets) (envKey sample_env ''edge'') \<noteq> Some ''d1''" unfolding ix using t by auto
  moreover have "map (tg_Name \<circ> snd) (tgs_byID two_targets) = [''front'', ''origin'']" by code_simp
  ultimately show ?thesis using all l by blast
qed

section \<open>Settings\<close>

text \<open>
  The settings of all environments together with the updates under way: each has read the settings of its environment,
  patched them and not written the result back yet.
\<close>

inductive settings_step ::
  "settings_store \<times> (scope \<times> security_settings) list \<Rightarrow> settings_store \<times> (scope \<times> security_settings) list \<Rightarrow> bool" where
  renewal: "settings_step (st, ps) (snd (UpdateRenewalWindowSettings st sc days interval now), ps)"
| patched: "read_security st sc inp now = Inr current \<Longrightarrow> settings_step (st, ps) (st, (sc, current) # ps)"
| written: "(sc, current) \<in> set ps \<Longrightarrow> settings_step (st, ps) (write_security st sc current, removeAll (sc, current) ps)"

definition renewal_bounded :: "renewal_settings \<Rightarrow> bool" where
  "renewal_bounded r = (1 \<le> rn_DaysBeforeExpiry r \<and> rn_DaysBeforeExpiry r \<le> 365 \<and> 1 \<le> rn_ScanIntervalMinute r)"

definition security_bounded :: "security_settings \<Rightarrow> bool" where
  "security_bounded s = (1 \<le> se_PasswordRotationDays s \<and> 1 \<le> se_MaxSessionCount s)"

definition settings_bounded :: "settings_store \<times> (scope \<times> security_settings) list \<Rightarrow> bool" where
  "settings_bounded p = ((\<forall>k r. mget (stt_renewalByScope (fst p)) k = Some r \<longrightarrow> renewal_bounded r)
     \<and> (\<forall>k s. mget (stt_securityByScope (fst p)) k = Some s \<longrightarrow> security_bounded s)
     \<and> (\<forall>q \<in> set (snd p). security_bounded (snd q)))"

lemma security_patch_bounded:
  "validateSecurityInput inp = None \<Longrightarrow> security_bounded s \<Longrightarrow> security_bounded (security_patch s inp now)"
  by (auto simp: validateSecurityInput_def security_bounded_def security_patch_def below_one_def split: option.splits if_splits)

lemma GetSecurity_bounded: "settings_bounded (st, ps) \<Longrightarrow> GetSecuritySettings st sc = Inr s \<Longrightarrow> security_bounded s"
  by (auto simp: GetSecuritySettings_def settings_bounded_def security_bounded_def default_security_def split: option.splits)

lemma GetRenewal_bounded: "settings_bounded (st, ps) \<Longrightarrow> GetRenewalWindowSettings st sc = Inr r \<Longrightarrow> renewal_bounded r"
  by (auto simp: GetRenewalWindowSettings_def settings_bounded_def renewal_bounded_def default_renewal_def split: option.splits)

lemma read_security_bounded:
  assumes "settings_bounded (st, ps)" "read_security st sc inp now = Inr current"
  shows "security_bounded current"
proof -
  from assms(2) obtain s where "validateSecurityInput inp = None" "GetSecuritySettings st sc = Inr s" "current = security_patch s inp now"
    by (auto simp: read_security_def split: option.splits sum.splits)
  with security_patch_bounded GetSecurity_bounded [OF assms(1)] show ?thesis by blast
qed

lemma settings_step_bounded: "settings_step p p' \<Longrightarrow> settings_bounded p \<Longrightarrow> settings_bounded p'"
proof (induction rule: settings_step.induct)
  case (renewal st ps sc days interval now)
  then show ?case
    by (auto simp: settings_bounded_def renewal_bounded_def UpdateRenewalWindowSettings_def validateRenewalInput_def Let_def
      split: option.splits if_splits)
next
  case (patched st sc inp now current ps)
  from read_security_bounded [OF patched(2,1)] patched(2) show ?case by (auto simp: settings_bounded_def)
next
  case (written sc current ps st)
  then show ?case by (fastforce simp: settings_bounded_def write_security_def split: if_splits)
qed

lemma settings_start_bounded: "settings_bounded (NewSettingsService, [])"
  by (simp add: settings_bounded_def NewSettingsService_def)

lemma settings_reachable_bounded: "settings_step\<^sup>*\<^sup>* (NewSettingsService, []) p \<Longrightarrow> settings_bounded p"
  by (induction rule: rtranclp_induct) (rule settings_start_bounded, rule settings_step_bounded)

text \<open>Whatever updates ran and however the reads and writes of partial security updates interleaved, the settings an
  environment is given stay within their bounds, the defaults included: a renewal window of one to 365 days, a
  scan every minute at most, passwords and sessions limited to at least one.\<close>

theorem settings_stay_within_bounds:
  assumes "settings_step\<^sup>*\<^sup>* (NewSettingsService, []) (st, pending)"
    and "GetRenewalWindowSettings st sc = Inr r" "GetSecuritySettings st sc = Inr s"
  shows "1 \<le> rn_DaysBeforeExpiry r \<and> rn_DaysBeforeExpiry r \<le> 365 \<and> 1 \<le> rn_ScanIntervalMinute r
    \<and> 1 \<le> se_PasswordRotationDays s \<and> 1 \<le> se_MaxSessionCount s"
  using GetRenewal_bounded [OF settings_reachable_bounded [OF assms(1)] assms(2)] GetSecurity_bounded [OF settings_reachable_bounded [OF assms(1)] assms(3)]
  by (simp add: renewal_bounded_def security_bounded_def)

definition more_sessions :: security_input where
  "more_sessions = \<lparr>sei_EnforceStrongPassword = None, sei_PasswordRotationDays = None, sei_MaxSessionCount = Some 9\<rparr>"

definition slower_rotation :: security_input where
  "slower_rotation = \<lparr>sei_EnforceStrongPassword = None, sei_PasswordRotationDays = Some 180, sei_MaxSessionCount = None\<rparr>"

theorem settings_stay_within_bounds_witness:
  "let st = snd (UpdateRenewalWindowSettings NewSettingsService sample_env 365 1 5) in
     (\<exists>r s. GetRenewalWindowSettings st sample_env = Inr r \<and> rn_DaysBeforeExpiry r = 365 \<and> GetSecuritySettings st sample_env = Inr s
       \<and> 1 \<le> se_MaxSessionCount s)"
proof -
  let ?st = "snd (UpdateRenewalWindowSettings NewSettingsService sample_env 365 1 5)"
  have step: "settings_step\<^sup>*\<^sup>* (NewSettingsService, []) (?st, [])" by (rule r_into_rtranclp) (rule settings_step.renewal)
  have r: "GetRenewalWindowSettings ?st sample_env = Inr (projr (GetRenewalWindowSettings ?st sample_env))"
    and s: "GetSecuritySettings ?st sample_env = Inr default_security"
    and d: "rn_DaysBeforeExpiry (projr (GetRenewalWindowSettings ?st sample_env)) = 365" by code_simp+
  from settings_stay_within_bounds [OF step r s] r s d show ?thesis unfolding Let_def by blast
qed

text \<open>A partial update of the security settings is not atomic, although it patches the settings so that other fields are
  kept: when two updates of one environment both read before either writes, both succeed and answer with their own
  field set, and what is stored is the answer of the one that wrote last: a field that only the other one
  sets has its old value again.\<close>

theorem racing_settings_updates_lose_one:
  assumes "read_security st sc a now1 = Inr ra" "read_security st sc b now2 = Inr rb"
    and "sei_MaxSessionCount a = Some n" "sei_MaxSessionCount b = None"
    and "GetSecuritySettings st sc = Inr old"
  shows "se_MaxSessionCount ra = n
    \<and> GetSecuritySettings (write_security (write_security st sc ra) sc rb) sc = Inr rb \<and> se_MaxSessionCount rb = se_MaxSessionCount old
    \<and> se_MaxSessionCount (projr (fst (UpdateSecuritySettings (snd (UpdateSecuritySettings st sc a now1)) sc b now2))) = n"
proof (intro conjI)
  have v: "scope_Validate sc = None" "validateSecurityInput b = None" and r: "ra = security_patch old a now1" "rb = security_patch old b now2"
    using assms(1,2,5) by (auto simp: read_security_def split: option.splits sum.splits)
  show "se_MaxSessionCount ra = n" using r assms(3) by (simp add: security_patch_def)
  have g: "GetSecuritySettings (write_security q sc w) sc = Inr w" for q w using v by (simp add: GetSecuritySettings_def write_security_def)
  show "GetSecuritySettings (write_security (write_security st sc ra) sc rb) sc = Inr rb" by (rule g)
  show "se_MaxSessionCount rb = se_MaxSessionCount old" using r(2) assms(4) by (simp add: security_patch_def)
  have "read_security (write_security st sc ra) sc b now2 = Inr (security_patch ra b now2)" using v g by (simp add: read_security_def)
  then show "se_MaxSessionCount (projr (fst (UpdateSecuritySettings (snd (UpdateSecuritySettings st sc a now1)) sc b now2))) = n"
    using assms(1,3,4) r(1) by (simp add: UpdateSecuritySettings_def security_patch_def)
qed

theorem racing_settings_updates_lose_one_witness:
  "\<exists>ra rb. read_security NewSettingsService sample_env more_sessions 1 = Inr ra \<and> read_security NewSettingsService sample_env slower_rotation 2 = Inr rb
     \<and> se_MaxSessionCount ra = 9 \<and> se_MaxSessionCount rb = 5"
proof -
  let ?a = "read_security NewSettingsService sample_env more_sessions 1" and ?b = "read_security NewSettingsService sample_env slower_rotation 2"
  have ab: "?a = Inr (projr ?a)" "?b = Inr (projr ?b)" and old: "GetSecuritySettings NewSettingsService sample_env = Inr default_security" by code_simp+
  have i: "sei_MaxSessionCount more_sessions = Some 9" "sei_MaxSessionCount slower_rotation = None"
    by (simp_all add: more_sessions_def slower_rotation_def)
  from racing_settings_updates_lose_one [OF ab i old] have "se_MaxSessionCount (projr ?a) = 9" "se_MaxSessionCount (projr ?b) = 5" by (simp_all add: default_security_def)
  with ab show ?thesis by blast
qed

end
