(* ===== verification/DomainCommand.thy ===== *)
theory DomainCommand
  imports GovernanceProps
begin

text \<open>
  The governance commands on domains and DNS credentials (\<^verbatim>\<open>internal/application/command/domains/service.go\<close>) over the
  models of the two services, and what records their audit events: nothing, a list, or the audit
  service behind the adapter of \<^verbatim>\<open>internal/app/controlplane/wiring/audit_adapter.go\<close>. A recorder acts on the state
  \<open>'a\<close> of the audit side. An application error is its status and code; the field that the details of a
  validation error name is looked for in the message and is left out.
\<close>

section \<open>Events and their recorders\<close>

record governance_event =
  gve_Action :: string
  gve_ResourceType :: string
  gve_ResourceID :: string
  gve_ActorID :: string
  gve_Scope :: scope
  gve_OccurredAt :: gotime
  gve_Metadata :: details

text \<open>What a command draws on: the clock of the store it writes to, the identifier of a new record, the instant of the event,
  the clock and the identifiers of the audit service, and the identifier of the job that is answered.\<close>

record audit_draws =
  aw_clock :: "nat \<Rightarrow> gotime"
  aw_eventID :: string
  aw_noteIDs :: "nat \<Rightarrow> string"

record command_env =
  cv_now :: gotime
  cv_newID :: string
  cv_eventAt :: gotime
  cv_draws :: audit_draws
  cv_newJob :: string

type_synonym 'a audit_recorder = "audit_draws \<Rightarrow> governance_event \<Rightarrow> 'a \<Rightarrow> 'a"

definition NopAuditRecorder :: "'a audit_recorder" where
  "NopAuditRecorder draws ev a = a"

definition MemoryAuditRecorder :: "governance_event list audit_recorder" where
  "MemoryAuditRecorder draws ev events = events @ [ev]"

definition adapted_event :: "governance_event \<Rightarrow> event_input" where
  "adapted_event ev =
     (let actorID = TrimSpace (gve_ActorID ev) in
      \<lparr>ei_ActorType = (if actorID = [] then ''system'' else ''user''), ei_ActorID = (if actorID = [] then ''system'' else actorID),
       ei_Action = gve_Action ev, ei_ResourceType = gve_ResourceType ev, ei_ResourceID = gve_ResourceID ev,
       ei_RequestID = [], ei_TraceID = [], ei_Detail = gve_Metadata ev, ei_OccurredAt = gve_OccurredAt ev\<rparr>)"

definition domainsAuditRecorder :: "'w deliverer \<Rightarrow> (audit_store option \<times> 'w) audit_recorder" where
  "domainsAuditRecorder deliver draws ev a =
     (case a of
        (None, w) \<Rightarrow> (None, w)
      | (Some st, w) \<Rightarrow>
          (case RecordEvent deliver st (gve_Scope ev) (adapted_event ev) (aw_clock draws) (aw_eventID draws) (aw_noteIDs draws) w of
             (_, st', w') \<Rightarrow> (Some st', w')))"

section \<open>Errors\<close>

datatype app_error = AppError (ap_status: int) (ap_code: string)

definition translateDomainError :: "gerror \<Rightarrow> app_error" where
  "translateDomainError e =
     (if errorsIs e ErrNotFound then AppError 404 ''RESOURCE_NOT_FOUND''
      else if errorsIs e ErrConflict then AppError 409 ''RESOURCE_CONFLICT''
      else if errorsIs e ErrScopeMismatch then AppError 409 ''TENANT_SCOPE_MISMATCH''
      else if errorsIs e ErrValidation then AppError 400 ''REQUEST_VALIDATION_FAILED''
      else AppError 500 ''INTERNAL_ERROR'')"

definition translateDNSCredentialError :: "gerror \<Rightarrow> app_error" where
  "translateDNSCredentialError e =
     (if errorsIs e ErrNotFound then AppError 404 ''RESOURCE_NOT_FOUND''
      else if errorsIs e ErrConflict then AppError 409 ''RESOURCE_CONFLICT''
      else if errorsIs e ErrScopeMismatch then AppError 409 ''TENANT_SCOPE_MISMATCH''
      else if errorsIs e ErrUnavailable then AppError 409 ''DNS_CREDENTIAL_UNAVAILABLE''
      else if errorsIs e ErrValidation then AppError 400 ''REQUEST_VALIDATION_FAILED''
      else AppError 500 ''INTERNAL_ERROR'')"

section \<open>Commands\<close>

record domain_upsert =
  du_Name :: string
  du_ChallengeType :: string
  du_AutoRenew :: bool
  du_DNSCredentialID :: string

record accepted_governance =
  acg_Status :: string
  acg_JobID :: string

record 'a governance =
  gv_domains :: domain_store
  gv_dns :: credential_store
  gv_audit :: 'a

definition resolveDomainInput :: "credential_store \<Rightarrow> scope \<Rightarrow> domain_upsert \<Rightarrow> app_error + domain_input" where
  "resolveDomainInput dns sc inp =
     (let domainInput = \<lparr>di_Name = du_Name inp, di_ChallengeType = du_ChallengeType inp, di_AutoRenew = du_AutoRenew inp,
            di_DNSCredentialID = [], di_DNSProvider = []\<rparr> in
      if TrimSpace (du_DNSCredentialID inp) = [] then Inr domainInput
      else (case LookupAvailable dns sc (TrimSpace (du_DNSCredentialID inp)) of
        Inl e \<Rightarrow> Inl (translateDNSCredentialError e)
      | Inr ref \<Rightarrow> Inr (domainInput\<lparr>di_DNSCredentialID := crf_ID ref, di_DNSProvider := crf_ProviderType ref\<rparr>)))"

definition domain_event :: "string \<Rightarrow> command_env \<Rightarrow> scope \<Rightarrow> string \<Rightarrow> domain_asset \<Rightarrow> governance_event" where
  "domain_event action env sc actorID asset = \<lparr>gve_Action = action, gve_ResourceType = ''domain_asset'', gve_ResourceID = da_ID asset,
     gve_ActorID = actorID, gve_Scope = sc, gve_OccurredAt = cv_eventAt env,
     gve_Metadata = [(''name'', da_DomainName asset), (''challenge_type'', da_DefaultChallengeType asset)]\<rparr>"

definition CreateDomain ::
  "'a audit_recorder \<Rightarrow> 'a governance \<Rightarrow> command_env \<Rightarrow> scope \<Rightarrow> string \<Rightarrow> domain_upsert \<Rightarrow> (app_error + domain_asset) \<times> 'a governance" where
  "CreateDomain rec g env sc actorID inp =
     (case resolveDomainInput (gv_dns g) sc inp of
        Inl e \<Rightarrow> (Inl e, g)
      | Inr domainInput \<Rightarrow>
          (case domain_Create (gv_domains g) sc domainInput (cv_now env) (cv_newID env) of
             (Inl e, ds) \<Rightarrow> (Inl (translateDomainError e), g\<lparr>gv_domains := ds\<rparr>)
           | (Inr asset, ds) \<Rightarrow>
               (Inr asset, g\<lparr>gv_domains := ds, gv_audit := rec (cv_draws env) (domain_event ''domain.create'' env sc actorID asset) (gv_audit g)\<rparr>)))"

definition UpdateDomain ::
  "'a audit_recorder \<Rightarrow> 'a governance \<Rightarrow> command_env \<Rightarrow> scope \<Rightarrow> string \<Rightarrow> string \<Rightarrow> domain_upsert
     \<Rightarrow> (app_error + domain_asset) \<times> 'a governance" where
  "UpdateDomain rec g env sc actorID i inp =
     (case resolveDomainInput (gv_dns g) sc inp of
        Inl e \<Rightarrow> (Inl e, g)
      | Inr domainInput \<Rightarrow>
          (case domain_Update (gv_domains g) sc i domainInput (cv_now env) of
             (Inl e, ds) \<Rightarrow> (Inl (translateDomainError e), g\<lparr>gv_domains := ds\<rparr>)
           | (Inr asset, ds) \<Rightarrow>
               (Inr asset, g\<lparr>gv_domains := ds, gv_audit := rec (cv_draws env) (domain_event ''domain.update'' env sc actorID asset) (gv_audit g)\<rparr>)))"

definition BindDNSCredential ::
  "'a audit_recorder \<Rightarrow> 'a governance \<Rightarrow> command_env \<Rightarrow> scope \<Rightarrow> string \<Rightarrow> string \<Rightarrow> string
     \<Rightarrow> (app_error + accepted_governance) \<times> 'a governance" where
  "BindDNSCredential rec g env sc actorID domainID dnsCredentialID =
     (case LookupAvailable (gv_dns g) sc (TrimSpace dnsCredentialID) of
        Inl e \<Rightarrow> (Inl (translateDNSCredentialError e), g)
      | Inr ref \<Rightarrow>
          (case domain_BindDNSCredential (gv_domains g) sc domainID (crf_ID ref) (crf_ProviderType ref) (cv_now env) of
             (Inl e, ds) \<Rightarrow> (Inl (translateDomainError e), g\<lparr>gv_domains := ds\<rparr>)
           | (Inr asset, ds) \<Rightarrow>
               (Inr \<lparr>acg_Status = ''accepted'', acg_JobID = cv_newJob env\<rparr>,
                g\<lparr>gv_domains := ds, gv_audit := rec (cv_draws env)
                  \<lparr>gve_Action = ''domain.bind_dns_credential'', gve_ResourceType = ''domain_asset'', gve_ResourceID = da_ID asset,
                   gve_ActorID = actorID, gve_Scope = sc, gve_OccurredAt = cv_eventAt env,
                   gve_Metadata = [(''dns_credential_id'', crf_ID ref), (''provider_type'', crf_ProviderType ref), (''job_id'', cv_newJob env)]\<rparr>
                  (gv_audit g)\<rparr>)))"

definition credential_event :: "string \<Rightarrow> command_env \<Rightarrow> scope \<Rightarrow> string \<Rightarrow> dns_credential \<Rightarrow> governance_event" where
  "credential_event action env sc actorID c = \<lparr>gve_Action = action, gve_ResourceType = ''dns_credential'', gve_ResourceID = dc_ID c,
     gve_ActorID = actorID, gve_Scope = sc, gve_OccurredAt = cv_eventAt env,
     gve_Metadata = [(''display_name'', dc_DisplayName c), (''provider_type'', dc_ProviderType c), (''scope_mode'', dc_ScopeMode c)]\<rparr>"

definition CreateDNSCredential ::
  "'a audit_recorder \<Rightarrow> 'a governance \<Rightarrow> command_env \<Rightarrow> scope \<Rightarrow> string \<Rightarrow> credential_input
     \<Rightarrow> (app_error + dns_credential) \<times> 'a governance" where
  "CreateDNSCredential rec g env sc actorID inp =
     (case credential_Create (gv_dns g) sc inp (cv_now env) (cv_newID env) of
        (Inl e, dns) \<Rightarrow> (Inl (translateDNSCredentialError e), g\<lparr>gv_dns := dns\<rparr>)
      | (Inr c, dns) \<Rightarrow>
          (Inr c, g\<lparr>gv_dns := dns, gv_audit := rec (cv_draws env) (credential_event ''dns_credential.create'' env sc actorID c) (gv_audit g)\<rparr>))"

definition UpdateDNSCredential ::
  "'a audit_recorder \<Rightarrow> 'a governance \<Rightarrow> command_env \<Rightarrow> scope \<Rightarrow> string \<Rightarrow> string \<Rightarrow> credential_input
     \<Rightarrow> (app_error + dns_credential) \<times> 'a governance" where
  "UpdateDNSCredential rec g env sc actorID i inp =
     (case credential_Update (gv_dns g) sc i inp (cv_now env) of
        (Inl e, dns) \<Rightarrow> (Inl (translateDNSCredentialError e), g\<lparr>gv_dns := dns\<rparr>)
      | (Inr c, dns) \<Rightarrow>
          (Inr c, g\<lparr>gv_dns := dns, gv_audit := rec (cv_draws env) (credential_event ''dns_credential.update'' env sc actorID c) (gv_audit g)\<rparr>))"

definition RotateDNSCredential ::
  "'a audit_recorder \<Rightarrow> 'a governance \<Rightarrow> command_env \<Rightarrow> scope \<Rightarrow> string \<Rightarrow> string \<Rightarrow> (app_error + accepted_governance) \<times> 'a governance" where
  "RotateDNSCredential rec g env sc actorID i =
     (case credential_Rotate (gv_dns g) sc i (cv_now env) of
        (Inl e, dns) \<Rightarrow> (Inl (translateDNSCredentialError e), g\<lparr>gv_dns := dns\<rparr>)
      | (Inr c, dns) \<Rightarrow>
          (Inr \<lparr>acg_Status = ''accepted'', acg_JobID = cv_newJob env\<rparr>,
           g\<lparr>gv_dns := dns, gv_audit := rec (cv_draws env)
             \<lparr>gve_Action = ''dns_credential.rotate'', gve_ResourceType = ''dns_credential'', gve_ResourceID = dc_ID c,
              gve_ActorID = actorID, gve_Scope = sc, gve_OccurredAt = cv_eventAt env,
              gve_Metadata = [(''display_name'', dc_DisplayName c), (''job_id'', cv_newJob env)]\<rparr>
             (gv_audit g)\<rparr>))"

section \<open>Queries\<close>

definition app_domain :: "gerror + 'b \<Rightarrow> app_error + 'b" where
  "app_domain r = map_sum translateDomainError id r"

definition ListDomains :: "'a governance \<Rightarrow> scope \<Rightarrow> app_error + domain_asset list" where
  "ListDomains g sc = app_domain (domain_List (gv_domains g) sc)"

definition GetDomain :: "'a governance \<Rightarrow> scope \<Rightarrow> string \<Rightarrow> app_error + domain_asset" where
  "GetDomain g sc i = app_domain (domain_Get (gv_domains g) sc i)"

definition ListValidationRecords :: "'a governance \<Rightarrow> scope \<Rightarrow> string \<Rightarrow> app_error + validation_record list" where
  "ListValidationRecords g sc i = app_domain (domain_ListValidationRecords (gv_domains g) sc i)"

definition ListTXTOperations :: "'a governance \<Rightarrow> scope \<Rightarrow> string \<Rightarrow> app_error + txt_operation list" where
  "ListTXTOperations g sc i = app_domain (domain_ListTXTOperations (gv_domains g) sc i)"

definition ListCertificateAssets :: "'a governance \<Rightarrow> scope \<Rightarrow> string \<Rightarrow> app_error + cert_ref list" where
  "ListCertificateAssets g sc i = app_domain (domain_ListCertificateAssets (gv_domains g) sc i)"

definition ListDNSCredentials :: "'a governance \<Rightarrow> scope \<Rightarrow> app_error + dns_credential list" where
  "ListDNSCredentials g sc = map_sum translateDNSCredentialError id (credential_List (gv_dns g) sc)"

end
