(* ===== verification/DomainCommandProps.thy ===== *)
theory DomainCommandProps
  imports DomainCommand
begin

text \<open>
  The governance commands together: every one that succeeds leaves one audit event, and a domain names only a DNS
  credential of its own environment.
\<close>

section \<open>All commands\<close>

datatype governance_command =
    GcCreateDomain domain_upsert
  | GcUpdateDomain string domain_upsert
  | GcBindDNSCredential string string
  | GcCreateDNSCredential credential_input
  | GcUpdateDNSCredential string credential_input
  | GcRotateDNSCredential string

definition unit_result :: "(app_error + 'b) \<times> 'c \<Rightarrow> (app_error + unit) \<times> 'c" where
  "unit_result p = map_prod (map_sum id (\<lambda>_. ())) id p"

fun governance_run ::
  "'a audit_recorder \<Rightarrow> 'a governance \<Rightarrow> command_env \<Rightarrow> scope \<Rightarrow> string \<Rightarrow> governance_command \<Rightarrow> (app_error + unit) \<times> 'a governance" where
  "governance_run rec g env sc actorID (GcCreateDomain inp) = unit_result (CreateDomain rec g env sc actorID inp)"
| "governance_run rec g env sc actorID (GcUpdateDomain i inp) = unit_result (UpdateDomain rec g env sc actorID i inp)"
| "governance_run rec g env sc actorID (GcBindDNSCredential i cred) = unit_result (BindDNSCredential rec g env sc actorID i cred)"
| "governance_run rec g env sc actorID (GcCreateDNSCredential inp) = unit_result (CreateDNSCredential rec g env sc actorID inp)"
| "governance_run rec g env sc actorID (GcUpdateDNSCredential i inp) = unit_result (UpdateDNSCredential rec g env sc actorID i inp)"
| "governance_run rec g env sc actorID (GcRotateDNSCredential i) = unit_result (RotateDNSCredential rec g env sc actorID i)"

fun command_words :: "governance_command \<Rightarrow> string \<times> string" where
  "command_words (GcCreateDomain inp) = (''domain.create'', ''domain_asset'')"
| "command_words (GcUpdateDomain i inp) = (''domain.update'', ''domain_asset'')"
| "command_words (GcBindDNSCredential i cred) = (''domain.bind_dns_credential'', ''domain_asset'')"
| "command_words (GcCreateDNSCredential inp) = (''dns_credential.create'', ''dns_credential'')"
| "command_words (GcUpdateDNSCredential i inp) = (''dns_credential.update'', ''dns_credential'')"
| "command_words (GcRotateDNSCredential i) = (''dns_credential.rotate'', ''dns_credential'')"

fun command_resource :: "command_env \<Rightarrow> governance_command \<Rightarrow> string" where
  "command_resource env (GcUpdateDomain i inp) = i"
| "command_resource env (GcBindDNSCredential i cred) = i"
| "command_resource env (GcUpdateDNSCredential i inp) = i"
| "command_resource env (GcRotateDNSCredential i) = i"
| "command_resource env c = cv_newID env"

definition governance_start :: "'a \<Rightarrow> 'a governance" where
  "governance_start a = \<lparr>gv_domains = NewDomainService, gv_dns = NewCredentialService, gv_audit = a\<rparr>"

text \<open>New identifiers are fresh. Certificates are linked to domains by the orchestrator.\<close>

inductive governance_step :: "'a audit_recorder \<Rightarrow> 'a governance \<Rightarrow> 'a governance \<Rightarrow> bool" for rec where
  commanded: "mget (ds_byID (gv_domains g)) (cv_newID env) = None \<Longrightarrow> mget (dcs_byID (gv_dns g)) (cv_newID env) = None \<Longrightarrow>
     governance_run rec g env sc actorID c = (r, g') \<Longrightarrow> governance_step rec g g'"
| linked: "domain_LinkCertificateAsset (gv_domains g) sc i ref = (r', ds) \<Longrightarrow> governance_step rec g (g\<lparr>gv_domains := ds\<rparr>)"

section \<open>What a command does to its store\<close>

lemma credential_errs:
  "credential_Create st sc inp now i = (Inl e, st') \<Longrightarrow> st' = st"
  "credential_Update st sc i inp now = (Inl e, st') \<Longrightarrow> st' = st"
  "credential_Rotate st sc i now = (Inl e, st') \<Longrightarrow> st' = st"
  by (auto simp: credential_Create_def credential_Update_def credential_Rotate_def Let_def split: option.splits sum.splits if_splits)

lemma unit_result_simps [simp]:
  "unit_result (Inl e, g) = (Inl e, g)" "unit_result (Inr x, g) = (Inr (), g)"
  by (simp_all add: unit_result_def)

text \<open>A command is an operation of one of the two services, and of the other nothing.\<close>

definition one_operation :: "command_env \<Rightarrow> 'a governance \<Rightarrow> 'a governance \<Rightarrow> bool" where
  "one_operation env g g' =
     ((gv_domains g' = gv_domains g \<and> gv_dns g' = gv_dns g) \<or>
      (gv_dns g' = gv_dns g \<and> domain_step (gv_domains g) (gv_domains g')) \<or>
      (gv_domains g' = gv_domains g \<and> credential_step (gv_dns g) (gv_dns g')))"

lemma run_one_operation:
  assumes "governance_run rec g env sc actorID c = (r, g')"
    and "mget (ds_byID (gv_domains g)) (cv_newID env) = None" "mget (dcs_byID (gv_dns g)) (cv_newID env) = None"
  shows "one_operation env g g'"
proof (cases c)
  case (GcCreateDomain inp)
  with assms show ?thesis
    by (auto simp: CreateDomain_def one_operation_def split: sum.splits prod.splits intro: domain_step.created)
next
  case (GcUpdateDomain i inp)
  with assms show ?thesis
    by (auto simp: UpdateDomain_def one_operation_def split: sum.splits prod.splits intro: domain_step.updated)
next
  case (GcBindDNSCredential i cred)
  with assms show ?thesis
    by (auto simp: BindDNSCredential_def one_operation_def split: sum.splits prod.splits intro: domain_step.bound)
next
  case (GcCreateDNSCredential inp)
  have "credential_step (gv_dns g) (snd (credential_Create (gv_dns g) sc inp (cv_now env) (cv_newID env)))"
    by (rule credential_step.created) (rule assms(3))
  with GcCreateDNSCredential assms(1) show ?thesis by (auto simp: CreateDNSCredential_def one_operation_def split: sum.splits prod.splits)
next
  case (GcUpdateDNSCredential i inp)
  have "credential_step (gv_dns g) (snd (credential_Update (gv_dns g) sc i inp (cv_now env)))" by (rule credential_step.updated)
  with GcUpdateDNSCredential assms(1) show ?thesis by (auto simp: UpdateDNSCredential_def one_operation_def split: sum.splits prod.splits)
next
  case (GcRotateDNSCredential i)
  have "credential_step (gv_dns g) (snd (credential_Rotate (gv_dns g) sc i (cv_now env)))" by (rule credential_step.rotated)
  with GcRotateDNSCredential assms(1) show ?thesis by (auto simp: RotateDNSCredential_def one_operation_def split: sum.splits prod.splits)
qed

lemma governance_stores:
  "(governance_step rec)\<^sup>*\<^sup>* (governance_start a) g \<Longrightarrow>
     domain_step\<^sup>*\<^sup>* NewDomainService (gv_domains g) \<and> credential_step\<^sup>*\<^sup>* NewCredentialService (gv_dns g)"
proof (induction rule: rtranclp_induct)
  case base
  show ?case by (simp add: governance_start_def)
next
  case (step g g')
  from step.hyps(2) show ?case
  proof cases
    case (commanded env sc actorID c r)
    from run_one_operation [OF commanded(3,1,2)] step.IH show ?thesis
      unfolding one_operation_def by (elim disjE) (auto intro: rtranclp.rtrancl_into_rtrancl)
  next
    case (linked sc i ref r' ds)
    then have "domain_step (gv_domains g) ds" by (intro domain_step.linked)
    with step.IH linked show ?thesis by (auto intro: rtranclp.rtrancl_into_rtrancl)
  qed
qed

section \<open>Stored credentials\<close>

definition creds_ok :: "credential_store \<Rightarrow> bool" where
  "creds_ok st = (\<forall>i c. mget (dcs_byID st) i = Some c \<longrightarrow> valid_scope (dc_Scope c) \<and> dc_ProviderType c = ''alidns'')"

lemma provider_valid: "credential_validateUpsert inp = None \<Longrightarrow> normToken (cri_ProviderType inp) = ''alidns''"
  by (auto simp: credential_validateUpsert_def split: if_splits)

lemma credential_step_ok: "credential_step st st' \<Longrightarrow> creds_ok st \<Longrightarrow> creds_ok st'"
proof (induction rule: credential_step.induct)
  case (created st newID sc inp now)
  then show ?case
    by (auto simp: creds_ok_def credential_Create_def new_credential_def provider_valid Let_def split: option.splits if_splits)
next
  case (updated st sc i inp now)
  then show ?case
    by (auto simp: creds_ok_def credential_Update_def credential_apply_def provider_valid Let_def split: option.splits sum.splits if_splits)
next
  case (rotated st sc i now)
  then show ?case by (auto simp: creds_ok_def credential_Rotate_def Let_def split: sum.splits if_splits)
qed

lemma credential_reachable_ok: "credential_step\<^sup>*\<^sup>* NewCredentialService st \<Longrightarrow> creds_ok st"
proof (induction rule: rtranclp_induct)
  case base
  show ?case by (simp add: creds_ok_def NewCredentialService_def)
qed (rule credential_step_ok)

definition creds_kept :: "credential_store \<Rightarrow> credential_store \<Rightarrow> bool" where
  "creds_kept st st' = (\<forall>i c. mget (dcs_byID st) i = Some c \<longrightarrow>
     (\<exists>c'. mget (dcs_byID st') i = Some c' \<and> dc_Scope c' = dc_Scope c \<and> dc_ProviderType c' = dc_ProviderType c))"

lemma credential_step_keeps:
  assumes "credential_step st st'" "creds_ok st" "credential_names.named st"
  shows "creds_kept st st'"
  using assms
proof (induction rule: credential_step.induct)
  case (created st newID sc inp now)
  then show ?case by (auto simp: creds_kept_def credential_Create_def new_credential_def Let_def split: option.splits)
next
  case (updated st sc i inp now)
  show ?case
    using updated.prems(1) credential_names.namedD(2) [OF updated.prems(2)]
    by (auto simp: creds_ok_def creds_kept_def credential_Update_def credential_apply_def provider_valid Let_def split: option.splits sum.splits)
next
  case (rotated st sc i now)
  show ?case
    using credential_names.namedD(2) [OF rotated.prems(2)]
    by (auto simp: creds_kept_def credential_Rotate_def Let_def split: sum.splits)
qed

section \<open>Events\<close>

definition tells :: "governance_event \<Rightarrow> command_env \<Rightarrow> scope \<Rightarrow> string \<Rightarrow> governance_command \<Rightarrow> bool" where
  "tells ev env sc actorID c = ((gve_Action ev, gve_ResourceType ev) = command_words c \<and> gve_ResourceID ev = command_resource env c \<and>
     gve_ActorID ev = actorID \<and> gve_Scope ev = sc)"

text \<open>A command that fails leaves everything as it was, one that succeeds hands one event to the recorder.\<close>

definition audited ::
  "'a audit_recorder \<Rightarrow> 'a governance \<Rightarrow> command_env \<Rightarrow> scope \<Rightarrow> string \<Rightarrow> governance_command \<Rightarrow> (app_error + unit) \<times> 'a governance \<Rightarrow> bool" where
  "audited rec g env sc actorID c p = (case p of
     (Inl e, g') \<Rightarrow> g' = g
   | (Inr _, g') \<Rightarrow> valid_scope sc \<and> (\<exists>ev. tells ev env sc actorID c \<and> gv_audit g' = rec (cv_draws env) ev (gv_audit g)))"

lemma auditedI:
  assumes "valid_scope sc" "tells ev env sc actorID c" "gv_audit g' = rec (cv_draws env) ev (gv_audit g)"
  shows "audited rec g env sc actorID c (Inr u, g')"
  unfolding audited_def using assms by auto

lemma audited_Inl [simp]: "audited rec g env sc actorID c (Inl e, g') \<longleftrightarrow> g' = g"
  by (simp add: audited_def)

lemma CreateDomain_audited: "audited rec g env sc actorID (GcCreateDomain inp) (unit_result (CreateDomain rec g env sc actorID inp))"
proof (cases "resolveDomainInput (gv_dns g) sc inp")
  case (Inr di)
  obtain r ds where c: "domain_Create (gv_domains g) sc di (cv_now env) (cv_newID env) = (r, ds)" by fastforce
  show ?thesis
  proof (cases r)
    case (Inl e)
    with c Inr domain_errs(1) [of "gv_domains g"] show ?thesis by (auto simp: CreateDomain_def)
  next
    case r: (Inr a)
    note ok = domain_Create_ok [OF c [unfolded r]]
    show ?thesis unfolding CreateDomain_def using Inr c r ok(4)
      by (auto intro!: auditedI [OF ok(1), of "domain_event ''domain.create'' env sc actorID a"] simp: tells_def domain_event_def)
  qed
qed (simp add: CreateDomain_def)

lemma UpdateDomain_audited:
  assumes "domain_names.named (gv_domains g)"
  shows "audited rec g env sc actorID (GcUpdateDomain i inp) (unit_result (UpdateDomain rec g env sc actorID i inp))"
proof (cases "resolveDomainInput (gv_dns g) sc inp")
  case (Inr di)
  obtain r ds where c: "domain_Update (gv_domains g) sc i di (cv_now env) = (r, ds)" by fastforce
  show ?thesis
  proof (cases r)
    case (Inl e)
    with c Inr domain_errs(2) [of "gv_domains g"] show ?thesis by (auto simp: UpdateDomain_def)
  next
    case r: (Inr a')
    from domain_Update_ok [OF c [unfolded r]] obtain a where a: "valid_scope sc" "mget (ds_byID (gv_domains g)) i = Some a" "da_ID a' = da_ID a" by blast
    with domain_names.namedD(2) [OF assms] have "da_ID a' = i" by simp
    with Inr c r show ?thesis unfolding UpdateDomain_def
      by (auto intro!: auditedI [OF a(1), of "domain_event ''domain.update'' env sc actorID a'"] simp: tells_def domain_event_def)
  qed
qed (simp add: UpdateDomain_def)

lemma LookupAvailable_ok:
  assumes "LookupAvailable st sc i = Inr ref" "credential_names.named st"
  shows "valid_scope sc \<and> crf_ID ref = i \<and> TrimSpace i \<noteq> [] \<and>
    (\<exists>c. mget (dcs_byID st) i = Some c \<and> dc_Scope c = sc \<and> dc_ProviderType c = crf_ProviderType ref)"
  using assms(1) credential_names.namedD(2) [OF assms(2)]
  by (auto simp: LookupAvailable_def credential_Get_def split: sum.splits option.splits if_splits)

lemma Bind_audited:
  assumes "domain_names.named (gv_domains g)" "credential_names.named (gv_dns g)"
  shows "audited rec g env sc actorID (GcBindDNSCredential i cred) (unit_result (BindDNSCredential rec g env sc actorID i cred))"
proof (cases "LookupAvailable (gv_dns g) sc (TrimSpace cred)")
  case (Inr ref)
  obtain r ds where c: "domain_BindDNSCredential (gv_domains g) sc i (crf_ID ref) (crf_ProviderType ref) (cv_now env) = (r, ds)" by fastforce
  show ?thesis
  proof (cases r)
    case (Inl e)
    with c Inr domain_errs(3) [of "gv_domains g"] show ?thesis by (auto simp: BindDNSCredential_def)
  next
    case r: (Inr a')
    from c r have "da_ID a' = i" using domain_names.namedD(2) [OF assms(1)]
      by (auto simp: domain_BindDNSCredential_def Let_def split: sum.splits if_splits)
    with Inr c r LookupAvailable_ok [OF Inr assms(2)] show ?thesis unfolding BindDNSCredential_def
      by (auto intro!: auditedI simp: tells_def)
  qed
qed (simp add: BindDNSCredential_def)

lemma CreateCredential_audited:
  "audited rec g env sc actorID (GcCreateDNSCredential inp) (unit_result (CreateDNSCredential rec g env sc actorID inp))"
proof -
  obtain r dns where c: "credential_Create (gv_dns g) sc inp (cv_now env) (cv_newID env) = (r, dns)" by fastforce
  show ?thesis
  proof (cases r)
    case (Inl e)
    with c credential_errs(1) [of "gv_dns g"] show ?thesis by (auto simp: CreateDNSCredential_def)
  next
    case r: (Inr a)
    from c r have "valid_scope sc" "dc_ID a = cv_newID env"
      by (auto simp: credential_Create_def new_credential_def Let_def split: option.splits if_splits)
    with c r show ?thesis by (auto intro!: auditedI simp: CreateDNSCredential_def tells_def credential_event_def)
  qed
qed

lemma UpdateCredential_audited:
  assumes "credential_names.named (gv_dns g)"
  shows "audited rec g env sc actorID (GcUpdateDNSCredential i inp) (unit_result (UpdateDNSCredential rec g env sc actorID i inp))"
proof -
  obtain r dns where c: "credential_Update (gv_dns g) sc i inp (cv_now env) = (r, dns)" by fastforce
  show ?thesis
  proof (cases r)
    case (Inl e)
    with c credential_errs(2) [of "gv_dns g"] show ?thesis by (auto simp: UpdateDNSCredential_def)
  next
    case r: (Inr a)
    from c r have "valid_scope sc" "dc_ID a = i" using credential_names.namedD(2) [OF assms]
      by (auto simp: credential_Update_def credential_apply_def Let_def split: option.splits sum.splits)
    with c r show ?thesis by (auto intro!: auditedI simp: UpdateDNSCredential_def tells_def credential_event_def)
  qed
qed

lemma Rotate_audited:
  assumes "credential_names.named (gv_dns g)" "creds_ok (gv_dns g)"
  shows "audited rec g env sc actorID (GcRotateDNSCredential i) (unit_result (RotateDNSCredential rec g env sc actorID i))"
proof -
  obtain r dns where c: "credential_Rotate (gv_dns g) sc i (cv_now env) = (r, dns)" by fastforce
  show ?thesis
  proof (cases r)
    case (Inl e)
    with c credential_errs(3) [of "gv_dns g"] show ?thesis by (auto simp: RotateDNSCredential_def)
  next
    case r: (Inr a)
    from c r have "valid_scope sc" "dc_ID a = i" using credential_names.namedD(2) [OF assms(1)] assms(2)
      by (auto simp: credential_Rotate_def creds_ok_def Let_def split: sum.splits)
    with c r show ?thesis by (auto intro!: auditedI simp: RotateDNSCredential_def tells_def)
  qed
qed

lemma run_audited:
  assumes "(governance_step rec)\<^sup>*\<^sup>* (governance_start a) g"
  shows "audited rec g env sc actorID c (governance_run rec g env sc actorID c)"
proof -
  from governance_stores [OF assms] have d: "domain_names.named (gv_domains g)" and n: "credential_names.named (gv_dns g)" and k: "creds_ok (gv_dns g)"
    using domain_names.named_reachable credential_names.named_reachable credential_reachable_ok by blast+
  show ?thesis
    by (cases c) (simp_all add: CreateDomain_audited UpdateDomain_audited [OF d] Bind_audited [OF d n] CreateCredential_audited
      UpdateCredential_audited [OF n] Rotate_audited [OF n k])
qed

section \<open>The audit service behind the adapter\<close>

lemma command_words_trimmed:
  "TrimSpace (fst (command_words c)) = fst (command_words c)" "fst (command_words c) \<noteq> []"
  "TrimSpace (snd (command_words c)) = snd (command_words c)" "snd (command_words c) \<noteq> []"
  by (cases c; simp; code_simp)+

lemma adapted_built:
  assumes "tells ev env sc actorID c"
  shows "\<exists>e. buildEvent sc (adapted_event ev) t1 t2 i = Inr e \<and> ae_Action e = fst (command_words c) \<and> ae_ResourceType e = snd (command_words c) \<and>
    ae_ResourceID e = TrimSpace (command_resource env c) \<and>
    ae_ActorType e = (if TrimSpace actorID = [] then ''system'' else ''user'') \<and>
    ae_ActorID e = (if TrimSpace actorID = [] then ''system'' else TrimSpace actorID)"
proof -
  have w: "TrimSpace ''system'' = ''system''" "TrimSpace ''user'' = ''user''" by code_simp+
  from assms have "gve_Action ev = fst (command_words c)" "gve_ResourceType ev = snd (command_words c)"
    "gve_ResourceID ev = command_resource env c" "gve_ActorID ev = actorID" "gve_Scope ev = sc"
    unfolding tells_def by (auto simp: prod_eq_iff)
  then show ?thesis
    by (simp add: buildEvent_def adapted_event_def required_def command_words_trimmed w Let_def)
qed

lemma adapter_records:
  assumes "tells ev env sc actorID c" "valid_scope sc"
  shows "\<exists>e st' w'. domainsAuditRecorder deliver draws ev (Some st, w) = (Some st', w') \<and>
    ad_eventsByID st' = mput (aw_eventID draws) e (ad_eventsByID st) \<and> ae_Scope e = sc \<and>
    ae_Action e = fst (command_words c) \<and> ae_ResourceType e = snd (command_words c) \<and> ae_ResourceID e = TrimSpace (command_resource env c) \<and>
    ae_ActorType e = (if TrimSpace actorID = [] then ''system'' else ''user'') \<and>
    ae_ActorID e = (if TrimSpace actorID = [] then ''system'' else TrimSpace actorID)"
proof -
  from adapted_built [OF assms(1), of "aw_clock draws 0" "aw_clock draws 1" "aw_eventID draws"] obtain e where
    e: "buildEvent sc (adapted_event ev) (aw_clock draws 0) (aw_clock draws 1) (aw_eventID draws) = Inr e"
    and w: "ae_Action e = fst (command_words c)" "ae_ResourceType e = snd (command_words c)" "ae_ResourceID e = TrimSpace (command_resource env c)"
      "ae_ActorType e = (if TrimSpace actorID = [] then ''system'' else ''user'')"
      "ae_ActorID e = (if TrimSpace actorID = [] then ''system'' else TrimSpace actorID)" by blast
  obtain ids st1 where s: "store_event st e (aw_noteIDs draws) = (ids, st1)" by fastforce
  obtain st' w' where d: "deliver_all deliver ids (aw_clock draws) 2 st1 w = (st', w')" by fastforce
  have r: "RecordEvent deliver st sc (adapted_event ev) (aw_clock draws) (aw_eventID draws) (aw_noteIDs draws) w = (Inr e, st', w')"
    using e assms(2) s d by (simp add: RecordEvent_def)
  from assms(1) have "gve_Scope ev = sc" by (simp add: tells_def)
  with r have "domainsAuditRecorder deliver draws ev (Some st, w) = (Some st', w')" by (simp add: domainsAuditRecorder_def)
  with record_stores [OF r] w show ?thesis by blast
qed

text \<open>C21: every governance command on domains and DNS credentials is audited: one that fails changes nothing and leaves no event, one
  that succeeds adds exactly one event to the audit log, in the scope of the command, with its action, the type
  and the identifier of what it wrote, and the user who gave the command, or the system when the command names nobody.\<close>

theorem governance_is_audited:
  assumes "(governance_step (domainsAuditRecorder deliver))\<^sup>*\<^sup>* (governance_start a) g" "gv_audit g = (Some st, w)"
    and "governance_run (domainsAuditRecorder deliver) g env sc actorID c = (r, g')"
  shows "case r of
      Inl e \<Rightarrow> g' = g
    | Inr _ \<Rightarrow> \<exists>ev st' w'. gv_audit g' = (Some st', w') \<and> ad_eventsByID st' = mput (aw_eventID (cv_draws env)) ev (ad_eventsByID st) \<and>
        ae_Scope ev = sc \<and> (ae_Action ev, ae_ResourceType ev) = command_words c \<and> ae_ResourceID ev = TrimSpace (command_resource env c) \<and>
        ae_ActorType ev = (if TrimSpace actorID = [] then ''system'' else ''user'') \<and>
        ae_ActorID ev = (if TrimSpace actorID = [] then ''system'' else TrimSpace actorID)"
proof (cases r)
  case (Inl e)
  with run_audited [OF assms(1), of env sc actorID c] assms(3) show ?thesis by simp
next
  case (Inr u)
  with run_audited [OF assms(1), of env sc actorID c] assms(3) obtain ev where v: "valid_scope sc" and t: "tells ev env sc actorID c"
    and n: "gv_audit g' = domainsAuditRecorder deliver (cv_draws env) ev (Some st, w)" by (auto simp: audited_def assms(2))
  from adapter_records [OF t v, of deliver "cv_draws env" st w] show ?thesis unfolding n Inr by (auto simp: prod_eq_iff)
qed

section \<open>Credentials of domains\<close>

definition bound_ok :: "credential_store \<Rightarrow> domain_asset \<Rightarrow> bool" where
  "bound_ok dns a = (if da_DNSCredentialID a = [] then da_DefaultDNSProvider a = []
     else TrimSpace (da_DNSCredentialID a) = da_DNSCredentialID a \<and>
       (\<exists>c. mget (dcs_byID dns) (da_DNSCredentialID a) = Some c \<and> dc_Scope c = da_Scope a \<and> dc_ProviderType c = da_DefaultDNSProvider a))"

definition all_bound :: "'a governance \<Rightarrow> bool" where
  "all_bound g = (\<forall>i a. mget (ds_byID (gv_domains g)) i = Some a \<longrightarrow> bound_ok (gv_dns g) a)"

lemma bound_kept: "bound_ok dns a \<Longrightarrow> creds_kept dns dns' \<Longrightarrow> bound_ok dns' a"
  unfolding bound_ok_def creds_kept_def by (fastforce split: if_splits)

lemma normToken_alidns: "normToken ''alidns'' = ''alidns''"
  by code_simp

lemma normToken_none: "normToken [] = []"
  by code_simp

lemma looked_up_bound:
  assumes "LookupAvailable dns sc i = Inr ref" "credential_names.named dns" "creds_ok dns" "TrimSpace i = i"
    and "da_Scope a = sc" "da_DNSCredentialID a = TrimSpace (crf_ID ref)" "da_DefaultDNSProvider a = normToken (crf_ProviderType ref)"
  shows "bound_ok dns a"
proof -
  from LookupAvailable_ok [OF assms(1,2)] obtain c where c: "mget (dcs_byID dns) i = Some c" "dc_Scope c = sc"
    "dc_ProviderType c = crf_ProviderType ref" and i: "crf_ID ref = i" "i \<noteq> []" using assms(4) by auto
  from c(1) assms(3) have p: "dc_ProviderType c = ''alidns''" unfolding creds_ok_def by blast
  have "da_DefaultDNSProvider a = ''alidns''" unfolding assms(7) c(3) [symmetric] p by (rule normToken_alidns)
  with c(1,2) p assms(4-6) i show ?thesis by (simp add: bound_ok_def)
qed

lemma resolved_bound:
  assumes "resolveDomainInput dns sc inp = Inr di" "credential_names.named dns" "creds_ok dns"
    and "da_Scope a = sc" "da_DNSCredentialID a = TrimSpace (di_DNSCredentialID di)" "da_DefaultDNSProvider a = normToken (di_DNSProvider di)"
  shows "bound_ok dns a"
proof (cases "TrimSpace (du_DNSCredentialID inp) = []")
  case True
  with assms(1) have "di_DNSCredentialID di = []" "di_DNSProvider di = []" by (auto simp: resolveDomainInput_def)
  with assms(5,6) show ?thesis by (simp add: bound_ok_def normToken_none)
next
  case False
  with assms(1) obtain ref where r: "LookupAvailable dns sc (TrimSpace (du_DNSCredentialID inp)) = Inr ref"
    and d: "di_DNSCredentialID di = crf_ID ref" "di_DNSProvider di = crf_ProviderType ref"
    by (auto simp: resolveDomainInput_def Let_def split: sum.splits)
  from looked_up_bound [OF r assms(2,3) _ assms(4)] assms(5,6) d show ?thesis by simp
qed

lemma new_domain_bound:
  assumes "domain_Create ds sc di now i = (Inr a, ds')"
  shows "ds_byID ds' = mput i a (ds_byID ds) \<and> da_Scope a = sc \<and> da_DNSCredentialID a = TrimSpace (di_DNSCredentialID di) \<and>
    da_DefaultDNSProvider a = normToken (di_DNSProvider di)"
  using assms by (auto simp: domain_Create_def Let_def split: option.splits sum.splits if_splits)

lemma updated_domain_bound:
  assumes "domain_Update ds sc i di now = (Inr a, ds')"
  shows "ds_byID ds' = mput (da_ID a) a (ds_byID ds) \<and> da_Scope a = sc \<and> da_DNSCredentialID a = TrimSpace (di_DNSCredentialID di) \<and>
    da_DefaultDNSProvider a = normToken (di_DNSProvider di)"
  using assms by (auto simp: domain_Update_def domain_apply_def Let_def split: option.splits sum.splits if_splits)

lemma bound_domain_bound:
  assumes "domain_BindDNSCredential ds sc i cred prov now = (Inr a, ds')"
  shows "ds_byID ds' = mput (da_ID a) a (ds_byID ds) \<and> da_Scope a = sc \<and> da_DNSCredentialID a = TrimSpace cred \<and> da_DefaultDNSProvider a = normToken prov"
  using assms by (auto simp: domain_BindDNSCredential_def Let_def split: sum.splits if_splits)

lemma bound_after:
  assumes "all_bound g" "gv_dns g' = gv_dns g" "ds_byID (gv_domains g') = mput k a (ds_byID (gv_domains g))" "bound_ok (gv_dns g) a"
  shows "all_bound g'"
  using assms by (auto simp: all_bound_def split: if_splits)

lemma bound_same:
  assumes "all_bound g" "gv_dns g' = gv_dns g" "ds_byID (gv_domains g') = ds_byID (gv_domains g)"
  shows "all_bound g'"
  using assms by (simp add: all_bound_def)

lemma bound_other_store:
  assumes "all_bound g" "gv_domains g' = gv_domains g" "creds_kept (gv_dns g) (gv_dns g')"
  shows "all_bound g'"
  using assms by (auto simp: all_bound_def intro: bound_kept)

lemma one_operation_keeps:
  assumes "one_operation env g g'" "credential_names.named (gv_dns g)" "creds_ok (gv_dns g)"
  shows "creds_kept (gv_dns g) (gv_dns g')"
  using assms(1) credential_step_keeps [OF _ assms(3,2)] unfolding one_operation_def by (auto simp: creds_kept_def)

lemma run_keeps_bound:
  assumes "governance_run rec g env sc actorID c = (r, g')" "all_bound g"
    and n: "credential_names.named (gv_dns g)" and k: "creds_ok (gv_dns g)"
    and one: "one_operation env g g'"
  shows "all_bound g'"
proof (cases c)
  case (GcCreateDomain inp)
  show ?thesis
  proof (cases "resolveDomainInput (gv_dns g) sc inp")
    case (Inl e)
    with assms(1,2) GcCreateDomain show ?thesis by (simp add: CreateDomain_def)
  next
    case di: (Inr di)
    obtain q ds where q: "domain_Create (gv_domains g) sc di (cv_now env) (cv_newID env) = (q, ds)" by fastforce
    show ?thesis
    proof (cases q)
      case (Inl e)
      with q domain_errs(1) [of "gv_domains g"] have "ds = gv_domains g" by blast
      with assms(1,2) GcCreateDomain di q Inl show ?thesis by (simp add: CreateDomain_def)
    next
      case (Inr x)
      note new = new_domain_bound [OF q [unfolded Inr]]
      show ?thesis
        by (rule bound_after [OF assms(2), where k = "cv_newID env" and a = x])
          (use assms(1) GcCreateDomain di q Inr new resolved_bound [OF di n k] in \<open>auto simp: CreateDomain_def\<close>)
    qed
  qed
next
  case (GcUpdateDomain i inp)
  show ?thesis
  proof (cases "resolveDomainInput (gv_dns g) sc inp")
    case (Inl e)
    with assms(1,2) GcUpdateDomain show ?thesis by (simp add: UpdateDomain_def)
  next
    case di: (Inr di)
    obtain q ds where q: "domain_Update (gv_domains g) sc i di (cv_now env) = (q, ds)" by fastforce
    show ?thesis
    proof (cases q)
      case (Inl e)
      with q domain_errs(2) [of "gv_domains g"] have "ds = gv_domains g" by blast
      with assms(1,2) GcUpdateDomain di q Inl show ?thesis by (simp add: UpdateDomain_def)
    next
      case (Inr x)
      note new = updated_domain_bound [OF q [unfolded Inr]]
      show ?thesis
        by (rule bound_after [OF assms(2), where k = "da_ID x" and a = x])
          (use assms(1) GcUpdateDomain di q Inr new resolved_bound [OF di n k] in \<open>auto simp: UpdateDomain_def\<close>)
    qed
  qed
next
  case (GcBindDNSCredential i cred)
  show ?thesis
  proof (cases "LookupAvailable (gv_dns g) sc (TrimSpace cred)")
    case (Inl e)
    with assms(1,2) GcBindDNSCredential show ?thesis by (simp add: BindDNSCredential_def)
  next
    case ref: (Inr ref)
    obtain q ds where q: "domain_BindDNSCredential (gv_domains g) sc i (crf_ID ref) (crf_ProviderType ref) (cv_now env) = (q, ds)" by fastforce
    show ?thesis
    proof (cases q)
      case (Inl e)
      with q domain_errs(3) [of "gv_domains g"] have "ds = gv_domains g" by blast
      with assms(1,2) GcBindDNSCredential ref q Inl show ?thesis by (simp add: BindDNSCredential_def)
    next
      case (Inr x)
      note new = bound_domain_bound [OF q [unfolded Inr]]
      have "bound_ok (gv_dns g) x" using new looked_up_bound [OF ref n k TrimSpace_idem] by simp
      then show ?thesis
        by (intro bound_after [OF assms(2), where k = "da_ID x" and a = x])
          (use assms(1) GcBindDNSCredential ref q Inr new in \<open>auto simp: BindDNSCredential_def\<close>)
    qed
  qed
qed (use assms(1) in \<open>auto intro!: bound_other_store [OF assms(2) _ one_operation_keeps [OF one n k]]
  simp: CreateDNSCredential_def UpdateDNSCredential_def RotateDNSCredential_def split: sum.splits prod.splits\<close>)

lemma governance_reachable_bound: "(governance_step rec)\<^sup>*\<^sup>* (governance_start a) g \<Longrightarrow> all_bound g"
proof (induction rule: rtranclp_induct)
  case base
  show ?case by (simp add: all_bound_def governance_start_def NewDomainService_def)
next
  case (step g g')
  from governance_stores [OF step.hyps(1)] have n: "credential_names.named (gv_dns g)" and k: "creds_ok (gv_dns g)"
    using credential_names.named_reachable credential_reachable_ok by blast+
  from step.hyps(2) show ?case
  proof cases
    case (commanded env sc actorID c r)
    show ?thesis by (rule run_keeps_bound [OF commanded(3) step.IH n k run_one_operation [OF commanded(3,1,2)]])
  next
    case (linked sc i ref r' ds)
    then have "ds_byID ds = ds_byID (gv_domains g)"
      by (auto simp: domain_LinkCertificateAsset_def Let_def split: sum.splits if_splits)
    with step.IH linked show ?thesis by (simp add: all_bound_def)
  qed
qed

text \<open>C22: a domain names only a credential of its own environment: whatever governance commands ran, a stored domain either names no DNS
  credential and no provider, or a credential that is stored, belongs to the scope of the domain, and is of the
  provider the domain names; no later update or rotation of the credential breaks this.\<close>

theorem domains_use_credentials_of_their_environment:
  assumes "(governance_step rec)\<^sup>*\<^sup>* (governance_start a) g" "GetDomain g sc i = Inr d"
  shows "da_DNSCredentialID d = [] \<and> da_DefaultDNSProvider d = [] \<or>
    (\<exists>c. credential_Get (gv_dns g) sc (da_DNSCredentialID d) = Inr c \<and> dc_ID c = da_DNSCredentialID d \<and> dc_Scope c = sc \<and>
       dc_ProviderType c = da_DefaultDNSProvider d)"
proof -
  from governance_stores [OF assms(1)] have n: "credential_names.named (gv_dns g)" using credential_names.named_reachable by blast
  from assms(2) have "domain_Get (gv_domains g) sc i = Inr d" by (cases "domain_Get (gv_domains g) sc i") (simp_all add: GetDomain_def app_domain_def)
  then have d: "valid_scope sc" "mget (ds_byID (gv_domains g)) i = Some d" "da_Scope d = sc" by (simp_all add: domain_scoped.get_ok_iff)
  then have b: "bound_ok (gv_dns g) d" using governance_reachable_bound [OF assms(1)] by (simp add: all_bound_def)
  show ?thesis
  proof (cases "da_DNSCredentialID d = []")
    case True
    with b show ?thesis by (simp add: bound_ok_def)
  next
    case False
    with b d(3) obtain c where t: "TrimSpace (da_DNSCredentialID d) = da_DNSCredentialID d"
      and c: "mget (dcs_byID (gv_dns g)) (da_DNSCredentialID d) = Some c" "dc_Scope c = sc" "dc_ProviderType c = da_DefaultDNSProvider d"
      by (auto simp: bound_ok_def)
    have "credential_Get (gv_dns g) sc (da_DNSCredentialID d) = Inr c" using c t False d(1) by (simp add: credential_scoped.get_ok_iff)
    moreover have "dc_ID c = da_DNSCredentialID d" by (rule credential_names.namedD(2) [OF n c(1)])
    ultimately show ?thesis using c(2,3) by blast
  qed
qed

section \<open>A run of commands\<close>

definition ops_env :: "string \<Rightarrow> command_env" where
  "ops_env i = \<lparr>cv_now = 7, cv_newID = i, cv_eventAt = 8, cv_draws = \<lparr>aw_clock = \<lambda>k. 9 + int k, aw_eventID = ''e-'' @ i, aw_noteIDs = demo_ids\<rparr>, cv_newJob = ''j1''\<rparr>"

definition ops_credential :: credential_input where
  "ops_credential = \<lparr>cri_DisplayName = ''zone'', cri_ProviderType = ''AliDNS'', cri_AccessKeyID = ''k'', cri_Secret = ''s'', cri_ScopeMode = []\<rparr>"

definition ops_domain :: domain_upsert where
  "ops_domain = \<lparr>du_Name = ''x.y'', du_ChallengeType = ''dns-01'', du_AutoRenew = True, du_DNSCredentialID = '' c1 ''\<rparr>"

definition ops_start :: "(audit_store option \<times> unit) governance" where
  "ops_start = governance_start (Some NewAuditService, ())"

abbreviation ops_rec :: "(audit_store option \<times> unit) audit_recorder" where
  "ops_rec \<equiv> domainsAuditRecorder stub_Deliver"

definition ops_with_credential :: "(audit_store option \<times> unit) governance" where
  "ops_with_credential = snd (governance_run ops_rec ops_start (ops_env ''c1'') sample_env ''u1'' (GcCreateDNSCredential ops_credential))"

definition ops_with_domain :: "(audit_store option \<times> unit) governance" where
  "ops_with_domain = snd (governance_run ops_rec ops_with_credential (ops_env ''d1'') sample_env [] (GcCreateDomain ops_domain))"

definition ops_stored :: dns_credential where
  "ops_stored = new_credential sample_env ops_credential 7 ''c1''"

lemma ops_stored_simps:
  "dc_ID ops_stored = ''c1''" "dc_Scope ops_stored = sample_env" "dc_ProviderType ops_stored = ''alidns''" "dc_Status ops_stored = ''active''"
proof -
  have "normToken (cri_ProviderType ops_credential) = ''alidns''" by code_simp
  then show "dc_ID ops_stored = ''c1''" "dc_Scope ops_stored = sample_env" "dc_ProviderType ops_stored = ''alidns''" "dc_Status ops_stored = ''active''"
    by (simp_all add: ops_stored_def new_credential_def)
qed

lemma sample_env_valid: "scope_Validate sample_env = None"
  by code_simp

lemma ops_created: "credential_Create NewCredentialService sample_env ops_credential 7 ''c1'' =
    (Inr ops_stored, \<lparr>dcs_byID = mput ''c1'' ops_stored [], dcs_byEnvName = mput (envKey sample_env (dc_DisplayName ops_stored)) ''c1'' []\<rparr>)"
proof -
  have "credential_validateUpsert ops_credential = None" by code_simp
  then show ?thesis unfolding credential_Create_def Let_def ops_stored_def [symmetric]
    by (simp add: sample_env_valid NewCredentialService_def ops_stored_simps)
qed

lemma ops_run:
  "governance_run ops_rec ops_start (ops_env ''c1'') sample_env ''u1'' (GcCreateDNSCredential ops_credential) = (Inr (), ops_with_credential)"
  "gv_domains ops_with_credential = NewDomainService"
  "dcs_byID (gv_dns ops_with_credential) = mput ''c1'' ops_stored []"
  unfolding ops_with_credential_def
  by (simp_all add: CreateDNSCredential_def ops_start_def governance_start_def ops_env_def ops_created)

lemma ops_reached: "(governance_step ops_rec)\<^sup>*\<^sup>* ops_start ops_with_credential"
  by (rule r_into_rtranclp, rule governance_step.commanded [OF _ _ ops_run(1)])
    (simp_all add: ops_start_def governance_start_def NewDomainService_def NewCredentialService_def)

theorem governance_is_audited_witness:
  "\<exists>ev st' w'. gv_audit ops_with_credential = (Some st', w') \<and> ad_eventsByID st' = [(''e-c1'', ev)] \<and> ae_Scope ev = sample_env \<and>
     ae_Action ev = ''dns_credential.create'' \<and> ae_ActorID ev = ''u1''"
proof -
  have u: "TrimSpace ''u1'' = ''u1''" by code_simp
  have a: "gv_audit ops_start = (Some NewAuditService, ())" by (simp add: ops_start_def governance_start_def)
  have "(governance_step ops_rec)\<^sup>*\<^sup>* (governance_start (Some NewAuditService, ())) ops_start" by (simp add: ops_start_def)
  from governance_is_audited [OF this a ops_run(1)] show ?thesis
    by (auto simp: u ops_env_def NewAuditService_def mput_def)
qed

lemma ops_domain_run:
  "\<exists>d. governance_run ops_rec ops_with_credential (ops_env ''d1'') sample_env [] (GcCreateDomain ops_domain) = (Inr (), ops_with_domain) \<and>
     mget (ds_byID (gv_domains ops_with_domain)) ''d1'' = Some d \<and> da_Scope d = sample_env \<and> da_DNSCredentialID d = ''c1''"
proof -
  have t: "TrimSpace (du_DNSCredentialID ops_domain) = ''c1''" "TrimSpace ''c1'' = ''c1''" by code_simp+
  have k: "LookupAvailable (gv_dns ops_with_credential) sample_env ''c1'' =
    Inr \<lparr>crf_ID = ''c1'', crf_Scope = sample_env, crf_ProviderType = ''alidns'', crf_ScopeMode = dc_ScopeMode ops_stored, crf_Status = ''active''\<rparr>"
    by (simp add: LookupAvailable_def credential_Get_def sample_env_valid t ops_run(3) scoped_get_def ops_stored_simps)
  let ?di = "\<lparr>di_Name = ''x.y'', di_ChallengeType = ''dns-01'', di_AutoRenew = True, di_DNSCredentialID = ''c1'', di_DNSProvider = ''alidns''\<rparr>"
  have r: "resolveDomainInput (gv_dns ops_with_credential) sample_env ops_domain = Inr ?di"
    using k by (simp add: resolveDomainInput_def t) (simp add: ops_domain_def)
  have v: "domain_validateInput ?di = Inr (''x.y'', ''single'', False)" by code_simp
  obtain d ds where c: "domain_Create NewDomainService sample_env ?di 7 ''d1'' = (Inr d, ds)"
    by (simp add: domain_Create_def v sample_env_valid Let_def NewDomainService_def)
  have run: "governance_run ops_rec ops_with_credential (ops_env ''d1'') sample_env [] (GcCreateDomain ops_domain) = (Inr (), ops_with_domain)"
    and ds: "gv_domains ops_with_domain = ds"
    unfolding ops_with_domain_def by (simp_all add: CreateDomain_def r ops_run(2) c ops_env_def)
  from new_domain_bound [OF c] have "mget (ds_byID ds) ''d1'' = Some d" "da_Scope d = sample_env" "da_DNSCredentialID d = ''c1''"
    by (simp_all add: t)
  with run ds show ?thesis by blast
qed

theorem domains_use_credentials_of_their_environment_witness:
  "\<exists>d c. GetDomain ops_with_domain sample_env ''d1'' = Inr d \<and> credential_Get (gv_dns ops_with_domain) sample_env ''c1'' = Inr c \<and> dc_Scope c = sample_env"
proof -
  from ops_domain_run obtain d where run: "governance_run ops_rec ops_with_credential (ops_env ''d1'') sample_env [] (GcCreateDomain ops_domain) = (Inr (), ops_with_domain)"
    and d: "mget (ds_byID (gv_domains ops_with_domain)) ''d1'' = Some d" "da_Scope d = sample_env" "da_DNSCredentialID d = ''c1''" by blast
  have "governance_step ops_rec ops_with_credential ops_with_domain"
    by (rule governance_step.commanded [OF _ _ run]) (simp_all add: ops_run(2,3) NewDomainService_def ops_env_def)
  with ops_reached have reach: "(governance_step ops_rec)\<^sup>*\<^sup>* (governance_start (Some NewAuditService, ())) ops_with_domain"
    unfolding ops_start_def by (rule rtranclp.rtrancl_into_rtrancl)
  have "TrimSpace ''d1'' \<noteq> []" by code_simp
  with d have g: "GetDomain ops_with_domain sample_env ''d1'' = Inr d"
    by (simp add: GetDomain_def app_domain_def domain_Get_def sample_env_valid scoped_get_def)
  from domains_use_credentials_of_their_environment [OF reach g] d(3) g show ?thesis by auto
qed

end
