(* ===== verification/SettingsCommand.thy ===== *)
theory SettingsCommand
  imports DomainCommand NginxDeploy Json Rfc3339
begin

text \<open>
  The commands on webhooks and settings and the export of the audit log (\<^verbatim>\<open>internal/application/command/settings/service.go\<close>)
  over the audit and the settings service, with the writers of \<^verbatim>\<open>encoding/csv\<close> and of \<^verbatim>\<open>encoding/json\<close> for a map of strings.
  The directories and files of the host are two functions on its state \<open>'w\<close>; an error of theirs is its text.
\<close>

section \<open>Rendering\<close>

text \<open>\<^verbatim>\<open>csv.Writer\<close> with its defaults: a comma between fields, a line feed after a record, quotes where a field needs them.\<close>

definition fieldNeedsQuotes :: "string \<Rightarrow> bool" where
  "fieldNeedsQuotes field =
     (if field = [] then False
      else if field = [CHR 0x5C, CHR ''.''] then True
      else if CHR 0x0A \<in> set field \<or> CHR 0x0D \<in> set field \<or> CHR 0x22 \<in> set field \<or> CHR '','' \<in> set field then True
      else 0 < space_len wide_spaces field)"

definition csv_quote :: "char \<Rightarrow> string" where
  "csv_quote c = (if c = CHR 0x22 then [CHR 0x22, CHR 0x22] else [c])"

definition csv_field :: "string \<Rightarrow> string" where
  "csv_field field =
     (if fieldNeedsQuotes field then CHR 0x22 # concat (map csv_quote field) @ [CHR 0x22] else field)"

definition csv_Write :: "string list \<Rightarrow> string" where
  "csv_Write rec = Join CHR '','' (map csv_field rec) @ [CHR 0x0A]"

text \<open>\<^verbatim>\<open>json.Marshal\<close> of a map of strings writes its keys in order.\<close>

definition marshal_details :: "details \<Rightarrow> string" where
  "marshal_details d = marshal (map (\<lambda>(k, v). (k, FString v)) (sort_key fst d))"

definition csv_header :: "string list" where
  "csv_header = [''id'', ''tenant_id'', ''project_id'', ''environment_id'', ''occurred_at'', ''actor_type'', ''actor_id'', ''action'',
     ''resource_type'', ''resource_id'', ''request_id'', ''trace_id'', ''detail_json'']"

definition csv_row :: "audit_event \<Rightarrow> string list" where
  "csv_row ev =
     (let detailJSON = (if 0 < length (ae_Detail ev) then marshal_details (ae_Detail ev) else ''{}'') in
      [ae_ID ev, TenantID (ae_Scope ev), ProjectID (ae_Scope ev), EnvironmentID (ae_Scope ev), FormatRFC3339 (ae_OccurredAt ev),
       ae_ActorType ev, ae_ActorID ev, ae_Action ev, ae_ResourceType ev, ae_ResourceID ev, ae_RequestID ev, ae_TraceID ev, detailJSON])"

text \<open>No write to a buffer and no marshalling of strings fails, so the error is never there.\<close>

definition renderAuditCSV :: "audit_event list \<Rightarrow> string + string" where
  "renderAuditCSV events = Inr (csv_Write csv_header @ concat (map (\<lambda>ev. csv_Write (csv_row ev)) events))"

section \<open>State and errors\<close>

record 'w settings_side =
  sv_audit :: audit_store
  sv_settings :: settings_store
  sv_world :: 'w

record 'w settings_command =
  sd_deliver :: "'w deliverer"
  sd_parse_url :: "string \<Rightarrow> (string \<times> string \<times> string) option"
  sd_MkdirAll :: "string \<Rightarrow> 'w \<Rightarrow> string option \<times> 'w"
  sd_WriteFile :: "string \<Rightarrow> string \<Rightarrow> 'w \<Rightarrow> string option \<times> 'w"
  sd_exportDir :: string

definition path_Join :: "string list \<Rightarrow> string" where
  "path_Join elems = (let es = dropWhile (\<lambda>e. e = []) elems in if es = [] then [] else Clean (Join CHR ''/'' es))"

definition NewSettingsCommand ::
  "'w deliverer \<Rightarrow> (string \<Rightarrow> (string \<times> string \<times> string) option) \<Rightarrow> (string \<Rightarrow> 'w \<Rightarrow> string option \<times> 'w)
     \<Rightarrow> (string \<Rightarrow> string \<Rightarrow> 'w \<Rightarrow> string option \<times> 'w) \<Rightarrow> string \<Rightarrow> string \<Rightarrow> 'w settings_command" where
  "NewSettingsCommand deliver parse_url mkdirAll writeFile tempDir exportDir =
     \<lparr>sd_deliver = deliver, sd_parse_url = parse_url, sd_MkdirAll = mkdirAll, sd_WriteFile = writeFile,
      sd_exportDir = (if TrimSpace exportDir = [] then path_Join [tempDir, ''autocertx-exports''] else exportDir)\<rparr>"

definition translateResourceError :: "gerror \<Rightarrow> app_error" where
  "translateResourceError e =
     (if errorsIs e ErrNotFound then AppError 404 ''RESOURCE_NOT_FOUND''
      else if errorsIs e ErrConflict then AppError 409 ''RESOURCE_CONFLICT''
      else if errorsIs e ErrScopeMismatch then AppError 409 ''TENANT_SCOPE_MISMATCH''
      else if errorsIs e ErrValidation then AppError 400 ''REQUEST_VALIDATION_FAILED''
      else AppError 500 ''INTERNAL_ERROR'')"

definition app_resource :: "gerror + 'b \<Rightarrow> app_error + 'b" where
  "app_resource r = map_sum translateResourceError id r"

section \<open>The audit trail of a command\<close>

text \<open>The error of the audit service is dropped by every caller.\<close>

definition recordAudit ::
  "'w settings_command \<Rightarrow> audit_draws \<Rightarrow> scope \<Rightarrow> string \<Rightarrow> string \<Rightarrow> string \<Rightarrow> string \<Rightarrow> details \<Rightarrow> 'w settings_side \<Rightarrow> 'w settings_side" where
  "recordAudit s draws sc actorID action resourceType resourceID detail st =
     (case RecordEvent (sd_deliver s) (sv_audit st) sc
        \<lparr>ei_ActorType = ''user'', ei_ActorID = TrimSpace actorID, ei_Action = action, ei_ResourceType = resourceType,
         ei_ResourceID = TrimSpace resourceID, ei_RequestID = [], ei_TraceID = [], ei_Detail = detail, ei_OccurredAt = zeroTime\<rparr>
        (aw_clock draws) (aw_eventID draws) (aw_noteIDs draws) (sv_world st) of
        (_, audit, w) \<Rightarrow> st\<lparr>sv_audit := audit, sv_world := w\<rparr>)"

section \<open>Webhooks\<close>

definition settings_ListWebhookEndpoints :: "'w settings_side \<Rightarrow> scope \<Rightarrow> app_error + webhook_endpoint list" where
  "settings_ListWebhookEndpoints st sc = app_resource (ListWebhookEndpoints (sv_audit st) sc)"

definition webhook_detail :: "webhook_endpoint \<Rightarrow> details" where
  "webhook_detail ep = [(''name'', wh_Name ep), (''url'', wh_URL ep), (''status'', wh_Status ep), (''event_types'', Join CHR '','' (wh_EventTypes ep))]"

definition settings_CreateWebhookEndpoint ::
  "'w settings_command \<Rightarrow> 'w settings_side \<Rightarrow> command_env \<Rightarrow> scope \<Rightarrow> string \<Rightarrow> webhook_input
     \<Rightarrow> (app_error + webhook_endpoint) \<times> 'w settings_side" where
  "settings_CreateWebhookEndpoint s st env sc actorID inp =
     (case CreateWebhookEndpoint (sd_parse_url s) (sv_audit st) sc inp (cv_now env) (cv_newID env) of
        (Inl e, audit) \<Rightarrow> (Inl (translateResourceError e), st\<lparr>sv_audit := audit\<rparr>)
      | (Inr ep, audit) \<Rightarrow>
          (Inr ep, recordAudit s (cv_draws env) sc actorID ''settings.webhook.create'' ''webhook_endpoint'' (wh_ID ep) (webhook_detail ep)
            (st\<lparr>sv_audit := audit\<rparr>)))"

definition settings_UpdateWebhookEndpoint ::
  "'w settings_command \<Rightarrow> 'w settings_side \<Rightarrow> command_env \<Rightarrow> scope \<Rightarrow> string \<Rightarrow> string \<Rightarrow> webhook_input
     \<Rightarrow> (app_error + webhook_endpoint) \<times> 'w settings_side" where
  "settings_UpdateWebhookEndpoint s st env sc actorID i inp =
     (case UpdateWebhookEndpoint (sd_parse_url s) (sv_audit st) sc (TrimSpace i) inp (cv_now env) of
        (Inl e, audit) \<Rightarrow> (Inl (translateResourceError e), st\<lparr>sv_audit := audit\<rparr>)
      | (Inr ep, audit) \<Rightarrow>
          (Inr ep, recordAudit s (cv_draws env) sc actorID ''settings.webhook.update'' ''webhook_endpoint'' (wh_ID ep) (webhook_detail ep)
            (st\<lparr>sv_audit := audit\<rparr>)))"

section \<open>Settings\<close>

definition settings_GetRenewal :: "'w settings_side \<Rightarrow> scope \<Rightarrow> app_error + renewal_settings" where
  "settings_GetRenewal st sc = app_resource (GetRenewalWindowSettings (sv_settings st) sc)"

definition settings_UpdateRenewal ::
  "'w settings_command \<Rightarrow> 'w settings_side \<Rightarrow> command_env \<Rightarrow> scope \<Rightarrow> string \<Rightarrow> int \<Rightarrow> int
     \<Rightarrow> (app_error + renewal_settings) \<times> 'w settings_side" where
  "settings_UpdateRenewal s st env sc actorID days interval =
     (case UpdateRenewalWindowSettings (sv_settings st) sc days interval (cv_now env) of
        (Inl e, settings) \<Rightarrow> (Inl (translateResourceError e), st\<lparr>sv_settings := settings\<rparr>)
      | (Inr item, settings) \<Rightarrow>
          (Inr item, recordAudit s (cv_draws env) sc actorID ''settings.renewal_window.update'' ''settings_profile'' (EnvironmentID sc)
            [(''days_before_expiry'', decimal (rn_DaysBeforeExpiry item)), (''scan_interval_minutes'', decimal (rn_ScanIntervalMinute item))]
            (st\<lparr>sv_settings := settings\<rparr>)))"

definition settings_GetSecurity :: "'w settings_side \<Rightarrow> scope \<Rightarrow> app_error + security_settings" where
  "settings_GetSecurity st sc = app_resource (GetSecuritySettings (sv_settings st) sc)"

definition FormatBool :: "bool \<Rightarrow> string" where
  "FormatBool b = (if b then ''true'' else ''false'')"

definition settings_UpdateSecurity ::
  "'w settings_command \<Rightarrow> 'w settings_side \<Rightarrow> command_env \<Rightarrow> scope \<Rightarrow> string \<Rightarrow> security_input
     \<Rightarrow> (app_error + security_settings) \<times> 'w settings_side" where
  "settings_UpdateSecurity s st env sc actorID inp =
     (case UpdateSecuritySettings (sv_settings st) sc inp (cv_now env) of
        (Inl e, settings) \<Rightarrow> (Inl (translateResourceError e), st\<lparr>sv_settings := settings\<rparr>)
      | (Inr item, settings) \<Rightarrow>
          (Inr item, recordAudit s (cv_draws env) sc actorID ''settings.security.update'' ''settings_profile'' (EnvironmentID sc)
            [(''enforce_strong_password'', FormatBool (se_EnforceStrongPassword item)),
             (''password_rotation_days'', decimal (se_PasswordRotationDays item)), (''max_session_count'', decimal (se_MaxSessionCount item))]
            (st\<lparr>sv_settings := settings\<rparr>)))"

section \<open>Exports\<close>

text \<open>The filter of an export has the fields of the filter of the audit log.\<close>

type_synonym export_filter = event_filter

record export_result =
  ex_Filename :: string
  ex_Content :: string
  ex_Record :: export_record

definition trimmed_filter :: "export_filter \<Rightarrow> event_filter" where
  "trimmed_filter f = f\<lparr>ef_ActorID := TrimSpace (ef_ActorID f), ef_Action := TrimSpace (ef_Action f),
     ef_ResourceType := TrimSpace (ef_ResourceType f), ef_ResourceID := TrimSpace (ef_ResourceID f)\<rparr>"

definition note_text :: "string \<Rightarrow> string \<Rightarrow> details \<Rightarrow> details" where
  "note_text k v d = (if TrimSpace v \<noteq> [] then mput k (TrimSpace v) d else d)"

definition note_time :: "string \<Rightarrow> gotime option \<Rightarrow> details \<Rightarrow> details" where
  "note_time k t d = (case t of None \<Rightarrow> d | Some x \<Rightarrow> mput k (FormatRFC3339 x) d)"

definition exportFilterSnapshot :: "export_filter \<Rightarrow> details" where
  "exportFilterSnapshot f =
     note_time ''end_time'' (ef_EndTime f) (note_time ''start_time'' (ef_StartTime f)
       (note_text ''resource_id'' (ef_ResourceID f) (note_text ''resource_type'' (ef_ResourceType f)
         (note_text ''action'' (ef_Action f) (note_text ''actor_id'' (ef_ActorID f) [])))))"

record export_env =
  xe_createdAt :: gotime
  xe_newID :: string
  xe_exportNo :: string
  xe_markedAt :: gotime
  xe_draws :: audit_draws

text \<open>The record is marked and the answer is an internal error.\<close>

definition storage_failed :: "'w settings_side \<Rightarrow> export_env \<Rightarrow> scope \<Rightarrow> export_record \<Rightarrow> string \<Rightarrow> (app_error + export_result) \<times> 'w settings_side" where
  "storage_failed st env sc rec e =
     (Inl (AppError 500 ''INTERNAL_ERROR''),
      st\<lparr>sv_audit := snd (MarkExportFailed (sv_audit st) sc (xr_ID rec) ''EXPORT_STORAGE_FAILED'' e (xe_markedAt env))\<rparr>)"

definition ExportAuditCSV ::
  "'w settings_command \<Rightarrow> 'w settings_side \<Rightarrow> export_env \<Rightarrow> scope \<Rightarrow> string \<Rightarrow> export_filter
     \<Rightarrow> (app_error + export_result) \<times> 'w settings_side" where
  "ExportAuditCSV s st env sc actorID f =
     (case audit_ListEvents (sv_audit st) sc (trimmed_filter f) of
        Inl e \<Rightarrow> (Inl (translateResourceError e), st)
      | Inr events \<Rightarrow>
     (case CreateExportRecord (sv_audit st) sc \<lparr>xi_ExportType = ''audit'', xi_ResourceType = ''audit_event'', xi_RequestedBy = TrimSpace actorID,
          xi_Format = ''csv'', xi_Filters = exportFilterSnapshot f, xi_Status = ''running''\<rparr> (xe_createdAt env) (xe_newID env) (xe_exportNo env) of
        (Inl e, audit) \<Rightarrow> (Inl (translateResourceError e), st\<lparr>sv_audit := audit\<rparr>)
      | (Inr rec, audit) \<Rightarrow>
     let st1 = st\<lparr>sv_audit := audit\<rparr> in
     (case renderAuditCSV events of
        Inl e \<Rightarrow> (Inl (AppError 500 ''INTERNAL_ERROR''),
          st1\<lparr>sv_audit := snd (MarkExportFailed (sv_audit st1) sc (xr_ID rec) ''CSV_RENDER_FAILED'' e (xe_markedAt env))\<rparr>)
      | Inr content \<Rightarrow>
     (case sd_MkdirAll s (sd_exportDir s) (sv_world st1) of
        (Some e, w) \<Rightarrow> storage_failed (st1\<lparr>sv_world := w\<rparr>) env sc rec e
      | (None, w) \<Rightarrow>
     let filename = ''audit-'' @ ToLower (xr_ExportNo rec) @ ''.csv'';
         storageRef = path_Join [sd_exportDir s, filename] in
     (case sd_WriteFile s storageRef content w of
        (Some e, w2) \<Rightarrow> storage_failed (st1\<lparr>sv_world := w2\<rparr>) env sc rec e
      | (None, w2) \<Rightarrow>
     let st2 = st1\<lparr>sv_world := w2\<rparr> in
     (case MarkExportSucceeded (sv_audit st2) sc (xr_ID rec) storageRef (xe_markedAt env) of
        (Inl e, audit2) \<Rightarrow> (Inl (translateResourceError e), st2\<lparr>sv_audit := audit2\<rparr>)
      | (Inr rec2, audit2) \<Rightarrow>
          (Inr \<lparr>ex_Filename = filename, ex_Content = content, ex_Record = rec2\<rparr>,
           recordAudit s (xe_draws env) sc actorID ''audit.export_csv'' ''export_record'' (xr_ID rec2)
             [(''export_no'', xr_ExportNo rec2), (''storage_ref'', xr_StorageRef rec2), (''rows'', decimal (int (length events)))]
             (st2\<lparr>sv_audit := audit2\<rparr>))))))))"

end
