(* ===== verification/SettingsCommandProps.thy ===== *)
theory SettingsCommandProps
  imports SettingsCommand JsonRoundtrip NginxProps
begin

text \<open>
  What an export of the audit log leaves behind: a CSV that reads back, and a record that says how the export ended; and which changes of
  the settings are audited.
\<close>

section \<open>Reading CSV\<close>

text \<open>A reader after RFC 4180: the rest of a quoted field after its first quote, a field, a record, and the records of a text.\<close>

fun csv_read_quoted :: "string \<Rightarrow> (string \<times> string) option" where
  "csv_read_quoted [] = None"
| "csv_read_quoted [c] = (if c = CHR 0x22 then Some ([], []) else None)"
| "csv_read_quoted (c # d # r) =
     (if c \<noteq> CHR 0x22 then map_option (apfst (Cons c)) (csv_read_quoted (d # r))
      else if d = CHR 0x22 then map_option (apfst (Cons c)) (csv_read_quoted r)
      else Some ([], d # r))"

definition csv_plain :: "char \<Rightarrow> bool" where
  "csv_plain c = (c \<noteq> CHR '','' \<and> c \<noteq> CHR 0x0A)"

definition csv_read_field :: "string \<Rightarrow> (string \<times> string) option" where
  "csv_read_field s =
     (if s \<noteq> [] \<and> hd s = CHR 0x22 then csv_read_quoted (tl s) else Some (takeWhile csv_plain s, dropWhile csv_plain s))"

lemma csv_read_quoted_le: "csv_read_quoted s = Some (f, r) \<Longrightarrow> length r \<le> length s"
proof (induction s arbitrary: f r rule: csv_read_quoted.induct)
  case (3 c d q)
  then show ?case by (cases "c = CHR 0x22"; cases "d = CHR 0x22") (simp_all, fastforce+)
qed (auto split: if_splits)

lemma length_dropWhile: "length (dropWhile P s) \<le> length s"
  by (induction s) auto

lemma csv_read_field_le: "csv_read_field s = Some (f, r) \<Longrightarrow> length r \<le> length s"
  by (cases s) (auto simp: csv_read_field_def le_SucI length_dropWhile dest!: csv_read_quoted_le split: if_splits)

function csv_read_record :: "string \<Rightarrow> (string list \<times> string) option" where
  "csv_read_record s =
     (case csv_read_field s of
        None \<Rightarrow> None
      | Some (f, r) \<Rightarrow>
          (case r of
             [] \<Rightarrow> None
           | c # q \<Rightarrow>
               if c = CHR '','' then map_option (apfst (Cons f)) (csv_read_record q)
               else if c = CHR 0x0A then Some ([f], q)
               else None))"
  by pat_completeness auto
termination by (relation "measure length") (auto dest!: csv_read_field_le)

declare csv_read_record.simps [simp del]

lemma csv_read_record_less: "csv_read_record s = Some (fs, r) \<Longrightarrow> length r < length s"
proof (induction s arbitrary: fs rule: csv_read_record.induct)
  case (1 s)
  then obtain f c q where f: "csv_read_field s = Some (f, c # q)"
    by (auto simp: csv_read_record.simps [of s] split: option.splits list.splits)
  note l = csv_read_field_le [OF f]
  show ?case
  proof (cases "c = CHR '',''")
    case True
    with "1.prems" f obtain gs where "csv_read_record q = Some (gs, r)" by (auto simp: csv_read_record.simps [of s])
    with "1.IH" [OF f _ _ True] have "length r < length q" by auto
    with l show ?thesis by simp
  next
    case False
    with "1.prems" f l show ?thesis by (auto simp: csv_read_record.simps [of s] split: if_splits)
  qed
qed

function read_csv :: "string \<Rightarrow> string list list option" where
  "read_csv s =
     (if s = [] then Some []
      else (case csv_read_record s of
        None \<Rightarrow> None
      | Some (fs, r) \<Rightarrow> map_option (Cons fs) (read_csv r)))"
  by pat_completeness auto
termination by (relation "measure length") (auto dest!: csv_read_record_less)

declare read_csv.simps [simp del]

section \<open>What is written is read back\<close>

lemma csv_quote_simps: "csv_quote CHR 0x22 = [CHR 0x22, CHR 0x22]" "c \<noteq> CHR 0x22 \<Longrightarrow> csv_quote c = [c]"
  by (simp_all add: csv_quote_def)

definition ends_field :: "string \<Rightarrow> bool" where
  "ends_field r = (r \<noteq> [] \<and> \<not> csv_plain (hd r))"

lemma csv_quoted_reads:
  "ends_field r \<Longrightarrow> csv_read_quoted (concat (map csv_quote f) @ CHR 0x22 # r) = Some (f, r)"
proof (induction f)
  case Nil
  then show ?case by (cases r) (auto simp: ends_field_def csv_plain_def)
next
  case (Cons c f)
  then have IH: "csv_read_quoted (concat (map csv_quote f) @ CHR 0x22 # r) = Some (f, r)" by simp
  show ?case
  proof (cases "c = CHR 0x22")
    case True
    with IH show ?thesis by (simp add: csv_quote_simps)
  next
    case False
    obtain d q where q: "concat (map csv_quote f) @ CHR 0x22 # r = d # q" by (cases "concat (map csv_quote f) @ CHR 0x22 # r") auto
    from False IH show ?thesis by (simp add: csv_quote_simps q)
  qed
qed

lemma csv_field_reads:
  assumes "ends_field r"
  shows "csv_read_field (csv_field f @ r) = Some (f, r)"
proof (cases "fieldNeedsQuotes f")
  case True
  then show ?thesis using csv_quoted_reads [OF assms, of f] by (simp add: csv_read_field_def csv_field_def)
next
  case False
  obtain c q where r: "r = c # q" "\<not> csv_plain c" using assms by (cases r) (auto simp: ends_field_def)
  have "\<forall>x \<in> set f. csv_plain x" "CHR 0x22 \<notin> set f" using False by (auto simp: fieldNeedsQuotes_def csv_plain_def split: if_splits)
  moreover from this(2) have "hd (f @ r) \<noteq> CHR 0x22" using r by (cases f) (auto simp: csv_plain_def)
  ultimately show ?thesis using False r by (simp add: csv_field_def csv_read_field_def takeWhile_append2 dropWhile_append2)
qed

lemma csv_record_reads: "rec \<noteq> [] \<Longrightarrow> csv_read_record (csv_Write rec @ r) = Some (rec, r)"
proof (induction rec)
  case (Cons f rec)
  show ?case
  proof (cases rec)
    case Nil
    have "csv_read_field (csv_field f @ CHR 0x0A # r) = Some (f, CHR 0x0A # r)"
      by (rule csv_field_reads) (simp add: ends_field_def csv_plain_def)
    with Nil show ?thesis by (simp add: csv_Write_def csv_read_record.simps [of "csv_field f @ CHR 0x0A # r"])
  next
    case (Cons g gs)
    let ?q = "csv_Write rec @ r"
    have q: "csv_Write (f # rec) @ r = csv_field f @ CHR '','' # ?q" using Cons by (simp add: csv_Write_def)
    have "csv_read_field (csv_field f @ CHR '','' # ?q) = Some (f, CHR '','' # ?q)"
      by (rule csv_field_reads) (simp add: ends_field_def csv_plain_def)
    moreover have "csv_read_record ?q = Some (rec, r)" using Cons.IH Cons by simp
    ultimately show ?thesis unfolding q csv_read_record.simps [of "csv_field f @ CHR '','' # ?q"] by simp
  qed
qed simp

lemma csv_Write_nonempty: "csv_Write rec \<noteq> []"
  by (simp add: csv_Write_def)

lemma csv_reads: "[] \<notin> set recs \<Longrightarrow> read_csv (concat (map csv_Write recs)) = Some recs"
proof (induction recs)
  case (Cons rec recs)
  then have "csv_read_record (csv_Write rec @ concat (map csv_Write recs)) = Some (rec, concat (map csv_Write recs))"
    by (intro csv_record_reads) auto
  with Cons show ?case by (simp add: read_csv.simps [of "csv_Write rec @ concat (map csv_Write recs)"] csv_Write_nonempty)
qed (simp add: read_csv.simps)

lemma marshal_details_reads:
  assumes "d \<noteq> []"
  shows "parse_json (marshal_details d) = Some (JObject (map (\<lambda>(k, v). (scrub k, JString (scrub v))) (sort_key fst d)))"
proof -
  have "sort_key fst d \<noteq> []" using assms by (metis length_0_conv length_sort)
  then show ?thesis by (simp add: marshal_details_def parse_marshal json_field_def case_prod_beta comp_def)
qed

text \<open>C24: the export of the audit log reads back: whatever bytes the events hold, a reader after RFC 4180 gets the header and one record an
  event, in order: twelve fields that are those of the event as they are, and a last one that is a JSON object
  with the details of the event.\<close>

theorem audit_csv_reads_back:
  "\<exists>content rows. renderAuditCSV events = Inr content \<and> read_csv content = Some (csv_header # rows) \<and>
     map butlast rows = map (\<lambda>ev. [ae_ID ev, TenantID (ae_Scope ev), ProjectID (ae_Scope ev), EnvironmentID (ae_Scope ev),
       FormatRFC3339 (ae_OccurredAt ev), ae_ActorType ev, ae_ActorID ev, ae_Action ev, ae_ResourceType ev, ae_ResourceID ev,
       ae_RequestID ev, ae_TraceID ev]) events \<and>
     map (\<lambda>row. parse_json (last row)) rows =
     map (\<lambda>ev. Some (JObject (map (\<lambda>(k, v). (scrub k, JString (scrub v))) (sort_key fst (ae_Detail ev))))) events"
proof -
  have c: "csv_Write csv_header @ concat (map (\<lambda>ev. csv_Write (csv_row ev)) events) = concat (map csv_Write (csv_header # map csv_row events))"
    by (simp add: comp_def)
  have "[] \<notin> set (csv_header # map csv_row events)" by (auto simp: csv_header_def csv_row_def Let_def)
  from csv_reads [OF this] have r: "read_csv (csv_Write csv_header @ concat (map (\<lambda>ev. csv_Write (csv_row ev)) events)) =
    Some (csv_header # map csv_row events)" unfolding c .
  have e: "parse_json ''{}'' = Some (JObject [])" by code_simp
  have d: "parse_json (last (csv_row ev)) = Some (JObject (map (\<lambda>(k, v). (scrub k, JString (scrub v))) (sort_key fst (ae_Detail ev))))" for ev
    using marshal_details_reads [of "ae_Detail ev"] e by (cases "ae_Detail ev = []") (simp_all add: csv_row_def Let_def)
  show ?thesis
  proof (intro exI conjI)
    show "renderAuditCSV events = Inr (csv_Write csv_header @ concat (map (\<lambda>ev. csv_Write (csv_row ev)) events))" by (simp add: renderAuditCSV_def)
    show "map butlast (map csv_row events) = map (\<lambda>ev. [ae_ID ev, TenantID (ae_Scope ev), ProjectID (ae_Scope ev), EnvironmentID (ae_Scope ev),
       FormatRFC3339 (ae_OccurredAt ev), ae_ActorType ev, ae_ActorID ev, ae_Action ev, ae_ResourceType ev, ae_ResourceID ev,
       ae_RequestID ev, ae_TraceID ev]) events" by (simp add: csv_row_def Let_def)
  qed (use r d in \<open>simp_all add: comp_def\<close>)
qed

section \<open>The path of an export\<close>

lemma Split_suffix: "sep \<notin> set w \<Longrightarrow> \<exists>es e. Split sep (q @ w) = es @ [e @ w]"
proof (induction q)
  case Nil
  then show ?case by (simp add: Split_last)
next
  case (Cons c q)
  then obtain es e where e: "Split sep (q @ w) = es @ [e @ w]" by blast
  show ?case
  proof (cases "c = sep")
    case True
    with e have "Split sep ((c # q) @ w) = ([] # es) @ [e @ w]" by simp
    then show ?thesis by blast
  next
    case False
    show ?thesis
    proof (cases es)
      case Nil
      with e False have "Split sep ((c # q) @ w) = [] @ [(c # e) @ w]" by simp
      then show ?thesis by blast
    next
      case (Cons x xs)
      with e False have "Split sep ((c # q) @ w) = ((c # x) # xs) @ [e @ w]" by simp
      then show ?thesis by blast
    qed
  qed
qed

lemma Join_last: "\<exists>z. Join sep (es @ [e]) = z @ e"
proof (induction sep es rule: Join.induct)
  case (1 sep)
  have "Join sep ([] @ [e]) = [] @ e" by simp
  then show ?case by blast
next
  case (2 sep p)
  have "Join sep ([p] @ [e]) = (p @ [sep]) @ e" by simp
  then show ?case by blast
next
  case (3 sep p v va)
  then obtain z where "Join sep ((v # va) @ [e]) = z @ e" by blast
  then have "Join sep ((p # v # va) @ [e]) = (p @ sep # z) @ e" by simp
  then show ?case by blast
qed

lemma Clean_ends: "\<exists>z. Clean (q @ ''.csv'') = z @ ''.csv''"
proof -
  obtain es e where e: "Split CHR ''/'' (q @ ''.csv'') = es @ [e @ ''.csv'']" using Split_suffix [of "CHR ''/''" "''.csv''" q] by auto
  have "e @ ''.csv'' \<noteq> []" "e @ ''.csv'' \<noteq> ''.''" "e @ ''.csv'' \<noteq> ''..''" by (cases e; simp)+
  then have "clean_elements (q @ ''.csv'') = rev (foldl (clean_step (IsAbs (q @ ''.csv''))) [] es) @ [e @ ''.csv'']"
    unfolding clean_elements_def e by (simp add: clean_step_def)
  then obtain z where z: "Join CHR ''/'' (clean_elements (q @ ''.csv'')) = z @ e @ ''.csv''" using Join_last by metis
  show ?thesis unfolding Clean_def z Let_def by (cases "IsAbs (q @ ''.csv'')") (auto intro: exI [of _ "CHR ''/'' # z @ e"] exI [of _ "z @ e"])
qed

lemma eaten_not_solid:
  assumes "space_len ws s \<noteq> 0" "solid c" "\<forall>w \<in> set ws. \<forall>b \<in> set w. 128 \<le> b"
  shows "c \<notin> set (take (space_len ws s) s)"
proof (cases s)
  case (Cons x r)
  show ?thesis
  proof (cases "ascii_space x")
    case True
    then have "x \<noteq> c" using assms(2) by (auto simp: solid_def ascii_space_def Let_def)
    with Cons True show ?thesis by (simp add: space_len_def)
  next
    case False
    with Cons assms(1) obtain w where w: "w \<in> set ws" "take (length w) (map byte_of s) = w" "space_len ws s = length w"
    proof -
      from Cons assms(1) False have "find (\<lambda>w. take (length w) (map byte_of s) = w) ws \<noteq> None"
        by (auto simp: space_len_def split: if_splits option.splits)
      then obtain w where f: "find (\<lambda>w. take (length w) (map byte_of s) = w) ws = Some w" by blast
      from f have "w \<in> set ws" "take (length w) (map byte_of s) = w" by (auto simp: find_Some_iff)
      moreover from Cons assms(1) False f have "space_len ws s = length w" by (auto simp: space_len_def split: if_splits)
      ultimately show ?thesis using that by blast
    qed
    have "byte_of c \<in> set w" if "c \<in> set (take (length w) s)" using that w(2) by (metis image_eqI set_map take_map)
    with w assms(2,3) show ?thesis by (fastforce simp: solid_def)
  qed
qed (use assms in simp)

lemma trim_keeps_solid:
  assumes "solid c" "c \<in> set s" "\<forall>w \<in> set ws. \<forall>b \<in> set w. 128 \<le> b"
  shows "c \<in> set (trim_with ws s)"
  using assms
proof (induction ws s rule: trim_with.induct)
  case (1 ws s)
  show ?case
  proof (cases "space_len ws s = 0")
    case True
    with 1 show ?thesis by (simp add: trim_with_fixed)
  next
    case False
    have "c \<notin> set (take (space_len ws s) s)"
      using False "1.prems"(1,3) by (rule eaten_not_solid)
    with "1.prems"(2) have "c \<in> set (drop (space_len ws s) s)" by (metis Un_iff append_take_drop_id set_append)
    from "1.IH" [OF False "1.prems"(1) this "1.prems"(3)] False show ?thesis by (simp add: trim_with.simps [of ws s])
  qed
qed

lemma wide_spaces_high: "\<forall>w \<in> set wide_spaces. \<forall>b \<in> set w. 128 \<le> b" "\<forall>w \<in> set (map rev wide_spaces). \<forall>b \<in> set w. 128 \<le> b"
  by (auto simp: wide_spaces_def)

lemma TrimSpace_keeps_solid: "solid c \<Longrightarrow> c \<in> set s \<Longrightarrow> c \<in> set (TrimSpace s)"
  using trim_keeps_solid [OF _ _ wide_spaces_high(1)] trim_keeps_solid [OF _ _ wide_spaces_high(2)]
  by (simp add: TrimSpace_def trimLeft_def trimRight_def)

lemma export_path_nonblank: "TrimSpace (path_Join [d, ''audit-'' @ n @ ''.csv'']) \<noteq> []"
proof -
  define q where "q = (if d = [] then ''audit-'' @ n else d @ CHR ''/'' # ''audit-'' @ n)"
  have q: "path_Join [d, ''audit-'' @ n @ ''.csv''] = Clean (q @ ''.csv'')" by (simp add: path_Join_def Let_def q_def)
  obtain z where "Clean (q @ ''.csv'') = z @ ''.csv''" using Clean_ends by blast
  then have "CHR ''v'' \<in> set (path_Join [d, ''audit-'' @ n @ ''.csv''])" unfolding q by simp
  moreover have "solid CHR ''v''" by code_simp
  ultimately have "CHR ''v'' \<in> set (TrimSpace (path_Join [d, ''audit-'' @ n @ ''.csv'']))" by (intro TrimSpace_keeps_solid)
  then show ?thesis by auto
qed

section \<open>How an export ends\<close>

lemma record_keeps_exports:
  assumes "RecordEvent deliver st sc inp clock newID newIDs w = (r, st', w')"
  shows "ad_exportsByID st' = ad_exportsByID st"
proof (cases r)
  case (Inl e)
  with assms show ?thesis by (auto simp: RecordEvent_def split: option.splits sum.splits prod.splits)
next
  case (Inr ev)
  obtain ids st1 where s: "store_event st ev newIDs = (ids, st1)" by fastforce
  obtain st2 w2 where d: "deliver_all deliver ids clock 2 st1 w = (st2, w2)" by fastforce
  from assms Inr s d have "st' = st2" by (auto simp: RecordEvent_def split: option.splits sum.splits prod.splits)
  with deliver_all_keeps [OF d] s show ?thesis by (auto simp: same_but_notifications_def store_event_def Let_def)
qed

lemma recordAudit_keeps_exports:
  "ad_exportsByID (sv_audit (recordAudit s draws sc actorID action ty i d st)) = ad_exportsByID (sv_audit st)"
  by (auto simp: recordAudit_def dest!: record_keeps_exports split: prod.splits)

lemma export_created:
  assumes "CreateExportRecord st sc inp now newID no = (Inr rec, st')"
  shows "valid_scope sc \<and> xr_ID rec = newID \<and> xr_Scope rec = sc \<and> xr_ExportNo rec = no \<and> xr_RequestedBy rec = TrimSpace (xi_RequestedBy inp) \<and>
    ad_exportsByID st' = mput newID rec (ad_exportsByID st)"
  using assms by (cases "scope_Validate sc") (auto simp: CreateExportRecord_def Let_def split: option.splits)

lemma export_refused: "CreateExportRecord st sc inp now newID no = (Inl e, st') \<Longrightarrow> st' = st"
  by (auto simp: CreateExportRecord_def Let_def split: option.splits)

lemma export_marked_failed:
  assumes "mget (ad_exportsByID st) i = Some rec" "xr_ID rec = i" "xr_Scope rec = sc" "valid_scope sc" "TrimSpace i \<noteq> []"
  shows "\<exists>r'. GetExportRecord (snd (MarkExportFailed st sc i code message now)) sc i = Inr r' \<and> xr_Status r' = ''failed'' \<and>
    xr_ErrorCode r' = TrimSpace code"
  using assms by (simp add: MarkExportFailed_def GetExportRecord_def required_def scoped_get_def Let_def)

lemma export_marked_succeeded:
  assumes "mget (ad_exportsByID st) i = Some rec" "xr_ID rec = i" "xr_Scope rec = sc" "valid_scope sc" "TrimSpace i \<noteq> []" "TrimSpace ref \<noteq> []"
  shows "\<exists>r' st'. MarkExportSucceeded st sc i ref now = (Inr r', st') \<and> mget (ad_exportsByID st') i = Some r' \<and> xr_Scope r' = sc \<and>
    xr_Status r' = ''succeeded'' \<and> xr_StorageRef r' = TrimSpace ref \<and> xr_RequestedBy r' = xr_RequestedBy rec \<and> xr_ID r' = i"
  using assms by (simp add: MarkExportSucceeded_def required_def scoped_get_def Let_def)

text \<open>C23: an export is always accounted for: when it succeeds, its record, requested by the caller, says so and names the path under which
  exactly the content of the answer was written, which renders the events that the filter selects; when it fails, either
  nothing was recorded, or the record says that storing the file failed. No export is left running.\<close>

theorem exports_are_tracked:
  assumes "ExportAuditCSV s st env sc actorID f = (r, st')" "TrimSpace (xe_newID env) \<noteq> []"
  shows "case r of
      Inl e \<Rightarrow> sv_audit st' = sv_audit st \<or>
        (\<exists>rec. GetExportRecord (sv_audit st') sc (xe_newID env) = Inr rec \<and> xr_Status rec = ''failed'' \<and> xr_ErrorCode rec = ''EXPORT_STORAGE_FAILED'')
    | Inr res \<Rightarrow> \<exists>events w. audit_ListEvents (sv_audit st) sc (trimmed_filter f) = Inr events \<and> renderAuditCSV events = Inr (ex_Content res) \<and>
        sd_MkdirAll s (sd_exportDir s) (sv_world st) = (None, w) \<and>
        fst (sd_WriteFile s (path_Join [sd_exportDir s, ex_Filename res]) (ex_Content res) w) = None \<and>
        GetExportRecord (sv_audit st') sc (xe_newID env) = Inr (ex_Record res) \<and> xr_Status (ex_Record res) = ''succeeded'' \<and>
        xr_StorageRef (ex_Record res) = TrimSpace (path_Join [sd_exportDir s, ex_Filename res]) \<and>
        xr_RequestedBy (ex_Record res) = TrimSpace actorID"
proof (cases "audit_ListEvents (sv_audit st) sc (trimmed_filter f)")
  case (Inl e)
  with assms(1) show ?thesis by (auto simp: ExportAuditCSV_def)
next
  case ev: (Inr events)
  let ?inp = "\<lparr>xi_ExportType = ''audit'', xi_ResourceType = ''audit_event'', xi_RequestedBy = TrimSpace actorID,
          xi_Format = ''csv'', xi_Filters = exportFilterSnapshot f, xi_Status = ''running''\<rparr>"
  obtain q audit where c: "CreateExportRecord (sv_audit st) sc ?inp (xe_createdAt env) (xe_newID env) (xe_exportNo env) = (q, audit)" by fastforce
  show ?thesis
  proof (cases q)
    case (Inl e)
    with export_refused c have "audit = sv_audit st" by blast
    with assms(1) ev c Inl show ?thesis by (auto simp: ExportAuditCSV_def)
  next
    case q: (Inr rec)
    note n = export_created [OF c [unfolded q]]
    have m: "mget (ad_exportsByID audit) (xe_newID env) = Some rec" "xr_ID rec = xe_newID env" "xr_Scope rec = sc" "valid_scope sc"
      using n by auto
    obtain content where k: "renderAuditCSV events = Inr content" by (simp add: renderAuditCSV_def)
    have t: "TrimSpace ''EXPORT_STORAGE_FAILED'' = ''EXPORT_STORAGE_FAILED''" by code_simp
    note failed = export_marked_failed [OF m assms(2), of "''EXPORT_STORAGE_FAILED''", unfolded t]
    obtain e w where d: "sd_MkdirAll s (sd_exportDir s) (sv_world st) = (e, w)" by fastforce
    show ?thesis
    proof (cases e)
      case (Some msg)
      with assms(1) ev c q k d have "r = Inl (AppError 500 ''INTERNAL_ERROR'')"
        "sv_audit st' = snd (MarkExportFailed audit sc (xe_newID env) ''EXPORT_STORAGE_FAILED'' msg (xe_markedAt env))"
        by (auto simp: ExportAuditCSV_def storage_failed_def m(2) Let_def)
      with failed show ?thesis by simp
    next
      case d0: None
      let ?fn = "''audit-'' @ ToLower (xr_ExportNo rec) @ ''.csv''"
      obtain e2 w2 where wr: "sd_WriteFile s (path_Join [sd_exportDir s, ?fn]) content w = (e2, w2)" by fastforce
      show ?thesis
      proof (cases e2)
        case (Some msg)
        with assms(1) ev c q k d d0 wr have "r = Inl (AppError 500 ''INTERNAL_ERROR'')"
          "sv_audit st' = snd (MarkExportFailed audit sc (xe_newID env) ''EXPORT_STORAGE_FAILED'' msg (xe_markedAt env))"
          by (auto simp: ExportAuditCSV_def storage_failed_def m(2) Let_def)
        with failed show ?thesis by simp
      next
        case None
        from export_marked_succeeded [OF m assms(2) export_path_nonblank, of "sd_exportDir s" "ToLower (xr_ExportNo rec)" "xe_markedAt env"]
        obtain r2 a2 where ok: "MarkExportSucceeded audit sc (xe_newID env) (path_Join [sd_exportDir s, ?fn]) (xe_markedAt env) = (Inr r2, a2)"
          and r2: "mget (ad_exportsByID a2) (xe_newID env) = Some r2" "xr_Scope r2 = sc" "xr_Status r2 = ''succeeded''"
            "xr_StorageRef r2 = TrimSpace (path_Join [sd_exportDir s, ?fn])" "xr_RequestedBy r2 = xr_RequestedBy rec" by blast
        from assms(1) ev c q k d d0 wr None ok m(2) have r: "r = Inr \<lparr>ex_Filename = ?fn, ex_Content = content, ex_Record = r2\<rparr>"
          and st': "ad_exportsByID (sv_audit st') = ad_exportsByID a2" by (auto simp: ExportAuditCSV_def recordAudit_keeps_exports Let_def)
        have "GetExportRecord (sv_audit st') sc (xe_newID env) = Inr r2"
          using r2(1,2) m(4) assms(2) st' by (simp add: GetExportRecord_def)
        with r r2 ev k d d0 wr None n show ?thesis by simp
      qed
    qed
  qed
qed

definition disk_write :: "string \<Rightarrow> string \<Rightarrow> (string \<times> string) list \<Rightarrow> string option \<times> (string \<times> string) list" where
  "disk_write path content disk = (if path = [] then (Some ''no path'', disk) else (None, (path, content) # disk))"

definition disk_side :: "(string \<times> string) list settings_command" where
  "disk_side = NewSettingsCommand stub_Deliver (\<lambda>_. None) (\<lambda>_ disk. (None, disk)) disk_write ''/tmp'' ''  ''"

definition export_side :: "(string \<times> string) list settings_side" where
  "export_side = \<lparr>sv_audit = NewAuditService, sv_settings = NewSettingsService, sv_world = []\<rparr>"

definition export_draws :: export_env where
  "export_draws = \<lparr>xe_createdAt = 3, xe_newID = ''x1'', xe_exportNo = ''EXP-A'', xe_markedAt = 4,
     xe_draws = \<lparr>aw_clock = \<lambda>k. 5 + int k, aw_eventID = ''e1'', aw_noteIDs = demo_ids\<rparr>\<rparr>"

definition any_event :: event_filter where
  "any_event = \<lparr>ef_ActorID = [], ef_Action = [], ef_ResourceType = [], ef_ResourceID = [], ef_StartTime = None, ef_EndTime = None\<rparr>"

theorem exports_are_tracked_witness:
  "\<exists>res st'. ExportAuditCSV disk_side export_side export_draws sample_env ''u1'' any_event = (Inr res, st') \<and>
     xr_Status (ex_Record res) = ''succeeded'' \<and> map fst (sv_world st') = [''/tmp/autocertx-exports/audit-exp-a.csv'']"
proof -
  have "case ExportAuditCSV disk_side export_side export_draws sample_env ''u1'' any_event of
      (Inr _, st') \<Rightarrow> map fst (sv_world st') = [''/tmp/autocertx-exports/audit-exp-a.csv''] | (Inl _, _) \<Rightarrow> False" by code_simp
  then obtain res st' where r: "ExportAuditCSV disk_side export_side export_draws sample_env ''u1'' any_event = (Inr res, st')"
    and w: "map fst (sv_world st') = [''/tmp/autocertx-exports/audit-exp-a.csv'']" by (auto split: prod.splits sum.splits)
  have "TrimSpace (xe_newID export_draws) \<noteq> []" by code_simp
  from exports_are_tracked [OF r this] have q: "xr_Status (ex_Record res) = ''succeeded''" by auto
  show ?thesis by (rule exI [of _ res], rule exI [of _ st'], intro conjI r q w)
qed

section \<open>Changes of settings\<close>

lemma recordAudit_events:
  assumes "valid_scope sc" "TrimSpace action \<noteq> []" "TrimSpace ty \<noteq> []"
  shows "if TrimSpace actorID = [] then recordAudit s draws sc actorID action ty i d st = st
    else \<exists>ev. ad_eventsByID (sv_audit (recordAudit s draws sc actorID action ty i d st)) =
        mput (aw_eventID draws) ev (ad_eventsByID (sv_audit st)) \<and> ae_Scope ev = sc \<and> ae_Action ev = TrimSpace action \<and>
        ae_ActorType ev = ''user'' \<and> ae_ActorID ev = TrimSpace actorID \<and> ae_ResourceID ev = TrimSpace i \<and> ae_Detail ev = d"
proof -
  let ?inp = "\<lparr>ei_ActorType = ''user'', ei_ActorID = TrimSpace actorID, ei_Action = action, ei_ResourceType = ty,
         ei_ResourceID = TrimSpace i, ei_RequestID = [], ei_TraceID = [], ei_Detail = d, ei_OccurredAt = zeroTime\<rparr>"
  have u: "TrimSpace ''user'' = ''user''" by code_simp
  obtain r a w where r: "RecordEvent (sd_deliver s) (sv_audit st) sc ?inp (aw_clock draws) (aw_eventID draws) (aw_noteIDs draws) (sv_world st) = (r, a, w)"
    using prod_cases3 by blast
  show ?thesis
  proof (cases "TrimSpace actorID = []")
    case True
    then obtain e where "buildEvent sc ?inp (aw_clock draws 0) (aw_clock draws 1) (aw_eventID draws) = Inl e"
      by (auto simp: buildEvent_def u required_def Let_def)
    then have "a = sv_audit st" "w = sv_world st" using r assms(1) by (auto simp: RecordEvent_def split: sum.splits prod.splits)
    with True r show ?thesis by (simp add: recordAudit_def)
  next
    case False
    then obtain ev where "buildEvent sc ?inp (aw_clock draws 0) (aw_clock draws 1) (aw_eventID draws) = Inr ev"
      using assms by (auto simp: buildEvent_def u required_def Let_def)
    then have ev: "r = Inr ev" using r assms(1) by (auto simp: RecordEvent_def split: sum.splits prod.splits)
    note k0 = record_stores [OF r [unfolded ev]]
    then have k: "ad_eventsByID a = mput (aw_eventID draws) ev (ad_eventsByID (sv_audit st))"
      "buildEvent sc ?inp (aw_clock draws 0) (aw_clock draws 1) (aw_eventID draws) = Inr ev" by simp_all
    from k(2) False assms have "ae_Scope ev = sc" "ae_Action ev = TrimSpace action" "ae_ActorType ev = ''user''" "ae_ActorID ev = TrimSpace actorID"
      "ae_ResourceID ev = TrimSpace i" "ae_Detail ev = d" by (auto simp: buildEvent_def u required_def Let_def)
    with False r k(1) show ?thesis by (auto simp: recordAudit_def)
  qed
qed

text \<open>A change of the settings is audited only when the command names somebody: an update of the security settings that names nobody is carried
  out and leaves no event, since the audit service refuses an event without an actor and the command drops the error.\<close>

theorem anonymous_settings_changes_leave_no_trace:
  assumes "settings_UpdateSecurity s st env sc actorID inp = (Inr item, st')"
  shows "settings_GetSecurity st' sc = Inr item \<and>
    (if TrimSpace actorID = [] then sv_audit st' = sv_audit st
     else \<exists>ev. ad_eventsByID (sv_audit st') = mput (aw_eventID (cv_draws env)) ev (ad_eventsByID (sv_audit st)) \<and> ae_Scope ev = sc \<and>
       ae_Action ev = ''settings.security.update'' \<and> ae_ActorID ev = TrimSpace actorID)"
proof -
  obtain se where u: "UpdateSecuritySettings (sv_settings st) sc inp (cv_now env) = (Inr item, se)"
    using assms by (auto simp: settings_UpdateSecurity_def split: sum.splits prod.splits)
  then have v: "valid_scope sc" and g: "GetSecuritySettings se sc = Inr item"
    by (auto simp: UpdateSecuritySettings_def read_security_def write_security_def GetSecuritySettings_def split: option.splits sum.splits)
  have t: "TrimSpace ''settings.security.update'' = ''settings.security.update''" "TrimSpace ''settings_profile'' \<noteq> []" by code_simp+
  let ?d = "[(''enforce_strong_password'', FormatBool (se_EnforceStrongPassword item)),
             (''password_rotation_days'', decimal (se_PasswordRotationDays item)), (''max_session_count'', decimal (se_MaxSessionCount item))]"
  have st': "st' = recordAudit s (cv_draws env) sc actorID ''settings.security.update'' ''settings_profile'' (EnvironmentID sc) ?d (st\<lparr>sv_settings := se\<rparr>)"
    using assms u by (simp add: settings_UpdateSecurity_def)
  have "sv_settings st' = se" unfolding st' by (simp add: recordAudit_def split: prod.splits)
  with g have "settings_GetSecurity st' sc = Inr item" by (simp add: settings_GetSecurity_def app_resource_def)
  moreover note recordAudit_events [OF v, of "''settings.security.update''" "''settings_profile''" actorID s "cv_draws env" "EnvironmentID sc" ?d "st\<lparr>sv_settings := se\<rparr>",
      folded st', unfolded t(1)]
  ultimately show ?thesis using t(2) by (auto split: if_splits)
qed

end
