(* ===== verification/Spec2Isabelle.thy ===== *)
theory Spec2Isabelle
  imports JobLife JobStoreProps WorkerProps CertRequestProps IssueWorkflowProps CertAssetProps DomainProps Issuer StageFailures StageOrder Resubmit TenancyProps IdentityProps AuthCommand AgentTransportProps NginxProps GovernanceProps DomainCommandProps SettingsCommandProps
begin

text \<open>
  AutoCertX is a control plane that issues TLS certificates over ACME and hands them to nodes. This
  library models the core of it in Go: the durable job scheduler, the domain services whose state the
  issuance depends on, the orchestrator that drives an issuance through the scheduler, who may do what (identity and
  tenancy), the governance services with their audit log, the dispatch of jobs to agents, and the deployment of
  a certificate by an agent.

  How the parts interact. A client submits a request; the orchestrator stores it, schedules a start job
  and answers. A worker claims due jobs under a lease, renews the lease while it executes, and completes
  the job under the lease. The executor is the orchestrator: the start job creates the issue workflow of the
  request and places its order at the CA; every continue job advances the workflow by one stage and
  schedules the job of the next one. The planner fills recurring slots, the reaper takes expired
  leases back. An agent registers, sends heartbeats and polls for jobs, which it gets under a lease of their own; a
  deployment job makes it back up, install, reload, verify, and roll back when a stage fails. Governance operations
  leave audit events, which notify the webhook endpoints that asked for them.

  Theories and sources (under \<^verbatim>\<open>src/internal\<close>).

  \<^item> \<open>Prelude\<close>, \<open>GoStrings\<close>, \<open>Rfc3339\<close>: association lists as Go maps, sorting, the functions of
    \<^verbatim>\<open>strings\<close> the code calls on byte strings, times as nanoseconds and their formats.
  \<^item> \<open>Uuid\<close>, \<open>Resource\<close>, \<open>Lifecycle\<close>: \<^verbatim>\<open>platform/uuidx/uuid.go\<close>, \<^verbatim>\<open>domain/resource\<close> (scopes, their keys, and the
    interface \<open>scoped_store\<close> of every store with a lookup in a scope), and the interface of a status
    machine whose moves follow a measured table.
  \<^item> \<open>Job\<close>, \<open>JobLife\<close>: \<^verbatim>\<open>domain/job\<close>, its methods, their invariant, who may call them and how long a job lives.
  \<^item> \<open>Backoff\<close>: the retry policy of \<^verbatim>\<open>application/command/jobs/service.go\<close> in its float64 arithmetic.
  \<^item> \<open>JobStore\<close>, \<open>JobStoreOps\<close>, \<open>JobStoreClaim\<close>, \<open>JobStoreInv\<close>, \<open>JobMachine\<close>, \<open>JobStoreProps\<close>:
    \<^verbatim>\<open>application/command/jobs/memory_repository.go\<close>, its invariant, the machine of its operations and the
    refinement of an abstract ledger of leases.
  \<^item> \<open>JobService\<close>, \<open>PlannerProps\<close>: the service over an abstract repository; plans and their slots.
  \<^item> \<open>Scheduler\<close>, \<open>WorkerProps\<close>: \<^verbatim>\<open>scheduler/planner.go\<close>, \<^verbatim>\<open>scheduler/reaper.go\<close>, \<^verbatim>\<open>scheduler/worker.go\<close>.
  \<^item> \<open>CertRequest\<close>, \<open>CertRequestProps\<close>: \<^verbatim>\<open>domain/certificaterequest/service.go\<close>.
  \<^item> \<open>IssueWorkflow\<close>, \<open>IssueWorkflowInv\<close>, \<open>IssueWorkflowProps\<close>: \<^verbatim>\<open>domain/issueworkflow/service.go\<close>.
  \<^item> \<open>CertAsset\<close>, \<open>CertAssetProps\<close>: \<^verbatim>\<open>domain/certificateasset/service.go\<close>.
  \<^item> \<open>Domains\<close>, \<open>DomainProps\<close>: \<^verbatim>\<open>domain/domains/service.go\<close>.
  \<^item> \<open>Issuer\<close>: \<^verbatim>\<open>domain/issuer/service.go\<close>.
  \<^item> \<open>Adapters\<close>: \<^verbatim>\<open>driver/acme/fake.go\<close>, \<^verbatim>\<open>driver/dns/fake.go\<close> and the HTTP-01 presenter: the interfaces as
    records of functions over the state of the other side, and the implementations in the repository.
  \<^item> \<open>Orchestrator\<close>, \<open>Stages\<close>: \<^verbatim>\<open>workflow/service.go\<close>, \<^verbatim>\<open>workflow/executor.go\<close>.
  \<^item> \<open>StageRules\<close>, \<open>StageFlow\<close>, \<open>StageEnds\<close>, \<open>StageProps\<close>, \<open>StageFailures\<close>, \<open>StageOrder\<close>, \<open>Resubmit\<close>: weakest
    preconditions of the orchestrator's steps, the interface \<open>keyed_repository\<close> it expects of a
    job repository, how every stage can end, and what follows for an issuance.
  \<^item> \<open>Tenancy\<close>, \<open>TenancyProps\<close>: \<^verbatim>\<open>domain/tenancy\<close>, the resolution of a user's bindings to a context.

  \<^item> \<open>Sha256\<close>, \<open>Encoding\<close>, \<open>Json\<close>, \<open>JsonRoundtrip\<close>: the parts of the standard library the credentials rest on: SHA-256
    and HMAC, decimal numbers, splitting, Base64, and the JSON of a struct of strings and integers with what is
    read back of it.
  \<^item> \<open>Password\<close>, \<open>Tokens\<close>, \<open>Identity\<close>, \<open>Sessions\<close>, \<open>IdentityProps\<close>: \<^verbatim>\<open>domain/identity\<close>: the key derivation and the stored text of a
    password, access and refresh tokens, the in-memory store and the service, the interface \<open>session_repository\<close> and
    the life of sessions.
  \<^item> \<open>AuthCommand\<close>: \<^verbatim>\<open>application/command/auth/service.go\<close> and the accounts of \<^verbatim>\<open>app/controlplane/wiring/auth.go\<close>.
  \<^item> \<open>AgentNode\<close>, \<open>AgentNodeProps\<close>: \<^verbatim>\<open>domain/agentnode/service.go\<close>; \<open>AgentTransport\<close>, \<open>AgentTransportProps\<close>:
    \<^verbatim>\<open>driver/agenttransport/service.go\<close>: registration, heartbeats, and the queue of jobs of every node.
  \<^item> \<open>NginxDeploy\<close>, \<open>NginxProps\<close>: \<^verbatim>\<open>agent/deploy/nginx\<close> and \<^verbatim>\<open>agent/verify/nginx/service.go\<close>, with the interface \<open>agent_host\<close> of the
    files of a host.
  \<^item> \<open>AuditLog\<close>, \<open>AuditProps\<close>: \<^verbatim>\<open>domain/audit/service.go\<close>: events, evidence, webhook endpoints, notifications, exports.
  \<^item> \<open>NamedStore\<close>, \<open>Governance\<close>, \<open>GovernanceProps\<close>: the interface \<open>named_store\<close> of a store whose records have one name each;
    \<^verbatim>\<open>domain/deploymenttarget/service.go\<close>, \<^verbatim>\<open>domain/dnscredentials/service.go\<close>, \<^verbatim>\<open>domain/settings/service.go\<close>.
  \<^item> \<open>DomainCommand\<close>, \<open>DomainCommandProps\<close>: \<^verbatim>\<open>application/command/domains/service.go\<close> over the domain and the credential
    stores, with the recorders of its events and the adapter \<^verbatim>\<open>app/controlplane/wiring/audit_adapter.go\<close>.
  \<^item> \<open>SettingsCommand\<close>, \<open>SettingsCommandProps\<close>: \<^verbatim>\<open>application/command/settings/service.go\<close>: webhooks, settings and the export of
    the audit log, with the CSV and JSON it writes and a CSV reader after RFC 4180.

  State and errors. A service is the record of its maps; an operation takes the store and returns its result and the
  store it leaves. Go errors are a sum: \<open>Err\<close> with the sentinel that \<^verbatim>\<open>errors.Is\<close> finds and a
  text. The texts keep the fixed words of a message and leave out the values formatted into it; nothing in the code
  decides on them, but for the text of an adapter's error, which is kept in full. A mutex makes every
  operation of a store atomic, so an operation is one step.

  What is an argument. Every reading of a clock, every generated identifier and the random bytes behind it
  are arguments of the operation. Identifiers are fresh where a theorem says so. The other sides
  of the adapters, \<^verbatim>\<open>encoding/json\<close> on the two job payloads, the address and URL parsers of the CA accounts, and
  the conversion of out-of-range floats, which Go leaves open, are parameters. So are the PEM and X.509 decoders, the TLS
  connection, the files and commands of an agent's host, the directories and files exports are written to, the deliverer of webhooks, the text form of a job's payload, and the
  callbacks of the agent transport.

  Interleaving. The store machines take their operations in any order. An operation of the identity service makes several
  store calls; \<open>Refresh\<close> is split where another request may run between them. While a worker executes a job, any
  sequence of operations of others may happen before each of its calls (\<open>ex_env\<close>). One run of a workflow job is
  taken without another actor between its own calls. The delivery of a notification and the partial update of the security
  settings are split where they let go of their lock.

  Lemma groups. The job life and store theories give the invariants and the exact result of every operation;
  the worker theories follow a claim from its grant to its completion; the request, workflow, asset and
  domain theories give the invariants of the stores under all their operations, and the lives of workflows and
  challenges under any calls; the stage theories show
  that a continue job that is done with leaves no workflow behind, that a retry resumes the stage, how adapter
  failures end, that submitting twice is submitting once, and two runs that cannot be resumed; the
  tenancy theories say exactly who may enter a scope and where permissions come from; the identity theories show
  that passwords and tokens are read back as they were written, that a key is that of RFC 8018, how refresh tokens rotate,
  that a logout lasts, and what a racing refresh and a refresh for the wrong scope do; the agent theories that a leased job
  is not handed out again, that a completion is final and that a disabled node gets no work; the NGINX theories how a
  deployment can end, that one that succeeds did every stage, and which files the agent asks for; the audit theories that events
  stay, whom they notify and that a notification is delivered three times at most; the governance theories that names are unique and settings stay in bounds;
  the command theories that governance leaves its event, that a domain names a credential of its own environment only, that
  an export is accounted for and that its CSV holds what the events hold.

  Bounds. Loops over lists recurse on the list. The backoff loop runs as often as the attempt count says
  and needs no fuel. The JSON reader has twice the length of its text and two as fuel, one unit a call, and every second call
  reads a byte; \<open>fuel_is_enough\<close> shows that more of it changes nothing. Durations and instants are unbounded integers; the theorems on the
  backoff bound them by the policy.

  Not modelled: the field that the details of a validation error name; the Postgres job store (\<^verbatim>\<open>repository/postgres\<close>), whose behaviour is that of its SQL; HTTP
  decoding and encoding on both sides, wiring but for the accounts, logging and configuration; the agent's bootstrap
  client, which is HTTP calls; the other commands and the query layers above the domain services, which translate
  errors and copy fields.
\<close>

end
